(* ===== verification/Prelude.thy ===== *)
theory Prelude
  imports Main "HOL-Library.Sublist"
begin

text \<open>
  Shared vocabulary of the development: results of fallible Rust functions, the SQL
  statements the repositories of the \<^verbatim>\<open>db\<close> crate issue (as functions on lists of rows),
  and the two interfaces most components instantiate, the textual codec of a status
  enum and the invariant of a transition system.
\<close>

section \<open>Results\<close>

text \<open>
  \<^verbatim>\<open>Result<T, E>\<close> is a sum with the error on the left. Identifiers (\<^verbatim>\<open>RunId\<close>,
  \<^verbatim>\<open>SideEffectId\<close>, ...) are their textual form. A \<^verbatim>\<open>DateTime<Utc>\<close> is the number of
  seconds of its instant; the repositories store it as RFC 3339 text in UTC, whose order
  is the order of the instants.
\<close>

type_synonym ('e, 'a) result = "'e + 'a"
type_synonym ident = string
type_synonym datetime = int

definition bind_res :: "('e, 'a) result \<Rightarrow> ('a \<Rightarrow> ('e, 'b) result) \<Rightarrow> ('e, 'b) result" where
  "bind_res m f = (case m of Inl e \<Rightarrow> Inl e | Inr a \<Rightarrow> f a)"

lemma bind_res_simps [simp]:
  "bind_res (Inl e) f = Inl e"
  "bind_res (Inr a) f = f a"
  by (simp_all add: bind_res_def)

lemma bind_res_eq_Inr [simp]:
  "bind_res m f = Inr b \<longleftrightarrow> (\<exists>a. m = Inr a \<and> f a = Inr b)"
  by (cases m) auto

definition is_ok :: "('e, 'a) result \<Rightarrow> bool" where
  "is_ok r = (case r of Inl _ \<Rightarrow> False | Inr _ \<Rightarrow> True)"

lemma is_ok_simps [simp]: "\<not> is_ok (Inl e)" "is_ok (Inr a)"
  by (simp_all add: is_ok_def)

section \<open>SQL statements on lists of rows\<close>

text \<open>
  A table is the list of its rows in rowid order. \<open>sql_update\<close> is
  \<^verbatim>\<open>UPDATE t SET f WHERE P\<close>, \<open>rows_affected\<close> the count SQLite reports for it, and
  \<open>fetch_optional\<close> the first row of a query.
\<close>

definition sql_update :: "('r \<Rightarrow> bool) \<Rightarrow> ('r \<Rightarrow> 'r) \<Rightarrow> 'r list \<Rightarrow> 'r list" where
  "sql_update P f t = map (\<lambda>r. if P r then f r else r) t"

definition rows_affected :: "('r \<Rightarrow> bool) \<Rightarrow> 'r list \<Rightarrow> nat" where
  "rows_affected P t = length (filter P t)"

definition fetch_optional :: "'r list \<Rightarrow> 'r option" where
  "fetch_optional rs = (case rs of [] \<Rightarrow> None | r # _ \<Rightarrow> Some r)"

text \<open>\<^verbatim>\<open>ORDER BY created_at DESC LIMIT 1\<close>; of equal times the row inserted first.\<close>

fun newest :: "('r \<Rightarrow> datetime) \<Rightarrow> 'r list \<Rightarrow> 'r option" where
  "newest k [] = None"
| "newest k (r # rs) =
     (case newest k rs of
        None \<Rightarrow> Some r
      | Some q \<Rightarrow> if k r < k q then Some q else Some r)"

named_theorems sql_simps \<open>rewriting of the SQL statements\<close>

lemma set_sql_update [sql_simps]:
  "set (sql_update P f t) = f ` {r \<in> set t. P r} \<union> {r \<in> set t. \<not> P r}"
  by (auto simp: sql_update_def)

lemma sql_update_id [simp]: "rows_affected P t = 0 \<Longrightarrow> sql_update P f t = t"
  by (auto simp: rows_affected_def sql_update_def filter_empty_conv intro: map_idI)

lemma rows_affected_eq_0 [sql_simps]: "rows_affected P t = 0 \<longleftrightarrow> (\<forall>r\<in>set t. \<not> P r)"
  by (auto simp: rows_affected_def filter_empty_conv)

lemma rows_affected_pos [sql_simps]: "0 < rows_affected P t \<longleftrightarrow> (\<exists>r\<in>set t. P r)"
  using rows_affected_eq_0 [of P t] by auto

lemma map_sql_update:
  assumes "\<And>r. k (f r) = k r"
  shows "map k (sql_update P f t) = map k t"
  by (auto simp: sql_update_def assms)

lemma filter_sql_update_other:
  assumes "\<And>r. P r \<Longrightarrow> \<not> Q r \<and> \<not> Q (f r)"
  shows "filter Q (sql_update P f t) = filter Q t"
  using assms by (induction t) (auto simp: sql_update_def)

lemma sql_update_snoc: "sql_update P f (t @ [r]) = sql_update P f t @ [if P r then f r else r]"
  by (simp add: sql_update_def)

lemma sql_update_all:
  assumes "r \<in> set (sql_update P f t)" "\<And>x. P x \<Longrightarrow> Q (f x)" "\<And>x. \<not> P x \<Longrightarrow> Q x"
  shows "Q r"
  using assms by (auto simp: sql_update_def split: if_splits)

lemma length_sql_update [simp]: "length (sql_update P f t) = length t"
  by (simp add: sql_update_def)

lemma fetch_optional_Some [sql_simps]:
  "fetch_optional rs = Some r \<Longrightarrow> r \<in> set rs"
  by (auto simp: fetch_optional_def split: list.splits)

lemma fetch_optional_None [simp]: "fetch_optional rs = None \<longleftrightarrow> rs = []"
  by (auto simp: fetch_optional_def split: list.splits)

lemma newest_snoc:
  "\<forall>x \<in> set xs. k x < k y \<Longrightarrow> newest k (xs @ [y]) = Some y"
  by (induction xs) auto

text \<open>A key column: at most one row satisfies a predicate that fixes the key.\<close>

lemma key_unique:
  assumes "distinct (map k t)" "r \<in> set t" "r' \<in> set t" "k r = k r'"
  shows "r = r'"
  using assms by (auto simp: distinct_map inj_on_def)

lemma key_filter:
  assumes "distinct (map k t)" "r \<in> set t"
  shows "filter (\<lambda>x. k x = k r) t = [r]"
  using assms
proof (induction t)
  case (Cons x t)
  have none: "filter (\<lambda>y. k y = k x) t = []" using Cons.prems(1) by (auto simp: filter_empty_conv image_iff dest: sym)
  have "k x \<noteq> k r" if "r \<in> set t" using Cons.prems(1) that by (auto simp: image_iff)
  then show ?case using Cons none by auto
qed simp

lemma rows_affected_key:
  assumes "distinct (map k t)" and "\<And>r. P r \<Longrightarrow> k r = i"
  shows "rows_affected P t \<le> 1"
proof -
  have "x = y" if "x \<in> set (filter P t)" "y \<in> set (filter P t)" for x y
    using that key_unique [OF assms(1), of x y] assms(2) [of x] assms(2) [of y] by auto
  then have "card (set (filter P t)) \<le> Suc 0"
    by (simp add: card_le_Suc0_iff_eq)
  moreover have "distinct (filter P t)"
    using assms(1) by (auto simp: distinct_map)
  ultimately show ?thesis
    by (metis distinct_card rows_affected_def One_nat_def)
qed

section \<open>The codec interface\<close>

text \<open>
  Every status enum of the domain crate implements \<^verbatim>\<open>Display\<close> and \<^verbatim>\<open>FromStr\<close>, and the
  repositories write the one and read the other back: a codec promises that reading what
  was written gives the value back and that only written texts are read.
\<close>

locale codec =
  fixes show_of :: "'a \<Rightarrow> string"
    and parse_of :: "string \<Rightarrow> (string, 'a) result"
  assumes parse_show: "parse_of (show_of x) = Inr x"
    and show_parse: "parse_of s = Inr x \<Longrightarrow> show_of x = s"
begin

lemma show_inj: "show_of x = show_of y \<Longrightarrow> x = y"
  by (metis Inr_inject parse_show)

lemma parse_iff: "parse_of s = Inr x \<longleftrightarrow> s = show_of x"
  by (metis parse_show show_parse)

lemma parse_rejects: "(\<exists>e. parse_of s = Inl e) \<longleftrightarrow> s \<notin> range show_of"
proof
  assume "\<exists>e. parse_of s = Inl e"
  then show "s \<notin> range show_of" using parse_show by auto
next
  assume "s \<notin> range show_of"
  then show "\<exists>e. parse_of s = Inl e"
    by (cases "parse_of s") (auto dest: show_parse)
qed

end

section \<open>Transition systems\<close>

text \<open>
  A component whose steps interleave is a set of initial states and a step relation; a
  contract on it is an invariant the steps keep. Every state on a run satisfies it.
\<close>

inductive reachable_from :: "('s \<Rightarrow> bool) \<Rightarrow> ('s \<Rightarrow> 's \<Rightarrow> bool) \<Rightarrow> 's \<Rightarrow> bool"
  for init :: "'s \<Rightarrow> bool" and step :: "'s \<Rightarrow> 's \<Rightarrow> bool" where
  start: "init s \<Longrightarrow> reachable_from init step s"
| next_state: "reachable_from init step s \<Longrightarrow> step s t \<Longrightarrow> reachable_from init step t"

locale guarded_system =
  fixes init :: "'s \<Rightarrow> bool"
    and step :: "'s \<Rightarrow> 's \<Rightarrow> bool"
    and inv :: "'s \<Rightarrow> bool"
  assumes init_inv: "init s \<Longrightarrow> inv s"
    and step_inv: "inv s \<Longrightarrow> step s t \<Longrightarrow> inv t"
begin

lemma reachable_inv: "reachable_from init step s \<Longrightarrow> inv s"
  by (induction rule: reachable_from.induct) (auto intro: init_inv step_inv)

lemma run_inv: "inv s \<Longrightarrow> step\<^sup>*\<^sup>* s t \<Longrightarrow> inv t"
  by (rotate_tac, induction rule: rtranclp_induct) (auto intro: step_inv)

text \<open>A relation the steps of good states keep is kept along every run of good states.\<close>

lemma run_relation:
  assumes "inv s" and "step\<^sup>*\<^sup>* s t"
    and "\<And>u. R u u"
    and "\<And>u v w. R u v \<Longrightarrow> R v w \<Longrightarrow> R u w"
    and "\<And>u v. inv u \<Longrightarrow> step u v \<Longrightarrow> R u v"
  shows "R s t"
  using assms(2,1)
proof (induction rule: rtranclp_induct)
  case base
  show ?case by (rule assms(3))
next
  case (step u v)
  then have "inv u" using run_inv by blast
  with step show ?case using assms(4,5) by blast
qed

end

section \<open>Tables that move\<close>

text \<open>
  The rows of a table move in place and new rows come last; how a row may move is an order the
  component gives, and what every statement keeps holds along every sequence of statements.
\<close>

definition table_moves :: "('r \<Rightarrow> 'r \<Rightarrow> bool) \<Rightarrow> 'r list \<Rightarrow> 'r list \<Rightarrow> bool" where
  "table_moves R t t' \<longleftrightarrow> (\<exists>m n. t' = m @ n \<and> list_all2 R t m)"

locale row_order =
  fixes moves :: "'r \<Rightarrow> 'r \<Rightarrow> bool"
  assumes moves_refl: "moves r r"
    and moves_trans: "moves r s \<Longrightarrow> moves s t \<Longrightarrow> moves r t"
begin

lemma table_refl: "table_moves moves t t"
  unfolding table_moves_def by (rule exI[of _ t], rule exI[of _ "[]"]) (simp add: list_all2_refl moves_refl)

lemma table_trans:
  assumes "table_moves moves t t'" "table_moves moves t' t''"
  shows "table_moves moves t t''"
proof -
  obtain m n p q where t: "t' = m @ n" "list_all2 moves t m" "t'' = p @ q" "list_all2 moves (m @ n) p"
    using assms by (auto simp: table_moves_def)
  then obtain p1 p2 where p: "p = p1 @ p2" "list_all2 moves m p1" by (auto simp: list_all2_append1)
  have "list_all2 moves t p1"
    using list_all2_trans[of moves moves moves] moves_trans t(2) p(2) by blast
  then show ?thesis unfolding table_moves_def using t(3) p(1) by auto
qed

lemma table_update:
  assumes "\<And>r. r \<in> set t \<Longrightarrow> P r \<Longrightarrow> moves r (f r)"
  shows "table_moves moves t (sql_update P f t)"
proof -
  have "list_all2 moves t (sql_update P f t)"
    unfolding sql_update_def list_all2_conv_all_nth using assms by (auto simp: moves_refl)
  then show ?thesis unfolding table_moves_def by (metis append_Nil2)
qed

lemma table_snoc: "table_moves moves t (t @ [r])"
  unfolding table_moves_def by (rule exI[of _ t], rule exI[of _ "[r]"]) (simp add: list_all2_refl moves_refl)

end

lemma table_moves_mem:
  assumes "table_moves R t t'" "r \<in> set t"
  obtains r' where "r' \<in> set t'" "R r r'"
proof -
  obtain m n where "t' = m @ n" "list_all2 R t m" using assms(1) by (auto simp: table_moves_def)
  moreover obtain i where "i < length t" "r = t ! i" using assms(2) by (auto simp: in_set_conv_nth)
  ultimately have "m ! i \<in> set t'" "R r (m ! i)" by (auto simp: list_all2_conv_all_nth)
  then show ?thesis by (rule that)
qed

section \<open>Rust text formatting\<close>

text \<open>Decimal \<^verbatim>\<open>Display\<close> of an unsigned integer, and \<^verbatim>\<open>:\<close>-separated fields.\<close>

definition digit_char :: "nat \<Rightarrow> char" where
  "digit_char d = ''0123456789'' ! d"

fun show_nat :: "nat \<Rightarrow> string" where
  "show_nat n = (if n < 10 then [digit_char n] else show_nat (n div 10) @ [digit_char (n mod 10)])"

declare show_nat.simps [simp del]

lemma digit_char_inj: "d < 10 \<Longrightarrow> e < 10 \<Longrightarrow> digit_char d = digit_char e \<Longrightarrow> d = e"
  by (auto simp: digit_char_def less_Suc_eq numeral_eq_Suc)

lemma digit_char_not_colon: "d < 10 \<Longrightarrow> digit_char d \<noteq> CHR '':''"
  by (auto simp: digit_char_def less_Suc_eq numeral_eq_Suc)

lemma show_nat_no_colon: "CHR '':'' \<notin> set (show_nat n)"
proof (induction n rule: show_nat.induct)
  case (1 n)
  have "n mod 10 < 10" by simp
  with 1 show ?case
    using digit_char_not_colon [of n] digit_char_not_colon [of "n mod 10"]
    by (auto simp: show_nat.simps [of n] dest: sym)
qed

lemma show_nat_nonempty: "show_nat n \<noteq> []"
  by (subst show_nat.simps) simp

lemma show_nat_inj: "show_nat m = show_nat n \<Longrightarrow> m = n"
proof (induction m arbitrary: n rule: show_nat.induct)
  case (1 m)
  show ?case
  proof (cases "m < 10 \<or> n < 10")
    case True
    then show ?thesis
      using "1.prems" show_nat_nonempty [of "m div 10"] show_nat_nonempty [of "n div 10"]
      by (auto simp: show_nat.simps [of m] show_nat.simps [of n]
          dest: digit_char_inj split: if_splits)
  next
    case False
    with "1.prems" have eq: "show_nat (m div 10) @ [digit_char (m mod 10)]
        = show_nat (n div 10) @ [digit_char (n mod 10)]"
      by (simp add: show_nat.simps [of m] show_nat.simps [of n])
    then have "show_nat (m div 10) = show_nat (n div 10)" and d: "m mod 10 = n mod 10"
      using digit_char_inj [of "m mod 10" "n mod 10"] by auto
    with "1.IH" False have "m div 10 = n div 10" by auto
    with d show ?thesis by (metis div_mult_mod_eq)
  qed
qed

lemma field_split:
  assumes "c \<notin> set a" "c \<notin> set b" "a @ c # x = b @ c # y"
  shows "a = b \<and> x = y"
  using assms
proof (induction a arbitrary: b)
  case Nil
  then show ?case by (cases b) auto
next
  case (Cons h a)
  then show ?case by (cases b) auto
qed

lemma last_field_split:
  assumes "c \<notin> set a" "c \<notin> set b" "x @ c # a = y @ c # b"
  shows "x = y \<and> a = b"
proof -
  have "rev a @ c # rev x = rev b @ c # rev y"
    using arg_cong [OF assms(3), of rev] by simp
  with assms(1,2) have "rev a = rev b \<and> rev x = rev y"
    by (intro field_split) auto
  then show ?thesis by simp
qed

text \<open>
  \<^verbatim>\<open>str::trim().is_empty()\<close> on UTF-8 bytes: the text is a sequence of encoded white-space
  characters (one, two or three bytes each).
\<close>

definition byte :: "char \<Rightarrow> nat" where
  "byte c = of_char c"

definition ws1 :: "char \<Rightarrow> bool" where
  "ws1 c \<longleftrightarrow> byte c \<in> {9, 10, 11, 12, 13, 32}"

definition ws2 :: "char \<Rightarrow> char \<Rightarrow> bool" where
  "ws2 c d \<longleftrightarrow> byte c = 0xC2 \<and> byte d \<in> {0x85, 0xA0}"

definition ws3 :: "char \<Rightarrow> char \<Rightarrow> char \<Rightarrow> bool" where
  "ws3 c d e \<longleftrightarrow>
     byte c = 0xE1 \<and> byte d = 0x9A \<and> byte e = 0x80
     \<or> byte c = 0xE2 \<and> byte d = 0x80 \<and> (0x80 \<le> byte e \<and> byte e \<le> 0x8A \<or> byte e \<in> {0xA8, 0xA9, 0xAF})
     \<or> byte c = 0xE2 \<and> byte d = 0x81 \<and> byte e = 0x9F
     \<or> byte c = 0xE3 \<and> byte d = 0x80 \<and> byte e = 0x80"

fun is_blank :: "string \<Rightarrow> bool" where
  "is_blank [] = True"
| "is_blank [c] = ws1 c"
| "is_blank [c, d] = (if ws1 c then is_blank [d] else ws2 c d)"
| "is_blank (c # d # e # s) =
     (if ws1 c then is_blank (d # e # s)
      else if ws2 c d then is_blank (e # s)
      else ws3 c d e \<and> is_blank s)"

text \<open>\<^verbatim>\<open>str::split\<close> at a character, and \<^verbatim>\<open>char::is_ascii_hexdigit\<close>.\<close>

fun split_at :: "char \<Rightarrow> string \<Rightarrow> string list" where
  "split_at c [] = [[]]"
| "split_at c (x # s) =
     (if x = c then [] # split_at c s
      else (case split_at c s of [] \<Rightarrow> [[x]] | p # ps \<Rightarrow> (x # p) # ps))"

definition is_ascii_hexdigit :: "char \<Rightarrow> bool" where
  "is_ascii_hexdigit c \<longleftrightarrow>
     (48 \<le> byte c \<and> byte c \<le> 57) \<or> (65 \<le> byte c \<and> byte c \<le> 70) \<or> (97 \<le> byte c \<and> byte c \<le> 102)"

end
