(* ===== verification/Side_Effect_Domain.thy ===== *)
theory Side_Effect_Domain
  imports Prelude
begin

text \<open>
  The vocabulary of the durable side-effect ledger,
  \<^verbatim>\<open>control-plane/crates/domain/src/side_effect.rs\<close>: the kinds of external effects with
  their lease and deadline budgets, the status machine of a ledger row, the rows of the
  three ledger tables, the idempotency key and the reconciliation block reasons.
\<close>

section \<open>Kinds of effects\<close>

datatype effect_kind =
  GitCommit | GitPush | BuildArchive | ConnectUpload | TagCreate | ArtifactPublish

fun is_wired :: "effect_kind \<Rightarrow> bool" where
  "is_wired GitCommit = True"
| "is_wired GitPush = True"
| "is_wired BuildArchive = True"
| "is_wired ConnectUpload = True"
| "is_wired TagCreate = False"
| "is_wired ArtifactPublish = False"

fun lease_ttl_seconds :: "effect_kind \<Rightarrow> int" where
  "lease_ttl_seconds GitCommit = 30"
| "lease_ttl_seconds TagCreate = 30"
| "lease_ttl_seconds GitPush = 30"
| "lease_ttl_seconds ArtifactPublish = 30"
| "lease_ttl_seconds BuildArchive = 60"
| "lease_ttl_seconds ConnectUpload = 60"

fun deadline_seconds :: "effect_kind \<Rightarrow> int" where
  "deadline_seconds GitCommit = 60"
| "deadline_seconds GitPush = 120"
| "deadline_seconds BuildArchive = 7200"
| "deadline_seconds ConnectUpload = 3600"
| "deadline_seconds TagCreate = 60"
| "deadline_seconds ArtifactPublish = 120"

fun show_effect_kind :: "effect_kind \<Rightarrow> string" where
  "show_effect_kind GitCommit = ''git_commit''"
| "show_effect_kind GitPush = ''git_push''"
| "show_effect_kind BuildArchive = ''build_archive''"
| "show_effect_kind ConnectUpload = ''connect_upload''"
| "show_effect_kind TagCreate = ''tag_create''"
| "show_effect_kind ArtifactPublish = ''artifact_publish''"

definition parse_effect_kind :: "string \<Rightarrow> (string, effect_kind) result" where
  "parse_effect_kind s =
     (if s = ''git_commit'' then Inr GitCommit
      else if s = ''git_push'' then Inr GitPush
      else if s = ''build_archive'' then Inr BuildArchive
      else if s = ''connect_upload'' then Inr ConnectUpload
      else if s = ''tag_create'' then Inr TagCreate
      else if s = ''artifact_publish'' then Inr ArtifactPublish
      else Inl (''unknown EffectKind: '' @ s))"

section \<open>The status machine of a ledger row\<close>

datatype side_effect_status =
  Prepared | Executing | ExternallyObserved | NeedsReconciliation
  | Settled | Reconciled | Conflict | Unrecoverable

definition is_terminal :: "side_effect_status \<Rightarrow> bool" where
  "is_terminal s = (s \<in> {Settled, Reconciled, Conflict, Unrecoverable})"

definition is_unresolved :: "side_effect_status \<Rightarrow> bool" where
  "is_unresolved s =
     (s \<in> {Prepared, Executing, ExternallyObserved, NeedsReconciliation, Conflict, Unrecoverable})"

fun can_transition_to :: "side_effect_status \<Rightarrow> side_effect_status \<Rightarrow> bool" where
  "can_transition_to Prepared Executing = True"
| "can_transition_to Prepared NeedsReconciliation = True"
| "can_transition_to Executing ExternallyObserved = True"
| "can_transition_to Executing NeedsReconciliation = True"
| "can_transition_to Executing Settled = True"
| "can_transition_to Executing Conflict = True"
| "can_transition_to Executing Unrecoverable = True"
| "can_transition_to ExternallyObserved Settled = True"
| "can_transition_to ExternallyObserved NeedsReconciliation = True"
| "can_transition_to NeedsReconciliation Reconciled = True"
| "can_transition_to NeedsReconciliation Conflict = True"
| "can_transition_to NeedsReconciliation Unrecoverable = True"
| "can_transition_to NeedsReconciliation Settled = True"
| "can_transition_to Conflict Reconciled = True"
| "can_transition_to Conflict Unrecoverable = True"
| "can_transition_to _ _ = False"

fun show_side_effect_status :: "side_effect_status \<Rightarrow> string" where
  "show_side_effect_status Prepared = ''prepared''"
| "show_side_effect_status Executing = ''executing''"
| "show_side_effect_status ExternallyObserved = ''externally_observed''"
| "show_side_effect_status NeedsReconciliation = ''needs_reconciliation''"
| "show_side_effect_status Settled = ''settled''"
| "show_side_effect_status Reconciled = ''reconciled''"
| "show_side_effect_status Conflict = ''conflict''"
| "show_side_effect_status Unrecoverable = ''unrecoverable''"

definition parse_side_effect_status :: "string \<Rightarrow> (string, side_effect_status) result" where
  "parse_side_effect_status s =
     (if s = ''prepared'' then Inr Prepared
      else if s = ''executing'' then Inr Executing
      else if s = ''externally_observed'' then Inr ExternallyObserved
      else if s = ''needs_reconciliation'' then Inr NeedsReconciliation
      else if s = ''settled'' then Inr Settled
      else if s = ''reconciled'' then Inr Reconciled
      else if s = ''conflict'' then Inr Conflict
      else if s = ''unrecoverable'' then Inr Unrecoverable
      else Inl (''unknown SideEffectStatus: '' @ s))"

section \<open>The rows of the ledger\<close>

record side_effect =
  se_id :: ident
  se_run_id :: ident
  se_stage_execution_id :: ident
  se_agent_execution_id :: "ident option"
  se_effect_kind :: effect_kind
  se_target_key :: string
  se_idempotency_key :: string
  se_idempotency_key_version :: int
  se_request_fingerprint :: string
  se_request_fingerprint_version :: int
  se_status :: side_effect_status
  se_owner_instance_id :: "string option"
  se_lease_acquired_at :: "datetime option"
  se_lease_renewed_at :: "datetime option"
  se_lease_expires_at :: "datetime option"
  se_deadline_at :: "datetime option"
  se_external_write_started_at :: "datetime option"
  se_external_write_attempted :: bool
  se_attempt_budget_remaining :: int
  se_expected_evidence_json :: "string option"
  se_observed_evidence_summary_json :: "string option"
  se_evidence_root :: "string option"
  se_last_error_kind :: "string option"
  se_last_error :: "string option"
  se_settlement_txn_id :: "string option"
  se_created_at :: datetime
  se_updated_at :: datetime

record side_effect_attempt =
  at_id :: ident
  at_side_effect_id :: ident
  at_attempt_number :: int
  at_attempt_kind :: string
  at_owner_instance_id :: string
  at_started_at :: datetime
  at_completed_at :: "datetime option"
  at_deadline_at :: "datetime option"
  at_exit_status :: "string option"
  at_stdout_path :: "string option"
  at_stderr_path :: "string option"
  at_trace_path :: "string option"
  at_observed_evidence_summary_json :: "string option"
  at_error_kind :: "string option"
  at_error :: "string option"

record side_effect_settlement =
  st_id :: ident
  st_side_effect_id :: ident
  st_settlement_status :: side_effect_status
  st_settlement_source :: string
  st_receipt_artifact_id :: "string option"
  st_reconciliation_report_artifact_id :: "string option"
  st_applied_at :: datetime
  st_applied_by :: "string option"
  st_disposition_id :: "string option"
  st_settlement_attempt_id :: "ident option"
  st_decision_json :: "string option"
  st_decision_json_hash :: "string option"

record prepare_effect_intent =
  in_run_id :: ident
  in_stage_execution_id :: ident
  in_agent_execution_id :: "ident option"
  in_effect_kind :: effect_kind
  in_target_key :: string
  in_idempotency_key :: string
  in_idempotency_key_version :: int
  in_request_fingerprint :: string
  in_request_fingerprint_version :: int
  in_expected_evidence_json :: "string option"
  in_evidence_root :: "string option"
  in_deadline_at :: "datetime option"

section \<open>Idempotency keys\<close>

text \<open>
  \<^verbatim>\<open>sha2::Sha256\<close> with its hexadecimal rendering is the parameter \<open>sha256_hex\<close>.
\<close>

definition idempotency_key_input ::
  "effect_kind \<Rightarrow> ident \<Rightarrow> ident \<Rightarrow> ident option \<Rightarrow> string \<Rightarrow> nat \<Rightarrow> string" where
  "idempotency_key_input kind run stage agent target version =
     ''p078:v1:'' @ show_effect_kind kind @ '':'' @ run @ '':'' @ stage @ '':''
       @ (case agent of None \<Rightarrow> [] | Some a \<Rightarrow> a) @ '':'' @ target @ '':'' @ show_nat version"

definition derive_idempotency_key ::
  "(string \<Rightarrow> string) \<Rightarrow> effect_kind \<Rightarrow> ident \<Rightarrow> ident \<Rightarrow> ident option \<Rightarrow> string \<Rightarrow> nat \<Rightarrow> string" where
  "derive_idempotency_key sha256_hex kind run stage agent target version =
     ''p078:v'' @ show_nat version @ '':''
       @ sha256_hex (idempotency_key_input kind run stage agent target version)"

section \<open>Reconciliation block\<close>

datatype reconciliation_block_reason =
  UnresolvedPrepared | UnresolvedExecuting | ExternallyObservedPending
  | NeedsReconciliationReason | ConflictReason | UnrecoverableReason | LedgerReadbackError

record reconciliation_envelope =
  env_schema_version :: string
  env_error :: string
  env_run_id :: ident
  env_stage_execution_id :: ident
  env_agent_execution_id :: "ident option"
  env_effect_ids :: "ident list"
  env_reason :: reconciliation_block_reason
  env_retry_forbidden :: bool
  env_recommended_mcp_tool :: string
  env_projection_updated_at :: "string option"

definition new_reconciliation_envelope ::
  "ident \<Rightarrow> ident \<Rightarrow> ident option \<Rightarrow> ident list \<Rightarrow> reconciliation_block_reason
     \<Rightarrow> reconciliation_envelope" where
  "new_reconciliation_envelope run stage agent ids reason =
     \<lparr>env_schema_version = ''requires_effect_reconciliation_v1'',
      env_error = ''requires_effect_reconciliation'',
      env_run_id = run, env_stage_execution_id = stage, env_agent_execution_id = agent,
      env_effect_ids = ids, env_reason = reason, env_retry_forbidden = True,
      env_recommended_mcp_tool = ''effects.inspect or effects.reconcile'',
      env_projection_updated_at = None\<rparr>"

section \<open>The codecs of the ledger\<close>

interpretation effect_kind_codec: codec show_effect_kind parse_effect_kind
proof
  fix x show "parse_effect_kind (show_effect_kind x) = Inr x"
    by (cases x) (simp_all add: parse_effect_kind_def)
next
  fix s x assume "parse_effect_kind s = Inr x"
  then show "show_effect_kind x = s"
    by (auto simp: parse_effect_kind_def split: if_splits)
qed

interpretation side_effect_status_codec: codec show_side_effect_status parse_side_effect_status
proof
  fix x show "parse_side_effect_status (show_side_effect_status x) = Inr x"
    by (cases x) (simp_all add: parse_side_effect_status_def)
next
  fix s x assume "parse_side_effect_status s = Inr x"
  then show "show_side_effect_status x = s"
    by (auto simp: parse_side_effect_status_def split: if_splits)
qed

section \<open>Facts on the status machine\<close>

lemma resolved_iff: "\<not> is_unresolved s \<longleftrightarrow> s = Settled \<or> s = Reconciled"
  by (cases s) (simp_all add: is_unresolved_def)

lemma terminal_successors:
  "is_terminal s \<Longrightarrow> can_transition_to s t \<Longrightarrow> s = Conflict \<and> (t = Reconciled \<or> t = Unrecoverable)"
  by (cases s; cases t) (simp_all add: is_terminal_def)

text \<open>The potential of a status: every legal transition lowers it.\<close>

fun status_potential :: "side_effect_status \<Rightarrow> nat" where
  "status_potential Prepared = 5"
| "status_potential Executing = 4"
| "status_potential ExternallyObserved = 3"
| "status_potential NeedsReconciliation = 2"
| "status_potential Conflict = 1"
| "status_potential _ = 0"

lemma can_transition_decreases:
  "can_transition_to s t \<Longrightarrow> status_potential t < status_potential s"
  by (cases s; cases t) simp_all

lemma lease_within_deadline: "0 < lease_ttl_seconds k \<and> lease_ttl_seconds k \<le> deadline_seconds k"
  by (cases k) simp_all

lemma show_effect_kind_no_colon: "CHR '':'' \<notin> set (show_effect_kind k)"
  by (cases k) simp_all

definition uuid_like :: "string \<Rightarrow> bool" where
  "uuid_like s \<longleftrightarrow> s \<noteq> [] \<and> CHR '':'' \<notin> set s"

lemma idempotency_key_input_inj:
  assumes ids: "uuid_like run" "uuid_like run'" "uuid_like stage" "uuid_like stage'"
    "\<forall>a\<in>set_option agent. uuid_like a" "\<forall>a\<in>set_option agent'. uuid_like a"
    and eq: "idempotency_key_input kind run stage agent target version
      = idempotency_key_input kind' run' stage' agent' target' version'"
  shows "kind = kind' \<and> run = run' \<and> stage = stage' \<and> agent = agent' \<and> target = target'
    \<and> version = version'"
proof -
  let ?ag = "case agent of None \<Rightarrow> [] | Some a \<Rightarrow> a"
  let ?ag' = "case agent' of None \<Rightarrow> [] | Some a \<Rightarrow> a"
  have agc: "CHR '':'' \<notin> set ?ag" "CHR '':'' \<notin> set ?ag'"
    using ids(5,6) by (auto simp: uuid_like_def split: option.splits)
  have 1: "show_effect_kind kind = show_effect_kind kind'
     \<and> run @ CHR '':'' # stage @ CHR '':'' # ?ag @ CHR '':'' # target @ CHR '':'' # show_nat version
     = run' @ CHR '':'' # stage' @ CHR '':'' # ?ag' @ CHR '':'' # target' @ CHR '':'' # show_nat version'"
    using eq by (intro field_split [where c = "CHR '':''"] show_effect_kind_no_colon) (simp add: idempotency_key_input_def)
  then have 2: "run = run' \<and> stage @ CHR '':'' # ?ag @ CHR '':'' # target @ CHR '':'' # show_nat version
     = stage' @ CHR '':'' # ?ag' @ CHR '':'' # target' @ CHR '':'' # show_nat version'"
    using ids by (intro field_split [where c = "CHR '':''"]) (auto simp: uuid_like_def)
  then have 3: "stage = stage' \<and> ?ag @ CHR '':'' # target @ CHR '':'' # show_nat version
     = ?ag' @ CHR '':'' # target' @ CHR '':'' # show_nat version'"
    using ids by (intro field_split [where c = "CHR '':''"]) (auto simp: uuid_like_def)
  then have 4: "?ag = ?ag' \<and> target @ CHR '':'' # show_nat version
     = target' @ CHR '':'' # show_nat version'"
    using agc by (intro field_split [where c = "CHR '':''"]) auto
  then have 5: "target = target' \<and> show_nat version = show_nat version'"
    by (intro last_field_split [where c = "CHR '':''"] show_nat_no_colon) auto
  from 4 have "agent = agent'"
    using ids(5,6) by (cases agent; cases agent') (auto simp: uuid_like_def)
  with 1 2 3 5 show ?thesis
    by (auto dest: effect_kind_codec.show_inj show_nat_inj)
qed

end
