(* ===== verification/Side_Effect_Ledger.thy ===== *)
theory Side_Effect_Ledger
  imports Side_Effect_Domain
begin

text \<open>
  The repository of the durable side-effect ledger,
  \<^verbatim>\<open>control-plane/crates/db/src/repos/side_effects.rs\<close>, over the three tables and the
  constraints of \<^verbatim>\<open>control-plane/crates/db/migrations/052_p078_side_effect_ledger.sql\<close>.
  Every statement is a function of the tables; a transaction that is dropped without a
  commit leaves them as they were. Comparisons with NULL are never true.
\<close>

section \<open>Tables and constraints\<close>

record ledger =
  effects :: "side_effect list"
  attempts :: "side_effect_attempt list"
  settlements :: "side_effect_settlement list"

datatype ledger_error =
  UniqueViolation string
  | CheckViolation string
  | UnexpectedNull string
  | InvalidSourceStatus side_effect_status

definition empty_ledger :: ledger where
  "empty_ledger = \<lparr>effects = [], attempts = [], settlements = []\<rparr>"

definition unresolved_rows :: "side_effect list \<Rightarrow> side_effect list" where
  "unresolved_rows t = filter (\<lambda>e. is_unresolved (se_status e)) t"

definition effects_unique :: "side_effect list \<Rightarrow> bool" where
  "effects_unique t \<longleftrightarrow>
     distinct (map se_id t) \<and> distinct (map se_idempotency_key t)
     \<and> distinct (map (\<lambda>e. (se_run_id e, se_target_key e)) (unresolved_rows t))"

definition settlements_unique :: "side_effect_settlement list \<Rightarrow> bool" where
  "settlements_unique t \<longleftrightarrow>
     distinct (map st_id t) \<and> distinct (map st_side_effect_id t)
     \<and> distinct (List.map_filter st_disposition_id t)"

definition settlement_status_check :: "side_effect_status \<Rightarrow> bool" where
  "settlement_status_check s = (s \<in> {Settled, Reconciled, Conflict, Unrecoverable})"

definition settlement_source_check :: "string \<Rightarrow> bool" where
  "settlement_source_check s =
     (s \<in> {''executor'', ''mcp_operator'', ''startup_recovery'', ''watchdog''})"

definition null_lt :: "datetime option \<Rightarrow> datetime \<Rightarrow> bool" where
  "null_lt a b = (case a of None \<Rightarrow> False | Some x \<Rightarrow> x < b)"

definition null_ge :: "datetime option \<Rightarrow> datetime \<Rightarrow> bool" where
  "null_ge a b = (case a of None \<Rightarrow> False | Some x \<Rightarrow> b \<le> x)"

definition null_eq :: "'a option \<Rightarrow> 'a option \<Rightarrow> bool" where
  "null_eq a b = (case (a, b) of (Some x, Some y) \<Rightarrow> x = y | _ \<Rightarrow> False)"

definition coalesce :: "'a option \<Rightarrow> 'a option \<Rightarrow> 'a option" where
  "coalesce a b = (case a of None \<Rightarrow> b | Some x \<Rightarrow> Some x)"

definition update_effects ::
  "(side_effect \<Rightarrow> bool) \<Rightarrow> (side_effect \<Rightarrow> side_effect) \<Rightarrow> ledger
     \<Rightarrow> (ledger_error, nat \<times> ledger) result" where
  "update_effects P f l =
     (let t = sql_update P f (effects l) in
      if effects_unique t then Inr (rows_affected P (effects l), l\<lparr>effects := t\<rparr>)
      else Inl (UniqueViolation ''side_effects''))"

definition insert_attempt ::
  "side_effect_attempt \<Rightarrow> ledger \<Rightarrow> (ledger_error, ledger) result" where
  "insert_attempt a l =
     (if at_id a \<in> at_id ` set (attempts l) then Inl (UniqueViolation ''side_effect_attempts'')
      else Inr (l\<lparr>attempts := attempts l @ [a]\<rparr>))"

definition insert_settlement ::
  "side_effect_settlement \<Rightarrow> ledger \<Rightarrow> (ledger_error, ledger) result" where
  "insert_settlement s l =
     (if \<not> settlement_status_check (st_settlement_status s)
      then Inl (CheckViolation ''settlement_status'')
      else if \<not> settlement_source_check (st_settlement_source s)
      then Inl (CheckViolation ''settlement_source'')
      else if settlements_unique (settlements l @ [s])
      then Inr (l\<lparr>settlements := settlements l @ [s]\<rparr>)
      else Inl (UniqueViolation ''side_effect_settlements''))"

definition has_settlement :: "ledger \<Rightarrow> ident \<Rightarrow> bool" where
  "has_settlement l i \<longleftrightarrow> (\<exists>s\<in>set (settlements l). st_side_effect_id s = i)"

definition attempts_of :: "ledger \<Rightarrow> ident \<Rightarrow> side_effect_attempt list" where
  "attempts_of l i = filter (\<lambda>a. at_side_effect_id a = i) (attempts l)"

section \<open>Insert and queries\<close>

definition insert_effect :: "side_effect \<Rightarrow> ledger \<Rightarrow> (ledger_error, ledger) result" where
  "insert_effect e l =
     (if effects_unique (effects l @ [e]) then Inr (l\<lparr>effects := effects l @ [e]\<rparr>)
      else Inl (UniqueViolation ''side_effects''))"

definition find_by_id :: "ledger \<Rightarrow> ident \<Rightarrow> side_effect option" where
  "find_by_id l i = fetch_optional (filter (\<lambda>e. se_id e = i) (effects l))"

definition find_by_idempotency_key :: "ledger \<Rightarrow> string \<Rightarrow> side_effect option" where
  "find_by_idempotency_key l k =
     fetch_optional (filter (\<lambda>e. se_idempotency_key e = k) (effects l))"

definition list_unresolved_for_run :: "ledger \<Rightarrow> ident \<Rightarrow> side_effect list" where
  "list_unresolved_for_run l run =
     sort_key se_created_at
       (filter (\<lambda>e. se_run_id e = run \<and> is_unresolved (se_status e)) (effects l))"

definition list_unresolved_for_stage :: "ledger \<Rightarrow> ident \<Rightarrow> side_effect list" where
  "list_unresolved_for_stage l stage =
     sort_key se_created_at
       (filter (\<lambda>e. se_stage_execution_id e = stage \<and> is_unresolved (se_status e)) (effects l))"

text \<open>The transaction-scoped variants read the same rows through the open transaction.\<close>

definition list_unresolved_for_run_tx :: "ledger \<Rightarrow> ident \<Rightarrow> side_effect list" where
  "list_unresolved_for_run_tx l run =
     sort_key se_created_at
       (filter (\<lambda>e. se_run_id e = run \<and> is_unresolved (se_status e)) (effects l))"

definition list_unresolved_for_stage_tx :: "ledger \<Rightarrow> ident \<Rightarrow> side_effect list" where
  "list_unresolved_for_stage_tx l stage =
     sort_key se_created_at
       (filter (\<lambda>e. se_stage_execution_id e = stage \<and> is_unresolved (se_status e)) (effects l))"

definition list_unresolved_by_run_and_target_key ::
  "ledger \<Rightarrow> ident \<Rightarrow> string \<Rightarrow> side_effect list" where
  "list_unresolved_by_run_and_target_key l run target =
     sort_key se_created_at
       (filter (\<lambda>e. se_run_id e = run \<and> se_target_key e = target \<and> is_unresolved (se_status e))
         (effects l))"

definition list_unresolved :: "ledger \<Rightarrow> nat \<Rightarrow> side_effect list" where
  "list_unresolved l limit =
     take (max (min limit 100) 1)
       (sort_key se_created_at (filter (\<lambda>e. is_unresolved (se_status e)) (effects l)))"

section \<open>Executor start\<close>

record executor_start_cas_params =
  sp_effect_id :: ident
  sp_owner_instance_id :: string
  sp_attempt_id :: ident
  sp_lease_acquired_at :: datetime
  sp_lease_expires_at :: datetime
  sp_deadline_at :: "datetime option"
  sp_now :: datetime

definition start_guard :: "executor_start_cas_params \<Rightarrow> side_effect \<Rightarrow> bool" where
  "start_guard p e \<longleftrightarrow>
     se_id e = sp_effect_id p \<and> se_status e = Prepared
     \<and> (se_lease_expires_at e = None \<or> null_lt (se_lease_expires_at e) (sp_now p))
     \<and> \<not> se_external_write_attempted e"

definition start_set :: "executor_start_cas_params \<Rightarrow> side_effect \<Rightarrow> side_effect" where
  "start_set p e =
     e\<lparr>se_status := Executing, se_owner_instance_id := Some (sp_owner_instance_id p),
       se_lease_acquired_at := Some (sp_lease_acquired_at p),
       se_lease_renewed_at := Some (sp_lease_acquired_at p),
       se_lease_expires_at := Some (sp_lease_expires_at p),
       se_deadline_at := coalesce (sp_deadline_at p) (se_deadline_at e),
       se_updated_at := sp_now p\<rparr>"

text \<open>\<^verbatim>\<open>COALESCE(MAX(attempt_number), 0) + 1\<close>\<close>

definition next_attempt_number :: "side_effect_attempt list \<Rightarrow> int" where
  "next_attempt_number as =
     (case map at_attempt_number as of [] \<Rightarrow> 0 | n # ns \<Rightarrow> fold max ns n) + 1"

definition start_attempt :: "executor_start_cas_params \<Rightarrow> ledger \<Rightarrow> side_effect_attempt" where
  "start_attempt p l =
     \<lparr>at_id = sp_attempt_id p, at_side_effect_id = sp_effect_id p,
      at_attempt_number = next_attempt_number (attempts_of l (sp_effect_id p)),
      at_attempt_kind = ''initial'', at_owner_instance_id = sp_owner_instance_id p,
      at_started_at = sp_now p, at_completed_at = None, at_deadline_at = sp_deadline_at p,
      at_exit_status = None, at_stdout_path = None, at_stderr_path = None, at_trace_path = None,
      at_observed_evidence_summary_json = None, at_error_kind = None, at_error = None\<rparr>"

definition executor_start_cas ::
  "executor_start_cas_params \<Rightarrow> ledger \<Rightarrow> (ledger_error, bool \<times> ledger) result" where
  "executor_start_cas p l =
     bind_res (update_effects (start_guard p) (start_set p) l) (\<lambda>(n, l1).
       if n \<noteq> 1 then Inr (False, l)
       else bind_res (insert_attempt (start_attempt p l1) l1) (\<lambda>l2. Inr (True, l2)))"

section \<open>Lease renewal\<close>

definition renew_guard :: "ident \<Rightarrow> string \<Rightarrow> datetime \<Rightarrow> side_effect \<Rightarrow> bool" where
  "renew_guard i owner now e \<longleftrightarrow>
     se_id e = i \<and> se_status e = Executing \<and> null_eq (se_owner_instance_id e) (Some owner)
     \<and> null_ge (se_lease_expires_at e) now"

definition lease_renew_cas ::
  "ident \<Rightarrow> string \<Rightarrow> datetime \<Rightarrow> datetime \<Rightarrow> ledger \<Rightarrow> (ledger_error, bool \<times> ledger) result" where
  "lease_renew_cas i owner new_expires_at now l =
     bind_res
       (update_effects (renew_guard i owner now)
         (\<lambda>e. e\<lparr>se_lease_renewed_at := Some now, se_lease_expires_at := Some new_expires_at,
                se_updated_at := now\<rparr>) l)
       (\<lambda>(n, l1). Inr (n = 1, l1))"

section \<open>Executor settlement\<close>

record executor_settle_cas_params =
  tp_effect_id :: ident
  tp_owner_instance_id :: string
  tp_settlement_attempt_id :: ident
  tp_observed_lease_renewed_at :: datetime
  tp_new_status :: side_effect_status
  tp_observed_evidence_summary_json :: "string option"
  tp_settlement_txn_id :: string
  tp_last_error_kind :: "string option"
  tp_last_error :: "string option"
  tp_now :: datetime
  tp_settlement_source :: string
  tp_receipt_artifact_id :: "string option"
  tp_decision_json :: "string option"
  tp_decision_json_hash :: "string option"
  tp_disposition_id :: "string option"

definition settle_guard :: "ledger \<Rightarrow> executor_settle_cas_params \<Rightarrow> side_effect \<Rightarrow> bool" where
  "settle_guard l p e \<longleftrightarrow>
     se_id e = tp_effect_id p
     \<and> null_eq (se_owner_instance_id e) (Some (tp_owner_instance_id p))
     \<and> \<not> has_settlement l (tp_effect_id p)
     \<and> ((se_status e = Executing \<and> null_ge (se_lease_expires_at e) (tp_now p)
          \<and> null_eq (se_lease_renewed_at e) (Some (tp_observed_lease_renewed_at p)))
        \<or> se_status e = ExternallyObserved)"

definition settle_set :: "executor_settle_cas_params \<Rightarrow> side_effect \<Rightarrow> side_effect" where
  "settle_set p e =
     e\<lparr>se_status := tp_new_status p,
       se_observed_evidence_summary_json :=
         coalesce (tp_observed_evidence_summary_json p) (se_observed_evidence_summary_json e),
       se_last_error_kind := tp_last_error_kind p, se_last_error := tp_last_error p,
       se_settlement_txn_id := Some (tp_settlement_txn_id p), se_updated_at := tp_now p\<rparr>"

definition settle_attempt_guard ::
  "executor_settle_cas_params \<Rightarrow> side_effect_attempt \<Rightarrow> bool" where
  "settle_attempt_guard p a \<longleftrightarrow>
     at_id a = tp_settlement_attempt_id p \<and> at_side_effect_id a = tp_effect_id p"

definition settle_attempt_set ::
  "executor_settle_cas_params \<Rightarrow> side_effect_attempt \<Rightarrow> side_effect_attempt" where
  "settle_attempt_set p a =
     a\<lparr>at_completed_at := Some (tp_now p),
       at_exit_status := Some (if tp_new_status p = Settled then ''succeeded'' else ''failed''),
       at_observed_evidence_summary_json := tp_observed_evidence_summary_json p,
       at_error_kind := tp_last_error_kind p, at_error := tp_last_error p\<rparr>"

definition settle_row :: "executor_settle_cas_params \<Rightarrow> ident \<Rightarrow> side_effect_settlement" where
  "settle_row p settlement_id =
     \<lparr>st_id = settlement_id, st_side_effect_id = tp_effect_id p,
      st_settlement_status = tp_new_status p, st_settlement_source = tp_settlement_source p,
      st_receipt_artifact_id = tp_receipt_artifact_id p,
      st_reconciliation_report_artifact_id = None, st_applied_at = tp_now p,
      st_applied_by = Some (tp_owner_instance_id p), st_disposition_id = tp_disposition_id p,
      st_settlement_attempt_id = Some (tp_settlement_attempt_id p),
      st_decision_json = tp_decision_json p, st_decision_json_hash = tp_decision_json_hash p\<rparr>"

text \<open>
  The second component is what the open transaction holds when the function returns:
  on a miss of the attempt row the effect row is already changed, and it is the caller
  that must not commit.
\<close>

definition executor_settle_cas_tx ::
  "executor_settle_cas_params \<Rightarrow> ident \<Rightarrow> ledger \<Rightarrow> (ledger_error, bool \<times> ledger) result" where
  "executor_settle_cas_tx p settlement_id l =
     bind_res (update_effects (settle_guard l p) (settle_set p) l) (\<lambda>(n, l1).
       if n \<noteq> 1 then Inr (False, l1)
       else
         let l2 = l1\<lparr>attempts := sql_update (settle_attempt_guard p) (settle_attempt_set p)
                     (attempts l1)\<rparr> in
         if rows_affected (settle_attempt_guard p) (attempts l1) \<noteq> 1 then Inr (False, l2)
         else bind_res (insert_settlement (settle_row p settlement_id) l2) (\<lambda>l3. Inr (True, l3)))"

definition executor_settle_cas ::
  "executor_settle_cas_params \<Rightarrow> ident \<Rightarrow> ledger \<Rightarrow> (ledger_error, bool \<times> ledger) result" where
  "executor_settle_cas p settlement_id l =
     bind_res (executor_settle_cas_tx p settlement_id l) (\<lambda>(settled, l1).
       if settled then Inr (True, l1) else Inr (False, l))"

section \<open>Executor failure\<close>

record executor_fail_cas_params =
  fp_effect_id :: ident
  fp_owner_instance_id :: string
  fp_attempt_id :: ident
  fp_observed_lease_renewed_at :: datetime
  fp_last_error_kind :: string
  fp_last_error :: string
  fp_now :: datetime

definition fail_guard :: "executor_fail_cas_params \<Rightarrow> side_effect \<Rightarrow> bool" where
  "fail_guard p e \<longleftrightarrow>
     se_id e = fp_effect_id p \<and> se_status e = Executing
     \<and> null_eq (se_owner_instance_id e) (Some (fp_owner_instance_id p))
     \<and> null_eq (coalesce (se_lease_renewed_at e) (se_lease_acquired_at e))
         (Some (fp_observed_lease_renewed_at p))"

definition to_needs_reconciliation ::
  "string \<Rightarrow> string \<Rightarrow> datetime \<Rightarrow> side_effect \<Rightarrow> side_effect" where
  "to_needs_reconciliation kind err now e =
     e\<lparr>se_status := NeedsReconciliation, se_last_error_kind := Some kind,
       se_last_error := Some err, se_updated_at := now\<rparr>"

definition fail_attempt_set ::
  "executor_fail_cas_params \<Rightarrow> side_effect_attempt \<Rightarrow> side_effect_attempt" where
  "fail_attempt_set p a =
     a\<lparr>at_completed_at := Some (fp_now p), at_exit_status := Some ''failed'',
       at_error_kind := Some (fp_last_error_kind p), at_error := Some (fp_last_error p)\<rparr>"

definition executor_fail_cas_tx ::
  "executor_fail_cas_params \<Rightarrow> ledger \<Rightarrow> (ledger_error, bool \<times> ledger) result" where
  "executor_fail_cas_tx p l =
     bind_res
       (update_effects (fail_guard p)
         (to_needs_reconciliation (fp_last_error_kind p) (fp_last_error p) (fp_now p)) l)
       (\<lambda>(n, l1).
         if n \<noteq> 1 then Inr (False, l1)
         else Inr (True, l1\<lparr>attempts :=
           sql_update (\<lambda>a. at_id a = fp_attempt_id p \<and> at_side_effect_id a = fp_effect_id p)
             (fail_attempt_set p) (attempts l1)\<rparr>))"

definition executor_fail_cas ::
  "executor_fail_cas_params \<Rightarrow> ledger \<Rightarrow> (ledger_error, bool \<times> ledger) result" where
  "executor_fail_cas p l =
     bind_res (executor_fail_cas_tx p l) (\<lambda>(transitioned, l1).
       if transitioned then Inr (True, l1) else Inr (False, l))"

section \<open>Watchdog transition\<close>

record reaper_transition_cas_params =
  rp_effect_id :: ident
  rp_observed_status :: side_effect_status
  rp_observed_owner :: "string option"
  rp_observed_lease_renewed_at :: "datetime option"
  rp_observed_updated_at :: datetime
  rp_now :: datetime
  rp_last_error_kind :: string
  rp_last_error :: string

definition reaper_executing_guard :: "reaper_transition_cas_params \<Rightarrow> side_effect \<Rightarrow> bool" where
  "reaper_executing_guard p e \<longleftrightarrow>
     se_id e = rp_effect_id p \<and> se_status e = Executing
     \<and> null_eq (se_owner_instance_id e) (rp_observed_owner p)
     \<and> null_eq (coalesce (se_lease_renewed_at e) (se_lease_acquired_at e))
         (rp_observed_lease_renewed_at p)
     \<and> (null_lt (se_lease_expires_at e) (rp_now p) \<or> null_lt (se_deadline_at e) (rp_now p))"

definition reaper_deadline_guard ::
  "side_effect_status \<Rightarrow> reaper_transition_cas_params \<Rightarrow> side_effect \<Rightarrow> bool" where
  "reaper_deadline_guard st p e \<longleftrightarrow>
     se_id e = rp_effect_id p \<and> se_status e = st \<and> se_updated_at e = rp_observed_updated_at p
     \<and> se_deadline_at e \<noteq> None \<and> null_lt (se_deadline_at e) (rp_now p)"

definition reaper_transition_cas ::
  "reaper_transition_cas_params \<Rightarrow> ledger \<Rightarrow> (ledger_error, bool \<times> ledger) result" where
  "reaper_transition_cas p l =
     (let f = to_needs_reconciliation (rp_last_error_kind p) (rp_last_error p) (rp_now p);
          updated =
            (case rp_observed_status p of
               Executing \<Rightarrow> update_effects (reaper_executing_guard p) f l
             | Prepared \<Rightarrow> update_effects (reaper_deadline_guard Prepared p) f l
             | ExternallyObserved \<Rightarrow> update_effects (reaper_deadline_guard ExternallyObserved p) f l
             | st \<Rightarrow> Inl (InvalidSourceStatus st))
      in bind_res updated (\<lambda>(n, l1). if n \<noteq> 1 then Inr (False, l) else Inr (True, l1)))"

section \<open>Operator dispositions\<close>

datatype disposition_outcome = Applied | AlreadyApplied | PayloadMismatch | NotApplicable

text \<open>
  The two lookups decode \<^verbatim>\<open>decision_json_hash\<close> and \<^verbatim>\<open>disposition_id\<close> as non-null text, so
  a NULL in the selected row is a decoding error.
\<close>

definition disposition_update_guard :: "ident \<Rightarrow> side_effect \<Rightarrow> bool" where
  "disposition_update_guard i e \<longleftrightarrow>
     se_id e = i \<and> se_status e \<in> {NeedsReconciliation, Conflict, Unrecoverable}"

definition disposition_row ::
  "ident \<Rightarrow> ident \<Rightarrow> side_effect_status \<Rightarrow> string \<Rightarrow> string \<Rightarrow> string \<Rightarrow> string \<Rightarrow> string \<Rightarrow> datetime
     \<Rightarrow> side_effect_settlement" where
  "disposition_row settlement_id i new_status source disposition_id decision hash applied_by now =
     \<lparr>st_id = settlement_id, st_side_effect_id = i, st_settlement_status = new_status,
      st_settlement_source = source, st_receipt_artifact_id = None,
      st_reconciliation_report_artifact_id = None, st_applied_at = now,
      st_applied_by = Some applied_by, st_disposition_id = Some disposition_id,
      st_settlement_attempt_id = None, st_decision_json = Some decision,
      st_decision_json_hash = Some hash\<rparr>"

definition disposition_write ::
  "ident \<Rightarrow> ident \<Rightarrow> side_effect_status \<Rightarrow> string \<Rightarrow> string \<Rightarrow> string \<Rightarrow> string \<Rightarrow> string \<Rightarrow> datetime
     \<Rightarrow> ledger \<Rightarrow> (ledger_error, disposition_outcome \<times> ledger) result" where
  "disposition_write settlement_id i new_status source disposition_id decision hash applied_by now l =
     bind_res
       (update_effects (disposition_update_guard i)
         (\<lambda>e. e\<lparr>se_status := new_status, se_updated_at := now\<rparr>) l)
       (\<lambda>(n, l1).
         if n \<noteq> 1 then Inr (NotApplicable, l)
         else bind_res
           (insert_settlement
             (disposition_row settlement_id i new_status source disposition_id decision hash
               applied_by now) l1)
           (\<lambda>l2. Inr (Applied, l2)))"

definition disposition_precheck ::
  "ident \<Rightarrow> string \<Rightarrow> string \<Rightarrow> string \<Rightarrow> ledger
     \<Rightarrow> (ledger_error, disposition_outcome option) result" where
  "disposition_precheck i disposition_id decision hash l =
     (case fetch_optional
             (filter (\<lambda>s. null_eq (st_disposition_id s) (Some disposition_id)) (settlements l)) of
        Some s \<Rightarrow>
          (case st_decision_json_hash s of
             None \<Rightarrow> Inl (UnexpectedNull ''decision_json_hash'')
           | Some existing_hash \<Rightarrow>
               if st_side_effect_id s \<noteq> i then Inr (Some PayloadMismatch)
               else if existing_hash = hash \<and> st_decision_json s = Some decision
               then Inr (Some AlreadyApplied)
               else Inr (Some PayloadMismatch))
      | None \<Rightarrow>
          (case fetch_optional (filter (\<lambda>s. st_side_effect_id s = i) (settlements l)) of
             Some s \<Rightarrow>
               (case st_disposition_id s of
                  None \<Rightarrow> Inl (UnexpectedNull ''disposition_id'')
                | Some d \<Rightarrow> Inr (Some (if d = disposition_id then AlreadyApplied else NotApplicable)))
           | None \<Rightarrow> Inr None))"

definition apply_operator_disposition_tx ::
  "ident \<Rightarrow> ident \<Rightarrow> side_effect_status \<Rightarrow> string \<Rightarrow> string \<Rightarrow> string \<Rightarrow> string \<Rightarrow> string \<Rightarrow> datetime
     \<Rightarrow> ledger \<Rightarrow> (ledger_error, disposition_outcome \<times> ledger) result" where
  "apply_operator_disposition_tx settlement_id i new_status source disposition_id decision hash
       applied_by now l =
     bind_res (disposition_precheck i disposition_id decision hash l) (\<lambda>pre.
       case pre of
         Some outcome \<Rightarrow> Inr (outcome, l)
       | None \<Rightarrow>
           disposition_write settlement_id i new_status source disposition_id decision hash
             applied_by now l)"

text \<open>
  The pool variant runs the two lookups before it opens its transaction: \<open>seen\<close> is the
  ledger they read, \<open>l\<close> the ledger when the transaction begins.
\<close>

definition apply_operator_disposition ::
  "ident \<Rightarrow> ident \<Rightarrow> side_effect_status \<Rightarrow> string \<Rightarrow> string \<Rightarrow> string \<Rightarrow> string \<Rightarrow> string \<Rightarrow> datetime
     \<Rightarrow> ledger \<Rightarrow> ledger \<Rightarrow> (ledger_error, disposition_outcome \<times> ledger) result" where
  "apply_operator_disposition settlement_id i new_status source disposition_id decision hash
       applied_by now seen l =
     bind_res (disposition_precheck i disposition_id decision hash seen) (\<lambda>pre.
       case pre of
         Some outcome \<Rightarrow> Inr (outcome, l)
       | None \<Rightarrow>
           disposition_write settlement_id i new_status source disposition_id decision hash
             applied_by now l)"

section \<open>Attempts, external writes, recovery candidates\<close>

definition list_attempts :: "ledger \<Rightarrow> ident \<Rightarrow> side_effect_attempt list" where
  "list_attempts l i = sort_key at_attempt_number (attempts_of l i)"

definition has_external_write_attempt :: "ledger \<Rightarrow> ident \<Rightarrow> bool" where
  "has_external_write_attempt l i \<longleftrightarrow>
     0 < length (filter (\<lambda>e. se_id e = i \<and> se_external_write_attempted e) (effects l))"

definition write_guard :: "ledger \<Rightarrow> ident \<Rightarrow> string \<Rightarrow> side_effect \<Rightarrow> bool" where
  "write_guard l i owner e \<longleftrightarrow>
     se_id e = i \<and> se_status e = Executing \<and> null_eq (se_owner_instance_id e) (Some owner)
     \<and> \<not> se_external_write_attempted e \<and> \<not> has_settlement l i"

definition mark_external_write_started ::
  "ident \<Rightarrow> string \<Rightarrow> datetime \<Rightarrow> ledger \<Rightarrow> (ledger_error, bool \<times> ledger) result" where
  "mark_external_write_started i owner started_at l =
     bind_res
       (update_effects (write_guard l i owner)
         (\<lambda>e. e\<lparr>se_external_write_started_at := Some started_at,
                se_external_write_attempted := True, se_updated_at := started_at\<rparr>) l)
       (\<lambda>(n, l1). Inr (n = 1, l1))"

definition watchdog_candidate :: "datetime \<Rightarrow> side_effect \<Rightarrow> bool" where
  "watchdog_candidate now e \<longleftrightarrow>
     (se_status e = Executing
       \<and> (null_lt (se_lease_expires_at e) now \<or> null_lt (se_deadline_at e) now))
     \<or> (se_status e \<in> {Prepared, ExternallyObserved} \<and> se_deadline_at e \<noteq> None
         \<and> null_lt (se_deadline_at e) now)
     \<or> (se_status e = Settled \<and> se_observed_evidence_summary_json e \<noteq> None)"

definition list_watchdog_recovery_candidates ::
  "ledger \<Rightarrow> datetime \<Rightarrow> nat \<Rightarrow> side_effect list" where
  "list_watchdog_recovery_candidates l now limit =
     take limit (sort_key se_updated_at (filter (watchdog_candidate now) (effects l)))"

definition list_expired_executing :: "ledger \<Rightarrow> datetime \<Rightarrow> nat \<Rightarrow> side_effect list" where
  "list_expired_executing l now limit =
     filter (\<lambda>e. se_status e = Executing) (list_watchdog_recovery_candidates l now limit)"

definition mark_settled_evidence_failed ::
  "ident \<Rightarrow> datetime \<Rightarrow> string \<Rightarrow> string \<Rightarrow> datetime \<Rightarrow> ledger
     \<Rightarrow> (ledger_error, bool \<times> ledger) result" where
  "mark_settled_evidence_failed i observed_updated_at kind err now l =
     bind_res
       (update_effects
         (\<lambda>e. se_id e = i \<and> se_status e = Settled \<and> se_updated_at e = observed_updated_at)
         (to_needs_reconciliation kind err now) l)
       (\<lambda>(n, l1). Inr (n = 1, l1))"

end
