(* ===== verification/Ledger_Invariant.thy ===== *)
theory Ledger_Invariant
  imports Side_Effect_Ledger
begin

text \<open>
  The ledger as a transition system. A step is one committed write of the repository;
  the reads that precede a write (\<^verbatim>\<open>prepare_effect\<close>'s lookups, the pool variant's
  disposition lookups) may have seen any earlier ledger, so they do not guard a step:
  the invariant holds for every interleaving of coordinators, watchdog and operators.
\<close>

section \<open>Steps\<close>

definition prepared_row :: "side_effect \<Rightarrow> bool" where
  "prepared_row e \<longleftrightarrow>
     se_status e = Prepared \<and> se_owner_instance_id e = None \<and> se_lease_acquired_at e = None
     \<and> se_lease_renewed_at e = None \<and> se_lease_expires_at e = None
     \<and> se_external_write_started_at e = None \<and> \<not> se_external_write_attempted e
     \<and> se_attempt_budget_remaining e = 3 \<and> se_deadline_at e \<noteq> None"

definition attempt_matches :: "ledger \<Rightarrow> ident \<Rightarrow> ident \<Rightarrow> bool" where
  "attempt_matches l aid i \<longleftrightarrow> (\<exists>a\<in>set (attempts l). at_id a = aid \<and> at_side_effect_id a = i)"

text \<open>
  \<^verbatim>\<open>Settled\<close> is the only status the executor and the coordinator pass to a settlement, and
  the transaction-scoped variant is called with the attempt its lease opened.
\<close>

inductive ledger_step :: "ledger \<Rightarrow> ledger \<Rightarrow> bool" where
  insert: "prepared_row e \<Longrightarrow> insert_effect e l = Inr l' \<Longrightarrow> ledger_step l l'"
| start_exec: "executor_start_cas p l = Inr (b, l') \<Longrightarrow> ledger_step l l'"
| renew: "lease_renew_cas i owner expires now l = Inr (b, l') \<Longrightarrow> ledger_step l l'"
| settle: "tp_new_status p = Settled \<Longrightarrow>
    executor_settle_cas p sid l = Inr (b, l') \<Longrightarrow> ledger_step l l'"
| settle_tx: "tp_new_status p = Settled \<Longrightarrow> attempt_matches l (tp_settlement_attempt_id p) (tp_effect_id p) \<Longrightarrow>
    executor_settle_cas_tx p sid l = Inr (b, l') \<Longrightarrow> ledger_step l l'"
| fail: "executor_fail_cas_tx q l = Inr (b, l') \<Longrightarrow> ledger_step l l'"
| reap: "reaper_transition_cas r l = Inr (b, l') \<Longrightarrow> ledger_step l l'"
| dispose: "disposition_write sid i st src did dec h by now l = Inr (out, l') \<Longrightarrow> ledger_step l l'"
| write_started: "mark_external_write_started i owner now l = Inr (b, l') \<Longrightarrow> ledger_step l l'"
| evidence_failed: "mark_settled_evidence_failed i upd kind err now l = Inr (b, l') \<Longrightarrow>
    ledger_step l l'"

section \<open>Invariant\<close>

definition in_flight :: "side_effect_status \<Rightarrow> bool" where
  "in_flight s \<longleftrightarrow> s = Prepared \<or> s = Executing"

definition row_inv :: "ident set \<Rightarrow> side_effect_attempt list \<Rightarrow> side_effect \<Rightarrow> bool" where
  "row_inv settled as e \<longleftrightarrow>
     se_status e \<noteq> ExternallyObserved
     \<and> (in_flight (se_status e) \<longrightarrow> se_id e \<notin> settled)
     \<and> (is_terminal (se_status e) \<longrightarrow> se_id e \<in> settled)
     \<and> (se_status e = Prepared \<longrightarrow>
          se_owner_instance_id e = None \<and> se_lease_expires_at e = None
          \<and> \<not> se_external_write_attempted e \<and> filter (\<lambda>a. at_side_effect_id a = se_id e) as = [])
     \<and> (se_status e = Executing \<longrightarrow>
          se_owner_instance_id e \<noteq> None \<and> se_lease_renewed_at e \<noteq> None
          \<and> se_lease_expires_at e \<noteq> None)
     \<and> (se_external_write_attempted e \<longleftrightarrow> se_external_write_started_at e \<noteq> None)
     \<and> (se_external_write_attempted e \<longrightarrow> se_owner_instance_id e \<noteq> None)
     \<and> length (filter (\<lambda>a. at_side_effect_id a = se_id e) as) \<le> 1"

definition ledger_inv :: "ledger \<Rightarrow> bool" where
  "ledger_inv l \<longleftrightarrow>
     effects_unique (effects l) \<and> settlements_unique (settlements l)
     \<and> distinct (map at_id (attempts l))
     \<and> at_side_effect_id ` set (attempts l) \<subseteq> se_id ` set (effects l)
     \<and> st_side_effect_id ` set (settlements l) \<subseteq> se_id ` set (effects l)
     \<and> (\<forall>e\<in>set (effects l). row_inv (st_side_effect_id ` set (settlements l)) (attempts l) e)"

lemma ledger_inv_refs:
  assumes "ledger_inv l"
  shows "at_side_effect_id ` set (attempts l) \<subseteq> se_id ` set (effects l)"
    and "st_side_effect_id ` set (settlements l) \<subseteq> se_id ` set (effects l)"
  using assms by (simp_all add: ledger_inv_def)

lemma ledger_inv_row:
  "ledger_inv l \<Longrightarrow> e \<in> set (effects l) \<Longrightarrow>
     row_inv (st_side_effect_id ` set (settlements l)) (attempts l) e"
  by (simp add: ledger_inv_def)

lemma ledger_inv_same_row:
  "ledger_inv l \<Longrightarrow> e \<in> set (effects l) \<Longrightarrow> e' \<in> set (effects l) \<Longrightarrow> se_id e = se_id e' \<Longrightarrow> e = e'"
  by (auto simp: ledger_inv_def effects_unique_def dest: key_unique)

lemma set_keys [simp]:
  "se_id (start_set p e) = se_id e"
  "se_id (settle_set q e) = se_id e"
  "se_id (to_needs_reconciliation kind err now e) = se_id e"
  by (simp_all add: start_set_def settle_set_def to_needs_reconciliation_def)

lemma has_settlement_iff: "has_settlement l i \<longleftrightarrow> i \<in> st_side_effect_id ` set (settlements l)"
  by (auto simp: has_settlement_def)

lemmas null_defs = null_lt_def null_ge_def null_eq_def coalesce_def

lemma null_eq_Some [simp]: "null_eq a (Some x) \<longleftrightarrow> a = Some x"
  by (auto simp: null_eq_def split: option.splits)

lemma ledger_inv_empty: "ledger_inv empty_ledger"
  by (simp add: ledger_inv_def empty_ledger_def effects_unique_def settlements_unique_def
      unresolved_rows_def List.map_filter_def)

text \<open>
  The shape every successful update has: the rows that satisfy the guard are replaced,
  the keys stay, and the constraints hold afterwards.
\<close>

lemma update_effectsE:
  assumes "update_effects P f l = Inr (n, l1)"
  obtains "n = rows_affected P (effects l)" "l1 = l\<lparr>effects := sql_update P f (effects l)\<rparr>"
    "effects_unique (sql_update P f (effects l))"
  using assms by (auto simp: update_effects_def Let_def split: if_splits)

lemma insert_settlementE:
  assumes "insert_settlement s l = Inr l1"
  obtains "l1 = l\<lparr>settlements := settlements l @ [s]\<rparr>" "settlements_unique (settlements l @ [s])"
    "is_terminal (st_settlement_status s)" "settlement_source_check (st_settlement_source s)"
  using assms
  by (auto simp: insert_settlement_def settlement_status_check_def is_terminal_def split: if_splits)

lemma insert_attemptE:
  assumes "insert_attempt a l = Inr l1"
  obtains "l1 = l\<lparr>attempts := attempts l @ [a]\<rparr>" "at_id a \<notin> at_id ` set (attempts l)"
  using assms by (auto simp: insert_attempt_def split: if_splits)

lemma image_sql_update_key:
  assumes "\<And>r. k (f r) = k r"
  shows "k ` set (sql_update P f t) = k ` set t"
  using map_sql_update [of k f P t, OF assms] by (metis list.set_map)

text \<open>
  An update of effect rows alone keeps the invariant when each changed row satisfies the
  row invariant.
\<close>

lemma update_effects_inv:
  assumes inv: "ledger_inv l"
    and upd: "update_effects P f l = Inr (n, l1)"
    and key: "\<And>e. se_id (f e) = se_id e"
    and row: "\<And>e. e \<in> set (effects l) \<Longrightarrow> P e \<Longrightarrow>
      row_inv (st_side_effect_id ` set (settlements l)) (attempts l) e \<Longrightarrow>
      row_inv (st_side_effect_id ` set (settlements l)) (attempts l) (f e)"
  shows "ledger_inv l1"
proof -
  from upd obtain "l1 = l\<lparr>effects := sql_update P f (effects l)\<rparr>"
    "effects_unique (sql_update P f (effects l))" by (rule update_effectsE)
  moreover have "se_id ` set (sql_update P f (effects l)) = se_id ` set (effects l)"
    by (rule image_sql_update_key) (rule key)
  ultimately show ?thesis
    using inv row by (auto simp: ledger_inv_def set_sql_update)
qed

text \<open>Completing an attempt row changes neither its key nor its effect.\<close>

lemma filter_attempts_update:
  assumes "\<And>a. at_side_effect_id (g a) = at_side_effect_id a"
  shows "filter (\<lambda>a. at_side_effect_id a = i) (sql_update Q g as)
    = sql_update Q g (filter (\<lambda>a. at_side_effect_id a = i) as)"
  by (induction as) (auto simp: sql_update_def assms)

lemma row_inv_attempts_update:
  assumes "\<And>a. at_side_effect_id (g a) = at_side_effect_id a"
  shows "row_inv S (sql_update Q g as) e = row_inv S as e"
proof -
  have "(sql_update Q g bs = []) = (bs = [])" for bs
    by (simp add: sql_update_def)
  then show ?thesis
    by (simp add: row_inv_def filter_attempts_update [OF assms])
qed

lemma update_attempts_inv:
  assumes "ledger_inv l"
    and "\<And>a. at_side_effect_id (g a) = at_side_effect_id a" and "\<And>a. at_id (g a) = at_id a"
  shows "ledger_inv (l\<lparr>attempts := sql_update Q g (attempts l)\<rparr>)"
proof -
  have "at_side_effect_id ` set (sql_update Q g (attempts l)) = at_side_effect_id ` set (attempts l)"
    by (rule image_sql_update_key) (rule assms(2))
  moreover have "map at_id (sql_update Q g (attempts l)) = map at_id (attempts l)"
    by (rule map_sql_update) (rule assms(3))
  ultimately show ?thesis
    using assms(1) by (simp add: ledger_inv_def row_inv_attempts_update [OF assms(2)])
qed

text \<open>Opening the first attempt of a row that is no longer prepared.\<close>

lemma insert_attempt_inv:
  assumes inv: "ledger_inv l" and ins: "insert_attempt a l = Inr l1"
    and ex: "at_side_effect_id a \<in> se_id ` set (effects l)"
    and row: "\<And>e. e \<in> set (effects l) \<Longrightarrow> se_id e = at_side_effect_id a \<Longrightarrow>
      se_status e \<noteq> Prepared \<and> filter (\<lambda>b. at_side_effect_id b = se_id e) (attempts l) = []"
  shows "ledger_inv l1"
proof -
  from ins obtain l1: "l1 = l\<lparr>attempts := attempts l @ [a]\<rparr>" and
    "at_id a \<notin> at_id ` set (attempts l)" by (rule insert_attemptE)
  moreover have "row_inv S (attempts l @ [a]) e"
    if "e \<in> set (effects l)" "row_inv S (attempts l) e" for e S
    using that row [of e] by (cases "se_id e = at_side_effect_id a") (auto simp: row_inv_def)
  ultimately show ?thesis
    using inv ex by (auto simp: ledger_inv_def)
qed

text \<open>A status change together with the settlement row it writes.\<close>

lemma settle_inv:
  assumes inv: "ledger_inv l"
    and l1: "l1 = l\<lparr>effects := sql_update P f (effects l), settlements := settlements l @ [s]\<rparr>"
    and uniq: "effects_unique (sql_update P f (effects l))" "settlements_unique (settlements l @ [s])"
    and key: "\<And>e. se_id (f e) = se_id e"
    and ex: "e0 \<in> set (effects l)" "P e0"
    and guard: "\<And>e. P e \<Longrightarrow> se_id e = st_side_effect_id s"
    and row: "\<And>e S. e \<in> set (effects l) \<Longrightarrow> P e \<Longrightarrow> row_inv S (attempts l) e \<Longrightarrow>
      row_inv (insert (se_id e) S) (attempts l) (f e)"
  shows "ledger_inv l1"
proof -
  let ?S = "st_side_effect_id ` set (settlements l)"
  have ids: "se_id ` set (sql_update P f (effects l)) = se_id ` set (effects l)"
    by (rule image_sql_update_key) (rule key)
  have s_in: "st_side_effect_id s \<in> se_id ` set (effects l)"
    using ex guard by force
  have other: "row_inv (insert (st_side_effect_id s) ?S) (attempts l) e"
    if e: "e \<in> set (effects l)" "\<not> P e" for e
  proof -
    have "se_id e \<noteq> st_side_effect_id s"
      using ledger_inv_same_row [OF inv, of e e0] e ex guard by auto
    then show ?thesis
      using inv e by (auto simp: ledger_inv_def row_inv_def)
  qed
  have changed: "row_inv (insert (st_side_effect_id s) ?S) (attempts l) (f e)"
    if "e \<in> set (effects l)" "P e" for e
    using row [OF that, of ?S] guard [OF that(2)] inv that by (auto simp: ledger_inv_def)
  show ?thesis
    using inv uniq ids s_in other changed
    by (auto simp: l1 ledger_inv_def set_sql_update)
qed

section \<open>Every write keeps the invariant\<close>

lemma insert_effect_inv:
  assumes "ledger_inv l" "prepared_row e" "insert_effect e l = Inr l1"
  shows "ledger_inv l1"
proof -
  have l1: "l1 = l\<lparr>effects := effects l @ [e]\<rparr>" and u: "effects_unique (effects l @ [e])"
    using assms(3) by (auto simp: insert_effect_def split: if_splits)
  have "se_id e \<notin> se_id ` set (effects l)"
    using u by (auto simp: effects_unique_def)
  then have "filter (\<lambda>a. at_side_effect_id a = se_id e) (attempts l) = []"
    and "se_id e \<notin> st_side_effect_id ` set (settlements l)"
    using ledger_inv_refs [OF assms(1)] by (auto simp: filter_empty_conv) (metis imageI subsetD)
  then have "row_inv (st_side_effect_id ` set (settlements l)) (attempts l) e"
    using assms(2) by (auto simp: row_inv_def prepared_row_def is_terminal_def)
  then show ?thesis
    using assms(1) u by (auto simp: l1 ledger_inv_def)
qed

lemma executor_start_cas_inv:
  assumes inv: "ledger_inv l" and op: "executor_start_cas p l = Inr (b, l1)"
  shows "ledger_inv l1"
proof (cases b)
  case False
  then show ?thesis using inv op by (auto simp: executor_start_cas_def split: if_splits)
next
  case True
  from op True obtain lu where
    upd: "update_effects (start_guard p) (start_set p) l = Inr (1, lu)"
    and ins: "insert_attempt (start_attempt p lu) lu = Inr l1"
    by (auto simp: executor_start_cas_def split: if_splits)
  have lu: "ledger_inv lu"
    using inv upd
    by (rule update_effects_inv)
      (auto simp: start_set_def start_guard_def row_inv_def in_flight_def is_terminal_def)
  from upd obtain one: "1 = rows_affected (start_guard p) (effects l)"
    and eq: "lu = l\<lparr>effects := sql_update (start_guard p) (start_set p) (effects l)\<rparr>"
    by (rule update_effectsE)
  from one obtain e0 where e0: "e0 \<in> set (effects l)" "start_guard p e0"
    using rows_affected_pos [of "start_guard p" "effects l"] by auto
  have none: "filter (\<lambda>a. at_side_effect_id a = sp_effect_id p) (attempts l) = []"
    using inv e0 by (auto simp: ledger_inv_def row_inv_def start_guard_def)
  have row: "se_status e \<noteq> Prepared"
    if e: "e \<in> set (effects lu)" "se_id e = sp_effect_id p" for e
  proof (cases "e \<in> set (effects l) \<and> \<not> start_guard p e")
    case True
    then have "e = e0"
      using ledger_inv_same_row [OF inv, of e e0] e e0 by (auto simp: start_guard_def)
    with True e0 show ?thesis by simp
  next
    case False
    then show ?thesis using e by (auto simp: eq set_sql_update start_set_def)
  qed
  show ?thesis
  proof (rule insert_attempt_inv [OF lu ins])
    show "at_side_effect_id (start_attempt p lu) \<in> se_id ` set (effects lu)"
    proof -
      have "se_id ` set (effects lu) = se_id ` set (effects l)"
        unfolding eq by (simp add: image_sql_update_key)
      moreover have "sp_effect_id p = se_id e0" using e0 by (simp add: start_guard_def)
      ultimately show ?thesis using e0 by (simp add: start_attempt_def)
    qed
  next
    fix e assume "e \<in> set (effects lu)" "se_id e = at_side_effect_id (start_attempt p lu)"
    then show "se_status e \<noteq> Prepared
        \<and> filter (\<lambda>b. at_side_effect_id b = se_id e) (attempts lu) = []"
      using row none by (simp add: start_attempt_def eq)
  qed
qed

lemma lease_renew_cas_inv:
  assumes inv: "ledger_inv l" and op: "lease_renew_cas i owner expires now l = Inr (b, l1)"
  shows "ledger_inv l1"
proof -
  from op obtain n where upd: "update_effects (renew_guard i owner now)
         (\<lambda>e. e\<lparr>se_lease_renewed_at := Some now, se_lease_expires_at := Some expires,
                se_updated_at := now\<rparr>) l = Inr (n, l1)"
    by (auto simp: lease_renew_cas_def)
  from inv upd show ?thesis
    by (rule update_effects_inv) (auto simp: renew_guard_def row_inv_def)
qed

lemma mark_external_write_started_inv:
  assumes inv: "ledger_inv l" and op: "mark_external_write_started i owner now l = Inr (b, l1)"
  shows "ledger_inv l1"
proof -
  from op obtain n where upd: "update_effects (write_guard l i owner)
         (\<lambda>e. e\<lparr>se_external_write_started_at := Some now,
                se_external_write_attempted := True, se_updated_at := now\<rparr>) l = Inr (n, l1)"
    by (auto simp: mark_external_write_started_def)
  from inv upd show ?thesis
    by (rule update_effects_inv) (auto simp: write_guard_def row_inv_def)
qed

text \<open>Any move to needs-reconciliation keeps the row invariant.\<close>

lemma row_inv_needs_reconciliation:
  "row_inv S as e \<Longrightarrow> row_inv S as (to_needs_reconciliation kind err now e)"
  by (auto simp: row_inv_def to_needs_reconciliation_def in_flight_def is_terminal_def)

lemma needs_reconciliation_inv:
  assumes "ledger_inv l"
    and "update_effects P (to_needs_reconciliation kind err now) l = Inr (n, l1)"
  shows "ledger_inv l1"
  using assms by (rule update_effects_inv) (auto intro: row_inv_needs_reconciliation)

lemma mark_settled_evidence_failed_inv:
  assumes "ledger_inv l" "mark_settled_evidence_failed i upd kind err now l = Inr (b, l1)"
  shows "ledger_inv l1"
  using assms by (auto simp: mark_settled_evidence_failed_def intro: needs_reconciliation_inv)

lemma executor_fail_cas_tx_inv:
  assumes "ledger_inv l" "executor_fail_cas_tx p l = Inr (b, l1)"
  shows "ledger_inv l1"
  using assms
  by (auto simp: executor_fail_cas_tx_def fail_attempt_set_def split: if_splits
      intro!: update_attempts_inv dest: needs_reconciliation_inv)

lemma reaper_transition_cas_inv:
  assumes "ledger_inv l" "reaper_transition_cas p l = Inr (b, l1)"
  shows "ledger_inv l1"
  using assms
  by (cases "rp_observed_status p")
    (auto simp: reaper_transition_cas_def Let_def split: if_splits dest: needs_reconciliation_inv)

lemma executor_settle_cas_tx_True:
  assumes "executor_settle_cas_tx p sid l = Inr (True, l1)"
  obtains e0 where "e0 \<in> set (effects l)" "settle_guard l p e0"
    "l1 = l\<lparr>effects := sql_update (settle_guard l p) (settle_set p) (effects l),
            attempts := sql_update (settle_attempt_guard p) (settle_attempt_set p) (attempts l),
            settlements := settlements l @ [settle_row p sid]\<rparr>"
    "effects_unique (sql_update (settle_guard l p) (settle_set p) (effects l))"
    "settlements_unique (settlements l @ [settle_row p sid])"
    "is_terminal (tp_new_status p)"
proof -
  from assms obtain lu where upd: "update_effects (settle_guard l p) (settle_set p) l = Inr (1, lu)"
    and ins: "insert_settlement (settle_row p sid)
      (lu\<lparr>attempts := sql_update (settle_attempt_guard p) (settle_attempt_set p) (attempts lu)\<rparr>) = Inr l1"
    by (auto simp: executor_settle_cas_tx_def Let_def split: if_splits)
  from upd obtain one: "1 = rows_affected (settle_guard l p) (effects l)"
    and eq: "lu = l\<lparr>effects := sql_update (settle_guard l p) (settle_set p) (effects l)\<rparr>"
    and uniq: "effects_unique (sql_update (settle_guard l p) (settle_set p) (effects l))"
    by (rule update_effectsE)
  from one obtain e0 where e0: "e0 \<in> set (effects l)" "settle_guard l p e0"
    using rows_affected_pos [of "settle_guard l p" "effects l"] by auto
  from ins show thesis
    by (rule insert_settlementE) (rule that [OF e0], auto simp: eq settle_row_def uniq)
qed

lemma executor_settle_cas_tx_False:
  assumes inv: "ledger_inv l"
    and att: "attempt_matches l (tp_settlement_attempt_id p) (tp_effect_id p)"
    and op: "executor_settle_cas_tx p sid l = Inr (False, l1)"
  shows "l1 = l"
proof -
  from att have "0 < rows_affected (settle_attempt_guard p) (attempts l)"
    by (auto simp: rows_affected_pos attempt_matches_def settle_attempt_guard_def)
  moreover have "rows_affected (settle_attempt_guard p) (attempts l) \<le> 1"
    using inv by (intro rows_affected_key [of at_id _ _ "tp_settlement_attempt_id p"])
      (auto simp: ledger_inv_def settle_attempt_guard_def)
  ultimately have one: "rows_affected (settle_attempt_guard p) (attempts l) = 1" by simp
  have "rows_affected (settle_guard l p) (effects l) \<le> 1"
    using inv by (intro rows_affected_key [of se_id _ _ "tp_effect_id p"])
      (auto simp: ledger_inv_def effects_unique_def settle_guard_def)
  with op one show ?thesis
    by (auto simp: executor_settle_cas_tx_def Let_def update_effects_def split: if_splits)
qed

lemma executor_settle_cas_tx_inv:
  assumes inv: "ledger_inv l" and op: "executor_settle_cas_tx p sid l = Inr (True, l1)"
  shows "ledger_inv l1"
proof -
  from op obtain e0 where e0: "e0 \<in> set (effects l)" "settle_guard l p e0"
    and l1: "l1 = l\<lparr>effects := sql_update (settle_guard l p) (settle_set p) (effects l),
            attempts := sql_update (settle_attempt_guard p) (settle_attempt_set p) (attempts l),
            settlements := settlements l @ [settle_row p sid]\<rparr>"
    and uniq: "effects_unique (sql_update (settle_guard l p) (settle_set p) (effects l))"
      "settlements_unique (settlements l @ [settle_row p sid])"
    and fin: "is_terminal (tp_new_status p)"
    by (rule executor_settle_cas_tx_True)
  let ?m = "l\<lparr>effects := sql_update (settle_guard l p) (settle_set p) (effects l),
            settlements := settlements l @ [settle_row p sid]\<rparr>"
  have "ledger_inv ?m"
  proof (rule settle_inv [OF inv refl uniq _ e0])
    fix e S assume "settle_guard l p e" "row_inv S (attempts l) e"
    then show "row_inv (insert (se_id e) S) (attempts l) (settle_set p e)"
      using fin by (auto simp: settle_guard_def row_inv_def settle_set_def in_flight_def is_terminal_def)
  qed (auto simp: settle_guard_def settle_row_def)
  then have "ledger_inv (?m\<lparr>attempts :=
      sql_update (settle_attempt_guard p) (settle_attempt_set p) (attempts ?m)\<rparr>)"
    by (rule update_attempts_inv) (simp_all add: settle_attempt_set_def)
  also have "?m\<lparr>attempts := sql_update (settle_attempt_guard p) (settle_attempt_set p)
      (attempts ?m)\<rparr> = l1"
    by (rule ledger.equality) (simp_all add: l1)
  finally show ?thesis .
qed

lemma disposition_write_Applied:
  assumes "disposition_write sid i st src did dec h by now l = Inr (Applied, l1)"
  obtains e0 where "e0 \<in> set (effects l)" "disposition_update_guard i e0"
    "l1 = l\<lparr>effects := sql_update (disposition_update_guard i)
              (\<lambda>e. e\<lparr>se_status := st, se_updated_at := now\<rparr>) (effects l),
            settlements := settlements l @ [disposition_row sid i st src did dec h by now]\<rparr>"
    "effects_unique (sql_update (disposition_update_guard i)
              (\<lambda>e. e\<lparr>se_status := st, se_updated_at := now\<rparr>) (effects l))"
    "settlements_unique (settlements l @ [disposition_row sid i st src did dec h by now])"
    "is_terminal st" "settlement_source_check src"
proof -
  let ?f = "\<lambda>e. e\<lparr>se_status := st, se_updated_at := now\<rparr>"
  from assms obtain lu where upd: "update_effects (disposition_update_guard i) ?f l = Inr (1, lu)"
    and ins: "insert_settlement (disposition_row sid i st src did dec h by now) lu = Inr l1"
    by (auto simp: disposition_write_def split: if_splits)
  from upd obtain one: "1 = rows_affected (disposition_update_guard i) (effects l)"
    and eq: "lu = l\<lparr>effects := sql_update (disposition_update_guard i) ?f (effects l)\<rparr>"
    and uniq: "effects_unique (sql_update (disposition_update_guard i) ?f (effects l))"
    by (rule update_effectsE)
  from one obtain e0 where e0: "e0 \<in> set (effects l)" "disposition_update_guard i e0"
    using rows_affected_pos [of "disposition_update_guard i" "effects l"] by auto
  from ins show thesis
    by (rule insert_settlementE) (rule that [OF e0], auto simp: eq disposition_row_def uniq)
qed

lemma disposition_write_other:
  "disposition_write sid i st src did dec h by now l = Inr (out, l1) \<Longrightarrow> out \<noteq> Applied \<Longrightarrow> l1 = l"
  by (auto simp: disposition_write_def split: if_splits)

lemma disposition_write_inv:
  assumes inv: "ledger_inv l"
    and op: "disposition_write sid i st src did dec h by now l = Inr (out, l1)"
  shows "ledger_inv l1"
proof (cases "out = Applied")
  case False
  with op inv show ?thesis by (auto dest: disposition_write_other)
next
  case True
  let ?f = "\<lambda>e. e\<lparr>se_status := st, se_updated_at := now\<rparr>"
  from op True obtain e0 where e0: "e0 \<in> set (effects l)" "disposition_update_guard i e0"
    and l1: "l1 = l\<lparr>effects := sql_update (disposition_update_guard i) ?f (effects l),
            settlements := settlements l @ [disposition_row sid i st src did dec h by now]\<rparr>"
    and uniq: "effects_unique (sql_update (disposition_update_guard i) ?f (effects l))"
      "settlements_unique (settlements l @ [disposition_row sid i st src did dec h by now])"
    and fin: "is_terminal st"
    by (auto elim: disposition_write_Applied)
  show ?thesis
  proof (rule settle_inv [OF inv l1 uniq _ e0])
    fix e S assume "disposition_update_guard i e" "row_inv S (attempts l) e"
    then show "row_inv (insert (se_id e) S) (attempts l) (?f e)"
      using fin
      by (auto simp: disposition_update_guard_def row_inv_def in_flight_def is_terminal_def)
  qed (auto simp: disposition_update_guard_def disposition_row_def)
qed

lemma ledger_step_inv: "ledger_inv l \<Longrightarrow> ledger_step l l1 \<Longrightarrow> ledger_inv l1"
proof (rotate_tac, induction rule: ledger_step.induct)
  case (settle p sid l b l')
  then show ?case
    by (auto simp: executor_settle_cas_def split: if_splits intro: executor_settle_cas_tx_inv)
next
  case (settle_tx p l sid b l')
  then show ?case
    by (cases b) (auto intro: executor_settle_cas_tx_inv dest: executor_settle_cas_tx_False)
qed (auto intro: insert_effect_inv executor_start_cas_inv lease_renew_cas_inv
    mark_external_write_started_inv mark_settled_evidence_failed_inv executor_fail_cas_tx_inv
    reaper_transition_cas_inv disposition_write_inv)

interpretation ledger_sys: guarded_system "\<lambda>l. l = empty_ledger" ledger_step ledger_inv
  by unfold_locales (auto intro: ledger_inv_empty ledger_step_inv)

abbreviation ledger_reachable :: "ledger \<Rightarrow> bool" where
  "ledger_reachable \<equiv> reachable_from (\<lambda>l. l = empty_ledger) ledger_step"

end
