(* ===== verification/Ledger_Properties.thy ===== *)
theory Ledger_Properties
  imports Ledger_Invariant
begin

text \<open>
  What the ledger guarantees over every interleaving of its writers: how a row may
  evolve, that an external write starts at most once, that settlement and watchdog have
  one winner, and which rows can never be resolved.
\<close>

section \<open>How one step changes one row\<close>

definition same_identity :: "side_effect \<Rightarrow> side_effect \<Rightarrow> bool" where
  "same_identity e e' \<longleftrightarrow>
     se_id e' = se_id e \<and> se_run_id e' = se_run_id e \<and> se_target_key e' = se_target_key e
     \<and> se_stage_execution_id e' = se_stage_execution_id e
     \<and> se_idempotency_key e' = se_idempotency_key e
     \<and> se_request_fingerprint e' = se_request_fingerprint e"

definition status_step :: "bool \<Rightarrow> side_effect_status \<Rightarrow> side_effect_status \<Rightarrow> bool" where
  "status_step settled s t \<longleftrightarrow>
     t = s \<or> (can_transition_to s t \<and> \<not> settled) \<or> (s = Settled \<and> t = NeedsReconciliation)"

definition row_step :: "ledger \<Rightarrow> ledger \<Rightarrow> side_effect \<Rightarrow> side_effect \<Rightarrow> bool" where
  "row_step l l1 e e' \<longleftrightarrow>
     same_identity e e'
     \<and> (se_external_write_attempted e \<longrightarrow>
          se_external_write_attempted e'
          \<and> se_external_write_started_at e' = se_external_write_started_at e)
     \<and> (has_settlement l (se_id e) \<longrightarrow> has_settlement l1 (se_id e))
     \<and> status_step (has_settlement l (se_id e)) (se_status e) (se_status e')"

lemma row_step_refl:
  "(has_settlement l (se_id e) \<Longrightarrow> has_settlement l1 (se_id e)) \<Longrightarrow> row_step l l1 e e"
  by (simp add: row_step_def same_identity_def status_step_def)

lemma update_effects_row:
  assumes "update_effects P f l = Inr (n, l1)" "e \<in> set (effects l)"
    and "settlements l2 = settlements l1" "effects l2 = effects l1"
    and "\<And>e. same_identity e (f e)"
    and "\<And>e. se_external_write_attempted e \<Longrightarrow> P e \<Longrightarrow>
      se_external_write_attempted (f e)
      \<and> se_external_write_started_at (f e) = se_external_write_started_at e"
    and "P e \<Longrightarrow> status_step (has_settlement l (se_id e)) (se_status e) (se_status (f e))"
  shows "\<exists>e'\<in>set (effects l2). row_step l l2 e e'"
proof -
  from assms(1) have l1: "l1 = l\<lparr>effects := sql_update P f (effects l)\<rparr>"
    by (rule update_effectsE)
  have "(if P e then f e else e) \<in> set (effects l2)"
    using assms(2,4) by (auto simp: l1 sql_update_def)
  moreover have "row_step l l2 e (if P e then f e else e)"
    using assms(3,5-) by (auto simp: row_step_def l1 has_settlement_def same_identity_def status_step_def)
  ultimately show ?thesis by blast
qed

lemma inv_in_flight_unsettled:
  "ledger_inv l \<Longrightarrow> e \<in> set (effects l) \<Longrightarrow> se_status e = Prepared \<or> se_status e = Executing \<Longrightarrow>
     \<not> has_settlement l (se_id e)"
  by (drule (1) ledger_inv_row) (auto simp: row_inv_def in_flight_def has_settlement_iff)

lemma inv_terminal_settled:
  "ledger_inv l \<Longrightarrow> e \<in> set (effects l) \<Longrightarrow> is_terminal (se_status e) \<Longrightarrow> has_settlement l (se_id e)"
  by (drule (1) ledger_inv_row) (auto simp: row_inv_def has_settlement_iff)

lemma inv_never_externally_observed:
  "ledger_inv l \<Longrightarrow> e \<in> set (effects l) \<Longrightarrow> se_status e \<noteq> ExternallyObserved"
  by (drule (1) ledger_inv_row) (simp add: row_inv_def)

lemma needs_reconciliation_row:
  assumes "ledger_inv l" "e \<in> set (effects l)"
    and "update_effects P (to_needs_reconciliation k err now) l = Inr (n, l1)"
    and "\<And>e. P e \<Longrightarrow> se_status e = Prepared \<or> se_status e = Executing \<or> se_status e = ExternallyObserved
      \<or> se_status e = Settled"
    and "settlements l2 = settlements l1" "effects l2 = effects l1"
  shows "\<exists>e'\<in>set (effects l2). row_step l l2 e e'"
proof (rule update_effects_row [OF assms(3,2,5,6)])
  assume P: "P e"
  show "status_step (has_settlement l (se_id e)) (se_status e)
      (se_status (to_needs_reconciliation k err now e))"
    using assms(4) [OF P] inv_in_flight_unsettled [OF assms(1,2)]
      inv_never_externally_observed [OF assms(1,2)]
    by (auto simp: status_step_def to_needs_reconciliation_def)
qed (auto simp: to_needs_reconciliation_def same_identity_def)

definition reaper_guard :: "reaper_transition_cas_params \<Rightarrow> side_effect \<Rightarrow> bool" where
  "reaper_guard r = (if rp_observed_status r = Executing then reaper_executing_guard r
     else reaper_deadline_guard (rp_observed_status r) r)"

lemma reaper_guardD: "reaper_guard r e \<Longrightarrow> se_id e = rp_effect_id r \<and> se_status e = rp_observed_status r"
  by (auto simp: reaper_guard_def reaper_executing_guard_def reaper_deadline_guard_def split: if_splits)

lemma reaper_True:
  assumes "reaper_transition_cas r l = Inr (True, l1)"
  shows "update_effects (reaper_guard r)
      (to_needs_reconciliation (rp_last_error_kind r) (rp_last_error r) (rp_now r)) l = Inr (1, l1)"
    and "rp_observed_status r \<in> {Prepared, Executing, ExternallyObserved}"
  using assms
  by (cases "rp_observed_status r";
      auto simp: reaper_transition_cas_def Let_def reaper_guard_def split: if_splits)+

lemma executor_start_cas_row:
  assumes "ledger_inv l" "e \<in> set (effects l)" "executor_start_cas p l = Inr (b, l1)"
  shows "\<exists>e'\<in>set (effects l1). row_step l l1 e e'"
proof (cases b)
  case False
  then have "l1 = l" using assms(3) by (auto simp: executor_start_cas_def split: if_splits)
  then show ?thesis using assms(2) row_step_refl by blast
next
  case True
  with assms(3) obtain n lu where upd: "update_effects (start_guard p) (start_set p) l = Inr (n, lu)"
    and "insert_attempt (start_attempt p lu) lu = Inr l1"
    by (auto simp: executor_start_cas_def split: if_splits)
  then have "settlements l1 = settlements lu" "effects l1 = effects lu"
    by (auto elim: insert_attemptE)
  then show ?thesis
    by (rule update_effects_row [OF upd assms(2)])
      (use inv_in_flight_unsettled [OF assms(1,2)] in
        \<open>auto simp: start_set_def start_guard_def same_identity_def status_step_def\<close>)
qed

lemma settle_row_step:
  assumes inv: "ledger_inv l" and e: "e \<in> set (effects l)"
    and op: "executor_settle_cas_tx p sid l = Inr (True, l1)" and st: "tp_new_status p = Settled"
  shows "\<exists>e'\<in>set (effects l1). row_step l l1 e e'"
proof -
  from op have l1: "effects l1 = sql_update (settle_guard l p) (settle_set p) (effects l)"
    "set (settlements l) \<subseteq> set (settlements l1)"
    by (auto elim!: executor_settle_cas_tx_True)
  let ?e = "if settle_guard l p e then settle_set p e else e"
  have "?e \<in> set (effects l1)" using e by (auto simp: l1 sql_update_def)
  moreover have "row_step l l1 e ?e"
    using st l1(2) inv_never_externally_observed [OF inv e]
    by (auto simp: row_step_def settle_guard_def settle_set_def same_identity_def status_step_def
        has_settlement_def)
  ultimately show ?thesis by blast
qed

lemma disposition_unsettled:
  assumes "disposition_write sid i st src did dec h by now l = Inr (Applied, l1)"
  shows "\<not> has_settlement l i"
  using assms
  by (rule disposition_write_Applied)
    (auto simp: settlements_unique_def disposition_row_def has_settlement_iff)

lemma disposition_row_step:
  assumes inv: "ledger_inv l" and e: "e \<in> set (effects l)"
    and op: "disposition_write sid i st src did dec h by now l = Inr (out, l1)"
  shows "\<exists>e'\<in>set (effects l1). row_step l l1 e e'"
proof (cases "out = Applied")
  case False
  with op have "l1 = l" by (auto dest: disposition_write_other)
  then show ?thesis using e row_step_refl by blast
next
  case True
  let ?f = "\<lambda>e. e\<lparr>se_status := st, se_updated_at := now\<rparr>"
  from op True have l1: "effects l1 = sql_update (disposition_update_guard i) ?f (effects l)"
    "set (settlements l) \<subseteq> set (settlements l1)" and fin: "is_terminal st"
    by (auto elim!: disposition_write_Applied)
  have free: "\<not> has_settlement l i" using op True disposition_unsettled by blast
  let ?e = "if disposition_update_guard i e then ?f e else e"
  have "?e \<in> set (effects l1)" using e by (auto simp: l1 sql_update_def)
  moreover have "row_step l l1 e ?e"
    using l1(2) fin free inv_terminal_settled [OF inv e]
    by (auto simp: row_step_def disposition_update_guard_def same_identity_def status_step_def
        has_settlement_def is_terminal_def)
  ultimately show ?thesis by blast
qed

lemma ledger_step_row:
  assumes step: "ledger_step l l1" and inv: "ledger_inv l" and e: "e \<in> set (effects l)"
  shows "\<exists>e'\<in>set (effects l1). row_step l l1 e e'"
  using step inv e
proof (induction rule: ledger_step.induct)
  case (insert e0 l l')
  then have "effects l' = effects l @ [e0]" "settlements l' = settlements l"
    by (auto simp: insert_effect_def split: if_splits)
  with insert show ?case
    by (intro bexI [of _ e] row_step_refl) (auto simp: has_settlement_def)
next
  case (start_exec p l b l')
  then show ?case by (intro executor_start_cas_row)
next
  case (renew i owner expires now l b l')
  then obtain n where upd: "update_effects (renew_guard i owner now)
         (\<lambda>e. e\<lparr>se_lease_renewed_at := Some now, se_lease_expires_at := Some expires,
                se_updated_at := now\<rparr>) l = Inr (n, l')"
    by (auto simp: lease_renew_cas_def)
  show ?case
    by (rule update_effects_row [OF upd renew.prems(2) refl refl])
      (auto simp: same_identity_def status_step_def)
next
  case (settle p sid l b l')
  have "executor_settle_cas_tx p sid l = Inr (True, l') \<or> l' = l"
    using settle.hyps(2) by (auto simp: executor_settle_cas_def split: if_splits)
  with settle show ?case using settle_row_step row_step_refl by blast
next
  case (settle_tx p l sid b l')
  then have "executor_settle_cas_tx p sid l = Inr (True, l') \<or> l' = l"
    by (cases b) (auto dest: executor_settle_cas_tx_False)
  with settle_tx show ?case using settle_row_step row_step_refl by blast
next
  case (fail q l b l')
  then obtain n l2 where upd: "update_effects (fail_guard q)
      (to_needs_reconciliation (fp_last_error_kind q) (fp_last_error q) (fp_now q)) l = Inr (n, l2)"
    and same: "settlements l' = settlements l2" "effects l' = effects l2"
    by (auto simp: executor_fail_cas_tx_def split: if_splits)
  show ?case
    by (rule needs_reconciliation_row [OF fail.prems upd _ same]) (simp add: fail_guard_def)
next
  case (reap r l b l')
  show ?case
  proof (cases b)
    case False
    with reap.hyps have "l' = l" by (auto simp: reaper_transition_cas_def Let_def split: if_splits)
    then show ?thesis using reap.prems row_step_refl by blast
  next
    case True
    with reap.hyps have op: "reaper_transition_cas r l = Inr (True, l')" by simp
    show ?thesis
      by (rule needs_reconciliation_row [OF reap.prems reaper_True(1) [OF op] _ refl refl])
        (use reaper_True(2) [OF op] in \<open>auto dest!: reaper_guardD\<close>)
  qed
next
  case (dispose sid i st src did dec h ab now l out l')
  then show ?case by (intro disposition_row_step)
next
  case (write_started i owner now l b l')
  then obtain n where upd: "update_effects (write_guard l i owner)
         (\<lambda>e. e\<lparr>se_external_write_started_at := Some now,
                se_external_write_attempted := True, se_updated_at := now\<rparr>) l = Inr (n, l')"
    by (auto simp: mark_external_write_started_def)
  show ?case
    by (rule update_effects_row [OF upd write_started.prems(2) refl refl])
      (auto simp: same_identity_def status_step_def write_guard_def)
next
  case (evidence_failed i upd kind err now l b l')
  then obtain n where upd: "update_effects
         (\<lambda>e. se_id e = i \<and> se_status e = Settled \<and> se_updated_at e = upd)
         (to_needs_reconciliation kind err now) l = Inr (n, l')"
    by (auto simp: mark_settled_evidence_failed_def)
  show ?case
    by (rule needs_reconciliation_row [OF evidence_failed.prems upd _ refl refl]) simp
qed

section \<open>Runs\<close>

text \<open>The relation between a row and itself later on a run.\<close>

definition row_evolves :: "ledger \<Rightarrow> ledger \<Rightarrow> bool" where
  "row_evolves l l1 \<longleftrightarrow>
     (\<forall>e\<in>set (effects l). \<exists>e'\<in>set (effects l1).
        same_identity e e'
        \<and> (se_external_write_attempted e \<longrightarrow> se_external_write_attempted e'
             \<and> se_external_write_started_at e' = se_external_write_started_at e)
        \<and> (has_settlement l (se_id e) \<longrightarrow> has_settlement l1 (se_id e))
        \<and> (has_settlement l (se_id e) \<and> se_status e \<noteq> Settled \<longrightarrow> se_status e' = se_status e)
        \<and> (has_settlement l (se_id e) \<and> se_status e = Settled \<longrightarrow>
             se_status e' \<in> {Settled, NeedsReconciliation})
        \<and> (\<not> in_flight (se_status e) \<longrightarrow> \<not> in_flight (se_status e')))"

lemma row_evolvesE:
  assumes "row_evolves l l1" "e \<in> set (effects l)"
  obtains e' where "e' \<in> set (effects l1)" "same_identity e e'"
    "se_external_write_attempted e \<Longrightarrow> se_external_write_attempted e'
       \<and> se_external_write_started_at e' = se_external_write_started_at e"
    "has_settlement l (se_id e) \<Longrightarrow> has_settlement l1 (se_id e)"
    "has_settlement l (se_id e) \<Longrightarrow> se_status e \<noteq> Settled \<Longrightarrow> se_status e' = se_status e"
    "has_settlement l (se_id e) \<Longrightarrow> se_status e = Settled \<Longrightarrow>
       se_status e' \<in> {Settled, NeedsReconciliation}"
    "\<not> in_flight (se_status e) \<Longrightarrow> \<not> in_flight (se_status e')"
  using assms unfolding row_evolves_def by blast

lemma row_evolves_trans:
  assumes "row_evolves l l1" "row_evolves l1 l2"
  shows "row_evolves l l2"
  unfolding row_evolves_def
proof
  fix e assume "e \<in> set (effects l)"
  with assms(1) obtain e1 where e1: "e1 \<in> set (effects l1)" "same_identity e e1"
    "se_external_write_attempted e \<Longrightarrow> se_external_write_attempted e1
       \<and> se_external_write_started_at e1 = se_external_write_started_at e"
    "has_settlement l (se_id e) \<Longrightarrow> has_settlement l1 (se_id e)"
    "has_settlement l (se_id e) \<Longrightarrow> se_status e \<noteq> Settled \<Longrightarrow> se_status e1 = se_status e"
    "has_settlement l (se_id e) \<Longrightarrow> se_status e = Settled \<Longrightarrow>
       se_status e1 \<in> {Settled, NeedsReconciliation}"
    "\<not> in_flight (se_status e) \<Longrightarrow> \<not> in_flight (se_status e1)"
    by (rule row_evolvesE) blast
  from row_evolvesE [OF assms(2) e1(1)] obtain e2 where e2: "e2 \<in> set (effects l2)" "same_identity e1 e2"
    "se_external_write_attempted e1 \<Longrightarrow> se_external_write_attempted e2
       \<and> se_external_write_started_at e2 = se_external_write_started_at e1"
    "has_settlement l1 (se_id e1) \<Longrightarrow> has_settlement l2 (se_id e1)"
    "has_settlement l1 (se_id e1) \<Longrightarrow> se_status e1 \<noteq> Settled \<Longrightarrow> se_status e2 = se_status e1"
    "has_settlement l1 (se_id e1) \<Longrightarrow> se_status e1 = Settled \<Longrightarrow>
       se_status e2 \<in> {Settled, NeedsReconciliation}"
    "\<not> in_flight (se_status e1) \<Longrightarrow> \<not> in_flight (se_status e2)"
    by blast
  have i: "se_id e1 = se_id e" using e1(2) by (simp add: same_identity_def)
  have "same_identity e e2" using e1(2) e2(2) by (auto simp: same_identity_def)
  then show "\<exists>e'\<in>set (effects l2). same_identity e e'
        \<and> (se_external_write_attempted e \<longrightarrow> se_external_write_attempted e'
             \<and> se_external_write_started_at e' = se_external_write_started_at e)
        \<and> (has_settlement l (se_id e) \<longrightarrow> has_settlement l2 (se_id e))
        \<and> (has_settlement l (se_id e) \<and> se_status e \<noteq> Settled \<longrightarrow> se_status e' = se_status e)
        \<and> (has_settlement l (se_id e) \<and> se_status e = Settled \<longrightarrow>
             se_status e' \<in> {Settled, NeedsReconciliation})
        \<and> (\<not> in_flight (se_status e) \<longrightarrow> \<not> in_flight (se_status e'))"
    using e1(3-) e2(3-) unfolding i by (intro bexI [OF _ e2(1)]) auto
qed

lemma not_in_flight_step:
  "status_step settled s t \<Longrightarrow> \<not> in_flight s \<Longrightarrow> \<not> in_flight t"
  by (cases s; cases t) (auto simp: status_step_def in_flight_def)

lemma ledger_step_evolves: "ledger_inv l \<Longrightarrow> ledger_step l l1 \<Longrightarrow> row_evolves l l1"
  unfolding row_evolves_def
proof
  fix e assume "ledger_inv l" "ledger_step l l1" "e \<in> set (effects l)"
  from ledger_step_row [OF this(2,1,3)] obtain e' where e': "e' \<in> set (effects l1)" "row_step l l1 e e'"
    by blast
  have "\<not> in_flight (se_status e) \<longrightarrow> \<not> in_flight (se_status e')"
    using e'(2) not_in_flight_step by (auto simp: row_step_def)
  with e' show "\<exists>e'\<in>set (effects l1). same_identity e e'
        \<and> (se_external_write_attempted e \<longrightarrow> se_external_write_attempted e'
             \<and> se_external_write_started_at e' = se_external_write_started_at e)
        \<and> (has_settlement l (se_id e) \<longrightarrow> has_settlement l1 (se_id e))
        \<and> (has_settlement l (se_id e) \<and> se_status e \<noteq> Settled \<longrightarrow> se_status e' = se_status e)
        \<and> (has_settlement l (se_id e) \<and> se_status e = Settled \<longrightarrow>
             se_status e' \<in> {Settled, NeedsReconciliation})
        \<and> (\<not> in_flight (se_status e) \<longrightarrow> \<not> in_flight (se_status e'))"
    by (intro bexI [of _ e']) (auto simp: row_step_def status_step_def)
qed

lemma ledger_run_evolves: "ledger_inv l \<Longrightarrow> ledger_step\<^sup>*\<^sup>* l l1 \<Longrightarrow> row_evolves l l1"
proof (rule ledger_sys.run_relation [where R = row_evolves])
  show "row_evolves u u" for u
    by (auto simp: row_evolves_def same_identity_def)
qed (auto intro: row_evolves_trans ledger_step_evolves)

text \<open>A guard no row satisfies: the write is a clean miss.\<close>

lemma update_effects_miss:
  assumes "ledger_inv l" "\<And>e. e \<in> set (effects l) \<Longrightarrow> \<not> P e"
  shows "update_effects P f l = Inr (0, l)"
proof -
  have "rows_affected P (effects l) = 0"
    using assms(2) by (simp add: rows_affected_eq_0)
  then show ?thesis
    using assms(1) by (simp add: update_effects_def ledger_inv_def)
qed

lemmas reachable_ledger_inv = ledger_sys.reachable_inv

section \<open>Scenario\<close>

text \<open>
  A concrete ledger history, used by the witnesses: an intent is inserted, leased by
  \<^verbatim>\<open>daemon-1\<close>, its external write starts, the write fails and an operator marks the
  effect as a conflict.
\<close>

definition demo_row :: side_effect where
  "demo_row =
     \<lparr>se_id = ''e1'', se_run_id = ''r1'', se_stage_execution_id = ''s1'',
      se_agent_execution_id = None, se_effect_kind = GitPush, se_target_key = ''main'',
      se_idempotency_key = ''k1'', se_idempotency_key_version = 1,
      se_request_fingerprint = ''f1'', se_request_fingerprint_version = 1,
      se_status = Prepared, se_owner_instance_id = None, se_lease_acquired_at = None,
      se_lease_renewed_at = None, se_lease_expires_at = None, se_deadline_at = Some 100,
      se_external_write_started_at = None, se_external_write_attempted = False,
      se_attempt_budget_remaining = 3, se_expected_evidence_json = None,
      se_observed_evidence_summary_json = None, se_evidence_root = None,
      se_last_error_kind = None, se_last_error = None, se_settlement_txn_id = None,
      se_created_at = 0, se_updated_at = 0\<rparr>"

definition demo_start :: executor_start_cas_params where
  "demo_start =
     \<lparr>sp_effect_id = ''e1'', sp_owner_instance_id = ''daemon-1'', sp_attempt_id = ''a1'',
      sp_lease_acquired_at = 1, sp_lease_expires_at = 31, sp_deadline_at = Some 121, sp_now = 1\<rparr>"

definition demo_fail :: executor_fail_cas_params where
  "demo_fail =
     \<lparr>fp_effect_id = ''e1'', fp_owner_instance_id = ''daemon-1'', fp_attempt_id = ''a1'',
      fp_observed_lease_renewed_at = 1, fp_last_error_kind = ''git_push_failed'',
      fp_last_error = ''rejected'', fp_now = 3\<rparr>"

definition demo_settle :: executor_settle_cas_params where
  "demo_settle =
     \<lparr>tp_effect_id = ''e1'', tp_owner_instance_id = ''daemon-1'', tp_settlement_attempt_id = ''a1'',
      tp_observed_lease_renewed_at = 1, tp_new_status = Settled,
      tp_observed_evidence_summary_json = Some ''m'', tp_settlement_txn_id = ''t1'',
      tp_last_error_kind = None, tp_last_error = None, tp_now = 3,
      tp_settlement_source = ''executor'', tp_receipt_artifact_id = None,
      tp_decision_json = None, tp_decision_json_hash = None, tp_disposition_id = None\<rparr>"

definition ok_ledger :: "(ledger_error, ledger) result \<Rightarrow> ledger" where
  "ok_ledger r = (case r of Inr l \<Rightarrow> l | Inl _ \<Rightarrow> empty_ledger)"

definition ok_snd :: "(ledger_error, 'b \<times> ledger) result \<Rightarrow> ledger" where
  "ok_snd r = (case r of Inr (_, l) \<Rightarrow> l | Inl _ \<Rightarrow> empty_ledger)"

definition demo_prepared :: ledger where
  "demo_prepared = ok_ledger (insert_effect demo_row empty_ledger)"

definition demo_executing :: ledger where
  "demo_executing = ok_snd (executor_start_cas demo_start demo_prepared)"

definition demo_writing :: ledger where
  "demo_writing = ok_snd (mark_external_write_started ''e1'' ''daemon-1'' 2 demo_executing)"

definition demo_failed :: ledger where
  "demo_failed = ok_snd (executor_fail_cas_tx demo_fail demo_writing)"

definition demo_settled :: ledger where
  "demo_settled = ok_snd (executor_settle_cas demo_settle ''x1'' demo_writing)"

definition demo_conflict :: ledger where
  "demo_conflict =
     ok_snd (disposition_write ''x2'' ''e1'' Conflict ''mcp_operator'' ''d1'' ''{}'' ''h'' ''op'' 4
       demo_failed)"

lemma demo_evals:
  "insert_effect demo_row empty_ledger = Inr demo_prepared"
  "executor_start_cas demo_start demo_prepared = Inr (True, demo_executing)"
  "mark_external_write_started ''e1'' ''daemon-1'' 2 demo_executing = Inr (True, demo_writing)"
  "executor_fail_cas_tx demo_fail demo_writing = Inr (True, demo_failed)"
  "executor_settle_cas demo_settle ''x1'' demo_writing = Inr (True, demo_settled)"
  "disposition_write ''x2'' ''e1'' Conflict ''mcp_operator'' ''d1'' ''{}'' ''h'' ''op'' 4 demo_failed
     = Inr (Applied, demo_conflict)"
  by code_simp+

lemma ledger_reachable_step: "ledger_reachable l \<Longrightarrow> ledger_step l l1 \<Longrightarrow> ledger_reachable l1"
  by (rule reachable_from.next_state)

lemma demo_reachable:
  "ledger_reachable demo_prepared" "ledger_reachable demo_executing"
  "ledger_reachable demo_writing" "ledger_reachable demo_failed"
  "ledger_reachable demo_settled" "ledger_reachable demo_conflict"
proof -
  have "ledger_reachable empty_ledger" by (rule reachable_from.start) simp
  moreover have "prepared_row demo_row" by (simp add: prepared_row_def demo_row_def)
  ultimately show 1: "ledger_reachable demo_prepared"
    using ledger_reachable_step ledger_step.insert demo_evals(1) by blast
  show 2: "ledger_reachable demo_executing"
    by (rule ledger_reachable_step [OF 1 ledger_step.start_exec]) (rule demo_evals)
  show 3: "ledger_reachable demo_writing"
    by (rule ledger_reachable_step [OF 2 ledger_step.write_started]) (rule demo_evals)
  show 4: "ledger_reachable demo_failed"
    by (rule ledger_reachable_step [OF 3 ledger_step.fail]) (rule demo_evals)
  show "ledger_reachable demo_settled"
    by (rule ledger_reachable_step [OF 3 ledger_step.settle [OF _ demo_evals(5)]])
      (simp add: demo_settle_def)
  show "ledger_reachable demo_conflict"
    by (rule ledger_reachable_step [OF 4 ledger_step.dispose]) (rule demo_evals)
qed

section \<open>Properties\<close>

text \<open>
C1: over every interleaving of coordinators, watchdog and operators, an effect that is
still prepared or executing has no settlement row, an effect in a terminal status has
exactly one, and no two unresolved effects of a run share a target key.
\<close>

theorem ledger_settlement_agreement:
  assumes "ledger_reachable l" "e \<in> set (effects l)"
  shows "(se_status e \<in> {Prepared, Executing} \<longrightarrow> \<not> has_settlement l (se_id e))
    \<and> (is_terminal (se_status e) \<longrightarrow> (\<exists>!s. s \<in> set (settlements l) \<and> st_side_effect_id s = se_id e))
    \<and> (\<forall>e'\<in>set (effects l). is_unresolved (se_status e) \<and> is_unresolved (se_status e')
          \<and> se_run_id e = se_run_id e' \<and> se_target_key e = se_target_key e' \<longrightarrow> e = e')"
proof -
  have inv: "ledger_inv l" using assms(1) by (rule reachable_ledger_inv)
  then have uniq: "distinct (map st_side_effect_id (settlements l))"
    and keys: "distinct (map (\<lambda>e. (se_run_id e, se_target_key e)) (unresolved_rows (effects l)))"
    by (auto simp: ledger_inv_def settlements_unique_def effects_unique_def)
  have "\<exists>!s. s \<in> set (settlements l) \<and> st_side_effect_id s = se_id e" if "is_terminal (se_status e)"
    using inv_terminal_settled [OF inv assms(2) that] key_unique [OF uniq]
    by (auto simp: has_settlement_def)
  moreover have "e = e'" if "e' \<in> set (effects l)" "is_unresolved (se_status e)"
      "is_unresolved (se_status e')" "se_run_id e = se_run_id e'" "se_target_key e = se_target_key e'"
    for e'
    using key_unique [OF keys, of e e'] that assms(2) by (simp add: unresolved_rows_def)
  ultimately show ?thesis
    using inv_in_flight_unsettled [OF inv assms(2)] by auto
qed

theorem ledger_settlement_agreement_witness:
  "\<exists>!s. s \<in> set (settlements demo_conflict) \<and> st_side_effect_id s = ''e1''"
proof -
  have e: "hd (effects demo_conflict) \<in> set (effects demo_conflict)"
    and "is_terminal (se_status (hd (effects demo_conflict)))"
    and "se_id (hd (effects demo_conflict)) = ''e1''"
    by code_simp+
  then show ?thesis
    using ledger_settlement_agreement [OF demo_reachable(6) e] by simp
qed

text \<open>
C2: an external write starts at most once per effect. Once a reachable ledger records the
write of an effect, then after any further sequence of steps the effect is still there with
the write and its instant recorded, it is not prepared, and if it had left execution it is
neither prepared nor executing again; a second \<^verbatim>\<open>mark_external_write_started\<close> and a second
\<^verbatim>\<open>executor_start_cas\<close> for it miss, for every owner and at every time, and leave the ledger
as it is.
\<close>

theorem external_write_at_most_once:
  assumes "ledger_reachable l" "e \<in> set (effects l)" "se_external_write_attempted e"
    and "ledger_step\<^sup>*\<^sup>* l l1" and "sp_effect_id p = se_id e"
  shows "(\<exists>e'\<in>set (effects l1). se_id e' = se_id e \<and> se_external_write_attempted e'
        \<and> se_external_write_started_at e' = se_external_write_started_at e)
    \<and> (\<forall>e'\<in>set (effects l1). se_id e' = se_id e \<longrightarrow>
          se_status e' \<noteq> Prepared
          \<and> (se_status e \<notin> {Prepared, Executing} \<longrightarrow> se_status e' \<notin> {Prepared, Executing}))
    \<and> mark_external_write_started (se_id e) owner now l1 = Inr (False, l1)
    \<and> executor_start_cas p l1 = Inr (False, l1)"
proof -
  have inv: "ledger_inv l" using assms(1) by (rule reachable_ledger_inv)
  then have inv1: "ledger_inv l1" using assms(4) by (rule ledger_sys.run_inv)
  obtain e' where e': "e' \<in> set (effects l1)" "se_id e' = se_id e" "se_external_write_attempted e'"
    "se_external_write_started_at e' = se_external_write_started_at e"
    "\<not> in_flight (se_status e) \<longrightarrow> \<not> in_flight (se_status e')"
    by (rule row_evolvesE [OF ledger_run_evolves [OF inv assms(4)] assms(2)])
      (use assms(3) in \<open>auto simp: same_identity_def\<close>)
  have same: "x = e'" if "x \<in> set (effects l1)" "se_id x = se_id e" for x
    using ledger_inv_same_row [OF inv1 that(1) e'(1)] that(2) e'(2) by simp
  have "se_status e' \<noteq> Prepared"
    using ledger_inv_row [OF inv1 e'(1)] e'(3) by (auto simp: row_inv_def)
  moreover have "se_status e \<notin> {Prepared, Executing} \<longrightarrow> se_status e' \<notin> {Prepared, Executing}"
    using e'(5) by (simp add: in_flight_def)
  moreover have "update_effects (write_guard l1 (se_id e) owner) f l1 = Inr (0, l1)" for f
    by (rule update_effects_miss [OF inv1]) (auto simp: write_guard_def e'(3) dest: same)
  moreover have "update_effects (start_guard p) f l1 = Inr (0, l1)" for f
    by (rule update_effects_miss [OF inv1]) (auto simp: start_guard_def assms(5) e'(3) dest: same)
  ultimately show ?thesis
    using e'(1-4) by (intro conjI ballI impI bexI [of _ e'])
      (auto simp: mark_external_write_started_def executor_start_cas_def dest!: same)
qed

theorem external_write_at_most_once_witness:
  "mark_external_write_started ''e1'' ''daemon-2'' 9 demo_failed = Inr (False, demo_failed)"
proof -
  have e: "hd (effects demo_writing) \<in> set (effects demo_writing)"
    "se_external_write_attempted (hd (effects demo_writing))"
    and i: "se_id (hd (effects demo_writing)) = ''e1''"
    by code_simp+
  have "ledger_step\<^sup>*\<^sup>* demo_writing demo_failed"
    using ledger_step.fail [OF demo_evals(4)] by blast
  then show ?thesis
    using external_write_at_most_once [OF demo_reachable(3) e, of demo_failed demo_start] i
    by (simp add: demo_start_def)
qed

text \<open>
The status of every effect only moves along \<^verbatim>\<open>can_transition_to\<close>, with one
exception, the watchdog's settled to needs-reconciliation move when evidence fails to
verify; the row keeps its identity, and a recorded external write and a settlement row
are never lost.
\<close>

theorem ledger_transitions_legal:
  assumes "ledger_reachable l" "ledger_step l l1" "e \<in> set (effects l)"
  shows "\<exists>e'\<in>set (effects l1).
    same_identity e e'
    \<and> (se_status e' = se_status e
       \<or> can_transition_to (se_status e) (se_status e') \<and> \<not> has_settlement l (se_id e)
       \<or> se_status e = Settled \<and> se_status e' = NeedsReconciliation)
    \<and> (se_external_write_attempted e \<longrightarrow> se_external_write_attempted e')
    \<and> (has_settlement l (se_id e) \<longrightarrow> has_settlement l1 (se_id e))"
  using ledger_step_row [OF assms(2) reachable_ledger_inv [OF assms(1)] assms(3)]
  by (auto simp: row_step_def status_step_def)

theorem ledger_transitions_legal_witness:
  "\<exists>e'\<in>set (effects demo_failed). same_identity (hd (effects demo_writing)) e'"
proof -
  have "hd (effects demo_writing) \<in> set (effects demo_writing)" by code_simp
  then show ?thesis
    using ledger_transitions_legal [OF demo_reachable(3) ledger_step.fail [OF demo_evals(4)]] by blast
qed

lemma precheck_settled:
  assumes "has_settlement l i"
  shows "disposition_precheck i did dec h l \<noteq> Inr None"
proof -
  have "filter (\<lambda>s. st_side_effect_id s = i) (settlements l) \<noteq> []"
    using assms by (auto simp: has_settlement_def filter_empty_conv)
  then show ?thesis
    by (auto simp: disposition_precheck_def fetch_optional_def split: list.splits option.splits)
qed

lemma precheck_not_applied: "disposition_precheck i did dec h l \<noteq> Inr (Some Applied)"
  by (auto simp: disposition_precheck_def split: option.splits if_splits)

lemma disposition_settled_rejected:
  assumes "has_settlement l i"
  shows "apply_operator_disposition_tx sid i st src did dec h by now l \<noteq> Inr (Applied, l1)"
  using precheck_settled [OF assms] precheck_not_applied
  by (auto simp: apply_operator_disposition_tx_def split: option.splits)

text \<open>
An unresolved effect that already has a settlement row can never be resolved: on every
continuation it keeps its status, and no operator disposition, whatever its identifier,
payload and target status, is applied to it. This covers every conflict and every
unrecoverable effect and every settled effect whose evidence failed to verify.
\<close>

theorem settled_unresolved_is_stuck:
  assumes "ledger_reachable l" "e \<in> set (effects l)"
    and "is_unresolved (se_status e)" "has_settlement l (se_id e)"
    and "ledger_step\<^sup>*\<^sup>* l l1"
  shows "(\<exists>e'\<in>set (effects l1). se_id e' = se_id e \<and> se_status e' = se_status e)
    \<and> (\<forall>sid st src did dec h by now l2.
          apply_operator_disposition_tx sid (se_id e) st src did dec h by now l1 \<noteq> Inr (Applied, l2))"
proof -
  have inv: "ledger_inv l" using assms(1) by (rule reachable_ledger_inv)
  have "se_status e \<noteq> Settled" using assms(3) by (auto simp: is_unresolved_def)
  with assms(4) obtain e' where "e' \<in> set (effects l1)" "se_id e' = se_id e"
    "se_status e' = se_status e" "has_settlement l1 (se_id e)"
    using row_evolvesE [OF ledger_run_evolves [OF inv assms(5)] assms(2)]
    by (metis same_identity_def)
  then show ?thesis using disposition_settled_rejected by blast
qed

theorem settled_unresolved_is_stuck_witness:
  "apply_operator_disposition_tx ''x3'' ''e1'' Reconciled ''mcp_operator'' ''d2'' ''{}'' ''h'' ''op'' 5
     demo_conflict = Inr (NotApplicable, demo_conflict)
   \<and> (\<forall>l2. apply_operator_disposition_tx ''x3'' ''e1'' Reconciled ''mcp_operator'' ''d2'' ''{}'' ''h''
            ''op'' 5 demo_conflict \<noteq> Inr (Applied, l2))"
proof
  show "apply_operator_disposition_tx ''x3'' ''e1'' Reconciled ''mcp_operator'' ''d2'' ''{}'' ''h''
     ''op'' 5 demo_conflict = Inr (NotApplicable, demo_conflict)"
    by code_simp
  have "hd (effects demo_conflict) \<in> set (effects demo_conflict)"
    "is_unresolved (se_status (hd (effects demo_conflict)))"
    "has_settlement demo_conflict (se_id (hd (effects demo_conflict)))"
    and i: "se_id (hd (effects demo_conflict)) = ''e1''"
    by code_simp+
  then show "\<forall>l2. apply_operator_disposition_tx ''x3'' ''e1'' Reconciled ''mcp_operator'' ''d2'' ''{}''
      ''h'' ''op'' 5 demo_conflict \<noteq> Inr (Applied, l2)"
    using settled_unresolved_is_stuck [OF demo_reachable(6), of "hd (effects demo_conflict)" demo_conflict]
    by simp
qed

text \<open>A guard that asks another status of the row with this id misses.\<close>

lemma other_status_miss:
  assumes "ledger_inv l" "e' \<in> set (effects l)"
    and "\<And>e. P e \<Longrightarrow> se_id e = se_id e' \<and> se_status e \<noteq> se_status e'"
  shows "update_effects P f l = Inr (0, l)"
proof (rule update_effects_miss [OF assms(1)])
  fix e assume "e \<in> set (effects l)"
  then show "\<not> P e" using ledger_inv_same_row [OF assms(1) _ assms(2)] assms(3) by metis
qed

lemma executor_writes_miss:
  assumes "ledger_inv l" "e' \<in> set (effects l)" "se_status e' \<notin> {Executing, ExternallyObserved}"
  shows "tp_effect_id p = se_id e' \<Longrightarrow> executor_settle_cas p sid l = Inr (False, l)"
    and "fp_effect_id q = se_id e' \<Longrightarrow> executor_fail_cas q l = Inr (False, l)"
    and "lease_renew_cas (se_id e') owner t now l = Inr (False, l)"
proof -
  note miss = other_status_miss [OF assms(1,2)]
  show "executor_settle_cas p sid l = Inr (False, l)" if "tp_effect_id p = se_id e'"
  proof -
    have "update_effects (settle_guard l p) (settle_set p) l = Inr (0, l)"
      by (rule miss) (use that assms(3) in \<open>auto simp: settle_guard_def\<close>)
    then show ?thesis by (simp add: executor_settle_cas_def executor_settle_cas_tx_def)
  qed
  show "executor_fail_cas q l = Inr (False, l)" if "fp_effect_id q = se_id e'"
  proof -
    have "update_effects (fail_guard q) f l = Inr (0, l)" for f
      by (rule miss) (use that assms(3) in \<open>auto simp: fail_guard_def\<close>)
    then show ?thesis by (simp add: executor_fail_cas_def executor_fail_cas_tx_def)
  qed
  have "update_effects (renew_guard (se_id e') owner now) f l = Inr (0, l)" for f
    by (rule miss) (use assms(3) in \<open>auto simp: renew_guard_def\<close>)
  then show "lease_renew_cas (se_id e') owner t now l = Inr (False, l)"
    by (simp add: lease_renew_cas_def)
qed

lemma reaper_misses:
  assumes "ledger_inv l" "e' \<in> set (effects l)"
    and "se_status e' \<notin> {Prepared, Executing, ExternallyObserved}"
    and "rp_effect_id r = se_id e'"
  shows "reaper_transition_cas r l
    = (if rp_observed_status r \<in> {Prepared, Executing, ExternallyObserved} then Inr (False, l)
       else Inl (InvalidSourceStatus (rp_observed_status r)))"
proof -
  have "update_effects P f l = Inr (0, l)"
    if "P \<in> {reaper_executing_guard r, reaper_deadline_guard Prepared r,
         reaper_deadline_guard ExternallyObserved r}" for P f
    using that assms(3,4)
    by (intro other_status_miss [OF assms(1,2)])
      (auto simp: reaper_executing_guard_def reaper_deadline_guard_def)
  then show ?thesis
    by (cases "rp_observed_status r") (simp_all add: reaper_transition_cas_def Let_def)
qed

text \<open>An effect that left execution is beyond the executor and the watchdog.\<close>

definition beyond_writers :: "ident \<Rightarrow> ledger \<Rightarrow> bool" where
  "beyond_writers i l \<longleftrightarrow>
     (\<forall>p sid. tp_effect_id p = i \<longrightarrow> executor_settle_cas p sid l = Inr (False, l))
     \<and> (\<forall>q. fp_effect_id q = i \<longrightarrow> executor_fail_cas q l = Inr (False, l))
     \<and> (\<forall>owner t now. lease_renew_cas i owner t now l = Inr (False, l))
     \<and> (\<forall>r. rp_effect_id r = i \<longrightarrow> reaper_transition_cas r l
          = (if rp_observed_status r \<in> {Prepared, Executing, ExternallyObserved} then Inr (False, l)
             else Inl (InvalidSourceStatus (rp_observed_status r))))"

lemma not_in_flight_beyond:
  assumes "ledger_inv l" "e' \<in> set (effects l)" "\<not> in_flight (se_status e')"
  shows "beyond_writers (se_id e') l"
proof -
  have "se_status e' \<notin> {Prepared, Executing, ExternallyObserved}"
    using ledger_inv_row [OF assms(1,2)] assms(3) by (auto simp: row_inv_def in_flight_def)
  then show ?thesis
    unfolding beyond_writers_def
    using executor_writes_miss [OF assms(1,2)] reaper_misses [OF assms(1,2)] by simp
qed

lemma update_effects_hit:
  assumes "update_effects P f l = Inr (1, l1)"
  shows "\<exists>e\<in>set (effects l). P e \<and> f e \<in> set (effects l1)"
proof -
  from assms obtain "1 = rows_affected P (effects l)" "l1 = l\<lparr>effects := sql_update P f (effects l)\<rparr>"
    by (rule update_effectsE)
  then show ?thesis using rows_affected_pos [of P "effects l"] by (auto simp: set_sql_update)
qed

lemma reaper_hit:
  assumes "reaper_transition_cas r l = Inr (True, l1)"
  shows "\<exists>e'\<in>set (effects l1). se_id e' = rp_effect_id r \<and> se_status e' = NeedsReconciliation"
proof -
  let ?f = "to_needs_reconciliation (rp_last_error_kind r) (rp_last_error r) (rp_now r)"
  from update_effects_hit [OF reaper_True(1) [OF assms]]
  obtain e where "reaper_guard r e" "?f e \<in> set (effects l1)" by blast
  then show ?thesis
    by (intro bexI [of _ "?f e"]) (auto dest: reaper_guardD simp: to_needs_reconciliation_def)
qed

lemma settle_hit:
  assumes "executor_settle_cas p sid l = Inr (True, l1)"
  shows "executor_settle_cas_tx p sid l = Inr (True, l1)"
    and "\<exists>e'\<in>set (effects l1). se_id e' = tp_effect_id p \<and> se_status e' = tp_new_status p"
proof -
  show tx: "executor_settle_cas_tx p sid l = Inr (True, l1)"
    using assms by (auto simp: executor_settle_cas_def split: if_splits)
  from tx obtain e0 where e0: "e0 \<in> set (effects l)" "settle_guard l p e0"
    "effects l1 = sql_update (settle_guard l p) (settle_set p) (effects l)"
    by (rule executor_settle_cas_tx_True) simp
  then show "\<exists>e'\<in>set (effects l1). se_id e' = tp_effect_id p \<and> se_status e' = tp_new_status p"
    by (intro bexI [of _ "settle_set p e0"])
      (auto simp: set_sql_update, auto simp: settle_guard_def settle_set_def)
qed

text \<open>
C4: settlement and watchdog have one winner. When a settlement was applied, then on every
continuation the effect is settled, or in need of reconciliation because the evidence
check of \<^verbatim>\<open>mark_settled_evidence_failed\<close> moved it there, and it keeps its settlement row;
when a watchdog transition was applied, the effect is never in flight and never settled by
the executor again. In both cases every later settlement, failure report, renewal and
watchdog transition of the effect misses and leaves the ledger as it is, and a watchdog
transition that names a source status it does not handle is an error.
\<close>

theorem settlement_and_watchdog_one_winner:
  assumes "ledger_reachable l" "ledger_step\<^sup>*\<^sup>* l1 l2"
    and "(executor_settle_cas p sid l = Inr (True, l1) \<and> tp_new_status p = Settled
            \<and> i = tp_effect_id p \<and> settled)
       \<or> (reaper_transition_cas w l = Inr (True, l1) \<and> i = rp_effect_id w \<and> \<not> settled)"
  shows "(\<exists>e\<in>set (effects l2). se_id e = i \<and> se_status e \<notin> {Prepared, Executing}
        \<and> (settled \<longrightarrow> se_status e \<in> {Settled, NeedsReconciliation} \<and> has_settlement l2 i))
    \<and> (\<forall>q sid. tp_effect_id q = i \<longrightarrow> executor_settle_cas q sid l2 = Inr (False, l2))
    \<and> (\<forall>q. fp_effect_id q = i \<longrightarrow> executor_fail_cas q l2 = Inr (False, l2))
    \<and> (\<forall>owner t now. lease_renew_cas i owner t now l2 = Inr (False, l2))
    \<and> (\<forall>r. rp_effect_id r = i \<longrightarrow> reaper_transition_cas r l2
         = (if rp_observed_status r \<in> {Prepared, Executing, ExternallyObserved} then Inr (False, l2)
            else Inl (InvalidSourceStatus (rp_observed_status r))))"
proof -
  have inv: "ledger_inv l" using assms(1) by (rule reachable_ledger_inv)
  obtain e1 where e1: "e1 \<in> set (effects l1)" "se_id e1 = i" "\<not> in_flight (se_status e1)"
      "settled \<Longrightarrow> se_status e1 = Settled \<and> has_settlement l1 i" and inv1: "ledger_inv l1"
    using assms(3)
  proof (elim disjE conjE)
    assume S: "executor_settle_cas p sid l = Inr (True, l1)" "tp_new_status p = Settled"
      "i = tp_effect_id p"
    have "has_settlement l1 i"
      using settle_hit(1) [OF S(1)] S(3) by (auto elim!: executor_settle_cas_tx_True
          simp: has_settlement_def settle_row_def)
    then show ?thesis
      using that settle_hit [OF S(1)] S executor_settle_cas_tx_inv [OF inv]
      by (fastforce simp: in_flight_def)
  next
    assume R: "reaper_transition_cas w l = Inr (True, l1)" "i = rp_effect_id w" "\<not> settled"
    then show ?thesis
      using that reaper_hit [OF R(1)] reaper_transition_cas_inv [OF inv R(1)]
      by (fastforce simp: in_flight_def)
  qed
  have inv2: "ledger_inv l2" using inv1 assms(2) by (rule ledger_sys.run_inv)
  obtain e where e: "e \<in> set (effects l2)" "se_id e = i" "\<not> in_flight (se_status e)"
    "settled \<longrightarrow> se_status e \<in> {Settled, NeedsReconciliation} \<and> has_settlement l2 i"
    by (rule row_evolvesE [OF ledger_run_evolves [OF inv1 assms(2)] e1(1)])
      (use e1 in \<open>auto simp: same_identity_def\<close>)
  from not_in_flight_beyond [OF inv2 e(1,3)] e show ?thesis
    unfolding beyond_writers_def by (auto simp: in_flight_def)
qed

theorem settlement_and_watchdog_one_winner_witness:
  "lease_renew_cas ''e1'' ''daemon-1'' 99 9 demo_settled = Inr (False, demo_settled)
   \<and> (\<exists>e\<in>set (effects demo_settled). se_id e = ''e1''
        \<and> se_status e \<in> {Settled, NeedsReconciliation})"
proof -
  have "tp_new_status demo_settle = Settled" "''e1'' = tp_effect_id demo_settle"
    by (simp_all add: demo_settle_def)
  then show ?thesis
    using settlement_and_watchdog_one_winner
        [OF demo_reachable(3), of demo_settled demo_settled demo_settle "''x1''" "''e1''" True]
      demo_evals(5)
    by auto
qed

text \<open>
A disposition is idempotent per identifier. Right after it was applied, replaying it
with the same payload and hash reports \<^verbatim>\<open>AlreadyApplied\<close>, with another payload or for
another effect \<^verbatim>\<open>PayloadMismatch\<close>, a second disposition of the effect \<^verbatim>\<open>NotApplicable\<close>,
and none of them changes the ledger.
\<close>

theorem disposition_replay:
  assumes "ledger_reachable l"
    and "apply_operator_disposition_tx sid i st src did dec h by now l = Inr (Applied, l1)"
  shows "apply_operator_disposition_tx sid' i st' src' did dec h by' now' l1 = Inr (AlreadyApplied, l1)
    \<and> (dec' \<noteq> dec \<or> h' \<noteq> h \<or> i' \<noteq> i \<longrightarrow>
        apply_operator_disposition_tx sid' i' st' src' did dec' h' by' now' l1
          = Inr (PayloadMismatch, l1))
    \<and> (did' \<notin> set (List.map_filter st_disposition_id (settlements l1)) \<longrightarrow>
        apply_operator_disposition_tx sid' i st' src' did' dec' h' by' now' l1
          = Inr (NotApplicable, l1))"
proof -
  from assms(2) have w: "disposition_write sid i st src did dec h by now l = Inr (Applied, l1)"
    using precheck_not_applied by (auto simp: apply_operator_disposition_tx_def split: option.splits)
  let ?row = "disposition_row sid i st src did dec h by now"
  from w have set1: "settlements l1 = settlements l @ [?row]"
    and uniq: "settlements_unique (settlements l @ [?row])"
    by (auto elim!: disposition_write_Applied)
  have "\<forall>s\<in>set (settlements l). st_disposition_id s \<noteq> Some did"
    using uniq by (force simp: settlements_unique_def disposition_row_def List.map_filter_def)
  then have by_did: "filter (\<lambda>s. null_eq (st_disposition_id s) (Some did)) (settlements l1) = [?row]"
    by (auto simp: set1 disposition_row_def filter_empty_conv)
  have by_eff: "filter (\<lambda>s. st_side_effect_id s = i) (settlements l1) = [?row]"
    using uniq by (auto simp: set1 settlements_unique_def disposition_row_def filter_empty_conv)
  have fresh: "filter (\<lambda>s. null_eq (st_disposition_id s) (Some did')) (settlements l1) = [] \<and> did' \<noteq> did"
    if "did' \<notin> set (List.map_filter st_disposition_id (settlements l1))"
  proof
    show "filter (\<lambda>s. null_eq (st_disposition_id s) (Some did')) (settlements l1) = []"
      using that by (force simp: filter_empty_conv List.map_filter_def)
    show "did' \<noteq> did"
      using that by (auto simp: set1 List.map_filter_def disposition_row_def)
  qed
  show ?thesis
    using by_did by_eff fresh
    by (auto simp: apply_operator_disposition_tx_def disposition_precheck_def fetch_optional_def
        disposition_row_def)
qed

theorem disposition_replay_witness:
  "apply_operator_disposition_tx ''x9'' ''e1'' Conflict ''mcp_operator'' ''d1'' ''{}'' ''h'' ''op'' 4
     demo_conflict = Inr (AlreadyApplied, demo_conflict)"
proof -
  have "apply_operator_disposition_tx ''x2'' ''e1'' Conflict ''mcp_operator'' ''d1'' ''{}'' ''h'' ''op'' 4
      demo_failed = Inr (Applied, demo_conflict)" by code_simp
  from disposition_replay [OF demo_reachable(4) this] show ?thesis by blast
qed

end
