(* ===== verification/Json.thy ===== *)
theory Json
  imports Prelude "HOL-Library.AList"
begin

text \<open>
  The \<^verbatim>\<open>serde_json::Value\<close> trees the control plane inspects, with the accessors it uses.
  Parsing text into a tree is \<^verbatim>\<open>serde_json::from_str\<close> and stays a parameter of the
  definitions that call it.
\<close>

datatype json =
  JNull
  | JBool bool
  | JInt int
  | JFloat string
  | JString string
  | JArray "json list"
  | JObject "(string \<times> json) list"

fun json_get :: "json \<Rightarrow> string \<Rightarrow> json option" where
  "json_get (JObject kvs) k = map_of kvs k"
| "json_get _ _ = None"

fun as_str :: "json \<Rightarrow> string option" where
  "as_str (JString s) = Some s"
| "as_str _ = None"

fun as_array :: "json \<Rightarrow> json list option" where
  "as_array (JArray xs) = Some xs"
| "as_array _ = None"

fun as_bool :: "json \<Rightarrow> bool option" where
  "as_bool (JBool b) = Some b"
| "as_bool _ = None"

fun as_object :: "json \<Rightarrow> (string \<times> json) list option" where
  "as_object (JObject kvs) = Some kvs"
| "as_object _ = None"

text \<open>\<^verbatim>\<open>as_u64\<close> and \<^verbatim>\<open>as_i64\<close> reject integers outside their width.\<close>

fun as_u64 :: "json \<Rightarrow> nat option" where
  "as_u64 (JInt n) = (if 0 \<le> n \<and> n < 2 ^ 64 then Some (nat n) else None)"
| "as_u64 _ = None"

fun as_i64 :: "json \<Rightarrow> int option" where
  "as_i64 (JInt n) = (if - (2 ^ 63) \<le> n \<and> n < 2 ^ 63 then Some n else None)"
| "as_i64 _ = None"

definition get_str :: "json \<Rightarrow> string \<Rightarrow> string option" where
  "get_str j k = Option.bind (json_get j k) as_str"

definition get_array :: "json \<Rightarrow> string \<Rightarrow> json list option" where
  "get_array j k = Option.bind (json_get j k) as_array"

definition get_u64 :: "json \<Rightarrow> string \<Rightarrow> nat option" where
  "get_u64 j k = Option.bind (json_get j k) as_u64"

definition get_bool :: "json \<Rightarrow> string \<Rightarrow> bool option" where
  "get_bool j k = Option.bind (json_get j k) as_bool"

text \<open>\<^verbatim>\<open>pointer\<close> on object members, and the updates of an object; other values stay as they are.\<close>

fun json_pointer :: "json \<Rightarrow> string list \<Rightarrow> json option" where
  "json_pointer j [] = Some j"
| "json_pointer j (k # ks) = Option.bind (json_get j k) (\<lambda>v. json_pointer v ks)"

definition pointer_str :: "json \<Rightarrow> string list \<Rightarrow> string option" where
  "pointer_str j ks = Option.bind (json_pointer j ks) as_str"

fun json_insert :: "string \<Rightarrow> json \<Rightarrow> json \<Rightarrow> json" where
  "json_insert k v (JObject kvs) = JObject (AList.update k v kvs)"
| "json_insert k v j = j"

fun json_remove :: "string \<Rightarrow> json \<Rightarrow> json" where
  "json_remove k (JObject kvs) = JObject (AList.delete k kvs)"
| "json_remove k j = j"

fun is_object :: "json \<Rightarrow> bool" where
  "is_object (JObject _) = True"
| "is_object _ = False"

lemma json_get_insert [simp]:
  "json_get (json_insert k v j) k' = (if k' = k \<and> is_object j then Some v else json_get j k')"
  by (cases j) (auto simp: update_conv')

lemma json_get_remove [simp]: "json_get (json_remove k j) k' = (if k' = k then None else json_get j k')"
  by (cases j) (auto simp: delete_conv')

lemma is_object_update [simp]:
  "is_object (json_insert k v j) \<longleftrightarrow> is_object j" "is_object (json_remove k j) \<longleftrightarrow> is_object j"
  by (cases j; simp)+

lemma as_u64_bound: "as_u64 j = Some n \<Longrightarrow> n < 2 ^ 64"
  by (cases j) (auto split: if_splits)

text \<open>\<^verbatim>\<open>ok_or_else\<close>: an option as a result with the error given.\<close>

definition ok_or :: "'a option \<Rightarrow> 'e \<Rightarrow> ('e, 'a) result" where
  "ok_or x e = (case x of None \<Rightarrow> Inl e | Some a \<Rightarrow> Inr a)"

lemma ok_or_simps [simp]: "ok_or None e = Inl e" "ok_or (Some a) e = Inr a"
  by (simp_all add: ok_or_def)

lemma ok_or_eq_Inr [simp]: "ok_or x e = Inr a \<longleftrightarrow> x = Some a"
  by (cases x) auto

end
