(* ===== verification/Effect_Coordinator.thy ===== *)
theory Effect_Coordinator
  imports Ledger_Properties Json
begin

text \<open>
  The coordinator over the ledger, \<^verbatim>\<open>control-plane/crates/engine/src/side_effects.rs\<close>: the
  readback circuit breaker, intent preparation, leases, settlement, the watchdog pass
  with its evidence verification, and the preflights that block retry and cancellation
  while an effect is unresolved. Metrics and log lines have no counterpart.
  \<^verbatim>\<open>Utc::now()\<close> and fresh UUIDs are arguments; the file system and \<^verbatim>\<open>serde_json\<close> are
  parameters.
\<close>

section \<open>Ledger readback circuit\<close>

record circuit_state =
  first_error_at :: datetime
  error_count :: nat
  open_until :: "datetime option"

type_synonym circuits = "string \<rightharpoonup> circuit_state"

definition circuit_threshold :: nat where
  "circuit_threshold = 3"

definition circuit_window_seconds :: int where
  "circuit_window_seconds = 5 * 60"

definition circuit_open_seconds :: int where
  "circuit_open_seconds = 10 * 60"

definition ledger_readback_circuit_open_until ::
  "string \<Rightarrow> datetime \<Rightarrow> circuits \<Rightarrow> datetime option \<times> circuits" where
  "ledger_readback_circuit_open_until call_site now cs =
     (case Option.bind (cs call_site) open_until of
        Some t \<Rightarrow> if now < t then (Some t, cs) else (None, cs(call_site := None))
      | None \<Rightarrow> (None, cs))"

definition record_ledger_readback_error ::
  "string \<Rightarrow> datetime \<Rightarrow> circuits \<Rightarrow> datetime option \<times> circuits" where
  "record_ledger_readback_error call_site now cs =
     (let st0 = (case cs call_site of
                   None \<Rightarrow> \<lparr>first_error_at = now, error_count = 0, open_until = None\<rparr>
                 | Some st \<Rightarrow> st);
          st1 = (if circuit_window_seconds < now - first_error_at st0
                 then \<lparr>first_error_at = now, error_count = 0, open_until = None\<rparr> else st0);
          st2 = st1\<lparr>error_count := error_count st1 + 1\<rparr>
      in if circuit_threshold \<le> error_count st2
         then (let t = now + circuit_open_seconds in
               (Some t, cs(call_site \<mapsto> st2\<lparr>open_until := Some t\<rparr>)))
         else (open_until st2, cs(call_site \<mapsto> st2)))"

definition clear_ledger_readback_circuit :: "string \<Rightarrow> circuits \<Rightarrow> circuits" where
  "clear_ledger_readback_circuit call_site cs = cs(call_site := None)"

section \<open>Errors of the coordinator\<close>

datatype coordinator_error =
  FeatureDisabled
  | RequiresReconciliationKey ident string
  | IdempotencyKeyConsumed ident string side_effect_status
  | RequiresReconciliationTarget string "ident list"
  | LedgerDb ledger_error
  | StartCasLost ident
  | LeaseRenewalLost ident
  | CircuitOpen string datetime
  | ReadbackError string
  | RequiresReconciliation reconciliation_envelope

definition map_db :: "(ledger_error, 'a) result \<Rightarrow> (coordinator_error, 'a) result" where
  "map_db r = (case r of Inl e \<Rightarrow> Inl (LedgerDb e) | Inr a \<Rightarrow> Inr a)"

lemma map_db_eq_Inr [simp]: "map_db r = Inr a \<longleftrightarrow> r = Inr a"
  by (cases r) (auto simp: map_db_def)

lemma map_db_simps [simp]: "map_db (Inr a) = Inr a" "map_db (Inl e) = Inl (LedgerDb e)"
  by (simp_all add: map_db_def)

section \<open>Preparing an intent\<close>

record coordinator =
  instance_id :: string
  enabled :: bool

definition new_effect_row :: "ident \<Rightarrow> datetime \<Rightarrow> prepare_effect_intent \<Rightarrow> side_effect" where
  "new_effect_row effect_id now intent =
     \<lparr>se_id = effect_id, se_run_id = in_run_id intent,
      se_stage_execution_id = in_stage_execution_id intent,
      se_agent_execution_id = in_agent_execution_id intent,
      se_effect_kind = in_effect_kind intent, se_target_key = in_target_key intent,
      se_idempotency_key = in_idempotency_key intent,
      se_idempotency_key_version = in_idempotency_key_version intent,
      se_request_fingerprint = in_request_fingerprint intent,
      se_request_fingerprint_version = in_request_fingerprint_version intent,
      se_status = Prepared, se_owner_instance_id = None, se_lease_acquired_at = None,
      se_lease_renewed_at = None, se_lease_expires_at = None,
      se_deadline_at =
        (case in_deadline_at intent of
           Some t \<Rightarrow> Some t
         | None \<Rightarrow> Some (now + deadline_seconds (in_effect_kind intent))),
      se_external_write_started_at = None, se_external_write_attempted = False,
      se_attempt_budget_remaining = 3,
      se_expected_evidence_json = in_expected_evidence_json intent,
      se_observed_evidence_summary_json = None, se_evidence_root = in_evidence_root intent,
      se_last_error_kind = None, se_last_error = None, se_settlement_txn_id = None,
      se_created_at = now, se_updated_at = now\<rparr>"

text \<open>
  The two lookups and the insert are separate statements: \<open>key_view\<close> and \<open>target_view\<close> are
  the ledgers the lookups read, \<open>l\<close> the ledger the insert runs on.
\<close>

definition prepare_effect ::
  "coordinator \<Rightarrow> ident \<Rightarrow> datetime \<Rightarrow> prepare_effect_intent \<Rightarrow> ledger \<Rightarrow> ledger \<Rightarrow> ledger
     \<Rightarrow> (coordinator_error, ident \<times> ledger) result" where
  "prepare_effect c effect_id now intent key_view target_view l =
     (if \<not> enabled c then Inl FeatureDisabled
      else
        case find_by_idempotency_key key_view (in_idempotency_key intent) of
          Some existing \<Rightarrow>
            if is_unresolved (se_status existing)
            then Inl (RequiresReconciliationKey (se_id existing) (in_idempotency_key intent))
            else Inl (IdempotencyKeyConsumed (se_id existing) (in_idempotency_key intent)
                        (se_status existing))
        | None \<Rightarrow>
            let same_target =
              filter (\<lambda>e. se_idempotency_key e \<noteq> in_idempotency_key intent)
                (list_unresolved_by_run_and_target_key target_view (in_run_id intent)
                  (in_target_key intent))
            in if same_target \<noteq> []
               then Inl (RequiresReconciliationTarget (in_target_key intent) (map se_id same_target))
               else bind_res (map_db (insert_effect (new_effect_row effect_id now intent) l))
                      (\<lambda>l1. Inr (effect_id, l1)))"

section \<open>Leases\<close>

record executor_lease =
  le_effect_id :: ident
  le_attempt_id :: ident
  le_lease_acquired_at :: datetime
  le_lease_renewed_at :: datetime
  le_owner_instance_id :: string

definition start_params ::
  "coordinator \<Rightarrow> ident \<Rightarrow> ident \<Rightarrow> effect_kind \<Rightarrow> datetime \<Rightarrow> executor_start_cas_params" where
  "start_params c effect_id attempt_id kind now =
     \<lparr>sp_effect_id = effect_id, sp_owner_instance_id = instance_id c, sp_attempt_id = attempt_id,
      sp_lease_acquired_at = now, sp_lease_expires_at = now + lease_ttl_seconds kind,
      sp_deadline_at = Some (now + deadline_seconds kind), sp_now = now\<rparr>"

definition executor_start ::
  "coordinator \<Rightarrow> ident \<Rightarrow> ident \<Rightarrow> effect_kind \<Rightarrow> datetime \<Rightarrow> ledger
     \<Rightarrow> (coordinator_error, bool \<times> ledger) result" where
  "executor_start c effect_id attempt_id kind now l =
     map_db (executor_start_cas (start_params c effect_id attempt_id kind now) l)"

text \<open>
  \<open>prepare_and_lease\<close>: \<open>prep\<close> is the outcome of \<open>prepare_effect\<close>, \<open>l\<close> the ledger the start
  runs on (in a run without interleaving, the one \<open>prepare_effect\<close> returned).
\<close>

definition lease_prepared ::
  "coordinator \<Rightarrow> ident \<Rightarrow> ident \<Rightarrow> effect_kind \<Rightarrow> datetime \<Rightarrow> ledger
     \<Rightarrow> (coordinator_error, executor_lease \<times> ledger) result" where
  "lease_prepared c effect_id attempt_id kind now l =
     bind_res (executor_start c effect_id attempt_id kind now l) (\<lambda>(won, l1).
       if \<not> won then Inl (StartCasLost effect_id)
       else Inr (\<lparr>le_effect_id = effect_id, le_attempt_id = attempt_id,
                  le_lease_acquired_at = now, le_lease_renewed_at = now,
                  le_owner_instance_id = instance_id c\<rparr>, l1))"

definition prepare_and_lease ::
  "coordinator \<Rightarrow> ident \<Rightarrow> ident \<Rightarrow> datetime \<Rightarrow> datetime \<Rightarrow> prepare_effect_intent \<Rightarrow> ledger
     \<Rightarrow> (coordinator_error, executor_lease \<times> ledger) result" where
  "prepare_and_lease c effect_id attempt_id now now' intent l =
     bind_res (prepare_effect c effect_id now intent l l l) (\<lambda>(i, l1).
       lease_prepared c i attempt_id (in_effect_kind intent) now' l1)"

definition renew_lease ::
  "executor_lease \<Rightarrow> effect_kind \<Rightarrow> datetime \<Rightarrow> ledger
     \<Rightarrow> (coordinator_error, executor_lease \<times> ledger) result" where
  "renew_lease lease kind now l =
     bind_res
       (map_db (lease_renew_cas (le_effect_id lease) (le_owner_instance_id lease)
         (now + lease_ttl_seconds kind) now l))
       (\<lambda>(renewed, l1).
         if \<not> renewed then Inl (LeaseRenewalLost (le_effect_id lease))
         else Inr (lease\<lparr>le_lease_renewed_at := now\<rparr>, l1))"

text \<open>
  The select loop of \<open>run_with_lease_renewal\<close> consumes what wakes it: a timer tick at an
  instant, or the operation's result. Waiting for either is the value \<open>None\<close>.
\<close>

definition renewal_interval :: "effect_kind \<Rightarrow> int" where
  "renewal_interval kind = max (max (lease_ttl_seconds kind) 2 div 2) 1"

datatype 'a wakeup = Tick datetime | Finished 'a

fun run_with_lease_renewal ::
  "executor_lease \<Rightarrow> effect_kind \<Rightarrow> 'a wakeup list \<Rightarrow> ledger
     \<Rightarrow> (coordinator_error, 'a option \<times> executor_lease \<times> ledger) result" where
  "run_with_lease_renewal lease kind [] l = Inr (None, lease, l)"
| "run_with_lease_renewal lease kind (Finished r # _) l = Inr (Some r, lease, l)"
| "run_with_lease_renewal lease kind (Tick now # ws) l =
     bind_res (renew_lease lease kind now l) (\<lambda>(lease1, l1).
       run_with_lease_renewal lease1 kind ws l1)"

definition mark_write_started ::
  "executor_lease \<Rightarrow> datetime \<Rightarrow> ledger \<Rightarrow> (coordinator_error, bool \<times> ledger) result" where
  "mark_write_started lease now l =
     map_db (mark_external_write_started (le_effect_id lease) (le_owner_instance_id lease) now l)"

definition settle_success_params ::
  "executor_lease \<Rightarrow> string option \<Rightarrow> string \<Rightarrow> datetime \<Rightarrow> executor_settle_cas_params" where
  "settle_success_params lease evidence txn_id now =
     \<lparr>tp_effect_id = le_effect_id lease, tp_owner_instance_id = le_owner_instance_id lease,
      tp_settlement_attempt_id = le_attempt_id lease,
      tp_observed_lease_renewed_at = le_lease_renewed_at lease, tp_new_status = Settled,
      tp_observed_evidence_summary_json = evidence, tp_settlement_txn_id = txn_id,
      tp_last_error_kind = None, tp_last_error = None, tp_now = now,
      tp_settlement_source = ''executor'', tp_receipt_artifact_id = None,
      tp_decision_json = None, tp_decision_json_hash = None, tp_disposition_id = None\<rparr>"

definition settle_success ::
  "executor_lease \<Rightarrow> string option \<Rightarrow> string \<Rightarrow> ident \<Rightarrow> datetime \<Rightarrow> ledger
     \<Rightarrow> (coordinator_error, bool \<times> ledger) result" where
  "settle_success lease evidence txn_id settlement_id now l =
     map_db (executor_settle_cas (settle_success_params lease evidence txn_id now) settlement_id l)"

definition settle_failure ::
  "executor_lease \<Rightarrow> string \<Rightarrow> string \<Rightarrow> datetime \<Rightarrow> ledger \<Rightarrow> (coordinator_error, ledger) result" where
  "settle_failure lease kind err now l =
     bind_res
       (map_db (executor_fail_cas
         \<lparr>fp_effect_id = le_effect_id lease, fp_owner_instance_id = le_owner_instance_id lease,
          fp_attempt_id = le_attempt_id lease,
          fp_observed_lease_renewed_at = le_lease_renewed_at lease,
          fp_last_error_kind = kind, fp_last_error = err, fp_now = now\<rparr> l))
       (\<lambda>(_, l1). Inr l1)"

section \<open>Preflights\<close>

fun classify_unresolved_reason :: "side_effect list \<Rightarrow> reconciliation_block_reason" where
  "classify_unresolved_reason es =
     (if \<exists>e\<in>set es. se_status e = Conflict then ConflictReason
      else if \<exists>e\<in>set es. se_status e = Unrecoverable then UnrecoverableReason
      else if \<exists>e\<in>set es. se_status e = NeedsReconciliation then NeedsReconciliationReason
      else if \<exists>e\<in>set es. se_status e = ExternallyObserved then ExternallyObservedPending
      else if \<exists>e\<in>set es. se_status e = Executing then UnresolvedExecuting
      else UnresolvedPrepared)"

fun p082_unresolved_effect_status_label :: "side_effect list \<Rightarrow> string" where
  "p082_unresolved_effect_status_label es =
     (if \<exists>e\<in>set es. se_status e = Conflict then ''conflict''
      else if \<exists>e\<in>set es. se_status e = Unrecoverable then ''unrecoverable''
      else if \<exists>e\<in>set es. se_status e = NeedsReconciliation then ''needs_reconciliation''
      else if \<exists>e\<in>set es. se_status e = ExternallyObserved then ''externally_observed''
      else if \<exists>e\<in>set es. se_status e = Executing then ''executing''
      else ''prepared'')"

declare classify_unresolved_reason.simps [simp del] p082_unresolved_effect_status_label.simps [simp del]

text \<open>
  \<open>read\<close> is the outcome of the ledger query: the rows, or the message of the database
  error. A preflight returns its verdict and the circuits it leaves behind.
\<close>

type_synonym preflight = "(coordinator_error, unit) result \<times> circuits"

definition retry_preflight ::
  "ident \<Rightarrow> ident \<Rightarrow> ident option \<Rightarrow> datetime \<Rightarrow> (string, side_effect list) result \<Rightarrow> circuits
     \<Rightarrow> preflight" where
  "retry_preflight run stage agent now read cs =
     (let call_site = ''retry_preflight'' in
      case ledger_readback_circuit_open_until call_site now cs of
        (Some t, cs1) \<Rightarrow> (Inl (CircuitOpen call_site t), cs1)
      | (None, cs1) \<Rightarrow>
          (case read of
             Inl err \<Rightarrow> (Inl (ReadbackError err), snd (record_ledger_readback_error call_site now cs1))
           | Inr unresolved \<Rightarrow>
               (if unresolved = [] then Inr ()
                else Inl (RequiresReconciliation
                       (new_reconciliation_envelope run stage agent (map se_id unresolved)
                         (classify_unresolved_reason unresolved))),
                clear_ledger_readback_circuit call_site cs1)))"

definition retry_preflight_within_tx ::
  "ident \<Rightarrow> ident \<Rightarrow> ident option \<Rightarrow> datetime \<Rightarrow> (string, side_effect list) result \<Rightarrow> circuits
     \<Rightarrow> preflight" where
  "retry_preflight_within_tx run stage agent now read cs =
     (let call_site = ''retry_preflight_within_tx'' in
      case ledger_readback_circuit_open_until call_site now cs of
        (Some t, cs1) \<Rightarrow> (Inl (CircuitOpen call_site t), cs1)
      | (None, cs1) \<Rightarrow>
          (case read of
             Inl err \<Rightarrow> (Inl (ReadbackError err), snd (record_ledger_readback_error call_site now cs1))
           | Inr unresolved \<Rightarrow>
               (if unresolved = [] then Inr ()
                else Inl (RequiresReconciliation
                       (new_reconciliation_envelope run stage agent (map se_id unresolved)
                         (classify_unresolved_reason unresolved))),
                clear_ledger_readback_circuit call_site cs1)))"

text \<open>The run-level preflights anchor the envelope at the stage of the first unresolved effect.\<close>

definition run_preflight_body ::
  "string \<Rightarrow> ident \<Rightarrow> datetime \<Rightarrow> (string, side_effect list) result \<Rightarrow> circuits \<Rightarrow> preflight" where
  "run_preflight_body call_site run now read cs =
     (case ledger_readback_circuit_open_until call_site now cs of
        (Some t, cs1) \<Rightarrow> (Inl (CircuitOpen call_site t), cs1)
      | (None, cs1) \<Rightarrow>
          (case read of
             Inl err \<Rightarrow> (Inl (ReadbackError err), snd (record_ledger_readback_error call_site now cs1))
           | Inr unresolved \<Rightarrow>
               (case unresolved of
                  [] \<Rightarrow> Inr ()
                | e # _ \<Rightarrow> Inl (RequiresReconciliation
                       (new_reconciliation_envelope run (se_stage_execution_id e) None
                         (map se_id unresolved) (classify_unresolved_reason unresolved))),
                clear_ledger_readback_circuit call_site cs1)))"

definition run_unresolved_effects_preflight ::
  "ident \<Rightarrow> string \<Rightarrow> datetime \<Rightarrow> (string, side_effect list) result \<Rightarrow> circuits \<Rightarrow> preflight" where
  "run_unresolved_effects_preflight run operation now read cs =
     run_preflight_body (''run_unresolved_effects_preflight:'' @ operation) run now read cs"

definition run_cancel_preflight ::
  "ident \<Rightarrow> datetime \<Rightarrow> (string, side_effect list) result \<Rightarrow> circuits \<Rightarrow> preflight" where
  "run_cancel_preflight run now read cs = run_unresolved_effects_preflight run ''cancel'' now read cs"

definition run_cancel_preflight_within_tx ::
  "ident \<Rightarrow> datetime \<Rightarrow> (string, side_effect list) result \<Rightarrow> circuits \<Rightarrow> preflight" where
  "run_cancel_preflight_within_tx run now read cs =
     run_preflight_body ''run_cancel_preflight_within_tx'' run now read cs"

end
