(* ===== verification/Effect_Watchdog.thy ===== *)
theory Effect_Watchdog
  imports Effect_Coordinator
begin

text \<open>
  The watchdog of \<^verbatim>\<open>control-plane/crates/engine/src/side_effects.rs\<close> and the evidence check
  it runs on settled effects (with \<^verbatim>\<open>verify_spool_file\<close> of
  \<^verbatim>\<open>control-plane/crates/db/src/evidence_spool.rs\<close>). The operating system's file calls, the
  SHA-256 digest and \<^verbatim>\<open>serde_json\<close> are the parameters of type \<open>host\<close>.
\<close>

section \<open>Evidence verification\<close>

datatype lstat_result = LstatNotFound | LstatError | LstatMeta bool int

datatype read_result = ReadNotFound | ReadError | ReadBytes string

record host =
  fs_lstat :: "string \<Rightarrow> lstat_result"
  fs_read :: "string \<Rightarrow> read_result"
  fs_exists :: "string \<Rightarrow> bool"
  fs_len :: "string \<Rightarrow> nat option"
  sha256_hex :: "string \<Rightarrow> string"
  parse_json :: "string \<Rightarrow> json option"

datatype verify_result = VerifyOk | VerifyMissing | VerifyChecksumMismatch string

definition VERIFY_SIZE_CAP_BYTES :: int where
  "VERIFY_SIZE_CAP_BYTES = 512 * 1024 * 1024"

definition verify_spool_file :: "host \<Rightarrow> string \<Rightarrow> string \<Rightarrow> (string, verify_result) result" where
  "verify_spool_file h path expected =
     (case fs_lstat h path of
        LstatNotFound \<Rightarrow> Inr VerifyMissing
      | LstatError \<Rightarrow> Inl ''stat spool file for verification''
      | LstatMeta is_symlink len \<Rightarrow>
          if is_symlink then Inr VerifyMissing
          else if VERIFY_SIZE_CAP_BYTES < len then Inl ''spool file exceeds verify size cap''
          else
            (case fs_read h path of
               ReadNotFound \<Rightarrow> Inr VerifyMissing
             | ReadError \<Rightarrow> Inl ''read spool file for verification''
             | ReadBytes bytes \<Rightarrow>
                 let actual = sha256_hex h bytes in
                 if actual = expected then Inr VerifyOk else Inr (VerifyChecksumMismatch actual)))"

definition require_spool_file ::
  "host \<Rightarrow> string \<Rightarrow> string \<Rightarrow> string \<Rightarrow> (string, unit) result" where
  "require_spool_file h what path expected =
     bind_res (verify_spool_file h path expected) (\<lambda>v.
       case v of
         VerifyOk \<Rightarrow> Inr ()
       | VerifyMissing \<Rightarrow> Inl (what @ '' missing'')
       | VerifyChecksumMismatch actual \<Rightarrow>
           Inl (what @ '' checksum mismatch: expected '' @ expected @ '', actual '' @ actual))"

definition required_evidence_kinds :: "string list" where
  "required_evidence_kinds =
     [''release_receipt'', ''stdout'', ''stderr'', ''git_ls_remote'', ''upload_readback'',
      ''archive_summary'', ''reconciliation_report'']"

definition present_kinds :: "json list \<Rightarrow> string list" where
  "present_kinds files = List.map_filter (\<lambda>f. get_str f ''kind'') files"

definition evidence_file_path :: "json \<Rightarrow> string option" where
  "evidence_file_path f =
     (case get_str f ''path'' of Some p \<Rightarrow> Some p | None \<Rightarrow> get_str f ''absolute_path'')"

definition verify_evidence_file :: "host \<Rightarrow> json \<Rightarrow> (string, unit) result" where
  "verify_evidence_file h f =
     bind_res (ok_or (evidence_file_path f) ''evidence file entry missing path'') (\<lambda>path.
     bind_res (ok_or (get_str f ''sha256'') ''evidence file entry missing sha256'') (\<lambda>sha.
     bind_res (require_spool_file h ''evidence file'' path sha) (\<lambda>_.
       case get_u64 f ''size_bytes'' of
         None \<Rightarrow> Inl ''evidence file entry missing size_bytes''
       | Some expected_size \<Rightarrow>
           bind_res (ok_or (fs_len h path) (''stat evidence file '' @ path)) (\<lambda>actual_size.
             if actual_size \<noteq> expected_size
             then Inl (''evidence file size mismatch: expected '' @ show_nat expected_size
                         @ '', actual '' @ show_nat actual_size)
             else Inr ()))))"

fun verify_evidence_files :: "host \<Rightarrow> json list \<Rightarrow> (string, unit) result" where
  "verify_evidence_files h [] = Inr ()"
| "verify_evidence_files h (f # fs) =
     bind_res (verify_evidence_file h f) (\<lambda>_. verify_evidence_files h fs)"

fun require_kinds :: "string list \<Rightarrow> string list \<Rightarrow> (string, unit) result" where
  "require_kinds present [] = Inr ()"
| "require_kinds present (k # ks) =
     (if k \<notin> set present then Inl (''evidence manifest missing required file kind '' @ k)
      else require_kinds present ks)"

definition verify_p078_observed_evidence_summary ::
  "host \<Rightarrow> side_effect \<Rightarrow> (string, unit) result" where
  "verify_p078_observed_evidence_summary h e =
     bind_res (ok_or (se_observed_evidence_summary_json e) ''missing observed evidence summary'') (\<lambda>raw.
     bind_res (ok_or (parse_json h raw) ''parse observed evidence summary'') (\<lambda>summary.
     bind_res (ok_or (get_str summary ''manifest_path'') ''missing evidence manifest path'') (\<lambda>path.
     bind_res
       (case get_str summary ''manifest_sha256'' of
          Some sha \<Rightarrow> require_spool_file h ''evidence manifest'' path sha
        | None \<Rightarrow> if fs_exists h path then Inr () else Inl ''evidence manifest missing'') (\<lambda>_.
     bind_res
       (case fs_read h path of ReadBytes b \<Rightarrow> Inr b | _ \<Rightarrow> Inl ''read evidence manifest'') (\<lambda>bytes.
     bind_res (ok_or (parse_json h bytes) ''parse evidence manifest'') (\<lambda>manifest.
     bind_res (ok_or (get_array manifest ''files'') ''evidence manifest missing files array'') (\<lambda>files.
       if files = [] then Inl ''evidence manifest contains no files''
       else bind_res (require_kinds (present_kinds files) required_evidence_kinds) (\<lambda>_.
         verify_evidence_files h files))))))))"

section \<open>The pass\<close>

definition watchdog_error :: "side_effect_status \<Rightarrow> string \<times> string" where
  "watchdog_error st =
     (case st of
        Prepared \<Rightarrow> (''prepared_deadline_expired'',
          ''watchdog: prepared intent expired before executor ownership'')
      | ExternallyObserved \<Rightarrow> (''external_write_unsettled_deadline_expired'',
          ''watchdog: external write remained unsettled past deadline'')
      | _ \<Rightarrow> (''lease_or_deadline_expired'', ''watchdog: lease or deadline expired''))"

definition reaper_params :: "datetime \<Rightarrow> side_effect \<Rightarrow> reaper_transition_cas_params" where
  "reaper_params now e =
     \<lparr>rp_effect_id = se_id e, rp_observed_status = se_status e,
      rp_observed_owner = se_owner_instance_id e,
      rp_observed_lease_renewed_at = se_lease_renewed_at e,
      rp_observed_updated_at = se_updated_at e, rp_now = now,
      rp_last_error_kind = fst (watchdog_error (se_status e)),
      rp_last_error = snd (watchdog_error (se_status e))\<rparr>"

definition count_transition ::
  "(ledger_error, bool \<times> ledger) result \<Rightarrow> nat \<times> ledger \<Rightarrow> nat \<times> ledger" where
  "count_transition r s =
     (case r of
        Inr (True, l1) \<Rightarrow> (fst s + 1, l1)
      | Inr (False, l1) \<Rightarrow> (fst s, l1)
      | Inl _ \<Rightarrow> s)"

definition watchdog_one :: "host \<Rightarrow> datetime \<Rightarrow> side_effect \<Rightarrow> nat \<times> ledger \<Rightarrow> nat \<times> ledger" where
  "watchdog_one h now e s =
     (if se_status e = Settled then
        (case verify_p078_observed_evidence_summary h e of
           Inr _ \<Rightarrow> s
         | Inl err \<Rightarrow>
             count_transition
               (mark_settled_evidence_failed (se_id e) (se_updated_at e)
                 ''evidence_integrity_failed'' (''watchdog: '' @ err) now (snd s)) s)
      else count_transition (reaper_transition_cas (reaper_params now e) (snd s)) s)"

text \<open>Without writers in between, every candidate is handled on the ledger the last one left.\<close>

definition watchdog_pass :: "host \<Rightarrow> datetime \<Rightarrow> ledger \<Rightarrow> nat \<times> ledger" where
  "watchdog_pass h now l =
     fold (watchdog_one h now) (list_watchdog_recovery_candidates l now 100) (0, l)"

section \<open>Every pass is a run of the ledger\<close>

lemma reaper_params_sel [simp]:
  "rp_effect_id (reaper_params now e) = se_id e"
  "rp_observed_status (reaper_params now e) = se_status e"
  "rp_observed_owner (reaper_params now e) = se_owner_instance_id e"
  "rp_observed_lease_renewed_at (reaper_params now e) = se_lease_renewed_at e"
  "rp_observed_updated_at (reaper_params now e) = se_updated_at e"
  "rp_now (reaper_params now e) = now"
  by (simp_all add: reaper_params_def)

lemma count_transition_step:
  assumes "\<And>b l1. r = Inr (b, l1) \<Longrightarrow> ledger_step (snd s) l1"
  shows "ledger_step\<^sup>*\<^sup>* (snd s) (snd (count_transition r s))"
  using assms by (auto simp: count_transition_def split: sum.splits bool.splits)

lemma watchdog_one_run: "ledger_step\<^sup>*\<^sup>* (snd s) (snd (watchdog_one h now e s))"
proof -
  have reap: "ledger_step\<^sup>*\<^sup>* (snd s) (snd (count_transition (reaper_transition_cas r (snd s)) s))" for r
    by (rule count_transition_step) (rule ledger_step.reap)
  have ev: "ledger_step\<^sup>*\<^sup>* (snd s)
      (snd (count_transition (mark_settled_evidence_failed i u k err now (snd s)) s))" for i u k err
    by (rule count_transition_step) (rule ledger_step.evidence_failed)
  show ?thesis
    by (cases "verify_p078_observed_evidence_summary h e")
      (simp_all add: watchdog_one_def reap ev)
qed

lemma watchdog_fold_run: "ledger_step\<^sup>*\<^sup>* (snd s) (snd (fold (watchdog_one h now) es s))"
proof (induction es arbitrary: s)
  case (Cons e es)
  show ?case using watchdog_one_run [of s h now e] Cons [of "watchdog_one h now e s"] by simp
qed simp

section \<open>What a pass achieves\<close>

text \<open>The rows a pass has to move: in flight and past their lease or deadline.\<close>

definition expired :: "datetime \<Rightarrow> side_effect \<Rightarrow> bool" where
  "expired now e \<longleftrightarrow>
     (se_status e = Executing
       \<and> (null_lt (se_lease_expires_at e) now \<or> null_lt (se_deadline_at e) now))
     \<or> (se_status e = Prepared \<and> null_lt (se_deadline_at e) now)"

lemma expired_candidate: "expired now e \<Longrightarrow> watchdog_candidate now e"
  by (auto simp: expired_def watchdog_candidate_def null_lt_def split: option.splits)

text \<open>A row that is still as the pass observed it is moved.\<close>

lemma update_effects_keep_unique:
  assumes "effects_unique t" "\<And>e. P e \<Longrightarrow> is_unresolved (se_status e)"
    and "\<And>e. same_identity e (f e)"
  shows "effects_unique (sql_update P f t)"
proof -
  have ids: "map se_id (sql_update P f t) = map se_id t"
    "map se_idempotency_key (sql_update P f t) = map se_idempotency_key t"
    using assms(3) by (auto simp: map_sql_update same_identity_def)
  have "set (map (\<lambda>e. (se_run_id e, se_target_key e)) (unresolved_rows (sql_update P f u)))
      \<subseteq> set (map (\<lambda>e. (se_run_id e, se_target_key e)) (unresolved_rows u))" for u
    using assms(2,3) by (force simp: unresolved_rows_def set_sql_update same_identity_def)
  moreover have "unresolved_rows (sql_update P f (e # u)) =
      (if is_unresolved (se_status (if P e then f e else e)) then [if P e then f e else e] else [])
        @ unresolved_rows (sql_update P f u)" for e u
    by (simp add: unresolved_rows_def sql_update_def)
  ultimately have "distinct (map (\<lambda>e. (se_run_id e, se_target_key e)) (unresolved_rows u)) \<Longrightarrow>
      distinct (map (\<lambda>e. (se_run_id e, se_target_key e)) (unresolved_rows (sql_update P f u)))" for u
    using assms(2,3)
    by (induction u) (fastforce simp: unresolved_rows_def sql_update_def same_identity_def
        split: if_splits)+
  with assms(1) ids show ?thesis by (simp add: effects_unique_def)
qed

lemma reaper_moves_expired:
  assumes inv: "ledger_inv l" and e: "e \<in> set (effects l)" "expired now e"
  shows "\<exists>l1. reaper_transition_cas (reaper_params now e) l = Inr (True, l1)"
proof -
  let ?r = "reaper_params now e"
  let ?f = "to_needs_reconciliation (rp_last_error_kind ?r) (rp_last_error ?r) (rp_now ?r)"
  have g: "reaper_guard ?r e"
    using e(2) ledger_inv_row [OF inv e(1)]
    by (auto simp: reaper_guard_def reaper_executing_guard_def reaper_deadline_guard_def expired_def
        row_inv_def coalesce_def null_lt_def split: option.splits)
  have src: "se_status e = Prepared \<or> se_status e = Executing"
    using e(2) by (auto simp: expired_def)
  have "effects_unique (sql_update (reaper_guard ?r) ?f (effects l))"
    using inv src
    by (intro update_effects_keep_unique)
      (auto simp: ledger_inv_def same_identity_def to_needs_reconciliation_def is_unresolved_def
        dest!: reaper_guardD)
  moreover have "rows_affected (reaper_guard ?r) (effects l) = 1"
  proof -
    have "rows_affected (reaper_guard ?r) (effects l) \<le> 1"
      using inv by (intro rows_affected_key [of se_id _ _ "se_id e"])
        (auto simp: ledger_inv_def effects_unique_def dest: reaper_guardD)
    moreover have "0 < rows_affected (reaper_guard ?r) (effects l)"
      using g e(1) by (auto simp: rows_affected_pos)
    ultimately show ?thesis by simp
  qed
  ultimately show ?thesis
    using src
    by (auto simp: reaper_transition_cas_def Let_def update_effects_def reaper_guard_def)
qed

text \<open>One candidate changes at most its own row, and always moves it when it is expired.\<close>

definition watched :: "side_effect set \<Rightarrow> datetime \<Rightarrow> ledger \<Rightarrow> ledger \<Rightarrow> bool" where
  "watched es now l l1 \<longleftrightarrow>
     (\<forall>x\<in>set (effects l1). \<exists>y\<in>set (effects l). se_id x = se_id y
        \<and> (x = y \<and> \<not> (y \<in> es \<and> expired now y) \<or> se_status x = NeedsReconciliation))"

lemma update_effects_watched:
  assumes "update_effects P (to_needs_reconciliation k err now) l = Inr (n, l1)"
    and "\<And>e. e \<in> es \<Longrightarrow> e \<in> set (effects l) \<Longrightarrow> expired now e \<Longrightarrow> P e"
  shows "watched es now l l1"
  using assms(1)
  by (rule update_effectsE)
    (use assms(2) in \<open>fastforce simp: watched_def set_sql_update to_needs_reconciliation_def\<close>)

lemma watched_refl: "(\<And>e. e \<in> es \<Longrightarrow> e \<in> set (effects l) \<Longrightarrow> \<not> expired now e) \<Longrightarrow> watched es now l l"
  by (auto simp: watched_def)

lemma watchdog_one_watched:
  assumes inv: "ledger_inv (snd s)"
  shows "watched {e} now (snd s) (snd (watchdog_one h now e s))"
proof (cases "se_status e = Settled")
  case True
  then have calm: "\<not> expired now e" by (simp add: expired_def)
  have "watched {e} now (snd s)
      (snd (count_transition (mark_settled_evidence_failed i u k err now (snd s)) s))" for i u k err
    using calm
    by (auto simp: count_transition_def mark_settled_evidence_failed_def split: sum.splits bool.splits
        intro!: watched_refl dest!: update_effects_watched [where es = "{e}"])
  then show ?thesis
    using True calm watched_refl [of "{e}" "snd s" now]
    by (auto simp: watchdog_one_def split: sum.splits)
next
  case False
  let ?r = "reaper_params now e"
  have "watched {e} now (snd s) (snd (count_transition (reaper_transition_cas ?r (snd s)) s))"
  proof (cases "\<exists>l1. reaper_transition_cas ?r (snd s) = Inr (True, l1)")
    case True
    then obtain l1 where op: "reaper_transition_cas ?r (snd s) = Inr (True, l1)" by blast
    have "watched {e} now (snd s) l1"
      unfolding watched_def
    proof
      fix x assume x: "x \<in> set (effects l1)"
      from reaper_True(1) [OF op] obtain
        l1: "l1 = snd s\<lparr>effects := sql_update (reaper_guard ?r)
          (to_needs_reconciliation (rp_last_error_kind ?r) (rp_last_error ?r) (rp_now ?r))
          (effects (snd s))\<rparr>"
        by (rule update_effectsE)
      have "reaper_guard ?r e" if "e \<in> set (effects (snd s))" "expired now e"
        using that ledger_inv_row [OF inv that(1)]
        by (auto simp: reaper_guard_def reaper_executing_guard_def reaper_deadline_guard_def
            expired_def row_inv_def coalesce_def null_lt_def split: option.splits)
      then show "\<exists>y\<in>set (effects (snd s)). se_id x = se_id y
        \<and> (x = y \<and> \<not> (y \<in> {e} \<and> expired now y) \<or> se_status x = NeedsReconciliation)"
        using x by (auto simp: l1 set_sql_update to_needs_reconciliation_def)
    qed
    with op show ?thesis by (simp add: count_transition_def)
  next
    case no: False
    then have "\<not> expired now e" if "e \<in> set (effects (snd s))"
      using reaper_moves_expired [OF inv that] by blast
    moreover have "snd (count_transition (reaper_transition_cas ?r (snd s)) s) = snd s"
      using no by (auto simp: count_transition_def reaper_transition_cas_def Let_def split: sum.splits
          bool.splits if_splits)
    ultimately show ?thesis by (auto intro: watched_refl)
  qed
  with False show ?thesis by (simp add: watchdog_one_def)
qed

lemma watchdog_fold_watched:
  "ledger_inv (snd s) \<Longrightarrow> watched (set es) now (snd s) (snd (fold (watchdog_one h now) es s))"
proof (induction es arbitrary: s)
  case Nil
  then show ?case by (auto simp: watched_def)
next
  case (Cons e es)
  let ?m = "watchdog_one h now e s"
  have one: "watched {e} now (snd s) (snd ?m)" using Cons.prems by (rule watchdog_one_watched)
  have "ledger_inv (snd ?m)" using Cons.prems watchdog_one_run by (rule ledger_sys.run_inv)
  then have "watched (set es) now (snd ?m) (snd (fold (watchdog_one h now) es ?m))" by (rule Cons.IH)
  with one show ?case by (fastforce simp: watched_def)
qed

text \<open>
C34: a watchdog pass over at most 100 candidates leaves no effect in flight past its
deadline or lease: every such effect is in needs-reconciliation afterwards, and the
other rows are untouched or, for settled effects with bad evidence, in
needs-reconciliation too.
\<close>

theorem watchdog_pass_clears_expired:
  assumes "ledger_reachable l"
    and "length (filter (watchdog_candidate now) (effects l)) \<le> 100"
  shows "(\<forall>x\<in>set (effects (snd (watchdog_pass h now l))). \<not> expired now x)
    \<and> (\<forall>x\<in>set (effects (snd (watchdog_pass h now l))).
          x \<in> set (effects l) \<or> se_status x = NeedsReconciliation)
    \<and> ledger_step\<^sup>*\<^sup>* l (snd (watchdog_pass h now l))"
proof -
  let ?es = "list_watchdog_recovery_candidates l now 100"
  have inv: "ledger_inv (snd (0::nat, l))" using reachable_ledger_inv [OF assms(1)] by simp
  have all: "set ?es = {e \<in> set (effects l). watchdog_candidate now e}"
    using assms(2) by (simp add: list_watchdog_recovery_candidates_def)
  have w: "watched (set ?es) now l (snd (watchdog_pass h now l))"
    using watchdog_fold_watched [OF inv, of ?es now h] by (simp add: watchdog_pass_def)
  have "\<not> expired now x" if "x \<in> set (effects (snd (watchdog_pass h now l)))" for x
    using w that all expired_candidate [of now x] by (fastforce simp: watched_def expired_def)
  moreover have "ledger_step\<^sup>*\<^sup>* l (snd (watchdog_pass h now l))"
    using watchdog_fold_run [of "(0, l)" h now ?es] by (simp add: watchdog_pass_def)
  ultimately show ?thesis using w by (fastforce simp: watched_def)
qed

text \<open>The witness: at instant 50 the lease of the executing effect (until 31) has run out.\<close>

definition demo_manifest :: json where
  "demo_manifest =
     JObject [(''manifest_path'', JString ''/m''), (''manifest_sha256'', JString ''h''),
       (''files'', JArray (map (\<lambda>k. JObject [(''kind'', JString k), (''path'', JString ''/f''),
          (''sha256'', JString ''h''), (''size_bytes'', JInt 1)]) required_evidence_kinds))]"

definition demo_host :: host where
  "demo_host =
     \<lparr>fs_lstat = (\<lambda>_. LstatMeta False 1), fs_read = (\<lambda>_. ReadBytes ''x''), fs_exists = (\<lambda>_. True),
      fs_len = (\<lambda>_. Some 1), sha256_hex = (\<lambda>_. ''h''), parse_json = (\<lambda>_. Some demo_manifest)\<rparr>"

lemma watchdog_pass_clears_expired_witness:
  "expired 50 (hd (effects demo_executing))
   \<and> list_all (\<lambda>x. \<not> expired 50 x) (effects (snd (watchdog_pass demo_host 50 demo_executing)))"
proof -
  have "length (filter (watchdog_candidate 50) (effects demo_executing)) \<le> 100"
    and "expired 50 (hd (effects demo_executing))"
    by code_simp+
  with watchdog_pass_clears_expired [OF demo_reachable(2)] show ?thesis
    unfolding list_all_iff by blast
qed

section \<open>Starvation\<close>

lemma sorted_take_le:
  assumes "sorted (map f xs)" "n \<le> length (filter (\<lambda>x. f x \<le> t) xs)" "x \<in> set (take n xs)"
  shows "f x \<le> (t::'a::linorder)"
  using assms
proof (induction xs arbitrary: n)
  case (Cons y ys)
  show ?case
  proof (cases "f y \<le> t")
    case True
    then show ?thesis using Cons by (cases n) auto
  next
    case False
    with Cons.prems(1) have "filter (\<lambda>x. f x \<le> t) (y # ys) = []"
      by (force simp: filter_empty_conv)
    with Cons.prems(2,3) show ?thesis by simp
  qed
qed simp

lemma filter_sort_length:
  "length (filter P (sort_key f xs)) = length (filter P xs)"
  by (metis filter_sort length_sort)

definition verified_settled :: "host \<Rightarrow> side_effect \<Rightarrow> bool" where
  "verified_settled h e \<longleftrightarrow>
     se_status e = Settled \<and> is_ok (verify_p078_observed_evidence_summary h e)"

lemma watchdog_one_verified: "verified_settled h e \<Longrightarrow> watchdog_one h now e s = s"
  by (auto simp: verified_settled_def watchdog_one_def is_ok_def split: sum.splits)

lemma watchdog_fold_verified:
  "(\<forall>e\<in>set es. verified_settled h e) \<Longrightarrow> fold (watchdog_one h now) es s = s"
  by (induction es) (simp_all add: watchdog_one_verified)

text \<open>
Starvation. A settled effect whose evidence verifies stays a candidate of every
pass and is never modified by one; as soon as 100 of them are older than every other
candidate the pass does nothing, whatever other effects have expired.
\<close>

theorem watchdog_pass_starves:
  assumes "100 \<le> length (filter (\<lambda>x. watchdog_candidate now x \<and> se_updated_at x \<le> t) (effects l))"
    and "\<forall>x\<in>set (effects l). watchdog_candidate now x \<and> se_updated_at x \<le> t \<longrightarrow> verified_settled h x"
  shows "watchdog_pass h now l = (0, l)"
proof -
  let ?c = "sort_key se_updated_at (filter (watchdog_candidate now) (effects l))"
  have "100 \<le> length (filter (\<lambda>x. se_updated_at x \<le> t) ?c)"
    using assms(1) by (simp add: filter_sort_length filter_filter conj_commute)
  with sorted_sort_key have "\<forall>x\<in>set (take 100 ?c). se_updated_at x \<le> t"
    by (blast intro: sorted_take_le)
  moreover have "x \<in> set (effects l) \<and> watchdog_candidate now x" if "x \<in> set (take 100 ?c)" for x
    using in_set_takeD [OF that] by simp
  ultimately have "\<forall>x\<in>set (take 100 ?c). verified_settled h x"
    using assms(2) by blast
  then show ?thesis
    unfolding watchdog_pass_def list_watchdog_recovery_candidates_def by (rule watchdog_fold_verified)
qed

text \<open>The witness: a hundred settled effects hide an executing effect whose lease has run out.\<close>

definition old_settled :: "nat \<Rightarrow> side_effect" where
  "old_settled n =
     (hd (effects demo_settled))\<lparr>se_id := show_nat n, se_idempotency_key := show_nat n,
       se_updated_at := 0\<rparr>"

definition starved_ledger :: ledger where
  "starved_ledger =
     demo_executing\<lparr>effects := map old_settled [0..<100] @ effects demo_executing\<rparr>"

lemma old_settled_verified:
  "watchdog_candidate now (old_settled n)" "verified_settled demo_host (old_settled n)"
  "se_updated_at (old_settled n) = 0"
proof -
  let ?s = "hd (effects demo_settled)"
  have s: "se_status ?s = Settled" "se_observed_evidence_summary_json ?s = Some ''m''"
    "is_ok (verify_p078_observed_evidence_summary demo_host ?s)"
    by code_simp+
  then show "watchdog_candidate now (old_settled n)" "se_updated_at (old_settled n) = 0"
    by (simp_all add: watchdog_candidate_def old_settled_def)
  from s show "verified_settled demo_host (old_settled n)"
    by (simp add: verified_settled_def old_settled_def verify_p078_observed_evidence_summary_def)
qed

lemma watchdog_pass_starves_witness:
  "expired 50 (last (effects starved_ledger))
   \<and> watchdog_pass demo_host 50 starved_ledger = (0, starved_ledger)"
proof -
  have e: "length (effects demo_executing) = 1" "se_updated_at (hd (effects demo_executing)) = 1"
    "expired 50 (hd (effects demo_executing))"
    by code_simp+
  then obtain r where r: "effects demo_executing = [r]" "se_updated_at r = 1" "expired 50 r"
    by (auto simp: length_Suc_conv)
  have "watchdog_pass demo_host 50 starved_ledger = (0, starved_ledger)"
    by (rule watchdog_pass_starves [where t = 0])
      (auto simp: starved_ledger_def r(1,2) old_settled_verified filter_True)
  with r show ?thesis by (simp add: starved_ledger_def)
qed

end
