(* ===== verification/Coordinator_Properties.thy ===== *)
theory Coordinator_Properties
  imports Effect_Watchdog
begin

text \<open>
  What the coordinator guarantees: the preflights fail closed and trip their circuit, an
  intent is recorded at most once per key and target, a lease taken and used by its owner
  settles, and a lease renewed on schedule is out of the watchdog's reach.
\<close>

section \<open>The preflight interface\<close>

text \<open>
  The four preflights share one contract towards the retry and cancel commands: an open
  circuit refuses without reading, a failed read refuses and is counted, and a successful
  read closes the circuit and decides by the rows found.
\<close>

locale preflight_gate =
  fixes site :: string
    and gate :: "datetime \<Rightarrow> (string, side_effect list) result \<Rightarrow> circuits \<Rightarrow> preflight"
  assumes refuse_open: "ledger_readback_circuit_open_until site now cs = (Some t, cs1) \<Longrightarrow>
      gate now r cs = (Inl (CircuitOpen site t), cs1)"
    and read_error: "ledger_readback_circuit_open_until site now cs = (None, cs1) \<Longrightarrow>
      gate now (Inl e) cs = (Inl (ReadbackError e), snd (record_ledger_readback_error site now cs1))"
    and read_clears: "ledger_readback_circuit_open_until site now cs = (None, cs1) \<Longrightarrow>
      snd (gate now (Inr es) cs) = clear_ledger_readback_circuit site cs1"
    and verdict: "ledger_readback_circuit_open_until site now cs = (None, cs1) \<Longrightarrow>
      fst (gate now (Inr es) cs) = Inr () \<longleftrightarrow> es = []"
begin

lemma passes_iff:
  "fst (gate now r cs) = Inr ()
     \<longleftrightarrow> fst (ledger_readback_circuit_open_until site now cs) = None \<and> r = Inr []"
proof (cases "ledger_readback_circuit_open_until site now cs")
  case (Pair ot cs1)
  show ?thesis
  proof (cases ot)
    case None
    then show ?thesis using Pair read_error [of now cs cs1] verdict [of now cs cs1]
      by (cases r) simp_all
  next
    case (Some t)
    then show ?thesis using Pair refuse_open [of now cs t cs1 r] by simp
  qed
qed

lemma closed_lookup:
  "Option.bind (cs site) open_until = None \<Longrightarrow> ledger_readback_circuit_open_until site now cs = (None, cs)"
  by (simp add: ledger_readback_circuit_open_until_def)

lemma open_lookup:
  "Option.bind (cs site) open_until = Some t \<Longrightarrow> ledger_readback_circuit_open_until site now cs
     = (if now < t then (Some t, cs) else (None, cs(site := None)))"
  by (simp add: ledger_readback_circuit_open_until_def)

text \<open>One failed read below the threshold, in the window of the first one.\<close>

lemma error_counts:
  assumes "cs site = Some st" "open_until st = None" "error_count st < 2"
    and "t \<le> first_error_at st + circuit_window_seconds"
  shows "snd (gate t (Inl e) cs) site = Some (st\<lparr>error_count := error_count st + 1\<rparr>)"
    and "fst (gate t (Inl e) cs) = Inl (ReadbackError e)"
  using read_error [OF closed_lookup, of cs t e] assms
  by (simp_all add: record_ledger_readback_error_def Let_def circuit_threshold_def)

lemma first_error:
  assumes "cs site = None"
  shows "snd (gate t (Inl e) cs) site = Some \<lparr>first_error_at = t, error_count = 1, open_until = None\<rparr>"
  using read_error [OF closed_lookup, of cs t e] assms
  by (simp add: record_ledger_readback_error_def Let_def circuit_threshold_def circuit_window_seconds_def)

lemma third_error:
  assumes "cs site = Some st" "open_until st = None" "error_count st = 2"
    and "t \<le> first_error_at st + circuit_window_seconds"
  shows "Option.bind (snd (gate t (Inl e) cs) site) open_until = Some (t + circuit_open_seconds)"
  using read_error [OF closed_lookup, of cs t e] assms
  by (simp add: record_ledger_readback_error_def Let_def circuit_threshold_def)

lemma trips:
  assumes "cs site = None" "t2 \<le> t1 + circuit_window_seconds" "t3 \<le> t1 + circuit_window_seconds"
    and cs3: "cs3 = snd (gate t3 (Inl e3) (snd (gate t2 (Inl e2) (snd (gate t1 (Inl e1) cs)))))"
  shows "now < t3 + circuit_open_seconds \<Longrightarrow>
      gate now r cs3 = (Inl (CircuitOpen site (t3 + circuit_open_seconds)), cs3)"
    and "t3 + circuit_open_seconds \<le> now \<Longrightarrow> fst (gate now (Inr []) cs3) = Inr ()"
    and "t3 + circuit_open_seconds \<le> now \<Longrightarrow> snd (gate now (Inr es) cs3) site = None"
proof -
  let ?cs1 = "snd (gate t1 (Inl e1) cs)"
  have "snd (gate t2 (Inl e2) ?cs1) site
      = Some \<lparr>first_error_at = t1, error_count = 2, open_until = None\<rparr>"
    using error_counts(1) [of ?cs1 "\<lparr>first_error_at = t1, error_count = 1, open_until = None\<rparr>" t2 e2]
      first_error [of cs t1 e1] assms(1,2)
    by (simp add: numeral_2_eq_2)
  from third_error [of "snd (gate t2 (Inl e2) ?cs1)", OF this, of t3 e3]
  have "Option.bind (cs3 site) open_until = Some (t3 + circuit_open_seconds)"
    using assms(3) by (simp add: cs3)
  note open_at = open_lookup [of cs3, OF this]
  show "now < t3 + circuit_open_seconds \<Longrightarrow>
      gate now r cs3 = (Inl (CircuitOpen site (t3 + circuit_open_seconds)), cs3)"
    by (rule refuse_open) (simp add: open_at)
  show "t3 + circuit_open_seconds \<le> now \<Longrightarrow> fst (gate now (Inr []) cs3) = Inr ()"
    by (simp add: passes_iff open_at)
  show "t3 + circuit_open_seconds \<le> now \<Longrightarrow> snd (gate now (Inr es) cs3) site = None"
    by (subst read_clears [of _ _ "cs3(site := None)"])
      (simp_all add: open_at clear_ledger_readback_circuit_def)
qed

end

interpretation retry_gate:
  preflight_gate "''retry_preflight''" "retry_preflight run stage agent" for run stage agent
  by unfold_locales (auto simp: retry_preflight_def Let_def)

interpretation retry_tx_gate:
  preflight_gate "''retry_preflight_within_tx''" "retry_preflight_within_tx run stage agent"
  for run stage agent
  by unfold_locales (auto simp: retry_preflight_within_tx_def Let_def)

interpretation run_gate:
  preflight_gate "''run_unresolved_effects_preflight:'' @ operation"
    "run_unresolved_effects_preflight run operation" for run operation
  by unfold_locales
    (auto simp: run_unresolved_effects_preflight_def run_preflight_body_def split: list.splits)

interpretation cancel_tx_gate:
  preflight_gate "''run_cancel_preflight_within_tx''" "run_cancel_preflight_within_tx run" for run
  by unfold_locales
    (auto simp: run_cancel_preflight_within_tx_def run_preflight_body_def split: list.splits)

interpretation cancel_gate:
  preflight_gate "''run_unresolved_effects_preflight:cancel''" "run_cancel_preflight run" for run
  using run_gate.preflight_gate_axioms [of "''cancel''" run]
  by (simp add: run_cancel_preflight_def [abs_def])

lemma sort_key_Nil [simp]: "sort_key f xs = [] \<longleftrightarrow> xs = []"
  by (metis length_0_conv length_sort)

text \<open>
The preflights fail closed. A retry of a stage passes, in and outside a transaction,
exactly when the readback circuit of the call site is closed, the ledger could be read
and no effect of the stage is unresolved; a cancellation passes exactly when the same
holds of the whole run. In particular a failed read never lets a command through.
\<close>

theorem preflights_fail_closed:
  "(fst (retry_preflight run stage agent now (Inr (list_unresolved_for_stage l stage)) cs) = Inr ()
      \<longleftrightarrow> fst (ledger_readback_circuit_open_until ''retry_preflight'' now cs) = None
        \<and> \<not> (\<exists>e\<in>set (effects l). se_stage_execution_id e = stage \<and> is_unresolved (se_status e)))
   \<and> (fst (retry_preflight_within_tx run stage agent now (Inr (list_unresolved_for_stage_tx l stage)) cs)
        = Inr ()
      \<longleftrightarrow> fst (ledger_readback_circuit_open_until ''retry_preflight_within_tx'' now cs) = None
        \<and> \<not> (\<exists>e\<in>set (effects l). se_stage_execution_id e = stage \<and> is_unresolved (se_status e)))
   \<and> (fst (run_cancel_preflight run now (Inr (list_unresolved_for_run l run)) cs) = Inr ()
      \<longleftrightarrow> fst (ledger_readback_circuit_open_until ''run_unresolved_effects_preflight:cancel'' now cs)
            = None
        \<and> \<not> (\<exists>e\<in>set (effects l). se_run_id e = run \<and> is_unresolved (se_status e)))
   \<and> (fst (run_cancel_preflight_within_tx run now (Inr (list_unresolved_for_run_tx l run)) cs) = Inr ()
      \<longleftrightarrow> fst (ledger_readback_circuit_open_until ''run_cancel_preflight_within_tx'' now cs) = None
        \<and> \<not> (\<exists>e\<in>set (effects l). se_run_id e = run \<and> is_unresolved (se_status e)))
   \<and> fst (retry_preflight run stage agent now (Inl err) cs) \<noteq> Inr ()
   \<and> fst (retry_preflight_within_tx run stage agent now (Inl err) cs) \<noteq> Inr ()
   \<and> fst (run_cancel_preflight run now (Inl err) cs) \<noteq> Inr ()
   \<and> fst (run_cancel_preflight_within_tx run now (Inl err) cs) \<noteq> Inr ()"
  by (simp add: retry_gate.passes_iff retry_tx_gate.passes_iff cancel_gate.passes_iff
      cancel_tx_gate.passes_iff list_unresolved_for_stage_def list_unresolved_for_stage_tx_def
      list_unresolved_for_run_def list_unresolved_for_run_tx_def filter_empty_conv)

text \<open>
Three failed reads within five minutes of the first open the retry preflight's
circuit for ten minutes from the third: until then every retry is refused whatever the
ledger holds and the circuit stays as it is; from then on a successful read closes it.
\<close>

theorem readback_circuit_trips:
  assumes "cs ''retry_preflight'' = None" "t2 \<le> t1 + 300" "t3 \<le> t1 + 300"
    and "cs3 = snd (retry_preflight run stage agent t3 (Inl e3)
      (snd (retry_preflight run stage agent t2 (Inl e2)
        (snd (retry_preflight run stage agent t1 (Inl e1) cs)))))"
  shows "(now < t3 + 600 \<longrightarrow> retry_preflight run stage agent now r cs3
        = (Inl (CircuitOpen ''retry_preflight'' (t3 + 600)), cs3))
    \<and> (t3 + 600 \<le> now \<longrightarrow> fst (retry_preflight run stage agent now (Inr []) cs3) = Inr ()
        \<and> snd (retry_preflight run stage agent now (Inr es) cs3) ''retry_preflight'' = None)"
proof -
  have "circuit_window_seconds = 300" "circuit_open_seconds = 600"
    by (simp_all add: circuit_window_seconds_def circuit_open_seconds_def)
  then show ?thesis
    using retry_gate.trips [of cs t2 t1 t3 cs3 run stage agent e3 e2 e1 now] assms
    by (intro conjI impI) simp_all
qed

theorem readback_circuit_trips_witness:
  "fst (retry_preflight ''r1'' ''s1'' None 700 (Inr [])
     (snd (retry_preflight ''r1'' ''s1'' None 300 (Inl ''locked'')
       (snd (retry_preflight ''r1'' ''s1'' None 200 (Inl ''locked'')
         (snd (retry_preflight ''r1'' ''s1'' None 0 (Inl ''locked'') Map.empty)))))))
   = Inl (CircuitOpen ''retry_preflight'' 900)"
  using readback_circuit_trips [of Map.empty 200 0 300 _ "''r1''" "''s1''" None "''locked''"
      "''locked''" "''locked''" 700 "Inr []"]
  by simp

section \<open>Recording an intent\<close>

lemma new_effect_row_prepared: "prepared_row (new_effect_row i now intent)"
  by (simp add: prepared_row_def new_effect_row_def split: option.split)

lemma new_effect_row_sel [simp]:
  "se_id (new_effect_row i now intent) = i"
  "se_run_id (new_effect_row i now intent) = in_run_id intent"
  "se_target_key (new_effect_row i now intent) = in_target_key intent"
  "se_idempotency_key (new_effect_row i now intent) = in_idempotency_key intent"
  "se_status (new_effect_row i now intent) = Prepared"
  by (simp_all add: new_effect_row_def)

definition key_unused :: "prepare_effect_intent \<Rightarrow> ledger \<Rightarrow> bool" where
  "key_unused intent l \<longleftrightarrow> \<not> (\<exists>e\<in>set (effects l). se_idempotency_key e = in_idempotency_key intent)"

definition target_free :: "prepare_effect_intent \<Rightarrow> ledger \<Rightarrow> bool" where
  "target_free intent l \<longleftrightarrow>
     \<not> (\<exists>e\<in>set (effects l). se_run_id e = in_run_id intent \<and> se_target_key e = in_target_key intent
          \<and> is_unresolved (se_status e))"

lemma insert_new_effect_iff:
  assumes "ledger_inv l"
  shows "insert_effect (new_effect_row i now intent) l = Inr l1 \<longleftrightarrow>
     i \<notin> se_id ` set (effects l) \<and> key_unused intent l \<and> target_free intent l
     \<and> l1 = l\<lparr>effects := effects l @ [new_effect_row i now intent]\<rparr>"
proof -
  have unresolved: "unresolved_rows (effects l @ [new_effect_row i now intent])
      = unresolved_rows (effects l) @ [new_effect_row i now intent]"
    by (simp add: unresolved_rows_def is_unresolved_def)
  have "key_unused intent l \<longleftrightarrow> in_idempotency_key intent \<notin> se_idempotency_key ` set (effects l)"
    by (force simp: key_unused_def)
  moreover have "target_free intent l \<longleftrightarrow> (in_run_id intent, in_target_key intent)
      \<notin> (\<lambda>e. (se_run_id e, se_target_key e)) ` set (unresolved_rows (effects l))"
    by (force simp: target_free_def unresolved_rows_def)
  moreover have "effects_unique (effects l)" using assms by (simp add: ledger_inv_def)
  ultimately show ?thesis by (auto simp: insert_effect_def effects_unique_def unresolved)
qed

lemma key_lookup: "find_by_idempotency_key l (in_idempotency_key intent) = None \<longleftrightarrow> key_unused intent l"
  by (simp add: find_by_idempotency_key_def key_unused_def filter_empty_conv)

lemma target_lookup:
  assumes "key_unused intent l"
  shows "filter (\<lambda>e. se_idempotency_key e \<noteq> in_idempotency_key intent)
      (list_unresolved_by_run_and_target_key l (in_run_id intent) (in_target_key intent)) = []
    \<longleftrightarrow> target_free intent l"
  using assms
  by (auto simp: list_unresolved_by_run_and_target_key_def target_free_def key_unused_def
      filter_empty_conv)

lemma prepare_effect_insert:
  "prepare_effect c i now intent kv tv l = Inr (j, l1) \<longleftrightarrow>
     enabled c \<and> key_unused intent kv
     \<and> filter (\<lambda>e. se_idempotency_key e \<noteq> in_idempotency_key intent)
         (list_unresolved_by_run_and_target_key tv (in_run_id intent) (in_target_key intent)) = []
     \<and> j = i \<and> insert_effect (new_effect_row i now intent) l = Inr l1"
  by (auto simp: prepare_effect_def Let_def key_lookup [symmetric] split: option.splits)

text \<open>
An intent is recorded exactly when it may be. Without writers in between,
\<open>prepare_effect\<close> succeeds exactly when the feature is enabled, its key was never used and
no effect of the run on the same target is unresolved. When its lookups read older
ledgers, a success still means that key and target were free in the ledger the insert
ran on, and adds exactly the prepared row of the intent.
\<close>

theorem prepare_effect_outcome:
  assumes "ledger_reachable l" "i \<notin> se_id ` set (effects l)"
  shows "((\<exists>j l1. prepare_effect c i now intent l l l = Inr (j, l1)) \<longleftrightarrow>
      enabled c \<and> key_unused intent l \<and> target_free intent l)
    \<and> (prepare_effect c i now intent key_view target_view l = Inr (j, l1) \<longrightarrow>
      j = i \<and> key_unused intent l \<and> target_free intent l \<and> ledger_step l l1
      \<and> l1 = l\<lparr>effects := effects l @ [new_effect_row i now intent]\<rparr>)"
proof -
  have inv: "ledger_inv l" using assms(1) by (rule reachable_ledger_inv)
  have "ledger_step l l1" if "insert_effect (new_effect_row i now intent) l = Inr l1"
    using new_effect_row_prepared that by (rule ledger_step.insert)
  then show ?thesis
    using assms(2) target_lookup [of intent l]
    by (auto simp: prepare_effect_insert insert_new_effect_iff [OF inv])
qed

definition demo_intent :: prepare_effect_intent where
  "demo_intent =
     \<lparr>in_run_id = ''r1'', in_stage_execution_id = ''s1'', in_agent_execution_id = None,
      in_effect_kind = GitPush, in_target_key = ''main'', in_idempotency_key = ''k2'',
      in_idempotency_key_version = 1, in_request_fingerprint = ''f1'',
      in_request_fingerprint_version = 1, in_expected_evidence_json = None,
      in_evidence_root = None, in_deadline_at = None\<rparr>"

theorem prepare_effect_outcome_witness:
  "(\<nexists>r. prepare_effect \<lparr>instance_id = ''d'', enabled = True\<rparr> ''e2'' 7 demo_intent
      demo_executing demo_executing demo_executing = Inr r)
   \<and> (\<exists>r. prepare_effect \<lparr>instance_id = ''d'', enabled = True\<rparr> ''e2'' 7 demo_intent
      demo_settled demo_settled demo_settled = Inr r)"
proof -
  have "''e2'' \<notin> se_id ` set (effects demo_executing)" "\<not> target_free demo_intent demo_executing"
    "''e2'' \<notin> se_id ` set (effects demo_settled)" "key_unused demo_intent demo_settled"
    "target_free demo_intent demo_settled"
    by code_simp+
  then show ?thesis
    using prepare_effect_outcome [OF demo_reachable(2), of "''e2''" _ 7 demo_intent]
      prepare_effect_outcome [OF demo_reachable(5), of "''e2''" _ 7 demo_intent]
    by fastforce
qed

section \<open>Leases\<close>

text \<open>An update whose guard selects one unresolved row changes exactly that row.\<close>

lemma update_one:
  assumes "ledger_inv l" "e \<in> set (effects l)" "P e"
    and guard: "\<And>x. P x \<Longrightarrow> se_id x = se_id e \<and> is_unresolved (se_status x)"
    and "\<And>x. same_identity x (f x)"
  shows "update_effects P f l = Inr (1, l\<lparr>effects := sql_update P f (effects l)\<rparr>)"
    and "f e \<in> set (sql_update P f (effects l))"
proof -
  have u: "effects_unique (effects l)" using assms(1) by (simp add: ledger_inv_def)
  have "effects_unique (sql_update P f (effects l))"
    using u guard assms(5) by (intro update_effects_keep_unique) auto
  moreover have "rows_affected P (effects l) \<le> 1"
    using u guard by (intro rows_affected_key [of se_id]) (auto simp: effects_unique_def)
  moreover have "0 < rows_affected P (effects l)" using assms(2,3) by (auto simp: rows_affected_pos)
  ultimately show "update_effects P f l = Inr (1, l\<lparr>effects := sql_update P f (effects l)\<rparr>)"
    by (simp add: update_effects_def Let_def)
  show "f e \<in> set (sql_update P f (effects l))" using assms(2,3) by (auto simp: set_sql_update)
qed

text \<open>What a lease in the hands of an executor means in the ledger.\<close>

definition lease_row :: "effect_kind \<Rightarrow> executor_lease \<Rightarrow> side_effect \<Rightarrow> bool" where
  "lease_row kind lease e \<longleftrightarrow>
     se_id e = le_effect_id lease \<and> se_status e = Executing
     \<and> se_owner_instance_id e = Some (le_owner_instance_id lease)
     \<and> se_lease_renewed_at e = Some (le_lease_renewed_at lease)
     \<and> se_lease_expires_at e = Some (le_lease_renewed_at lease + lease_ttl_seconds kind)
     \<and> se_deadline_at e = Some (le_lease_acquired_at lease + deadline_seconds kind)"

definition holds_lease :: "effect_kind \<Rightarrow> executor_lease \<Rightarrow> bool \<Rightarrow> ledger \<Rightarrow> bool" where
  "holds_lease kind lease written l \<longleftrightarrow>
     ledger_inv l \<and> attempt_matches l (le_attempt_id lease) (le_effect_id lease)
     \<and> (\<exists>e\<in>set (effects l). lease_row kind lease e \<and> se_external_write_attempted e = written)"

lemma holds_leaseI:
  assumes "ledger_inv l" "attempt_matches l (le_attempt_id lease) (le_effect_id lease)"
    "e \<in> set (effects l)" "lease_row kind lease e" "se_external_write_attempted e = written"
  shows "holds_lease kind lease written l"
  using assms by (auto simp: holds_lease_def)

lemma holds_leaseE:
  assumes "holds_lease kind lease written l"
  obtains e where "ledger_inv l" "attempt_matches l (le_attempt_id lease) (le_effect_id lease)"
    "e \<in> set (effects l)" "lease_row kind lease e" "se_external_write_attempted e = written"
    "\<not> has_settlement l (le_effect_id lease)"
proof -
  from assms obtain e where e: "ledger_inv l"
    "attempt_matches l (le_attempt_id lease) (le_effect_id lease)"
    "e \<in> set (effects l)" "lease_row kind lease e" "se_external_write_attempted e = written"
    by (auto simp: holds_lease_def)
  moreover have "\<not> has_settlement l (le_effect_id lease)"
    using ledger_inv_row [OF e(1,3)] e(4)
    by (auto simp: has_settlement_iff row_inv_def lease_row_def in_flight_def)
  ultimately show thesis by (rule that)
qed

lemma lease_prepared_holds:
  assumes "ledger_inv l" "lease_prepared c i a kind now l = Inr (lease, l1)"
  shows "holds_lease kind lease False l1" "le_effect_id lease = i" "le_lease_renewed_at lease = now"
    "settlements l1 = settlements l"
proof -
  let ?p = "start_params c i a kind now"
  from assms(2) have op: "executor_start_cas ?p l = Inr (True, l1)"
    and lease: "lease = \<lparr>le_effect_id = i, le_attempt_id = a, le_lease_acquired_at = now,
      le_lease_renewed_at = now, le_owner_instance_id = instance_id c\<rparr>"
    by (auto simp: lease_prepared_def executor_start_def split: if_splits)
  then show "le_effect_id lease = i" "le_lease_renewed_at lease = now" by simp_all
  from op obtain lu where upd: "update_effects (start_guard ?p) (start_set ?p) l = Inr (1, lu)"
    and ins: "insert_attempt (start_attempt ?p lu) lu = Inr l1"
    by (auto simp: executor_start_cas_def split: if_splits)
  from upd have lu: "lu = l\<lparr>effects := sql_update (start_guard ?p) (start_set ?p) (effects l)\<rparr>"
    by (rule update_effectsE)
  from ins have l1: "l1 = lu\<lparr>attempts := attempts lu @ [start_attempt ?p lu]\<rparr>"
    by (rule insert_attemptE)
  from update_effects_hit [OF upd] obtain e where e: "start_guard ?p e" "start_set ?p e \<in> set (effects lu)"
    by blast
  then have "lease_row kind lease (start_set ?p e)" "\<not> se_external_write_attempted (start_set ?p e)"
    by (simp_all add: lease lease_row_def start_guard_def start_set_def start_params_def coalesce_def)
  moreover have "ledger_inv l1" using op executor_start_cas_inv [OF assms(1)] by blast
  ultimately show "holds_lease kind lease False l1"
    using e(2)
    by (auto simp: holds_lease_def l1 lease attempt_matches_def start_attempt_def start_params_def)
  show "settlements l1 = settlements l" by (simp add: l1 lu)
qed

lemma mark_write_started_holds:
  assumes "holds_lease kind lease False l"
  shows "\<exists>l1. mark_write_started lease t l = Inr (True, l1) \<and> holds_lease kind lease True l1
    \<and> settlements l1 = settlements l"
proof -
  from assms obtain e where e: "ledger_inv l" "attempt_matches l (le_attempt_id lease) (le_effect_id lease)"
    "e \<in> set (effects l)" "lease_row kind lease e" "se_external_write_attempted e = False"
    "\<not> has_settlement l (le_effect_id lease)" by (rule holds_leaseE)
  let ?P = "write_guard l (le_effect_id lease) (le_owner_instance_id lease)"
  let ?f = "\<lambda>e. e\<lparr>se_external_write_started_at := Some t, se_external_write_attempted := True,
    se_updated_at := t\<rparr>"
  let ?l1 = "l\<lparr>effects := sql_update ?P ?f (effects l)\<rparr>"
  have upd: "update_effects ?P ?f l = Inr (1, ?l1)" "?f e \<in> set (effects ?l1)"
    using update_one [of l e ?P ?f] e
    by (auto simp: write_guard_def lease_row_def same_identity_def is_unresolved_def)
  then have op: "mark_external_write_started (le_effect_id lease) (le_owner_instance_id lease) t l
      = Inr (True, ?l1)"
    by (simp add: mark_external_write_started_def)
  then have "ledger_inv ?l1" using mark_external_write_started_inv [OF e(1)] by blast
  then have "holds_lease kind lease True ?l1"
    using e(2,4) by (intro holds_leaseI [OF _ _ upd(2)]) (simp_all add: attempt_matches_def lease_row_def)
  with op show ?thesis by (simp add: mark_write_started_def)
qed

lemma renew_lease_holds:
  assumes "holds_lease kind lease w l" "now \<le> le_lease_renewed_at lease + lease_ttl_seconds kind"
  shows "\<exists>l1. renew_lease lease kind now l = Inr (lease\<lparr>le_lease_renewed_at := now\<rparr>, l1)
    \<and> holds_lease kind (lease\<lparr>le_lease_renewed_at := now\<rparr>) w l1 \<and> settlements l1 = settlements l"
proof -
  from assms(1) obtain e where e: "ledger_inv l" "attempt_matches l (le_attempt_id lease) (le_effect_id lease)"
    "e \<in> set (effects l)" "lease_row kind lease e" "se_external_write_attempted e = w"
    by (rule holds_leaseE)
  let ?P = "renew_guard (le_effect_id lease) (le_owner_instance_id lease) now"
  let ?f = "\<lambda>e. e\<lparr>se_lease_renewed_at := Some now,
    se_lease_expires_at := Some (now + lease_ttl_seconds kind), se_updated_at := now\<rparr>"
  let ?l1 = "l\<lparr>effects := sql_update ?P ?f (effects l)\<rparr>"
  have upd: "update_effects ?P ?f l = Inr (1, ?l1)" "?f e \<in> set (effects ?l1)"
    using update_one [of l e ?P ?f] e assms(2)
    by (auto simp: renew_guard_def lease_row_def same_identity_def is_unresolved_def null_ge_def)
  then have op: "lease_renew_cas (le_effect_id lease) (le_owner_instance_id lease)
      (now + lease_ttl_seconds kind) now l = Inr (True, ?l1)"
    by (simp add: lease_renew_cas_def)
  then have "ledger_inv ?l1" using lease_renew_cas_inv [OF e(1)] by blast
  then have "holds_lease kind (lease\<lparr>le_lease_renewed_at := now\<rparr>) w ?l1"
    using e(2,4,5) by (intro holds_leaseI [OF _ _ upd(2)]) (simp_all add: attempt_matches_def lease_row_def)
  with op show ?thesis by (simp add: renew_lease_def)
qed

lemma settle_success_holds:
  assumes "holds_lease kind lease w l" "now \<le> le_lease_renewed_at lease + lease_ttl_seconds kind"
    and "sid \<notin> st_id ` set (settlements l)"
  shows "\<exists>l1. settle_success lease ev txn sid now l = Inr (True, l1)
    \<and> (\<exists>e\<in>set (effects l1). se_id e = le_effect_id lease \<and> se_status e = Settled
         \<and> se_external_write_attempted e = w \<and> se_settlement_txn_id e = Some txn)
    \<and> has_settlement l1 (le_effect_id lease)"
proof -
  from assms(1) obtain e where e: "ledger_inv l" "attempt_matches l (le_attempt_id lease) (le_effect_id lease)"
    "e \<in> set (effects l)" "lease_row kind lease e" "se_external_write_attempted e = w"
    "\<not> has_settlement l (le_effect_id lease)"
    by (rule holds_leaseE)
  let ?p = "settle_success_params lease ev txn now"
  let ?l1 = "l\<lparr>effects := sql_update (settle_guard l ?p) (settle_set ?p) (effects l)\<rparr>"
  have upd: "update_effects (settle_guard l ?p) (settle_set ?p) l = Inr (1, ?l1)"
    "settle_set ?p e \<in> set (effects ?l1)"
    using update_one [of l e "settle_guard l ?p" "settle_set ?p"] e assms(2)
    by (auto simp: settle_guard_def settle_success_params_def lease_row_def settle_set_def
        same_identity_def is_unresolved_def null_ge_def)
  have "rows_affected (settle_attempt_guard ?p) (attempts l) \<le> 1"
    using e(1) by (intro rows_affected_key [of at_id]) (auto simp: ledger_inv_def settle_attempt_guard_def)
  moreover have "0 < rows_affected (settle_attempt_guard ?p) (attempts l)"
    using e(2) by (auto simp: rows_affected_pos attempt_matches_def settle_attempt_guard_def
        settle_success_params_def)
  ultimately have one: "rows_affected (settle_attempt_guard ?p) (attempts l) = 1" by simp
  have "settlements_unique (settlements l @ [settle_row ?p sid])"
    using e(1,6) assms(3)
    by (auto simp: ledger_inv_def settlements_unique_def settle_row_def settle_success_params_def
        has_settlement_def List.map_filter_def)
  then have "\<exists>l2. settle_success lease ev txn sid now l = Inr (True, l2) \<and> effects l2 = effects ?l1
      \<and> settlements l2 = settlements l @ [settle_row ?p sid]"
    using upd(1) one
    by (simp add: settle_success_def executor_settle_cas_def executor_settle_cas_tx_def Let_def
        insert_settlement_def settle_row_def settle_success_params_def settlement_status_check_def
        settlement_source_check_def)
  moreover have "st_side_effect_id (settle_row ?p sid) = le_effect_id lease"
    by (simp add: settle_row_def settle_success_params_def)
  moreover have "se_id (settle_set ?p e) = le_effect_id lease" "se_status (settle_set ?p e) = Settled"
    "se_external_write_attempted (settle_set ?p e) = w" "se_settlement_txn_id (settle_set ?p e) = Some txn"
    using e(4,5) by (simp_all add: settle_set_def settle_success_params_def lease_row_def)
  ultimately show ?thesis using upd(2) by (fastforce simp: has_settlement_def)
qed

text \<open>The ticks of a renewal loop, each within the lease the last one left.\<close>

fun ticks_in_time :: "effect_kind \<Rightarrow> datetime \<Rightarrow> 'a wakeup list \<Rightarrow> bool" where
  "ticks_in_time kind t (Tick now # ws) \<longleftrightarrow>
     now \<le> t + lease_ttl_seconds kind \<and> ticks_in_time kind now ws"
| "ticks_in_time kind t _ \<longleftrightarrow> True"

fun operation_result :: "'a wakeup list \<Rightarrow> 'a option" where
  "operation_result [] = None"
| "operation_result (Finished r # _) = Some r"
| "operation_result (Tick _ # ws) = operation_result ws"

lemma run_with_lease_renewal_holds:
  assumes "holds_lease kind lease w l" "ticks_in_time kind (le_lease_renewed_at lease) ws"
  shows "\<exists>lease1 l1. run_with_lease_renewal lease kind ws l = Inr (operation_result ws, lease1, l1)
    \<and> holds_lease kind lease1 w l1 \<and> le_effect_id lease1 = le_effect_id lease
    \<and> settlements l1 = settlements l"
  using assms
proof (induction ws arbitrary: lease l rule: operation_result.induct)
  case (3 now ws)
  from 3(3) have "now \<le> le_lease_renewed_at lease + lease_ttl_seconds kind" by simp
  from renew_lease_holds [OF 3(2) this] obtain l1 where
    r: "renew_lease lease kind now l = Inr (lease\<lparr>le_lease_renewed_at := now\<rparr>, l1)"
    "holds_lease kind (lease\<lparr>le_lease_renewed_at := now\<rparr>) w l1" "settlements l1 = settlements l"
    by blast
  from 3(1) [OF r(2)] 3(3) r(1,3) show ?case by auto
qed simp_all

subsection \<open>A lease among other writers\<close>

text \<open>
  The steps of every other writer while an executor holds its lease: any committed write of
  the ledger, except the holder's own writes on its effect, and with the watchdog acting on
  the effect only at instants neither past the lease nor past the deadline the start set.
\<close>

definition holders_write :: "executor_lease \<Rightarrow> ident \<Rightarrow> string \<Rightarrow> bool" where
  "holders_write lease i owner \<longleftrightarrow> i = le_effect_id lease \<and> owner = le_owner_instance_id lease"

definition before_expiry :: "effect_kind \<Rightarrow> executor_lease \<Rightarrow> datetime \<Rightarrow> bool" where
  "before_expiry kind lease now \<longleftrightarrow>
     now \<le> le_lease_renewed_at lease + lease_ttl_seconds kind
     \<and> now \<le> le_lease_acquired_at lease + deadline_seconds kind"

inductive others_step :: "effect_kind \<Rightarrow> executor_lease \<Rightarrow> ledger \<Rightarrow> ledger \<Rightarrow> bool"
  for kind lease where
  insert: "prepared_row e \<Longrightarrow> insert_effect e l = Inr l' \<Longrightarrow> others_step kind lease l l'"
| start_exec: "executor_start_cas p l = Inr (b, l') \<Longrightarrow> others_step kind lease l l'"
| renew: "\<not> holders_write lease i owner \<Longrightarrow>
    lease_renew_cas i owner expires now l = Inr (b, l') \<Longrightarrow> others_step kind lease l l'"
| settle: "tp_new_status p = Settled \<Longrightarrow>
    \<not> holders_write lease (tp_effect_id p) (tp_owner_instance_id p) \<Longrightarrow>
    executor_settle_cas p sid l = Inr (b, l') \<Longrightarrow> others_step kind lease l l'"
| settle_tx: "tp_new_status p = Settled \<Longrightarrow>
    attempt_matches l (tp_settlement_attempt_id p) (tp_effect_id p) \<Longrightarrow>
    \<not> holders_write lease (tp_effect_id p) (tp_owner_instance_id p) \<Longrightarrow>
    executor_settle_cas_tx p sid l = Inr (b, l') \<Longrightarrow> others_step kind lease l l'"
| fail: "\<not> holders_write lease (fp_effect_id q) (fp_owner_instance_id q) \<Longrightarrow>
    executor_fail_cas_tx q l = Inr (b, l') \<Longrightarrow> others_step kind lease l l'"
| reap: "(rp_effect_id r = le_effect_id lease \<Longrightarrow> before_expiry kind lease (rp_now r)) \<Longrightarrow>
    reaper_transition_cas r l = Inr (b, l') \<Longrightarrow> others_step kind lease l l'"
| dispose: "disposition_write sid i st src did dec h by now l = Inr (out, l') \<Longrightarrow>
    others_step kind lease l l'"
| write_started: "\<not> holders_write lease i owner \<Longrightarrow>
    mark_external_write_started i owner now l = Inr (b, l') \<Longrightarrow> others_step kind lease l l'"
| evidence_failed: "mark_settled_evidence_failed i upd kd err now l = Inr (b, l') \<Longrightarrow>
    others_step kind lease l l'"

lemma others_step_ledger_step: "others_step kind lease l l' \<Longrightarrow> ledger_step l l'"
  by (induction rule: others_step.induct) (auto intro: ledger_step.intros)

lemma update_effects_other_row:
  "update_effects P f l = Inr (n, l1) \<Longrightarrow> e \<in> set (effects l) \<Longrightarrow> \<not> P e \<Longrightarrow> e \<in> set (effects l1)"
  by (auto elim!: update_effectsE simp: set_sql_update)

lemma executor_settle_cas_tx_rows:
  assumes "executor_settle_cas_tx p sid l = Inr (b, l1)" "e \<in> set (effects l)" "\<not> settle_guard l p e"
  shows "e \<in> set (effects l1)"
  using assms update_effects_other_row
  by (fastforce simp: executor_settle_cas_tx_def Let_def elim!: insert_settlementE split: if_splits)

text \<open>No other writer touches the row the lease is on.\<close>

lemma others_step_keeps_row:
  assumes "others_step kind lease l l'" "e \<in> set (effects l)" "lease_row kind lease e"
  shows "e \<in> set (effects l')"
  using assms
proof (induction rule: others_step.induct)
  case (settle p sid l b l')
  then have "\<not> settle_guard l p e"
    by (auto simp: settle_guard_def lease_row_def holders_write_def)
  with settle show ?case
    by (auto simp: executor_settle_cas_def split: if_splits dest: executor_settle_cas_tx_rows)
next
  case (settle_tx p l sid b l')
  then have "\<not> settle_guard l p e"
    by (auto simp: settle_guard_def lease_row_def holders_write_def)
  with settle_tx show ?case by (auto dest: executor_settle_cas_tx_rows)
next
  case (reap r l b l')
  show ?case
  proof (cases b)
    case False
    with reap show ?thesis by (auto simp: reaper_transition_cas_def Let_def split: if_splits)
  next
    case True
    have "\<not> reaper_guard r e"
      using reap by (auto simp: reaper_guard_def reaper_executing_guard_def reaper_deadline_guard_def
          lease_row_def before_expiry_def null_lt_def dest!: reaper_guardD)
    with reaper_True(1) [of r l l'] reap True show ?thesis by (auto intro: update_effects_other_row)
  qed
qed (auto simp: insert_effect_def executor_start_cas_def lease_renew_cas_def executor_fail_cas_tx_def
    disposition_write_def mark_external_write_started_def mark_settled_evidence_failed_def
    start_guard_def renew_guard_def fail_guard_def disposition_update_guard_def write_guard_def
    lease_row_def holders_write_def split: if_splits
    elim!: insert_attemptE insert_settlementE dest: update_effects_other_row [of _ _ _ _ _ e])

text \<open>No attempt row is lost either.\<close>

definition attempt_key :: "side_effect_attempt \<Rightarrow> ident \<times> ident" where
  "attempt_key a = (at_id a, at_side_effect_id a)"

lemma attempt_matches_key:
  "attempt_matches l aid i \<longleftrightarrow> (aid, i) \<in> set (map attempt_key (attempts l))"
  by (force simp: attempt_matches_def attempt_key_def)

lemma attempt_keys_set [simp]:
  "map attempt_key (sql_update Q (settle_attempt_set p) t) = map attempt_key t"
  "map attempt_key (sql_update Q (fail_attempt_set q) t) = map attempt_key t"
  by (auto intro!: map_sql_update simp: attempt_key_def settle_attempt_set_def fail_attempt_set_def)

lemma update_effects_attempts: "update_effects P f l = Inr (n, l1) \<Longrightarrow> attempts l1 = attempts l"
  by (auto elim!: update_effectsE)

lemma executor_settle_cas_tx_attempts:
  "executor_settle_cas_tx p sid l = Inr (b, l1) \<Longrightarrow>
     map attempt_key (attempts l1) = map attempt_key (attempts l)"
  by (auto simp: executor_settle_cas_tx_def Let_def split: if_splits
      elim!: update_effectsE insert_settlementE)

lemma ledger_step_keeps_attempt:
  "ledger_step l l' \<Longrightarrow> \<exists>as. map attempt_key (attempts l') = map attempt_key (attempts l) @ as"
proof (induction rule: ledger_step.induct)
  case (settle p sid l b l')
  then show ?case
    by (auto simp: executor_settle_cas_def executor_settle_cas_tx_attempts split: if_splits)
next
  case (fail q l b l')
  then show ?case
    by (auto simp: executor_fail_cas_tx_def update_effects_attempts split: if_splits)
next
  case (reap r l b l')
  then show ?case
    by (auto simp: reaper_transition_cas_def Let_def update_effects_attempts
        split: if_splits side_effect_status.splits)
next
  case (start_exec p l b l')
  then show ?case
    by (auto simp: executor_start_cas_def update_effects_attempts split: if_splits elim!: insert_attemptE)
qed (auto simp: insert_effect_def lease_renew_cas_def disposition_write_def executor_settle_cas_tx_attempts
    mark_external_write_started_def mark_settled_evidence_failed_def update_effects_attempts
    split: if_splits elim!: insert_settlementE)

lemma others_step_holds:
  assumes "others_step kind lease l l'" "holds_lease kind lease w l"
  shows "holds_lease kind lease w l'"
proof -
  from assms(2) obtain e where e: "ledger_inv l" "attempt_matches l (le_attempt_id lease) (le_effect_id lease)"
    "e \<in> set (effects l)" "lease_row kind lease e" "se_external_write_attempted e = w"
    by (rule holds_leaseE)
  have step: "ledger_step l l'" using assms(1) by (rule others_step_ledger_step)
  show ?thesis
  proof (rule holds_leaseI [OF _ _ _ e(4,5)])
    show "ledger_inv l'" using e(1) step by (blast intro: ledger_sys.run_inv)
    show "attempt_matches l' (le_attempt_id lease) (le_effect_id lease)"
      using ledger_step_keeps_attempt [OF step] e(2)
      unfolding attempt_matches_key by (metis UnI1 set_append)
    show "e \<in> set (effects l')" by (rule others_step_keeps_row [OF assms(1) e(3,4)])
  qed
qed

text \<open>
  The life of a lease: its holder renews it before it ran out and marks the external write,
  and any other writer may act in between.
\<close>

inductive lease_life ::
  "effect_kind \<Rightarrow> executor_lease \<times> bool \<times> ledger \<Rightarrow> executor_lease \<times> bool \<times> ledger \<Rightarrow> bool"
  for kind where
  others: "others_step kind lease l l' \<Longrightarrow> lease_life kind (lease, w, l) (lease, w, l')"
| tick: "now \<le> le_lease_renewed_at lease + lease_ttl_seconds kind \<Longrightarrow>
    renew_lease lease kind now l = Inr (lease', l') \<Longrightarrow>
    lease_life kind (lease, w, l) (lease', w, l')"
| marked: "mark_write_started lease now l = Inr (True, l') \<Longrightarrow>
    lease_life kind (lease, w, l) (lease, True, l')"

lemma lease_life_step:
  assumes "lease_life kind s s'" "s = (lease, w, l)" "holds_lease kind lease w l"
  shows "case s' of (lease', w', l') \<Rightarrow> holds_lease kind lease' w' l'
    \<and> le_effect_id lease' = le_effect_id lease \<and> le_lease_acquired_at lease' = le_lease_acquired_at lease"
  using assms
proof (induction rule: lease_life.induct)
  case (tick now lease0 l0 lease' l' w0)
  then show ?case using renew_lease_holds [of kind lease w l now] by auto
next
  case (marked lease0 now l0 l' w0)
  then have eq: "lease0 = lease" "w0 = w" "l0 = l" by simp_all
  show ?case
  proof (cases w)
    case False
    then show ?thesis using marked eq mark_write_started_holds [of kind lease l now] by auto
  next
    case True
    from marked.prems eq obtain e where e: "ledger_inv l" "e \<in> set (effects l)"
      "lease_row kind lease e" "se_external_write_attempted e = w" by (auto elim!: holds_leaseE)
    have "update_effects (write_guard l (le_effect_id lease) (le_owner_instance_id lease)) f l
        = Inr (0, l)" for f
    proof (rule update_effects_miss [OF e(1)])
      fix x assume "x \<in> set (effects l)"
      then have "se_id x = le_effect_id lease \<Longrightarrow> x = e"
        using ledger_inv_same_row [OF e(1) _ e(2)] e(3) by (simp add: lease_row_def)
      then show "\<not> write_guard l (le_effect_id lease) (le_owner_instance_id lease) x"
        using e(4) True by (auto simp: write_guard_def)
    qed
    then show ?thesis
      using marked eq by (simp add: mark_write_started_def mark_external_write_started_def)
  qed
qed (auto dest: others_step_holds)

lemma lease_life_run:
  assumes "(lease_life kind)\<^sup>*\<^sup>* (lease, w, l) (lease', w', l')" "holds_lease kind lease w l"
  shows "holds_lease kind lease' w' l' \<and> le_effect_id lease' = le_effect_id lease
    \<and> le_lease_acquired_at lease' = le_lease_acquired_at lease"
proof -
  have "case s' of (lease', w', l') \<Rightarrow> holds_lease kind lease' w' l'
      \<and> le_effect_id lease' = le_effect_id lease \<and> le_lease_acquired_at lease' = le_lease_acquired_at lease"
    if "(lease_life kind)\<^sup>*\<^sup>* (lease, w, l) s'" for s'
    using that
  proof (induction rule: rtranclp_induct)
    case base
    then show ?case using assms(2) by simp
  next
    case (step s1 s2)
    obtain lease1 w1 l1 where s1: "s1 = (lease1, w1, l1)" by (cases s1)
    show ?case using lease_life_step [OF step.hyps(2) s1] step.IH s1 by (auto split: prod.splits)
  qed
  from this [OF assms(1)] show ?thesis by simp
qed

lemma reaper_misses_lease:
  assumes "holds_lease kind lease w l" "rp_effect_id r = le_effect_id lease"
    "before_expiry kind lease (rp_now r)"
  shows "reaper_transition_cas r l \<noteq> Inr (True, l')"
proof
  assume op: "reaper_transition_cas r l = Inr (True, l')"
  from assms(1) obtain e where e: "ledger_inv l" "e \<in> set (effects l)" "lease_row kind lease e"
    by (rule holds_leaseE)
  have "e \<in> set (effects l')"
    by (rule others_step_keeps_row [OF others_step.reap e(2,3)]) (use assms op in auto)
  moreover obtain e' where "e' \<in> set (effects l')" "se_id e' = rp_effect_id r"
    "se_status e' = NeedsReconciliation" using reaper_hit [OF op] by blast
  ultimately have "e = e'"
    using ledger_inv_same_row reaper_transition_cas_inv [OF e(1) op] e(3) assms(2)
    by (metis lease_row_def)
  then show False using e(3) \<open>se_status e' = NeedsReconciliation\<close> by (simp add: lease_row_def)
qed

text \<open>
C5: an executor that keeps its lease settles, whatever the others do. After the start of a
reachable effect, let any other writers take any steps in between, the watchdog acting on
the effect neither past its lease nor past its deadline, and let the holder renew within
the lease and mark its write. Then at every instant within the lease it has by then, the
next renewal succeeds, the write can be marked if it was not, a settlement with a fresh
settlement id is applied, leaves the effect settled with its settlement row and remembers
whether the write was marked, and at an instant that is also not past the deadline no
watchdog transition of the effect is applied.
\<close>

theorem leased_effect_settles:
  assumes "ledger_reachable l" "lease_prepared c i a kind t1 l = Inr (lease, l1)"
    and "(lease_life kind)\<^sup>*\<^sup>* (lease, False, l1) (lease2, w, l2)"
    and "t \<le> le_lease_renewed_at lease2 + lease_ttl_seconds kind"
  shows "(\<exists>l3. renew_lease lease2 kind t l2 = Inr (lease2\<lparr>le_lease_renewed_at := t\<rparr>, l3))
    \<and> (\<not> w \<longrightarrow> (\<exists>l3. mark_write_started lease2 t l2 = Inr (True, l3)))
    \<and> (sid \<notin> st_id ` set (settlements l2) \<longrightarrow>
        (\<exists>l3. settle_success lease2 ev txn sid t l2 = Inr (True, l3) \<and> has_settlement l3 i
          \<and> (\<exists>e\<in>set (effects l3). se_id e = i \<and> se_status e = Settled
               \<and> se_external_write_attempted e = w \<and> se_settlement_txn_id e = Some txn)))
    \<and> (\<forall>r l3. rp_effect_id r = i \<and> rp_now r = t \<and> t \<le> t1 + deadline_seconds kind \<longrightarrow>
        reaper_transition_cas r l2 \<noteq> Inr (True, l3))"
proof -
  have inv: "ledger_inv l" using assms(1) by (rule reachable_ledger_inv)
  have lease: "le_effect_id lease = i" "le_lease_acquired_at lease = t1"
    using assms(2) by (auto simp: lease_prepared_def split: if_splits)
  from lease_life_run [OF assms(3) lease_prepared_holds(1) [OF inv assms(2)]] lease
  have h: "holds_lease kind lease2 w l2" "le_effect_id lease2 = i" "le_lease_acquired_at lease2 = t1"
    by auto
  have "\<exists>l3. renew_lease lease2 kind t l2 = Inr (lease2\<lparr>le_lease_renewed_at := t\<rparr>, l3)"
    using renew_lease_holds [OF h(1) assms(4)] by blast
  moreover have "\<exists>l3. mark_write_started lease2 t l2 = Inr (True, l3)" if "\<not> w"
    using mark_write_started_holds [of kind lease2 l2 t] h(1) that by auto
  moreover have "reaper_transition_cas r l2 \<noteq> Inr (True, l3)"
    if "rp_effect_id r = i" "rp_now r = t" "t \<le> t1 + deadline_seconds kind" for r l3
    using reaper_misses_lease [OF h(1), of r] that h(2,3) assms(4) by (simp add: before_expiry_def)
  ultimately show ?thesis
    using settle_success_holds [OF h(1) assms(4), of sid ev txn] h(2) by auto
qed

definition demo_held :: ledger where
  "demo_held = snd (projr (lease_prepared \<lparr>instance_id = ''d'', enabled = True\<rparr> ''e1'' ''a1'' GitPush 1
     demo_prepared))"

definition demo_held_lease :: "datetime \<Rightarrow> executor_lease" where
  "demo_held_lease t =
     \<lparr>le_effect_id = ''e1'', le_attempt_id = ''a1'', le_lease_acquired_at = 1,
      le_lease_renewed_at = t, le_owner_instance_id = ''d''\<rparr>"

definition demo_held_renewed :: ledger where
  "demo_held_renewed = snd (projr (renew_lease (demo_held_lease 1) GitPush 20 demo_held))"

definition demo_held_written :: ledger where
  "demo_held_written = snd (projr (mark_write_started (demo_held_lease 20) 21 demo_held_renewed))"

lemma demo_lease_life:
  "(lease_life GitPush)\<^sup>*\<^sup>* (demo_held_lease 1, False, demo_held)
     (demo_held_lease 20, True, demo_held_written)"
proof -
  have "reaper_transition_cas (reaper_params 15 (hd (effects demo_held))) demo_held
      = Inr (False, demo_held)"
    "before_expiry GitPush (demo_held_lease 1) 15" "rp_now (reaper_params 15 (hd (effects demo_held))) = 15"
    by code_simp+
  then have "lease_life GitPush (demo_held_lease 1, False, demo_held) (demo_held_lease 1, False, demo_held)"
    by (intro lease_life.others others_step.reap) simp_all
  moreover have "renew_lease (demo_held_lease 1) GitPush 20 demo_held
      = Inr (demo_held_lease 20, demo_held_renewed)"
    "20 \<le> le_lease_renewed_at (demo_held_lease 1) + lease_ttl_seconds GitPush"
    by code_simp+
  then have "lease_life GitPush (demo_held_lease 1, False, demo_held)
      (demo_held_lease 20, False, demo_held_renewed)"
    by (intro lease_life.tick)
  moreover have "mark_write_started (demo_held_lease 20) 21 demo_held_renewed
      = Inr (True, demo_held_written)"
    by code_simp
  then have "lease_life GitPush (demo_held_lease 20, False, demo_held_renewed)
      (demo_held_lease 20, True, demo_held_written)"
    by (rule lease_life.marked)
  ultimately show ?thesis by (meson converse_rtranclp_into_rtranclp rtranclp.rtrancl_refl)
qed

theorem leased_effect_settles_witness:
  "\<exists>l3. settle_success (demo_held_lease 20) None ''t'' ''x2'' 40 demo_held_written = Inr (True, l3)
     \<and> (\<exists>e\<in>set (effects l3). se_id e = ''e1'' \<and> se_status e = Settled \<and> se_external_write_attempted e)"
proof -
  have lp: "lease_prepared \<lparr>instance_id = ''d'', enabled = True\<rparr> ''e1'' ''a1'' GitPush 1 demo_prepared
      = Inr (demo_held_lease 1, demo_held)"
    and t: "40 \<le> le_lease_renewed_at (demo_held_lease 20) + lease_ttl_seconds GitPush"
    and "''x2'' \<notin> st_id ` set (settlements demo_held_written)"
    by code_simp+
  with leased_effect_settles [OF demo_reachable(1) lp demo_lease_life t, of "''x2''" None "''t''"]
  show ?thesis by auto
qed

section \<open>Renewal against the watchdog\<close>

text \<open>
The renewal period beats the watchdog. After a renewal, and until the next one is
due, no watchdog transition on the effect applies before the effect's deadline; the
period is shorter than the lease for every kind of effect.
\<close>

theorem renewed_lease_not_reaped:
  assumes "ledger_reachable l"
    and "renew_lease lease kind now l = Inr (lease1, l1)"
    and "rp_effect_id r = le_effect_id lease" "rp_observed_status r \<in> {Prepared, Executing, ExternallyObserved}"
    and "rp_now r \<le> now + renewal_interval kind"
    and "\<forall>e\<in>set (effects l1). se_id e = le_effect_id lease \<longrightarrow> \<not> null_lt (se_deadline_at e) (rp_now r)"
  shows "reaper_transition_cas r l1 = Inr (False, l1) \<and> renewal_interval kind < lease_ttl_seconds kind"
proof
  show short: "renewal_interval kind < lease_ttl_seconds kind"
    by (cases kind) (simp_all add: renewal_interval_def)
  let ?P = "renew_guard (le_effect_id lease) (le_owner_instance_id lease) now"
  let ?f = "\<lambda>e. e\<lparr>se_lease_renewed_at := Some now,
    se_lease_expires_at := Some (now + lease_ttl_seconds kind), se_updated_at := now\<rparr>"
  have inv: "ledger_inv l" using assms(1) by (rule reachable_ledger_inv)
  from assms(2) have op: "lease_renew_cas (le_effect_id lease) (le_owner_instance_id lease)
      (now + lease_ttl_seconds kind) now l = Inr (True, l1)"
    by (auto simp: renew_lease_def split: if_splits)
  then have upd: "update_effects ?P ?f l = Inr (1, l1)" by (auto simp: lease_renew_cas_def)
  have inv1: "ledger_inv l1" using op lease_renew_cas_inv [OF inv] by blast
  from update_effects_hit [OF upd] obtain e where e: "?P e" "?f e \<in> set (effects l1)" by blast
  have "\<not> reaper_guard r x" if "x \<in> set (effects l1)" for x
  proof
    assume x: "reaper_guard r x"
    then have "x = ?f e"
      using ledger_inv_same_row [OF inv1 that e(2)] reaper_guardD [OF x] e(1) assms(3)
      by (simp add: renew_guard_def)
    moreover have "se_status (?f e) = Executing" "se_id (?f e) = le_effect_id lease"
      using e(1) by (simp_all add: renew_guard_def)
    ultimately have "null_lt (se_lease_expires_at (?f e)) (rp_now r)
        \<or> null_lt (se_deadline_at (?f e)) (rp_now r)"
      using x reaper_guardD [OF x] by (simp add: reaper_guard_def reaper_executing_guard_def)
    moreover have "\<not> null_lt (se_deadline_at (?f e)) (rp_now r)"
      using assms(6) e(2) \<open>se_id (?f e) = le_effect_id lease\<close> by blast
    ultimately show False using assms(5) short by (simp add: null_lt_def)
  qed
  then have "update_effects (reaper_guard r) f l1 = Inr (0, l1)" for f
    by (rule update_effects_miss [OF inv1])
  then show "reaper_transition_cas r l1 = Inr (False, l1)"
    using assms(4) by (auto simp: reaper_transition_cas_def Let_def reaper_guard_def [abs_def])
qed

definition demo_lease :: executor_lease where
  "demo_lease =
     \<lparr>le_effect_id = ''e1'', le_attempt_id = ''a1'', le_lease_acquired_at = 1,
      le_lease_renewed_at = 1, le_owner_instance_id = ''daemon-1''\<rparr>"

definition demo_renewed :: ledger where
  "demo_renewed = snd (projr (renew_lease demo_lease GitPush 20 demo_writing))"

theorem renewed_lease_not_reaped_witness:
  "reaper_transition_cas (reaper_params 34 (hd (effects demo_renewed))) demo_renewed
     = Inr (False, demo_renewed)"
proof -
  have "renew_lease demo_lease GitPush 20 demo_writing
      = Inr (demo_lease\<lparr>le_lease_renewed_at := 20\<rparr>, demo_renewed)"
    by code_simp
  moreover have "\<forall>e\<in>set (effects demo_renewed).
      se_id e = le_effect_id demo_lease \<longrightarrow> \<not> null_lt (se_deadline_at e) 34"
    "se_id (hd (effects demo_renewed)) = le_effect_id demo_lease"
    "se_status (hd (effects demo_renewed)) = Executing" "34 \<le> 20 + renewal_interval GitPush"
    by code_simp+
  ultimately show ?thesis
    using renewed_lease_not_reaped [OF demo_reachable(3), of demo_lease GitPush 20 _ demo_renewed
        "reaper_params 34 (hd (effects demo_renewed))"]
    by auto
qed

section \<open>Idempotency keys\<close>

text \<open>
Distinct intents get distinct keys. As long as the digest does not collide on their renderings,
two derived keys are equal only for the same kind, run, stage, agent, target and version;
identifiers are non-empty and without a colon, while the target key is arbitrary.
\<close>

theorem derived_keys_distinct:
  assumes "digest (idempotency_key_input kind run stage agent target v)
      = digest (idempotency_key_input kind' run' stage' agent' target' v') \<Longrightarrow>
      idempotency_key_input kind run stage agent target v
      = idempotency_key_input kind' run' stage' agent' target' v'"
    and "uuid_like run" "uuid_like run'" "uuid_like stage" "uuid_like stage'"
    and "\<forall>a\<in>set_option agent. uuid_like a" "\<forall>a\<in>set_option agent'. uuid_like a"
  shows "derive_idempotency_key digest kind run stage agent target v
      = derive_idempotency_key digest kind' run' stage' agent' target' v'
    \<longleftrightarrow> kind = kind' \<and> run = run' \<and> stage = stage' \<and> agent = agent' \<and> target = target' \<and> v = v'"
proof
  let ?i = "idempotency_key_input kind run stage agent target v"
  let ?i' = "idempotency_key_input kind' run' stage' agent' target' v'"
  assume "derive_idempotency_key digest kind run stage agent target v
      = derive_idempotency_key digest kind' run' stage' agent' target' v'"
  then have "show_nat v = show_nat v' \<and> digest ?i = digest ?i'"
    by (intro field_split [where c = "CHR '':''"] show_nat_no_colon) (simp add: derive_idempotency_key_def)
  with assms(1) have "?i = ?i'" by blast
  with assms(2-) show "kind = kind' \<and> run = run' \<and> stage = stage' \<and> agent = agent' \<and> target = target'
      \<and> v = v'"
    by (intro idempotency_key_input_inj)
qed simp

theorem derived_keys_distinct_witness:
  "derive_idempotency_key (\<lambda>s. s) GitPush ''r1'' ''s1'' None ''a:b'' 1
     \<noteq> derive_idempotency_key (\<lambda>s. s) GitPush ''r1'' ''s1'' (Some ''a'') ''b'' 1"
  using derived_keys_distinct [of "\<lambda>s. s" GitPush "''r1''" "''s1''" None "''a:b''" 1
      GitPush "''r1''" "''s1''" "Some ''a''" "''b''" 1]
  by (simp add: uuid_like_def)

end
