(* ===== verification/Command_Journal.thy ===== *)
theory Command_Journal
  imports Coordinator_Properties
begin

text \<open>
  The command journal (\<^verbatim>\<open>control-plane/crates/db/src/repos/command_journal.rs\<close>) and the
  idempotency table of the tool server
  (\<^verbatim>\<open>control-plane/crates/db/src/repos/mcp_command_idempotency.rs\<close>), beside the effect
  ledger they share a database with. An operation on an open transaction returns the
  tables the transaction sees; an error drops them, as the rollback does.
\<close>

section \<open>Tables\<close>

record journal_entry =
  cj_id :: ident
  cj_command_type :: string
  cj_payload_json :: string
  cj_result_status :: string
  cj_run_id :: "ident option"
  cj_created_at :: datetime
  cj_caller_surface :: "string option"
  cj_caller_principal_id :: "string option"
  cj_caller_principal_class :: "string option"
  cj_caller_tool :: "string option"
  cj_request_id :: "string option"
  cj_caller_class :: "string option"
  cj_mcp_idempotency_key :: "string option"
  cj_boundary_row_id :: "string option"
  cj_completed_at :: "datetime option"
  cj_error :: "string option"

record mcp_command_idempotency_record =
  ir_idempotency_key :: string
  ir_tool_name :: string
  ir_caller_fingerprint :: string
  ir_canonical_request_hash :: string
  ir_row_id :: "string option"
  ir_command_journal_id :: "string option"
  ir_result_json :: string
  ir_result_hash :: "string option"
  ir_committed_at_ms :: int
  ir_expires_at_ms :: int

record mcp_db =
  db_ledger :: ledger
  db_journal :: "journal_entry list"
  db_idempotency :: "mcp_command_idempotency_record list"

datatype tool_error =
  EffectNotFound
  | ParameterRequired string
  | InvalidDisposition string
  | DecisionTooLarge
  | DecisionNotJson
  | InsufficientEvidence string
  | InvalidStatusTransition string side_effect_status
  | DispositionPayloadMismatch string
  | DispositionNotApplicable ident
  | IdempotencyInFlight
  | RequestHashMissing
  | JournalConflict
  | ToolLedgerError ledger_error
  | UnknownTool string
  | ProviderQuotaRetryAfter string
  | WithContext string tool_error

text \<open>
  \<^verbatim>\<open>anyhow::Context\<close>: the wrapped error displays as its outermost context, while a typed
  error is still found inside.
\<close>

definition with_context :: "string \<Rightarrow> (tool_error, 'a) result \<Rightarrow> (tool_error, 'a) result" where
  "with_context c r = (case r of Inl e \<Rightarrow> Inl (WithContext c e) | Inr a \<Rightarrow> Inr a)"

lemma with_context_eq_Inr [simp]: "with_context c r = Inr a \<longleftrightarrow> r = Inr a"
  by (cases r) (simp_all add: with_context_def)

lemma with_context_simps [simp]:
  "with_context c (Inl e) = Inl (WithContext c e)" "with_context c (Inr a) = Inr a"
  by (simp_all add: with_context_def)

section \<open>Journal\<close>

record journal_request =
  jr_id :: ident
  jr_command_type :: string
  jr_payload_json :: string
  jr_run_id :: "ident option"
  jr_created_at :: datetime
  jr_caller_surface :: "string option"
  jr_caller_principal_id :: "string option"
  jr_caller_principal_class :: "string option"
  jr_caller_tool :: "string option"
  jr_request_id :: "string option"
  jr_caller_class :: "string option"
  jr_mcp_idempotency_key :: "string option"
  jr_boundary_row_id :: "string option"

definition pending_entry :: "journal_request \<Rightarrow> journal_entry" where
  "pending_entry q =
     \<lparr>cj_id = jr_id q, cj_command_type = jr_command_type q, cj_payload_json = jr_payload_json q,
      cj_result_status = ''pending'', cj_run_id = jr_run_id q, cj_created_at = jr_created_at q,
      cj_caller_surface = jr_caller_surface q, cj_caller_principal_id = jr_caller_principal_id q,
      cj_caller_principal_class = jr_caller_principal_class q, cj_caller_tool = jr_caller_tool q,
      cj_request_id = jr_request_id q, cj_caller_class = jr_caller_class q,
      cj_mcp_idempotency_key = jr_mcp_idempotency_key q, cj_boundary_row_id = jr_boundary_row_id q,
      cj_completed_at = None, cj_error = None\<rparr>"

definition record_tx :: "journal_request \<Rightarrow> mcp_db \<Rightarrow> (tool_error, mcp_db) result" where
  "record_tx q db =
     (if jr_id q \<in> cj_id ` set (db_journal db) then Inl JournalConflict
      else Inr (db\<lparr>db_journal := db_journal db @ [pending_entry q]\<rparr>))"

definition complete_entry_tx :: "ident \<Rightarrow> datetime \<Rightarrow> mcp_db \<Rightarrow> mcp_db" where
  "complete_entry_tx i completed_at db =
     db\<lparr>db_journal :=
       sql_update (\<lambda>e. cj_id e = i)
         (\<lambda>e. e\<lparr>cj_result_status := ''completed'', cj_completed_at := Some completed_at\<rparr>)
         (db_journal db)\<rparr>"

definition fail_entry_tx :: "ident \<Rightarrow> datetime \<Rightarrow> string \<Rightarrow> mcp_db \<Rightarrow> mcp_db" where
  "fail_entry_tx i completed_at err db =
     db\<lparr>db_journal :=
       sql_update (\<lambda>e. cj_id e = i)
         (\<lambda>e. e\<lparr>cj_result_status := ''failed'', cj_completed_at := Some completed_at,
                cj_error := Some err\<rparr>)
         (db_journal db)\<rparr>"

definition find_request_id :: "mcp_db \<Rightarrow> ident \<Rightarrow> string option" where
  "find_request_id db i =
     Option.bind (fetch_optional (filter (\<lambda>e. cj_id e = i) (db_journal db))) cj_request_id"

definition find_committed_by_idempotency_key :: "mcp_db \<Rightarrow> string \<Rightarrow> ident option" where
  "find_committed_by_idempotency_key db k =
     map_option cj_id
       (fetch_optional
         (filter (\<lambda>e. null_eq (cj_mcp_idempotency_key e) (Some k) \<and> cj_result_status e = ''completed'')
           (db_journal db)))"

section \<open>Idempotency records\<close>

definition RETENTION_MS :: int where
  "RETENTION_MS = 7 * 24 * 60 * 60 * 1000"

definition PENDING_SENTINEL :: string where
  "PENDING_SENTINEL = ''{'' @ [CHR 0x22] @ ''_pending'' @ [CHR 0x22] @ '':true}''"

definition find_by_key :: "mcp_db \<Rightarrow> string \<Rightarrow> mcp_command_idempotency_record option" where
  "find_by_key db k = fetch_optional (filter (\<lambda>r. ir_idempotency_key r = k) (db_idempotency db))"

definition pending_record ::
  "string \<Rightarrow> string \<Rightarrow> string \<Rightarrow> string \<Rightarrow> string option \<Rightarrow> int \<Rightarrow> mcp_command_idempotency_record" where
  "pending_record k tool caller hash row now_ms =
     \<lparr>ir_idempotency_key = k, ir_tool_name = tool, ir_caller_fingerprint = caller,
      ir_canonical_request_hash = hash, ir_row_id = row, ir_command_journal_id = None,
      ir_result_json = PENDING_SENTINEL, ir_result_hash = None, ir_committed_at_ms = now_ms,
      ir_expires_at_ms = now_ms + RETENTION_MS\<rparr>"

definition insert_pending_tx ::
  "string \<Rightarrow> string \<Rightarrow> string \<Rightarrow> string \<Rightarrow> string option \<Rightarrow> int \<Rightarrow> mcp_db \<Rightarrow> bool \<times> mcp_db" where
  "insert_pending_tx k tool caller hash row now_ms db =
     (if k \<in> ir_idempotency_key ` set (db_idempotency db) then (False, db)
      else (True, db\<lparr>db_idempotency :=
                   db_idempotency db @ [pending_record k tool caller hash row now_ms]\<rparr>))"

definition claim_pending_for_command_tx ::
  "string option \<Rightarrow> string \<Rightarrow> string \<Rightarrow> string option \<Rightarrow> string option \<Rightarrow> int \<Rightarrow> mcp_db
     \<Rightarrow> (tool_error, mcp_db) result" where
  "claim_pending_for_command_tx key tool caller hash row now_ms db =
     (case key of
        None \<Rightarrow> Inr db
      | Some k \<Rightarrow>
          bind_res (ok_or hash RequestHashMissing) (\<lambda>h.
            let (claimed, db1) = insert_pending_tx k tool caller h row now_ms db in
            if claimed then Inr db1 else Inl IdempotencyInFlight))"

definition update_result ::
  "string \<Rightarrow> string \<Rightarrow> string option \<Rightarrow> ident option \<Rightarrow> int \<Rightarrow> mcp_db \<Rightarrow> bool \<times> mcp_db" where
  "update_result k result_json result_hash journal_id now_ms db =
     (let P = (\<lambda>r. ir_idempotency_key r = k \<and> ir_result_json r = PENDING_SENTINEL) in
      (0 < rows_affected P (db_idempotency db),
       db\<lparr>db_idempotency :=
         sql_update P
           (\<lambda>r. r\<lparr>ir_result_json := result_json, ir_result_hash := result_hash,
                  ir_command_journal_id := journal_id, ir_committed_at_ms := now_ms\<rparr>)
           (db_idempotency db)\<rparr>))"

section \<open>What the two tables keep\<close>

text \<open>
  Keys are claimed once, journal identifiers are used once, and a journal entry that
  carries a key has its claim: so a key labels at most one entry.
\<close>

definition journal_inv :: "mcp_db \<Rightarrow> bool" where
  "journal_inv db \<longleftrightarrow>
     distinct (map ir_idempotency_key (db_idempotency db)) \<and> distinct (map cj_id (db_journal db))
     \<and> distinct (List.map_filter cj_mcp_idempotency_key (db_journal db))
     \<and> set (List.map_filter cj_mcp_idempotency_key (db_journal db))
         \<subseteq> ir_idempotency_key ` set (db_idempotency db)"

lemma map_filter_append [simp]:
  "List.map_filter f (xs @ ys) = List.map_filter f xs @ List.map_filter f ys"
  by (simp add: List.map_filter_def)

lemma map_filter_sql_update:
  "(\<And>r. k (f r) = k r) \<Longrightarrow> List.map_filter k (sql_update P f t) = List.map_filter k t"
  by (induction t) (simp_all add: sql_update_def List.map_filter_def)

lemma update_result_keys:
  "map ir_idempotency_key (db_idempotency (snd (update_result k r h j now db)))
     = map ir_idempotency_key (db_idempotency db)"
  by (simp add: update_result_def Let_def) (rule map_sql_update, simp)

lemma update_result_key_set [simp]:
  "ir_idempotency_key ` set (db_idempotency (snd (update_result k r h j now db)))
     = ir_idempotency_key ` set (db_idempotency db)"
  using update_result_keys by (metis list.set_map)

lemma update_result_sel [simp]:
  "db_ledger (snd (update_result k r h j now db)) = db_ledger db"
  "db_journal (snd (update_result k r h j now db)) = db_journal db"
  by (simp_all add: update_result_def Let_def)

lemma journal_inv_update_result:
  "journal_inv db \<Longrightarrow> journal_inv (snd (update_result k r h j now db))"
  by (simp add: journal_inv_def update_result_keys)

lemma journal_inv_complete:
  assumes "journal_inv db"
  shows "journal_inv (complete_entry_tx i t db)"
proof -
  let ?f = "\<lambda>e. e\<lparr>cj_result_status := ''completed'', cj_completed_at := Some t\<rparr>"
  have "map cj_id (sql_update P ?f u) = map cj_id u" for P and u :: "journal_entry list"
    by (rule map_sql_update) simp
  moreover have "List.map_filter cj_mcp_idempotency_key (sql_update P ?f u)
      = List.map_filter cj_mcp_idempotency_key u" for P and u :: "journal_entry list"
    by (rule map_filter_sql_update) simp
  ultimately show ?thesis using assms by (simp add: journal_inv_def complete_entry_tx_def)
qed

text \<open>Claiming a key and recording the entry that carries it, in one transaction.\<close>

lemma journal_inv_claim_record:
  assumes "journal_inv db"
    and "claim_pending_for_command_tx key tool caller hash row now_ms db = Inr db1"
    and "record_tx q db1 = Inr db2" "jr_mcp_idempotency_key q = key"
  shows "journal_inv db2"
  using assms
  by (cases key)
    (auto simp: journal_inv_def claim_pending_for_command_tx_def insert_pending_tx_def record_tx_def
      pending_entry_def pending_record_def map_filter_simps split: if_splits)

end
