(* ===== verification/Effect_Tools.thy ===== *)
theory Effect_Tools
  imports Command_Journal
begin

text \<open>
  The operator's effect tools, \<^verbatim>\<open>control-plane/crates/mcp-server/src/tools/effects.rs\<close>: the
  validation of a disposition request, the write unit that claims the idempotency key,
  journals the command and applies the disposition in one transaction, the three
  disposition handlers and the listing. What a call draws from its surroundings (clocks,
  fresh identifiers, request context, the rows an earlier read saw, SHA-256 and
  \<^verbatim>\<open>serde_json\<close>) is the record \<open>tool_env\<close>.
\<close>

section \<open>Validation\<close>

definition ALLOWED_DECISION_VALUES :: "string list" where
  "ALLOWED_DECISION_VALUES =
     [''reconciled'', ''unrecoverable'', ''conflict'', ''cleared'', ''manual_verified'']"

definition DECISION_JSON_MAX_BYTES :: int where
  "DECISION_JSON_MAX_BYTES = 64 * 1024"

definition validate_decision_v1_schema :: "json \<Rightarrow> (tool_error, unit) result" where
  "validate_decision_v1_schema v =
     (if as_object v = None then Inl (InsufficientEvidence ''decision_json must be a JSON object'')
      else
        bind_res (ok_or (get_str v ''schema_version'') (InsufficientEvidence ''schema_version'')) (\<lambda>sv.
          if sv \<noteq> ''side_effect_decision_v1'' then Inl (InsufficientEvidence ''schema_version'')
          else
            bind_res (ok_or (get_str v ''decision'') (InsufficientEvidence ''decision'')) (\<lambda>d.
              if d \<notin> set ALLOWED_DECISION_VALUES then Inl (InsufficientEvidence ''decision'')
              else
                bind_res (ok_or (get_str v ''operator_notes'') (InsufficientEvidence ''operator_notes''))
                  (\<lambda>notes.
                    if is_blank notes then Inl (InsufficientEvidence ''operator_notes'')
                    else Inr ()))))"

definition validate_uuid_format :: "string \<Rightarrow> string \<Rightarrow> (tool_error, unit) result" where
  "validate_uuid_format s field =
     (if length s \<noteq> 36 \<or> length (filter (\<lambda>c. c = CHR ''-'') s) \<noteq> 4 then Inl (InvalidDisposition field)
      else
        let parts = split_at (CHR ''-'') s in
        if map length parts \<noteq> [8, 4, 4, 4, 12]
          \<or> \<not> list_all (list_all is_ascii_hexdigit) parts
        then Inl (InvalidDisposition field) else Inr ())"

record request_context =
  rc_idempotency_key :: "string option"
  rc_request_hash :: "string option"
  rc_boundary_row_id :: "string option"
  rc_request_id :: "string option"

record principal =
  pr_id :: string
  pr_class :: string

record tool_env =
  te_view :: ledger
  te_ctx :: request_context
  te_principal :: principal
  te_now :: datetime
  te_now_ms :: int
  te_completed_at :: datetime
  te_journal_id :: ident
  te_settlement_id :: ident
  te_sha256_hex :: "string \<Rightarrow> string"
  te_parse_json :: "string \<Rightarrow> json option"
  te_render_json :: "json \<Rightarrow> string"

text \<open>The prologue the three disposition handlers share: effect, disposition and payload.\<close>

definition parse_disposition ::
  "tool_env \<Rightarrow> json \<Rightarrow> (tool_error, string \<times> string \<times> string) result" where
  "parse_disposition env params =
     bind_res (ok_or (get_str params ''effect_id'') EffectNotFound) (\<lambda>i.
     bind_res (ok_or (get_str params ''disposition_id'') (ParameterRequired ''disposition_id'')) (\<lambda>did.
     bind_res (ok_or (get_str params ''decision_json'') (ParameterRequired ''decision_json'')) (\<lambda>dec.
     bind_res (validate_uuid_format i ''effect_id'') (\<lambda>_.
     bind_res (validate_uuid_format did ''disposition_id'') (\<lambda>_.
       if DECISION_JSON_MAX_BYTES < int (length dec) then Inl DecisionTooLarge
       else
         bind_res (ok_or (te_parse_json env dec) DecisionNotJson) (\<lambda>v.
         bind_res (validate_decision_v1_schema v) (\<lambda>_. Inr (i, did, dec))))))))"

section \<open>The write unit\<close>

definition disposition_payload :: "ident \<Rightarrow> side_effect_status \<Rightarrow> string \<Rightarrow> json" where
  "disposition_payload i new_status did =
     JObject [(''effect_id'', JString i), (''new_status'', JString (show_side_effect_status new_status)),
       (''disposition_id'', JString did)]"

definition disposition_journal_request ::
  "tool_env \<Rightarrow> string \<Rightarrow> string \<Rightarrow> ident \<Rightarrow> side_effect_status \<Rightarrow> string \<Rightarrow> journal_request" where
  "disposition_journal_request env command_type tool i new_status did =
     \<lparr>jr_id = te_journal_id env, jr_command_type = command_type,
      jr_payload_json = te_render_json env (disposition_payload i new_status did),
      jr_run_id = None, jr_created_at = te_now env, jr_caller_surface = Some ''mcp'',
      jr_caller_principal_id = Some (pr_id (te_principal env)),
      jr_caller_principal_class = Some (pr_class (te_principal env)), jr_caller_tool = Some tool,
      jr_request_id = rc_request_id (te_ctx env), jr_caller_class = None,
      jr_mcp_idempotency_key = rc_idempotency_key (te_ctx env),
      jr_boundary_row_id = rc_boundary_row_id (te_ctx env)\<rparr>"

definition map_ledger :: "(ledger_error, 'a) result \<Rightarrow> (tool_error, 'a) result" where
  "map_ledger r = (case r of Inl e \<Rightarrow> Inl (ToolLedgerError e) | Inr a \<Rightarrow> Inr a)"

definition apply_effect_disposition_write_unit ::
  "tool_env \<Rightarrow> string \<Rightarrow> string \<Rightarrow> ident \<Rightarrow> side_effect_status \<Rightarrow> string \<Rightarrow> string \<Rightarrow> string \<Rightarrow> mcp_db
     \<Rightarrow> (tool_error, ident \<times> disposition_outcome \<times> mcp_db) result" where
  "apply_effect_disposition_write_unit env command_type tool i new_status did decision hash db =
     bind_res
       (with_context ''effect disposition: claim mcp idempotency''
         (claim_pending_for_command_tx (rc_idempotency_key (te_ctx env)) tool
           (pr_id (te_principal env)) (rc_request_hash (te_ctx env))
           (rc_boundary_row_id (te_ctx env)) (te_now_ms env) db)) (\<lambda>db1.
     bind_res
       (with_context ''effect disposition: record command journal''
         (record_tx (disposition_journal_request env command_type tool i new_status did) db1)) (\<lambda>db2.
     bind_res
       (with_context ''effect disposition: apply disposition''
         (map_ledger
           (apply_operator_disposition_tx (te_settlement_id env) i new_status ''mcp_operator'' did
             decision hash (pr_id (te_principal env)) (te_now env) (db_ledger db2)))) (\<lambda>(outcome, l).
       Inr (te_journal_id env, outcome,
         complete_entry_tx (te_journal_id env) (te_completed_at env) (db2\<lparr>db_ledger := l\<rparr>)))))"

section \<open>Handlers\<close>

type_synonym handler_result = "(tool_error, json) result \<times> mcp_db"

definition disposition_reply ::
  "string \<Rightarrow> string \<Rightarrow> string \<Rightarrow> ident \<Rightarrow> disposition_outcome \<Rightarrow> (tool_error, json) result" where
  "disposition_reply new_status i did journal_id outcome =
     (case outcome of
        Applied \<Rightarrow>
          Inr (JObject [(''status'', JString ''applied''), (''effect_id'', JString i),
            (''new_status'', JString new_status), (''disposition_id'', JString did),
            (''journal_id'', JString journal_id)])
      | AlreadyApplied \<Rightarrow>
          Inr (JObject [(''status'', JString ''already_applied''), (''effect_id'', JString i),
            (''disposition_id'', JString did), (''journal_id'', JString journal_id)])
      | PayloadMismatch \<Rightarrow> Inl (DispositionPayloadMismatch did)
      | NotApplicable \<Rightarrow> Inl (DispositionNotApplicable i))"

text \<open>
  A handler returns its reply and the database it leaves behind; an error before the
  commit leaves it as it was, a rejected outcome is reported after the commit.
\<close>

definition run_disposition ::
  "tool_env \<Rightarrow> json \<Rightarrow> string \<Rightarrow> string \<Rightarrow> side_effect_status \<Rightarrow> string \<Rightarrow> (side_effect_status \<Rightarrow> bool)
     \<Rightarrow> mcp_db \<Rightarrow> handler_result" where
  "run_disposition env params command_type tool new_status new_status_text admits db =
     (case parse_disposition env params of
        Inl e \<Rightarrow> (Inl e, db)
      | Inr (i, did, dec) \<Rightarrow>
          (case find_by_id (te_view env) i of
             None \<Rightarrow> (Inl EffectNotFound, db)
           | Some e \<Rightarrow>
               if \<not> admits (se_status e)
               then (Inl (InvalidStatusTransition tool (se_status e)), db)
               else
                 (case apply_effect_disposition_write_unit env command_type tool i new_status did dec
                         (te_sha256_hex env dec) db of
                    Inl err \<Rightarrow> (Inl err, db)
                  | Inr (journal_id, outcome, db1) \<Rightarrow>
                      (disposition_reply new_status_text i did journal_id outcome, db1))))"

definition handle_effects_mark_conflict :: "tool_env \<Rightarrow> json \<Rightarrow> mcp_db \<Rightarrow> handler_result" where
  "handle_effects_mark_conflict env params db =
     run_disposition env params ''EffectsMarkConflict'' ''effects.mark_conflict'' Conflict ''conflict''
       (\<lambda>s. s = NeedsReconciliation) db"

definition handle_effects_mark_unrecoverable :: "tool_env \<Rightarrow> json \<Rightarrow> mcp_db \<Rightarrow> handler_result" where
  "handle_effects_mark_unrecoverable env params db =
     run_disposition env params ''EffectsMarkUnrecoverable'' ''effects.mark_unrecoverable''
       Unrecoverable ''unrecoverable''
       (\<lambda>s. s \<in> {NeedsReconciliation, Conflict, Unrecoverable}) db"

definition handle_effects_clear_after_manual_verification ::
  "tool_env \<Rightarrow> json \<Rightarrow> mcp_db \<Rightarrow> handler_result" where
  "handle_effects_clear_after_manual_verification env params db =
     run_disposition env params ''EffectsClearAfterManualVerification''
       ''effects.clear_after_manual_verification'' Reconciled ''reconciled'' is_unresolved db"

lemmas disposition_handler_defs =
  handle_effects_mark_conflict_def handle_effects_mark_unrecoverable_def
  handle_effects_clear_after_manual_verification_def

section \<open>Listing\<close>

text \<open>\<open>rfc3339\<close> is \<^verbatim>\<open>chrono\<close>'s rendering of an instant.\<close>

definition json_opt :: "string option \<Rightarrow> json" where
  "json_opt x = (case x of None \<Rightarrow> JNull | Some s \<Rightarrow> JString s)"

definition effects_list_item :: "(datetime \<Rightarrow> string) \<Rightarrow> side_effect \<Rightarrow> json" where
  "effects_list_item rfc3339 e =
     JObject
       [(''id'', JString (se_id e)), (''run_id'', JString (se_run_id e)),
        (''stage_execution_id'', JString (se_stage_execution_id e)),
        (''effect_kind'', JString (show_effect_kind (se_effect_kind e))),
        (''effect_kind_raw'', JString (show_effect_kind (se_effect_kind e))),
        (''status'', JString (show_side_effect_status (se_status e))),
        (''status_raw'', JString (show_side_effect_status (se_status e))),
        (''target_key'', JString (se_target_key e)),
        (''idempotency_key'', JString (se_idempotency_key e)),
        (''external_write_attempted'', JBool (se_external_write_attempted e)),
        (''attempt_budget_remaining'', JInt (se_attempt_budget_remaining e)),
        (''last_error_kind'', json_opt (se_last_error_kind e)),
        (''recommended_mcp_tool'', JString ''effects.inspect or effects.reconcile''),
        (''created_at'', JString (rfc3339 (se_created_at e))),
        (''updated_at'', JString (rfc3339 (se_updated_at e)))]"

definition handle_effects_list :: "(datetime \<Rightarrow> string) \<Rightarrow> json \<Rightarrow> ledger \<Rightarrow> json" where
  "handle_effects_list rfc3339 params l =
     (let first = (case get_u64 params ''first'' of Some n \<Rightarrow> min n 100 | None \<Rightarrow> 50);
          es = (case get_str params ''run_id'' of
                  Some run \<Rightarrow> take first (list_unresolved_for_run l run)
                | None \<Rightarrow> list_unresolved l first);
          items = map (effects_list_item rfc3339) es
      in JObject [(''unresolved_count'', JInt (int (length items))), (''effects'', JArray items)])"

end
