(* ===== verification/Mcp_Idempotency.thy ===== *)
theory Mcp_Idempotency
  imports Effect_Tools "HOL-Library.List_Lexorder" "HOL-Library.Char_ord"
begin

text \<open>
  The idempotency gate of the tool server, \<^verbatim>\<open>control-plane/crates/mcp-server/src/server.rs\<close>:
  every state-changing call carries a UUIDv7 key, is looked up before it is dispatched,
  claims its key inside the command's transaction and stores its result afterwards. The
  \<^verbatim>\<open>uuid\<close> parser, the digest, \<^verbatim>\<open>serde_json\<close> and whether a storage access succeeds are fields
  of \<open>gate_env\<close>; the dispatched tool is an argument, instantiated with the effect tools.
\<close>

section \<open>Canonical request\<close>

text \<open>\<^verbatim>\<open>serde_json\<close> objects have distinct keys; the canonical form lists them in byte order.\<close>

fun canonicalize_json_for_hash :: "json \<Rightarrow> json"
  and canonicalize_list :: "json list \<Rightarrow> json list"
  and canonicalize_members :: "(string \<times> json) list \<Rightarrow> (string \<times> json) list" where
  "canonicalize_json_for_hash (JObject kvs) = JObject (sort_key fst (canonicalize_members kvs))"
| "canonicalize_json_for_hash (JArray xs) = JArray (canonicalize_list xs)"
| "canonicalize_json_for_hash JNull = JNull"
| "canonicalize_json_for_hash (JBool b) = JBool b"
| "canonicalize_json_for_hash (JInt i) = JInt i"
| "canonicalize_json_for_hash (JFloat f) = JFloat f"
| "canonicalize_json_for_hash (JString s) = JString s"
| "canonicalize_list [] = []"
| "canonicalize_list (x # xs) = canonicalize_json_for_hash x # canonicalize_list xs"
| "canonicalize_members [] = []"
| "canonicalize_members ((k, v) # kvs) = (k, canonicalize_json_for_hash v) # canonicalize_members kvs"

definition strip_idempotency_key :: "json \<Rightarrow> json" where
  "strip_idempotency_key v =
     (case v of
        JObject kvs \<Rightarrow> JObject (filter (\<lambda>(k, _). k \<notin> {''idempotency_key'', ''idempotencyKey''}) kvs)
      | _ \<Rightarrow> v)"

record gate_env =
  ge_is_uuid_v7 :: "string \<Rightarrow> bool"
  ge_caller_class :: string
  ge_principal_id :: string
  ge_token_id :: string
  ge_boundary_row_id :: "string option"
  ge_request_id :: "string option"
  ge_digest :: "json \<Rightarrow> string"
  ge_render_json :: "json \<Rightarrow> string"
  ge_parse_json :: "string \<Rightarrow> json option"
  ge_now_ms :: int
  ge_lookup_ok :: bool
  ge_journal_ok :: bool
  ge_update_ok :: bool

definition compute_canonical_request_hash :: "gate_env \<Rightarrow> string \<Rightarrow> json \<Rightarrow> string" where
  "compute_canonical_request_hash g tool arguments =
     ge_digest g
       (JObject [(''tool_name'', JString tool),
          (''arguments'', canonicalize_json_for_hash (strip_idempotency_key arguments)),
          (''caller_class'', JString (ge_caller_class g)),
          (''principal_id'', JString (ge_principal_id g)), (''token_id'', JString (ge_token_id g)),
          (''row_id'', json_opt (ge_boundary_row_id g))])"

definition extract_idempotency_key :: "json \<Rightarrow> string option" where
  "extract_idempotency_key params =
     (case get_str params ''idempotency_key'' of
        Some k \<Rightarrow> Some k
      | None \<Rightarrow> get_str params ''idempotencyKey'')"

definition is_valid_uuid_key :: "gate_env \<Rightarrow> string \<Rightarrow> bool" where
  "is_valid_uuid_key g s \<longleftrightarrow> length s \<le> 36 \<and> ge_is_uuid_v7 g s"

section \<open>Precheck and commit\<close>

datatype rpc_response = RpcSuccess json | RpcError int string json

datatype idempotency_outcome =
  Proceed string string | Cached rpc_response | Denied rpc_response

definition error_data :: "string \<Rightarrow> (string \<times> json) list \<Rightarrow> json" where
  "error_data code kvs = JObject ((''code'', JString code) # kvs)"

definition text_content :: "string \<Rightarrow> string \<times> json" where
  "text_content t =
     (''content'', JArray [JObject [(''type'', JString ''text''), (''text'', JString t)]])"

definition committed_unack :: "gate_env \<Rightarrow> string \<Rightarrow> rpc_response" where
  "committed_unack g tool =
     RpcError (- 32603) ''prior request committed but result is unavailable; check system state''
       (error_data ''IDEMPOTENCY_COMMITTED_UNACK''
         [(''tool_name'', JString tool), (''request_id'', json_opt (ge_request_id g))])"

definition recovery_json :: "ident \<Rightarrow> json" where
  "recovery_json journal_id =
     JObject [(''_idempotency'', JString ''committed_unack_recovery''),
       (''journal_id'', JString journal_id),
       (''note'', JString ''command committed; original result unavailable; retry for fresh state'')]"

definition mcp_idempotency_committed_unack_recovery ::
  "gate_env \<Rightarrow> string \<Rightarrow> string \<Rightarrow> mcp_db \<Rightarrow> idempotency_outcome \<times> mcp_db" where
  "mcp_idempotency_committed_unack_recovery g tool key db =
     (if \<not> ge_journal_ok g then (Denied (committed_unack g tool), db)
      else
        case find_committed_by_idempotency_key db key of
          None \<Rightarrow> (Denied (committed_unack g tool), db)
        | Some journal_id \<Rightarrow>
            let text = ge_render_json g (recovery_json journal_id) in
            (Cached (RpcSuccess (JObject [text_content text,
               (''_idempotency'', JString ''committed_unack_recovery'')])),
             if ge_update_ok g
             then snd (update_result key text None (Some journal_id) (ge_now_ms g) db) else db))"

definition in_flight_error :: "gate_env \<Rightarrow> string \<Rightarrow> rpc_response" where
  "in_flight_error g tool =
     RpcError (- 32603) ''idempotency key has an in-flight request; retry after completion''
       (error_data ''IDEMPOTENCY_IN_FLIGHT''
         [(''tool_name'', JString tool), (''request_id'', json_opt (ge_request_id g))])"

definition replay_response :: "gate_env \<Rightarrow> mcp_command_idempotency_record \<Rightarrow> rpc_response" where
  "replay_response g r =
     RpcSuccess (JObject
       [text_content (ge_render_json g
          (case ge_parse_json g (ir_result_json r) of Some v \<Rightarrow> v | None \<Rightarrow> JNull)),
        (''_idempotency'', JString ''duplicate_ok'')])"

definition mcp_idempotency_precheck ::
  "gate_env \<Rightarrow> string \<Rightarrow> json \<Rightarrow> mcp_db \<Rightarrow> idempotency_outcome \<times> mcp_db" where
  "mcp_idempotency_precheck g tool params db =
     (case extract_idempotency_key params of
        None \<Rightarrow>
          (Denied (RpcError (- 32602) ''idempotency_key required for state-changing tools''
             (error_data ''IDEMPOTENCY_KEY_REQUIRED'' [(''tool_name'', JString tool)])), db)
      | Some key \<Rightarrow>
          if \<not> is_valid_uuid_key g key
          then (Denied (RpcError (- 32602) ''idempotency_key must be a valid UUID''
             (error_data ''IDEMPOTENCY_KEY_INVALID'' [(''tool_name'', JString tool)])), db)
          else if \<not> ge_lookup_ok g
          then (Denied (RpcError (- 32603) ''idempotency storage unavailable''
             (error_data ''SQLITE_CONTENTION_RETRY_EXHAUSTED''
               [(''request_id'', json_opt (ge_request_id g))])), db)
          else
            let hash = compute_canonical_request_hash g tool params in
            case find_by_key db key of
              None \<Rightarrow> (Proceed key hash, db)
            | Some r \<Rightarrow>
                if ir_result_json r = PENDING_SENTINEL then
                  if ge_now_ms g - ir_committed_at_ms r < 30000
                  then (Denied (in_flight_error g tool), db)
                  else mcp_idempotency_committed_unack_recovery g tool key db
                else if ir_canonical_request_hash r = hash then (Cached (replay_response g r), db)
                else (Denied (RpcError (- 32603) ''idempotency conflict''
                   (error_data ''IDEMPOTENCY_CONFLICT'' [(''tool_name'', JString tool)])), db))"

definition mcp_idempotency_commit ::
  "gate_env \<Rightarrow> string \<Rightarrow> string \<Rightarrow> ident option \<Rightarrow> mcp_db \<Rightarrow> rpc_response option \<times> mcp_db" where
  "mcp_idempotency_commit g key result_json journal_id db =
     (case journal_id of
        None \<Rightarrow>
          (Some (RpcError (- 32603) ''state-changing MCP command result did not include journal linkage''
             (error_data ''IDEMPOTENCY_JOURNAL_LINK_MISSING''
               [(''request_id'', json_opt (ge_request_id g))])), db)
      | Some j \<Rightarrow>
          if \<not> ge_update_ok g
          then (Some (RpcError (- 32603)
             ''idempotency result could not be stored; command committed - check system state before retry''
             (error_data ''IDEMPOTENCY_COMMITTED_UNACK''
               [(''request_id'', json_opt (ge_request_id g))])), db)
          else
            let (stored, db1) = update_result key result_json None (Some j) (ge_now_ms g) db in
            if stored then (None, db1)
            else (Some (RpcError (- 32603)
               ''idempotency replay record missing after commit; check system state before retry''
               (error_data ''IDEMPOTENCY_COMMITTED_UNACK''
                 [(''request_id'', json_opt (ge_request_id g))])), db1))"

text \<open>
  \<open>quota_wait\<close> is the downcast of \<^verbatim>\<open>provider_quota_retry_after_response\<close>. The in-flight
  answer is chosen by the displayed text, that is, only for an error without context.
\<close>

fun quota_wait :: "tool_error \<Rightarrow> string option" where
  "quota_wait (ProviderQuotaRetryAfter t) = Some t"
| "quota_wait (WithContext _ e) = quota_wait e"
| "quota_wait _ = None"

text \<open>
  The branch of \<^verbatim>\<open>tools/call\<close> for a state-changing tool: \<open>dispatch\<close> receives the claimed key
  and hash and runs the tool.
\<close>

definition idempotent_tools_call ::
  "gate_env \<Rightarrow> string \<Rightarrow> json \<Rightarrow> (string option \<Rightarrow> string option \<Rightarrow> mcp_db \<Rightarrow> handler_result) \<Rightarrow> mcp_db
     \<Rightarrow> rpc_response \<times> mcp_db" where
  "idempotent_tools_call g tool params dispatch db =
     (case mcp_idempotency_precheck g tool params db of
        (Cached r, db1) \<Rightarrow> (r, db1)
      | (Denied r, db1) \<Rightarrow> (r, db1)
      | (Proceed key hash, db1) \<Rightarrow>
          (case dispatch (Some key) (Some hash) db1 of
             (Inr res, db2) \<Rightarrow>
               (case mcp_idempotency_commit g key (ge_render_json g res) (get_str res ''journal_id'') db2 of
                  (Some err, db3) \<Rightarrow> (err, db3)
                | (None, db3) \<Rightarrow> (RpcSuccess (JObject [text_content (ge_render_json g res)]), db3))
           | (Inl e, db2) \<Rightarrow>
               (case quota_wait e of
                  Some retry_after \<Rightarrow>
                    (RpcError (- 32077) ''provider quota retry window has not elapsed''
                      (error_data ''PROVIDER_QUOTA_RETRY_AFTER''
                        [(''tool_name'', JString tool), (''retry_after'', JString retry_after),
                         (''request_id'', json_opt (ge_request_id g))]), db2)
                | None \<Rightarrow>
                    if e = IdempotencyInFlight then (in_flight_error g tool, db2)
                    else
                      (RpcError (- 32603) ''INTERNAL''
                        (error_data ''INTERNAL'' [(''request_id'', json_opt (ge_request_id g))]),
                       db2))))"

text \<open>\<^verbatim>\<open>execute\<close> of the effect tools, on its state-changing tools.\<close>

definition effects_dispatch ::
  "tool_env \<Rightarrow> string \<Rightarrow> json \<Rightarrow> string option \<Rightarrow> string option \<Rightarrow> mcp_db \<Rightarrow> handler_result" where
  "effects_dispatch env tool params key hash db =
     (let env1 = env\<lparr>te_ctx := (te_ctx env)\<lparr>rc_idempotency_key := key, rc_request_hash := hash\<rparr>\<rparr> in
      if tool = ''effects.mark_conflict'' then handle_effects_mark_conflict env1 params db
      else if tool = ''effects.mark_unrecoverable'' then handle_effects_mark_unrecoverable env1 params db
      else if tool = ''effects.clear_after_manual_verification''
      then handle_effects_clear_after_manual_verification env1 params db
      else (Inl (UnknownTool tool), db))"

end
