(* ===== verification/Mcp_Idempotency_Properties.thy ===== *)
theory Mcp_Idempotency_Properties
  imports Mcp_Idempotency "HOL-Library.Multiset"
begin

text \<open>
  What the idempotency gate guarantees and where it does not: a key runs its command at
  most once and replays its result, canonicalisation ignores the order of object members,
  and a rejected disposition comes back as a success when it is retried.
\<close>

section \<open>The database as a transition system\<close>

definition empty_mcp_db :: mcp_db where
  "empty_mcp_db = \<lparr>db_ledger = empty_ledger, db_journal = [], db_idempotency = []\<rparr>"

inductive mcp_step :: "mcp_db \<Rightarrow> mcp_db \<Rightarrow> bool" where
  effect_write: "ledger_step (db_ledger db) l \<Longrightarrow> mcp_step db (db\<lparr>db_ledger := l\<rparr>)"
| write_unit: "apply_effect_disposition_write_unit env ct tool i st did dec h db = Inr (j, out, db1) \<Longrightarrow>
    mcp_step db db1"
| result_stored: "mcp_step db (snd (update_result k r h j now db))"

definition mcp_inv :: "mcp_db \<Rightarrow> bool" where
  "mcp_inv db \<longleftrightarrow> ledger_inv (db_ledger db) \<and> journal_inv db"

lemma map_ledger_eq_Inr [simp]: "map_ledger r = Inr a \<longleftrightarrow> r = Inr a"
  by (cases r) (simp_all add: map_ledger_def)

text \<open>The shape of a committed write unit.\<close>

lemma write_unitE:
  assumes "apply_effect_disposition_write_unit env ct tool i st did dec h db = Inr (j, out, db1)"
  obtains dbc dbr l where
    "claim_pending_for_command_tx (rc_idempotency_key (te_ctx env)) tool (pr_id (te_principal env))
       (rc_request_hash (te_ctx env)) (rc_boundary_row_id (te_ctx env)) (te_now_ms env) db = Inr dbc"
    "record_tx (disposition_journal_request env ct tool i st did) dbc = Inr dbr"
    "apply_operator_disposition_tx (te_settlement_id env) i st ''mcp_operator'' did dec h
       (pr_id (te_principal env)) (te_now env) (db_ledger dbr) = Inr (out, l)"
    "db1 = complete_entry_tx j (te_completed_at env) (dbr\<lparr>db_ledger := l\<rparr>)" "j = te_journal_id env"
  using assms by (auto simp: apply_effect_disposition_write_unit_def)

lemma claim_shape:
  assumes "claim_pending_for_command_tx key tool caller hash row now db = Inr dbc"
  shows "db_ledger dbc = db_ledger db" "db_journal dbc = db_journal db"
    "key = None \<Longrightarrow> dbc = db"
    "key = Some k \<Longrightarrow> k \<notin> ir_idempotency_key ` set (db_idempotency db) \<and>
       (\<exists>hv. hash = Some hv \<and> db_idempotency dbc
          = db_idempotency db @ [pending_record k tool caller hv row now])"
  using assms
  by (auto simp: claim_pending_for_command_tx_def insert_pending_tx_def split: option.splits if_splits)

lemma disposition_tx_step:
  assumes "apply_operator_disposition_tx sid i st src did dec h p now l = Inr (out, l1)"
  shows "ledger_step\<^sup>*\<^sup>* l l1"
  using assms
  by (auto simp: apply_operator_disposition_tx_def split: option.splits intro: ledger_step.dispose)

lemma complete_entry_sel [simp]:
  "db_ledger (complete_entry_tx j t db) = db_ledger db"
  "db_idempotency (complete_entry_tx j t db) = db_idempotency db"
  by (simp_all add: complete_entry_tx_def)

lemma write_unit_inv:
  assumes "mcp_inv db"
    and "apply_effect_disposition_write_unit env ct tool i st did dec h db = Inr (j, out, db1)"
  shows "mcp_inv db1"
proof -
  from assms(2) show ?thesis
  proof (rule write_unitE)
    fix dbc dbr l
    assume c: "claim_pending_for_command_tx (rc_idempotency_key (te_ctx env)) tool
        (pr_id (te_principal env)) (rc_request_hash (te_ctx env)) (rc_boundary_row_id (te_ctx env))
        (te_now_ms env) db = Inr dbc"
      and r: "record_tx (disposition_journal_request env ct tool i st did) dbc = Inr dbr"
      and d: "apply_operator_disposition_tx (te_settlement_id env) i st ''mcp_operator'' did dec h
        (pr_id (te_principal env)) (te_now env) (db_ledger dbr) = Inr (out, l)"
      and db1: "db1 = complete_entry_tx j (te_completed_at env) (dbr\<lparr>db_ledger := l\<rparr>)"
    have "journal_inv dbr"
      using assms(1) by (intro journal_inv_claim_record [OF _ c r])
        (simp_all add: mcp_inv_def disposition_journal_request_def)
    then have "journal_inv (dbr\<lparr>db_ledger := l\<rparr>)" by (simp add: journal_inv_def)
    then have j: "journal_inv db1" unfolding db1 by (rule journal_inv_complete)
    have "db_ledger dbr = db_ledger db"
      using claim_shape(1) [OF c] r by (auto simp: record_tx_def split: if_splits)
    then have "ledger_inv l"
      using assms(1) ledger_sys.run_inv [OF _ disposition_tx_step [OF d]] by (simp add: mcp_inv_def)
    with j show "mcp_inv db1" by (simp add: mcp_inv_def db1)
  qed
qed

lemma mcp_step_inv: "mcp_step db db1 \<Longrightarrow> mcp_inv db \<Longrightarrow> mcp_inv db1"
proof (induction rule: mcp_step.induct)
  case (effect_write db l)
  then show ?case using ledger_step_inv by (auto simp: mcp_inv_def journal_inv_def)
next
  case (write_unit env ct tool i st did dec h db j out db1)
  then show ?case using write_unit_inv by blast
next
  case (result_stored db k r h j now)
  then show ?case using journal_inv_update_result by (simp add: mcp_inv_def)
qed

interpretation mcp_sys: guarded_system "\<lambda>db. db = empty_mcp_db" mcp_step mcp_inv
proof
  fix db assume "db = empty_mcp_db"
  then show "mcp_inv db"
    by (simp add: mcp_inv_def empty_mcp_db_def ledger_inv_empty journal_inv_def map_filter_simps)
qed (blast intro: mcp_step_inv)

abbreviation mcp_reachable :: "mcp_db \<Rightarrow> bool" where
  "mcp_reachable \<equiv> reachable_from (\<lambda>db. db = empty_mcp_db) mcp_step"

section \<open>Keys are never released\<close>

lemma mcp_step_keeps_keys:
  "mcp_step db db1 \<Longrightarrow>
     ir_idempotency_key ` set (db_idempotency db) \<subseteq> ir_idempotency_key ` set (db_idempotency db1)"
proof (induction rule: mcp_step.induct)
  case (write_unit env ct tool i st did dec h db j out db1)
  then show ?case
  proof (rule write_unitE)
    fix dbc dbr l
    assume c: "claim_pending_for_command_tx (rc_idempotency_key (te_ctx env)) tool
        (pr_id (te_principal env)) (rc_request_hash (te_ctx env)) (rc_boundary_row_id (te_ctx env))
        (te_now_ms env) db = Inr dbc"
      and r: "record_tx (disposition_journal_request env ct tool i st did) dbc = Inr dbr"
      and db1: "db1 = complete_entry_tx j (te_completed_at env) (dbr\<lparr>db_ledger := l\<rparr>)"
    have "db_idempotency db1 = db_idempotency dbc"
      using r by (auto simp: db1 record_tx_def split: if_splits)
    then show ?thesis
      using claim_shape(3,4) [OF c] by (cases "rc_idempotency_key (te_ctx env)") auto
  qed
next
  case (result_stored db k r h j now)
  show ?case by simp
qed simp

lemma mcp_run_keeps_keys:
  "mcp_step\<^sup>*\<^sup>* db db1 \<Longrightarrow>
     ir_idempotency_key ` set (db_idempotency db) \<subseteq> ir_idempotency_key ` set (db_idempotency db1)"
proof (induction rule: rtranclp_induct)
  case (step u v)
  from step.IH mcp_step_keeps_keys [OF step.hyps(2)] show ?case by (rule subset_trans)
qed simp

lemma distinct_map_filter_once:
  "distinct (List.map_filter f xs) \<Longrightarrow> length (filter (\<lambda>x. f x = Some k) xs) \<le> 1"
proof (induction xs)
  case (Cons x xs)
  show ?case
  proof (cases "f x = Some k")
    case True
    then have "k \<notin> set (List.map_filter f xs)" using Cons.prems by (simp add: map_filter_simps)
    then have "filter (\<lambda>x. f x = Some k) xs = []"
      by (force simp: filter_empty_conv List.map_filter_def)
    then show ?thesis by simp
  next
    case False
    then show ?thesis using Cons by (auto simp: map_filter_simps split: option.splits)
  qed
qed simp

text \<open>
C3: a key runs its command once. In every reachable database a key labels at most one
journal entry, and once it labels one, every later write unit that carries the key is
rejected by the claim before it writes anything, on every continuation.
\<close>

theorem idempotency_key_runs_once:
  assumes "mcp_reachable db"
  shows "length (filter (\<lambda>e. cj_mcp_idempotency_key e = Some k) (db_journal db)) \<le> 1
    \<and> (k \<in> set (List.map_filter cj_mcp_idempotency_key (db_journal db)) \<and> mcp_step\<^sup>*\<^sup>* db db1
        \<and> rc_idempotency_key (te_ctx env) = Some k \<and> rc_request_hash (te_ctx env) = Some hash \<longrightarrow>
        apply_effect_disposition_write_unit env ct tool i st did dec h db1
          = Inl (WithContext ''effect disposition: claim mcp idempotency'' IdempotencyInFlight))"
proof -
  have j: "journal_inv db" using mcp_sys.reachable_inv [OF assms] by (simp add: mcp_inv_def)
  then have "length (filter (\<lambda>e. cj_mcp_idempotency_key e = Some k) (db_journal db)) \<le> 1"
    by (intro distinct_map_filter_once) (simp add: journal_inv_def)
  moreover have "apply_effect_disposition_write_unit env ct tool i st did dec h db1
      = Inl (WithContext ''effect disposition: claim mcp idempotency'' IdempotencyInFlight)"
    if "k \<in> set (List.map_filter cj_mcp_idempotency_key (db_journal db))" "mcp_step\<^sup>*\<^sup>* db db1"
      "rc_idempotency_key (te_ctx env) = Some k" "rc_request_hash (te_ctx env) = Some hash"
  proof -
    have "k \<in> ir_idempotency_key ` set (db_idempotency db1)"
      using that(1) j mcp_run_keeps_keys [OF that(2)] by (auto simp: journal_inv_def)
    then show ?thesis
      using that(3,4)
      by (simp add: apply_effect_disposition_write_unit_def claim_pending_for_command_tx_def
          insert_pending_tx_def)
  qed
  ultimately show ?thesis by blast
qed

text \<open>The witness: the disposition of the failed demo effect, claimed under key \<^verbatim>\<open>k\<close>.\<close>

definition demo_env :: tool_env where
  "demo_env =
     \<lparr>te_view = demo_failed,
      te_ctx = \<lparr>rc_idempotency_key = Some ''k'', rc_request_hash = Some ''h'',
        rc_boundary_row_id = None, rc_request_id = None\<rparr>,
      te_principal = \<lparr>pr_id = ''op'', pr_class = ''operator''\<rparr>, te_now = 5, te_now_ms = 5000,
      te_completed_at = 6, te_journal_id = ''j1'', te_settlement_id = ''x1'',
      te_sha256_hex = (\<lambda>s. s), te_parse_json = (\<lambda>_. None), te_render_json = (\<lambda>_. [])\<rparr>"

definition demo_unit :: "mcp_db \<Rightarrow> (tool_error, ident \<times> disposition_outcome \<times> mcp_db) result" where
  "demo_unit = apply_effect_disposition_write_unit demo_env ''EffectsMarkConflict''
     ''effects.mark_conflict'' ''e1'' Conflict ''d1'' ''{}'' ''h''"

definition demo_db :: mcp_db where
  "demo_db = empty_mcp_db\<lparr>db_ledger := demo_failed\<rparr>"

definition demo_db1 :: mcp_db where
  "demo_db1 = snd (snd (projr (demo_unit demo_db)))"

lemma ledger_reachable_mcp: "ledger_reachable l \<Longrightarrow> mcp_reachable (empty_mcp_db\<lparr>db_ledger := l\<rparr>)"
proof (induction rule: reachable_from.induct)
  case (start l)
  then show ?case by (intro reachable_from.start) (simp add: empty_mcp_db_def)
next
  case (next_state l l1)
  have "mcp_step (empty_mcp_db\<lparr>db_ledger := l\<rparr>) (empty_mcp_db\<lparr>db_ledger := l\<rparr>\<lparr>db_ledger := l1\<rparr>)"
    using next_state(2) by (intro mcp_step.effect_write) simp
  with next_state(3) show ?case
    by (auto intro: reachable_from.next_state)
qed

lemma demo_db1_reachable: "mcp_reachable demo_db1"
proof -
  have "demo_unit demo_db = Inr (''j1'', Applied, demo_db1)" by code_simp
  then show ?thesis
    using ledger_reachable_mcp [OF demo_reachable(4)] unfolding demo_unit_def demo_db_def
    by (blast intro: reachable_from.next_state mcp_step.write_unit)
qed

theorem idempotency_key_runs_once_witness:
  "demo_unit demo_db1
     = Inl (WithContext ''effect disposition: claim mcp idempotency'' IdempotencyInFlight)"
proof -
  have "''k'' \<in> set (List.map_filter cj_mcp_idempotency_key (db_journal demo_db1))" by code_simp
  then show ?thesis
    using idempotency_key_runs_once [OF demo_db1_reachable, of "''k''" demo_db1 demo_env "''h''"]
    by (simp add: demo_unit_def demo_env_def)
qed

section \<open>Replays\<close>

lemma find_by_key_unique:
  assumes "journal_inv db" "r \<in> set (db_idempotency db)"
  shows "find_by_key db (ir_idempotency_key r) = Some r"
proof -
  have "x = r" if "x \<in> set (db_idempotency db)" "ir_idempotency_key x = ir_idempotency_key r" for x
    using assms that by (auto simp: journal_inv_def dest: key_unique)
  moreover have "filter (\<lambda>x. ir_idempotency_key x = ir_idempotency_key r) (db_idempotency db) \<noteq> []"
    using assms(2) by (auto simp: filter_empty_conv)
  then obtain y ys where y: "filter (\<lambda>x. ir_idempotency_key x = ir_idempotency_key r) (db_idempotency db)
      = y # ys" by (auto simp: neq_Nil_conv)
  moreover have "y \<in> set (db_idempotency db) \<and> ir_idempotency_key y = ir_idempotency_key r"
    using arg_cong [OF y, of set] by auto
  ultimately show ?thesis by (simp add: find_by_key_def fetch_optional_def)
qed

lemma precheck_keeps:
  "db_ledger (snd (mcp_idempotency_precheck g tool params db)) = db_ledger db"
  "db_journal (snd (mcp_idempotency_precheck g tool params db)) = db_journal db"
  by (auto simp: mcp_idempotency_precheck_def mcp_idempotency_committed_unack_recovery_def Let_def
      split: option.splits)

lemma precheck_proceeds:
  "fst (mcp_idempotency_precheck g tool params db) = Proceed k h \<longleftrightarrow>
     extract_idempotency_key params = Some k \<and> is_valid_uuid_key g k \<and> ge_lookup_ok g
     \<and> find_by_key db k = None \<and> h = compute_canonical_request_hash g tool params"
  by (auto simp: mcp_idempotency_precheck_def mcp_idempotency_committed_unack_recovery_def Let_def
      split: option.splits)

text \<open>
The gate never dispatches a key twice. A call whose key already has a record, whatever
the state of that record and whatever tool is called, leaves ledger and journal as they
are; so does a call without a key or with one that is no UUIDv7, and one whose lookup
fails.
\<close>

theorem gate_blocks_repeats:
  assumes "\<forall>k. extract_idempotency_key params = Some k \<longrightarrow>
      find_by_key db k \<noteq> None \<or> \<not> is_valid_uuid_key g k \<or> \<not> ge_lookup_ok g"
  shows "db_ledger (snd (idempotent_tools_call g tool params dispatch db)) = db_ledger db
    \<and> db_journal (snd (idempotent_tools_call g tool params dispatch db)) = db_journal db"
proof -
  obtain out db1 where p: "mcp_idempotency_precheck g tool params db = (out, db1)" by fastforce
  have "\<nexists>k h. out = Proceed k h"
  proof
    assume "\<exists>k h. out = Proceed k h"
    then obtain k' h where "out = Proceed k' h" by blast
    with p precheck_proceeds [of g tool params db k' h] assms show False by auto
  qed
  then have "snd (idempotent_tools_call g tool params dispatch db) = db1"
    using p by (cases out) (auto simp: idempotent_tools_call_def)
  then show ?thesis using precheck_keeps [of g tool params db] p by simp
qed

definition demo_gate :: gate_env where
  "demo_gate =
     \<lparr>ge_is_uuid_v7 = (\<lambda>_. True), ge_caller_class = ''operator'', ge_principal_id = ''op'',
      ge_token_id = [], ge_boundary_row_id = None, ge_request_id = None,
      ge_digest = (\<lambda>_. ''h''), ge_render_json = (\<lambda>_. ''r''), ge_parse_json = (\<lambda>_. None),
      ge_now_ms = 9000, ge_lookup_ok = True, ge_journal_ok = True, ge_update_ok = True\<rparr>"

theorem gate_blocks_repeats_witness:
  "db_ledger (snd (idempotent_tools_call demo_gate ''effects.mark_conflict''
      (JObject [(''idempotency_key'', JString ''k'')])
      (effects_dispatch demo_env ''effects.mark_conflict'' (JObject [])) demo_db1)) = db_ledger demo_db1"
proof -
  have "\<forall>k. extract_idempotency_key (JObject [(''idempotency_key'', JString ''k'')]) = Some k \<longrightarrow>
      find_by_key demo_db1 k \<noteq> None"
  proof -
    have "find_by_key demo_db1 ''k'' \<noteq> None" by code_simp
    then show ?thesis by (simp add: extract_idempotency_key_def get_str_def)
  qed
  then show ?thesis
    using gate_blocks_repeats [of "JObject [(''idempotency_key'', JString ''k'')]" demo_db1 demo_gate
        "''effects.mark_conflict''"
        "effects_dispatch demo_env ''effects.mark_conflict'' (JObject [])"]
    by blast
qed

text \<open>What a dispatched disposition leaves behind when its write unit committed.\<close>

definition committed_unit :: "tool_env \<Rightarrow> string option \<Rightarrow> string option \<Rightarrow> ident \<Rightarrow> mcp_db \<Rightarrow> mcp_db \<Rightarrow> bool" where
  "committed_unit env key hash j db db1 \<longleftrightarrow>
     (\<exists>ct tool i st did dec h out.
        apply_effect_disposition_write_unit
          (env\<lparr>te_ctx := (te_ctx env)\<lparr>rc_idempotency_key := key, rc_request_hash := hash\<rparr>\<rparr>)
          ct tool i st did dec h db = Inr (j, out, db1))"

definition rejects_disposition :: "tool_error \<Rightarrow> bool" where
  "rejects_disposition e \<longleftrightarrow> (\<exists>x. e = DispositionPayloadMismatch x \<or> e = DispositionNotApplicable x)"

lemma unit_error_not_rejection:
  "apply_effect_disposition_write_unit env ct tool i st did dec h db = Inl e \<Longrightarrow> \<not> rejects_disposition e"
  by (auto simp: apply_effect_disposition_write_unit_def bind_res_def rejects_disposition_def
      with_context_def split: sum.splits prod.splits)

lemma parse_error_not_rejection: "parse_disposition env params = Inl e \<Longrightarrow> \<not> rejects_disposition e"
  by (auto simp: parse_disposition_def bind_res_def rejects_disposition_def ok_or_def
      validate_uuid_format_def validate_decision_v1_schema_def Let_def
      split: sum.splits option.splits if_splits)

lemma run_disposition_committed:
  assumes "run_disposition env params ct tool st text admits db = (r, db1)"
    and "(\<exists>res. r = Inr res) \<or> (\<exists>e. r = Inl e \<and> rejects_disposition e)"
  shows "\<exists>i did dec h j out. apply_effect_disposition_write_unit env ct tool i st did dec h db = Inr (j, out, db1)
    \<and> (\<forall>res. r = Inr res \<longrightarrow> get_str res ''journal_id'' = Some j)"
proof (cases "parse_disposition env params")
  case (Inl e)
  with assms parse_error_not_rejection [OF Inl] show ?thesis by (auto simp: run_disposition_def)
next
  case (Inr x)
  obtain i did dec where x: "x = (i, did, dec)" by (cases x)
  show ?thesis
  proof (cases "apply_effect_disposition_write_unit env ct tool i st did dec (te_sha256_hex env dec) db")
    case (Inl e)
    with assms Inr x unit_error_not_rejection [OF Inl] show ?thesis
      by (auto simp: run_disposition_def rejects_disposition_def split: option.splits if_splits)
  next
    case unit: (Inr y)
    obtain j out dbu where y: "y = (j, out, dbu)" by (cases y)
    from assms Inr x unit y have "r = disposition_reply text i did j out" "db1 = dbu"
      by (auto simp: run_disposition_def rejects_disposition_def split: option.splits if_splits)
    moreover from this have "\<forall>res. r = Inr res \<longrightarrow> get_str res ''journal_id'' = Some j"
      by (auto simp: disposition_reply_def get_str_def split: disposition_outcome.splits)
    ultimately show ?thesis using unit y by blast
  qed
qed

lemma effects_dispatch_committed:
  assumes "effects_dispatch env tool params key hash db = (r, db1)"
    and "(\<exists>res. r = Inr res) \<or> (\<exists>e. r = Inl e \<and> rejects_disposition e)"
  shows "\<exists>j. committed_unit env key hash j db db1
    \<and> (\<forall>res. r = Inr res \<longrightarrow> get_str res ''journal_id'' = Some j)"
proof -
  let ?env = "env\<lparr>te_ctx := (te_ctx env)\<lparr>rc_idempotency_key := key, rc_request_hash := hash\<rparr>\<rparr>"
  have "handle_effects_mark_conflict ?env params db = (r, db1)
      \<or> handle_effects_mark_unrecoverable ?env params db = (r, db1)
      \<or> handle_effects_clear_after_manual_verification ?env params db = (r, db1)"
    using assms by (auto simp: effects_dispatch_def Let_def rejects_disposition_def split: if_splits)
  then have "\<exists>ct tn st text admits. run_disposition ?env params ct tn st text admits db = (r, db1)"
    unfolding disposition_handler_defs by blast
  then obtain ct tn st nt admits where "run_disposition ?env params ct tn st nt admits db = (r, db1)"
    by blast
  from run_disposition_committed [OF this assms(2)] obtain i did dec h j out where
    "apply_effect_disposition_write_unit ?env ct tn i st did dec h db = Inr (j, out, db1)"
    "\<forall>res. r = Inr res \<longrightarrow> get_str res ''journal_id'' = Some j" by blast
  then show ?thesis unfolding committed_unit_def by blast
qed

text \<open>The claim of a committed unit is pending, and its journal entry completed.\<close>

lemma committed_unit_facts:
  assumes "committed_unit env (Some k) (Some hash) j db db1"
  shows "\<exists>r\<in>set (db_idempotency db1). ir_idempotency_key r = k \<and> ir_result_json r = PENDING_SENTINEL
      \<and> ir_canonical_request_hash r = hash \<and> ir_committed_at_ms r = te_now_ms env"
    and "\<exists>j'. find_committed_by_idempotency_key db1 k = Some j'"
    and "mcp_step db db1"
proof -
  let ?env = "env\<lparr>te_ctx := (te_ctx env)\<lparr>rc_idempotency_key := Some k, rc_request_hash := Some hash\<rparr>\<rparr>"
  from assms obtain ct tool i st did dec h out where
    u: "apply_effect_disposition_write_unit ?env ct tool i st did dec h db = Inr (j, out, db1)"
    by (auto simp: committed_unit_def)
  then show "mcp_step db db1" by (rule mcp_step.write_unit)
  from u show "\<exists>r\<in>set (db_idempotency db1). ir_idempotency_key r = k \<and> ir_result_json r = PENDING_SENTINEL
      \<and> ir_canonical_request_hash r = hash \<and> ir_committed_at_ms r = te_now_ms env"
    by (auto elim!: write_unitE simp: claim_pending_for_command_tx_def insert_pending_tx_def
        record_tx_def pending_record_def split: if_splits)
  let ?q = "disposition_journal_request ?env ct tool i st did"
  let ?e = "(pending_entry ?q)\<lparr>cj_result_status := ''completed'', cj_completed_at := Some (te_completed_at env)\<rparr>"
  from u have "?e \<in> set (db_journal db1)"
    by (auto elim!: write_unitE simp: record_tx_def complete_entry_tx_def sql_update_snoc
        disposition_journal_request_def pending_entry_def split: if_splits)
  then have "filter (\<lambda>e. null_eq (cj_mcp_idempotency_key e) (Some k) \<and> cj_result_status e = ''completed'')
      (db_journal db1) \<noteq> []"
    by (auto simp: filter_empty_conv disposition_journal_request_def pending_entry_def intro!: bexI [of _ ?e])
  then show "\<exists>j'. find_committed_by_idempotency_key db1 k = Some j'"
    by (auto simp: find_committed_by_idempotency_key_def fetch_optional_def neq_Nil_conv)
qed

lemma mcp_step_keeps_result:
  "mcp_step db db1 \<Longrightarrow> r \<in> set (db_idempotency db) \<Longrightarrow> ir_result_json r \<noteq> PENDING_SENTINEL \<Longrightarrow>
     r \<in> set (db_idempotency db1)"
proof (induction rule: mcp_step.induct)
  case (write_unit env ct tool i st did dec h db j out db1)
  from write_unit(1) have "set (db_idempotency db) \<subseteq> set (db_idempotency db1)"
    by (rule write_unitE)
      (auto simp: claim_pending_for_command_tx_def insert_pending_tx_def record_tx_def
        split: option.splits if_splits)
  with write_unit(2) show ?case by blast
qed (auto simp: update_result_def Let_def set_sql_update)

lemma mcp_run_keeps_result:
  "mcp_step\<^sup>*\<^sup>* db db1 \<Longrightarrow> r \<in> set (db_idempotency db) \<Longrightarrow> ir_result_json r \<noteq> PENDING_SENTINEL \<Longrightarrow>
     r \<in> set (db_idempotency db1)"
  by (induction rule: rtranclp_induct) (auto intro: mcp_step_keeps_result)

lemma update_result_hit:
  assumes "r \<in> set (db_idempotency db)" "ir_idempotency_key r = k" "ir_result_json r = PENDING_SENTINEL"
  shows "fst (update_result k text h j now db)"
    and "r\<lparr>ir_result_json := text, ir_result_hash := h, ir_command_journal_id := j,
      ir_committed_at_ms := now\<rparr> \<in> set (db_idempotency (snd (update_result k text h j now db)))"
  using assms by (auto simp: update_result_def Let_def rows_affected_pos set_sql_update)

text \<open>
C33: a replay returns the stored result. When a disposition succeeds under a fresh key,
the call answers with its result and stores it; from then on, on every continuation and at
any time, the same request is answered with the same result and changes nothing. About
\<^verbatim>\<open>serde_json\<close> this uses that the rendered result parses back and that the pending marker
parses to an object without a journal id.
\<close>

theorem replay_returns_result:
  assumes "mcp_reachable db"
    and "extract_idempotency_key params = Some k" "is_valid_uuid_key g k" "ge_lookup_ok g"
      "ge_update_ok g" "find_by_key db k = None"
    and "effects_dispatch env tool params (Some k) (Some (compute_canonical_request_hash g tool params)) db
      = (Inr res, db1)"
    and "ge_parse_json g (ge_render_json g res) = Some res"
    and "\<forall>v. ge_parse_json g PENDING_SENTINEL = Some v \<longrightarrow> get_str v ''journal_id'' = None"
  shows "\<exists>db2. idempotent_tools_call g tool params (effects_dispatch env tool params) db
        = (RpcSuccess (JObject [text_content (ge_render_json g res)]), db2)
    \<and> (\<forall>t db3 dispatch. mcp_step\<^sup>*\<^sup>* db2 db3 \<longrightarrow>
        idempotent_tools_call (g\<lparr>ge_now_ms := t\<rparr>) tool params dispatch db3
          = (RpcSuccess (JObject [text_content (ge_render_json g res),
               (''_idempotency'', JString ''duplicate_ok'')]), db3))"
proof -
  let ?h = "compute_canonical_request_hash g tool params" and ?text = "ge_render_json g res"
  from effects_dispatch_committed [OF assms(7)] obtain j where
    u: "committed_unit env (Some k) (Some ?h) j db db1" and j: "get_str res ''journal_id'' = Some j" by auto
  from committed_unit_facts(1) [OF u] obtain r where r: "r \<in> set (db_idempotency db1)"
    "ir_idempotency_key r = k" "ir_result_json r = PENDING_SENTINEL" "ir_canonical_request_hash r = ?h"
    by blast
  define db2 where "db2 = snd (update_result k ?text None (Some j) (ge_now_ms g) db1)"
  define r2 where "r2 = r\<lparr>ir_result_json := ?text, ir_result_hash := None,
    ir_command_journal_id := Some j, ir_committed_at_ms := ge_now_ms g\<rparr>"
  have hit: "update_result k ?text None (Some j) (ge_now_ms g) db1 = (True, db2)"
    using update_result_hit(1) [OF r(1,2,3)] by (simp add: db2_def prod_eq_iff)
  have r2: "r2 \<in> set (db_idempotency db2)"
    using update_result_hit(2) [OF r(1,2,3)] by (simp add: db2_def r2_def)
  have inv2: "mcp_inv db2"
    using mcp_sys.reachable_inv [OF assms(1)] committed_unit_facts(3) [OF u] mcp_step_inv
      mcp_step.result_stored unfolding db2_def by blast
  have first: "idempotent_tools_call g tool params (effects_dispatch env tool params) db
      = (RpcSuccess (JObject [text_content ?text]), db2)"
    using assms(2-7) hit j
    by (simp add: idempotent_tools_call_def mcp_idempotency_precheck_def Let_def mcp_idempotency_commit_def)
  have done_text: "?text \<noteq> PENDING_SENTINEL" using assms(8,9) j by fastforce
  have "idempotent_tools_call (g\<lparr>ge_now_ms := t\<rparr>) tool params dispatch db3
      = (RpcSuccess (JObject [text_content ?text, (''_idempotency'', JString ''duplicate_ok'')]), db3)"
    if "mcp_step\<^sup>*\<^sup>* db2 db3" for t db3 dispatch
  proof -
    have "r2 \<in> set (db_idempotency db3)"
      using mcp_run_keeps_result [OF that r2] done_text by (simp add: r2_def)
    moreover have "journal_inv db3" using mcp_sys.run_inv [OF inv2 that] by (simp add: mcp_inv_def)
    ultimately have "find_by_key db3 k = Some r2"
      using find_by_key_unique [of db3 r2] r(2) by (simp add: r2_def)
    moreover have "compute_canonical_request_hash (g\<lparr>ge_now_ms := t\<rparr>) tool params = ?h"
      by (simp add: compute_canonical_request_hash_def)
    ultimately show ?thesis
      using assms(2,3,4,8) done_text r(4)
      by (simp add: idempotent_tools_call_def mcp_idempotency_precheck_def Let_def is_valid_uuid_key_def
          r2_def replay_response_def)
  qed
  with first show ?thesis by blast
qed

text \<open>
C35: a rejected disposition turns into a success. When the ledger rejects a disposition
(its identifier was used with another payload, or the effect cannot be changed any more),
the write unit still commits the claim and a completed journal entry. The call itself
answers with an internal error; but 30 seconds later any call under the same key, be it
the same request or another one, is answered as a committed command.
\<close>

theorem rejected_disposition_becomes_success:
  assumes "extract_idempotency_key params = Some k" "is_valid_uuid_key g k" "ge_lookup_ok g"
      "find_by_key db k = None" "journal_inv db"
    and "effects_dispatch env tool params (Some k) (Some (compute_canonical_request_hash g tool params)) db
      = (Inl e, db1)" "rejects_disposition e"
    and "extract_idempotency_key params' = Some k" "is_valid_uuid_key g' k" "ge_lookup_ok g'"
      "ge_journal_ok g'" "te_now_ms env + 30000 \<le> ge_now_ms g'"
  shows "(\<exists>data. idempotent_tools_call g tool params (effects_dispatch env tool params) db
        = (RpcError (- 32603) ''INTERNAL'' data, db1))
    \<and> (\<exists>j. fst (idempotent_tools_call g' tool' params' dispatch db1)
        = RpcSuccess (JObject [text_content (ge_render_json g' (recovery_json j)),
            (''_idempotency'', JString ''committed_unack_recovery'')]))"
proof
  let ?h = "compute_canonical_request_hash g tool params"
  from assms(7) show "\<exists>data. idempotent_tools_call g tool params (effects_dispatch env tool params) db
      = (RpcError (- 32603) ''INTERNAL'' data, db1)"
    using assms(1-4,6)
    by (auto simp: idempotent_tools_call_def mcp_idempotency_precheck_def Let_def rejects_disposition_def)
  from effects_dispatch_committed [OF assms(6)] assms(7) obtain j where
    u: "committed_unit env (Some k) (Some ?h) j db db1" by auto
  from committed_unit_facts(1) [OF u] obtain r where r: "r \<in> set (db_idempotency db1)"
    "ir_idempotency_key r = k" "ir_result_json r = PENDING_SENTINEL" "ir_committed_at_ms r = te_now_ms env"
    by blast
  from committed_unit_facts(2) [OF u] obtain j' where
    j': "find_committed_by_idempotency_key db1 k = Some j'" by blast
  from u have "journal_inv db1"
    unfolding committed_unit_def
    by (elim exE) (erule write_unitE, simp only:, rule journal_inv_complete,
      use assms(5) in \<open>auto dest!: journal_inv_claim_record [OF assms(5)]
        simp: journal_inv_def disposition_journal_request_def\<close>)
  then have "find_by_key db1 k = Some r" using find_by_key_unique [of db1 r] r by simp
  then show "\<exists>j. fst (idempotent_tools_call g' tool' params' dispatch db1)
      = RpcSuccess (JObject [text_content (ge_render_json g' (recovery_json j)),
          (''_idempotency'', JString ''committed_unack_recovery'')])"
    using assms(8-12) r(3,4) j'
    by (auto simp: idempotent_tools_call_def mcp_idempotency_precheck_def Let_def
        mcp_idempotency_committed_unack_recovery_def)
qed

text \<open>
  The witnesses: an effect with a UUID fails, the operator marks it as a conflict (the
  replay), and then tries to clear it as the reconcile tool recommends (the rejection).
\<close>

definition uid :: ident where
  "uid = ''00000000-0000-4000-8000-000000000001''"

definition u_prepared :: ledger where
  "u_prepared = ok_ledger (insert_effect (demo_row\<lparr>se_id := uid\<rparr>) empty_ledger)"

definition u_executing :: ledger where
  "u_executing = ok_snd (executor_start_cas (demo_start\<lparr>sp_effect_id := uid\<rparr>) u_prepared)"

definition u_failed :: ledger where
  "u_failed = ok_snd (executor_fail_cas_tx (demo_fail\<lparr>fp_effect_id := uid\<rparr>) u_executing)"

lemma u_failed_reachable: "ledger_reachable u_failed"
proof -
  have "ledger_reachable empty_ledger" by (rule reachable_from.start) simp
  moreover have "prepared_row (demo_row\<lparr>se_id := uid\<rparr>)" by (simp add: prepared_row_def demo_row_def)
  moreover have "insert_effect (demo_row\<lparr>se_id := uid\<rparr>) empty_ledger = Inr u_prepared"
    "executor_start_cas (demo_start\<lparr>sp_effect_id := uid\<rparr>) u_prepared = Inr (True, u_executing)"
    "executor_fail_cas_tx (demo_fail\<lparr>fp_effect_id := uid\<rparr>) u_executing = Inr (True, u_failed)"
    by code_simp+
  ultimately show ?thesis
    using ledger_reachable_step ledger_step.insert ledger_step.start_exec ledger_step.fail by metis
qed

definition u_decision :: json where
  "u_decision =
     JObject [(''schema_version'', JString ''side_effect_decision_v1''), (''decision'', JString ''conflict''),
       (''operator_notes'', JString ''checked'')]"

definition u_params :: "string \<Rightarrow> string \<Rightarrow> json" where
  "u_params key did =
     JObject [(''idempotency_key'', JString key), (''effect_id'', JString uid),
       (''disposition_id'', JString did), (''decision_json'', JString ''{}'')]"

definition u_env :: "ident \<Rightarrow> ledger \<Rightarrow> tool_env" where
  "u_env j view = demo_env\<lparr>te_view := view, te_parse_json := (\<lambda>_. Some u_decision), te_journal_id := j\<rparr>"

definition u_db :: mcp_db where
  "u_db = empty_mcp_db\<lparr>db_ledger := u_failed\<rparr>"

definition u_call ::
  "(string \<Rightarrow> json option) \<Rightarrow> int \<Rightarrow> string \<Rightarrow> string \<Rightarrow> string \<Rightarrow> ident \<Rightarrow> mcp_db \<Rightarrow> rpc_response \<times> mcp_db" where
  "u_call parse now tool key did j db =
     idempotent_tools_call (demo_gate\<lparr>ge_parse_json := parse, ge_now_ms := now\<rparr>) tool (u_params key did)
       (effects_dispatch (u_env j (db_ledger db)) tool (u_params key did)) db"

definition u_did :: "string \<Rightarrow> string" where
  "u_did d = ''00000000-0000-4000-9000-00000000000'' @ d"

definition u_reply :: json where
  "u_reply =
     JObject [(''status'', JString ''applied''), (''effect_id'', JString uid),
       (''new_status'', JString ''conflict''), (''disposition_id'', JString (u_did ''1'')),
       (''journal_id'', JString ''j1'')]"

definition u_parse :: "string \<Rightarrow> json option" where
  "u_parse s = (if s = ''r'' then Some u_reply else None)"

definition u_db1 :: mcp_db where
  "u_db1 = snd (u_call u_parse 9000 ''effects.mark_conflict'' ''k1'' (u_did ''1'') ''j1'' u_db)"

theorem replay_returns_result_witness:
  "fst (u_call u_parse 9000 ''effects.mark_conflict'' ''k1'' (u_did ''1'') ''j1'' u_db)
     = RpcSuccess (JObject [text_content ''r''])
   \<and> u_call u_parse 99000 ''effects.mark_conflict'' ''k1'' (u_did ''1'') ''j1'' u_db1
     = (RpcSuccess (JObject [text_content ''r'', (''_idempotency'', JString ''duplicate_ok'')]), u_db1)"
proof -
  let ?g = "demo_gate\<lparr>ge_parse_json := u_parse, ge_now_ms := 9000\<rparr>" and ?t = "''effects.mark_conflict''"
  let ?p = "u_params ''k1'' (u_did ''1'')" and ?e = "u_env ''j1'' u_failed"
  have reach: "mcp_reachable u_db"
    unfolding u_db_def by (rule ledger_reachable_mcp) (rule u_failed_reachable)
  have led: "db_ledger u_db = u_failed" by (simp add: u_db_def)
  have pre: "extract_idempotency_key ?p = Some ''k1''" "is_valid_uuid_key ?g ''k1''" "ge_lookup_ok ?g"
    "ge_update_ok ?g" "find_by_key u_db ''k1'' = None"
    "ge_parse_json ?g (ge_render_json ?g u_reply) = Some u_reply"
    by code_simp+
  have "fst (effects_dispatch ?e ?t ?p (Some ''k1'') (Some (compute_canonical_request_hash ?g ?t ?p)) u_db)
      = Inr u_reply" by code_simp
  then obtain db1 where d: "effects_dispatch ?e ?t ?p (Some ''k1'')
      (Some (compute_canonical_request_hash ?g ?t ?p)) u_db = (Inr u_reply, db1)"
    by (metis prod.collapse)
  have "ge_parse_json ?g PENDING_SENTINEL = None" by code_simp
  then have mark: "\<forall>v. ge_parse_json ?g PENDING_SENTINEL = Some v \<longrightarrow> get_str v ''journal_id'' = None"
    by simp
  from replay_returns_result [OF reach pre(1-5) d pre(6) mark] show ?thesis
    by (fastforce simp: u_call_def u_db1_def led demo_gate_def)
qed

definition u_db2 :: mcp_db where
  "u_db2 = snd (u_call u_parse 10000 ''effects.clear_after_manual_verification'' ''k2'' (u_did ''2'')
     ''j2'' u_db1)"

theorem rejected_disposition_becomes_success_witness:
  "(\<exists>data. fst (u_call u_parse 10000 ''effects.clear_after_manual_verification'' ''k2'' (u_did ''2'')
      ''j2'' u_db1) = RpcError (- 32603) ''INTERNAL'' data)
   \<and> (\<exists>j. fst (u_call u_parse 40000 ''effects.mark_unrecoverable'' ''k2'' (u_did ''3'') ''j3'' u_db2)
      = RpcSuccess (JObject [text_content ''r'', (''_idempotency'', JString ''committed_unack_recovery'')]))"
proof -
  let ?g = "demo_gate\<lparr>ge_parse_json := u_parse, ge_now_ms := 10000\<rparr>"
  let ?g' = "demo_gate\<lparr>ge_parse_json := u_parse, ge_now_ms := 40000\<rparr>"
  let ?t = "''effects.clear_after_manual_verification''" and ?t' = "''effects.mark_unrecoverable''"
  let ?p = "u_params ''k2'' (u_did ''2'')" and ?p' = "u_params ''k2'' (u_did ''3'')"
  let ?e = "u_env ''j2'' (db_ledger u_db1)"
  have pre: "extract_idempotency_key ?p = Some ''k2''" "is_valid_uuid_key ?g ''k2''" "ge_lookup_ok ?g"
    "find_by_key u_db1 ''k2'' = None" "extract_idempotency_key ?p' = Some ''k2''"
    "is_valid_uuid_key ?g' ''k2''" "ge_lookup_ok ?g'" "ge_journal_ok ?g'"
    "te_now_ms ?e + 30000 \<le> ge_now_ms ?g'"
    by code_simp+
  have inv: "journal_inv u_db1" by (simp add: journal_inv_def subset_eq) code_simp
  have "fst (effects_dispatch ?e ?t ?p (Some ''k2'') (Some (compute_canonical_request_hash ?g ?t ?p)) u_db1)
      = Inl (DispositionNotApplicable uid)" by code_simp
  then obtain db1 where d: "effects_dispatch ?e ?t ?p (Some ''k2'')
      (Some (compute_canonical_request_hash ?g ?t ?p)) u_db1 = (Inl (DispositionNotApplicable uid), db1)"
    by (metis prod.collapse)
  have "rejects_disposition (DispositionNotApplicable uid)" by (simp add: rejects_disposition_def)
  note r = rejected_disposition_becomes_success [OF pre(1-4) inv d this pre(5-9), of ?t'
      "effects_dispatch (u_env ''j3'' (db_ledger u_db2)) ?t' ?p'"]
  from r obtain data where 1: "idempotent_tools_call ?g ?t ?p (effects_dispatch ?e ?t ?p) u_db1
      = (RpcError (- 32603) ''INTERNAL'' data, db1)" by blast
  then have "u_db2 = db1" by (simp add: u_db2_def u_call_def)
  with r 1 show ?thesis by (auto simp: u_call_def demo_gate_def)
qed

section \<open>Canonical requests\<close>

text \<open>Two requests are the same when they differ only in the order of object members.\<close>

inductive same_json :: "json \<Rightarrow> json \<Rightarrow> bool" where
  leaf: "same_json v v"
| array: "list_all2 same_json xs ys \<Longrightarrow> same_json (JArray xs) (JArray ys)"
| object: "list_all2 (rel_prod (=) same_json) kvs mid \<Longrightarrow> mset mid = mset kvs' \<Longrightarrow> distinct (map fst kvs) \<Longrightarrow>
    same_json (JObject kvs) (JObject kvs')"

lemma canonicalize_list_map: "canonicalize_list xs = map canonicalize_json_for_hash xs"
  by (induction xs) simp_all

lemma canonicalize_members_map:
  "canonicalize_members kvs = map (map_prod id canonicalize_json_for_hash) kvs"
  by (induction kvs) auto

lemma sort_key_mset_eq:
  assumes "mset xs = mset ys" "distinct (map fst xs)"
  shows "sort_key fst xs = sort_key fst (ys :: ('a::linorder \<times> 'b) list)"
proof (rule properties_for_sort_key)
  show "mset (sort_key fst ys) = mset xs" using assms(1) by simp
  have keys: "distinct (map fst (sort_key fst ys))" "set ys = set xs"
    using assms by (metis distinct_sort mset_map mset_eq_imp_distinct_iff mset_sort, metis mset_eq_setD)
  fix k assume "k \<in> set (sort_key fst ys)"
  then have k: "k \<in> set xs" "k \<in> set (sort_key fst ys)" using keys(2) by simp_all
  have "filter (\<lambda>x. fst k = fst x) zs = [k]" if "distinct (map fst zs)" "k \<in> set zs"
    for zs :: "('a \<times> 'b) list"
    using that by (induction zs) (auto simp: filter_empty_conv intro: rev_image_eqI)
  then show "filter (\<lambda>x. fst k = fst x) (sort_key fst ys) = filter (\<lambda>x. fst k = fst x) xs"
    using keys(1) assms(2) k by simp
qed simp

text \<open>
The canonical form, and with it the request hash, does not depend on the order of
object members at any depth, nor on the idempotency key itself under either spelling.
\<close>

theorem canonical_request_stable:
  assumes "same_json a b"
  shows "canonicalize_json_for_hash a = canonicalize_json_for_hash b
    \<and> compute_canonical_request_hash g tool (JObject ((''idempotency_key'', x) # kvs))
        = compute_canonical_request_hash g tool (JObject kvs)
    \<and> compute_canonical_request_hash g tool (JObject ((''idempotencyKey'', x) # kvs))
        = compute_canonical_request_hash g tool (JObject kvs)"
proof -
  from assms have "canonicalize_json_for_hash a = canonicalize_json_for_hash b"
  proof (induction rule: same_json.induct)
    case (array xs ys)
    then have "map canonicalize_json_for_hash xs = map canonicalize_json_for_hash ys"
      by (induction rule: list_all2_induct) simp_all
    then show ?case by (simp add: canonicalize_list_map)
  next
    case (object kvs mid kvs')
    let ?c = "map_prod id canonicalize_json_for_hash"
    from object(1) have c: "map ?c kvs = map ?c mid"
      by (induction rule: list_all2_induct) (auto simp: rel_prod_sel)
    have "mset (map ?c mid) = mset (map ?c kvs')" using object(2) by simp
    moreover have "distinct (map fst (map ?c mid))"
      using object(3) c by (metis (no_types, lifting) fst_map_prod id_apply list.map_comp list.map_cong0 o_apply)
    ultimately have "sort_key fst (map ?c mid) = sort_key fst (map ?c kvs')" by (rule sort_key_mset_eq)
    with c show ?case by (simp add: canonicalize_members_map)
  qed simp
  then show ?thesis by (simp add: compute_canonical_request_hash_def strip_idempotency_key_def)
qed

theorem canonical_request_stable_witness:
  "canonicalize_json_for_hash (JObject [(''b'', JNull), (''a'', JBool True)])
     = canonicalize_json_for_hash (JObject [(''a'', JBool True), (''b'', JNull)])"
proof -
  have "same_json (JObject [(''b'', JNull), (''a'', JBool True)])
      (JObject [(''a'', JBool True), (''b'', JNull)])"
    by (rule same_json.object [of _ "[(''b'', JNull), (''a'', JBool True)]"])
      (simp_all add: same_json.leaf add_mset_commute)
  then show ?thesis using canonical_request_stable by blast
qed

end
