(* ===== verification/Rust_Text.thy ===== *)
theory Rust_Text
  imports Prelude
begin

text \<open>
  The methods of Rust's \<^verbatim>\<open>str\<close> the control plane parses its small languages with, on UTF-8
  bytes: trimming, searching, splitting.
\<close>

section \<open>Trimming\<close>

fun trim_start :: "string \<Rightarrow> string" where
  "trim_start (c # d # e # s) =
     (if ws1 c then trim_start (d # e # s)
      else if ws2 c d then trim_start (e # s)
      else if ws3 c d e then trim_start s
      else c # d # e # s)"
| "trim_start [c, d] = (if ws1 c then trim_start [d] else if ws2 c d then [] else [c, d])"
| "trim_start [c] = (if ws1 c then [] else [c])"
| "trim_start [] = []"

text \<open>On the reversed text the bytes of a character come last byte first.\<close>

fun trim_rev :: "string \<Rightarrow> string" where
  "trim_rev (e # d # c # s) =
     (if ws1 e then trim_rev (d # c # s)
      else if ws2 d e then trim_rev (c # s)
      else if ws3 c d e then trim_rev s
      else e # d # c # s)"
| "trim_rev [e, d] = (if ws1 e then trim_rev [d] else if ws2 d e then [] else [e, d])"
| "trim_rev [e] = (if ws1 e then [] else [e])"
| "trim_rev [] = []"

definition trim :: "string \<Rightarrow> string" where
  "trim s = rev (trim_rev (rev (trim_start s)))"

definition trim_matches :: "char \<Rightarrow> string \<Rightarrow> string" where
  "trim_matches c s = rev (dropWhile (\<lambda>x. x = c) (rev (dropWhile (\<lambda>x. x = c) s)))"

section \<open>Searching\<close>

definition starts_with :: "string \<Rightarrow> string \<Rightarrow> bool" where
  "starts_with s p \<longleftrightarrow> prefix p s"

definition ends_with :: "string \<Rightarrow> string \<Rightarrow> bool" where
  "ends_with s p \<longleftrightarrow> suffix p s"

fun find_sub :: "string \<Rightarrow> string \<Rightarrow> nat option" where
  "find_sub s p =
     (if prefix p s then Some 0
      else case s of [] \<Rightarrow> None | _ # t \<Rightarrow> map_option Suc (find_sub t p))"

declare find_sub.simps [simp del]

lemmas find_sub_simps = find_sub.simps [of "[]"] find_sub.simps [of "c # s" for c s]

definition str_contains :: "string \<Rightarrow> string \<Rightarrow> bool" where
  "str_contains s p \<longleftrightarrow> find_sub s p \<noteq> None"

definition strip_prefix :: "string \<Rightarrow> string \<Rightarrow> string option" where
  "strip_prefix s p = (if prefix p s then Some (drop (length p) s) else None)"

definition ascii_lower :: "char \<Rightarrow> char" where
  "ascii_lower c = (if 65 \<le> byte c \<and> byte c \<le> 90 then char_of (byte c + 32) else c)"

text \<open>\<^verbatim>\<open>char::is_control\<close> on UTF-8 bytes.\<close>

fun has_control :: "string \<Rightarrow> bool" where
  "has_control [] = False"
| "has_control (c # s) =
     (byte c < 32 \<or> byte c = 127
      \<or> byte c = 0xC2 \<and> (case s of [] \<Rightarrow> False | d # _ \<Rightarrow> 0x80 \<le> byte d \<and> byte d \<le> 0x9F)
      \<or> has_control s)"

text \<open>\<^verbatim>\<open>split_once\<close> at a character.\<close>

definition split_once :: "char \<Rightarrow> string \<Rightarrow> (string \<times> string) option" where
  "split_once c s =
     (case find_sub s [c] of None \<Rightarrow> None | Some i \<Rightarrow> Some (take i s, drop (Suc i) s))"

lemma find_sub_Some:
  "find_sub s p = Some i \<Longrightarrow> i + length p \<le> length s \<and> take (length p) (drop i s) = p"
proof (induction s arbitrary: i)
  case Nil
  then show ?case by (auto simp: find_sub_simps split: if_splits)
next
  case (Cons c s)
  show ?case
  proof (cases "prefix p (c # s)")
    case True
    then have "i = 0" using Cons.prems by (simp add: find_sub_simps)
    with True prefix_length_le [OF True] show ?thesis by (auto simp: prefix_def)
  next
    case False
    then obtain j where "i = Suc j" "find_sub s p = Some j"
      using Cons.prems by (auto simp: find_sub_simps)
    with Cons.IH show ?thesis by auto
  qed
qed

lemma find_sub_decompose:
  assumes "find_sub s p = Some i"
  shows "s = take i s @ p @ drop (i + length p) s"
proof -
  from find_sub_Some [OF assms] have "drop i s = p @ drop (length p) (drop i s)"
    by (metis append_take_drop_id)
  then have "drop i s = p @ drop (i + length p) s" by (simp add: add.commute)
  then show ?thesis by (metis append_take_drop_id)
qed

lemma find_sub_None: "find_sub s p = None \<longleftrightarrow> \<not> sublist p s"
proof (induction s)
  case (Cons c s)
  then show ?case by (auto simp: find_sub_simps sublist_Cons_right)
qed (simp add: find_sub_simps)

end
