(* ===== verification/Contract_Status.thy ===== *)
theory Contract_Status
  imports Json Rust_Text
begin

text \<open>
  Artifact contracts of the domain crate, \<^verbatim>\<open>control-plane/crates/domain/src/artifact_contracts.rs\<close>:
  the statuses a contract knows, the normalisation of the status an agent wrote, the
  transition truth of a proposal review summary, and the policy for outputs of failed
  executions.
\<close>

section \<open>Statuses\<close>

record normalized_contract_status =
  nc_contract_id :: string
  nc_raw_status :: string
  nc_canonical_status :: string
  nc_valid :: bool
  nc_validation_errors :: "string list"
  nc_warnings :: "string list"

definition contract_status_allowed_values :: "string \<Rightarrow> string list option" where
  "contract_status_allowed_values c =
     (if c \<in> {''prepush_review_v1'', ''security_report_v1''} then
        Some [''pass'', ''block'', ''invalid'', ''unknown'']
      else if c = ''docs_report_v1'' then
        Some [''pass'', ''not_needed'', ''block'', ''invalid'', ''unknown'']
      else if c = ''audit_report_v1'' then
        Some [''implemented'', ''needs_code_fixes'', ''invalid'', ''unknown'']
      else if c = ''implementation_review_summary_v1'' then
        Some [''code_complete'', ''needs_code_fixes'', ''release_evidence_blocked'', ''invalid'']
      else if c = ''implementation_self_assessment_v2'' then
        Some [''complete'', ''needs_code_fixes'', ''blocked'', ''handoff_required'', ''unknown'', ''invalid'']
      else if c = ''tests_result_v1'' then Some [''green'', ''red'', ''blocked'', ''unknown'']
      else if c = ''proposal_decomposition_plan_v1'' then
        Some [''ready_with_declared_boundaries'', ''split_required'', ''invalid'', ''unknown'']
      else if c = ''quality_gate_blocker_assessment_v1'' then
        Some [''candidate'', ''accepted'', ''rejected'', ''invalid'', ''unknown'']
      else if c = ''blocker_boundary_status_v1'' then
        Some [''output_settlement_required'', ''side_effect_reconciliation_required'',
              ''runtime_recovery_required'', ''review_refresh_required'', ''local_code_tail_present'',
              ''invalid_claim'', ''blocked_no_progress'', ''awaiting_human_boundary_approval'',
              ''pass'', ''invalid'', ''unknown'']
      else if c = ''blocker_boundary_approval_request_v1'' then
        Some [''requested'', ''invalid'', ''unknown'']
      else if c = ''blocker_boundary_human_decision_v1'' then
        Some [''granted'', ''rejected'', ''invalid'', ''unknown'']
      else if c = ''followup_proposal_seed_v1'' then Some [''created'', ''invalid'', ''unknown'']
      else None)"

text \<open>The \<^verbatim>\<open>match\<close> on the trimmed status, per contract.\<close>

definition same :: "string \<Rightarrow> string list \<Rightarrow> string option" where
  "same raw xs = (if raw \<in> set xs then Some raw else None)"

definition canonical_status_of :: "string \<Rightarrow> string \<Rightarrow> string option" where
  "canonical_status_of c raw =
     (if c = ''prepush_review_v1'' then
        (if raw \<in> {''PASS'', ''PASS_WITH_NOTES'', ''pass'', ''conditional_pass''} then Some ''pass''
         else if raw \<in> {''BLOCK'', ''needs_fixes'', ''block'', ''changes_required'', ''fail'', ''failed''}
         then Some ''block''
         else same raw [''invalid'', ''unknown''])
      else if c = ''docs_report_v1'' then
        (if raw \<in> {''success'', ''synced'', ''pass'', ''aligned''} then Some ''pass''
         else if raw = ''not_needed'' then Some ''not_needed''
         else if raw \<in> {''blocked'', ''block''} then Some ''block''
         else same raw [''invalid'', ''unknown''])
      else if c = ''security_report_v1'' then
        (if raw \<in> {''PASS'', ''pass'', ''pass_with_notes''} then Some ''pass''
         else if raw \<in> {''BLOCK'', ''block'', ''fail'', ''failed''} then Some ''block''
         else same raw [''invalid'', ''unknown''])
      else if c = ''audit_report_v1'' then
        (if raw \<in> {''Implemented'', ''implemented''} then Some ''implemented''
         else if raw \<in> {''Partially Implemented'', ''Partially implemented'', ''needs_code_fixes''}
         then Some ''needs_code_fixes''
         else same raw [''invalid'', ''unknown''])
      else if c = ''implementation_review_summary_v1'' then
        (if raw \<in> {''code_complete'', ''implemented''} then Some ''code_complete''
         else if raw \<in> {''needs_code_fixes'', ''changes_required'', ''blocked'', ''block''}
         then Some ''needs_code_fixes''
         else same raw [''release_evidence_blocked'', ''invalid''])
      else if c = ''implementation_self_assessment_v2'' then
        (if raw \<in> {''complete'', ''implemented'', ''implementation_complete''} then Some ''complete''
         else if raw \<in> {''needs_code_fixes'', ''incomplete''} then Some ''needs_code_fixes''
         else same raw [''blocked'', ''handoff_required'', ''unknown'', ''invalid''])
      else if c = ''tests_result_v1'' then same raw [''green'', ''red'', ''blocked'', ''unknown'']
      else if c = ''proposal_decomposition_plan_v1'' then
        same raw [''ready_with_declared_boundaries'', ''split_required'', ''invalid'', ''unknown'']
      else if c = ''quality_gate_blocker_assessment_v1'' then
        same raw [''candidate'', ''accepted'', ''rejected'', ''invalid'', ''unknown'']
      else if c = ''blocker_boundary_status_v1'' then
        same raw [''output_settlement_required'', ''side_effect_reconciliation_required'',
                  ''runtime_recovery_required'', ''review_refresh_required'', ''local_code_tail_present'',
                  ''invalid_claim'', ''blocked_no_progress'', ''awaiting_human_boundary_approval'',
                  ''pass'', ''invalid'', ''unknown'']
      else if c = ''blocker_boundary_approval_request_v1'' then
        same raw [''requested'', ''invalid'', ''unknown'']
      else if c = ''blocker_boundary_human_decision_v1'' then
        (if raw \<in> {''accept'', ''granted''} then Some ''granted''
         else if raw \<in> {''reject'', ''rejected''} then Some ''rejected''
         else same raw [''invalid'', ''unknown''])
      else if c = ''followup_proposal_seed_v1'' then same raw [''created'', ''invalid'', ''unknown'']
      else same raw [''pass'', ''block'', ''invalid'', ''unknown''])"

text \<open>The function never takes its \<^verbatim>\<open>Err\<close> branch, so its result is the record itself.\<close>

definition normalize_contract_status :: "string \<Rightarrow> string \<Rightarrow> normalized_contract_status" where
  "normalize_contract_status contract_id raw_status =
     (let raw = trim raw_status in
      case canonical_status_of contract_id raw of
        Some canonical \<Rightarrow>
          \<lparr>nc_contract_id = contract_id, nc_raw_status = raw, nc_canonical_status = canonical,
            nc_valid = (canonical \<noteq> ''invalid''), nc_validation_errors = [],
            nc_warnings = (if canonical \<noteq> raw then [''normalized '' @ raw @ '' to '' @ canonical] else [])\<rparr>
      | None \<Rightarrow>
          \<lparr>nc_contract_id = contract_id, nc_raw_status = raw, nc_canonical_status = ''invalid'',
            nc_valid = False, nc_validation_errors = [''unknown status value: '' @ raw],
            nc_warnings = []\<rparr>)"

definition known_contract_id :: "string \<Rightarrow> bool" where
  "known_contract_id c \<longleftrightarrow>
     c \<in> {''audit_report_v1'', ''security_report_v1'', ''prepush_review_v1'', ''docs_report_v1'',
           ''proposal_review_summary_v2'', ''implementation_self_assessment_v2'', ''tests_result_v1'',
           ''implementation_review_summary_v1'', ''proposal_decomposition_plan_v1'',
           ''quality_gate_blocker_assessment_v1'', ''blocker_boundary_status_v1'',
           ''blocker_boundary_approval_request_v1'', ''blocker_boundary_human_decision_v1'',
           ''followup_proposal_seed_v1'', ''run_state_projection_v1''}"

section \<open>The proposal review summary\<close>

record proposal_review_summary_transition_truth =
  tt_contract_id :: string
  tt_pass :: "bool option"
  tt_blocker_count :: "nat option"
  tt_has_blocking_issues :: bool
  tt_has_required_changes :: bool
  tt_decision :: "string option"

definition has_blocking_evidence :: "proposal_review_summary_transition_truth \<Rightarrow> bool" where
  "has_blocking_evidence t \<longleftrightarrow>
     (case tt_blocker_count t of None \<Rightarrow> False | Some n \<Rightarrow> 0 < n)
     \<or> tt_has_blocking_issues t \<or> tt_has_required_changes t"

definition looks_like_proposal_review_summary_v2 :: "json \<Rightarrow> bool" where
  "looks_like_proposal_review_summary_v2 j \<longleftrightarrow>
     json_get j ''blocking_required_changes'' \<noteq> None \<or> json_get j ''advisory_follow_ups'' \<noteq> None"

fun json_value_has_entries :: "json option \<Rightarrow> bool" where
  "json_value_has_entries (Some (JArray xs)) = (xs \<noteq> [])"
| "json_value_has_entries (Some (JObject kvs)) = (kvs \<noteq> [])"
| "json_value_has_entries (Some (JString s)) = (trim s \<noteq> [])"
| "json_value_has_entries (Some (JBool b)) = b"
| "json_value_has_entries (Some (JInt n)) = (case as_u64 (JInt n) of None \<Rightarrow> False | Some c \<Rightarrow> 0 < c)"
| "json_value_has_entries _ = False"

fun json_value_is_empty_collection :: "json \<Rightarrow> bool" where
  "json_value_is_empty_collection (JArray xs) = (xs = [])"
| "json_value_is_empty_collection (JObject kvs) = (kvs = [])"
| "json_value_is_empty_collection _ = False"

definition proposal_review_summary_transition_truth :: "json \<Rightarrow> proposal_review_summary_transition_truth" where
  "proposal_review_summary_transition_truth j =
     (let v2 = looks_like_proposal_review_summary_v2 j in
      \<lparr>tt_contract_id = (if v2 then ''proposal_review_summary_v2'' else ''proposal_review_summary_v1''),
        tt_pass = get_bool j ''pass'',
        tt_blocker_count = get_u64 j ''blocker_count'',
        tt_has_blocking_issues = json_value_has_entries (json_get j ''blocking_issues''),
        tt_has_required_changes =
          json_value_has_entries
            (json_get j (if v2 then ''blocking_required_changes'' else ''required_changes'')),
        tt_decision = get_str j ''decision''\<rparr>)"

definition decision_passes :: "string \<Rightarrow> bool" where
  "decision_passes d \<longleftrightarrow> list_ex (str_contains d) [''pass'', ''approve'', ''approved'']"

definition decision_blocks :: "string \<Rightarrow> bool" where
  "decision_blocks d \<longleftrightarrow>
     list_ex (str_contains d) [''fail'', ''block'', ''revise'', ''changes_required'']"

definition proposal_review_summary_transition_truth_conflict :: "json \<Rightarrow> string option" where
  "proposal_review_summary_transition_truth_conflict j =
     (let truth = proposal_review_summary_transition_truth j;
          label = tt_contract_id truth;
          evidence = has_blocking_evidence truth;
          empty_at = (\<lambda>k. case json_get j k of None \<Rightarrow> False
                                              | Some v \<Rightarrow> json_value_is_empty_collection v);
          no_changes = empty_at (if label = ''proposal_review_summary_v2''
                                 then ''blocking_required_changes'' else ''required_changes'')
      in if tt_pass truth = Some True \<and> evidence then
           Some (label @ '' has pass=true while blocker evidence is non-empty'')
         else if tt_pass truth = Some False \<and> tt_blocker_count truth = Some 0
              \<and> empty_at ''blocking_issues'' \<and> no_changes then
           Some (label @ '' has pass=false while blocker evidence is explicitly empty'')
         else case tt_decision truth of
             None \<Rightarrow> None
           | Some d \<Rightarrow>
               let d = map ascii_lower d in
               if decision_passes d \<and> (tt_pass truth = Some False \<or> evidence) then
                 Some (label @ '' decision indicates pass while authoritative fields block'')
               else if decision_blocks d \<and> tt_pass truth = Some True \<and> \<not> evidence then
                 Some (label @ '' decision indicates blocking while authoritative fields pass'')
               else None)"

definition as_f64_ok :: "json option \<Rightarrow> bool" where
  "as_f64_ok v \<longleftrightarrow> (case v of Some (JInt _) \<Rightarrow> True | Some (JFloat _) \<Rightarrow> True | _ \<Rightarrow> False)"

text \<open>The first field of a list that fails its check, as the \<^verbatim>\<open>for\<close> loops return it.\<close>

definition first_bad :: "(string \<Rightarrow> bool) \<Rightarrow> string \<Rightarrow> string list \<Rightarrow> string option" where
  "first_bad ok what fs =
     map_option (\<lambda>f. ''proposal_review_summary_v2 field '' @ [CHR 0x27] @ f @ [CHR 0x27] @ '' must be '' @ what)
       (find (\<lambda>f. \<not> ok f) fs)"

definition proposal_review_summary_v2_validation_error :: "json \<Rightarrow> string option" where
  "proposal_review_summary_v2_validation_error j =
     (case as_object j of
        None \<Rightarrow> None
      | Some _ \<Rightarrow>
          (case first_bad (\<lambda>f. get_bool j f \<noteq> None) ''a boolean'' [''pass''] of Some e \<Rightarrow> Some e | None \<Rightarrow>
          (case first_bad (\<lambda>f. as_f64_ok (json_get j f)) ''a number''
                  [''average_score'', ''aggregate_score'', ''min_individual_score''] of Some e \<Rightarrow> Some e | None \<Rightarrow>
          (case first_bad (\<lambda>f. get_u64 j f \<noteq> None) ''a non-negative integer'' [''blocker_count''] of Some e \<Rightarrow> Some e | None \<Rightarrow>
          (case first_bad (\<lambda>f. get_array j f \<noteq> None) ''an array''
                  [''blocking_issues'', ''blocking_required_changes'', ''advisory_follow_ups'',
                   ''recurring_themes''] of Some e \<Rightarrow> Some e | None \<Rightarrow>
          (case first_bad (\<lambda>f. get_str j f \<noteq> None) ''a string'' [''summary'', ''decision''] of Some e \<Rightarrow> Some e | None \<Rightarrow>
          (if tt_contract_id (proposal_review_summary_transition_truth j) \<noteq> ''proposal_review_summary_v2'' then
             Some ''proposal_review_summary_v2 payload could not be interpreted as a v2 proposal review summary''
           else proposal_review_summary_transition_truth_conflict j)))))))"

section \<open>Outputs of failed executions\<close>

datatype degraded_output_policy_mode = Deny | AllowValidContractOutputs

datatype failed_execution_settlement = FailedValidOutputs

record degraded_output_policy =
  dp_mode :: degraded_output_policy_mode
  dp_contracts :: "string list"
  dp_failure_kinds :: "string list"
  dp_max_settlement :: "failed_execution_settlement option"

definition default_degraded_output_policy :: degraded_output_policy where
  "default_degraded_output_policy =
     \<lparr>dp_mode = Deny, dp_contracts = [], dp_failure_kinds = [],
       dp_max_settlement = Some FailedValidOutputs\<rparr>"

definition allow_valid_contract_outputs ::
  "string list \<Rightarrow> string list \<Rightarrow> (string, degraded_output_policy) result" where
  "allow_valid_contract_outputs contracts failure_kinds =
     (if contracts = [] then Inl ''allow_valid_contract_outputs requires at least one contract''
      else Inr \<lparr>dp_mode = AllowValidContractOutputs, dp_contracts = contracts,
                 dp_failure_kinds = failure_kinds, dp_max_settlement = Some FailedValidOutputs\<rparr>)"

definition policy_allows ::
  "degraded_output_policy \<Rightarrow> string \<Rightarrow> string \<Rightarrow> failed_execution_settlement \<Rightarrow> bool" where
  "policy_allows p contract_id failure_kind settlement =
     (if dp_mode p \<noteq> AllowValidContractOutputs then False
      else if dp_max_settlement p \<noteq> Some settlement then False
      else if \<not> list_ex (\<lambda>i. i = contract_id) (dp_contracts p) then False
      else dp_failure_kinds p = [] \<or> list_ex (\<lambda>i. i = failure_kind) (dp_failure_kinds p))"

section \<open>Normalisation is a projection onto the contract's vocabulary\<close>

definition status_vocabulary :: "string \<Rightarrow> string list" where
  "status_vocabulary c =
     (case contract_status_allowed_values c of
        None \<Rightarrow> [''pass'', ''block'', ''invalid'', ''unknown'']
      | Some vs \<Rightarrow> vs)"

lemma same_Some: "same raw xs = Some s \<longleftrightarrow> s = raw \<and> raw \<in> set xs"
  by (auto simp: same_def)

lemma canonical_in_vocabulary:
  "canonical_status_of c raw = Some s \<Longrightarrow> s \<in> set (status_vocabulary c)"
  unfolding canonical_status_of_def status_vocabulary_def contract_status_allowed_values_def
  by (simp add: same_Some split: if_splits)

definition contracts_with_statuses :: "string list" where
  "contracts_with_statuses =
     [''prepush_review_v1'', ''security_report_v1'', ''docs_report_v1'', ''audit_report_v1'',
      ''implementation_review_summary_v1'', ''implementation_self_assessment_v2'',
      ''tests_result_v1'', ''proposal_decomposition_plan_v1'', ''quality_gate_blocker_assessment_v1'',
      ''blocker_boundary_status_v1'', ''blocker_boundary_approval_request_v1'',
      ''blocker_boundary_human_decision_v1'', ''followup_proposal_seed_v1'']"

lemma listed_vocabulary_is_canonical:
  "list_all (\<lambda>c. list_all (\<lambda>s. trim s = s \<and> canonical_status_of c s = Some s) (status_vocabulary c))
     contracts_with_statuses"
  by code_simp

lemma vocabulary_is_canonical:
  assumes "s \<in> set (status_vocabulary c)"
  shows "trim s = s" "canonical_status_of c s = Some s"
proof -
  have *: "trim s = s \<and> canonical_status_of c s = Some s"
  proof (cases "c \<in> set contracts_with_statuses")
    case True
    with assms listed_vocabulary_is_canonical show ?thesis by (auto simp: list_all_iff)
  next
    case False
    then have "status_vocabulary c = [''pass'', ''block'', ''invalid'', ''unknown'']"
      "canonical_status_of c s = same s [''pass'', ''block'', ''invalid'', ''unknown'']"
      by (simp_all add: status_vocabulary_def contract_status_allowed_values_def
          canonical_status_of_def contracts_with_statuses_def)
    moreover have "list_all (\<lambda>s. trim s = s) [''pass'', ''block'', ''invalid'', ''unknown'']" by code_simp
    ultimately show ?thesis using assms by (auto simp: same_def)
  qed
  from * show "trim s = s" "canonical_status_of c s = Some s" by simp_all
qed

text \<open>
  C37: a status that normalises as valid becomes a word of its contract's vocabulary other
  than \<^verbatim>\<open>invalid\<close>, and normalising that word again changes nothing and warns of nothing.
\<close>

theorem status_normalisation_projects:
  assumes "nc_valid (normalize_contract_status c raw)"
  shows "nc_canonical_status (normalize_contract_status c raw) \<in> set (status_vocabulary c) - {''invalid''}
    \<and> normalize_contract_status c (nc_canonical_status (normalize_contract_status c raw)) =
      (normalize_contract_status c raw)
        \<lparr>nc_raw_status := nc_canonical_status (normalize_contract_status c raw), nc_warnings := []\<rparr>"
proof (intro conjI)
  from assms obtain s where s: "canonical_status_of c (trim raw) = Some s" "s \<noteq> ''invalid''"
    by (auto simp: normalize_contract_status_def Let_def split: option.splits)
  then have v: "s \<in> set (status_vocabulary c)" by (simp add: canonical_in_vocabulary)
  show "nc_canonical_status (normalize_contract_status c raw) \<in> set (status_vocabulary c) - {''invalid''}"
    using s v by (simp add: normalize_contract_status_def Let_def)
  show "normalize_contract_status c (nc_canonical_status (normalize_contract_status c raw)) =
      (normalize_contract_status c raw)
        \<lparr>nc_raw_status := nc_canonical_status (normalize_contract_status c raw), nc_warnings := []\<rparr>"
    using s vocabulary_is_canonical [OF v] by (simp add: normalize_contract_status_def Let_def)
qed

theorem status_normalisation_projects_witness:
  "nc_canonical_status (normalize_contract_status ''docs_report_v1'' '' synced '') = ''pass''
   \<and> normalize_contract_status ''docs_report_v1'' ''pass'' =
      (normalize_contract_status ''docs_report_v1'' '' synced '')
        \<lparr>nc_raw_status := ''pass'', nc_warnings := []\<rparr>"
proof -
  have "nc_valid (normalize_contract_status ''docs_report_v1'' '' synced '')"
    and c: "nc_canonical_status (normalize_contract_status ''docs_report_v1'' '' synced '') = ''pass''"
    by code_simp+
  from status_normalisation_projects [OF this(1)] c show ?thesis by simp
qed

lemma first_bad_None: "first_bad ok what fs = None \<longleftrightarrow> list_all ok fs"
  by (auto simp: first_bad_def find_None_iff list_all_iff)

lemma get_array_entries:
  assumes "get_array j k = Some xs"
  shows "json_value_has_entries (json_get j k) \<longleftrightarrow> xs \<noteq> []"
    and "(case json_get j k of None \<Rightarrow> False | Some v \<Rightarrow> json_value_is_empty_collection v) \<longleftrightarrow> xs = []"
proof -
  from assms have "json_get j k = Some (JArray xs)"
    unfolding get_array_def by (cases "json_get j k"; cases "the (json_get j k)") auto
  then show "json_value_has_entries (json_get j k) \<longleftrightarrow> xs \<noteq> []"
    "(case json_get j k of None \<Rightarrow> False | Some v \<Rightarrow> json_value_is_empty_collection v) \<longleftrightarrow> xs = []"
    by simp_all
qed

text \<open>
  A proposal review summary that passes validation is coherent: it passes exactly when
  it carries no blocking evidence, and the words of its decision do not say otherwise.
\<close>

theorem validated_summary_coherent:
  assumes "as_object j = Some kvs" "proposal_review_summary_v2_validation_error j = None"
  shows "\<exists>p d. get_bool j ''pass'' = Some p \<and> get_str j ''decision'' = Some d
    \<and> (p \<longleftrightarrow> \<not> has_blocking_evidence (proposal_review_summary_transition_truth j))
    \<and> (decision_passes (map ascii_lower d) \<longrightarrow> p) \<and> (decision_blocks (map ascii_lower d) \<longrightarrow> \<not> p)"
proof -
  let ?t = "proposal_review_summary_transition_truth j"
  from assms have typed: "get_bool j ''pass'' \<noteq> None" "get_u64 j ''blocker_count'' \<noteq> None"
    "get_array j ''blocking_issues'' \<noteq> None" "get_array j ''blocking_required_changes'' \<noteq> None"
    "get_str j ''decision'' \<noteq> None" "tt_contract_id ?t = ''proposal_review_summary_v2''"
    and conflict: "proposal_review_summary_transition_truth_conflict j = None"
    by (auto simp: proposal_review_summary_v2_validation_error_def first_bad_None split: option.splits if_splits)
  from typed obtain p n xs ys d where v: "get_bool j ''pass'' = Some p" "get_u64 j ''blocker_count'' = Some n"
    "get_array j ''blocking_issues'' = Some xs" "get_array j ''blocking_required_changes'' = Some ys"
    "get_str j ''decision'' = Some d" by auto
  from typed(6) have v2: "looks_like_proposal_review_summary_v2 j"
    by (simp add: proposal_review_summary_transition_truth_def Let_def split: if_splits)
  have t: "tt_pass ?t = Some p" "tt_blocker_count ?t = Some n" "tt_decision ?t = Some d"
    "tt_has_blocking_issues ?t \<longleftrightarrow> xs \<noteq> []" "tt_has_required_changes ?t \<longleftrightarrow> ys \<noteq> []"
    using v v2 get_array_entries(1) [OF v(3)] get_array_entries(1) [OF v(4)]
    by (simp_all add: proposal_review_summary_transition_truth_def Let_def)
  have e: "has_blocking_evidence ?t \<longleftrightarrow> 0 < n \<or> xs \<noteq> [] \<or> ys \<noteq> []"
    using t by (simp add: has_blocking_evidence_def)
  note c = conflict [unfolded proposal_review_summary_transition_truth_conflict_def Let_def]
  have no: "(case json_get j ''blocking_issues'' of None \<Rightarrow> False | Some v \<Rightarrow> json_value_is_empty_collection v) = (xs = [])"
    "(case json_get j ''blocking_required_changes'' of None \<Rightarrow> False | Some v \<Rightarrow> json_value_is_empty_collection v) = (ys = [])"
    using get_array_entries(2) [OF v(3)] get_array_entries(2) [OF v(4)] .
  have "p \<longleftrightarrow> \<not> has_blocking_evidence ?t"
    using c by (cases p) (simp_all add: t typed(6) no e split: if_splits)
  moreover from this c have "decision_passes (map ascii_lower d) \<longrightarrow> p" "decision_blocks (map ascii_lower d) \<longrightarrow> \<not> p"
    by (cases p; simp add: t typed(6) no split: if_splits)+
  ultimately show ?thesis using v by blast
qed

definition ex_summary :: json where
  "ex_summary = JObject
     [(''pass'', JBool True), (''average_score'', JInt 9), (''aggregate_score'', JInt 9),
      (''min_individual_score'', JInt 8), (''blocker_count'', JInt 0), (''blocking_issues'', JArray []),
      (''blocking_required_changes'', JArray []), (''advisory_follow_ups'', JArray []),
      (''recurring_themes'', JArray []), (''summary'', JString ''ok''), (''decision'', JString ''Approved'')]"

theorem validated_summary_coherent_witness:
  "proposal_review_summary_v2_validation_error ex_summary = None
   \<and> \<not> has_blocking_evidence (proposal_review_summary_transition_truth ex_summary)"
proof -
  have v: "proposal_review_summary_v2_validation_error ex_summary = None"
    and p: "get_bool ex_summary ''pass'' = Some True"
    by code_simp+
  obtain kvs where "as_object ex_summary = Some kvs" by (simp add: ex_summary_def)
  from validated_summary_coherent [OF this v] p v show ?thesis by auto
qed

end
