(* ===== verification/Artifact_Store.thy ===== *)
theory Artifact_Store
  imports Contract_Status
begin

text \<open>
  The artifact-contract repository, \<^verbatim>\<open>control-plane/crates/db/src/repos/artifact_contracts.rs\<close>:
  the generations of an artifact, the generation each contract of a run takes as its
  truth, the claims that say which execution may still write, and the operator's
  overrides. A statement that fails inside a transaction drops the tables the
  transaction sees, so every writer returns a result. The run-state projection rebuilt
  after each write is derived data and is not part of the state.
\<close>

section \<open>Tables\<close>

datatype agent_output_settlement =
  NoSettlement
  | MissingRequiredOutputs
  | InvalidRequiredOutputs
  | ValidOutputsFromCompletedExecution
  | ValidOutputsFromFailedExecution
  | IgnoredLateSettlement
  | ValidOutputsFromRepair

datatype owner_kind = StageExecutionOwner | LeadConflictMediationOwner

datatype artifact_source_claim_state =
  ClaimActive
  | ClaimSupersededPendingRetry
  | ClaimSuperseded
  | ClaimClosed
  | ClaimLegacyUnowned

record active_artifact_generation_input =
  gi_run_id :: ident
  gi_artifact_id :: ident
  gi_contract_id :: string
  gi_canonical_path :: string
  gi_raw_path :: string
  gi_raw_status :: string
  gi_generation_id :: string
  gi_source_agent_execution_id :: "string option"
  gi_source_stage_execution_id :: "string option"
  gi_source_session_generation_id :: "string option"
  gi_source_work_item_id :: "string option"
  gi_supersedes_generation_id :: "string option"
  gi_output_settlement :: agent_output_settlement
  gi_partial :: bool
  gi_warnings :: "string list"

text \<open>A row of \<^verbatim>\<open>artifact_contract_generations\<close>; the JSON columns hold their values.\<close>

record generation_row =
  gr_generation_id :: string
  gr_run_id :: ident
  gr_artifact_id :: ident
  gr_contract_id :: string
  gr_canonical_path :: string
  gr_raw_path :: string
  gr_raw_status :: string
  gr_canonical_status :: string
  gr_source_agent_execution_id :: "string option"
  gr_source_stage_execution_id :: "string option"
  gr_source_session_generation_id :: "string option"
  gr_source_work_item_id :: "string option"
  gr_supersedes_generation_id :: "string option"
  gr_output_settlement :: agent_output_settlement
  gr_source_generation_verified :: bool
  gr_valid :: bool
  gr_partial :: bool
  gr_warnings :: "string list"
  gr_validation_errors :: "string list"
  gr_canonical_dimensions :: json
  gr_created_at :: datetime

record active_contract_row =
  ac_run_id :: ident
  ac_contract_id :: string
  ac_generation_id :: string
  ac_updated_at :: datetime

record claim_key =
  ck_run_id :: ident
  ck_owner_kind :: owner_kind
  ck_owner_id :: ident
  ck_agent_execution_id :: ident
  ck_source_work_item_id :: ident

record source_generation_claim =
  cl_key :: claim_key
  cl_stage_execution_id :: "ident option"
  cl_current_session_generation_id :: "string option"
  cl_claim_state :: artifact_source_claim_state
  cl_superseding_work_item_id :: "ident option"
  cl_superseded_by_agent_execution_id :: "ident option"
  cl_supersession_journal_id :: "ident option"
  cl_superseded_at :: "datetime option"
  cl_closed_at :: "datetime option"
  cl_created_at :: datetime
  cl_updated_at :: datetime

record override_row =
  ov_override_id :: ident
  ov_run_id :: ident
  ov_contract_id :: string
  ov_override_type :: string
  ov_from_status :: string
  ov_to_status :: string
  ov_reason :: string
  ov_owner :: string
  ov_source_artifacts :: "string list"
  ov_expires_at_stage :: string
  ov_journal_id :: ident
  ov_created_at :: datetime
  ov_expired_at :: "datetime option"
  ov_active :: bool

text \<open>The columns of \<^verbatim>\<open>closeout_gate_generations\<close> the field lookup reads.\<close>

record closeout_gate_row =
  cg_run_id :: ident
  cg_contract_id :: string
  cg_status :: string
  cg_decision :: "string option"
  cg_active :: bool
  cg_created_at :: datetime

record artifact_store =
  as_generations :: "generation_row list"
  as_active :: "active_contract_row list"
  as_claims :: "source_generation_claim list"
  as_overrides :: "override_row list"
  as_closeout :: "closeout_gate_row list"

section \<open>Reading an artifact\<close>

text \<open>
  What the repository reads outside the database: the confined bytes of a path, the
  tree \<^verbatim>\<open>serde_json\<close> parses from them, and the summary of an implementation
  self-assessment.
\<close>

record self_assessment_summary =
  sa_status :: string
  sa_implementation_complete :: "bool option"
  sa_verification_green :: "bool option"
  sa_blocking_remaining_code_task_count :: "nat option"
  sa_handoff_task_count :: "nat option"
  sa_blocking_review_handoff_task_count :: "nat option"

record artifact_reader =
  ar_read_confined :: "string \<Rightarrow> string option"
  ar_from_slice :: "string \<Rightarrow> (string, json) result"
  ar_self_assessment :: "json \<Rightarrow> self_assessment_summary"

definition p094_json_from_path :: "artifact_reader \<Rightarrow> string \<Rightarrow> (string, json option) result" where
  "p094_json_from_path rd path =
     (case ar_read_confined rd path of
        None \<Rightarrow> Inr None
      | Some bytes \<Rightarrow> (case ar_from_slice rd bytes of Inl e \<Rightarrow> Inl e | Inr v \<Rightarrow> Inr (Some v)))"

definition implementation_self_assessment_summary_from_path ::
  "artifact_reader \<Rightarrow> string \<Rightarrow> (string, self_assessment_summary option) result" where
  "implementation_self_assessment_summary_from_path rd path =
     (case ar_read_confined rd path of
        None \<Rightarrow> Inr None
      | Some bytes \<Rightarrow>
          (case ar_from_slice rd bytes of
             Inl e \<Rightarrow> Inl e
           | Inr v \<Rightarrow> Inr (Some (ar_self_assessment rd v))))"

definition normalize_audit_release_evidence_status :: "string \<Rightarrow> (string, string) result" where
  "normalize_audit_release_evidence_status raw =
     (let t = trim raw in
      if t \<in> {''ready'', ''Ready''} then Inr ''ready''
      else if t = ''blocked_pending_operator_evidence'' then Inr ''blocked_pending_operator_evidence''
      else if t \<in> {''not_ready'', ''Not Ready''} then Inr ''not_ready''
      else if t \<in> {''not_applicable'', ''N/A''} then Inr ''not_applicable''
      else if t = ''unknown'' then Inr ''unknown''
      else Inl (''unknown audit release_evidence_status value: '' @ t))"

definition audit_release_evidence_status_from_path ::
  "artifact_reader \<Rightarrow> string \<Rightarrow> (string, string option) result" where
  "audit_release_evidence_status_from_path rd path =
     (case ar_read_confined rd path of
        None \<Rightarrow> Inr None
      | Some bytes \<Rightarrow>
          (case ar_from_slice rd bytes of
             Inl e \<Rightarrow> Inl e
           | Inr v \<Rightarrow> Inr (get_str v ''release_evidence_status'')))"

definition non_blank_str :: "json \<Rightarrow> string \<Rightarrow> bool" where
  "non_blank_str j k \<longleftrightarrow> (case get_str j k of None \<Rightarrow> False | Some s \<Rightarrow> trim s \<noteq> [])"

definition p094_valid_blocking_split_candidate_count :: "json \<Rightarrow> nat" where
  "p094_valid_blocking_split_candidate_count v =
     (case get_array v ''split_candidates'' of
        None \<Rightarrow> 0
      | Some items \<Rightarrow>
          length (filter (\<lambda>i. non_blank_str i ''candidate_id'' \<and> non_blank_str i ''reason'') items))"

definition effective_raw_status_for_generation ::
  "artifact_reader \<Rightarrow> string \<Rightarrow> string \<Rightarrow> string \<Rightarrow> (string, string) result" where
  "effective_raw_status_for_generation rd contract_id raw_path fallback =
     (if contract_id = ''implementation_self_assessment_v2'' then
        (case implementation_self_assessment_summary_from_path rd raw_path of
           Inl e \<Rightarrow> Inl e
         | Inr None \<Rightarrow> Inr fallback
         | Inr (Some s) \<Rightarrow> Inr (sa_status s))
      else if contract_id = ''proposal_decomposition_plan_v1'' then
        (case p094_json_from_path rd raw_path of
           Inl e \<Rightarrow> Inl e
         | Inr None \<Rightarrow> Inr fallback
         | Inr (Some v) \<Rightarrow>
             (if get_bool v ''requires_split'' = Some True then
                (if 0 < p094_valid_blocking_split_candidate_count v then Inr ''split_required''
                 else Inr ''invalid'')
              else case get_str v ''implementation_start_decision'' of
                  Some d \<Rightarrow> Inr d
                | None \<Rightarrow> Inr fallback))
      else if contract_id = ''blocker_boundary_status_v1'' then
        (case p094_json_from_path rd raw_path of
           Inl e \<Rightarrow> Inl e
         | Inr None \<Rightarrow> Inr fallback
         | Inr (Some v) \<Rightarrow>
             (case get_str v ''status'' of Some s \<Rightarrow> Inr s | None \<Rightarrow> Inr fallback))
      else if contract_id = ''blocker_boundary_human_decision_v1'' then
        (case p094_json_from_path rd raw_path of
           Inl e \<Rightarrow> Inl e
         | Inr None \<Rightarrow> Inr fallback
         | Inr (Some v) \<Rightarrow>
             (case get_str v ''canonical_approval_state'' of
                Some s \<Rightarrow> Inr s
              | None \<Rightarrow> (case get_str v ''decision_label'' of Some l \<Rightarrow> Inr l | None \<Rightarrow> Inr fallback)))
      else Inr fallback)"

section \<open>Canonical dimensions\<close>

text \<open>The members of a dimension object are listed in the order they are inserted.\<close>

definition opt_member :: "string \<Rightarrow> ('a \<Rightarrow> json) \<Rightarrow> 'a option \<Rightarrow> (string \<times> json) list" where
  "opt_member k f v = (case v of None \<Rightarrow> [] | Some a \<Rightarrow> [(k, f a)])"

definition option_json :: "('a \<Rightarrow> json) \<Rightarrow> 'a option \<Rightarrow> json" where
  "option_json f v = (case v of None \<Rightarrow> JNull | Some a \<Rightarrow> f a)"

definition nat_json :: "nat \<Rightarrow> json" where
  "nat_json n = JInt (int n)"

definition decomposition_plan_dimensions :: "json \<Rightarrow> (string \<times> json) list" where
  "decomposition_plan_dimensions v =
     (let n = p094_valid_blocking_split_candidate_count v;
          requires_split = get_bool v ''requires_split''
      in (case requires_split of
            None \<Rightarrow> []
          | Some b \<Rightarrow>
              if \<not> b \<or> 0 < n then [(''requires_split'', JBool b)]
              else [(''split_candidate_validation'',
                     JString ''requires_split_without_blocking_split_candidate'')])
         @ (case get_array v ''split_candidates'' of
              None \<Rightarrow> []
            | Some cs \<Rightarrow> [(''split_candidate_count'', nat_json (length cs)),
                           (''blocking_split_candidate_count'', nat_json n)])
         @ (case get_str v ''implementation_start_decision'' of
              None \<Rightarrow> []
            | Some d \<Rightarrow>
                if requires_split \<noteq> Some True \<or> 0 < n
                then [(''implementation_start_decision'', JString d)] else []))"

definition blocker_freshness_detail :: "json \<Rightarrow> json option" where
  "blocker_freshness_detail b =
     (case (get_str b ''id'', get_str b ''owner_class'',
            Option.bind
              (case json_get b ''evidence_freshness'' of
                 None \<Rightarrow> json_get b ''freshness'' | Some f \<Rightarrow> Some f) as_str) of
        (Some i, Some c, Some f) \<Rightarrow>
          Some (JObject
            [(''id'', JString i), (''owner_class'', JString c), (''evidence_freshness'', JString f),
             (''allowed_workflow_routes'',
              (case json_get b ''allowed_workflow_routes'' of None \<Rightarrow> JArray [] | Some r \<Rightarrow> r))])
      | _ \<Rightarrow> None)"

definition blocker_boundary_dimensions :: "json \<Rightarrow> (string \<times> json) list" where
  "blocker_boundary_dimensions v =
     concat (map (\<lambda>f. opt_member f JBool (get_bool v f))
       [''followup_proposal_required'', ''has_release_blocking_external_blockers'',
        ''has_no_release_blocking_external_blockers''])
     @ concat (map (\<lambda>f. opt_member f JString (get_str v f))
         [''projection_integrity'', ''primary_owner_class'', ''workflow_route_hint'',
          ''blocker_freshness''])
     @ [(''blocker_freshness_details'',
         JArray (case get_array v ''blockers'' of
                   None \<Rightarrow> []
                 | Some bs \<Rightarrow> List.map_filter blocker_freshness_detail bs))]
     @ opt_member ''allowed_workflow_routes'' id (json_get v ''allowed_workflow_routes'')"

definition canonical_dimensions_json_for_generation ::
  "artifact_reader \<Rightarrow> string \<Rightarrow> string \<Rightarrow> (string, json) result" where
  "canonical_dimensions_json_for_generation rd contract_id raw_path =
     (if contract_id = ''audit_report_v1'' then
        (case audit_release_evidence_status_from_path rd raw_path of
           Inl e \<Rightarrow> Inl e
         | Inr None \<Rightarrow> Inr (JObject [])
         | Inr (Some raw) \<Rightarrow>
             (case normalize_audit_release_evidence_status raw of
                Inl e \<Rightarrow> Inl e
              | Inr s \<Rightarrow> Inr (JObject [(''release_evidence_status'', JString s)])))
      else if contract_id = ''implementation_self_assessment_v2'' then
        (case implementation_self_assessment_summary_from_path rd raw_path of
           Inl e \<Rightarrow> Inl e
         | Inr None \<Rightarrow> Inr (JObject [])
         | Inr (Some s) \<Rightarrow> Inr (JObject
             [(''implementation_complete'', option_json JBool (sa_implementation_complete s)),
              (''verification_green'', option_json JBool (sa_verification_green s)),
              (''blocking_remaining_code_tasks'',
               option_json nat_json (sa_blocking_remaining_code_task_count s)),
              (''handoff_task_count'', option_json nat_json (sa_handoff_task_count s)),
              (''blocking_review_handoff_task_count'',
               option_json nat_json (sa_blocking_review_handoff_task_count s))]))
      else if contract_id = ''proposal_decomposition_plan_v1'' then
        (case p094_json_from_path rd raw_path of
           Inl e \<Rightarrow> Inl e
         | Inr None \<Rightarrow> Inr (JObject [])
         | Inr (Some v) \<Rightarrow> Inr (JObject (decomposition_plan_dimensions v)))
      else if contract_id = ''blocker_boundary_status_v1'' then
        (case p094_json_from_path rd raw_path of
           Inl e \<Rightarrow> Inl e
         | Inr None \<Rightarrow> Inr (JObject [])
         | Inr (Some v) \<Rightarrow> Inr (JObject (blocker_boundary_dimensions v)))
      else Inr (JObject []))"

section \<open>Writing a generation\<close>

definition active_generation_id :: "artifact_store \<Rightarrow> ident \<Rightarrow> string \<Rightarrow> string option" where
  "active_generation_id st run_id contract_id =
     map_option ac_generation_id
       (fetch_optional (filter (\<lambda>a. ac_run_id a = run_id \<and> ac_contract_id a = contract_id) (as_active st)))"

definition effective_supersedes_generation_id_tx ::
  "artifact_store \<Rightarrow> ident \<Rightarrow> string \<Rightarrow> string \<Rightarrow> string option \<Rightarrow> bool \<Rightarrow> string option" where
  "effective_supersedes_generation_id_tx st run_id contract_id new_generation_id explicit valid =
     (if explicit \<noteq> None \<or> \<not> valid then explicit
      else case active_generation_id st run_id contract_id of
          None \<Rightarrow> None
        | Some g \<Rightarrow> if g \<noteq> new_generation_id then Some g else None)"

text \<open>\<^verbatim>\<open>INSERT OR REPLACE\<close> on the primary key, and the upsert of the active row.\<close>

definition insert_or_replace :: "generation_row \<Rightarrow> generation_row list \<Rightarrow> generation_row list" where
  "insert_or_replace g t = filter (\<lambda>r. gr_generation_id r \<noteq> gr_generation_id g) t @ [g]"

definition upsert_active ::
  "ident \<Rightarrow> string \<Rightarrow> string \<Rightarrow> datetime \<Rightarrow> active_contract_row list \<Rightarrow> active_contract_row list" where
  "upsert_active run_id contract_id generation_id now t =
     (let key = (\<lambda>a. ac_run_id a = run_id \<and> ac_contract_id a = contract_id) in
      if list_ex key t
      then sql_update key (\<lambda>a. a\<lparr>ac_generation_id := generation_id, ac_updated_at := now\<rparr>) t
      else t @ [\<lparr>ac_run_id = run_id, ac_contract_id = contract_id, ac_generation_id = generation_id,
                 ac_updated_at = now\<rparr>])"

definition generation_of_input ::
  "active_artifact_generation_input \<Rightarrow> string \<Rightarrow> bool \<Rightarrow> bool \<Rightarrow> string list \<Rightarrow> string list \<Rightarrow> json
    \<Rightarrow> datetime \<Rightarrow> agent_output_settlement \<Rightarrow> generation_row" where
  "generation_of_input i canonical_status valid verified warnings validation_errors dimensions now settlement =
     \<lparr>gr_generation_id = gi_generation_id i, gr_run_id = gi_run_id i,
      gr_artifact_id = gi_artifact_id i, gr_contract_id = gi_contract_id i,
      gr_canonical_path = gi_canonical_path i, gr_raw_path = gi_raw_path i,
      gr_raw_status = gi_raw_status i, gr_canonical_status = canonical_status,
      gr_source_agent_execution_id = gi_source_agent_execution_id i,
      gr_source_stage_execution_id = gi_source_stage_execution_id i,
      gr_source_session_generation_id = gi_source_session_generation_id i,
      gr_source_work_item_id = gi_source_work_item_id i,
      gr_supersedes_generation_id = gi_supersedes_generation_id i,
      gr_output_settlement = settlement, gr_source_generation_verified = verified,
      gr_valid = valid, gr_partial = gi_partial i, gr_warnings = warnings,
      gr_validation_errors = validation_errors, gr_canonical_dimensions = dimensions,
      gr_created_at = now\<rparr>"

definition insert_generation_in_tx ::
  "artifact_reader \<Rightarrow> active_artifact_generation_input \<Rightarrow> string \<Rightarrow> bool \<Rightarrow> bool \<Rightarrow> string list \<Rightarrow> string list
    \<Rightarrow> datetime \<Rightarrow> agent_output_settlement \<Rightarrow> artifact_store \<Rightarrow> (string, artifact_store) result" where
  "insert_generation_in_tx rd i canonical_status valid verified warnings validation_errors now settlement st =
     (case canonical_dimensions_json_for_generation rd (gi_contract_id i) (gi_raw_path i) of
        Inl e \<Rightarrow> Inl e
      | Inr dims \<Rightarrow>
          Inr (st\<lparr>as_generations :=
            insert_or_replace
              (generation_of_input i canonical_status valid verified warnings validation_errors dims now settlement)
              (as_generations st)\<rparr>))"

definition activate :: "ident \<Rightarrow> string \<Rightarrow> string \<Rightarrow> datetime \<Rightarrow> artifact_store \<Rightarrow> artifact_store" where
  "activate run_id contract_id generation_id now st =
     st\<lparr>as_active := upsert_active run_id contract_id generation_id now (as_active st)\<rparr>"

definition upsert_generation_and_rebuild_tx ::
  "artifact_reader \<Rightarrow> datetime \<Rightarrow> active_artifact_generation_input \<Rightarrow> artifact_store
    \<Rightarrow> (string, artifact_store) result" where
  "upsert_generation_and_rebuild_tx rd now i st =
     (case effective_raw_status_for_generation rd (gi_contract_id i) (gi_raw_path i) (gi_raw_status i) of
        Inl e \<Rightarrow> Inl e
      | Inr raw \<Rightarrow>
          let n = normalize_contract_status (gi_contract_id i) raw;
              i' = i\<lparr>gi_raw_status := raw,
                     gi_supersedes_generation_id :=
                       effective_supersedes_generation_id_tx st (gi_run_id i) (gi_contract_id i)
                         (gi_generation_id i) (gi_supersedes_generation_id i) (nc_valid n)\<rparr>
          in case insert_generation_in_tx rd i' (nc_canonical_status n) (nc_valid n) False
                    (gi_warnings i @ nc_warnings n) (nc_validation_errors n) now
                    (gi_output_settlement i) st of
              Inl e \<Rightarrow> Inl e
            | Inr st' \<Rightarrow>
                Inr (if nc_valid n
                     then activate (gi_run_id i) (gi_contract_id i) (gi_generation_id i) now st'
                     else st'))"

text \<open>
  The verified form keeps the status of the input in the row, although the row is
  valid or not by the status read from the artifact.
\<close>

definition upsert_verified_generation_and_rebuild ::
  "artifact_reader \<Rightarrow> datetime \<Rightarrow> active_artifact_generation_input \<Rightarrow> artifact_store
    \<Rightarrow> (string, artifact_store) result" where
  "upsert_verified_generation_and_rebuild rd now i st =
     (case effective_raw_status_for_generation rd (gi_contract_id i) (gi_raw_path i) (gi_raw_status i) of
        Inl e \<Rightarrow> Inl e
      | Inr raw \<Rightarrow>
          let n = normalize_contract_status (gi_contract_id i) raw;
              i' = i\<lparr>gi_supersedes_generation_id :=
                       effective_supersedes_generation_id_tx st (gi_run_id i) (gi_contract_id i)
                         (gi_generation_id i) (gi_supersedes_generation_id i) (nc_valid n)\<rparr>
          in case insert_generation_in_tx rd i' (nc_canonical_status n) (nc_valid n) True
                    (gi_warnings i @ nc_warnings n) (nc_validation_errors n) now
                    (gi_output_settlement i) st of
              Inl e \<Rightarrow> Inl e
            | Inr st' \<Rightarrow>
                Inr (if nc_valid n
                     then activate (gi_run_id i) (gi_contract_id i) (gi_generation_id i) now st'
                     else st'))"

section \<open>Repairing statuses\<close>

definition repair_row ::
  "artifact_reader \<Rightarrow> datetime \<Rightarrow> ident \<Rightarrow> generation_row \<Rightarrow> artifact_store
    \<Rightarrow> (string, artifact_store \<times> bool) result" where
  "repair_row rd now run_id row st =
     (let n = normalize_contract_status (gr_contract_id row) (gr_raw_status row) in
      if \<not> nc_valid n then Inr (st, False)
      else case canonical_dimensions_json_for_generation rd (gr_contract_id row) (gr_raw_path row) of
          Inl e \<Rightarrow> Inl e
        | Inr dims \<Rightarrow>
            let warnings = gr_warnings row @ filter (\<lambda>w. w \<notin> set (gr_warnings row)) (remdups (nc_warnings n));
                st' = st\<lparr>as_generations :=
                  sql_update (\<lambda>g. gr_generation_id g = gr_generation_id row)
                    (\<lambda>g. g\<lparr>gr_canonical_status := nc_canonical_status n, gr_valid := True,
                           gr_warnings := warnings, gr_validation_errors := nc_validation_errors n,
                           gr_canonical_dimensions := dims\<rparr>)
                    (as_generations st)\<rparr>
            in Inr (if gr_source_generation_verified row
                    then activate run_id (gr_contract_id row) (gr_generation_id row) now st'
                    else st', True))"

fun repair_rows ::
  "artifact_reader \<Rightarrow> datetime \<Rightarrow> ident \<Rightarrow> generation_row list \<Rightarrow> artifact_store \<Rightarrow> nat
    \<Rightarrow> (string, artifact_store \<times> nat) result" where
  "repair_rows rd now run_id [] st repaired = Inr (st, repaired)"
| "repair_rows rd now run_id (row # rows) st repaired =
     (case repair_row rd now run_id row st of
        Inl e \<Rightarrow> Inl e
      | Inr (st', b) \<Rightarrow> repair_rows rd now run_id rows st' (if b then Suc repaired else repaired))"

definition repair_contract_status_normalization_tx ::
  "artifact_reader \<Rightarrow> datetime \<Rightarrow> ident \<Rightarrow> artifact_store \<Rightarrow> (string, artifact_store \<times> nat) result" where
  "repair_contract_status_normalization_tx rd now run_id st =
     repair_rows rd now run_id
       (filter (\<lambda>g. gr_run_id g = run_id \<and> \<not> gr_valid g) (as_generations st)) st 0"

section \<open>Claims\<close>

text \<open>The key constraint and the \<^verbatim>\<open>CHECK\<close> on the owner of migration 029.\<close>

definition claim_owner_ok :: "source_generation_claim \<Rightarrow> bool" where
  "claim_owner_ok c \<longleftrightarrow>
     (case ck_owner_kind (cl_key c) of
        StageExecutionOwner \<Rightarrow> cl_stage_execution_id c = Some (ck_owner_id (cl_key c))
      | LeadConflictMediationOwner \<Rightarrow> cl_stage_execution_id c = None)"

definition insert_source_generation_claim_tx ::
  "source_generation_claim \<Rightarrow> artifact_store \<Rightarrow> (string, artifact_store) result" where
  "insert_source_generation_claim_tx c st =
     (if cl_key c \<in> cl_key ` set (as_claims st) then Inl ''UNIQUE constraint failed''
      else if \<not> claim_owner_ok c then Inl ''CHECK constraint failed''
      else Inr (st\<lparr>as_claims := as_claims st @ [c]\<rparr>))"

definition load_source_generation_claim_tx ::
  "claim_key \<Rightarrow> artifact_store \<Rightarrow> source_generation_claim option" where
  "load_source_generation_claim_tx k st = fetch_optional (filter (\<lambda>c. cl_key c = k) (as_claims st))"

definition supersede :: "ident \<Rightarrow> ident \<Rightarrow> datetime \<Rightarrow> source_generation_claim \<Rightarrow> source_generation_claim" where
  "supersede work_item journal now c =
     c\<lparr>cl_claim_state := ClaimSupersededPendingRetry, cl_superseding_work_item_id := Some work_item,
       cl_supersession_journal_id := Some journal, cl_superseded_at := Some now, cl_updated_at := now\<rparr>"

definition mark_claim_superseded_pending_retry_tx ::
  "claim_key \<Rightarrow> ident \<Rightarrow> ident \<Rightarrow> datetime \<Rightarrow> artifact_store \<Rightarrow> artifact_store" where
  "mark_claim_superseded_pending_retry_tx k work_item journal now st =
     st\<lparr>as_claims :=
       sql_update (\<lambda>c. cl_key c = k \<and> cl_claim_state c = ClaimActive) (supersede work_item journal now)
         (as_claims st)\<rparr>"

definition mark_active_claims_superseded_pending_retry_for_owner_tx ::
  "ident \<Rightarrow> owner_kind \<Rightarrow> ident \<Rightarrow> ident \<Rightarrow> ident \<Rightarrow> datetime \<Rightarrow> artifact_store \<Rightarrow> artifact_store \<times> nat" where
  "mark_active_claims_superseded_pending_retry_for_owner_tx run_id kind owner work_item journal now st =
     (let P = (\<lambda>c. ck_run_id (cl_key c) = run_id \<and> ck_owner_kind (cl_key c) = kind
                   \<and> ck_owner_id (cl_key c) = owner \<and> cl_claim_state c = ClaimActive)
      in (st\<lparr>as_claims := sql_update P (supersede work_item journal now) (as_claims st)\<rparr>,
          rows_affected P (as_claims st)))"

definition mark_active_claims_superseded_pending_retry_for_stage_tx ::
  "ident \<Rightarrow> ident \<Rightarrow> ident \<Rightarrow> ident \<Rightarrow> datetime \<Rightarrow> artifact_store \<Rightarrow> artifact_store \<times> nat" where
  "mark_active_claims_superseded_pending_retry_for_stage_tx run_id stage =
     mark_active_claims_superseded_pending_retry_for_owner_tx run_id StageExecutionOwner stage"

definition finalize_pending_retry_supersession_tx ::
  "ident \<Rightarrow> ident \<Rightarrow> datetime \<Rightarrow> artifact_store \<Rightarrow> artifact_store" where
  "finalize_pending_retry_supersession_tx work_item new_agent now st =
     st\<lparr>as_claims :=
       sql_update (\<lambda>c. cl_superseding_work_item_id c = Some work_item
                       \<and> cl_claim_state c = ClaimSupersededPendingRetry)
         (\<lambda>c. c\<lparr>cl_claim_state := ClaimSuperseded,
                cl_superseded_by_agent_execution_id := Some new_agent, cl_updated_at := now\<rparr>)
         (as_claims st)\<rparr>"

definition close_source_generation_claim_tx ::
  "claim_key \<Rightarrow> datetime \<Rightarrow> artifact_store \<Rightarrow> artifact_store" where
  "close_source_generation_claim_tx k now st =
     st\<lparr>as_claims :=
       sql_update (\<lambda>c. cl_key c = k \<and> cl_claim_state c = ClaimActive)
         (\<lambda>c. c\<lparr>cl_claim_state := ClaimClosed, cl_closed_at := Some now, cl_updated_at := now\<rparr>)
         (as_claims st)\<rparr>"

definition update_source_generation_claim_session ::
  "claim_key \<Rightarrow> string option \<Rightarrow> datetime \<Rightarrow> artifact_store \<Rightarrow> artifact_store" where
  "update_source_generation_claim_session k session now st =
     st\<lparr>as_claims :=
       sql_update (\<lambda>c. cl_key c = k \<and> cl_claim_state c = ClaimActive)
         (\<lambda>c. c\<lparr>cl_current_session_generation_id := session, cl_updated_at := now\<rparr>)
         (as_claims st)\<rparr>"

section \<open>Importing under a claim\<close>

datatype source_generation_import_decision = Activated | InvalidRejected | IgnoredLateOutputs

definition active_claim :: "artifact_store \<Rightarrow> claim_key \<Rightarrow> string \<Rightarrow> bool" where
  "active_claim st k session \<longleftrightarrow>
     (case load_source_generation_claim_tx k st of
        None \<Rightarrow> False
      | Some c \<Rightarrow> cl_claim_state c = ClaimActive \<and> cl_current_session_generation_id c = Some session)"

definition import_generation_with_claim_cas_tx ::
  "artifact_reader \<Rightarrow> datetime \<Rightarrow> claim_key \<Rightarrow> string \<Rightarrow> active_artifact_generation_input \<Rightarrow> artifact_store
    \<Rightarrow> (string, artifact_store \<times> source_generation_import_decision) result" where
  "import_generation_with_claim_cas_tx rd now k session i st =
     (case effective_raw_status_for_generation rd (gi_contract_id i) (gi_raw_path i) (gi_raw_status i) of
        Inl e \<Rightarrow> Inl e
      | Inr raw \<Rightarrow>
          let n = normalize_contract_status (gi_contract_id i) raw;
              warnings = gi_warnings i @ nc_warnings n;
              i' = i\<lparr>gi_raw_status := raw,
                     gi_supersedes_generation_id :=
                       effective_supersedes_generation_id_tx st (ck_run_id k) (gi_contract_id i)
                         (gi_generation_id i) (gi_supersedes_generation_id i) (nc_valid n)\<rparr>
          in if \<not> active_claim st k session then
               (case insert_generation_in_tx rd i' ''invalid'' False False warnings
                       (nc_validation_errors n) now IgnoredLateSettlement st of
                  Inl e \<Rightarrow> Inl e
                | Inr st' \<Rightarrow> Inr (st', IgnoredLateOutputs))
             else
               (case insert_generation_in_tx rd i' (nc_canonical_status n) (nc_valid n) True warnings
                       (nc_validation_errors n) now (gi_output_settlement i) st of
                  Inl e \<Rightarrow> Inl e
                | Inr st' \<Rightarrow>
                    Inr (if nc_valid n
                         then (activate (ck_run_id k) (gi_contract_id i) (gi_generation_id i) now st',
                               Activated)
                         else (st', InvalidRejected))))"

section \<open>Overrides\<close>

record override_input =
  oi_run_id :: ident
  oi_contract_id :: string
  oi_override_type :: string
  oi_from_status :: string
  oi_to_status :: string
  oi_reason :: string
  oi_owner :: string
  oi_source_artifacts :: "string list"
  oi_expires_at_stage :: string
  oi_journal_id :: ident

text \<open>\<^verbatim>\<open>validation_errors.join("; ")\<close>.\<close>

fun join_with :: "string \<Rightarrow> string list \<Rightarrow> string" where
  "join_with sep [] = []"
| "join_with sep [x] = x"
| "join_with sep (x # y # xs) = x @ sep @ join_with sep (y # xs)"

definition invalid_override_status :: "string \<Rightarrow> string \<Rightarrow> string \<Rightarrow> string list \<Rightarrow> string" where
  "invalid_override_status which status contract_id errors =
     ''invalid override '' @ which @ '' '' @ [CHR 0x27] @ status @ [CHR 0x27] @ '' for ''
       @ contract_id @ '': '' @ join_with ''; '' errors"

definition validate_override_input :: "override_input \<Rightarrow> (string, string \<times> string) result" where
  "validate_override_input i =
     (let c = oi_contract_id i; t = oi_override_type i in
      if \<not> known_contract_id c then Inl (''unknown artifact contract override target: '' @ c)
      else if \<not> (t = ''status'' \<or> (c = ''audit_report_v1'' \<and> t = ''implementation_status'')) then
        Inl (''unsupported artifact contract override type '' @ [CHR 0x27] @ t @ [CHR 0x27] @ '' for '' @ c)
      else
        let from = normalize_contract_status c (oi_from_status i);
            to = normalize_contract_status c (oi_to_status i)
        in if \<not> nc_valid from then
             Inl (invalid_override_status ''from_status'' (oi_from_status i) c (nc_validation_errors from))
           else if \<not> nc_valid to then
             Inl (invalid_override_status ''to_status'' (oi_to_status i) c (nc_validation_errors to))
           else Inr (nc_canonical_status from, nc_canonical_status to))"

definition create_override_and_rebuild ::
  "ident \<Rightarrow> datetime \<Rightarrow> override_input \<Rightarrow> artifact_store \<Rightarrow> (string, artifact_store) result" where
  "create_override_and_rebuild override_id now i st =
     (case validate_override_input i of
        Inl e \<Rightarrow> Inl e
      | Inr (from, to) \<Rightarrow>
          if override_id \<in> ov_override_id ` set (as_overrides st) then Inl ''UNIQUE constraint failed''
          else Inr (st\<lparr>as_overrides := as_overrides st @
            [\<lparr>ov_override_id = override_id, ov_run_id = oi_run_id i, ov_contract_id = oi_contract_id i,
              ov_override_type = oi_override_type i, ov_from_status = from, ov_to_status = to,
              ov_reason = oi_reason i, ov_owner = oi_owner i,
              ov_source_artifacts = oi_source_artifacts i,
              ov_expires_at_stage = oi_expires_at_stage i, ov_journal_id = oi_journal_id i,
              ov_created_at = now, ov_expired_at = None, ov_active = True\<rparr>]\<rparr>))"

text \<open>
  The overrides a stage ends. When there are any, the update is journaled as an
  \<^verbatim>\<open>ExpireArtifactContractOverrides\<close> command: recorded before it with the identifiers it
  expires, completed after it.
\<close>

record expiry_journal =
  ej_run_id :: ident
  ej_stage_id :: string
  ej_expired_override_ids :: "ident list"
  ej_completed_at :: datetime

definition expiring :: "ident \<Rightarrow> string \<Rightarrow> override_row \<Rightarrow> bool" where
  "expiring run_id stage_id v \<longleftrightarrow>
     ov_run_id v = run_id \<and> ov_expires_at_stage v = stage_id \<and> ov_active v"

definition expire_overrides_for_stage ::
  "ident \<Rightarrow> string \<Rightarrow> datetime \<Rightarrow> artifact_store \<Rightarrow> artifact_store \<times> expiry_journal option" where
  "expire_overrides_for_stage run_id stage_id now st =
     (let ids = map ov_override_id
                  (sort_key ov_created_at (filter (expiring run_id stage_id) (as_overrides st)))
      in (st\<lparr>as_overrides :=
            sql_update (expiring run_id stage_id) (\<lambda>v. v\<lparr>ov_active := False, ov_expired_at := Some now\<rparr>)
              (as_overrides st)\<rparr>,
          if ids = [] then None
          else Some \<lparr>ej_run_id = run_id, ej_stage_id = stage_id, ej_expired_override_ids = ids,
                     ej_completed_at = now\<rparr>))"

section \<open>The field a condition reads\<close>

datatype canonical_contract_field =
  Resolved json
  | MissingControlled string
  | UncontrolledAlias

definition contract_id_for_alias :: "string \<Rightarrow> string option" where
  "contract_id_for_alias alias =
     map_of
       [(''prepush_review_report'', ''prepush_review_v1''),
        (''docs_report'', ''docs_report_v1''),
        (''audit_report'', ''audit_report_v1''),
        (''security_report'', ''security_report_v1''),
        (''implementation_review_summary'', ''implementation_review_summary_v1''),
        (''implementation_self_assessment_v2'', ''implementation_self_assessment_v2''),
        (''tests_result_v1'', ''tests_result_v1''),
        (''implementation_closeout_readiness_v1'', ''implementation_closeout_readiness_v1''),
        (''proposal_gate_result_v1'', ''proposal_gate_result_v1''),
        (''proposal_decomposition_plan'', ''proposal_decomposition_plan_v1''),
        (''quality_gate_blocker_assessment'', ''quality_gate_blocker_assessment_v1''),
        (''blocker_boundary_status'', ''blocker_boundary_status_v1''),
        (''blocker_boundary_approval_request'', ''blocker_boundary_approval_request_v1''),
        (''blocker_boundary_human_decision'', ''blocker_boundary_human_decision_v1''),
        (''followup_proposal_seed'', ''followup_proposal_seed_v1'')] alias"

definition active_override_field :: "artifact_store \<Rightarrow> ident \<Rightarrow> string \<Rightarrow> string \<Rightarrow> json option" where
  "active_override_field st run_id contract_id field_name =
     map_option (\<lambda>v. JString (ov_to_status v))
       (newest ov_created_at
         (filter (\<lambda>v. ov_run_id v = run_id \<and> ov_contract_id v = contract_id \<and> ov_active v
                 \<and> (ov_override_type v = field_name
                    \<or> (field_name = ''status'' \<and> ov_override_type v = ''implementation_status'')))
           (as_overrides st)))"

definition p077_canonical_field_result ::
  "artifact_store \<Rightarrow> ident \<Rightarrow> string \<Rightarrow> string \<Rightarrow> canonical_contract_field" where
  "p077_canonical_field_result st run_id contract_id field_name =
     (case newest cg_created_at
             (filter (\<lambda>g. cg_run_id g = run_id \<and> cg_contract_id g = contract_id \<and> cg_active g)
               (as_closeout st)) of
        None \<Rightarrow> MissingControlled contract_id
      | Some row \<Rightarrow>
          if field_name = ''status'' then Resolved (JString (cg_status row))
          else if contract_id = ''implementation_closeout_readiness_v1'' \<and> field_name = ''decision'' then
            (case cg_decision row of
               Some d \<Rightarrow> Resolved (JString d)
             | None \<Rightarrow> MissingControlled contract_id)
          else MissingControlled contract_id)"

definition dimension_field :: "(json \<Rightarrow> json option) \<Rightarrow> json \<Rightarrow> string \<Rightarrow> string \<Rightarrow> canonical_contract_field" where
  "dimension_field typed dims contract_id field_name =
     (case Option.bind (json_get dims field_name) typed of
        Some v \<Rightarrow> Resolved v
      | None \<Rightarrow> MissingControlled contract_id)"

definition bool_dimension_field :: "json \<Rightarrow> string \<Rightarrow> string \<Rightarrow> canonical_contract_field" where
  "bool_dimension_field = dimension_field (\<lambda>v. map_option JBool (as_bool v))"

definition string_dimension_field :: "json \<Rightarrow> string \<Rightarrow> string \<Rightarrow> canonical_contract_field" where
  "string_dimension_field = dimension_field (\<lambda>v. map_option JString (as_str v))"

definition u64_dimension_field :: "json \<Rightarrow> string \<Rightarrow> string \<Rightarrow> canonical_contract_field" where
  "u64_dimension_field = dimension_field (\<lambda>v. map_option nat_json (as_u64 v))"

definition json_dimension_field :: "json \<Rightarrow> string \<Rightarrow> string \<Rightarrow> canonical_contract_field" where
  "json_dimension_field = dimension_field Some"

definition generation_field :: "generation_row \<Rightarrow> string \<Rightarrow> string \<Rightarrow> canonical_contract_field" where
  "generation_field g contract_id f =
     (let c = gr_contract_id g; dims = gr_canonical_dimensions g in
      if f \<in> {''status'', ''implementation_status''} then Resolved (JString (gr_canonical_status g))
      else if f = ''requires_split'' \<and> c = ''proposal_decomposition_plan_v1'' then
        bool_dimension_field dims contract_id f
      else if f = ''implementation_start_decision'' \<and> c = ''proposal_decomposition_plan_v1'' then
        string_dimension_field dims contract_id f
      else if f \<in> {''followup_proposal_required'', ''has_release_blocking_external_blockers'',
                   ''has_no_release_blocking_external_blockers''} \<and> c = ''blocker_boundary_status_v1'' then
        bool_dimension_field dims contract_id f
      else if f \<in> {''projection_integrity'', ''primary_owner_class'', ''workflow_route_hint''}
              \<and> c = ''blocker_boundary_status_v1'' then
        string_dimension_field dims contract_id f
      else if f \<in> {''blocker_freshness'', ''allowed_workflow_routes''} \<and> c = ''blocker_boundary_status_v1'' then
        json_dimension_field dims contract_id f
      else if f = ''release_evidence_status'' \<and> c = ''audit_report_v1'' then
        string_dimension_field dims contract_id f
      else if f \<in> {''implementation_complete'', ''verification_green''}
              \<and> c = ''implementation_self_assessment_v2'' then
        bool_dimension_field dims contract_id f
      else if f \<in> {''blocking_remaining_code_tasks'', ''handoff_task_count'',
                   ''blocking_review_handoff_task_count''} \<and> c = ''implementation_self_assessment_v2'' then
        u64_dimension_field dims contract_id f
      else MissingControlled contract_id)"

text \<open>The row of the join of the active contract with its generation.\<close>

definition active_generation :: "artifact_store \<Rightarrow> ident \<Rightarrow> string \<Rightarrow> generation_row option" where
  "active_generation st run_id contract_id =
     Option.bind (active_generation_id st run_id contract_id)
       (\<lambda>g. fetch_optional (filter (\<lambda>r. gr_generation_id r = g) (as_generations st)))"

text \<open>A query of the lookup that fails is the \<open>fault\<close>; an unknown alias asks no query.\<close>

definition canonical_contract_field_result ::
  "string option \<Rightarrow> artifact_store \<Rightarrow> ident \<Rightarrow> string \<Rightarrow> string \<Rightarrow> (string, canonical_contract_field) result" where
  "canonical_contract_field_result fault st run_id alias field_name =
     (case contract_id_for_alias alias of
        None \<Rightarrow> Inr UncontrolledAlias
      | Some contract_id \<Rightarrow>
          (case fault of
             Some e \<Rightarrow> Inl e
           | None \<Rightarrow>
               (case active_override_field st run_id contract_id field_name of
                  Some v \<Rightarrow> Inr (Resolved v)
                | None \<Rightarrow>
                    if contract_id \<in> {''proposal_gate_result_v1'', ''implementation_closeout_readiness_v1''}
                    then Inr (p077_canonical_field_result st run_id contract_id field_name)
                    else case active_generation st run_id contract_id of
                        None \<Rightarrow> Inr (MissingControlled contract_id)
                      | Some g \<Rightarrow> Inr (generation_field g contract_id field_name))))"

definition active_contract_exists_result ::
  "string option \<Rightarrow> artifact_store \<Rightarrow> ident \<Rightarrow> string \<Rightarrow> (string, canonical_contract_field) result" where
  "active_contract_exists_result fault st run_id alias =
     (case contract_id_for_alias alias of
        None \<Rightarrow> Inr UncontrolledAlias
      | Some contract_id \<Rightarrow>
          (case fault of
             Some e \<Rightarrow> Inl e
           | None \<Rightarrow>
               if active_generation_id st run_id contract_id = None
               then Inr (MissingControlled contract_id) else Inr (Resolved (JBool True))))"

end
