(* ===== verification/Artifact_Store_Properties.thy ===== *)
theory Artifact_Store_Properties
  imports Artifact_Store
begin

text \<open>
  What the artifact-contract repository promises: what a transition condition reads, that
  repairing statuses does not move the truth of a contract, and that an override stands
  until its stage.
\<close>

section \<open>Transactions as steps\<close>

text \<open>
  The stores the claimed and the plain imports build: the transactions of the repository without
  \<open>upsert_verified_generation_and_rebuild\<close>, which the engine uses for the artifacts it writes itself, and without
  the writers of claims in the work queue. \<open>Late_Outputs\<close> adds both.
\<close>

inductive store_step :: "artifact_store \<Rightarrow> artifact_store \<Rightarrow> bool" where
  upsert: "upsert_generation_and_rebuild_tx rd now i st = Inr st' \<Longrightarrow> store_step st st'"
| imported: "import_generation_with_claim_cas_tx rd now k session i st = Inr (st', d) \<Longrightarrow> store_step st st'"
| repair: "repair_contract_status_normalization_tx rd now run_id st = Inr (st', n) \<Longrightarrow> store_step st st'"
| claim: "insert_source_generation_claim_tx c st = Inr st' \<Longrightarrow> store_step st st'"
| supersede: "store_step st (mark_claim_superseded_pending_retry_tx k w j now st)"
| supersede_owner:
    "mark_active_claims_superseded_pending_retry_for_owner_tx run_id kind owner w j now st = (st', n)
      \<Longrightarrow> store_step st st'"
| finalize: "store_step st (finalize_pending_retry_supersession_tx w agent now st)"
| close: "store_step st (close_source_generation_claim_tx k now st)"
| session: "store_step st (update_source_generation_claim_session k s now st)"
| override_created: "create_override_and_rebuild oid now oi st = Inr st' \<Longrightarrow> store_step st st'"
| override_expired: "expire_overrides_for_stage run_id stage now st = (st', ids) \<Longrightarrow> store_step st st'"

definition store_init :: "artifact_store \<Rightarrow> bool" where
  "store_init st \<longleftrightarrow> as_generations st = [] \<and> as_active st = [] \<and> as_claims st = [] \<and> as_overrides st = []"

text \<open>
  The keys of the tables, and: a generation imported under a claim that is not valid has
  a status no normalisation accepts.
\<close>

definition store_inv :: "artifact_store \<Rightarrow> bool" where
  "store_inv st \<longleftrightarrow>
     distinct (map gr_generation_id (as_generations st))
     \<and> distinct (map (\<lambda>a. (ac_run_id a, ac_contract_id a)) (as_active st))
     \<and> distinct (map cl_key (as_claims st))
     \<and> ac_generation_id ` set (as_active st) \<subseteq> gr_generation_id ` set (as_generations st)
     \<and> list_all (\<lambda>g. gr_source_generation_verified g \<and> \<not> gr_valid g \<longrightarrow>
          \<not> nc_valid (normalize_contract_status (gr_contract_id g) (gr_raw_status g)))
        (as_generations st)"

section \<open>Effect of the writers on the tables\<close>

lemma result_case_Inr:
  "(case r of Inl e \<Rightarrow> Inl e | Inr a \<Rightarrow> f a) = Inr b \<longleftrightarrow> (\<exists>a. r = Inr a \<and> f a = Inr b)"
  by (cases r) auto

lemma insert_generation_Inr:
  "insert_generation_in_tx rd i s v ver ws es now se st = Inr st' \<longleftrightarrow>
     (\<exists>dims. canonical_dimensions_json_for_generation rd (gi_contract_id i) (gi_raw_path i) = Inr dims
        \<and> st' = st\<lparr>as_generations := insert_or_replace (generation_of_input i s v ver ws es dims now se)
                     (as_generations st)\<rparr>)"
  by (auto simp: insert_generation_in_tx_def result_case_Inr)

lemma activate_simps [simp]:
  "as_generations (activate r c g now st) = as_generations st"
  "as_claims (activate r c g now st) = as_claims st"
  "as_overrides (activate r c g now st) = as_overrides st"
  "as_closeout (activate r c g now st) = as_closeout st"
  by (simp_all add: activate_def)

lemma generation_of_input_simps [simp]:
  "gr_generation_id (generation_of_input i s v ver ws es d now se) = gi_generation_id i"
  "gr_contract_id (generation_of_input i s v ver ws es d now se) = gi_contract_id i"
  "gr_raw_status (generation_of_input i s v ver ws es d now se) = gi_raw_status i"
  "gr_valid (generation_of_input i s v ver ws es d now se) = v"
  "gr_source_generation_verified (generation_of_input i s v ver ws es d now se) = ver"
  "gr_output_settlement (generation_of_input i s v ver ws es d now se) = se"
  by (simp_all add: generation_of_input_def)

lemma set_insert_or_replace:
  "set (insert_or_replace g t) = insert g {r \<in> set t. gr_generation_id r \<noteq> gr_generation_id g}"
  by (auto simp: insert_or_replace_def)

lemma insert_or_replace_ids:
  assumes "distinct (map gr_generation_id t)"
  shows "distinct (map gr_generation_id (insert_or_replace g t))"
    and "gr_generation_id ` set (insert_or_replace g t) = insert (gr_generation_id g) (gr_generation_id ` set t)"
  using assms by (auto simp: insert_or_replace_def distinct_map inj_on_def)

lemma upsert_active_keys:
  assumes "distinct (map (\<lambda>a. (ac_run_id a, ac_contract_id a)) t)"
  shows "distinct (map (\<lambda>a. (ac_run_id a, ac_contract_id a)) (upsert_active r c g now t))"
    and "ac_generation_id ` set (upsert_active r c g now t) \<subseteq> insert g (ac_generation_id ` set t)"
  using assms
  by (auto simp: upsert_active_def Let_def map_sql_update list_ex_iff set_sql_update)

text \<open>The shape of a successful import, without and with the claim.\<close>

lemma import_late:
  assumes "import_generation_with_claim_cas_tx rd now k session i st = Inr (st', d)"
    and "\<not> active_claim st k session"
  obtains g where "d = IgnoredLateOutputs" "gr_generation_id g = gi_generation_id i"
    "\<not> gr_source_generation_verified g" "gr_output_settlement g = IgnoredLateSettlement" "\<not> gr_valid g"
    "st' = st\<lparr>as_generations := insert_or_replace g (as_generations st)\<rparr>"
proof -
  from assms(1) obtain raw where r:
    "effective_raw_status_for_generation rd (gi_contract_id i) (gi_raw_path i) (gi_raw_status i) = Inr raw"
    by (auto simp: import_generation_with_claim_cas_tx_def result_case_Inr)
  define n where "n = normalize_contract_status (gi_contract_id i) raw"
  define i' where "i' = i\<lparr>gi_raw_status := raw, gi_supersedes_generation_id :=
     effective_supersedes_generation_id_tx st (ck_run_id k) (gi_contract_id i) (gi_generation_id i)
       (gi_supersedes_generation_id i) (nc_valid n)\<rparr>"
  from assms r obtain dims where d: "st' = st\<lparr>as_generations := insert_or_replace
       (generation_of_input i' ''invalid'' False False (gi_warnings i @ nc_warnings n)
          (nc_validation_errors n) dims now IgnoredLateSettlement) (as_generations st)\<rparr>"
    "d = IgnoredLateOutputs"
    by (auto simp: import_generation_with_claim_cas_tx_def result_case_Inr Let_def insert_generation_Inr
        n_def i'_def)
  show ?thesis by (rule that [OF d(2) _ _ _ _ d(1)]) (simp_all add: i'_def)
qed

lemma import_claimed:
  assumes "import_generation_with_claim_cas_tx rd now k session i st = Inr (st', d)"
    and "active_claim st k session"
  obtains g where "gr_generation_id g = gi_generation_id i" "gr_contract_id g = gi_contract_id i"
    "gr_source_generation_verified g"
    "gr_valid g = nc_valid (normalize_contract_status (gr_contract_id g) (gr_raw_status g))"
    "d = (if gr_valid g then Activated else InvalidRejected)"
    "st' = (let s = st\<lparr>as_generations := insert_or_replace g (as_generations st)\<rparr> in
            if gr_valid g then activate (ck_run_id k) (gi_contract_id i) (gi_generation_id i) now s else s)"
proof -
  from assms(1) obtain raw where
    "effective_raw_status_for_generation rd (gi_contract_id i) (gi_raw_path i) (gi_raw_status i) = Inr raw"
    by (auto simp: import_generation_with_claim_cas_tx_def result_case_Inr)
  define n where "n = normalize_contract_status (gi_contract_id i) raw"
  define i' where "i' = i\<lparr>gi_raw_status := raw, gi_supersedes_generation_id :=
     effective_supersedes_generation_id_tx st (ck_run_id k) (gi_contract_id i) (gi_generation_id i)
       (gi_supersedes_generation_id i) (nc_valid n)\<rparr>"
  from assms obtain dims where
    "canonical_dimensions_json_for_generation rd (gi_contract_id i) (gi_raw_path i) = Inr dims"
    by (auto simp: import_generation_with_claim_cas_tx_def result_case_Inr Let_def insert_generation_in_tx_def
        split: if_splits)
  with assms \<open>effective_raw_status_for_generation _ _ _ _ = _\<close> have d: "st' = (let s = st\<lparr>as_generations := insert_or_replace
       (generation_of_input i' (nc_canonical_status n) (nc_valid n) True (gi_warnings i @ nc_warnings n)
          (nc_validation_errors n) dims now (gi_output_settlement i)) (as_generations st)\<rparr> in
       if nc_valid n then activate (ck_run_id k) (gi_contract_id i) (gi_generation_id i) now s else s)"
    "d = (if nc_valid n then Activated else InvalidRejected)"
    by (simp_all add: import_generation_with_claim_cas_tx_def insert_generation_in_tx_def Let_def
        n_def i'_def split: if_splits)
  show ?thesis
    by (rule that [where g = "generation_of_input i' (nc_canonical_status n) (nc_valid n) True
          (gi_warnings i @ nc_warnings n) (nc_validation_errors n) dims now (gi_output_settlement i)"])
      (simp_all add: i'_def d, simp_all add: n_def)
qed

lemma upsert_shape:
  assumes "upsert_generation_and_rebuild_tx rd now i st = Inr st'"
  obtains g where "gr_generation_id g = gi_generation_id i" "\<not> gr_source_generation_verified g"
    "st' = (let s = st\<lparr>as_generations := insert_or_replace g (as_generations st)\<rparr> in
            if gr_valid g then activate (gi_run_id i) (gi_contract_id i) (gi_generation_id i) now s else s)"
proof -
  from assms obtain raw where r:
    "effective_raw_status_for_generation rd (gi_contract_id i) (gi_raw_path i) (gi_raw_status i) = Inr raw"
    by (auto simp: upsert_generation_and_rebuild_tx_def result_case_Inr)
  define n where "n = normalize_contract_status (gi_contract_id i) raw"
  define i' where "i' = i\<lparr>gi_raw_status := raw, gi_supersedes_generation_id :=
     effective_supersedes_generation_id_tx st (gi_run_id i) (gi_contract_id i) (gi_generation_id i)
       (gi_supersedes_generation_id i) (nc_valid n)\<rparr>"
  from assms r obtain dims where
    "canonical_dimensions_json_for_generation rd (gi_contract_id i) (gi_raw_path i) = Inr dims"
    by (auto simp: upsert_generation_and_rebuild_tx_def result_case_Inr Let_def insert_generation_in_tx_def
        split: if_splits)
  with assms r have d:
    "st' = (let s = st\<lparr>as_generations := insert_or_replace
       (generation_of_input i' (nc_canonical_status n) (nc_valid n) False (gi_warnings i @ nc_warnings n)
          (nc_validation_errors n) dims now (gi_output_settlement i)) (as_generations st)\<rparr> in
       if nc_valid n then activate (gi_run_id i) (gi_contract_id i) (gi_generation_id i) now s else s)"
    by (simp add: upsert_generation_and_rebuild_tx_def insert_generation_in_tx_def Let_def
        n_def i'_def split: if_splits)
  show ?thesis
    by (rule that [where g = "generation_of_input i' (nc_canonical_status n) (nc_valid n) False
          (gi_warnings i @ nc_warnings n) (nc_validation_errors n) dims now (gi_output_settlement i)"])
      (simp_all add: i'_def d)
qed

section \<open>The invariant\<close>

lemma inv_insert:
  assumes "store_inv st"
    and "gr_source_generation_verified g \<Longrightarrow> \<not> gr_valid g \<Longrightarrow>
          \<not> nc_valid (normalize_contract_status (gr_contract_id g) (gr_raw_status g))"
  shows "store_inv (st\<lparr>as_generations := insert_or_replace g (as_generations st)\<rparr>)"
proof -
  let ?t = "insert_or_replace g (as_generations st)"
  have d: "distinct (map gr_generation_id (as_generations st))" using assms(1) by (simp add: store_inv_def)
  have "ac_generation_id ` set (as_active st) \<subseteq> gr_generation_id ` set ?t"
    using assms(1) insert_or_replace_ids(2) [OF d, of g] by (auto simp: store_inv_def)
  moreover have "list_all (\<lambda>g. gr_source_generation_verified g \<and> \<not> gr_valid g \<longrightarrow>
      \<not> nc_valid (normalize_contract_status (gr_contract_id g) (gr_raw_status g))) ?t"
    using assms by (auto simp: store_inv_def list_all_iff set_insert_or_replace)
  ultimately show ?thesis
    using assms(1) insert_or_replace_ids(1) [OF d, of g] by (simp add: store_inv_def)
qed

lemma inv_activate:
  assumes "store_inv st" "g \<in> gr_generation_id ` set (as_generations st)"
  shows "store_inv (activate r c g now st)"
proof -
  have d: "distinct (map (\<lambda>a. (ac_run_id a, ac_contract_id a)) (as_active st))"
    using assms(1) by (simp add: store_inv_def)
  have "ac_generation_id ` set (upsert_active r c g now (as_active st)) \<subseteq> gr_generation_id ` set (as_generations st)"
    using upsert_active_keys(2) [OF d, of r c g now] assms by (auto simp: store_inv_def)
  with assms upsert_active_keys(1) [OF d, of r c g now] show ?thesis
    by (simp add: store_inv_def activate_def)
qed

lemma inv_insert_activate:
  assumes "store_inv st"
    and "gr_source_generation_verified g \<Longrightarrow> \<not> gr_valid g \<Longrightarrow>
          \<not> nc_valid (normalize_contract_status (gr_contract_id g) (gr_raw_status g))"
    and "gr_generation_id g = gid"
    and "st' = (let s = st\<lparr>as_generations := insert_or_replace g (as_generations st)\<rparr> in
            if gr_valid g then activate r c gid now s else s)"
  shows "store_inv st'"
  using inv_insert [OF assms(1), of g] assms(2-4)
  by (auto simp: Let_def set_insert_or_replace intro: inv_activate)

text \<open>Repairing a row of the selection: the active table stays, the keys stay, the row is valid.\<close>

definition rejected_rows :: "generation_row list \<Rightarrow> bool" where
  "rejected_rows rows \<longleftrightarrow>
     list_all (\<lambda>g. \<not> (gr_source_generation_verified g
        \<and> nc_valid (normalize_contract_status (gr_contract_id g) (gr_raw_status g)))) rows"

lemma repair_row_frame:
  assumes "repair_row rd now run_id row st = Inr (st', b)" "rejected_rows [row]" "store_inv st"
  shows "as_active st' = as_active st \<and> as_claims st' = as_claims st \<and> as_overrides st' = as_overrides st
    \<and> as_closeout st' = as_closeout st \<and> store_inv st'"
proof (cases "nc_valid (normalize_contract_status (gr_contract_id row) (gr_raw_status row))")
  case True
  with assms(2) have v: "\<not> gr_source_generation_verified row" by (simp add: rejected_rows_def)
  from assms(1) True obtain dims where
    dims: "canonical_dimensions_json_for_generation rd (gr_contract_id row) (gr_raw_path row) = Inr dims"
    by (auto simp: repair_row_def Let_def split: sum.splits)
  have "\<exists>ws es cs. st' = st\<lparr>as_generations :=
      sql_update (\<lambda>g. gr_generation_id g = gr_generation_id row)
        (\<lambda>g. g\<lparr>gr_canonical_status := cs, gr_valid := True, gr_warnings := ws,
               gr_validation_errors := es, gr_canonical_dimensions := dims\<rparr>) (as_generations st)\<rparr>"
    using assms(1) True v dims by (auto simp: repair_row_def Let_def)
  then obtain ws es cs where st': "st' = st\<lparr>as_generations :=
      sql_update (\<lambda>g. gr_generation_id g = gr_generation_id row)
        (\<lambda>g. g\<lparr>gr_canonical_status := cs, gr_valid := True, gr_warnings := ws,
               gr_validation_errors := es, gr_canonical_dimensions := dims\<rparr>) (as_generations st)\<rparr>"
    by blast
  have ids: "map gr_generation_id (as_generations st') = map gr_generation_id (as_generations st)"
    by (simp add: st' map_sql_update)
  then have "gr_generation_id ` set (as_generations st') = gr_generation_id ` set (as_generations st)"
    by (metis image_set)
  with assms(3) ids show ?thesis
    by (auto simp: store_inv_def st' list_all_iff set_sql_update)
next
  case False
  with assms(1,3) show ?thesis by (simp add: repair_row_def Let_def)
qed

lemma repair_rows_frame:
  "repair_rows rd now run_id rows st n = Inr (st', m) \<Longrightarrow> rejected_rows rows \<Longrightarrow> store_inv st \<Longrightarrow>
     as_active st' = as_active st \<and> as_claims st' = as_claims st \<and> as_overrides st' = as_overrides st
     \<and> as_closeout st' = as_closeout st \<and> store_inv st'"
proof (induction rows arbitrary: st n)
  case (Cons row rows)
  from Cons.prems(1) obtain s b where r: "repair_row rd now run_id row st = Inr (s, b)"
    and rest: "repair_rows rd now run_id rows s (if b then Suc n else n) = Inr (st', m)"
    by (auto split: sum.splits)
  have rej: "rejected_rows [row]" "rejected_rows rows"
    using Cons.prems(2) by (simp_all add: rejected_rows_def)
  from repair_row_frame [OF r rej(1) Cons.prems(3)] Cons.IH [OF rest rej(2)] show ?case by simp
qed simp

lemma selection_rejected:
  "store_inv st \<Longrightarrow> rejected_rows (filter (\<lambda>g. gr_run_id g = run_id \<and> \<not> gr_valid g) (as_generations st))"
  by (auto simp: store_inv_def rejected_rows_def list_all_iff)

lemma repair_frame:
  assumes "store_inv st" "repair_contract_status_normalization_tx rd now run_id st = Inr (st', n)"
  shows "as_active st' = as_active st" "as_claims st' = as_claims st" "as_overrides st' = as_overrides st"
    "as_closeout st' = as_closeout st" "store_inv st'"
  using repair_rows_frame [OF _ selection_rejected [OF assms(1)] assms(1)] assms(2)
  unfolding repair_contract_status_normalization_tx_def by blast+

text \<open>Generations outside the selection are untouched.\<close>

lemma repair_row_others:
  assumes "repair_row rd now run_id row st = Inr (st', b)" "gr_generation_id row \<noteq> i"
  shows "filter (\<lambda>g. gr_generation_id g = i) (as_generations st')
       = filter (\<lambda>g. gr_generation_id g = i) (as_generations st)"
proof -
  have u: "filter (\<lambda>g. gr_generation_id g = i) (sql_update (\<lambda>g. gr_generation_id g = gr_generation_id row)
       (\<lambda>g. g\<lparr>gr_canonical_status := cs, gr_valid := v, gr_warnings := ws, gr_validation_errors := es,
              gr_canonical_dimensions := ds\<rparr>) t)
      = filter (\<lambda>g. gr_generation_id g = i) t" for cs v ws es ds t
    using assms(2) by (induction t) (auto simp: sql_update_def)
  from assms(1) show ?thesis
    by (auto simp: repair_row_def Let_def result_case_Inr u split: if_splits)
qed

lemma repair_rows_others:
  "repair_rows rd now run_id rows st n = Inr (st', m) \<Longrightarrow> i \<notin> gr_generation_id ` set rows \<Longrightarrow>
     filter (\<lambda>g. gr_generation_id g = i) (as_generations st')
     = filter (\<lambda>g. gr_generation_id g = i) (as_generations st)"
proof (induction rows arbitrary: st n)
  case (Cons row rows)
  from Cons.prems(1) obtain s b where r: "repair_row rd now run_id row st = Inr (s, b)"
    and rest: "repair_rows rd now run_id rows s (if b then Suc n else n) = Inr (st', m)"
    by (auto split: sum.splits)
  from Cons.prems(2) have "gr_generation_id row \<noteq> i" "i \<notin> gr_generation_id ` set rows" by auto
  with Cons.IH [OF rest] repair_row_others [OF r] show ?case by simp
qed simp

lemma repair_keeps_valid:
  assumes "store_inv st" "repair_contract_status_normalization_tx rd now run_id st = Inr (st', n)"
    and "active_generation st r c = Some g" "gr_valid g"
  shows "active_generation st' r c = Some g"
proof -
  from assms(3) obtain i where i: "active_generation_id st r c = Some i"
    and g: "fetch_optional (filter (\<lambda>r. gr_generation_id r = i) (as_generations st)) = Some g"
    by (auto simp: active_generation_def split: Option.bind_splits)
  then have "g \<in> set (as_generations st)" "gr_generation_id g = i"
    using fetch_optional_Some by force+
  with assms(1,4) have "i \<notin> gr_generation_id ` set (filter (\<lambda>g. gr_run_id g = run_id \<and> \<not> gr_valid g) (as_generations st))"
    by (auto simp: store_inv_def dest: key_unique)
  with assms(2) have "filter (\<lambda>g. gr_generation_id g = i) (as_generations st')
     = filter (\<lambda>g. gr_generation_id g = i) (as_generations st)"
    unfolding repair_contract_status_normalization_tx_def by (rule repair_rows_others)
  moreover have "active_generation_id st' r c = Some i"
    using i repair_frame(1) [OF assms(1,2)] by (simp add: active_generation_id_def)
  ultimately show ?thesis using g by (simp add: active_generation_def)
qed

lemma claims_keep_inv:
  assumes "store_inv st" "map cl_key cs = map cl_key (as_claims st)"
  shows "store_inv (st\<lparr>as_claims := cs\<rparr>)"
  using assms by (simp add: store_inv_def)

lemma overrides_keep_inv: "store_inv st \<Longrightarrow> store_inv (st\<lparr>as_overrides := vs\<rparr>)"
  by (simp add: store_inv_def)

lemmas claim_writer_defs =
  mark_claim_superseded_pending_retry_tx_def finalize_pending_retry_supersession_tx_def
  close_source_generation_claim_tx_def update_source_generation_claim_session_def
  mark_active_claims_superseded_pending_retry_for_owner_tx_def supersede_def

lemma store_step_inv:
  assumes "store_inv st" "store_step st st'"
  shows "store_inv st'"
  using assms(2,1)
proof (cases rule: store_step.cases)
  case (upsert rd now i)
  then obtain g where "gr_generation_id g = gi_generation_id i" "\<not> gr_source_generation_verified g"
    "st' = (let s = st\<lparr>as_generations := insert_or_replace g (as_generations st)\<rparr> in
            if gr_valid g then activate (gi_run_id i) (gi_contract_id i) (gi_generation_id i) now s else s)"
    by (rule upsert_shape)
  then show ?thesis by (intro inv_insert_activate [OF assms(1), of g]) simp_all
next
  case (imported rd now k session i d)
  show ?thesis
  proof (cases "active_claim st k session")
    case True
    with imported(1) obtain g where g: "gr_generation_id g = gi_generation_id i"
      "gr_valid g = nc_valid (normalize_contract_status (gr_contract_id g) (gr_raw_status g))"
      "st' = (let s = st\<lparr>as_generations := insert_or_replace g (as_generations st)\<rparr> in
            if gr_valid g then activate (ck_run_id k) (gi_contract_id i) (gi_generation_id i) now s else s)"
      by (rule import_claimed)
    then show ?thesis by (intro inv_insert_activate [OF assms(1), of g]) simp_all
  next
    case False
    from import_late [OF imported(1) False] assms(1) inv_insert show ?thesis by metis
  qed
next
  case (repair rd now run_id n)
  with assms(1) show ?thesis by (auto dest: repair_frame(5))
next
  case (claim c)
  then have "st' = st\<lparr>as_claims := as_claims st @ [c]\<rparr>" "cl_key c \<notin> cl_key ` set (as_claims st)"
    by (simp_all add: insert_source_generation_claim_tx_def split: if_splits)
  with assms(1) show ?thesis by (simp add: store_inv_def)
qed (auto simp: claim_writer_defs create_override_and_rebuild_def expire_overrides_for_stage_def Let_def
      Let_def result_case_Inr map_sql_update split: if_splits prod.splits
      intro!: claims_keep_inv overrides_keep_inv)

interpretation store: guarded_system store_init store_step store_inv
  by unfold_locales (simp add: store_init_def store_inv_def, rule store_step_inv)

section \<open>What a condition reads\<close>

definition same_truth :: "artifact_store \<Rightarrow> artifact_store \<Rightarrow> bool" where
  "same_truth st st' \<longleftrightarrow>
     (\<forall>fault run_id alias. active_contract_exists_result fault st' run_id alias
        = active_contract_exists_result fault st run_id alias
      \<and> (\<forall>field. canonical_contract_field_result fault st' run_id alias field
        = canonical_contract_field_result fault st run_id alias field))"

lemma same_truthI:
  assumes "as_active st' = as_active st" "as_closeout st' = as_closeout st"
    and "\<And>r c f. active_override_field st' r c f = active_override_field st r c f"
    and "\<And>r c. active_generation st' r c = active_generation st r c"
  shows "same_truth st st'"
  using assms
  by (auto simp: same_truth_def active_contract_exists_result_def canonical_contract_field_result_def
      p077_canonical_field_result_def active_generation_id_def split: option.splits)

lemma active_generation_id_mem:
  "active_generation_id st r c = Some g \<Longrightarrow> g \<in> ac_generation_id ` set (as_active st)"
  by (auto simp: active_generation_id_def dest: fetch_optional_Some)

lemma fetch_insert_or_replace:
  "g' \<noteq> gr_generation_id g \<Longrightarrow>
     filter (\<lambda>r. gr_generation_id r = g') (insert_or_replace g t) = filter (\<lambda>r. gr_generation_id r = g') t"
  by (auto simp: insert_or_replace_def intro: filter_cong)

lemma unread_generation_same_truth:
  assumes "gr_generation_id g \<notin> ac_generation_id ` set (as_active st)"
  shows "same_truth st (st\<lparr>as_generations := insert_or_replace g (as_generations st)\<rparr>)" (is "same_truth st ?s")
proof (rule same_truthI)
  fix r c
  have a: "active_generation_id ?s r c = active_generation_id st r c"
    by (simp add: active_generation_id_def)
  show "active_generation ?s r c = active_generation st r c"
  proof (cases "active_generation_id st r c")
    case (Some g')
    then have "g' \<noteq> gr_generation_id g" using assms active_generation_id_mem by blast
    with Some a show ?thesis by (simp add: active_generation_def fetch_insert_or_replace)
  qed (simp add: active_generation_def a)
qed (simp_all add: active_override_field_def)

section \<open>Concrete values for the witnesses\<close>

definition ex_key :: claim_key where
  "ex_key = \<lparr>ck_run_id = ''r'', ck_owner_kind = StageExecutionOwner, ck_owner_id = ''s'',
             ck_agent_execution_id = ''a'', ck_source_work_item_id = ''w''\<rparr>"

definition ex_claim :: source_generation_claim where
  "ex_claim = \<lparr>cl_key = ex_key, cl_stage_execution_id = Some ''s'', cl_current_session_generation_id = Some ''g'',
     cl_claim_state = ClaimActive, cl_superseding_work_item_id = None,
     cl_superseded_by_agent_execution_id = None, cl_supersession_journal_id = None,
     cl_superseded_at = None, cl_closed_at = None, cl_created_at = 0, cl_updated_at = 0\<rparr>"

definition ex_input :: "string \<Rightarrow> string \<Rightarrow> string \<Rightarrow> active_artifact_generation_input" where
  "ex_input contract status gen =
     \<lparr>gi_run_id = ''r'', gi_artifact_id = ''x'', gi_contract_id = contract, gi_canonical_path = ''p'',
      gi_raw_path = ''p'', gi_raw_status = status, gi_generation_id = gen,
      gi_source_agent_execution_id = None, gi_source_stage_execution_id = None,
      gi_source_session_generation_id = None, gi_source_work_item_id = None,
      gi_supersedes_generation_id = None, gi_output_settlement = ValidOutputsFromCompletedExecution,
      gi_partial = False, gi_warnings = []\<rparr>"

definition ex_reader :: "json \<Rightarrow> artifact_reader" where
  "ex_reader v =
     \<lparr>ar_read_confined = (\<lambda>_. Some []), ar_from_slice = (\<lambda>_. Inr v),
      ar_self_assessment = (\<lambda>_. \<lparr>sa_status = ''unknown'', sa_implementation_complete = None,
        sa_verification_green = None, sa_blocking_remaining_code_task_count = None,
        sa_handoff_task_count = None, sa_blocking_review_handoff_task_count = None\<rparr>)\<rparr>"

definition empty_store :: artifact_store where
  "empty_store = \<lparr>as_generations = [], as_active = [], as_claims = [], as_overrides = [], as_closeout = []\<rparr>"

definition claimed_store :: artifact_store where
  "claimed_store = empty_store\<lparr>as_claims := [ex_claim]\<rparr>"

lemma empty_store_reachable: "reachable_from store_init store_step empty_store"
  by (rule reachable_from.start) (simp add: store_init_def empty_store_def)

lemma claimed_store_reachable: "reachable_from store_init store_step claimed_store"
proof (rule reachable_from.next_state [OF empty_store_reachable])
  have "insert_source_generation_claim_tx ex_claim empty_store = Inr claimed_store"
    by (simp add: insert_source_generation_claim_tx_def claimed_store_def empty_store_def ex_claim_def
        claim_owner_ok_def ex_key_def)
  then show "store_step empty_store claimed_store" by (rule store_step.claim)
qed

section \<open>Properties\<close>

text \<open>
  C36: in a store the claimed and the plain imports built, the startup repair of statuses
  moves no active contract: it never replaces the truth of a contract, and the generation
  a condition reads is untouched where it is valid.
\<close>

theorem repair_keeps_truth:
  assumes "reachable_from store_init store_step st"
    and "repair_contract_status_normalization_tx rd now run_id st = Inr (st', n)"
  shows "as_active st' = as_active st \<and> as_overrides st' = as_overrides st \<and> as_claims st' = as_claims st
    \<and> (\<forall>r c g. active_generation st r c = Some g \<and> gr_valid g \<longrightarrow> active_generation st' r c = Some g)"
proof -
  have inv: "store_inv st" using assms(1) by (rule store.reachable_inv)
  from repair_frame [OF inv assms(2)] repair_keeps_valid [OF inv assms(2)] show ?thesis by blast
qed

theorem repair_keeps_truth_witness:
  "\<exists>st st' g. import_generation_with_claim_cas_tx (ex_reader JNull) 6 ex_key ''g''
        (ex_input ''docs_report_v1'' ''synced'' ''g1'') claimed_store = Inr (st, Activated)
     \<and> repair_contract_status_normalization_tx (ex_reader JNull) 9 ''r'' st = Inr (st', 0)
     \<and> active_generation st' ''r'' ''docs_report_v1'' = Some g \<and> gr_canonical_status g = ''pass''"
proof -
  let ?m = "import_generation_with_claim_cas_tx (ex_reader JNull) 6 ex_key ''g''
        (ex_input ''docs_report_v1'' ''synced'' ''g1'') claimed_store"
  have e: "(case ?m of Inl _ \<Rightarrow> False | Inr (st, d) \<Rightarrow> d = Activated
      \<and> (case active_generation st ''r'' ''docs_report_v1'' of None \<Rightarrow> False
         | Some g \<Rightarrow> gr_valid g \<and> gr_canonical_status g = ''pass'')
      \<and> (case repair_contract_status_normalization_tx (ex_reader JNull) 9 ''r'' st of
           Inl _ \<Rightarrow> False | Inr (st', n) \<Rightarrow> n = 0))"
    by code_simp
  then obtain st g st' where m: "?m = Inr (st, Activated)"
    and g: "active_generation st ''r'' ''docs_report_v1'' = Some g" "gr_valid g" "gr_canonical_status g = ''pass''"
    and r: "repair_contract_status_normalization_tx (ex_reader JNull) 9 ''r'' st = Inr (st', 0)"
    by (auto split: sum.splits prod.splits option.splits)
  have "reachable_from store_init store_step st"
    by (rule reachable_from.next_state [OF claimed_store_reachable store_step.imported [OF m]])
  from repair_keeps_truth [OF this r] m r g show ?thesis by blast
qed

lemma boundary_statuses:
  "nc_canonical_status (normalize_contract_status ''blocker_boundary_status_v1'' ''invalid'') = ''invalid''"
  "\<not> nc_valid (normalize_contract_status ''blocker_boundary_status_v1'' ''invalid'')"
  "nc_canonical_status (normalize_contract_status ''blocker_boundary_status_v1'' ''pass'') = ''pass''"
  "nc_valid (normalize_contract_status ''blocker_boundary_status_v1'' ''pass'')"
  by code_simp+

text \<open>
  A generation the engine writes itself keeps the status its caller passed, although
  it is accepted or rejected by the status read from the artifact. When the artifact says
  \<^verbatim>\<open>invalid\<close> and the caller \<^verbatim>\<open>pass\<close>, the generation is rejected and no condition reads it; the
  next startup repair accepts it, makes it the active generation and conditions read
  \<^verbatim>\<open>pass\<close>.
\<close>

theorem repair_activates_rejected_generation:
  assumes "ar_read_confined rd (gi_raw_path i) = Some b" "ar_from_slice rd b = Inr v"
    and "get_str v ''status'' = Some ''invalid''"
    and "gi_contract_id i = ''blocker_boundary_status_v1''" "gi_raw_status i = ''pass''"
  shows "\<exists>st1 st2. upsert_verified_generation_and_rebuild rd now i empty_store = Inr st1
    \<and> canonical_contract_field_result None st1 (gi_run_id i) ''blocker_boundary_status'' ''status''
        = Inr (MissingControlled ''blocker_boundary_status_v1'')
    \<and> repair_contract_status_normalization_tx rd now' (gi_run_id i) st1 = Inr (st2, 1)
    \<and> canonical_contract_field_result None st2 (gi_run_id i) ''blocker_boundary_status'' ''status''
        = Inr (Resolved (JString ''pass''))"
proof -
  let ?n = "normalize_contract_status ''blocker_boundary_status_v1'' ''invalid''"
  let ?dims = "JObject (blocker_boundary_dimensions v)"
  let ?g = "generation_of_input (i\<lparr>gi_supersedes_generation_id := gi_supersedes_generation_id i\<rparr>) ''invalid'' False True
     (gi_warnings i @ nc_warnings ?n) (nc_validation_errors ?n) ?dims now (gi_output_settlement i)"
  let ?s1 = "empty_store\<lparr>as_generations := [?g]\<rparr>"
  have j: "p094_json_from_path rd (gi_raw_path i) = Inr (Some v)"
    using assms(1,2) by (simp add: p094_json_from_path_def)
  have d: "canonical_dimensions_json_for_generation rd ''blocker_boundary_status_v1'' (gi_raw_path i) = Inr ?dims"
    by (simp add: canonical_dimensions_json_for_generation_def j)
  have u: "upsert_verified_generation_and_rebuild rd now i empty_store = Inr ?s1"
    using assms(3-5) j d boundary_statuses
    by (simp add: upsert_verified_generation_and_rebuild_def effective_raw_status_for_generation_def
        effective_supersedes_generation_id_tx_def insert_generation_in_tx_def insert_or_replace_def
        empty_store_def Let_def)
  have al: "contract_id_for_alias ''blocker_boundary_status'' = Some ''blocker_boundary_status_v1''"
    by (simp add: contract_id_for_alias_def)
  have r1: "canonical_contract_field_result None ?s1 (gi_run_id i) ''blocker_boundary_status'' ''status''
        = Inr (MissingControlled ''blocker_boundary_status_v1'')"
    by (simp add: canonical_contract_field_result_def al active_override_field_def empty_store_def
        active_generation_def active_generation_id_def fetch_optional_def)
  have "\<exists>st2. repair_contract_status_normalization_tx rd now' (gi_run_id i) ?s1 = Inr (st2, 1)
    \<and> canonical_contract_field_result None st2 (gi_run_id i) ''blocker_boundary_status'' ''status''
        = Inr (Resolved (JString ''pass''))"
    using assms(4,5) d boundary_statuses
    by (simp add: repair_contract_status_normalization_tx_def repair_row_def generation_of_input_def Let_def
        activate_def upsert_active_def sql_update_def empty_store_def canonical_contract_field_result_def al
        active_override_field_def active_generation_def active_generation_id_def fetch_optional_def
        generation_field_def)
  with u r1 show ?thesis by blast
qed

theorem repair_activates_rejected_generation_witness:
  "get_str (JObject [(''status'', JString ''invalid'')]) ''status'' = Some ''invalid''
   \<and> (\<exists>st1 st2. upsert_verified_generation_and_rebuild (ex_reader (JObject [(''status'', JString ''invalid'')])) 1
        (ex_input ''blocker_boundary_status_v1'' ''pass'' ''g'') empty_store = Inr st1
    \<and> canonical_contract_field_result None st1 ''r'' ''blocker_boundary_status'' ''status''
        = Inr (MissingControlled ''blocker_boundary_status_v1'')
    \<and> repair_contract_status_normalization_tx (ex_reader (JObject [(''status'', JString ''invalid'')])) 2 ''r'' st1 = Inr (st2, 1)
    \<and> canonical_contract_field_result None st2 ''r'' ''blocker_boundary_status'' ''status''
        = Inr (Resolved (JString ''pass'')))"
  using repair_activates_rejected_generation
    [of "ex_reader (JObject [(''status'', JString ''invalid'')])"
        "ex_input ''blocker_boundary_status_v1'' ''pass'' ''g''" "[]" "JObject [(''status'', JString ''invalid'')]" 1 2]
  by (simp add: ex_reader_def ex_input_def get_str_def)

lemma create_override_Inr:
  assumes "create_override_and_rebuild oid now oi st = Inr st1"
  obtains v where "st1 = st\<lparr>as_overrides := as_overrides st @ [v]\<rparr>" "ov_run_id v = oi_run_id oi"
    "ov_contract_id v = oi_contract_id oi" "ov_override_type v = oi_override_type oi"
    "ov_to_status v = nc_canonical_status (normalize_contract_status (oi_contract_id oi) (oi_to_status oi))"
    "ov_expires_at_stage v = oi_expires_at_stage oi" "ov_created_at v = now" "ov_active v"
proof -
  from assms obtain fs ts where v: "validate_override_input oi = Inr (fs, ts)"
    by (auto simp: create_override_and_rebuild_def result_case_Inr)
  then have "ts = nc_canonical_status (normalize_contract_status (oi_contract_id oi) (oi_to_status oi))"
    by (auto simp: validate_override_input_def Let_def split: if_splits)
  with assms v that show ?thesis by (auto simp: create_override_and_rebuild_def split: if_splits)
qed

text \<open>
  An override of the operator is what a condition reads for the status of its
  contract from the moment it is recorded, in the contract's own vocabulary; when its
  stage is entered every lookup is again as if it had never been made.
\<close>

theorem override_stands_until_its_stage:
  assumes "create_override_and_rebuild oid now oi st = Inr st1"
    and "oi_override_type oi = ''status''"
    and "contract_id_for_alias alias = Some (oi_contract_id oi)"
    and "list_all (\<lambda>v. ov_created_at v < now) (as_overrides st)"
  shows "canonical_contract_field_result None st1 (oi_run_id oi) alias ''status'' =
      Inr (Resolved (JString (nc_canonical_status (normalize_contract_status (oi_contract_id oi) (oi_to_status oi)))))
    \<and> nc_canonical_status (normalize_contract_status (oi_contract_id oi) (oi_to_status oi))
      \<in> set (status_vocabulary (oi_contract_id oi)) - {''invalid''}
    \<and> same_truth (fst (expire_overrides_for_stage (oi_run_id oi) (oi_expires_at_stage oi) t st))
      (fst (expire_overrides_for_stage (oi_run_id oi) (oi_expires_at_stage oi) t st1))"
proof (intro conjI)
  from assms(1) obtain v where v: "st1 = st\<lparr>as_overrides := as_overrides st @ [v]\<rparr>" "ov_run_id v = oi_run_id oi"
    "ov_contract_id v = oi_contract_id oi" "ov_override_type v = oi_override_type oi"
    "ov_to_status v = nc_canonical_status (normalize_contract_status (oi_contract_id oi) (oi_to_status oi))"
    "ov_expires_at_stage v = oi_expires_at_stage oi" "ov_created_at v = now" "ov_active v"
    by (rule create_override_Inr)
  have "newest ov_created_at (filter P (as_overrides st @ [v])) = Some v" if "P v" for P
    using that newest_snoc [of "filter P (as_overrides st)" ov_created_at v] assms(4) v(7)
    by (simp add: list_all_iff)
  then show "canonical_contract_field_result None st1 (oi_run_id oi) alias ''status'' =
      Inr (Resolved (JString (nc_canonical_status (normalize_contract_status (oi_contract_id oi) (oi_to_status oi)))))"
    using v assms(2,3) by (simp add: canonical_contract_field_result_def active_override_field_def)
  from assms(1) have "nc_valid (normalize_contract_status (oi_contract_id oi) (oi_to_status oi))"
    by (auto simp: create_override_and_rebuild_def validate_override_input_def result_case_Inr Let_def split: if_splits)
  then show "nc_canonical_status (normalize_contract_status (oi_contract_id oi) (oi_to_status oi))
      \<in> set (status_vocabulary (oi_contract_id oi)) - {''invalid''}"
    by (auto simp: normalize_contract_status_def Let_def dest: canonical_in_vocabulary split: option.splits)
  have "expiring (oi_run_id oi) (oi_expires_at_stage oi) v" using v by (simp add: expiring_def)
  with v(1) show "same_truth (fst (expire_overrides_for_stage (oi_run_id oi) (oi_expires_at_stage oi) t st))
      (fst (expire_overrides_for_stage (oi_run_id oi) (oi_expires_at_stage oi) t st1))"
    by (intro same_truthI) (simp_all add: expire_overrides_for_stage_def Let_def sql_update_snoc
        active_override_field_def active_generation_def active_generation_id_def)
qed

definition ex_override :: override_input where
  "ex_override = \<lparr>oi_run_id = ''r'', oi_contract_id = ''docs_report_v1'', oi_override_type = ''status'',
     oi_from_status = ''blocked'', oi_to_status = ''synced'', oi_reason = ''x'', oi_owner = ''op'',
     oi_source_artifacts = [], oi_expires_at_stage = ''release'', oi_journal_id = ''j''\<rparr>"

theorem override_stands_until_its_stage_witness:
  "\<exists>st1. create_override_and_rebuild ''o'' 7 ex_override empty_store = Inr st1
     \<and> canonical_contract_field_result None st1 ''r'' ''docs_report'' ''status'' = Inr (Resolved (JString ''pass''))
     \<and> same_truth (fst (expire_overrides_for_stage ''r'' ''release'' 9 empty_store))
         (fst (expire_overrides_for_stage ''r'' ''release'' 9 st1))"
proof -
  have "is_ok (create_override_and_rebuild ''o'' 7 ex_override empty_store)" by code_simp
  then obtain st1 where c: "create_override_and_rebuild ''o'' 7 ex_override empty_store = Inr st1"
    by (auto simp: is_ok_def split: sum.splits)
  have n: "nc_canonical_status (normalize_contract_status ''docs_report_v1'' ''synced'') = ''pass''" by code_simp
  show ?thesis
    using override_stands_until_its_stage [OF c, of "''docs_report''" 9] c n
    by (simp add: ex_override_def contract_id_for_alias_def empty_store_def)
qed

text \<open>
  The closeout contracts live in their own table, so \<^verbatim>\<open>exists\<close> looks for them where they are
  never written while their fields are found.
\<close>

lemma closeout_exists_is_blind:
  assumes "contract_id \<in> {''proposal_gate_result_v1'', ''implementation_closeout_readiness_v1''}"
    and "active_generation_id st run_id contract_id = None"
    and "newest cg_created_at (filter (\<lambda>g. cg_run_id g = run_id \<and> cg_contract_id g = contract_id \<and> cg_active g)
          (as_closeout st)) = Some g"
    and "active_override_field st run_id contract_id ''status'' = None"
  shows "canonical_contract_field_result None st run_id contract_id ''status'' = Inr (Resolved (JString (cg_status g)))"
    and "active_contract_exists_result None st run_id contract_id = Inr (MissingControlled contract_id)"
proof -
  have a: "contract_id_for_alias contract_id = Some contract_id"
    using assms(1) by (auto simp: contract_id_for_alias_def)
  show "canonical_contract_field_result None st run_id contract_id ''status'' = Inr (Resolved (JString (cg_status g)))"
    using assms by (simp add: canonical_contract_field_result_def a p077_canonical_field_result_def)
  show "active_contract_exists_result None st run_id contract_id = Inr (MissingControlled contract_id)"
    using assms(2) by (simp add: active_contract_exists_result_def a)
qed

end
