(* ===== verification/Path_Template.thy ===== *)
theory Path_Template
  imports Rust_Text
begin

text \<open>
  Resolution of artifact path templates: \<open>resolve_path_template\<close> of
  \<^verbatim>\<open>control-plane/crates/engine/src/orchestrator.rs\<close>. The process environment is the argument
  \<open>env\<close>. The loop substitutes until no pattern is left, so it need not end: \<open>None\<close> is the
  loop that does not return.
\<close>

definition split_default :: "string \<Rightarrow> (string \<times> string) option" where
  "split_default inner =
     (case find_sub inner '':-'' of
        None \<Rightarrow> None
      | Some i \<Rightarrow> Some (take i inner, drop (i + 2) inner))"

definition template_value ::
  "(string \<Rightarrow> string option) \<Rightarrow> string option \<Rightarrow> string \<Rightarrow> string" where
  "template_value env meta_root inner =
     (case split_default inner of
        Some (var_name, default_val) \<Rightarrow>
          if var_name = ''CHAINWORKS_META_ROOT''
          then (case meta_root of Some mr \<Rightarrow> mr | None \<Rightarrow> default_val)
          else (case env var_name of Some v \<Rightarrow> v | None \<Rightarrow> default_val)
      | None \<Rightarrow> (case env inner of Some v \<Rightarrow> v | None \<Rightarrow> []))"

text \<open>One turn of the loop; \<open>None\<close> is the \<^verbatim>\<open>break\<close> and the end of the loop.\<close>

definition template_step ::
  "(string \<Rightarrow> string option) \<Rightarrow> string option \<Rightarrow> string \<Rightarrow> string option" where
  "template_step env meta_root s =
     (case find_sub s ''${'' of
        None \<Rightarrow> None
      | Some start \<Rightarrow>
          (case find_sub (drop start s) ''}'' of
             None \<Rightarrow> None
           | Some off \<Rightarrow>
               Some (take start s
                 @ template_value env meta_root (take (off - 2) (drop (start + 2) s))
                 @ drop (start + off + 1) s)))"

partial_function (option) expand_template ::
  "(string \<Rightarrow> string option) \<Rightarrow> string option \<Rightarrow> string \<Rightarrow> string option" where
  "expand_template env meta_root s =
     (case template_step env meta_root s of
        None \<Rightarrow> Some s
      | Some s' \<Rightarrow> expand_template env meta_root s')"

text \<open>\<^verbatim>\<open>trim_start_matches("./")\<close> strips the prefix as often as it occurs.\<close>

fun strip_dot_slash :: "string \<Rightarrow> string" where
  "strip_dot_slash (c # d # s) =
     (if c = CHR ''.'' \<and> d = CHR ''/'' then strip_dot_slash s else c # d # s)"
| "strip_dot_slash s = s"

definition anchor_path :: "string \<Rightarrow> string \<Rightarrow> string" where
  "anchor_path workspace_root p =
     (if starts_with p ''./'' \<or> p = ''.'' then workspace_root @ ''/'' @ strip_dot_slash p
      else if \<not> starts_with p ''/'' then workspace_root @ ''/'' @ p
      else p)"

definition resolve_path_template ::
  "(string \<Rightarrow> string option) \<Rightarrow> string \<Rightarrow> string \<Rightarrow> string option \<Rightarrow> string option" where
  "resolve_path_template env template workspace_root meta_root =
     map_option (anchor_path workspace_root) (expand_template env meta_root template)"

section \<open>Termination\<close>

definition dollars :: "string \<Rightarrow> nat" where
  "dollars s = length (filter (\<lambda>c. c = CHR ''$'') s)"

lemma dollars_append [simp]: "dollars (s @ t) = dollars s + dollars t"
  by (simp add: dollars_def)

lemma dollars_take_drop: "dollars (take i s) + dollars (drop i s) = dollars s"
  by (metis append_take_drop_id dollars_append)

lemma dollars_drop_le: "dollars (drop i s) \<le> dollars s"
  using dollars_take_drop [of i s] by simp

definition plain :: "(string \<Rightarrow> string option) \<Rightarrow> string option \<Rightarrow> bool" where
  "plain env meta_root \<longleftrightarrow>
     (\<forall>v x. env v = Some x \<longrightarrow> CHR ''$'' \<notin> set x) \<and> (\<forall>mr. meta_root = Some mr \<longrightarrow> CHR ''$'' \<notin> set mr)"

lemma no_dollars: "CHR ''$'' \<notin> set x \<Longrightarrow> dollars x = 0"
  by (induction x) (auto simp: dollars_def)

lemma template_value_dollars:
  assumes "plain env meta_root"
  shows "dollars (template_value env meta_root inner) \<le> dollars inner"
  using assms
  by (auto simp: template_value_def split_default_def plain_def no_dollars dollars_drop_le
      split: option.splits)

text \<open>Each substitution removes the dollar sign that opened the pattern.\<close>

lemma template_step_decreases:
  assumes "plain env meta_root" "template_step env meta_root s = Some s'"
  shows "dollars s' < dollars s"
proof -
  from assms(2) obtain start off where f: "find_sub s ''${'' = Some start"
    "find_sub (drop start s) ''}'' = Some off"
    and s': "s' = take start s @ template_value env meta_root (take (off - 2) (drop (start + 2) s))
      @ drop (start + off + 1) s"
    by (auto simp: template_step_def split: option.splits)
  let ?r = "drop (start + 2) s"
  have s: "s = take start s @ ''${'' @ ?r" using find_sub_decompose [OF f(1)] by (simp add: numeral_2_eq_2)
  have d: "drop start s = ''${'' @ ?r"
    using find_sub_Some [OF f(1)] s by (metis append_take_drop_id same_append_eq)
  from f(2) d obtain k where k: "off = k + 2"
    by (auto simp: find_sub_simps)
  have "drop (start + off + 1) s = drop (Suc k) ?r" by (simp add: k add.commute)
  then have "dollars s' \<le> dollars (take start s) + dollars (take k ?r) + dollars (drop (Suc k) ?r)"
    using template_value_dollars [OF assms(1), of "take k ?r"] by (simp add: s' k)
  also have "\<dots> \<le> dollars (take start s) + dollars ?r"
    using dollars_take_drop [of k ?r] dollars_drop_le [of 1 "drop k ?r"] by simp
  also have "\<dots> < dollars s" by (subst s) (simp add: dollars_def)
  finally show ?thesis .
qed

lemma expand_terminates:
  "plain env meta_root \<Longrightarrow>
     \<exists>r. expand_template env meta_root s = Some r \<and> template_step env meta_root r = None"
proof (induction "dollars s" arbitrary: s rule: less_induct)
  case less
  show ?case
  proof (cases "template_step env meta_root s")
    case None
    then show ?thesis by (simp add: expand_template.simps)
  next
    case (Some s')
    with less template_step_decreases [OF less.prems Some]
    obtain r where "expand_template env meta_root s' = Some r" "template_step env meta_root r = None"
      by blast
    with Some show ?thesis by (simp add: expand_template.simps)
  qed
qed

lemma template_step_None:
  "template_step env meta_root s = None \<Longrightarrow>
     \<not> sublist ''${'' s \<or> (\<exists>start. find_sub s ''${'' = Some start \<and> \<not> sublist ''}'' (drop start s))"
  by (auto simp: template_step_def find_sub_None split: option.splits)

text \<open>
C38: path templates resolve. When no environment value and no per-run root contains a
dollar sign, the substitution loop ends for every template. What remains has no complete
pattern: either no pattern opens in it, or the first that opens is never closed. With an
absolute workspace root the path is absolute.
\<close>

theorem path_template_resolves:
  assumes "\<forall>v x. env v = Some x \<longrightarrow> CHR ''$'' \<notin> set x"
    and "\<forall>mr. meta_root = Some mr \<longrightarrow> CHR ''$'' \<notin> set mr" "starts_with workspace_root ''/''"
  shows "\<exists>r. resolve_path_template env template workspace_root meta_root = Some (anchor_path workspace_root r)
    \<and> (\<not> sublist ''${'' r \<or> (\<exists>start. find_sub r ''${'' = Some start \<and> \<not> sublist ''}'' (drop start r)))
    \<and> starts_with (anchor_path workspace_root r) ''/''"
proof -
  have "plain env meta_root" using assms(1,2) by (simp add: plain_def)
  then obtain r where r: "expand_template env meta_root template = Some r"
    "template_step env meta_root r = None"
    using expand_terminates by blast
  moreover have "starts_with (anchor_path workspace_root r) ''/''"
    using assms(3) by (auto simp: anchor_path_def starts_with_def prefix_append)
  ultimately show ?thesis
    using template_step_None [OF r(2)] by (auto simp: resolve_path_template_def)
qed

theorem path_template_resolves_witness:
  "\<exists>r. resolve_path_template (\<lambda>_. None) ''${CHAINWORKS_META_ROOT:-.chainworks}/a.json'' ''/w'' (Some ''/m'')
     = Some (anchor_path ''/w'' r)"
  using path_template_resolves [of "\<lambda>_. None" "Some ''/m''" "''/w''"
      "''${CHAINWORKS_META_ROOT:-.chainworks}/a.json''"]
  by (auto simp: starts_with_def)

section \<open>Per-run roots\<close>

lemma template_step_pattern:
  assumes "CHR ''}'' \<notin> set inner" "CHR ''$'' \<notin> set x"
  shows "template_step env meta_root (x @ ''${'' @ inner @ ''}'' @ rest)
    = Some (x @ template_value env meta_root inner @ rest)"
proof -
  have pos: "find_sub (s @ CHR ''}'' # rest) ''}'' = Some (length s)" if "CHR ''}'' \<notin> set s" for s
    using that by (induction s) (auto simp: find_sub_simps)
  have "find_sub (x @ ''${'' @ inner @ ''}'' @ rest) ''${'' = Some (length x)"
    using assms(2) by (induction x) (auto simp: find_sub_simps)
  moreover have "find_sub (''${'' @ inner @ ''}'' @ rest) ''}'' = Some (Suc (Suc (length inner)))"
    using pos [of "''${'' @ inner"] assms(1) by simp
  ultimately show ?thesis by (simp add: template_step_def numeral_3_eq_3)
qed

definition meta_pattern :: "string \<Rightarrow> string" where
  "meta_pattern default_val = ''CHAINWORKS_META_ROOT:-'' @ default_val"

lemma meta_pattern_value: "template_value env (Some mr) (meta_pattern d) = mr"
  by (simp add: template_value_def meta_pattern_def split_default_def find_sub_simps)

lemma meta_template_step:
  assumes "CHR ''}'' \<notin> set d" "CHR ''$'' \<notin> set x"
  shows "template_step env (Some mr) (x @ ''${'' @ meta_pattern d @ ''}'' @ rest) = Some (x @ mr @ rest)"
proof -
  have "CHR ''}'' \<notin> set (meta_pattern d)" using assms(1) by (simp add: meta_pattern_def)
  from template_step_pattern [OF this assms(2)] show ?thesis by (simp add: meta_pattern_value)
qed

text \<open>A set of templates that every turn of the loop stays in has no resolved template.\<close>

lemma expand_never_returns:
  assumes closed: "\<And>s. P s \<Longrightarrow> \<exists>s'. template_step env meta_root s = Some s' \<and> P s'" and s: "P s"
  shows "expand_template env meta_root s = None"
proof (rule ccontr)
  assume "expand_template env meta_root s \<noteq> None"
  then obtain r where r: "expand_template env meta_root s = Some r" by blast
  have "e = env \<longrightarrow> m = meta_root \<longrightarrow> \<not> P x" if "expand_template e m x = Some y" for e m x y
    using that
  proof (rule expand_template.raw_induct [where P = "\<lambda>e m x _. e = env \<longrightarrow> m = meta_root \<longrightarrow> \<not> P x", rotated])
    fix f e m x y
    assume IH: "\<And>e m x y. f e m x = Some y \<Longrightarrow> e = env \<longrightarrow> m = meta_root \<longrightarrow> \<not> P x"
      and step: "(case template_step e m x of None \<Rightarrow> Some x | Some x' \<Rightarrow> f e m x') = Some y"
    show "e = env \<longrightarrow> m = meta_root \<longrightarrow> \<not> P x"
      using closed[of x] IH step by (auto split: option.splits)
  qed
  from this [OF r] s show False by simp
qed

text \<open>
Per-run isolation. A template that starts at the meta root and has no other pattern
resolves to a path below the run's own root, whatever the process environment holds.
\<close>

theorem meta_root_isolates_run:
  assumes "CHR ''}'' \<notin> set d" "CHR ''$'' \<notin> set mr" "CHR ''$'' \<notin> set rest" "starts_with mr ''/''"
  shows "resolve_path_template env (''${'' @ meta_pattern d @ ''}'' @ rest) workspace_root (Some mr)
    = Some (mr @ rest)"
proof -
  have "\<not> sublist ''${'' (mr @ rest)"
  proof
    assume "sublist ''${'' (mr @ rest)"
    then have "CHR ''$'' \<in> set (mr @ rest)" by (auto dest: set_mono_sublist)
    with assms(2,3) show False by simp
  qed
  then have "template_step env (Some mr) (mr @ rest) = None"
    by (simp add: template_step_def find_sub_None [symmetric])
  then have "expand_template env (Some mr) (mr @ rest) = Some (mr @ rest)"
    by (simp add: expand_template.simps)
  then have "expand_template env (Some mr) (''${'' @ meta_pattern d @ ''}'' @ rest) = Some (mr @ rest)"
    using meta_template_step [OF assms(1), of "[]" env mr rest] by (subst expand_template.simps) simp
  moreover have "anchor_path workspace_root (mr @ rest) = mr @ rest"
    using assms(4) by (auto simp: anchor_path_def starts_with_def prefix_def)
  ultimately show ?thesis by (simp add: resolve_path_template_def)
qed

theorem meta_root_isolates_run_witness:
  "resolve_path_template (\<lambda>_. Some ''evil'') ''${CHAINWORKS_META_ROOT:-.chainworks}/a.json'' ''/w'' (Some ''/runs/r1'')
     = Some ''/runs/r1/a.json''"
  using meta_root_isolates_run [of "''.chainworks''" "''/runs/r1''" "''/a.json''" "\<lambda>_. Some ''evil''" "''/w''"]
  by (simp add: starts_with_def meta_pattern_def)

text \<open>
C39: a run root that contains the pattern of the run root hangs the orchestrator. When the
first dollar sign of the root opens such a pattern, whatever text is around it and whatever
the default is, and the first of the template opens one too, each substitution puts a
pattern back and the loop never returns.
\<close>

theorem self_referential_root_hangs:
  assumes "CHR ''}'' \<notin> set d" and "CHR ''$'' \<notin> set pre" and "CHR ''}'' \<notin> set d'" and "CHR ''$'' \<notin> set start"
  shows "resolve_path_template env (start @ ''${'' @ meta_pattern d' @ ''}'' @ rest) workspace_root
    (Some (pre @ ''${'' @ meta_pattern d @ ''}'' @ post)) = None"
proof -
  let ?root = "pre @ ''${'' @ meta_pattern d @ ''}'' @ post"
  let ?shape = "\<lambda>s. \<exists>x e y. s = x @ ''${'' @ meta_pattern e @ ''}'' @ y \<and> CHR ''$'' \<notin> set x \<and> CHR ''}'' \<notin> set e"
  have "expand_template env (Some ?root) (start @ ''${'' @ meta_pattern d' @ ''}'' @ rest) = None"
  proof (rule expand_never_returns [where P = ?shape])
    fix s assume "?shape s"
    then obtain x e y where s: "s = x @ ''${'' @ meta_pattern e @ ''}'' @ y" "CHR ''$'' \<notin> set x" "CHR ''}'' \<notin> set e" by blast
    then have step: "template_step env (Some ?root) s = Some (x @ ?root @ y)" using meta_template_step by blast
    have "x @ ?root @ y = (x @ pre) @ ''${'' @ meta_pattern d @ ''}'' @ (post @ y)" by simp
    moreover have "CHR ''$'' \<notin> set (x @ pre)" using s(2) assms(2) by simp
    ultimately have "?shape (x @ ?root @ y)" using assms(1) by blast
    then show "\<exists>s'. template_step env (Some ?root) s = Some s' \<and> ?shape s'" using step by blast
  next
    show "?shape (start @ ''${'' @ meta_pattern d' @ ''}'' @ rest)" using assms(3,4) by blast
  qed
  then show ?thesis by (simp add: resolve_path_template_def)
qed

theorem self_referential_root_hangs_witness:
  "resolve_path_template (\<lambda>_. None) ''./${CHAINWORKS_META_ROOT:-m}/a'' ''/w'' (Some ''/runs/${CHAINWORKS_META_ROOT:-n}/r'') = None"
  using self_referential_root_hangs [of "''n''" "''/runs/''" "''m''" "''./''" "\<lambda>_. None" "''/a''" "''/w''" "''/r''"]
  by (simp add: meta_pattern_def)

end
