(* ===== verification/Rust_Number.thy ===== *)
theory Rust_Number
  imports Complex_Main Rust_Text
begin

text \<open>
  The numbers of the condition language: \<^verbatim>\<open>str::parse\<close> to \<^verbatim>\<open>i64\<close> and \<^verbatim>\<open>f64\<close>, the cast of an
  integer to \<^verbatim>\<open>f64\<close>, subtraction, \<^verbatim>\<open>abs\<close> and the comparisons. A finite \<^verbatim>\<open>f64\<close> is the rational
  it stands for (the sign of zero is not observable through the operations used);
  every operation rounds to nearest, ties to even, at 53 bits of precision, with
  gradual underflow at 2 to the -1074 and overflow to infinity at 2 to the 1024.
\<close>

section \<open>Digits and integers\<close>

definition is_digit :: "char \<Rightarrow> bool" where
  "is_digit c \<longleftrightarrow> 48 \<le> byte c \<and> byte c \<le> 57"

definition digit_val :: "char \<Rightarrow> int" where
  "digit_val c = int (byte c) - 48"

definition digits_val :: "string \<Rightarrow> int" where
  "digits_val s = foldl (\<lambda>n c. 10 * n + digit_val c) 0 s"

definition split_sign :: "string \<Rightarrow> bool \<times> string" where
  "split_sign s =
     (case s of
        [] \<Rightarrow> (False, [])
      | c # t \<Rightarrow> if c = CHR ''-'' then (True, t)
                 else if c = CHR ''+'' then (False, t) else (False, s))"

definition parse_i64 :: "string \<Rightarrow> int option" where
  "parse_i64 s =
     (let (neg, ds) = split_sign s in
      if ds = [] \<or> \<not> list_all is_digit ds then None
      else let n = (if neg then - digits_val ds else digits_val ds) in
        if - (2 ^ 63) \<le> n \<and> n < 2 ^ 63 then Some n else None)"

section \<open>Binary64\<close>

datatype f64 = NaN | Inf bool | Fin rat

text \<open>The number of bits of a natural number, and rounding of a quotient to an even half.\<close>

fun bits :: "nat \<Rightarrow> nat" where
  "bits n = (if n = 0 then 0 else Suc (bits (n div 2)))"

declare bits.simps [simp del]

definition round_even :: "rat \<Rightarrow> int" where
  "round_even x =
     (let f = \<lfloor>x\<rfloor>; d = x - of_int f in
      if d < 1 / 2 then f else if 1 / 2 < d then f + 1
      else if even f then f else f + 1)"

definition pow2 :: "int \<Rightarrow> rat" where
  "pow2 e = (if 0 \<le> e then 2 ^ nat e else 1 / 2 ^ nat (- e))"

text \<open>The exponent of the last place of the 53-bit significand of a positive rational.\<close>

definition ulp_exp :: "rat \<Rightarrow> int" where
  "ulp_exp x =
     (let (p, q) = quotient_of x;
          e = int (bits (nat p)) - int (bits (nat q)) - 53;
          e' = (if x < pow2 (e + 53) then e else e + 1)
      in max e' (- 1074))"

definition f64_round :: "rat \<Rightarrow> f64" where
  "f64_round x =
     (if x = 0 then Fin 0
      else let a = \<bar>x\<bar>; e = ulp_exp a; r = of_int (round_even (a / pow2 e)) * pow2 e in
        if pow2 1024 \<le> r then Inf (x < 0) else Fin (if x < 0 then - r else r))"

definition f64_sub :: "f64 \<Rightarrow> f64 \<Rightarrow> f64" where
  "f64_sub x y =
     (case (x, y) of
        (NaN, _) \<Rightarrow> NaN
      | (_, NaN) \<Rightarrow> NaN
      | (Inf a, Inf b) \<Rightarrow> if a = b then NaN else Inf a
      | (Inf a, Fin _) \<Rightarrow> Inf a
      | (Fin _, Inf b) \<Rightarrow> Inf (\<not> b)
      | (Fin a, Fin b) \<Rightarrow> f64_round (a - b))"

fun f64_abs :: "f64 \<Rightarrow> f64" where
  "f64_abs NaN = NaN"
| "f64_abs (Inf _) = Inf False"
| "f64_abs (Fin a) = Fin \<bar>a\<bar>"

fun f64_lt :: "f64 \<Rightarrow> f64 \<Rightarrow> bool" where
  "f64_lt NaN _ = False"
| "f64_lt _ NaN = False"
| "f64_lt (Inf a) (Inf b) = (a \<and> \<not> b)"
| "f64_lt (Inf a) (Fin _) = a"
| "f64_lt (Fin _) (Inf b) = (\<not> b)"
| "f64_lt (Fin a) (Fin b) = (a < b)"

fun f64_le :: "f64 \<Rightarrow> f64 \<Rightarrow> bool" where
  "f64_le NaN _ = False"
| "f64_le _ NaN = False"
| "f64_le (Inf a) (Inf b) = (a \<or> \<not> b)"
| "f64_le (Inf a) (Fin _) = a"
| "f64_le (Fin _) (Inf b) = (\<not> b)"
| "f64_le (Fin a) (Fin b) = (a \<le> b)"

definition f64_epsilon :: f64 where
  "f64_epsilon = Fin (pow2 (- 52))"

section \<open>Parsing a float\<close>

text \<open>An exponent part: empty, or \<^verbatim>\<open>e\<close> with an optional sign and at least one digit.\<close>

definition parse_exponent :: "string \<Rightarrow> int option" where
  "parse_exponent s =
     (case s of
        [] \<Rightarrow> Some 0
      | c # t \<Rightarrow>
          if ascii_lower c = CHR ''e'' then
            (let (neg, ds) = split_sign t in
             if ds = [] \<or> \<not> list_all is_digit ds then None
             else Some (if neg then - digits_val ds else digits_val ds))
          else None)"

definition pow10 :: "int \<Rightarrow> rat" where
  "pow10 e = (if 0 \<le> e then 10 ^ nat e else 1 / 10 ^ nat (- e))"

definition parse_decimal :: "string \<Rightarrow> rat option" where
  "parse_decimal s =
     (let ip = takeWhile is_digit s; r = dropWhile is_digit s;
          (fp, r') = (case r of
             [] \<Rightarrow> ([], [])
           | c # t \<Rightarrow> if c = CHR ''.'' then (takeWhile is_digit t, dropWhile is_digit t) else ([], r))
      in if ip = [] \<and> fp = [] then None
         else map_option
           (\<lambda>e. of_int (digits_val (ip @ fp)) * pow10 (e - int (length fp)))
           (parse_exponent r'))"

definition f64_neg :: "f64 \<Rightarrow> f64" where
  "f64_neg x = (case x of NaN \<Rightarrow> NaN | Inf b \<Rightarrow> Inf (\<not> b) | Fin a \<Rightarrow> Fin (- a))"

definition parse_f64 :: "string \<Rightarrow> f64 option" where
  "parse_f64 s =
     (let (neg, t) = split_sign s; l = map ascii_lower t;
          v = (if l = ''nan'' then Some NaN
               else if l = ''inf'' \<or> l = ''infinity'' then Some (Inf False)
               else map_option f64_round (parse_decimal t))
      in map_option (if neg then f64_neg else id) v)"

section \<open>Rounding is exact on small integers\<close>

lemma pow2_pos [simp]: "0 < pow2 e"
  by (simp add: pow2_def)

lemma pow2_nat: "pow2 (int n) = 2 ^ n"
  by (simp add: pow2_def)

lemma round_even_of_int [simp]: "round_even (of_int n) = n"
  by (simp add: round_even_def)

lemma bits_bound: "n < 2 ^ bits n" "0 < n \<Longrightarrow> 2 ^ (bits n - 1) \<le> n"
proof (induction n rule: bits.induct)
  case (1 n)
  show "n < 2 ^ bits n"
  proof (cases "n = 0")
    case False
    then have "n div 2 < 2 ^ bits (n div 2)" using 1(1) by simp
    then show ?thesis using False by (subst bits.simps) simp
  qed (simp add: bits.simps)
  show "2 ^ (bits n - 1) \<le> n" if "0 < n"
  proof (cases "n = 1")
    case False
    then have n: "0 < n div 2" "n \<noteq> 0" using that by linarith+
    then have "2 ^ (bits (n div 2) - 1) \<le> n div 2" using 1(2) by simp
    moreover have "bits (n div 2) \<noteq> 0" using n by (subst bits.simps) simp
    moreover have "bits n = Suc (bits (n div 2))" using n by (subst bits.simps) simp
    ultimately show ?thesis by (cases "bits (n div 2)") auto
  qed (simp add: bits.simps)
qed

lemma bits_le: "n < 2 ^ k \<Longrightarrow> bits n \<le> k"
proof (cases "n = 0")
  case False
  assume "n < 2 ^ k"
  with bits_bound(2) [of n] False have "(2::nat) ^ (bits n - 1) < 2 ^ k" by linarith
  then have "bits n - 1 < k" by simp
  then show ?thesis by linarith
qed (simp add: bits.simps)

lemma ulp_exp_nat:
  assumes "0 < n" "n < 2 ^ 53"
  shows "ulp_exp (of_nat n) = int (bits n) - 53"
proof -
  have q: "quotient_of (of_nat n) = (int n, 1)"
    using quotient_of_int [of "int n"] by (simp add: of_int_def)
  have b: "1 \<le> bits n" using assms by (subst bits.simps) simp
  have one: "bits (Suc 0) = 1" by (simp add: bits.simps)
  have "(2::rat) ^ (bits n - 1) \<le> of_nat n"
    using bits_bound(2) [OF assms(1)] by (metis of_nat_le_iff of_nat_numeral of_nat_power)
  moreover have "pow2 (int (bits n) - 1) = 2 ^ (bits n - 1)"
    using b pow2_nat [of "bits n - 1"] by (simp add: of_nat_diff)
  ultimately have "\<not> of_nat n < pow2 (int (bits n) - 1)" by simp
  with b q one show ?thesis by (simp add: ulp_exp_def Let_def)
qed

lemma f64_round_nat:
  assumes "0 < n" "n < 2 ^ 53"
  shows "of_int (round_even (of_nat n / pow2 (ulp_exp (of_nat n)))) * pow2 (ulp_exp (of_nat n)) = (of_nat n :: rat)"
proof -
  define k where "k = 53 - bits n"
  have "bits n \<le> 53" by (rule bits_le [OF assms(2)])
  then have e: "ulp_exp (of_nat n) = - int k"
    by (simp add: ulp_exp_nat [OF assms] k_def of_nat_diff)
  have p: "pow2 (- int k) = 1 / 2 ^ k" by (cases "k = 0") (simp_all add: pow2_def)
  have "(of_nat n / (1 / 2 ^ k) :: rat) = of_int (int n * 2 ^ k)" by simp
  then have "round_even (of_nat n / pow2 (- int k)) = int n * 2 ^ k"
    by (simp only: p round_even_of_int)
  then show ?thesis by (simp add: e p)
qed

lemma f64_round_int:
  assumes "\<bar>n\<bar> < 2 ^ 53"
  shows "f64_round (of_int n) = Fin (of_int n)"
proof (cases "n = 0")
  case False
  define m where "m = nat \<bar>n\<bar>"
  have m: "0 < m" "m < 2 ^ 53" "\<bar>of_int n :: rat\<bar> = of_nat m"
    using assms False by (auto simp: m_def nat_less_iff)
  have "(of_nat m :: rat) < 2 ^ 53"
    using m(2) by (metis of_nat_less_iff of_nat_numeral of_nat_power)
  also have "\<dots> \<le> 2 ^ 1024" by (rule power_increasing) simp_all
  finally have "\<not> pow2 1024 \<le> of_nat m" by (simp add: pow2_def)
  moreover have "(if (of_int n :: rat) < 0 then - of_nat m else of_nat m) = (of_int n :: rat)"
    using m(3) by (simp add: abs_if split: if_splits)
  ultimately show ?thesis using False m
    by (auto simp: f64_round_def Let_def f64_round_nat split: if_splits)
qed (simp add: f64_round_def)

lemma f64_close_int:
  assumes "\<bar>a\<bar> < 2 ^ 52" "\<bar>b\<bar> < 2 ^ 52"
  shows "f64_lt (f64_abs (f64_sub (Fin (of_int a)) (Fin (of_int b)))) f64_epsilon \<longleftrightarrow> a = b"
    and "f64_le f64_epsilon (f64_abs (f64_sub (Fin (of_int a)) (Fin (of_int b)))) \<longleftrightarrow> a \<noteq> b"
proof -
  have d: "f64_sub (Fin (of_int a)) (Fin (of_int b)) = Fin (of_int (a - b))"
    using assms f64_round_int [of "a - b"] by (simp add: f64_sub_def)
  have s: "(1 :: rat) \<le> \<bar>of_int (a - b)\<bar>" if "a \<noteq> b"
    using that by (metis Ints_of_int Ints_nonzero_abs_ge1 of_int_eq_0_iff right_minus_eq)
  have e: "f64_epsilon = Fin (1 / 2 ^ 52)" by (simp add: f64_epsilon_def pow2_def)
  have "(1 / 2 ^ 52 :: rat) < 1" by simp
  with s show "f64_lt (f64_abs (f64_sub (Fin (of_int a)) (Fin (of_int b)))) f64_epsilon \<longleftrightarrow> a = b"
    unfolding d e f64_abs.simps f64_lt.simps by (cases "a = b") (force simp: not_less)+
  from s \<open>(1 / 2 ^ 52 :: rat) < 1\<close> show "f64_le f64_epsilon (f64_abs (f64_sub (Fin (of_int a)) (Fin (of_int b)))) \<longleftrightarrow> a \<noteq> b"
    unfolding d e f64_abs.simps f64_le.simps by (cases "a = b") force+
qed

end
