(* ===== verification/Workflow_Conflict.thy ===== *)
theory Workflow_Conflict
  imports Rust_Text
begin

text \<open>
  Workflow conflicts, \<^verbatim>\<open>control-plane/crates/domain/src/workflow_conflict.rs\<close>: the reasons a
  run cannot take a transition, the life cycle of a conflict and the classification of
  the candidate transitions of a state; with the initial status and failure reason the
  orchestrator (\<^verbatim>\<open>control-plane/crates/engine/src/orchestrator.rs\<close>) gives a new conflict.
\<close>

section \<open>Reasons, statuses, results\<close>

datatype workflow_conflict_reason =
  InvalidNextStageHint
  | NoDeclarativeTransitionMatched
  | MultipleDeclarativeTransitionsMatchedWithoutTieBreak
  | RequiredArtifactOrFieldMissingForTransition
  | AggregateTransitionTruthConflicted
  | WorkflowConflictUnverifiable
  | ImplementationHandoffUnavailable

fun show_workflow_conflict_reason :: "workflow_conflict_reason \<Rightarrow> string" where
  "show_workflow_conflict_reason InvalidNextStageHint = ''invalid_next_stage_hint''"
| "show_workflow_conflict_reason NoDeclarativeTransitionMatched = ''no_declarative_transition_matched''"
| "show_workflow_conflict_reason MultipleDeclarativeTransitionsMatchedWithoutTieBreak = ''multiple_declarative_transitions_matched_without_tie_break''"
| "show_workflow_conflict_reason RequiredArtifactOrFieldMissingForTransition = ''required_artifact_or_field_missing_for_transition''"
| "show_workflow_conflict_reason AggregateTransitionTruthConflicted = ''aggregate_transition_truth_conflicted''"
| "show_workflow_conflict_reason WorkflowConflictUnverifiable = ''workflow_conflict_unverifiable''"
| "show_workflow_conflict_reason ImplementationHandoffUnavailable = ''implementation_handoff_unavailable''"

definition parse_workflow_conflict_reason :: "string \<Rightarrow> (string, workflow_conflict_reason) result" where
  "parse_workflow_conflict_reason s =
     (if s = ''invalid_next_stage_hint'' then Inr InvalidNextStageHint
      else if s = ''no_declarative_transition_matched'' then Inr NoDeclarativeTransitionMatched
      else if s = ''multiple_declarative_transitions_matched_without_tie_break'' then Inr MultipleDeclarativeTransitionsMatchedWithoutTieBreak
      else if s = ''required_artifact_or_field_missing_for_transition'' then Inr RequiredArtifactOrFieldMissingForTransition
      else if s = ''aggregate_transition_truth_conflicted'' then Inr AggregateTransitionTruthConflicted
      else if s = ''workflow_conflict_unverifiable'' then Inr WorkflowConflictUnverifiable
      else if s = ''implementation_handoff_unavailable'' then Inr ImplementationHandoffUnavailable
      else Inl (''Unknown WorkflowConflictReason: '' @ s))"

fun graphql_workflow_conflict_reason :: "workflow_conflict_reason \<Rightarrow> string" where
  "graphql_workflow_conflict_reason InvalidNextStageHint = ''INVALID_NEXT_STAGE_HINT''"
| "graphql_workflow_conflict_reason NoDeclarativeTransitionMatched = ''NO_DECLARATIVE_TRANSITION_MATCHED''"
| "graphql_workflow_conflict_reason MultipleDeclarativeTransitionsMatchedWithoutTieBreak = ''MULTIPLE_DECLARATIVE_TRANSITIONS_MATCHED_WITHOUT_TIE_BREAK''"
| "graphql_workflow_conflict_reason RequiredArtifactOrFieldMissingForTransition = ''REQUIRED_ARTIFACT_OR_FIELD_MISSING_FOR_TRANSITION''"
| "graphql_workflow_conflict_reason AggregateTransitionTruthConflicted = ''AGGREGATE_TRANSITION_TRUTH_CONFLICTED''"
| "graphql_workflow_conflict_reason WorkflowConflictUnverifiable = ''WORKFLOW_CONFLICT_UNVERIFIABLE''"
| "graphql_workflow_conflict_reason ImplementationHandoffUnavailable = ''IMPLEMENTATION_HANDOFF_UNAVAILABLE''"

datatype workflow_conflict_status =
  ConflictUnresolved
  | LeadMediationPending
  | OperatorConfirmationRequired
  | ConflictResolved
  | ConflictSuperseded
  | TerminalUnverifiable

fun show_workflow_conflict_status :: "workflow_conflict_status \<Rightarrow> string" where
  "show_workflow_conflict_status ConflictUnresolved = ''unresolved''"
| "show_workflow_conflict_status LeadMediationPending = ''lead_mediation_pending''"
| "show_workflow_conflict_status OperatorConfirmationRequired = ''operator_confirmation_required''"
| "show_workflow_conflict_status ConflictResolved = ''resolved''"
| "show_workflow_conflict_status ConflictSuperseded = ''superseded''"
| "show_workflow_conflict_status TerminalUnverifiable = ''terminal_unverifiable''"

definition parse_workflow_conflict_status :: "string \<Rightarrow> (string, workflow_conflict_status) result" where
  "parse_workflow_conflict_status s =
     (if s = ''unresolved'' then Inr ConflictUnresolved
      else if s = ''lead_mediation_pending'' then Inr LeadMediationPending
      else if s = ''operator_confirmation_required'' then Inr OperatorConfirmationRequired
      else if s = ''resolved'' then Inr ConflictResolved
      else if s = ''superseded'' then Inr ConflictSuperseded
      else if s = ''terminal_unverifiable'' then Inr TerminalUnverifiable
      else Inl (''Unknown WorkflowConflictStatus: '' @ s))"

fun graphql_workflow_conflict_status :: "workflow_conflict_status \<Rightarrow> string" where
  "graphql_workflow_conflict_status ConflictUnresolved = ''UNRESOLVED''"
| "graphql_workflow_conflict_status LeadMediationPending = ''LEAD_MEDIATION_PENDING''"
| "graphql_workflow_conflict_status OperatorConfirmationRequired = ''OPERATOR_CONFIRMATION_REQUIRED''"
| "graphql_workflow_conflict_status ConflictResolved = ''RESOLVED''"
| "graphql_workflow_conflict_status ConflictSuperseded = ''SUPERSEDED''"
| "graphql_workflow_conflict_status TerminalUnverifiable = ''TERMINAL_UNVERIFIABLE''"

datatype candidate_transition_result =
  Matched
  | NotMatched
  | MissingInput
  | InvalidExpression
  | EvaluationError

fun show_candidate_transition_result :: "candidate_transition_result \<Rightarrow> string" where
  "show_candidate_transition_result Matched = ''matched''"
| "show_candidate_transition_result NotMatched = ''not_matched''"
| "show_candidate_transition_result MissingInput = ''missing_input''"
| "show_candidate_transition_result InvalidExpression = ''invalid_expression''"
| "show_candidate_transition_result EvaluationError = ''evaluation_error''"

definition parse_candidate_transition_result :: "string \<Rightarrow> (string, candidate_transition_result) result" where
  "parse_candidate_transition_result s =
     (if s = ''matched'' then Inr Matched
      else if s = ''not_matched'' then Inr NotMatched
      else if s = ''missing_input'' then Inr MissingInput
      else if s = ''invalid_expression'' then Inr InvalidExpression
      else if s = ''evaluation_error'' then Inr EvaluationError
      else Inl (''Unknown CandidateTransitionResult: '' @ s))"

fun graphql_candidate_transition_result :: "candidate_transition_result \<Rightarrow> string" where
  "graphql_candidate_transition_result Matched = ''MATCHED''"
| "graphql_candidate_transition_result NotMatched = ''NOT_MATCHED''"
| "graphql_candidate_transition_result MissingInput = ''MISSING_INPUT''"
| "graphql_candidate_transition_result InvalidExpression = ''INVALID_EXPRESSION''"
| "graphql_candidate_transition_result EvaluationError = ''EVALUATION_ERROR''"

interpretation workflow_conflict_reason_codec: codec show_workflow_conflict_reason parse_workflow_conflict_reason
proof
  fix x show "parse_workflow_conflict_reason (show_workflow_conflict_reason x) = Inr x"
    by (cases x) (simp_all add: parse_workflow_conflict_reason_def)
next
  fix s x assume "parse_workflow_conflict_reason s = Inr x"
  then show "show_workflow_conflict_reason x = s"
    by (auto simp: parse_workflow_conflict_reason_def split: if_splits)
qed

interpretation workflow_conflict_status_codec: codec show_workflow_conflict_status parse_workflow_conflict_status
proof
  fix x show "parse_workflow_conflict_status (show_workflow_conflict_status x) = Inr x"
    by (cases x) (simp_all add: parse_workflow_conflict_status_def)
next
  fix s x assume "parse_workflow_conflict_status s = Inr x"
  then show "show_workflow_conflict_status x = s"
    by (auto simp: parse_workflow_conflict_status_def split: if_splits)
qed

interpretation candidate_transition_result_codec: codec show_candidate_transition_result parse_candidate_transition_result
proof
  fix x show "parse_candidate_transition_result (show_candidate_transition_result x) = Inr x"
    by (cases x) (simp_all add: parse_candidate_transition_result_def)
next
  fix s x assume "parse_candidate_transition_result s = Inr x"
  then show "show_candidate_transition_result x = s"
    by (auto simp: parse_candidate_transition_result_def split: if_splits)
qed

definition is_current_blocking :: "workflow_conflict_status \<Rightarrow> bool" where
  "is_current_blocking s \<longleftrightarrow>
     s \<in> {ConflictUnresolved, LeadMediationPending, OperatorConfirmationRequired}"

definition is_terminal_or_operator :: "workflow_conflict_status \<Rightarrow> bool" where
  "is_terminal_or_operator s \<longleftrightarrow>
     s \<in> {TerminalUnverifiable, ConflictResolved, ConflictSuperseded, LeadMediationPending,
           OperatorConfirmationRequired}"

section \<open>Candidates\<close>

record candidate_transition_evaluation =
  ce_transition_id :: string
  ce_from_state_id :: string
  ce_to_state_id :: string
  ce_condition_expression_id :: "string option"
  ce_result :: candidate_transition_result
  ce_required_artifacts :: "string list"
  ce_missing_artifacts :: "string list"
  ce_missing_fields :: "string list"
  ce_source_artifact_ids :: "string list"
  ce_source_agent_execution_id :: "string option"
  ce_sanitized_diagnostic :: "string option"

definition classify_workflow_conflict_reason ::
  "candidate_transition_evaluation list \<Rightarrow> workflow_conflict_reason option" where
  "classify_workflow_conflict_reason cs =
     (let matched_count = length (filter (\<lambda>c. ce_result c = Matched) cs) in
      if matched_count = 1 then None
      else if 1 < matched_count then Some MultipleDeclarativeTransitionsMatchedWithoutTieBreak
      else if list_ex (\<lambda>c. ce_result c \<in> {InvalidExpression, EvaluationError}) cs
      then Some WorkflowConflictUnverifiable
      else if list_ex (\<lambda>c. ce_result c = MissingInput) cs
      then Some RequiredArtifactOrFieldMissingForTransition
      else Some NoDeclarativeTransitionMatched)"

definition workflow_conflict_suggested_operator_action ::
  "workflow_conflict_reason \<Rightarrow> candidate_transition_evaluation list \<Rightarrow> string option" where
  "workflow_conflict_suggested_operator_action reason cs =
     (if reason \<noteq> NoDeclarativeTransitionMatched then None
      else if list_ex (\<lambda>c. ce_result c = NotMatched
             \<and> (case ce_sanitized_diagnostic c of
                  None \<Rightarrow> False
                | Some d \<Rightarrow> str_contains d ''Loop budget exhausted'')) cs
      then Some ''choose_transition_or_provide_refine_instruction''
      else None)"

section \<open>A new conflict\<close>

definition initial_workflow_conflict_status ::
  "workflow_conflict_reason \<Rightarrow> workflow_conflict_status" where
  "initial_workflow_conflict_status r =
     (case r of
        AggregateTransitionTruthConflicted \<Rightarrow> OperatorConfirmationRequired
      | WorkflowConflictUnverifiable \<Rightarrow> TerminalUnverifiable
      | _ \<Rightarrow> ConflictUnresolved)"

definition initial_workflow_conflict_terminal_failure_reason ::
  "workflow_conflict_reason \<Rightarrow> string option" where
  "initial_workflow_conflict_terminal_failure_reason r =
     (case r of
        WorkflowConflictUnverifiable \<Rightarrow>
          Some ''Workflow transition outcome could not be verified from declared graph inputs''
      | _ \<Rightarrow> None)"

definition workflow_conflict_operator_label :: "workflow_conflict_reason \<Rightarrow> string" where
  "workflow_conflict_operator_label r =
     (case r of
        InvalidNextStageHint \<Rightarrow> ''Invalid next-stage advisory hint''
      | NoDeclarativeTransitionMatched \<Rightarrow> ''No declarative workflow transition matched''
      | MultipleDeclarativeTransitionsMatchedWithoutTieBreak \<Rightarrow>
          ''Multiple workflow transitions matched without a tie-break''
      | RequiredArtifactOrFieldMissingForTransition \<Rightarrow>
          ''Required transition artifact or field is missing''
      | AggregateTransitionTruthConflicted \<Rightarrow> ''Aggregate transition truth is conflicted''
      | WorkflowConflictUnverifiable \<Rightarrow> ''Workflow transition outcome is unverifiable''
      | ImplementationHandoffUnavailable \<Rightarrow> ''Implementation handoff is unavailable'')"

lemma filter_length_1: "length (filter P xs) = 1 \<longleftrightarrow> (\<exists>!i. i < length xs \<and> P (xs ! i))"
proof -
  have "length (filter P xs) = card {i. i < length xs \<and> P (xs ! i)}"
    by (rule length_filter_conv_card)
  then show ?thesis by (auto simp: card_1_singleton_iff Ex1_def set_eq_iff)
qed

text \<open>A conflict reason is given exactly when it is not exactly one candidate that matched.\<close>

lemma classify_None:
  "classify_workflow_conflict_reason cs = None \<longleftrightarrow> length (filter (\<lambda>c. ce_result c = Matched) cs) = 1"
  by (simp add: classify_workflow_conflict_reason_def Let_def)

end
