(* ===== verification/Transition_Condition.thy ===== *)
theory Transition_Condition
  imports Artifact_Store Path_Template Rust_Number Workflow_Conflict
begin

text \<open>
  The transition conditions of a workflow and their evaluator, in
  \<^verbatim>\<open>control-plane/crates/engine/src/orchestrator.rs\<close>: comparison of JSON values, lookup of
  artifact fields, connectives, and the classification of what could not be decided.
  Everything the evaluator reads (contract tables, approvals, files, environment, the
  carry-forward module) is a field of \<open>cond_world\<close>; evaluation writes nothing.
\<close>

section \<open>Outcomes\<close>

text \<open>A call that returns, one that panics, and one that does not return.\<close>

datatype 'a outcome = Done 'a | Panics | Hangs

fun bind_outcome :: "'a outcome \<Rightarrow> ('a \<Rightarrow> 'b outcome) \<Rightarrow> 'b outcome" where
  "bind_outcome (Done a) f = f a"
| "bind_outcome Panics f = Panics"
| "bind_outcome Hangs f = Hangs"

lemma bind_outcome_cong [fundef_cong]:
  "x = y \<Longrightarrow> (\<And>a. y = Done a \<Longrightarrow> f a = g a) \<Longrightarrow> bind_outcome x f = bind_outcome y g"
  by (cases y) auto

lemma bind_outcome_Done: "bind_outcome x f = Done b \<longleftrightarrow> (\<exists>a. x = Done a \<and> f a = Done b)"
  by (cases x) auto

definition returns :: "'a outcome \<Rightarrow> bool" where
  "returns x \<longleftrightarrow> (case x of Done _ \<Rightarrow> True | _ \<Rightarrow> False)"

lemma returns_simps [simp]: "returns (Done a)" "\<not> returns Panics" "\<not> returns Hangs"
  by (simp_all add: returns_def)

lemma returns_iff: "returns x \<longleftrightarrow> (\<exists>a. x = Done a)"
  by (cases x) auto

lemma returns_bind: "returns (bind_outcome x f) \<longleftrightarrow> (\<exists>a. x = Done a \<and> returns (f a))"
  by (cases x) auto

lemma returns_bindI: "returns x \<Longrightarrow> (\<And>a. x = Done a \<Longrightarrow> returns (f a)) \<Longrightarrow> returns (bind_outcome x f)"
  by (cases x) auto

definition of_loop :: "'a option \<Rightarrow> 'a outcome" where
  "of_loop x = (case x of None \<Rightarrow> Hangs | Some a \<Rightarrow> Done a)"

section \<open>Comparison of values\<close>

datatype comp_op = CEq | CNe | CLt | CLe | CGt | CGe

definition to_f64 :: "json \<Rightarrow> f64 option" where
  "to_f64 v =
     (case v of
        JInt n \<Rightarrow> Some (f64_round (of_int n))
      | JFloat s \<Rightarrow> parse_f64 s
      | JString s \<Rightarrow> parse_f64 s
      | _ \<Rightarrow> None)"

definition compare_f64 :: "f64 \<Rightarrow> comp_op \<Rightarrow> f64 \<Rightarrow> bool" where
  "compare_f64 l oper r =
     (case oper of
        CEq \<Rightarrow> f64_lt (f64_abs (f64_sub l r)) f64_epsilon
      | CNe \<Rightarrow> f64_le f64_epsilon (f64_abs (f64_sub l r))
      | CLt \<Rightarrow> f64_lt l r
      | CLe \<Rightarrow> f64_le l r
      | CGt \<Rightarrow> f64_lt r l
      | CGe \<Rightarrow> f64_le r l)"

definition apply_comparison :: "json \<Rightarrow> comp_op \<Rightarrow> json \<Rightarrow> bool" where
  "apply_comparison lhs oper rhs =
     (case (to_f64 lhs, to_f64 rhs) of
        (Some l, Some r) \<Rightarrow> compare_f64 l oper r
      | _ \<Rightarrow> (case oper of CEq \<Rightarrow> lhs = rhs | CNe \<Rightarrow> lhs \<noteq> rhs | _ \<Rightarrow> False))"

section \<open>Classified results\<close>

record classified =
  cc_result :: candidate_transition_result
  cc_required_artifacts :: "string list"
  cc_missing_artifacts :: "string list"
  cc_missing_fields :: "string list"
  cc_source_artifact_ids :: "string list"
  cc_sanitized_diagnostic :: "string option"

definition classified_new :: "candidate_transition_result \<Rightarrow> string option \<Rightarrow> classified" where
  "classified_new r d =
     \<lparr>cc_result = r, cc_required_artifacts = [], cc_missing_artifacts = [], cc_missing_fields = [],
      cc_source_artifact_ids = [], cc_sanitized_diagnostic = d\<rparr>"

definition cc_matched :: classified where "cc_matched = classified_new Matched None"
definition cc_not_matched :: classified where "cc_not_matched = classified_new NotMatched None"
definition cc_missing_input :: "string \<Rightarrow> classified" where
  "cc_missing_input d = classified_new MissingInput (Some d)"
definition cc_invalid_expression :: "string \<Rightarrow> classified" where
  "cc_invalid_expression d = classified_new InvalidExpression (Some d)"

definition push_unique :: "string list \<Rightarrow> string \<Rightarrow> string list" where
  "push_unique vs v = (if list_ex (\<lambda>x. x = v) vs then vs else vs @ [v])"

definition with_required_artifact :: "string \<Rightarrow> classified \<Rightarrow> classified" where
  "with_required_artifact a c = c\<lparr>cc_required_artifacts := push_unique (cc_required_artifacts c) a\<rparr>"
definition with_missing_artifact :: "string \<Rightarrow> classified \<Rightarrow> classified" where
  "with_missing_artifact a c = c\<lparr>cc_missing_artifacts := push_unique (cc_missing_artifacts c) a\<rparr>"
definition with_missing_field :: "string \<Rightarrow> classified \<Rightarrow> classified" where
  "with_missing_field a c = c\<lparr>cc_missing_fields := push_unique (cc_missing_fields c) a\<rparr>"
definition with_source_artifact :: "string \<Rightarrow> classified \<Rightarrow> classified" where
  "with_source_artifact a c = c\<lparr>cc_source_artifact_ids := push_unique (cc_source_artifact_ids c) a\<rparr>"

definition dominant_result_for_all :: "classified list \<Rightarrow> candidate_transition_result option" where
  "dominant_result_for_all es =
     find (\<lambda>r. list_ex (\<lambda>e. cc_result e = r) es) [EvaluationError, InvalidExpression, MissingInput]"

definition combine_with_result :: "candidate_transition_result \<Rightarrow> classified \<Rightarrow> classified \<Rightarrow> classified" where
  "combine_with_result r left right =
     \<lparr>cc_result = r,
      cc_required_artifacts = foldl push_unique [] (cc_required_artifacts left @ cc_required_artifacts right),
      cc_missing_artifacts = foldl push_unique [] (cc_missing_artifacts left @ cc_missing_artifacts right),
      cc_missing_fields = foldl push_unique [] (cc_missing_fields left @ cc_missing_fields right),
      cc_source_artifact_ids = foldl push_unique [] (cc_source_artifact_ids left @ cc_source_artifact_ids right),
      cc_sanitized_diagnostic =
        (case cc_sanitized_diagnostic left of None \<Rightarrow> cc_sanitized_diagnostic right | Some d \<Rightarrow> Some d)\<rparr>"

definition combine_and :: "classified \<Rightarrow> classified \<Rightarrow> classified" where
  "combine_and left right =
     combine_with_result
       (case dominant_result_for_all [left, right] of
          Some r \<Rightarrow> r
        | None \<Rightarrow> if cc_result left = Matched \<and> cc_result right = Matched then Matched else NotMatched)
       left right"

definition combine_or :: "classified \<Rightarrow> classified \<Rightarrow> classified" where
  "combine_or left right =
     combine_with_result
       (case dominant_result_for_all [left, right] of
          Some r \<Rightarrow> r
        | None \<Rightarrow> if cc_result left = Matched \<or> cc_result right = Matched then Matched else NotMatched)
       left right"

section \<open>Splitting\<close>

text \<open>
  The scan of \<open>split_connective\<close>: the bytes before the position, the depth there (which a
  parenthesis at the position already changed), the rest.
\<close>

definition paren_depth :: "char \<Rightarrow> int \<Rightarrow> int" where
  "paren_depth c d = (if c = CHR ''('' then d + 1 else if c = CHR '')'' then d - 1 else d)"

fun split_scan :: "string \<Rightarrow> string \<Rightarrow> int \<Rightarrow> string \<Rightarrow> (string \<times> string) option" where
  "split_scan connective before depth [] = None"
| "split_scan connective before depth (c # s) =
     (let d = paren_depth c depth; lhs = trim before; rhs = trim (drop (length connective) (c # s)) in
      if d = 0 \<and> prefix connective (c # s) \<and> lhs \<noteq> [] \<and> rhs \<noteq> [] then Some (lhs, rhs)
      else split_scan connective (before @ [c]) d s)"

definition split_connective :: "string \<Rightarrow> string \<Rightarrow> (string \<times> string) option" where
  "split_connective expr connective = split_scan connective [] 0 expr"

definition artifact_field_ref :: "string \<Rightarrow> (string \<times> string) option" where
  "artifact_field_ref s =
     (if starts_with s ''vars.'' \<or> starts_with s ''approval.'' then None
      else case split_once CHR ''.'' s of
          None \<Rightarrow> None
        | Some (a, f) \<Rightarrow> if a = [] \<or> f = [] then None else Some (a, f))"

definition comparison_operators :: "(string \<times> comp_op) list" where
  "comparison_operators =
     [('' <= '', CLe), ('' >= '', CGe), ('' != '', CNe), ('' == '', CEq), ('' < '', CLt), ('' > '', CGt)]"

text \<open>The first operator of the list that occurs, with the trimmed sides.\<close>

fun find_comparison :: "(string \<times> comp_op) list \<Rightarrow> string \<Rightarrow> (string \<times> comp_op \<times> string) option" where
  "find_comparison [] s = None"
| "find_comparison ((t, oper) # ops) s =
     (case find_sub s t of
        None \<Rightarrow> find_comparison ops s
      | Some i \<Rightarrow> Some (trim (take i s), oper, trim (drop (i + length t) s)))"

definition is_implementation_self_assessment_alias :: "string \<Rightarrow> bool" where
  "is_implementation_self_assessment_alias a \<longleftrightarrow>
     a \<in> {''implementation_self_assessment_v2'', ''implementation_self_assessment''}"

fun split_char :: "char \<Rightarrow> string \<Rightarrow> string list" where
  "split_char c [] = [[]]"
| "split_char c (x # s) =
     (case split_char c s of
        [] \<Rightarrow> []
      | p # ps \<Rightarrow> if x = c then [] # p # ps else (x # p) # ps)"

fun json_path :: "json \<Rightarrow> string list \<Rightarrow> json option" where
  "json_path j [] = Some j"
| "json_path j (p # ps) = (case json_get j p of None \<Rightarrow> None | Some k \<Rightarrow> json_path k ps)"

definition extract_json_field :: "json \<Rightarrow> string \<Rightarrow> json option" where
  "extract_json_field j f =
     (case json_get j f of
        Some v \<Rightarrow> Some v
      | None \<Rightarrow> json_path j (split_char CHR ''.'' f))"

section \<open>What the evaluator reads\<close>

datatype approval_decision = Pending | Requested | Granted | Rejected | Expired

datatype tokio_runtime = OutsideRuntime | CurrentThread | MultiThread

datatype output_resolution = OrdinaryRun | Output string | MissingOutput

record run_view =
  rv_id :: ident
  rv_workspace_root :: string
  rv_chainworks_meta_root :: "string option"
  rv_artifact_root :: string

record cond_world =
  cw_run :: run_view
  cw_artifact_paths :: "string \<rightharpoonup> string"
  cw_variables :: "string \<rightharpoonup> json"
  cw_store :: artifact_store
  cw_fault :: "string option"
  cw_authorizes :: "string \<Rightarrow> approval_decision \<Rightarrow> (string, bool option) result"
  cw_approvals :: "(string, (string \<times> approval_decision) list) result"
  cw_output :: "string \<Rightarrow> (string, output_resolution) result"
  cw_self_assessment :: "json option"
  cw_env :: "string \<Rightarrow> string option"
  cw_exists :: "string \<Rightarrow> bool"
  cw_read :: "string \<Rightarrow> string option"
  cw_from_str :: "string \<Rightarrow> json option"
  cw_to_string :: "json \<Rightarrow> string"
  cw_runtime :: tokio_runtime

definition active_implementation_self_assessment_summary_field :: "cond_world \<Rightarrow> string \<Rightarrow> json option" where
  "active_implementation_self_assessment_summary_field w f =
     Option.bind (cw_self_assessment w)
       (\<lambda>j. extract_json_field j
          (if f = ''seemingly_complete'' then ''implementation_complete''
           else if f = ''blocking_remaining_code_tasks'' then ''blocking_remaining_code_task_count''
           else f))"

definition resolved_artifact_path :: "cond_world \<Rightarrow> string \<Rightarrow> string outcome" where
  "resolved_artifact_path w template =
     of_loop (resolve_path_template (cw_env w) template (rv_workspace_root (cw_run w))
       (rv_chainworks_meta_root (cw_run w)))"

text \<open>The places a legacy run without a meta root may have left an artifact.\<close>

definition legacy_paths :: "cond_world \<Rightarrow> string \<Rightarrow> string list" where
  "legacy_paths w a =
     (let r = rv_artifact_root (cw_run w) in
      [r @ ''/'' @ a, r @ ''/'' @ rv_id (cw_run w) @ ''/'' @ a])"

definition read_artifact_path :: "cond_world \<Rightarrow> string \<Rightarrow> string option outcome" where
  "read_artifact_path w a =
     (case cw_artifact_paths w a of
        None \<Rightarrow> Done None
      | Some template \<Rightarrow>
          bind_outcome (resolved_artifact_path w template)
            (\<lambda>p. Done (if cw_exists w p then Some p
                       else if rv_chainworks_meta_root (cw_run w) = None
                       then find (cw_exists w) (legacy_paths w a)
                       else None)))"

definition read_artifact_field :: "cond_world \<Rightarrow> string \<Rightarrow> string \<Rightarrow> json option outcome" where
  "read_artifact_field w a f =
     (if is_implementation_self_assessment_alias a
      then Done (active_implementation_self_assessment_summary_field w f)
      else case cw_output w a of
          Inr (Output content) \<Rightarrow>
            Done (Option.bind (cw_from_str w content) (\<lambda>j. extract_json_field j f))
        | Inr OrdinaryRun \<Rightarrow>
            bind_outcome (read_artifact_path w a)
              (\<lambda>p. Done (Option.bind p (\<lambda>p. Option.bind (cw_read w p) (\<lambda>content.
                     Option.bind (cw_from_str w content) (\<lambda>j. extract_json_field j f)))))
        | _ \<Rightarrow> Done None)"

section \<open>Values\<close>

text \<open>
  A literal. A float is kept as its text (\<^verbatim>\<open>json!\<close> of a number that is not finite is null);
  a lone quote opens and closes itself, so the slice between its ends panics.
\<close>

definition quoted :: "char \<Rightarrow> string \<Rightarrow> bool" where
  "quoted q s \<longleftrightarrow> starts_with s [q] \<and> ends_with s [q]"

definition literal_value :: "string \<Rightarrow> json outcome" where
  "literal_value s =
     (if s = ''true'' then Done (JBool True)
      else if s = ''false'' then Done (JBool False)
      else case parse_i64 s of
          Some n \<Rightarrow> Done (JInt n)
        | None \<Rightarrow>
            (case parse_f64 s of
               Some (Fin _) \<Rightarrow> Done (JFloat s)
             | Some _ \<Rightarrow> Done JNull
             | None \<Rightarrow>
                 if quoted CHR 0x27 s \<or> quoted CHR 0x22 s
                 then (if length s < 2 then Panics else Done (JString (butlast (tl s))))
                 else Done (JString s)))"

text \<open>
  The canonical lookup of a value: a value found, or \<open>None\<close> to read the raw artifact. A
  controlled alias is never read raw.
\<close>

definition controlled_value :: "cond_world \<Rightarrow> string \<Rightarrow> string \<Rightarrow> json option" where
  "controlled_value w a f =
     (if cw_runtime w = MultiThread then
        (case canonical_contract_field_result (cw_fault w) (cw_store w) (rv_id (cw_run w)) a f of
           Inr (Resolved v) \<Rightarrow> Some v
         | Inr (MissingControlled _) \<Rightarrow> Some JNull
         | Inr UncontrolledAlias \<Rightarrow> None
         | Inl _ \<Rightarrow> if contract_id_for_alias a = None then None else Some JNull)
      else if contract_id_for_alias a = None then None else Some JNull)"

definition resolve_value :: "cond_world \<Rightarrow> string \<Rightarrow> json outcome" where
  "resolve_value w ref_str =
     (let s = trim ref_str in
      case strip_prefix s ''vars.'' of
        Some x \<Rightarrow> Done (case cw_variables w x of None \<Rightarrow> JNull | Some v \<Rightarrow> v)
      | None \<Rightarrow>
          (case split_once CHR ''.'' s of
             None \<Rightarrow> literal_value s
           | Some (a, f) \<Rightarrow>
               bind_outcome
                 (if is_implementation_self_assessment_alias a then read_artifact_field w a f else Done None)
                 (\<lambda>v. case v of
                    Some x \<Rightarrow> Done x
                  | None \<Rightarrow>
                      (case controlled_value w a f of
                         Some x \<Rightarrow> Done x
                       | None \<Rightarrow>
                           bind_outcome (read_artifact_field w a f)
                             (\<lambda>v. case v of Some x \<Rightarrow> Done x | None \<Rightarrow> literal_value s)))))"

section \<open>Atoms\<close>

definition evaluate_artifact_exists_classified :: "cond_world \<Rightarrow> string \<Rightarrow> classified outcome" where
  "evaluate_artifact_exists_classified w a =
     (let found = with_source_artifact a (with_required_artifact a cc_matched);
          missing = (\<lambda>d. with_missing_artifact a (with_required_artifact a (cc_missing_input d)));
          on_disk =
            (case cw_output w a of
               Inr (Output _) \<Rightarrow> Done found
             | Inr OrdinaryRun \<Rightarrow>
                 (case cw_artifact_paths w a of
                    None \<Rightarrow> Done (with_required_artifact a (cc_invalid_expression
                      (''Artifact '' @ a @ '' is not declared by the workflow/catalog contract'')))
                  | Some template \<Rightarrow>
                      bind_outcome (resolved_artifact_path w template)
                        (\<lambda>p. Done (if cw_exists w p then found
                                   else if rv_chainworks_meta_root (cw_run w) = None
                                           \<and> list_ex (cw_exists w) (legacy_paths w a)
                                   then found
                                   else missing (''Declared artifact '' @ a @ '' is absent''))))
             | _ \<Rightarrow> Done (missing (''Artifact '' @ a @ '' has no verified current provider output'')))
      in case active_contract_exists_result (cw_fault w) (cw_store w) (rv_id (cw_run w)) a of
           Inr (Resolved _) \<Rightarrow> Done found
         | Inr (MissingControlled c) \<Rightarrow>
             Done (missing (''Controlled artifact '' @ c @ '' is missing canonical DB truth''))
         | Inr UncontrolledAlias \<Rightarrow> on_disk
         | Inl e \<Rightarrow>
             (case contract_id_for_alias a of
                Some c \<Rightarrow> Done (missing (''Controlled artifact '' @ c @ '' lookup failed: '' @ e))
              | None \<Rightarrow> on_disk))"

definition compared :: "cond_world \<Rightarrow> string \<Rightarrow> json \<Rightarrow> comp_op \<Rightarrow> string \<Rightarrow> classified outcome" where
  "compared w a v oper rhs =
     bind_outcome (resolve_value w rhs)
       (\<lambda>rv. Done (with_source_artifact a (with_required_artifact a
          (if apply_comparison v oper rv then cc_matched else cc_not_matched))))"

definition evaluate_artifact_field_comparison_classified ::
  "cond_world \<Rightarrow> string \<Rightarrow> string \<Rightarrow> comp_op \<Rightarrow> string \<Rightarrow> classified outcome" where
  "evaluate_artifact_field_comparison_classified w a f oper rhs =
     (let field_ref = a @ ''.'' @ f;
          missing = (\<lambda>d. with_missing_field field_ref (with_required_artifact a (cc_missing_input d)));
          raw =
            (if cw_artifact_paths w a = None then
               Done (with_required_artifact a (cc_invalid_expression
                 (''Artifact field '' @ field_ref @ '' references an undeclared artifact'')))
             else bind_outcome (read_artifact_field w a f)
               (\<lambda>v. case v of
                  Some x \<Rightarrow> compared w a x oper rhs
                | None \<Rightarrow>
                    bind_outcome (evaluate_artifact_exists_classified w a)
                      (\<lambda>ex. Done (if cc_result ex = MissingInput \<and> list_ex (\<lambda>m. m = a) (cc_missing_artifacts ex)
                                  then ex
                                  else missing (''Declared artifact field '' @ field_ref @ '' is absent'')))))
      in case canonical_contract_field_result (cw_fault w) (cw_store w) (rv_id (cw_run w)) a f of
           Inr (Resolved v) \<Rightarrow> compared w a v oper rhs
         | Inr (MissingControlled c) \<Rightarrow>
             (case (if is_implementation_self_assessment_alias a
                    then active_implementation_self_assessment_summary_field w f else None) of
                Some v \<Rightarrow> compared w a v oper rhs
              | None \<Rightarrow> Done (missing (''Controlled artifact field '' @ c @ ''.'' @ f
                          @ '' is missing canonical DB truth'')))
         | Inr UncontrolledAlias \<Rightarrow> raw
         | Inl e \<Rightarrow>
             (case contract_id_for_alias a of
                Some c \<Rightarrow> Done (missing (''Controlled artifact field '' @ c @ ''.'' @ f
                            @ '' lookup failed: '' @ e))
              | None \<Rightarrow> raw))"

definition evaluate_approval :: "cond_world \<Rightarrow> string \<Rightarrow> approval_decision \<Rightarrow> classified" where
  "evaluate_approval w state_id d =
     (case cw_authorizes w state_id d of
        Inr (Some True) \<Rightarrow> cc_matched
      | Inr (Some False) \<Rightarrow> cc_not_matched
      | Inl _ \<Rightarrow> classified_new EvaluationError (Some ''stale_approval_binding'')
      | Inr None \<Rightarrow>
          (case cw_approvals w of
             Inl _ \<Rightarrow> cc_not_matched
           | Inr as \<Rightarrow>
               if list_ex (\<lambda>(s, e). s = state_id \<and> e = d) as then cc_matched else cc_not_matched))"

section \<open>Conditions\<close>

text \<open>The part of the evaluator behind the connectives.\<close>

definition exists_argument :: "string \<Rightarrow> string" where
  "exists_argument s = trim_matches CHR 0x22 (trim_matches CHR 0x27 (take (length s - 8) (drop 7 s)))"

definition evaluate_atom :: "cond_world \<Rightarrow> string \<Rightarrow> string \<Rightarrow> classified outcome" where
  "evaluate_atom w state_id s =
     (if starts_with s ''exists('' \<and> ends_with s '')'' then
        evaluate_artifact_exists_classified w (exists_argument s)
      else if s = ''approval.granted == true'' then Done (evaluate_approval w state_id Granted)
      else if s = ''approval.rejected == true'' then Done (evaluate_approval w state_id Rejected)
      else case find_comparison comparison_operators s of
          Some (lhs, oper, rhs) \<Rightarrow>
            (case artifact_field_ref lhs of
               Some (a, f) \<Rightarrow> evaluate_artifact_field_comparison_classified w a f oper rhs
             | None \<Rightarrow>
                 bind_outcome (resolve_value w lhs)
                   (\<lambda>lv. bind_outcome (resolve_value w rhs)
                     (\<lambda>rv. Done (if apply_comparison lv oper rv then cc_matched else cc_not_matched))))
        | None \<Rightarrow> Done (cc_invalid_expression (''Unsupported transition condition: '' @ s)))"

definition trim_condition :: "string \<Rightarrow> string" where
  "trim_condition c = trim_matches CHR 0x22 (trim c)"

lemma length_trim_start: "length (trim_start s) \<le> length s"
  by (induction s rule: trim_start.induct) (auto simp: le_SucI)

lemma length_trim_rev: "length (trim_rev s) \<le> length s"
  by (induction s rule: trim_rev.induct) (auto simp: le_SucI)

lemma length_trim: "length (trim s) \<le> length s"
  unfolding trim_def using length_trim_rev [of "rev (trim_start s)"] length_trim_start [of s] by simp

lemma length_trim_matches: "length (trim_matches c s) \<le> length s"
  unfolding trim_matches_def
  by (metis length_dropWhile_le length_rev order.trans)

lemma length_trim_condition: "length (trim_condition c) \<le> length c"
  unfolding trim_condition_def using length_trim_matches length_trim order.trans by blast

lemma split_scan_shorter:
  "split_scan connective before d s = Some (l, r) \<Longrightarrow> connective \<noteq> [] \<Longrightarrow>
     length l < length before + length s \<and> length r < length before + length s"
proof (induction connective before d s rule: split_scan.induct)
  case (2 connective before d c s)
  show ?case
  proof (cases "l = trim before \<and> r = trim (drop (length connective) (c # s))
      \<and> prefix connective (c # s)")
    case True
    then show ?thesis
      using length_trim [of before] length_trim [of "drop (length connective) (c # s)"] "2.prems"(2)
      by (cases connective) auto
  next
    case False
    with "2.prems" have "split_scan connective (before @ [c]) (paren_depth c d) s = Some (l, r)"
      by (auto simp: Let_def split: if_splits)
    with 2 False show ?thesis by (simp add: Let_def split: if_splits)
  qed
qed simp

lemma split_connective_shorter:
  "split_connective e connective = Some (l, r) \<Longrightarrow> connective \<noteq> [] \<Longrightarrow>
     length l < length e \<and> length r < length e"
  unfolding split_connective_def using split_scan_shorter [of connective "[]" 0 e l r] by simp

function evaluate_condition_classified :: "cond_world \<Rightarrow> string \<Rightarrow> string \<Rightarrow> classified outcome" where
  "evaluate_condition_classified w state_id condition =
     (let s = trim_condition condition in
      if s = ''true'' \<or> s = [CHR 0x27] @ ''true'' @ [CHR 0x27] then Done cc_matched
      else if s = ''false'' \<or> s = [CHR 0x27] @ ''false'' @ [CHR 0x27] then Done cc_not_matched
      else case split_connective s '' and '' of
          Some (l, r) \<Rightarrow>
            bind_outcome (evaluate_condition_classified w state_id l)
              (\<lambda>a. bind_outcome (evaluate_condition_classified w state_id r)
                (\<lambda>b. Done (combine_and a b)))
        | None \<Rightarrow>
            (case split_connective s '' or '' of
               Some (l, r) \<Rightarrow>
                 bind_outcome (evaluate_condition_classified w state_id l)
                   (\<lambda>a. bind_outcome (evaluate_condition_classified w state_id r)
                     (\<lambda>b. Done (combine_or a b)))
             | None \<Rightarrow> evaluate_atom w state_id s))"
  by pat_completeness auto

termination
proof (relation "measure (\<lambda>(w, i, c). length c)", goal_cases)
  case 1 then show ?case by simp
qed (auto dest!: split_connective_shorter intro: less_le_trans [OF _ length_trim_condition])

declare evaluate_condition_classified.simps [simp del]

definition transition_id_for :: "string \<Rightarrow> string \<Rightarrow> nat \<Rightarrow> string" where
  "transition_id_for current to i = current @ ''__to__'' @ to @ ''__'' @ show_nat i"

record compiled_transition =
  ct_to :: string
  ct_condition :: string

definition evaluate_transition_candidate ::
  "cond_world \<Rightarrow> nat \<Rightarrow> string \<Rightarrow> compiled_transition \<Rightarrow> candidate_transition_evaluation outcome" where
  "evaluate_transition_candidate w i current t =
     bind_outcome (evaluate_condition_classified w current (ct_condition t))
       (\<lambda>c. Done
         \<lparr>ce_transition_id = transition_id_for current (ct_to t) i, ce_from_state_id = current,
          ce_to_state_id = ct_to t,
          ce_condition_expression_id = Some (''transition_condition_'' @ show_nat i),
          ce_result = cc_result c, ce_required_artifacts = cc_required_artifacts c,
          ce_missing_artifacts = cc_missing_artifacts c, ce_missing_fields = cc_missing_fields c,
          ce_source_artifact_ids = cc_source_artifact_ids c, ce_source_agent_execution_id = None,
          ce_sanitized_diagnostic = cc_sanitized_diagnostic c\<rparr>)"

end
