(* ===== verification/Run_Domain.thy ===== *)
theory Run_Domain
  imports Prelude
begin

text \<open>
  Runs and their stages: \<^verbatim>\<open>control-plane/crates/domain/src/run.rs\<close>,
  \<^verbatim>\<open>control-plane/crates/domain/src/stage.rs\<close> and the evaluation of a run in
  \<^verbatim>\<open>control-plane/crates/engine/src/domain_engine.rs\<close>. Of a run the evaluation reads the
  status only; the stage record has the columns of the stage table.
\<close>

section \<open>Statuses\<close>

datatype run_status =
  RunPending
  | RunReady
  | RunRunning
  | RunWaitingApproval
  | RunBlocked
  | RunCompleted
  | RunFailed
  | RunCancelled
  | RunCancelling

fun show_run_status :: "run_status \<Rightarrow> string" where
  "show_run_status RunPending = ''pending''"
| "show_run_status RunReady = ''ready''"
| "show_run_status RunRunning = ''running''"
| "show_run_status RunWaitingApproval = ''waiting_approval''"
| "show_run_status RunBlocked = ''blocked''"
| "show_run_status RunCompleted = ''completed''"
| "show_run_status RunFailed = ''failed''"
| "show_run_status RunCancelled = ''cancelled''"
| "show_run_status RunCancelling = ''cancelling''"

definition parse_run_status :: "string \<Rightarrow> (string, run_status) result" where
  "parse_run_status s =
     (if s = ''pending'' then Inr RunPending
      else if s = ''ready'' then Inr RunReady
      else if s = ''running'' then Inr RunRunning
      else if s = ''waiting_approval'' then Inr RunWaitingApproval
      else if s = ''blocked'' then Inr RunBlocked
      else if s = ''completed'' then Inr RunCompleted
      else if s = ''failed'' then Inr RunFailed
      else if s = ''cancelled'' then Inr RunCancelled
      else if s = ''cancelling'' then Inr RunCancelling
      else Inl (''Unknown RunStatus: '' @ s))"

definition run_is_terminal :: "run_status \<Rightarrow> bool" where
  "run_is_terminal s \<longleftrightarrow> s \<in> {RunCompleted, RunFailed, RunCancelled}"

datatype stage_status =
  StagePending
  | StageReady
  | StageRunning
  | StageWaitingApproval
  | StageBlocked
  | StageCompleted
  | StageFailed
  | StageSkipped

fun show_stage_status :: "stage_status \<Rightarrow> string" where
  "show_stage_status StagePending = ''pending''"
| "show_stage_status StageReady = ''ready''"
| "show_stage_status StageRunning = ''running''"
| "show_stage_status StageWaitingApproval = ''waiting_approval''"
| "show_stage_status StageBlocked = ''blocked''"
| "show_stage_status StageCompleted = ''completed''"
| "show_stage_status StageFailed = ''failed''"
| "show_stage_status StageSkipped = ''skipped''"

definition parse_stage_status :: "string \<Rightarrow> (string, stage_status) result" where
  "parse_stage_status s =
     (if s = ''pending'' then Inr StagePending
      else if s = ''ready'' then Inr StageReady
      else if s = ''running'' then Inr StageRunning
      else if s = ''waiting_approval'' then Inr StageWaitingApproval
      else if s = ''blocked'' then Inr StageBlocked
      else if s = ''completed'' then Inr StageCompleted
      else if s = ''failed'' then Inr StageFailed
      else if s = ''skipped'' then Inr StageSkipped
      else Inl (''Unknown StageStatus: '' @ s))"

datatype stage_settlement_kind =
  SettledCompleted
  | SettledSkipped
  | SettledFailed

fun show_stage_settlement_kind :: "stage_settlement_kind \<Rightarrow> string" where
  "show_stage_settlement_kind SettledCompleted = ''completed''"
| "show_stage_settlement_kind SettledSkipped = ''skipped''"
| "show_stage_settlement_kind SettledFailed = ''failed''"

definition parse_stage_settlement_kind :: "string \<Rightarrow> (string, stage_settlement_kind) result" where
  "parse_stage_settlement_kind s =
     (if s = ''completed'' then Inr SettledCompleted
      else if s = ''skipped'' then Inr SettledSkipped
      else if s = ''failed'' then Inr SettledFailed
      else Inl (''Unknown StageSettlementKind: '' @ s))"

interpretation run_status_codec: codec show_run_status parse_run_status
proof
  fix x show "parse_run_status (show_run_status x) = Inr x"
    by (cases x) (simp_all add: parse_run_status_def)
next
  fix s x assume "parse_run_status s = Inr x"
  then show "show_run_status x = s"
    by (auto simp: parse_run_status_def split: if_splits)
qed

interpretation stage_status_codec: codec show_stage_status parse_stage_status
proof
  fix x show "parse_stage_status (show_stage_status x) = Inr x"
    by (cases x) (simp_all add: parse_stage_status_def)
next
  fix s x assume "parse_stage_status s = Inr x"
  then show "show_stage_status x = s"
    by (auto simp: parse_stage_status_def split: if_splits)
qed

interpretation stage_settlement_kind_codec: codec show_stage_settlement_kind parse_stage_settlement_kind
proof
  fix x show "parse_stage_settlement_kind (show_stage_settlement_kind x) = Inr x"
    by (cases x) (simp_all add: parse_stage_settlement_kind_def)
next
  fix s x assume "parse_stage_settlement_kind s = Inr x"
  then show "show_stage_settlement_kind x = s"
    by (auto simp: parse_stage_settlement_kind_def split: if_splits)
qed

record stage_execution =
  sx_id :: ident
  sx_run_id :: ident
  sx_stage_id :: string
  sx_label :: string
  sx_status :: stage_status
  sx_iteration :: int
  sx_attempt_number :: int
  sx_settlement_kind :: "stage_settlement_kind option"
  sx_started_at :: datetime
  sx_completed_at :: "datetime option"
  sx_owner_agent :: "string option"
  sx_provider :: "string option"
  sx_model :: "string option"
  sx_stage_type :: "string option"
  sx_validation_failure_json :: "string option"
  sx_evidence_packet_json :: "string option"
  sx_recovery_snapshot_json :: "string option"
  sx_retry_reason :: "string option"

section \<open>Evaluating a run\<close>

datatype run_evaluation =
  CanAdvance ident
  | WaitingApproval string
  | Complete
  | RunHasFailed
  | Blocked string
  | Terminal

definition stage_settled :: "stage_status \<Rightarrow> bool" where
  "stage_settled s \<longleftrightarrow> s \<in> {StageCompleted, StageSkipped, StageFailed}"

definition is_run_blocked :: "stage_execution list \<Rightarrow> bool" where
  "is_run_blocked stages = list_ex (\<lambda>s. sx_status s = StageBlocked) stages"

definition is_run_complete :: "stage_execution list \<Rightarrow> bool" where
  "is_run_complete stages =
     (if stages = [] then False
      else list_all (\<lambda>s. stage_settled (sx_status s)) stages
        \<and> list_ex (\<lambda>s. sx_status s = StageCompleted) stages)"

definition next_pending_stage :: "stage_execution list \<Rightarrow> stage_execution option" where
  "next_pending_stage stages = find (\<lambda>s. sx_status s \<in> {StagePending, StageReady}) stages"

definition evaluate_run :: "run_status \<Rightarrow> stage_execution list \<Rightarrow> run_evaluation" where
  "evaluate_run status stages =
     (if run_is_terminal status then Terminal
      else if status = RunCancelling then Blocked ''Cancellation in progress''
      else if stages \<noteq> [] \<and> list_all (\<lambda>s. stage_settled (sx_status s)) stages then
        if list_ex (\<lambda>s. sx_status s = StageCompleted) stages then Complete else RunHasFailed
      else if is_run_blocked stages then Blocked ''One or more stages are blocked''
      else
        case find (\<lambda>s. sx_status s = StageWaitingApproval) stages of
          Some s \<Rightarrow> WaitingApproval (sx_stage_id s)
        | None \<Rightarrow>
            (case next_pending_stage stages of
               Some s \<Rightarrow> CanAdvance (sx_id s)
             | None \<Rightarrow>
                 if list_ex (\<lambda>s. sx_status s = StageRunning) stages
                 then Blocked ''Stages currently running''
                 else Blocked ''No actionable stages''))"

definition is_transition_legal :: "stage_status \<Rightarrow> stage_status \<Rightarrow> bool" where
  "is_transition_legal from to \<longleftrightarrow>
     (from, to) \<in>
       {(StagePending, StageReady), (StagePending, StageRunning), (StageReady, StageRunning),
        (StageRunning, StageWaitingApproval), (StageRunning, StageCompleted),
        (StageRunning, StageFailed), (StageRunning, StageBlocked),
        (StageWaitingApproval, StageRunning), (StageWaitingApproval, StageBlocked),
        (StageBlocked, StageRunning), (StageBlocked, StageSkipped), (StageFailed, StageRunning)}
     \<or> to = StageSkipped"

section \<open>What the evaluation says\<close>

lemma find_first:
  "find P xs = Some x \<longleftrightarrow> (\<exists>ys zs. xs = ys @ x # zs \<and> P x \<and> (\<forall>y\<in>set ys. \<not> P y))"
proof (induction xs)
  case (Cons a xs)
  show ?case
  proof (cases "P a")
    case True
    then show ?thesis by (auto simp: Cons_eq_append_conv)
  next
    case False
    show ?thesis
    proof
      assume "find P (a # xs) = Some x"
      with False Cons obtain ys zs where "xs = ys @ x # zs" "P x" "\<forall>y\<in>set ys. \<not> P y" by auto
      with False show "\<exists>ys zs. a # xs = ys @ x # zs \<and> P x \<and> (\<forall>y\<in>set ys. \<not> P y)"
        by (intro exI [of _ "a # ys"] exI [of _ zs]) auto
    next
      assume "\<exists>ys zs. a # xs = ys @ x # zs \<and> P x \<and> (\<forall>y\<in>set ys. \<not> P y)"
      with False Cons show "find P (a # xs) = Some x" by (auto simp: Cons_eq_append_conv)
    qed
  qed
qed simp

lemma evaluate_active:
  assumes "\<not> run_is_terminal st" "st \<noteq> RunCancelling"
  shows "evaluate_run st stages = Complete \<longleftrightarrow> is_run_complete stages"
    and "evaluate_run st stages = RunHasFailed \<longleftrightarrow>
      stages \<noteq> [] \<and> (\<forall>s\<in>set stages. sx_status s = StageSkipped \<or> sx_status s = StageFailed)"
proof -
  have none: "evaluate_run st stages \<noteq> Complete" "evaluate_run st stages \<noteq> RunHasFailed"
    if "\<not> (stages \<noteq> [] \<and> list_all (\<lambda>s. stage_settled (sx_status s)) stages)"
    using that by (auto simp: evaluate_run_def split: option.splits)
  show "evaluate_run st stages = Complete \<longleftrightarrow> is_run_complete stages"
  proof (cases "stages \<noteq> [] \<and> list_all (\<lambda>s. stage_settled (sx_status s)) stages")
    case True
    then show ?thesis using assms by (auto simp: evaluate_run_def is_run_complete_def)
  next
    case False
    with none show ?thesis by (auto simp: is_run_complete_def)
  qed
  show "evaluate_run st stages = RunHasFailed \<longleftrightarrow>
      stages \<noteq> [] \<and> (\<forall>s\<in>set stages. sx_status s = StageSkipped \<or> sx_status s = StageFailed)"
  proof (cases "stages \<noteq> [] \<and> list_all (\<lambda>s. stage_settled (sx_status s)) stages")
    case True
    then have "evaluate_run st stages = RunHasFailed \<longleftrightarrow> \<not> list_ex (\<lambda>s. sx_status s = StageCompleted) stages"
      using assms by (auto simp: evaluate_run_def)
    with True show ?thesis by (fastforce simp: list_all_iff list_ex_iff stage_settled_def)
  next
    case False
    with none show ?thesis by (fastforce simp: list_all_iff stage_settled_def)
  qed
qed

text \<open>
The evaluation of a run. An active run is complete exactly when
\<open>is_run_complete\<close> says so, and failed exactly when every stage was skipped or failed. It
advances to a stage exactly when that is the first pending or ready one and no stage is
blocked or waits for approval. In all other cases it waits: a run never completes, fails
or advances once it is terminal or being cancelled.
\<close>

theorem evaluate_run_correct:
  "(evaluate_run st stages = Terminal \<longleftrightarrow> run_is_terminal st)
   \<and> (evaluate_run st stages = Complete \<longleftrightarrow>
        \<not> run_is_terminal st \<and> st \<noteq> RunCancelling \<and> is_run_complete stages)
   \<and> (evaluate_run st stages = RunHasFailed \<longleftrightarrow>
        \<not> run_is_terminal st \<and> st \<noteq> RunCancelling \<and> stages \<noteq> []
        \<and> list_all (\<lambda>s. sx_status s = StageSkipped \<or> sx_status s = StageFailed) stages)
   \<and> (evaluate_run st stages = CanAdvance i \<longleftrightarrow>
        \<not> run_is_terminal st \<and> st \<noteq> RunCancelling
        \<and> \<not> list_ex (\<lambda>s. sx_status s \<in> {StageBlocked, StageWaitingApproval}) stages
        \<and> (\<exists>before s after. stages = before @ s # after \<and> sx_id s = i
             \<and> sx_status s \<in> {StagePending, StageReady}
             \<and> list_all (\<lambda>x. sx_status x \<notin> {StagePending, StageReady}) before))"
proof (cases "run_is_terminal st \<or> st = RunCancelling")
  case True
  then show ?thesis by (auto simp: evaluate_run_def)
next
  case active: False
  have adv: "evaluate_run st stages = CanAdvance i \<longleftrightarrow>
      \<not> list_ex (\<lambda>s. sx_status s \<in> {StageBlocked, StageWaitingApproval}) stages
      \<and> (\<exists>s. next_pending_stage stages = Some s \<and> sx_id s = i)"
  proof -
    have pend: "\<not> list_all (\<lambda>s. stage_settled (sx_status s)) stages"
      if "next_pending_stage stages = Some s" for s
      using that by (auto simp: next_pending_stage_def find_first stage_settled_def)
    show ?thesis
      using active pend
      by (auto simp: evaluate_run_def is_run_blocked_def list_ex_iff find_None_iff find_Some_iff
          split: option.splits dest: find_None_iff [THEN iffD1])
  qed
  have "evaluate_run st stages \<noteq> Terminal"
    using active by (auto simp: evaluate_run_def split: option.splits)
  then show ?thesis
    using active evaluate_active [of st stages] adv
    by (auto simp: list_all_iff next_pending_stage_def find_first)
qed

end
