(* ===== verification/Transition_Selection.thy ===== *)
theory Transition_Selection
  imports Transition_Condition Run_Domain
begin

text \<open>
  Choosing the next state of a run: \<open>evaluate_and_transition\<close> of
  \<^verbatim>\<open>control-plane/crates/engine/src/orchestrator.rs\<close> with the loop budgets of
  \<^verbatim>\<open>closeout_loop_budget.rs\<close>, the refinement guard of the implementation review and the
  record of a conflict. What the engine writes is the list of its effects, in order.
\<close>

section \<open>Plans\<close>

record compiled_loop =
  lp_counter :: string
  lp_max :: nat

record compiled_state =
  cs_id :: string
  cs_label :: string
  cs_state_type :: "string option"
  cs_owner_agent :: string
  cs_owner_provider :: string
  cs_owner_model :: "string option"
  cs_is_manual_gate :: bool
  cs_is_end :: bool
  cs_transitions :: "compiled_transition list"
  cs_loop_config :: "compiled_loop option"

type_synonym plan_states = "string \<rightharpoonup> compiled_state"

section \<open>Loop budgets\<close>

record loop_exhaustion =
  lx_counter :: string
  lx_iterations :: nat
  lx_max :: nat

text \<open>\<^verbatim>\<open>u64::try_from\<close> drops negative iterations.\<close>

definition loop_iterations_for_state :: "stage_execution list \<Rightarrow> string \<Rightarrow> nat" where
  "loop_iterations_for_state stages state_id =
     length (remdups (filter (\<lambda>i. 0 \<le> i)
       (map sx_iteration (filter (\<lambda>s. sx_stage_id s = state_id \<and> sx_status s = StageCompleted) stages))))"

definition closeout_loop_budget_exhaustion ::
  "plan_states \<Rightarrow> stage_execution list \<Rightarrow> string \<Rightarrow> loop_exhaustion option" where
  "closeout_loop_budget_exhaustion states stages state_id =
     (case states state_id of
        None \<Rightarrow> None
      | Some target \<Rightarrow>
          (case cs_loop_config target of
             None \<Rightarrow> None
           | Some l \<Rightarrow>
               let n = loop_iterations_for_state stages state_id in
               if lp_max l \<le> n
               then Some \<lparr>lx_counter = lp_counter l, lx_iterations = n, lx_max = lp_max l\<rparr>
               else None))"

definition closeout_loop_budget_remaining :: "plan_states \<Rightarrow> stage_execution list \<Rightarrow> string \<Rightarrow> bool" where
  "closeout_loop_budget_remaining states stages state_id \<longleftrightarrow>
     closeout_loop_budget_exhaustion states stages state_id = None"

definition exhaustion_text :: "loop_exhaustion \<Rightarrow> string" where
  "exhaustion_text x =
     lx_counter x @ '': '' @ show_nat (lx_iterations x) @ ''/'' @ show_nat (lx_max x) @ '' iterations''"

text \<open>The new execution of a state: retries keep the iteration, so it follows the highest one.\<close>

definition next_iteration :: "stage_execution list \<Rightarrow> string \<Rightarrow> int" where
  "next_iteration stages state_id =
     (case map sx_iteration (filter (\<lambda>s. sx_stage_id s = state_id) stages) of
        [] \<Rightarrow> 0
      | i # is \<Rightarrow> fold max is i) + 1"

definition create_stage_for_state ::
  "ident \<Rightarrow> datetime \<Rightarrow> ident \<Rightarrow> string \<Rightarrow> compiled_state \<Rightarrow> stage_execution list \<Rightarrow> stage_execution" where
  "create_stage_for_state new_id now run_id state_id state stages =
     \<lparr>sx_id = new_id, sx_run_id = run_id, sx_stage_id = state_id, sx_label = cs_label state,
      sx_status = StagePending, sx_iteration = next_iteration stages state_id, sx_attempt_number = 1,
      sx_settlement_kind = None, sx_started_at = now, sx_completed_at = None,
      sx_owner_agent = Some (cs_owner_agent state), sx_provider = Some (cs_owner_provider state),
      sx_model = cs_owner_model state, sx_stage_type = cs_state_type state,
      sx_validation_failure_json = None, sx_evidence_packet_json = None,
      sx_recovery_snapshot_json = None, sx_retry_reason = None\<rparr>"

section \<open>Candidates\<close>

text \<open>A matched candidate into a loop state whose budget is spent does not match.\<close>

definition apply_loop_budget ::
  "plan_states \<Rightarrow> stage_execution list \<Rightarrow> compiled_transition \<Rightarrow> candidate_transition_evaluation
    \<Rightarrow> candidate_transition_evaluation" where
  "apply_loop_budget states stages t e =
     (if ce_result e \<noteq> Matched then e
      else case closeout_loop_budget_exhaustion states stages (ct_to t) of
          None \<Rightarrow> e
        | Some x \<Rightarrow> e\<lparr>ce_result := NotMatched,
            ce_sanitized_diagnostic := Some (''Loop budget exhausted for '' @ exhaustion_text x)\<rparr>)"

fun evaluate_candidates ::
  "cond_world \<Rightarrow> plan_states \<Rightarrow> stage_execution list \<Rightarrow> string \<Rightarrow> nat \<Rightarrow> compiled_transition list
    \<Rightarrow> candidate_transition_evaluation list outcome" where
  "evaluate_candidates w states stages current i [] = Done []"
| "evaluate_candidates w states stages current i (t # ts) =
     bind_outcome (evaluate_transition_candidate w i current t)
       (\<lambda>e. bind_outcome (evaluate_candidates w states stages current (Suc i) ts)
         (\<lambda>es. Done (apply_loop_budget states stages t e # es)))"

fun position :: "('a \<Rightarrow> bool) \<Rightarrow> 'a list \<Rightarrow> nat option" where
  "position P [] = None"
| "position P (x # xs) = (if P x then Some 0 else map_option Suc (position P xs))"

definition set_candidate ::
  "nat \<Rightarrow> candidate_transition_result \<Rightarrow> string \<Rightarrow> candidate_transition_evaluation list
    \<Rightarrow> candidate_transition_evaluation list" where
  "set_candidate i r d cs = cs[i := (cs ! i)\<lparr>ce_result := r, ce_sanitized_diagnostic := Some d\<rparr>]"

definition field_label :: "(json \<Rightarrow> string) \<Rightarrow> canonical_contract_field \<Rightarrow> string" where
  "field_label show_json s =
     (case s of
        Resolved v \<Rightarrow> (case as_str v of Some t \<Rightarrow> t | None \<Rightarrow> show_json v)
      | MissingControlled c \<Rightarrow> ''missing:'' @ c
      | UncontrolledAlias \<Rightarrow> ''uncontrolled_alias'')"

definition field_is :: "canonical_contract_field \<Rightarrow> string list \<Rightarrow> bool" where
  "field_is s xs \<longleftrightarrow>
     (case s of Resolved v \<Rightarrow> (case as_str v of Some t \<Rightarrow> t \<in> set xs | None \<Rightarrow> False) | _ \<Rightarrow> False)"

definition apply_implementation_review_refinement_guard ::
  "cond_world \<Rightarrow> plan_states \<Rightarrow> stage_execution list \<Rightarrow> string \<Rightarrow> compiled_transition list
    \<Rightarrow> candidate_transition_evaluation list
    \<Rightarrow> (string, candidate_transition_evaluation list) result" where
  "apply_implementation_review_refinement_guard w states stages current ts cs =
     (if current \<noteq> ''state_9_implementation_reviewed'' then Inr cs
      else case position (\<lambda>t. ct_to t = ''state_11_manual_release'') ts of
          None \<Rightarrow> Inr cs
        | Some release \<Rightarrow>
            let release_matched = (release < length cs \<and> ce_result (cs ! release) = Matched);
                target = (case Option.bind (cw_variables w ''implementation_review_target_status'') as_str of
                            None \<Rightarrow> ''code_complete'' | Some t \<Rightarrow> t)
            in case canonical_contract_field_result (cw_fault w) (cw_store w) (rv_id (cw_run w))
                      ''implementation_review_summary'' ''status'' of
                 Inl e \<Rightarrow> Inl e
               | Inr status \<Rightarrow>
                   if field_is status [target] then Inr cs
                   else if \<not> release_matched
                        \<and> \<not> field_is status [''needs_code_fixes'', ''invalid'', ''release_evidence_blocked'']
                   then Inr cs
                   else
                     let label = ''implementation_review_summary.status='' @ field_label (cw_to_string w) status in
                     case position (\<lambda>t. ct_to t = ''state_10_implementation_refined'') ts of
                       None \<Rightarrow> Inr (set_candidate release NotMatched
                         (label @ '' cannot enter manual release, and no refinement transition exists'') cs)
                     | Some refine \<Rightarrow>
                         let cs1 = set_candidate release NotMatched
                                     (label @ '' routes back to implementation refinement, not manual release'') cs
                         in case closeout_loop_budget_exhaustion states stages (ct_to (ts ! refine)) of
                              Some x \<Rightarrow> Inr (set_candidate refine NotMatched
                                (label @ '' requires refinement, but loop budget exhausted for ''
                                   @ exhaustion_text x) cs1)
                            | None \<Rightarrow> Inr (set_candidate refine Matched
                                (label @ '' requires continued implementation refinement'') cs1))"

section \<open>The truth of the proposal review\<close>

definition read_artifact_json :: "cond_world \<Rightarrow> string \<Rightarrow> json option outcome" where
  "read_artifact_json w a =
     (case cw_output w a of
        Inr (Output content) \<Rightarrow> Done (cw_from_str w content)
      | Inr OrdinaryRun \<Rightarrow>
          bind_outcome (read_artifact_path w a)
            (\<lambda>p. Done (Option.bind p (\<lambda>p. Option.bind (cw_read w p) (cw_from_str w))))
      | _ \<Rightarrow> Done None)"

definition requires_review_summary :: "candidate_transition_evaluation \<Rightarrow> bool" where
  "requires_review_summary c \<longleftrightarrow> list_ex (\<lambda>a. a = ''proposal_review_summary'') (ce_required_artifacts c)"

definition review_summary_truth_conflict ::
  "cond_world \<Rightarrow> candidate_transition_evaluation list \<Rightarrow> string option outcome" where
  "review_summary_truth_conflict w cs =
     (if \<not> list_ex requires_review_summary cs then Done None
      else bind_outcome (read_artifact_json w ''proposal_review_summary'')
        (\<lambda>j. Done (Option.bind j proposal_review_summary_transition_truth_conflict)))"

definition annotate_aggregate_transition_truth_conflict ::
  "string \<Rightarrow> candidate_transition_evaluation list \<Rightarrow> candidate_transition_evaluation list" where
  "annotate_aggregate_transition_truth_conflict d cs =
     map (\<lambda>c. if requires_review_summary c
              then c\<lparr>ce_result := EvaluationError, ce_sanitized_diagnostic := Some d\<rparr> else c) cs"

section \<open>Effects\<close>

record conflict_record =
  cf_run_id :: ident
  cf_current_state_id :: string
  cf_stage_execution_id :: "ident option"
  cf_reason :: workflow_conflict_reason
  cf_status :: workflow_conflict_status
  cf_operator_label :: string
  cf_candidates :: "candidate_transition_evaluation list"
  cf_terminal_failure_reason :: "string option"

datatype engine_effect =
  MarkRunCompleted
  | EnqueueStewardAnalysis
  | EmitRunStatus run_status
  | RecordAdvisoryRejections string string
  | ResolveCurrentConflict string string
  | RecordCursor string string "string option" "string option"
  | CreateStage string
  | UpdateCurrentState string
  | ExpireOverrides string
  | RebuildProjections
  | EnqueueAdvanceRun string string
  | UpsertConflict conflict_record
  | UpdateRunStatus run_status
  | InitiateMediation

text \<open>\<^verbatim>\<open>max_by_key\<close> takes the last of the greatest.\<close>

definition stage_key_le :: "stage_execution \<Rightarrow> stage_execution \<Rightarrow> bool" where
  "stage_key_le a b \<longleftrightarrow>
     sx_iteration a < sx_iteration b \<or> sx_iteration a = sx_iteration b \<and>
     (sx_attempt_number a < sx_attempt_number b \<or> sx_attempt_number a = sx_attempt_number b \<and>
      sx_started_at a \<le> sx_started_at b)"

definition latest_stage_execution_id_for_state :: "stage_execution list \<Rightarrow> string \<Rightarrow> ident option" where
  "latest_stage_execution_id_for_state stages state_id =
     (case filter (\<lambda>s. sx_stage_id s = state_id) stages of
        [] \<Rightarrow> None
      | s # ss \<Rightarrow> Some (sx_id (foldl (\<lambda>a b. if stage_key_le a b then b else a) s ss)))"

definition new_conflict ::
  "ident \<Rightarrow> string \<Rightarrow> stage_execution list \<Rightarrow> candidate_transition_evaluation list
    \<Rightarrow> workflow_conflict_reason option \<Rightarrow> conflict_record" where
  "new_conflict run_id current stages cs reason_override =
     (let reason = (case reason_override of
                      Some r \<Rightarrow> r
                    | None \<Rightarrow> (case classify_workflow_conflict_reason cs of
                                 Some r \<Rightarrow> r | None \<Rightarrow> NoDeclarativeTransitionMatched))
      in \<lparr>cf_run_id = run_id, cf_current_state_id = current,
          cf_stage_execution_id = latest_stage_execution_id_for_state stages current,
          cf_reason = reason, cf_status = initial_workflow_conflict_status reason,
          cf_operator_label = workflow_conflict_operator_label reason, cf_candidates = cs,
          cf_terminal_failure_reason = initial_workflow_conflict_terminal_failure_reason reason\<rparr>)"

text \<open>
  What the world answers while a conflict is recorded: the row the upsert by fingerprint
  stored, the status of the run read back, whether lead mediation is enabled and whether
  it could be initiated; and the recheck of a carried-forward approval.
\<close>

record selection_world =
  sw_cond :: cond_world
  sw_run_found :: bool
  sw_states :: plan_states
  sw_stages :: "stage_execution list"
  sw_upsert :: "conflict_record \<Rightarrow> conflict_record"
  sw_run_status :: "run_status option"
  sw_mediation_enabled :: bool
  sw_try_initiate :: "conflict_record \<Rightarrow> bool"
  sw_validate_transition :: "string \<Rightarrow> string \<Rightarrow> (string, unit) result"

definition conflict_cursor :: "workflow_conflict_status \<Rightarrow> engine_effect" where
  "conflict_cursor s =
     (if s = TerminalUnverifiable then RecordCursor ''terminal_unverifiable'' ''terminal_failure'' None None
      else if s = LeadMediationPending
      then RecordCursor ''lead_mediation_pending'' ''await_mediation_settlement'' None None
      else RecordCursor ''awaiting_conflict_resolution'' ''await_conflict_resolution'' None None)"

definition record_workflow_conflict_and_block ::
  "selection_world \<Rightarrow> string \<Rightarrow> candidate_transition_evaluation list
    \<Rightarrow> workflow_conflict_reason option \<Rightarrow> engine_effect list" where
  "record_workflow_conflict_and_block w current cs reason_override =
     (let c = new_conflict (rv_id (cw_run (sw_cond w))) current (sw_stages w) cs reason_override;
          stored = sw_upsert w c;
          mediate = sw_mediation_enabled w \<and> \<not> is_terminal_or_operator (cf_status stored)
                    \<and> sw_try_initiate w stored
      in [UpsertConflict c]
         @ (case sw_run_status w of
              None \<Rightarrow> []
            | Some r \<Rightarrow> if r = RunBlocked then [] else [UpdateRunStatus RunBlocked, EmitRunStatus RunBlocked])
         @ (if mediate then [InitiateMediation] else [])
         @ [conflict_cursor (if mediate then LeadMediationPending else cf_status stored)])"

definition complete_run :: "engine_effect list" where
  "complete_run = [MarkRunCompleted, EnqueueStewardAnalysis, EmitRunStatus RunCompleted]"

definition matched_indexes :: "candidate_transition_evaluation list \<Rightarrow> nat list" where
  "matched_indexes cs = filter (\<lambda>i. ce_result (cs ! i) = Matched) [0..<length cs]"

definition take_transition :: "selection_world \<Rightarrow> string \<Rightarrow> nat \<Rightarrow> compiled_transition
    \<Rightarrow> (string, engine_effect list) result" where
  "take_transition w current i t =
     (let to = ct_to t; tid = transition_id_for current to i in
      case sw_validate_transition w current to of
        Inl e \<Rightarrow> Inl e
      | Inr _ \<Rightarrow> Inr
          ([RecordAdvisoryRejections tid to, ResolveCurrentConflict tid to,
            RecordCursor ''graph_transition_selected'' ''continue_from_selected_transition'' (Some tid) (Some to)]
           @ (if to = current then [ExpireOverrides to, CreateStage to] else [])
           @ [UpdateCurrentState to, ExpireOverrides to, RebuildProjections, EnqueueAdvanceRun current to]))"

definition select_transition ::
  "selection_world \<Rightarrow> string \<Rightarrow> compiled_state \<Rightarrow> candidate_transition_evaluation list
    \<Rightarrow> (string, engine_effect list) result outcome" where
  "select_transition w current state cs =
     bind_outcome (review_summary_truth_conflict (sw_cond w) cs)
       (\<lambda>conflict. Done
         (case conflict of
            Some d \<Rightarrow>
              Inr (record_workflow_conflict_and_block w current
                (annotate_aggregate_transition_truth_conflict d cs) (Some AggregateTransitionTruthConflicted))
          | None \<Rightarrow>
              (case matched_indexes cs of
                 [] \<Rightarrow>
                   if cs_transitions state = [] \<or> cs_is_end state then Inr complete_run
                   else Inr (record_workflow_conflict_and_block w current cs None)
               | [i] \<Rightarrow> take_transition w current i (cs_transitions state ! i)
               | _ \<Rightarrow> Inr (record_workflow_conflict_and_block w current cs None))))"

definition evaluate_and_transition :: "selection_world \<Rightarrow> string \<Rightarrow> (string, engine_effect list) result outcome" where
  "evaluate_and_transition w current =
     (case sw_states w current of
        None \<Rightarrow> Done (Inr [])
      | Some state \<Rightarrow>
          if \<not> sw_run_found w then Done (Inl (''Run not found: '' @ rv_id (cw_run (sw_cond w))))
          else if cs_is_end state then Done (Inr complete_run)
          else
            bind_outcome
              (evaluate_candidates (sw_cond w) (sw_states w) (sw_stages w) current 0 (cs_transitions state))
              (\<lambda>cs. case apply_implementation_review_refinement_guard (sw_cond w) (sw_states w) (sw_stages w)
                            current (cs_transitions state) cs of
                      Inl e \<Rightarrow> Done (Inl e)
                    | Inr cs' \<Rightarrow> select_transition w current state cs'))"

end
