(* ===== verification/Condition_Properties.thy ===== *)
theory Condition_Properties
  imports Transition_Condition
begin

text \<open>
  What the condition evaluator computes: a five-valued reading of the expression tree in
  which the most severe undecided leaf wins, total on every condition whose operands are
  well formed, exact on integers, and blind to the file system for controlled artifacts.
\<close>

section \<open>Expression trees\<close>

text \<open>The tree the splits of the evaluator build, and the plain Boolean reading of it.\<close>

datatype cond_tree = Leaf string | Conj cond_tree cond_tree | Disj cond_tree cond_tree

function parse_tree :: "string \<Rightarrow> cond_tree" where
  "parse_tree condition =
     (let s = trim_condition condition in
      if s \<in> {''true'', ''false'', [CHR 0x27] @ ''true'' @ [CHR 0x27], [CHR 0x27] @ ''false'' @ [CHR 0x27]}
      then Leaf s
      else case split_connective s '' and '' of
          Some (l, r) \<Rightarrow> Conj (parse_tree l) (parse_tree r)
        | None \<Rightarrow>
            (case split_connective s '' or '' of
               Some (l, r) \<Rightarrow> Disj (parse_tree l) (parse_tree r)
             | None \<Rightarrow> Leaf s))"
  by pat_completeness auto

termination
proof (relation "measure length", goal_cases)
  case 1 then show ?case by simp
qed (auto dest!: split_connective_shorter intro: less_le_trans [OF _ length_trim_condition])

declare parse_tree.simps [simp del]

fun tree_leaves :: "cond_tree \<Rightarrow> string list" where
  "tree_leaves (Leaf s) = [s]"
| "tree_leaves (Conj l r) = tree_leaves l @ tree_leaves r"
| "tree_leaves (Disj l r) = tree_leaves l @ tree_leaves r"

definition evaluate_leaf :: "cond_world \<Rightarrow> string \<Rightarrow> string \<Rightarrow> classified outcome" where
  "evaluate_leaf w state_id s =
     (if s \<in> {''true'', [CHR 0x27] @ ''true'' @ [CHR 0x27]} then Done cc_matched
      else if s \<in> {''false'', [CHR 0x27] @ ''false'' @ [CHR 0x27]} then Done cc_not_matched
      else evaluate_atom w state_id s)"

fun evaluate_tree :: "cond_world \<Rightarrow> string \<Rightarrow> cond_tree \<Rightarrow> classified outcome" where
  "evaluate_tree w state_id (Leaf s) = evaluate_leaf w state_id s"
| "evaluate_tree w state_id (Conj l r) =
     bind_outcome (evaluate_tree w state_id l)
       (\<lambda>a. bind_outcome (evaluate_tree w state_id r) (\<lambda>b. Done (combine_and a b)))"
| "evaluate_tree w state_id (Disj l r) =
     bind_outcome (evaluate_tree w state_id l)
       (\<lambda>a. bind_outcome (evaluate_tree w state_id r) (\<lambda>b. Done (combine_or a b)))"

lemma evaluate_parse:
  "evaluate_condition_classified w state_id c = evaluate_tree w state_id (parse_tree c)"
proof (induction c rule: measure_induct_rule [of length])
  case (less c)
  have sub: "evaluate_condition_classified w state_id l = evaluate_tree w state_id (parse_tree l)"
    "evaluate_condition_classified w state_id r = evaluate_tree w state_id (parse_tree r)"
    if "split_connective (trim_condition c) k = Some (l, r)" "k \<noteq> []" for k l r
    using split_connective_shorter [OF that] length_trim_condition [of c] less.IH by auto
  show ?case
    by (subst evaluate_condition_classified.simps, subst parse_tree.simps)
      (auto simp: Let_def evaluate_leaf_def sub split: option.splits)
qed

section \<open>Severity\<close>

definition undecided :: "candidate_transition_result \<Rightarrow> bool" where
  "undecided r \<longleftrightarrow> r \<in> {EvaluationError, InvalidExpression, MissingInput}"

fun severity :: "candidate_transition_result \<Rightarrow> nat" where
  "severity EvaluationError = 3"
| "severity InvalidExpression = 2"
| "severity MissingInput = 1"
| "severity Matched = 0"
| "severity NotMatched = 0"

lemma severity_undecided: "undecided r \<longleftrightarrow> 0 < severity r"
  by (cases r) (auto simp: undecided_def)

lemma severity_inj: "severity r = severity q \<Longrightarrow> 0 < severity r \<Longrightarrow> r = q"
  by (cases r; cases q) auto

lemma combine_result:
  "cc_result (combine_and a b) =
     (if undecided (cc_result a) \<or> undecided (cc_result b)
      then (if severity (cc_result b) \<le> severity (cc_result a) then cc_result a else cc_result b)
      else if cc_result a = Matched \<and> cc_result b = Matched then Matched else NotMatched)"
  "cc_result (combine_or a b) =
     (if undecided (cc_result a) \<or> undecided (cc_result b)
      then (if severity (cc_result b) \<le> severity (cc_result a) then cc_result a else cc_result b)
      else if cc_result a = Matched \<or> cc_result b = Matched then Matched else NotMatched)"
  by (cases "cc_result a"; cases "cc_result b";
      simp add: combine_and_def combine_or_def combine_with_result_def dominant_result_for_all_def undecided_def)+

fun tree_true :: "(string \<Rightarrow> bool) \<Rightarrow> cond_tree \<Rightarrow> bool" where
  "tree_true v (Leaf s) = v s"
| "tree_true v (Conj l r) = (tree_true v l \<and> tree_true v r)"
| "tree_true v (Disj l r) = (tree_true v l \<or> tree_true v r)"

definition leaf_result :: "cond_world \<Rightarrow> string \<Rightarrow> string \<Rightarrow> candidate_transition_result" where
  "leaf_result w state_id s =
     (case evaluate_leaf w state_id s of Done c \<Rightarrow> cc_result c | _ \<Rightarrow> EvaluationError)"

lemma evaluate_tree_leaves:
  "evaluate_tree w i t = Done c \<Longrightarrow>
     severity (cc_result c) = Max (severity ` leaf_result w i ` set (tree_leaves t))
     \<and> (severity (cc_result c) = 0 \<longrightarrow>
         (cc_result c = Matched \<longleftrightarrow> tree_true (\<lambda>s. leaf_result w i s = Matched) t))"
proof (induction t arbitrary: c)
  case (Leaf s)
  then show ?case by (cases "cc_result c") (auto simp: leaf_result_def)
next
  case (Conj l r)
  then obtain a b where ab: "evaluate_tree w i l = Done a" "evaluate_tree w i r = Done b"
    and c: "c = combine_and a b" by (auto simp: bind_outcome_Done)
  have ne: "severity ` leaf_result w i ` set (tree_leaves t) \<noteq> {}" for t by (induction t) auto
  have m: "Max (severity ` leaf_result w i ` set (tree_leaves (Conj l r))) =
      max (severity (cc_result a)) (severity (cc_result b))"
    using Conj.IH ab ne by (simp add: image_Un Max_Un)
  from Conj.IH(1) [OF ab(1)] Conj.IH(2) [OF ab(2)] show ?case
    unfolding m c by (auto simp: combine_result severity_undecided)
next
  case (Disj l r)
  then obtain a b where ab: "evaluate_tree w i l = Done a" "evaluate_tree w i r = Done b"
    and c: "c = combine_or a b" by (auto simp: bind_outcome_Done)
  have ne: "severity ` leaf_result w i ` set (tree_leaves t) \<noteq> {}" for t by (induction t) auto
  have m: "Max (severity ` leaf_result w i ` set (tree_leaves (Disj l r))) =
      max (severity (cc_result a)) (severity (cc_result b))"
    using Disj.IH ab ne by (simp add: image_Un Max_Un)
  from Disj.IH(1) [OF ab(1)] Disj.IH(2) [OF ab(2)] show ?case
    unfolding m c by (auto simp: combine_result severity_undecided)
qed

section \<open>A world for the witnesses\<close>

definition ex_world :: cond_world where
  "ex_world =
     \<lparr>cw_run = \<lparr>rv_id = ''r'', rv_workspace_root = ''/w'', rv_chainworks_meta_root = Some ''/m'',
                rv_artifact_root = ''/a''\<rparr>,
      cw_artifact_paths = (\<lambda>_. None),
      cw_variables = (\<lambda>x. if x = ''a'' then Some (JString ''x'') else None),
      cw_store = \<lparr>as_generations = [], as_active = [], as_claims = [], as_overrides = [], as_closeout = []\<rparr>,
      cw_fault = None,
      cw_authorizes = (\<lambda>_ _. Inr None), cw_approvals = Inr [], cw_output = (\<lambda>_. Inr OrdinaryRun),
      cw_self_assessment = None, cw_env = (\<lambda>_. None), cw_exists = (\<lambda>_. False), cw_read = (\<lambda>_. None),
      cw_from_str = (\<lambda>_. None), cw_to_string = (\<lambda>_. []), cw_runtime = MultiThread\<rparr>"

lemma ex_world_plain: "plain (cw_env ex_world) (rv_chainworks_meta_root (cw_run ex_world))"
  by (simp add: ex_world_def plain_def)

text \<open>
  C23: a condition that evaluates reads its expression tree with five values: the most
  severe undecided leaf decides (there is no short circuit, so a missing input on one side
  of an \<^verbatim>\<open>or\<close> blocks even when the other side holds), and it matches exactly when every leaf
  is decided and the Boolean formula of the matching leaves is true.
\<close>

theorem condition_reading:
  assumes "evaluate_condition_classified w i c = Done r"
  shows "severity (cc_result r) = Max (severity ` leaf_result w i ` set (tree_leaves (parse_tree c)))
    \<and> (cc_result r = Matched \<longleftrightarrow>
        list_all (\<lambda>s. \<not> undecided (leaf_result w i s)) (tree_leaves (parse_tree c))
        \<and> tree_true (\<lambda>s. leaf_result w i s = Matched) (parse_tree c))"
proof -
  let ?S = "severity ` leaf_result w i ` set (tree_leaves (parse_tree c))"
  have e: "severity (cc_result r) = Max ?S"
    "severity (cc_result r) = 0 \<Longrightarrow> cc_result r = Matched \<longleftrightarrow> tree_true (\<lambda>s. leaf_result w i s = Matched) (parse_tree c)"
    using evaluate_tree_leaves assms by (auto simp: evaluate_parse)
  have "tree_leaves t \<noteq> []" for t by (induction t) auto
  then have "?S \<noteq> {}" "finite ?S" by auto
  then have "Max ?S = 0 \<longleftrightarrow> (\<forall>n \<in> ?S. n = 0)" by (metis Max_ge Max_in le_zero_eq)
  then have "severity (cc_result r) = 0 \<longleftrightarrow>
      list_all (\<lambda>s. \<not> undecided (leaf_result w i s)) (tree_leaves (parse_tree c))"
    by (auto simp: e(1) list_all_iff severity_undecided)
  moreover have "cc_result r = Matched \<Longrightarrow> severity (cc_result r) = 0" by simp
  ultimately show ?thesis using e by auto
qed

theorem condition_reading_witness:
  "\<exists>r. evaluate_condition_classified ex_world ''s'' ''vars.a == x or exists(tests_result_v1)'' = Done r
     \<and> severity (cc_result r) = Max (severity ` leaf_result ex_world ''s'' `
         set (tree_leaves (parse_tree ''vars.a == x or exists(tests_result_v1)'')))
     \<and> cc_result r = MissingInput"
proof -
  have "(case evaluate_condition_classified ex_world ''s'' ''vars.a == x or exists(tests_result_v1)'' of
      Done r \<Rightarrow> cc_result r = MissingInput | _ \<Rightarrow> False)"
    by code_simp
  then obtain r where r: "evaluate_condition_classified ex_world ''s'' ''vars.a == x or exists(tests_result_v1)'' = Done r"
    "cc_result r = MissingInput"
    by (auto split: outcome.splits)
  from condition_reading [OF r(1)] r show ?thesis by blast
qed

section \<open>Evaluation returns\<close>

lemma resolved_path_returns:
  assumes "plain (cw_env w) (rv_chainworks_meta_root (cw_run w))"
  shows "returns (resolved_artifact_path w t)"
  using expand_terminates [OF assms, of t]
  by (auto simp: resolved_artifact_path_def resolve_path_template_def of_loop_def)

lemma read_artifact_field_returns:
  assumes "plain (cw_env w) (rv_chainworks_meta_root (cw_run w))"
  shows "returns (read_artifact_field w a f)"
proof -
  have "returns (read_artifact_path w a)"
    using resolved_path_returns [OF assms]
    by (auto simp: read_artifact_path_def intro!: returns_bindI split: option.splits)
  then show ?thesis
    by (auto simp: read_artifact_field_def intro!: returns_bindI split: sum.splits output_resolution.splits)
qed

definition lone_quote :: "string \<Rightarrow> bool" where
  "lone_quote s \<longleftrightarrow> trim s \<in> {[CHR 0x27], [CHR 0x22]}"

lemma literal_returns: "s \<notin> {[CHR 0x27], [CHR 0x22]} \<Longrightarrow> returns (literal_value s)"
proof -
  assume "s \<notin> {[CHR 0x27], [CHR 0x22]}"
  then have "\<not> ((quoted CHR 0x27 s \<or> quoted CHR 0x22 s) \<and> length s < 2)"
    by (cases s; cases "tl s") (auto simp: quoted_def starts_with_def)
  then show ?thesis by (auto simp: literal_value_def split: option.splits f64.splits)
qed

lemma resolve_value_returns:
  assumes "plain (cw_env w) (rv_chainworks_meta_root (cw_run w))" "\<not> lone_quote s"
  shows "returns (resolve_value w s)"
proof -
  have l: "returns (literal_value (trim s))" using assms(2) literal_returns by (simp add: lone_quote_def)
  obtain v where v: "read_artifact_field w a f = Done (v a f)" for a f
    using read_artifact_field_returns [OF assms(1)] unfolding returns_iff by metis
  show ?thesis
    using l by (auto simp: resolve_value_def Let_def v split: option.splits)
qed

lemma exists_returns:
  assumes "plain (cw_env w) (rv_chainworks_meta_root (cw_run w))"
  shows "returns (evaluate_artifact_exists_classified w a)"
proof -
  obtain p where "resolved_artifact_path w t = Done (p t)" for t
    using resolved_path_returns [OF assms] unfolding returns_iff by metis
  then show ?thesis
    by (auto simp: evaluate_artifact_exists_classified_def Let_def
        split: sum.splits option.splits output_resolution.splits canonical_contract_field.splits)
qed

lemma field_comparison_returns:
  assumes "plain (cw_env w) (rv_chainworks_meta_root (cw_run w))" "\<not> lone_quote rhs"
  shows "returns (evaluate_artifact_field_comparison_classified w a f oper rhs)"
proof -
  obtain v where v: "resolve_value w rhs = Done v"
    using resolve_value_returns [OF assms] by (auto simp: returns_iff)
  obtain x where x: "read_artifact_field w a f = Done x"
    using read_artifact_field_returns [OF assms(1)] by (auto simp: returns_iff)
  obtain e where e: "evaluate_artifact_exists_classified w a = Done e"
    using exists_returns [OF assms(1)] by (auto simp: returns_iff)
  show ?thesis
    by (auto simp: evaluate_artifact_field_comparison_classified_def compared_def Let_def v x e
        split: sum.splits option.splits canonical_contract_field.splits)
qed

definition operands_ok :: "string \<Rightarrow> bool" where
  "operands_ok s \<longleftrightarrow>
     (case find_comparison comparison_operators s of
        None \<Rightarrow> True
      | Some (l, _, r) \<Rightarrow> \<not> lone_quote l \<and> \<not> lone_quote r)"

lemma leaf_returns:
  assumes "plain (cw_env w) (rv_chainworks_meta_root (cw_run w))" "operands_ok s"
  shows "returns (evaluate_leaf w i s)"
  using assms(2) resolve_value_returns [OF assms(1)] field_comparison_returns [OF assms(1)] exists_returns [OF assms(1)]
  by (auto simp: evaluate_leaf_def evaluate_atom_def operands_ok_def intro!: returns_bindI
      split: option.splits prod.splits)

text \<open>
  The evaluation of a condition returns, with neither a panic nor an endless loop, in
  every world whose path variables carry no pattern and for every condition whose
  comparisons have no lone quote as an operand.
\<close>

theorem condition_evaluation_returns:
  assumes "plain (cw_env w) (rv_chainworks_meta_root (cw_run w))"
    and "list_all operands_ok (tree_leaves (parse_tree c))"
  shows "\<exists>r. evaluate_condition_classified w i c = Done r"
proof -
  have "list_all operands_ok (tree_leaves t) \<Longrightarrow> returns (evaluate_tree w i t)" for t
  proof (induction t)
    case (Leaf s)
    then show ?case using leaf_returns [OF assms(1)] by simp
  qed (auto intro!: returns_bindI)
  with assms(2) show ?thesis by (simp add: evaluate_parse flip: returns_iff)
qed

theorem condition_evaluation_returns_witness:
  "\<exists>r. evaluate_condition_classified ex_world ''s'' ''vars.a == x and exists(b)'' = Done r"
proof -
  have "list_all operands_ok (tree_leaves (parse_tree ''vars.a == x and exists(b)''))" by code_simp
  from condition_evaluation_returns [OF ex_world_plain this] show ?thesis .
qed

text \<open>
  A lone quote on the right of a comparison panics in every world: the text starts and
  ends with the quote, and the slice between its ends does not exist.
\<close>

theorem lone_quote_panics:
  "evaluate_condition_classified w i (''vars.a == '' @ [CHR 0x27]) = Panics"
proof -
  let ?c = "''vars.a == '' @ [CHR 0x27]"
  have t: "trim_condition ?c = ?c" "split_connective ?c '' and '' = None" "split_connective ?c '' or '' = None"
    "find_comparison comparison_operators ?c = Some (''vars.a'', CEq, [CHR 0x27])"
    "artifact_field_ref ''vars.a'' = None" "starts_with ?c ''exists('' = False"
    by code_simp+
  have v: "resolve_value w ''vars.a'' = Done (case cw_variables w ''a'' of None \<Rightarrow> JNull | Some v \<Rightarrow> v)"
  proof -
    have "trim ''vars.a'' = ''vars.a''" "strip_prefix ''vars.a'' ''vars.'' = Some ''a''" by code_simp+
    then show ?thesis by (simp add: resolve_value_def)
  qed
  have q: "resolve_value w [CHR 0x27] = Panics"
  proof -
    have "trim [CHR 0x27] = [CHR 0x27]" "strip_prefix [CHR 0x27] ''vars.'' = None"
      "split_once CHR ''.'' [CHR 0x27] = None" "literal_value [CHR 0x27] = Panics"
      by code_simp+
    then show ?thesis by (simp add: resolve_value_def)
  qed
  show ?thesis
    by (subst evaluate_condition_classified.simps)
      (use t in \<open>simp add: Let_def evaluate_atom_def v q\<close>)
qed

section \<open>Numbers\<close>

fun int_compare :: "comp_op \<Rightarrow> int \<Rightarrow> int \<Rightarrow> bool" where
  "int_compare CEq a b = (a = b)"
| "int_compare CNe a b = (a \<noteq> b)"
| "int_compare CLt a b = (a < b)"
| "int_compare CLe a b = (a \<le> b)"
| "int_compare CGt a b = (a > b)"
| "int_compare CGe a b = (a \<ge> b)"

lemma apply_comparison_int:
  assumes "\<bar>a\<bar> < 2 ^ 52" "\<bar>b\<bar> < 2 ^ 52"
  shows "apply_comparison (JInt a) oper (JInt b) = int_compare oper a b"
proof -
  have "f64_round (of_int a) = Fin (of_int a)" "f64_round (of_int b) = Fin (of_int b)"
    using assms by (auto intro!: f64_round_int)
  with f64_close_int [OF assms] show ?thesis
    by (cases oper) (simp_all add: apply_comparison_def to_f64_def compare_f64_def)
qed

lemma bits_eq: "2 ^ k \<le> n \<Longrightarrow> n < 2 ^ Suc k \<Longrightarrow> bits n = Suc k"
proof -
  assume n: "2 ^ k \<le> n" "n < 2 ^ Suc k"
  have "bits n \<le> Suc k" by (rule bits_le [OF n(2)])
  moreover have "k < bits n"
  proof (rule ccontr)
    assume "\<not> k < bits n"
    then have "(2::nat) ^ bits n \<le> 2 ^ k" by (simp add: power_increasing)
    with bits_bound(1) [of n] n(1) show False by linarith
  qed
  ultimately show ?thesis by simp
qed

text \<open>Integers from 2 to the 53 on share an \<^verbatim>\<open>f64\<close> with their neighbour.\<close>

lemma ulp_exp_54:
  assumes "2 ^ 53 \<le> n" "n < 2 ^ 54"
  shows "ulp_exp (of_nat n) = 1"
proof -
  have "quotient_of (of_nat n) = (int n, 1)" using quotient_of_int [of "int n"] by (simp add: of_int_def)
  moreover have "bits n = 54" using bits_eq [of 53 n] assms by simp
  moreover have "bits (Suc 0) = 1" by (simp add: bits.simps)
  moreover have "(of_nat (2 ^ 53) :: rat) \<le> of_nat n" by (rule of_nat_mono [OF assms(1)])
  ultimately show ?thesis by (simp add: ulp_exp_def pow2_def)
qed

lemma f64_round_2_53: "f64_round (of_int (2 ^ 53)) = Fin (2 ^ 53)" "f64_round (of_int (2 ^ 53 + 1)) = Fin (2 ^ 53)"
proof -
  have u: "ulp_exp 9007199254740992 = 1" "ulp_exp 9007199254740993 = 1"
    using ulp_exp_54 [of 9007199254740992] ulp_exp_54 [of 9007199254740993] by simp_all
  have big: "(9007199254740992 :: rat) < 2 ^ 1024" by simp
  have f: "\<lfloor>9007199254740993 / 2 :: rat\<rfloor> = 4503599627370496" by (simp add: floor_eq_iff)
  have r: "round_even (9007199254740992 / pow2 1) = 4503599627370496"
    "round_even (9007199254740993 / pow2 1) = 4503599627370496"
    using round_even_of_int [of 4503599627370496] f by (simp_all add: pow2_def round_even_def Let_def)
  show "f64_round (of_int (2 ^ 53)) = Fin (2 ^ 53)" "f64_round (of_int (2 ^ 53 + 1)) = Fin (2 ^ 53)"
    using big by (simp_all add: f64_round_def Let_def u r) (simp_all add: pow2_def)
qed

text \<open>
  Comparisons of integers go through \<^verbatim>\<open>f64\<close>. They are exact for integers of absolute
  value below 2 to the 52, and not beyond: 2 to the 53 and its successor compare as equal.
\<close>

theorem integer_comparison_bounds:
  "(\<bar>a\<bar> < 2 ^ 52 \<and> \<bar>b\<bar> < 2 ^ 52 \<longrightarrow> apply_comparison (JInt a) oper (JInt b) = int_compare oper a b)
   \<and> apply_comparison (JInt (2 ^ 53)) CEq (JInt (2 ^ 53 + 1))"
proof
  show "\<bar>a\<bar> < 2 ^ 52 \<and> \<bar>b\<bar> < 2 ^ 52 \<longrightarrow> apply_comparison (JInt a) oper (JInt b) = int_compare oper a b"
    using apply_comparison_int by blast
  have "f64_lt (f64_abs (f64_sub (Fin (2 ^ 53)) (Fin (2 ^ 53)))) f64_epsilon"
    by (simp add: f64_sub_def f64_round_def f64_epsilon_def)
  then show "apply_comparison (JInt (2 ^ 53)) CEq (JInt (2 ^ 53 + 1))"
    unfolding apply_comparison_def to_f64_def by (simp only: json.case f64_round_2_53) (simp add: compare_f64_def)
qed

theorem integer_comparison_bounds_witness:
  "apply_comparison (JInt 3) CLt (JInt 4) \<and> apply_comparison (JInt (2 ^ 53)) CEq (JInt (2 ^ 53 + 1))"
  using integer_comparison_bounds [of 3 4 CLt] by simp

section \<open>Controlled artifacts\<close>

text \<open>Two worlds that differ in nothing but what files and provider outputs hold.\<close>

definition same_database :: "cond_world \<Rightarrow> cond_world \<Rightarrow> bool" where
  "same_database w w' \<longleftrightarrow>
     cw_run w' = cw_run w \<and> cw_variables w' = cw_variables w \<and> cw_store w' = cw_store w
     \<and> cw_fault w' = cw_fault w \<and> cw_self_assessment w' = cw_self_assessment w \<and> cw_runtime w' = cw_runtime w"

lemma self_assessment_field_same:
  "same_database w w' \<Longrightarrow>
     active_implementation_self_assessment_summary_field w' = active_implementation_self_assessment_summary_field w"
  by (simp add: fun_eq_iff active_implementation_self_assessment_summary_field_def same_database_def)

lemma resolve_value_same:
  assumes "same_database w w'" "CHR ''.'' \<notin> set (trim rhs) \<or> starts_with (trim rhs) ''vars.''"
  shows "resolve_value w' rhs = resolve_value w rhs"
proof -
  have "split_once CHR ''.'' (trim rhs) = None" if "CHR ''.'' \<notin> set (trim rhs)"
  proof -
    from that have "\<not> sublist ''.'' (trim rhs)" by (auto simp: sublist_def)
    then show ?thesis by (simp add: split_once_def flip: find_sub_None)
  qed
  with assms show ?thesis
    by (auto simp: resolve_value_def Let_def same_database_def strip_prefix_def starts_with_def)
qed

lemma dimension_field_controlled [simp]: "dimension_field t d c f \<noteq> UncontrolledAlias"
  by (simp add: dimension_field_def split: option.splits)

lemma if_neq: "x \<noteq> z \<Longrightarrow> y \<noteq> z \<Longrightarrow> (if b then x else y) \<noteq> z"
  by simp

lemma generation_field_controlled: "generation_field g c f \<noteq> UncontrolledAlias"
  unfolding generation_field_def Let_def bool_dimension_field_def string_dimension_field_def
    u64_dimension_field_def json_dimension_field_def
  by (intro if_neq) simp_all

lemma p077_controlled: "p077_canonical_field_result st r c f \<noteq> UncontrolledAlias"
  by (simp add: p077_canonical_field_result_def split: option.splits)

lemma controlled_lookup:
  "contract_id_for_alias a = Some c \<Longrightarrow> canonical_contract_field_result ft st r a f \<noteq> Inr UncontrolledAlias"
  using generation_field_controlled p077_controlled
  by (simp add: canonical_contract_field_result_def split: option.splits)

text \<open>
  A condition on a field of a controlled artifact, compared with a literal or a
  variable, depends on the database alone: artifact files, provider outputs, path templates
  and the environment cannot change its result.
\<close>

theorem controlled_field_ignores_files:
  assumes "contract_id_for_alias a \<noteq> None" "same_database w w'"
    and "CHR ''.'' \<notin> set (trim rhs) \<or> starts_with (trim rhs) ''vars.''"
  shows "evaluate_artifact_field_comparison_classified w' a f oper rhs
    = evaluate_artifact_field_comparison_classified w a f oper rhs"
proof -
  from assms(1) obtain c where c: "contract_id_for_alias a = Some c" by blast
  then have "canonical_contract_field_result ft st r a f \<noteq> Inr UncontrolledAlias" for ft st r
    by (rule controlled_lookup)
  then have u: "canonical_contract_field_result (cw_fault w) (cw_store w) (rv_id (cw_run w)) a f \<noteq> Inr UncontrolledAlias" .
  have s: "compared w' a v oper rhs = compared w a v oper rhs" for v
    by (simp add: compared_def resolve_value_same [OF assms(2,3)])
  have d: "cw_run w' = cw_run w" "cw_store w' = cw_store w" "cw_fault w' = cw_fault w"
    using assms(2) by (simp_all add: same_database_def)
  note defs = evaluate_artifact_field_comparison_classified_def Let_def d s c self_assessment_field_same [OF assms(2)]
  show ?thesis
  proof (cases "canonical_contract_field_result (cw_fault w) (cw_store w) (rv_id (cw_run w)) a f")
    case (Inr x)
    with u show ?thesis by (cases x) (simp_all add: defs split: option.split)
  qed (simp add: defs)
qed

theorem controlled_field_ignores_files_witness:
  "evaluate_artifact_field_comparison_classified (ex_world\<lparr>cw_read := (\<lambda>_. Some ''pass'')\<rparr>)
      ''docs_report'' ''status'' CEq ''pass''
   = evaluate_artifact_field_comparison_classified ex_world ''docs_report'' ''status'' CEq ''pass''"
proof (rule controlled_field_ignores_files)
  show "contract_id_for_alias ''docs_report'' \<noteq> None" by (simp add: contract_id_for_alias_def)
  show "same_database ex_world (ex_world\<lparr>cw_read := (\<lambda>_. Some ''pass'')\<rparr>)" by (simp add: same_database_def)
  have "CHR ''.'' \<notin> set (trim ''pass'')" by code_simp
  then show "CHR ''.'' \<notin> set (trim ''pass'') \<or> starts_with (trim ''pass'') ''vars.''" ..
qed

end
