(* ===== verification/Selection_Properties.thy ===== *)
theory Selection_Properties
  imports Transition_Selection Condition_Properties
begin

text \<open>
  What the choice of the next state promises: every evaluation makes one decision, a state
  is entered only for the one candidate that matches and within its loop budget, and a
  loop budget bounds the iterations of a state.
\<close>

section \<open>Candidates after the guards\<close>

lemma evaluate_candidates_length:
  "evaluate_candidates w states stages current i ts = Done cs \<Longrightarrow> length cs = length ts"
  by (induction ts arbitrary: i cs) (auto simp: bind_outcome_Done)

text \<open>Within budget: a candidate that matches leads to a state whose budget is not spent.\<close>

definition within_budget ::
  "plan_states \<Rightarrow> stage_execution list \<Rightarrow> compiled_transition list \<Rightarrow> candidate_transition_evaluation list \<Rightarrow> bool" where
  "within_budget states stages ts cs \<longleftrightarrow>
     length cs = length ts \<and>
     (\<forall>i < length cs. ce_result (cs ! i) = Matched \<longrightarrow>
        closeout_loop_budget_exhaustion states stages (ct_to (ts ! i)) = None)"

lemma within_budget_Cons:
  "within_budget states stages (t # ts) (c # cs) \<longleftrightarrow>
     (ce_result c = Matched \<longrightarrow> closeout_loop_budget_exhaustion states stages (ct_to t) = None)
     \<and> within_budget states stages ts cs"
  unfolding within_budget_def by (auto simp: less_Suc_eq_0_disj)

lemma evaluate_candidates_within_budget:
  "evaluate_candidates w states stages current i ts = Done cs \<Longrightarrow> within_budget states stages ts cs"
proof (induction ts arbitrary: i cs)
  case Nil
  then show ?case by (simp add: within_budget_def)
next
  case (Cons t ts)
  then obtain e es where "cs = apply_loop_budget states stages t e # es" "within_budget states stages ts es"
    by (auto simp: bind_outcome_Done)
  then show ?case
    by (auto simp: within_budget_Cons apply_loop_budget_def split: if_splits option.splits)
qed

lemma set_candidate_simps [simp]: "length (set_candidate i r d cs) = length cs"
  by (simp add: set_candidate_def)

lemma set_candidate_result:
  "j < length cs \<Longrightarrow> ce_result (set_candidate i r d cs ! j) = (if j = i then r else ce_result (cs ! j))"
  by (simp add: set_candidate_def nth_list_update)

lemma set_candidate_within_budget:
  assumes "within_budget states stages ts cs"
    and "r = Matched \<Longrightarrow> closeout_loop_budget_exhaustion states stages (ct_to (ts ! i)) = None"
  shows "within_budget states stages ts (set_candidate i r d cs)"
  using assms unfolding within_budget_def by (auto simp: set_candidate_result split: if_splits)

lemma guard_within_budget:
  assumes "within_budget states stages ts cs"
    and "apply_implementation_review_refinement_guard w states stages current ts cs = Inr cs'"
  shows "within_budget states stages ts cs'"
  using assms
  by (auto simp: apply_implementation_review_refinement_guard_def Let_def
      intro!: set_candidate_within_budget split: if_splits option.splits sum.splits)

lemma position_Some: "position P xs = Some i \<Longrightarrow> i < length xs \<and> P (xs ! i)"
  by (induction xs arbitrary: i) (auto split: if_splits)

lemma position_unique:
  "length (filter P xs) \<le> 1 \<Longrightarrow> i < length xs \<Longrightarrow> P (xs ! i) \<Longrightarrow> position P xs = Some i"
proof (induction xs arbitrary: i)
  case (Cons x xs)
  show ?case
  proof (cases i)
    case 0
    with Cons.prems show ?thesis by simp
  next
    case (Suc j)
    then have "\<not> P x" using Cons.prems nth_mem[of j xs] by (auto simp: filter_empty_conv)
    with Cons Suc show ?thesis by simp
  qed
qed simp

section \<open>Decisions\<close>

text \<open>The three things an evaluation can decide.\<close>

fun enters :: "engine_effect \<Rightarrow> bool" where
  "enters (UpdateCurrentState _) = True"
| "enters _ = False"

fun completes :: "engine_effect \<Rightarrow> bool" where
  "completes MarkRunCompleted = True"
| "completes _ = False"

fun conflicts :: "engine_effect \<Rightarrow> bool" where
  "conflicts (UpsertConflict _) = True"
| "conflicts _ = False"

definition decisions :: "engine_effect list \<Rightarrow> engine_effect list" where
  "decisions es = filter (\<lambda>e. enters e \<or> completes e \<or> conflicts e) es"

lemma conflict_cursor_plain [simp]: "\<not> enters (conflict_cursor s)" "\<not> completes (conflict_cursor s)" "\<not> conflicts (conflict_cursor s)"
  by (simp_all add: conflict_cursor_def)

lemma decisions_block:
  "decisions (record_workflow_conflict_and_block w current cs r) =
     [UpsertConflict (new_conflict (rv_id (cw_run (sw_cond w))) current (sw_stages w) cs r)]"
  by (simp add: record_workflow_conflict_and_block_def decisions_def Let_def split: option.splits)

lemma decisions_complete [simp]: "decisions complete_run = [MarkRunCompleted]"
  by (simp add: complete_run_def decisions_def)

lemma decisions_take:
  "take_transition w current i t = Inr es \<Longrightarrow>
     decisions es = [UpdateCurrentState (ct_to t)] \<and> sw_validate_transition w current (ct_to t) = Inr ()"
  by (auto simp: take_transition_def decisions_def Let_def split: sum.splits)

lemma matched_indexes_set: "i \<in> set (matched_indexes cs) \<longleftrightarrow> i < length cs \<and> ce_result (cs ! i) = Matched"
  by (auto simp: matched_indexes_def)

lemma matched_indexes_classify:
  "classify_workflow_conflict_reason cs = None \<longleftrightarrow> length (matched_indexes cs) = 1"
proof -
  have "length (matched_indexes cs) = length (filter (\<lambda>c. ce_result c = Matched) cs)"
    unfolding matched_indexes_def
    by (metis (mono_tags, lifting) filter_map comp_def length_map map_nth filter_cong)
  then show ?thesis by (simp add: classify_None)
qed

lemma matched_indexes_single:
  assumes "matched_indexes cs = [i]"
  shows "i < length cs" "ce_result (cs ! i) = Matched"
    "\<And>j. j < length cs \<Longrightarrow> ce_result (cs ! j) = Matched \<Longrightarrow> j = i"
  using assms matched_indexes_set[of _ cs] by auto

text \<open>The four ways an evaluation of a state that is not an end ends.\<close>

lemma select_transition_cases:
  assumes "select_transition w current state cs = Done (Inr es)"
  obtains (truth) d where "es = record_workflow_conflict_and_block w current
              (annotate_aggregate_transition_truth_conflict d cs) (Some AggregateTransitionTruthConflicted)"
      "list_ex requires_review_summary cs"
  | (finish) "matched_indexes cs = []" "cs_transitions state = [] \<or> cs_is_end state" "es = complete_run"
  | (conflict) "length (matched_indexes cs) \<noteq> 1" "es = record_workflow_conflict_and_block w current cs None"
  | (move) i where "matched_indexes cs = [i]" "take_transition w current i (cs_transitions state ! i) = Inr es"
proof -
  obtain c where c: "review_summary_truth_conflict (sw_cond w) cs = Done c"
    using assms by (auto simp: select_transition_def bind_outcome_Done)
  show thesis
  proof (cases c)
    case (Some d)
    then have "list_ex requires_review_summary cs"
      using c by (auto simp: review_summary_truth_conflict_def split: if_splits)
    moreover have "es = record_workflow_conflict_and_block w current
        (annotate_aggregate_transition_truth_conflict d cs) (Some AggregateTransitionTruthConflicted)"
      using assms c Some by (simp add: select_transition_def)
    ultimately show ?thesis by (rule truth[rotated])
  next
    case None
    then show ?thesis
      using assms c finish conflict move
      by (cases "matched_indexes cs" rule: remdups_adj.cases)
        (auto simp: select_transition_def matched_indexes_def split: if_splits)
  qed
qed

lemma evaluate_and_transition_cases:
  assumes "evaluate_and_transition w current = Done (Inr es)" "sw_states w current = Some state"
  obtains (ended) "cs_is_end state" "es = complete_run"
  | (evaluated) cs cs' where "\<not> cs_is_end state"
      "evaluate_candidates (sw_cond w) (sw_states w) (sw_stages w) current 0 (cs_transitions state) = Done cs"
      "apply_implementation_review_refinement_guard (sw_cond w) (sw_states w) (sw_stages w) current
         (cs_transitions state) cs = Inr cs'"
      "select_transition w current state cs' = Done (Inr es)"
proof (cases "cs_is_end state")
  case True
  then show ?thesis using assms ended by (auto simp: evaluate_and_transition_def split: if_splits)
next
  case False
  with assms obtain cs where cs:
    "evaluate_candidates (sw_cond w) (sw_states w) (sw_stages w) current 0 (cs_transitions state) = Done cs"
    by (auto simp: evaluate_and_transition_def bind_outcome_Done split: if_splits)
  with False assms show ?thesis
    using evaluated[OF False cs]
    by (cases "apply_implementation_review_refinement_guard (sw_cond w) (sw_states w) (sw_stages w) current
         (cs_transitions state) cs") (auto simp: evaluate_and_transition_def split: if_splits)
qed

lemma guard_length:
  "apply_implementation_review_refinement_guard w states stages current ts cs = Inr cs' \<Longrightarrow> length cs' = length cs"
  by (auto simp: apply_implementation_review_refinement_guard_def Let_def
      split: if_splits option.splits sum.splits)

lemma decisions_mem:
  assumes "decisions es = [d]"
  shows "e \<in> set es \<Longrightarrow> enters e \<or> completes e \<or> conflicts e \<Longrightarrow> e = d"
proof -
  assume "e \<in> set es" "enters e \<or> completes e \<or> conflicts e"
  then have "e \<in> set (decisions es)" by (simp add: decisions_def)
  then show "e = d" using assms by simp
qed

lemma evaluate_and_transition_state:
  assumes "evaluate_and_transition w current = Done (Inr es)" "e \<in> set es"
  obtains state where "sw_states w current = Some state"
  using assms by (cases "sw_states w current") (auto simp: evaluate_and_transition_def)

lemma annotate_marks:
  assumes "x \<in> set cs" "requires_review_summary x"
  shows "\<exists>y \<in> set (annotate_aggregate_transition_truth_conflict d cs).
           requires_review_summary y \<and> ce_result y = EvaluationError"
proof (rule bexI)
  let ?y = "x\<lparr>ce_result := EvaluationError, ce_sanitized_diagnostic := Some d\<rparr>"
  show "requires_review_summary ?y \<and> ce_result ?y = EvaluationError"
    using assms(2) by (simp add: requires_review_summary_def)
  show "?y \<in> set (annotate_aggregate_transition_truth_conflict d cs)"
    using assms unfolding annotate_aggregate_transition_truth_conflict_def by force
qed

lemma block_enters_nothing: "UpdateCurrentState to \<notin> set (record_workflow_conflict_and_block w current cs r)"
  using decisions_mem[OF decisions_block, of "UpdateCurrentState to"] by auto

text \<open>An entered state is the target of the one candidate that still matches after the guards.\<close>

lemma entered_state_candidate:
  assumes "evaluate_and_transition w current = Done (Inr es)" "UpdateCurrentState to \<in> set es"
    "sw_states w current = Some state"
  obtains cs cs' i where "\<not> cs_is_end state"
    "evaluate_candidates (sw_cond w) (sw_states w) (sw_stages w) current 0 (cs_transitions state) = Done cs"
    "apply_implementation_review_refinement_guard (sw_cond w) (sw_states w) (sw_stages w) current
       (cs_transitions state) cs = Inr cs'"
    "matched_indexes cs' = [i]" "i < length (cs_transitions state)" "ct_to (cs_transitions state ! i) = to"
    "sw_validate_transition w current to = Inr ()"
proof (cases rule: evaluate_and_transition_cases[OF assms(1,3)])
  case 1
  then show ?thesis using assms(2) by (simp add: complete_run_def)
next
  case (2 cs cs')
  have len: "length cs' = length (cs_transitions state)"
    using 2 evaluate_candidates_length guard_length by metis
  from 2(4) show ?thesis
  proof (cases rule: select_transition_cases)
    case (truth d)
    then show ?thesis using block_enters_nothing assms(2) by blast
  next
    case finish
    then show ?thesis using assms(2) by (simp add: complete_run_def)
  next
    case conflict
    then show ?thesis using block_enters_nothing assms(2) by blast
  next
    case (move i)
    note taken = decisions_take[OF move(2)]
    then have "UpdateCurrentState to = UpdateCurrentState (ct_to (cs_transitions state ! i))"
      using decisions_mem assms(2) by (metis enters.simps(1))
    then show ?thesis
      using that[OF 2(1-3) move(1)] matched_indexes_single(1)[OF move(1)] len taken by simp
  qed
qed

section \<open>Properties\<close>

text \<open>
  C20: an evaluation of a state that returns makes exactly one decision: it completes the run,
  enters one state or records one conflict. It completes the run exactly when the state is an
  end or has no transitions, and a recorded conflict leaves the run blocked.
\<close>

theorem decision_is_exclusive:
  assumes "evaluate_and_transition w current = Done (Inr es)"
    and "sw_states w current = Some state"
  shows "\<exists>d. decisions es = [d]
      \<and> (d = MarkRunCompleted \<longleftrightarrow> cs_is_end state \<or> cs_transitions state = [])
      \<and> (\<forall>c r. d = UpsertConflict c \<longrightarrow> sw_run_status w = Some r \<longrightarrow> r \<noteq> RunBlocked \<longrightarrow>
           UpdateRunStatus RunBlocked \<in> set es)"
proof (cases rule: evaluate_and_transition_cases[OF assms])
  case 1
  then show ?thesis by simp
next
  case (2 cs cs')
  have len: "length cs' = length (cs_transitions state)"
    using 2 evaluate_candidates_length guard_length by metis
  have blocked: "\<forall>r. sw_run_status w = Some r \<longrightarrow> r \<noteq> RunBlocked \<longrightarrow>
       UpdateRunStatus RunBlocked \<in> set (record_workflow_conflict_and_block w current ds x)" for ds x
    by (auto simp: record_workflow_conflict_and_block_def Let_def)
  from 2(4) show ?thesis
  proof (cases rule: select_transition_cases)
    case (truth d)
    then have "cs' \<noteq> []" by auto
    with truth len 2(1) show ?thesis using blocked by (auto simp: decisions_block)
  next
    case finish
    then show ?thesis using 2(1) by simp
  next
    case conflict
    have "cs_transitions state \<noteq> []"
    proof
      assume "cs_transitions state = []"
      with len have "cs' = []" by simp
      with 2(4) conflict(2) \<open>cs_transitions state = []\<close> show False
        by (auto simp: select_transition_def matched_indexes_def review_summary_truth_conflict_def
            complete_run_def record_workflow_conflict_and_block_def Let_def)
    qed
    with conflict 2(1) show ?thesis using blocked by (auto simp: decisions_block)
  next
    case (move i)
    have "cs_transitions state \<noteq> []" using matched_indexes_single(1)[OF move(1)] len by auto
    then show ?thesis using decisions_take[OF move(2)] 2(1) by simp
  qed
qed

lemma single_match_has_budget:
  assumes "evaluate_candidates cw states stages current n ts = Done cs"
    and "apply_implementation_review_refinement_guard cw states stages current ts cs = Inr cs'"
    and "matched_indexes cs' = [i]"
  shows "closeout_loop_budget_remaining states stages (ct_to (ts ! i))"
proof -
  have "within_budget states stages ts cs'"
    using guard_within_budget[OF evaluate_candidates_within_budget] assms(1,2) by blast
  then have "closeout_loop_budget_exhaustion states stages (ct_to (ts ! i)) = None"
    unfolding within_budget_def using matched_indexes_single(1,2)[OF assms(3)] by blast
  then show ?thesis by (simp add: closeout_loop_budget_remaining_def)
qed

text \<open>
  C18: an evaluation enters a state only along a transition of the current state whose candidate is
  the only one that matches once the loop budgets and the refinement guard have been applied, whose
  target has loop budget left and which the carry-forward check admits. The commands of an operator
  set the current state as well, outside the evaluation and without these checks.
\<close>

theorem transition_taken_is_justified:
  assumes "evaluate_and_transition w current = Done (Inr es)"
    and "sw_states w current = Some state"
    and "UpdateCurrentState to \<in> set es"
  shows "\<exists>cs cs' i. evaluate_candidates (sw_cond w) (sw_states w) (sw_stages w) current 0 (cs_transitions state) = Done cs
      \<and> apply_implementation_review_refinement_guard (sw_cond w) (sw_states w) (sw_stages w) current
          (cs_transitions state) cs = Inr cs'
      \<and> i < length (cs_transitions state) \<and> ct_to (cs_transitions state ! i) = to
      \<and> (\<forall>j < length cs'. ce_result (cs' ! j) = Matched \<longleftrightarrow> j = i)
      \<and> closeout_loop_budget_remaining (sw_states w) (sw_stages w) to
      \<and> sw_validate_transition w current to = Inr ()"
proof -
  obtain cs cs' i where c:
    "evaluate_candidates (sw_cond w) (sw_states w) (sw_stages w) current 0 (cs_transitions state) = Done cs"
    "apply_implementation_review_refinement_guard (sw_cond w) (sw_states w) (sw_stages w) current
       (cs_transitions state) cs = Inr cs'"
    "matched_indexes cs' = [i]" "i < length (cs_transitions state)" "ct_to (cs_transitions state ! i) = to"
    "sw_validate_transition w current to = Inr ()"
    by (rule entered_state_candidate[OF assms(1,3,2)])
  note single = matched_indexes_single[OF c(3)]
  have "closeout_loop_budget_remaining (sw_states w) (sw_stages w) to"
    using single_match_has_budget[OF c(1-3)] c(5) by simp
  moreover have "\<forall>j < length cs'. ce_result (cs' ! j) = Matched \<longleftrightarrow> j = i"
    using single by blast
  ultimately show ?thesis using c(1,2,4,5,6)
    by (intro exI[of _ cs] exI[of _ cs'] exI[of _ i] conjI)
qed

text \<open>
  The reason of a recorded conflict is the classification of the candidates stored with it
  (never a fallback), or the conflict of the aggregate truth of the proposal review, which
  awaits the operator and marks the candidates that read the summary as evaluation errors.
\<close>

theorem conflict_reason_is_classified:
  assumes "evaluate_and_transition w current = Done (Inr es)"
    and "UpsertConflict c \<in> set es"
  shows "cf_reason c = AggregateTransitionTruthConflicted
           \<and> cf_status c = OperatorConfirmationRequired
           \<and> (\<exists>x \<in> set (cf_candidates c). requires_review_summary x \<and> ce_result x = EvaluationError)
         \<or> classify_workflow_conflict_reason (cf_candidates c) = Some (cf_reason c)
           \<and> cf_status c \<in> {ConflictUnresolved, TerminalUnverifiable}"
proof -
  obtain state where state: "sw_states w current = Some state"
    using evaluate_and_transition_state assms by blast
  have mem: "decisions es = [d] \<Longrightarrow> d = UpsertConflict c" for d
    using decisions_mem assms(2) by (metis conflicts.simps(1))
  show ?thesis
  proof (cases rule: evaluate_and_transition_cases[OF assms(1) state])
    case 1
    then show ?thesis using mem by simp
  next
    case (2 cs cs')
    from 2(4) show ?thesis
    proof (cases rule: select_transition_cases)
      case (truth d)
      then have "c = new_conflict (rv_id (cw_run (sw_cond w))) current (sw_stages w)
          (annotate_aggregate_transition_truth_conflict d cs') (Some AggregateTransitionTruthConflicted)"
        using mem decisions_block by auto
      moreover obtain x where "x \<in> set cs'" "requires_review_summary x"
        using truth(2) by (auto simp: list_ex_iff)
      ultimately show ?thesis
        using annotate_marks by (simp add: new_conflict_def initial_workflow_conflict_status_def Let_def)
    next
      case finish
      then show ?thesis using mem by simp
    next
      case conflict
      then have c: "c = new_conflict (rv_id (cw_run (sw_cond w))) current (sw_stages w) cs' None"
        using mem decisions_block by auto
      from conflict(1) obtain r where "classify_workflow_conflict_reason cs' = Some r"
        using matched_indexes_classify by fastforce
      then show ?thesis
        unfolding c new_conflict_def Let_def
        by (auto simp: initial_workflow_conflict_status_def classify_workflow_conflict_reason_def Let_def
            split: if_splits)
    next
      case (move i)
      then show ?thesis using mem decisions_take by auto
    qed
  qed
qed

lemma guard_release:
  assumes "apply_implementation_review_refinement_guard w states stages ''state_9_implementation_reviewed'' ts cs = Inr cs'"
    and "position (\<lambda>t. ct_to t = ''state_11_manual_release'') ts = Some i"
    and "i < length cs" "ce_result (cs' ! i) = Matched"
  shows "\<exists>status. canonical_contract_field_result (cw_fault w) (cw_store w) (rv_id (cw_run w))
             ''implementation_review_summary'' ''status'' = Inr status
           \<and> field_is status [case Option.bind (cw_variables w ''implementation_review_target_status'') as_str of
                                None \<Rightarrow> ''code_complete'' | Some t \<Rightarrow> t]"
proof -
  have "ct_to (ts ! i) = ''state_11_manual_release''" using assms(2) position_Some by blast
  moreover have "ct_to (ts ! j) = ''state_10_implementation_refined''"
    if "position (\<lambda>t. ct_to t = ''state_10_implementation_refined'') ts = Some j" for j
    using that position_Some by blast
  ultimately show ?thesis
    using assms
    by (fastforce simp: apply_implementation_review_refinement_guard_def Let_def set_candidate_result
        split: if_splits option.splits sum.splits)
qed

text \<open>
  From the implementation review a run enters the manual release only if the canonical status
  of the review summary is the target status of the plan (\<^verbatim>\<open>code_complete\<close> when the plan names
  none), whatever the condition of that transition says.
\<close>

theorem manual_release_needs_target_status:
  assumes "evaluate_and_transition w ''state_9_implementation_reviewed'' = Done (Inr es)"
    and "sw_states w ''state_9_implementation_reviewed'' = Some state"
    and "length (filter (\<lambda>t. ct_to t = ''state_11_manual_release'') (cs_transitions state)) \<le> 1"
    and "UpdateCurrentState ''state_11_manual_release'' \<in> set es"
  shows "\<exists>status. canonical_contract_field_result (cw_fault (sw_cond w)) (cw_store (sw_cond w))
             (rv_id (cw_run (sw_cond w))) ''implementation_review_summary'' ''status'' = Inr status
           \<and> field_is status [case Option.bind (cw_variables (sw_cond w) ''implementation_review_target_status'') as_str of
                                None \<Rightarrow> ''code_complete'' | Some t \<Rightarrow> t]"
proof -
  obtain cs cs' i where c:
    "evaluate_candidates (sw_cond w) (sw_states w) (sw_stages w) ''state_9_implementation_reviewed'' 0
       (cs_transitions state) = Done cs"
    "apply_implementation_review_refinement_guard (sw_cond w) (sw_states w) (sw_stages w)
       ''state_9_implementation_reviewed'' (cs_transitions state) cs = Inr cs'"
    "matched_indexes cs' = [i]" "i < length (cs_transitions state)"
    "ct_to (cs_transitions state ! i) = ''state_11_manual_release''"
    by (rule entered_state_candidate[OF assms(1,4,2)])
  have "position (\<lambda>t. ct_to t = ''state_11_manual_release'') (cs_transitions state) = Some i"
    using position_unique assms(3) c(4,5) by blast
  then show ?thesis
    using guard_release[OF c(2)] matched_indexes_single(2)[OF c(3)] c(4) evaluate_candidates_length[OF c(1)]
    by simp
qed

section \<open>Entries of a loop state\<close>

text \<open>Executions of other states, and attempts of this one that do not complete.\<close>

definition unfinished_noise :: "string \<Rightarrow> stage_execution list \<Rightarrow> bool" where
  "unfinished_noise state_id noise \<longleftrightarrow>
     (\<forall>s \<in> set noise. sx_stage_id s = state_id \<longrightarrow> 0 < sx_iteration s \<and> sx_status s \<noteq> StageCompleted)"

lemma fold_max_ge: "x \<in> set (i # is) \<Longrightarrow> x \<le> fold max is (i::int)"
proof -
  have "fold max is i = Max (set (i # is))" by (rule Max.set_eq_fold [symmetric])
  then show "x \<in> set (i # is) \<Longrightarrow> x \<le> fold max is i" by simp
qed

lemma next_iteration_fresh:
  assumes "s \<in> set stages" "sx_stage_id s = state_id"
  shows "sx_iteration s < next_iteration stages state_id"
proof -
  have "sx_iteration s \<in> set (map sx_iteration (filter (\<lambda>s. sx_stage_id s = state_id) stages))"
    using assms by auto
  then show ?thesis
    using fold_max_ge by (auto simp: next_iteration_def simp del: set_map split: list.splits dest!: fold_max_ge)
qed

lemma next_iteration_pos:
  assumes "\<forall>s \<in> set stages. sx_stage_id s = state_id \<longrightarrow> 0 < sx_iteration s"
  shows "0 < next_iteration stages state_id"
proof (cases "filter (\<lambda>s. sx_stage_id s = state_id) stages")
  case Nil
  then show ?thesis by (simp add: next_iteration_def)
next
  case (Cons s ss)
  then have "s \<in> set stages" "sx_stage_id s = state_id" by (auto simp: filter_eq_Cons_iff)
  then show ?thesis using next_iteration_fresh assms by fastforce
qed

lemma loop_iterations_card:
  "loop_iterations_for_state stages s =
     card (sx_iteration ` {x \<in> set stages. sx_stage_id x = s \<and> sx_status x = StageCompleted \<and> 0 \<le> sx_iteration x})"
  unfolding loop_iterations_for_state_def card_set [symmetric]
  by (rule arg_cong[of _ _ card]) auto

lemma loop_iterations_noise:
  "unfinished_noise s noise \<Longrightarrow> loop_iterations_for_state (stages @ noise) s = loop_iterations_for_state stages s"
  unfolding loop_iterations_card unfinished_noise_def
  by (rule arg_cong[of _ _ card]) auto

lemma loop_iterations_entered:
  assumes "\<forall>x \<in> set stages. sx_stage_id x = s \<longrightarrow> 0 < sx_iteration x"
  shows "loop_iterations_for_state
           (stages @ [(create_stage_for_state i n r s state stages)\<lparr>sx_status := StageCompleted\<rparr>]) s
         = Suc (loop_iterations_for_state stages s)"
proof -
  let ?done = "\<lambda>xs. {x \<in> set xs. sx_stage_id x = s \<and> sx_status x = StageCompleted \<and> 0 \<le> sx_iteration x}"
  let ?new = "(create_stage_for_state i n r s state stages)\<lparr>sx_status := StageCompleted\<rparr>"
  have "?done (stages @ [?new]) = insert ?new (?done stages)"
    using next_iteration_pos[OF assms] by (auto simp: create_stage_for_state_def)
  then have "sx_iteration ` ?done (stages @ [?new]) = insert (next_iteration stages s) (sx_iteration ` ?done stages)"
    by (simp add: create_stage_for_state_def)
  moreover have "next_iteration stages s \<notin> sx_iteration ` ?done stages"
    using next_iteration_fresh by fastforce
  ultimately show ?thesis unfolding loop_iterations_card by simp
qed

lemma budget_remaining_iff:
  assumes "states state_id = Some state" "cs_loop_config state = Some l"
  shows "closeout_loop_budget_remaining states stages state_id \<longleftrightarrow> loop_iterations_for_state stages state_id < lp_max l"
  using assms by (auto simp: closeout_loop_budget_remaining_def closeout_loop_budget_exhaustion_def Let_def)

text \<open>
  C40: an entry of a loop state spends one iteration of its budget. An evaluation enters a state with loop
  budget \<^verbatim>\<open>max\<close> only while fewer than \<^verbatim>\<open>max\<close> iterations of it are complete; whatever other executions
  and unfinished attempts are recorded until the execution of the state is created, that execution has an
  iteration above all earlier ones, and when it completes exactly one iteration more is complete, at most
  \<^verbatim>\<open>max\<close>. The budget is checked by evaluations only: the operator's commands set the current state without it.
\<close>

theorem loop_entry_spends_one_iteration:
  assumes "evaluate_and_transition w current = Done (Inr es)" and "sw_states w current = Some state"
    and "UpdateCurrentState to \<in> set es" and "sw_states w to = Some target" and "cs_loop_config target = Some l"
    and "\<forall>x \<in> set (sw_stages w). sx_stage_id x = to \<longrightarrow> 0 < sx_iteration x" and "unfinished_noise to noise"
  shows "loop_iterations_for_state (sw_stages w) to < lp_max l
    \<and> (\<forall>x \<in> set (sw_stages w @ noise). sx_stage_id x = to \<longrightarrow>
         sx_iteration x < sx_iteration (create_stage_for_state new_id now run_id to target (sw_stages w @ noise)))
    \<and> loop_iterations_for_state (sw_stages w @ noise @
           [(create_stage_for_state new_id now run_id to target (sw_stages w @ noise))\<lparr>sx_status := StageCompleted\<rparr>]) to
         = loop_iterations_for_state (sw_stages w) to + 1
    \<and> loop_iterations_for_state (sw_stages w @ noise @
           [(create_stage_for_state new_id now run_id to target (sw_stages w @ noise))\<lparr>sx_status := StageCompleted\<rparr>]) to
         \<le> lp_max l"
proof -
  obtain cs cs' i where c:
    "evaluate_candidates (sw_cond w) (sw_states w) (sw_stages w) current 0 (cs_transitions state) = Done cs"
    "apply_implementation_review_refinement_guard (sw_cond w) (sw_states w) (sw_stages w) current
       (cs_transitions state) cs = Inr cs'"
    "matched_indexes cs' = [i]" "ct_to (cs_transitions state ! i) = to"
    by (rule entered_state_candidate[OF assms(1,3,2)])
  have less: "loop_iterations_for_state (sw_stages w) to < lp_max l"
    using single_match_has_budget[OF c(1-3)] c(4) budget_remaining_iff[of "sw_states w" to target l] assms(4,5) by simp
  have pos: "\<forall>x \<in> set (sw_stages w @ noise). sx_stage_id x = to \<longrightarrow> 0 < sx_iteration x"
    using assms(6,7) by (auto simp: unfinished_noise_def)
  show ?thesis
    using less loop_iterations_entered[OF pos, of new_id now run_id target] loop_iterations_noise[OF assms(7), of "sw_stages w"]
      next_iteration_fresh[of _ "sw_stages w @ noise" to]
    by (simp add: create_stage_for_state_def)
qed

section \<open>A plan for the witnesses\<close>

definition ex_state :: "string \<Rightarrow> (string \<times> string) list \<Rightarrow> nat option \<Rightarrow> compiled_state" where
  "ex_state i ts m =
     \<lparr>cs_id = i, cs_label = i, cs_state_type = None, cs_owner_agent = ''o'', cs_owner_provider = ''p'',
      cs_owner_model = None, cs_is_manual_gate = False, cs_is_end = False,
      cs_transitions = map (\<lambda>(t, c). \<lparr>ct_to = t, ct_condition = c\<rparr>) ts,
      cs_loop_config = map_option (\<lambda>n. \<lparr>lp_counter = ''n'', lp_max = n\<rparr>) m\<rparr>"

definition ex_plan :: plan_states where
  "ex_plan = map_of (map (\<lambda>s. (cs_id s, s))
     [ex_state ''s'' [(''t'', ''vars.a == x''), (''u'', ''vars.a == y'')] None,
      ex_state ''t'' [] (Some 2),
      ex_state ''m'' [(''t'', ''vars.a == x''), (''u'', ''vars.a == x'')] None,
      ex_state ''state_9_implementation_reviewed'' [(''state_11_manual_release'', ''vars.a == x'')] None])"

definition ex_approved :: cond_world where
  "ex_approved = ex_world\<lparr>cw_store := (cw_store ex_world)\<lparr>as_overrides :=
     [\<lparr>ov_override_id = ''o'', ov_run_id = ''r'', ov_contract_id = ''implementation_review_summary_v1'',
       ov_override_type = ''status'', ov_from_status = ''invalid'', ov_to_status = ''code_complete'',
       ov_reason = ''x'', ov_owner = ''op'', ov_source_artifacts = [], ov_expires_at_stage = ''z'',
       ov_journal_id = ''j'', ov_created_at = 0, ov_expired_at = None, ov_active = True\<rparr>]\<rparr>\<rparr>"

definition ex_selection :: selection_world where
  "ex_selection =
     \<lparr>sw_cond = ex_approved, sw_run_found = True, sw_states = ex_plan, sw_stages = [], sw_upsert = (\<lambda>c. c),
      sw_run_status = Some RunRunning, sw_mediation_enabled = False, sw_try_initiate = (\<lambda>_. False),
      sw_validate_transition = (\<lambda>_ _. Inr ())\<rparr>"

definition selected :: "string \<Rightarrow> (engine_effect list \<Rightarrow> bool) \<Rightarrow> bool" where
  "selected current P =
     (case evaluate_and_transition ex_selection current of
        Done (Inr es) \<Rightarrow> P es | _ \<Rightarrow> False)"

lemma selectedE:
  assumes "selected current P"
  obtains es where "evaluate_and_transition ex_selection current = Done (Inr es)" "P es"
  using assms by (auto simp: selected_def split: outcome.splits sum.splits)

fun target_of :: "engine_effect \<Rightarrow> string option" where
  "target_of (UpdateCurrentState t) = Some t"
| "target_of _ = None"

lemma target_of_iff: "target_of e = Some t \<longleftrightarrow> e = UpdateCurrentState t"
  by (cases e) auto

lemma conflicts_iff: "conflicts e \<longleftrightarrow> (\<exists>c. e = UpsertConflict c)"
  by (cases e) auto

lemma target_of_mem: "list_ex (\<lambda>e. target_of e = Some t) es \<Longrightarrow> UpdateCurrentState t \<in> set es"
  by (auto simp: list_ex_iff target_of_iff)

lemma ex_plan_states [simp]:
  "ex_plan ''s'' = Some (ex_state ''s'' [(''t'', ''vars.a == x''), (''u'', ''vars.a == y'')] None)"
  "ex_plan ''t'' = Some (ex_state ''t'' [] (Some 2))"
  "ex_plan ''m'' = Some (ex_state ''m'' [(''t'', ''vars.a == x''), (''u'', ''vars.a == x'')] None)"
  "ex_plan ''state_9_implementation_reviewed'' =
     Some (ex_state ''state_9_implementation_reviewed'' [(''state_11_manual_release'', ''vars.a == x'')] None)"
  by (simp_all add: ex_plan_def ex_state_def)

lemma ex_selection_simps [simp]:
  "sw_states ex_selection = ex_plan" "sw_run_status ex_selection = Some RunRunning"
  "sw_cond ex_selection = ex_approved"
  by (simp_all add: ex_selection_def)

theorem decision_is_exclusive_witness:
  "\<exists>es c. evaluate_and_transition ex_selection ''m'' = Done (Inr es)
     \<and> decisions es = [UpsertConflict c] \<and> UpdateRunStatus RunBlocked \<in> set es"
proof -
  have "selected ''m'' (list_ex conflicts)" by code_simp
  then obtain es where es: "evaluate_and_transition ex_selection ''m'' = Done (Inr es)" "list_ex conflicts es"
    by (rule selectedE)
  from decision_is_exclusive [OF es(1), of "ex_state ''m'' [(''t'', ''vars.a == x''), (''u'', ''vars.a == x'')] None"]
  obtain d where d: "decisions es = [d]"
    "\<forall>c r. d = UpsertConflict c \<longrightarrow> sw_run_status ex_selection = Some r \<longrightarrow> r \<noteq> RunBlocked \<longrightarrow>
       UpdateRunStatus RunBlocked \<in> set es"
    by auto
  obtain c where c: "UpsertConflict c \<in> set es" using es(2) by (auto simp: list_ex_iff conflicts_iff)
  then have "d = UpsertConflict c" using decisions_mem [OF d(1) c] by simp
  with es(1) d show ?thesis by auto
qed

theorem transition_taken_is_justified_witness:
  "\<exists>cs cs' i. evaluate_candidates ex_approved ex_plan (sw_stages ex_selection) ''s'' 0
        (cs_transitions (ex_state ''s'' [(''t'', ''vars.a == x''), (''u'', ''vars.a == y'')] None)) = Done cs
     \<and> apply_implementation_review_refinement_guard ex_approved ex_plan (sw_stages ex_selection) ''s''
        (cs_transitions (ex_state ''s'' [(''t'', ''vars.a == x''), (''u'', ''vars.a == y'')] None)) cs = Inr cs'
     \<and> i < 2 \<and> (\<forall>j < length cs'. ce_result (cs' ! j) = Matched \<longleftrightarrow> j = i)
     \<and> closeout_loop_budget_remaining ex_plan (sw_stages ex_selection) ''t''"
proof -
  have "selected ''s'' (list_ex (\<lambda>e. target_of e = Some ''t''))" by code_simp
  then obtain es where es: "evaluate_and_transition ex_selection ''s'' = Done (Inr es)"
    "list_ex (\<lambda>e. target_of e = Some ''t'') es"
    by (rule selectedE)
  from transition_taken_is_justified [OF es(1) _ target_of_mem [OF es(2)],
      of "ex_state ''s'' [(''t'', ''vars.a == x''), (''u'', ''vars.a == y'')] None"]
  show ?thesis by (fastforce simp: ex_state_def)
qed

theorem conflict_reason_is_classified_witness:
  "\<exists>es c. evaluate_and_transition ex_selection ''m'' = Done (Inr es) \<and> UpsertConflict c \<in> set es
     \<and> cf_status c \<in> {ConflictUnresolved, TerminalUnverifiable, OperatorConfirmationRequired}"
proof -
  have "selected ''m'' (list_ex conflicts)" by code_simp
  then obtain es where es: "evaluate_and_transition ex_selection ''m'' = Done (Inr es)" "list_ex conflicts es"
    by (rule selectedE)
  then obtain c where "UpsertConflict c \<in> set es" by (auto simp: list_ex_iff conflicts_iff)
  with conflict_reason_is_classified [OF es(1) this] es(1) show ?thesis by auto
qed

theorem manual_release_needs_target_status_witness:
  "(\<exists>es. evaluate_and_transition ex_selection ''state_9_implementation_reviewed'' = Done (Inr es)
      \<and> UpdateCurrentState ''state_11_manual_release'' \<in> set es)
   \<and> (\<exists>status. canonical_contract_field_result (cw_fault ex_approved) (cw_store ex_approved)
        (rv_id (cw_run ex_approved)) ''implementation_review_summary'' ''status'' = Inr status
      \<and> field_is status [''code_complete''])"
proof -
  have "selected ''state_9_implementation_reviewed'' (list_ex (\<lambda>e. target_of e = Some ''state_11_manual_release''))"
    by code_simp
  then obtain es where es: "evaluate_and_transition ex_selection ''state_9_implementation_reviewed'' = Done (Inr es)"
    "list_ex (\<lambda>e. target_of e = Some ''state_11_manual_release'') es"
    by (rule selectedE)
  have v: "cw_variables ex_approved ''implementation_review_target_status'' = None"
    by (simp add: ex_approved_def ex_world_def)
  from manual_release_needs_target_status [OF es(1) _ _ target_of_mem [OF es(2)],
      of "ex_state ''state_9_implementation_reviewed'' [(''state_11_manual_release'', ''vars.a == x'')] None"]
    es(1) target_of_mem [OF es(2)] v
  show ?thesis by (auto simp: ex_state_def)
qed

theorem loop_entry_spends_one_iteration_witness:
  "\<exists>es. evaluate_and_transition ex_selection ''s'' = Done (Inr es) \<and> UpdateCurrentState ''t'' \<in> set es
     \<and> loop_iterations_for_state (sw_stages ex_selection) ''t'' < 2
     \<and> loop_iterations_for_state (sw_stages ex_selection @
          [(create_stage_for_state ''i'' 7 ''r'' ''t'' (ex_state ''t'' [] (Some 2)) (sw_stages ex_selection))\<lparr>sx_status := StageCompleted\<rparr>]) ''t''
        = loop_iterations_for_state (sw_stages ex_selection) ''t'' + 1"
proof -
  have "selected ''s'' (list_ex (\<lambda>e. target_of e = Some ''t''))" by code_simp
  then obtain es where es: "evaluate_and_transition ex_selection ''s'' = Done (Inr es)"
    "list_ex (\<lambda>e. target_of e = Some ''t'') es"
    by (rule selectedE)
  note entered = target_of_mem [OF es(2)]
  from loop_entry_spends_one_iteration [OF es(1) _ entered, of "ex_state ''s'' [(''t'', ''vars.a == x''), (''u'', ''vars.a == y'')] None"
      "ex_state ''t'' [] (Some 2)" "\<lparr>lp_counter = ''n'', lp_max = 2\<rparr>" "[]" "''i''" 7 "''r''"]
  show ?thesis using es(1) entered
    by (intro exI[of _ es]) (simp add: ex_state_def unfinished_noise_def ex_selection_def)
qed

end
