(* ===== verification/Transition_Lint.thy ===== *)
theory Transition_Lint
  imports Condition_Properties "HOL-Library.List_Lexorder" "HOL-Library.Char_ord"
begin

text \<open>
  The lint for transitions that can match at the same time,
  \<^verbatim>\<open>control-plane/crates/workflow/src/transition_lint.rs\<close>: a second reader of the condition
  language, independent of the evaluator of the orchestrator. A slice at a byte that is not
  the start of a character panics.
\<close>

section \<open>Atoms\<close>

datatype lint_op = OpEq | OpNe | OpGt | OpGe | OpLt | OpLe

record lint_atom =
  la_field :: string
  la_op :: lint_op
  la_value :: string

type_synonym lint_clause = "lint_atom list"

definition is_condition_word_byte :: "char \<Rightarrow> bool" where
  "is_condition_word_byte c \<longleftrightarrow>
     48 \<le> byte c \<and> byte c \<le> 57 \<or> 65 \<le> byte c \<and> byte c \<le> 90 \<or> 97 \<le> byte c \<and> byte c \<le> 122
     \<or> c = CHR ''_'' \<or> c = CHR ''.''"

definition is_bool_word_start :: "char option \<Rightarrow> bool" where
  "is_bool_word_start prev \<longleftrightarrow> (case prev of None \<Rightarrow> True | Some c \<Rightarrow> \<not> is_condition_word_byte c)"

definition is_bool_word_end :: "string \<Rightarrow> bool" where
  "is_bool_word_end rest \<longleftrightarrow> (case rest of [] \<Rightarrow> True | c # _ \<Rightarrow> \<not> is_condition_word_byte c)"

definition is_quote :: "char \<Rightarrow> bool" where
  "is_quote c \<longleftrightarrow> c = CHR 0x27 \<or> c = CHR 0x22"

definition toggle_quote :: "char option \<Rightarrow> char \<Rightarrow> char option" where
  "toggle_quote q c =
     (case q of None \<Rightarrow> Some c | Some d \<Rightarrow> if d = c then None else Some d)"

text \<open>A byte inside a character of several bytes.\<close>

definition is_continuation :: "char \<Rightarrow> bool" where
  "is_continuation c \<longleftrightarrow> 128 \<le> byte c \<and> byte c < 192"

definition char_boundary :: "string \<Rightarrow> nat \<Rightarrow> bool" where
  "char_boundary s n \<longleftrightarrow> (case drop n s of [] \<Rightarrow> True | c # _ \<Rightarrow> \<not> is_continuation c)"

definition eq_ignore_ascii_case :: "string \<Rightarrow> string \<Rightarrow> bool" where
  "eq_ignore_ascii_case s t \<longleftrightarrow> map ascii_lower s = map ascii_lower t"

text \<open>
  The scan of \<open>split_bool_word\<close>: the byte before the position, the open quote, the part
  collected so far and the rest. The position steps over whole characters, so nothing is tested
  inside one. The words are \<^verbatim>\<open>or\<close> and \<^verbatim>\<open>and\<close>, never empty.
\<close>

function bool_scan :: "string \<Rightarrow> char option \<Rightarrow> char option \<Rightarrow> string \<Rightarrow> string \<Rightarrow> string list outcome" where
  "bool_scan word prev q part [] = Done [trim part]"
| "bool_scan word prev q part (c # s) =
     (let n = length word in
      if is_quote c then bool_scan word (Some c) (toggle_quote q c) (part @ [c]) s
      else if q = None \<and> \<not> is_continuation c \<and> word \<noteq> [] \<and> n \<le> length (c # s) then
        (if \<not> char_boundary (c # s) n then Panics
         else if eq_ignore_ascii_case (take n (c # s)) word \<and> is_bool_word_start prev
              \<and> is_bool_word_end (drop n (c # s))
         then bind_outcome (bool_scan word (Some ((c # s) ! (n - 1))) None [] (drop n (c # s)))
                (\<lambda>ps. Done (trim part # ps))
         else bool_scan word (Some c) q (part @ [c]) s)
      else bool_scan word (Some c) q (part @ [c]) s)"
  by pat_completeness auto

termination
  by (relation "measure (\<lambda>(_, _, _, _, s). length s)") auto

definition split_bool_word :: "string \<Rightarrow> string \<Rightarrow> string list outcome" where
  "split_bool_word s word =
     bind_outcome (bool_scan word None None [] s) (\<lambda>ps. Done (filter (\<lambda>p. p \<noteq> []) ps))"

text \<open>The text before and after the first occurrence outside quotes.\<close>

fun outside_scan :: "string \<Rightarrow> char option \<Rightarrow> string \<Rightarrow> string \<Rightarrow> (string \<times> string) option" where
  "outside_scan needle q before [] = None"
| "outside_scan needle q before (c # s) =
     (if is_quote c then outside_scan needle (toggle_quote q c) (before @ [c]) s
      else if q = None \<and> starts_with (c # s) needle then Some (before, drop (length needle) (c # s))
      else outside_scan needle q (before @ [c]) s)"

definition find_outside_quotes :: "string \<Rightarrow> string \<Rightarrow> (string \<times> string) option" where
  "find_outside_quotes s needle = outside_scan needle None [] s"

definition normalize_value :: "string \<Rightarrow> string" where
  "normalize_value v = trim (trim_matches CHR 0x27 (trim_matches CHR 0x22 (trim v)))"

definition strip_suffix :: "string \<Rightarrow> string \<Rightarrow> string option" where
  "strip_suffix s p = (if suffix p s then Some (take (length s - length p) s) else None)"

definition parse_exists_artifact :: "string \<Rightarrow> string option" where
  "parse_exists_artifact a =
     Option.bind (strip_prefix a ''exists('') (\<lambda>s.
       Option.bind (strip_suffix s '')'') (\<lambda>t.
         let inner = normalize_value t in if inner = [] then None else Some inner))"

definition lint_operators :: "(string \<times> lint_op) list" where
  "lint_operators =
     [(''=='', OpEq), (''!='', OpNe), (''>='', OpGe), (''<='', OpLe), (''>'', OpGt), (''<'', OpLt)]"

fun split_comparison_by :: "(string \<times> lint_op) list \<Rightarrow> string \<Rightarrow> (string \<times> lint_op \<times> string) option" where
  "split_comparison_by [] a = None"
| "split_comparison_by ((needle, oper) # ops) a =
     (case find_outside_quotes a needle of
        Some (l, r) \<Rightarrow> Some (l, oper, r)
      | None \<Rightarrow> split_comparison_by ops a)"

definition split_comparison :: "string \<Rightarrow> (string \<times> lint_op \<times> string) option" where
  "split_comparison a = split_comparison_by lint_operators a"

definition parse_atom :: "string \<Rightarrow> lint_atom" where
  "parse_atom raw =
     (let a = trim raw in
      case parse_exists_artifact a of
        Some name \<Rightarrow> \<lparr>la_field = ''exists('' @ name @ '')'', la_op = OpEq, la_value = ''true''\<rparr>
      | None \<Rightarrow>
          (case split_comparison a of
             Some (l, oper, r) \<Rightarrow> \<lparr>la_field = trim l, la_op = oper, la_value = normalize_value (trim r)\<rparr>
           | None \<Rightarrow> \<lparr>la_field = ''__unsupported__:'' @ a, la_op = OpEq, la_value = ''true''\<rparr>))"

fun map_outcome :: "('a \<Rightarrow> 'b outcome) \<Rightarrow> 'a list \<Rightarrow> 'b list outcome" where
  "map_outcome f [] = Done []"
| "map_outcome f (x # xs) =
     bind_outcome (f x) (\<lambda>y. bind_outcome (map_outcome f xs) (\<lambda>ys. Done (y # ys)))"

definition parse_condition_dnf :: "string \<Rightarrow> lint_clause list outcome" where
  "parse_condition_dnf c =
     (let s = trim c in
      if eq_ignore_ascii_case s ''true'' then Done [[]]
      else bind_outcome (split_bool_word s ''or'')
        (map_outcome (\<lambda>p. bind_outcome (split_bool_word p ''and'') (\<lambda>as. Done (map parse_atom as)))))"

section \<open>Contradictions\<close>

definition rsplit_once :: "char \<Rightarrow> string \<Rightarrow> (string \<times> string) option" where
  "rsplit_once c s = map_option (\<lambda>(l, r). (rev r, rev l)) (split_once c (rev s))"

definition mutually_exclusive_boolean_fields :: "lint_atom \<Rightarrow> lint_atom \<Rightarrow> bool" where
  "mutually_exclusive_boolean_fields l r \<longleftrightarrow>
     (case (rsplit_once CHR ''.'' (la_field l), rsplit_once CHR ''.'' (la_field r)) of
        (Some (lp, ll), Some (rp, rl)) \<Rightarrow>
          lp = rp \<and> (ll = ''granted'' \<and> rl = ''rejected'' \<or> ll = ''rejected'' \<and> rl = ''granted'')
          \<and> la_op l = OpEq \<and> la_op r = OpEq \<and> la_value l = ''true'' \<and> la_value r = ''true''
      | _ \<Rightarrow> False)"

definition f64_eq :: "f64 \<Rightarrow> f64 \<Rightarrow> bool" where
  "f64_eq a b \<longleftrightarrow> f64_le a b \<and> f64_le b a"

definition value_satisfies :: "string \<Rightarrow> lint_op \<Rightarrow> string \<Rightarrow> bool" where
  "value_satisfies v oper bound =
     (case (parse_f64 v, parse_f64 bound) of
        (Some x, Some y) \<Rightarrow>
          (case oper of OpEq \<Rightarrow> f64_eq x y | OpNe \<Rightarrow> \<not> f64_eq x y | OpGt \<Rightarrow> f64_lt y x
           | OpGe \<Rightarrow> f64_le y x | OpLt \<Rightarrow> f64_lt x y | OpLe \<Rightarrow> f64_le x y)
      | _ \<Rightarrow>
          (case oper of OpEq \<Rightarrow> v = bound | OpNe \<Rightarrow> v \<noteq> bound | OpGt \<Rightarrow> v \<noteq> bound | OpLt \<Rightarrow> v \<noteq> bound
           | OpGe \<Rightarrow> True | OpLe \<Rightarrow> True))"

definition ranges_contradict :: "lint_op \<Rightarrow> string \<Rightarrow> lint_op \<Rightarrow> string \<Rightarrow> bool" where
  "ranges_contradict lo lb ro rb \<longleftrightarrow>
     lb = rb \<and> (lo, ro) \<in> {(OpGe, OpLt), (OpLt, OpGe), (OpGt, OpLe), (OpLe, OpGt), (OpGt, OpLt), (OpLt, OpGt)}"

definition atoms_contradict :: "lint_atom \<Rightarrow> lint_atom \<Rightarrow> bool" where
  "atoms_contradict l r =
     (if la_field l \<noteq> la_field r then mutually_exclusive_boolean_fields l r
      else case (la_op l, la_op r) of
          (OpEq, OpEq) \<Rightarrow> la_value l \<noteq> la_value r
        | (OpEq, OpNe) \<Rightarrow> la_value l = la_value r
        | (OpNe, OpEq) \<Rightarrow> la_value l = la_value r
        | (OpEq, oper) \<Rightarrow> \<not> value_satisfies (la_value l) oper (la_value r)
        | (oper, OpEq) \<Rightarrow> \<not> value_satisfies (la_value r) oper (la_value l)
        | (lo, ro) \<Rightarrow> ranges_contradict lo (la_value l) ro (la_value r))"

definition clauses_can_match_simultaneously :: "lint_clause \<Rightarrow> lint_clause \<Rightarrow> bool" where
  "clauses_can_match_simultaneously l r \<longleftrightarrow> \<not> list_ex (\<lambda>a. list_ex (atoms_contradict a) r) l"

definition conditions_can_match_simultaneously :: "string \<Rightarrow> string \<Rightarrow> bool outcome" where
  "conditions_can_match_simultaneously l r =
     bind_outcome (parse_condition_dnf l) (\<lambda>ls.
       bind_outcome (parse_condition_dnf r) (\<lambda>rs.
         Done (list_ex (\<lambda>a. list_ex (clauses_can_match_simultaneously a) rs) ls)))"

section \<open>The scan of a workflow\<close>

record transition_finding =
  tf_workflow_path :: string
  tf_state_id :: string
  tf_left_index :: nat
  tf_left :: compiled_transition
  tf_right_index :: nat
  tf_right :: compiled_transition

definition transition_pairs :: "nat \<Rightarrow> (nat \<times> nat) list" where
  "transition_pairs n = concat (map (\<lambda>i. map (\<lambda>j. (i, j)) [Suc i..<n]) [0..<n])"

definition scan_state :: "string \<Rightarrow> string \<Rightarrow> compiled_transition list \<Rightarrow> transition_finding list outcome" where
  "scan_state path state_id ts =
     bind_outcome
       (map_outcome (\<lambda>(i, j). bind_outcome
            (conditions_can_match_simultaneously (ct_condition (ts ! i)) (ct_condition (ts ! j)))
            (\<lambda>b. Done (if b then [\<lparr>tf_workflow_path = path, tf_state_id = state_id, tf_left_index = i,
                 tf_left = ts ! i, tf_right_index = j, tf_right = ts ! j\<rparr>] else [])))
          (transition_pairs (length ts)))
       (\<lambda>fs. Done (concat fs))"

text \<open>The states of a definition with their transitions; a state may declare none.\<close>

definition scan_workflow_definition_for_simultaneous_transitions ::
  "string \<Rightarrow> (string \<times> compiled_transition list option) list \<Rightarrow> transition_finding list outcome" where
  "scan_workflow_definition_for_simultaneous_transitions path states =
     bind_outcome
       (map_outcome (\<lambda>i. case map_of states i of
            Some (Some ts) \<Rightarrow> scan_state path i ts
          | _ \<Rightarrow> Done [])
          (sort (map fst states)))
       (\<lambda>fs. Done (concat fs))"

end
