(* ===== verification/Lint_Properties.thy ===== *)
theory Lint_Properties
  imports Transition_Lint
begin

text \<open>
  The lint against the evaluator: on values that are words it never misses a pair of
  conditions that match together, on numbers it does, and it panics on text outside ASCII.
\<close>

section \<open>Meaning of an atom\<close>

fun comp_of :: "lint_op \<Rightarrow> comp_op" where
  "comp_of OpEq = CEq"
| "comp_of OpNe = CNe"
| "comp_of OpGt = CGt"
| "comp_of OpGe = CGe"
| "comp_of OpLt = CLt"
| "comp_of OpLe = CLe"

text \<open>What the evaluator makes of an atom once its field has a value.\<close>

definition atom_holds :: "(string \<Rightarrow> json) \<Rightarrow> lint_atom \<Rightarrow> bool" where
  "atom_holds val a \<longleftrightarrow>
     (case literal_value (la_value a) of
        Done v \<Rightarrow> apply_comparison (val (la_field a)) (comp_of (la_op a)) v
      | _ \<Rightarrow> False)"

text \<open>A word: neither a number nor a quoted text.\<close>

definition word_value :: "string \<Rightarrow> bool" where
  "word_value v \<longleftrightarrow> parse_f64 v = None \<and> parse_i64 v = None \<and> \<not> quoted CHR 0x27 v \<and> \<not> quoted CHR 0x22 v"

text \<open>Approvals: a stage is not granted and rejected at once.\<close>

definition approvals_exclusive :: "(string \<Rightarrow> json) \<Rightarrow> bool" where
  "approvals_exclusive val \<longleftrightarrow>
     (\<forall>p. \<not> (val (p @ ''.granted'') = JBool True \<and> val (p @ ''.rejected'') = JBool True))"

lemma word_literal:
  "word_value v \<Longrightarrow> literal_value v =
     Done (if v = ''true'' then JBool True else if v = ''false'' then JBool False else JString v)"
  by (auto simp: word_value_def literal_value_def)

lemma word_no_number:
  "word_value v \<Longrightarrow> literal_value v = Done x \<Longrightarrow> to_f64 x = None"
  by (auto simp: word_literal word_value_def to_f64_def)

lemma word_atom_holds:
  assumes "word_value (la_value a)" "atom_holds val a"
  shows "la_op a = OpEq \<and> Done (val (la_field a)) = literal_value (la_value a)
       \<or> la_op a = OpNe \<and> Done (val (la_field a)) \<noteq> literal_value (la_value a)"
proof -
  obtain x where x: "literal_value (la_value a) = Done x" using word_literal[OF assms(1)] by simp
  then have "to_f64 x = None" using word_no_number assms(1) by blast
  with assms(2) x show ?thesis
    by (cases "la_op a") (auto simp: atom_holds_def apply_comparison_def split: option.splits)
qed

lemma word_literal_inj:
  "word_value v \<Longrightarrow> word_value u \<Longrightarrow> literal_value v = literal_value u \<Longrightarrow> v = u"
  by (auto simp: word_literal split: if_splits)

lemma rsplit_once_Some: "rsplit_once c s = Some (l, r) \<Longrightarrow> s = l @ [c] @ r"
proof -
  assume "rsplit_once c s = Some (l, r)"
  then have "split_once c (rev s) = Some (rev r, rev l)"
    by (auto simp: rsplit_once_def)
  then obtain i where i: "find_sub (rev s) [c] = Some i" "rev r = take i (rev s)" "rev l = drop (Suc i) (rev s)"
    by (auto simp: split_once_def split: option.splits)
  then have "rev s = rev r @ [c] @ rev l" using find_sub_decompose[OF i(1)] by simp
  then have "rev (rev s) = rev (rev r @ [c] @ rev l)" by (rule arg_cong)
  then show "s = l @ [c] @ r" by simp
qed

lemma exclusive_fields_not_both:
  assumes "mutually_exclusive_boolean_fields l r" "approvals_exclusive val"
  shows "\<not> (atom_holds val l \<and> atom_holds val r)"
proof
  assume holds: "atom_holds val l \<and> atom_holds val r"
  obtain p ll rl where "rsplit_once CHR ''.'' (la_field l) = Some (p, ll)"
    "rsplit_once CHR ''.'' (la_field r) = Some (p, rl)"
    and leaves: "ll = ''granted'' \<and> rl = ''rejected'' \<or> ll = ''rejected'' \<and> rl = ''granted''"
    using assms(1) by (auto simp: mutually_exclusive_boolean_fields_def split: option.splits)
  then have "la_field l = p @ ''.'' @ ll" "la_field r = p @ ''.'' @ rl"
    using rsplit_once_Some by blast+
  with leaves have p: "(la_field l = p @ ''.granted'' \<and> la_field r = p @ ''.rejected'')
      \<or> (la_field l = p @ ''.rejected'' \<and> la_field r = p @ ''.granted'')"
    by auto
  have "la_op l = OpEq" "la_op r = OpEq" "la_value l = ''true''" "la_value r = ''true''"
    using assms(1) by (auto simp: mutually_exclusive_boolean_fields_def split: option.splits)
  then have "val (la_field l) = JBool True" "val (la_field r) = JBool True"
    using holds by (auto simp: atom_holds_def literal_value_def apply_comparison_def to_f64_def split: option.splits)
  with p assms(2) show False by (auto simp: approvals_exclusive_def)
qed

lemma word_atoms_consistent:
  assumes "word_value (la_value l)" "word_value (la_value r)" "atom_holds val l" "atom_holds val r"
    "approvals_exclusive val"
  shows "\<not> atoms_contradict l r"
proof (cases "la_field l = la_field r")
  case False
  then show ?thesis using exclusive_fields_not_both assms by (auto simp: atoms_contradict_def)
next
  case True
  with word_atom_holds[OF assms(1,3)] word_atom_holds[OF assms(2,4)] show ?thesis
    using word_literal_inj[OF assms(1,2)] by (auto simp: atoms_contradict_def ranges_contradict_def)
qed

section \<open>Properties\<close>

text \<open>
  The lint is sound on words: if some values of the fields satisfy, in the comparison of the
  evaluator, every atom of two clauses whose literals are words, and no stage is granted and
  rejected at once, then the lint reports that the clauses can match simultaneously.
\<close>

theorem lint_words_sound:
  assumes "list_all (\<lambda>a. word_value (la_value a) \<and> atom_holds val a) l"
    and "list_all (\<lambda>a. word_value (la_value a) \<and> atom_holds val a) r"
    and "approvals_exclusive val"
  shows "clauses_can_match_simultaneously l r"
  using assms word_atoms_consistent
  by (auto simp: clauses_can_match_simultaneously_def list_ex_iff list_all_iff)

theorem lint_words_sound_witness:
  "clauses_can_match_simultaneously
     [\<lparr>la_field = ''a.status'', la_op = OpEq, la_value = ''pass''\<rparr>]
     [\<lparr>la_field = ''a.status'', la_op = OpNe, la_value = ''blocked''\<rparr>]"
proof (rule lint_words_sound)
  let ?val = "\<lambda>_. JString ''pass''"
  have w: "word_value ''pass''" "word_value ''blocked''" by code_simp+
  show "list_all (\<lambda>a. word_value (la_value a) \<and> atom_holds ?val a) [\<lparr>la_field = ''a.status'', la_op = OpEq, la_value = ''pass''\<rparr>]"
    "list_all (\<lambda>a. word_value (la_value a) \<and> atom_holds ?val a) [\<lparr>la_field = ''a.status'', la_op = OpNe, la_value = ''blocked''\<rparr>]"
    using w by (auto simp: atom_holds_def word_literal apply_comparison_def word_no_number
        to_f64_def word_value_def split: option.splits)
  show "approvals_exclusive ?val" by (simp add: approvals_exclusive_def)
qed

definition numeric_world :: cond_world where
  "numeric_world = ex_world\<lparr>cw_variables := (\<lambda>_. Some (JInt 1))\<rparr>"

lemma one_dot_zero: "parse_f64 ''1.0'' = Some (Fin 1)"
proof -
  have "parse_decimal ''1.0'' = Some 1" by code_simp
  moreover have "split_sign ''1.0'' = (False, ''1.0'')" "map ascii_lower ''1.0'' = ''1.0''" by code_simp+
  moreover have "f64_round 1 = Fin 1" using f64_round_int[of 1] by simp
  ultimately show ?thesis by (simp add: parse_f64_def)
qed

lemma numeric_operands:
  "resolve_value numeric_world ''vars.n'' = Done (JInt 1)"
  "resolve_value numeric_world ''1'' = Done (JInt 1)"
  "resolve_value numeric_world ''1.0'' = Done (JFloat ''1.0'')"
  "apply_comparison (JInt 1) CEq (JInt 1)" "apply_comparison (JInt 1) CEq (JFloat ''1.0'')"
proof -
  show "resolve_value numeric_world ''vars.n'' = Done (JInt 1)" "resolve_value numeric_world ''1'' = Done (JInt 1)"
    by code_simp+
  have "trim ''1.0'' = ''1.0''" "strip_prefix ''1.0'' ''vars.'' = None"
    "split_once CHR ''.'' ''1.0'' = Some (''1'', ''0'')" "is_implementation_self_assessment_alias ''1'' = False"
    "controlled_value numeric_world ''1'' ''0'' = None" "read_artifact_field numeric_world ''1'' ''0'' = Done None"
    "parse_i64 ''1.0'' = None"
    by code_simp+
  then show "resolve_value numeric_world ''1.0'' = Done (JFloat ''1.0'')"
    by (simp add: resolve_value_def literal_value_def one_dot_zero)
  have r: "f64_round 1 = Fin 1" using f64_round_int[of 1] by simp
  have "f64_lt (f64_abs (f64_sub (Fin 1) (Fin 1))) f64_epsilon" using f64_close_int(1)[of 1 1] by simp
  then show "apply_comparison (JInt 1) CEq (JInt 1)" "apply_comparison (JInt 1) CEq (JFloat ''1.0'')"
    by (simp_all add: apply_comparison_def to_f64_def r one_dot_zero compare_f64_def)
qed

text \<open>
  The lint compares the texts of literals where the evaluator compares numbers: two conditions
  that ask for 1 and for 1.0 both match, and the lint reports that they cannot.
\<close>

theorem lint_misses_equal_numbers:
  "conditions_can_match_simultaneously ''vars.n == 1'' ''vars.n == 1.0'' = Done False
   \<and> (\<exists>l r. evaluate_condition_classified numeric_world ''s'' ''vars.n == 1'' = Done l
        \<and> evaluate_condition_classified numeric_world ''s'' ''vars.n == 1.0'' = Done r
        \<and> cc_result l = Matched \<and> cc_result r = Matched)"
proof
  show "conditions_can_match_simultaneously ''vars.n == 1'' ''vars.n == 1.0'' = Done False"
    by code_simp
  have "evaluate_condition_classified numeric_world ''s'' c = Done cc_matched"
    if "c = ''vars.n == '' @ t" "t = ''1'' \<or> t = ''1.0''" for c t
  proof -
    have "trim_condition c = c" "split_connective c '' and '' = None" "split_connective c '' or '' = None"
      "find_comparison comparison_operators c = Some (''vars.n'', CEq, t)"
      "starts_with c ''exists('' = False"
      using that by (elim disjE; simp; code_simp)+
    moreover have "artifact_field_ref ''vars.n'' = None" by code_simp
    ultimately show ?thesis
      using that numeric_operands
      by (subst evaluate_condition_classified.simps) (auto simp: Let_def evaluate_atom_def)
  qed
  from this[of _ "''1''"] this[of _ "''1.0''"]
  show "\<exists>l r. evaluate_condition_classified numeric_world ''s'' ''vars.n == 1'' = Done l
        \<and> evaluate_condition_classified numeric_world ''s'' ''vars.n == 1.0'' = Done r
        \<and> cc_result l = Matched \<and> cc_result r = Matched"
    by (simp add: cc_matched_def classified_new_def)
qed

text \<open>A letter outside ASCII (here two bytes) two bytes after a position makes the slice there panic.\<close>

lemma lint_panics_outside_ascii:
  "conditions_can_match_simultaneously (''a.x == '' @ [CHR 0xC3, CHR 0xA9]) ''true'' = Panics"
  by code_simp

end
