(* ===== verification/Quota_Ledger.thy ===== *)
theory Quota_Ledger
  imports Artifact_Store "HOL-Library.List_Lexorder" "HOL-Library.Char_ord" "HOL-Library.Product_Lexorder"
begin

text \<open>
  The retry budget ledger of provider quotas,
  \<^verbatim>\<open>control-plane/crates/db/src/repos/agent_retry_budget_ledger.rs\<close> on the table of migrations 016 and
  029, and \<^verbatim>\<open>apply_quota_retry_budget_for_stage_tx\<close> of
  \<^verbatim>\<open>control-plane/crates/engine/src/command_handler.rs\<close>. A row waits for the reset of a quota, is
  elapsed, and is consumed by at most one retry. RFC 3339 formatting of an instant, which only
  enters the idempotency key, is a parameter; foreign keys are not modelled.
\<close>

section \<open>Tables\<close>

fun show_owner_kind :: "owner_kind \<Rightarrow> string" where
  "show_owner_kind StageExecutionOwner = ''stage_execution''"
| "show_owner_kind LeadConflictMediationOwner = ''lead_conflict_mediation''"

record quota_row =
  ql_id :: ident
  ql_run_id :: ident
  ql_owner_kind :: owner_kind
  ql_owner_id :: string
  ql_stage_execution_id :: "ident option"
  ql_agent_execution_id :: ident
  ql_failure_kind :: string
  ql_retry_after :: "datetime option"
  ql_consumed :: bool
  ql_early_retry_journal_id :: "ident option"
  ql_idempotency_key :: string
  ql_state :: string
  ql_created_at :: datetime
  ql_updated_at :: datetime

text \<open>The columns of the joined tables the queries read.\<close>

record agent_execution_row =
  ae_id :: ident
  ae_stage_execution_id :: "ident option"
  ae_status :: string
  ae_provider :: string
  ae_provider_family :: "string option"
  ae_model :: "string option"
  ae_agent_id :: string
  ae_session_generation_id :: "string option"
  ae_completed_at :: "datetime option"

record run_row =
  rr_id :: ident
  rr_status :: string
  rr_cancellation_settled_at :: "datetime option"
  rr_current_state :: "string option"
  rr_idea_id :: ident

record stage_row =
  st_id :: ident
  st_run_id :: ident
  st_stage_id :: string
  st_attempt_number :: int
  st_started_at :: datetime

record runtime_facts_row =
  rf_agent_execution_id :: ident
  rf_failure_kind :: "string option"
  rf_preflight_phase :: "string option"
  rf_provider_launched :: "bool option"
  rf_output_settlement :: agent_output_settlement
  rf_valid_required_outputs :: int
  rf_updated_at :: datetime

record quota_db =
  qd_ledger :: "quota_row list"
  qd_agents :: "agent_execution_row list"
  qd_runs :: "run_row list"
  qd_stages :: "stage_row list"
  qd_facts :: "runtime_facts_row list"

abbreviation provider_quota :: string where
  "provider_quota \<equiv> ''provider_quota''"

section \<open>Recording a failure\<close>

definition quota_owner_ok :: "quota_row \<Rightarrow> bool" where
  "quota_owner_ok r \<longleftrightarrow>
     (case ql_owner_kind r of
        StageExecutionOwner \<Rightarrow> ql_stage_execution_id r = Some (ql_owner_id r)
      | LeadConflictMediationOwner \<Rightarrow> ql_stage_execution_id r = None)"

definition find_by_idempotency_key_tx :: "string \<Rightarrow> quota_db \<Rightarrow> (string, quota_row) result" where
  "find_by_idempotency_key_tx k db =
     (case fetch_optional (filter (\<lambda>r. ql_idempotency_key r = k) (qd_ledger db)) of
        None \<Rightarrow> Inl ''RowNotFound'' | Some r \<Rightarrow> Inr r)"

definition find_by_id_tx :: "ident \<Rightarrow> quota_db \<Rightarrow> (string, quota_row) result" where
  "find_by_id_tx i db =
     (case fetch_optional (filter (\<lambda>r. ql_id r = i) (qd_ledger db)) of
        None \<Rightarrow> Inl ''RowNotFound'' | Some r \<Rightarrow> Inr r)"

definition quota_key :: "(datetime \<Rightarrow> string) \<Rightarrow> ident \<Rightarrow> owner_kind \<Rightarrow> string \<Rightarrow> ident \<Rightarrow> datetime option \<Rightarrow> string" where
  "quota_key rfc3339 run kind owner agent retry_after =
     run @ '':'' @ show_owner_kind kind @ '':'' @ owner @ '':'' @ agent @ '':''
       @ (case retry_after of None \<Rightarrow> ''none'' | Some t \<Rightarrow> rfc3339 t) @ '':'' @ provider_quota"

definition quota_state :: "datetime \<Rightarrow> datetime option \<Rightarrow> string" where
  "quota_state now retry_after =
     (case retry_after of
        Some t \<Rightarrow> if now < t then ''waiting_for_reset'' else ''reset_elapsed''
      | None \<Rightarrow> ''reset_elapsed'')"

definition upsert_quota_failure_for_owner_tx ::
  "(datetime \<Rightarrow> string) \<Rightarrow> ident \<Rightarrow> datetime \<Rightarrow> ident \<Rightarrow> owner_kind \<Rightarrow> string \<Rightarrow> ident option \<Rightarrow> ident
    \<Rightarrow> datetime option \<Rightarrow> quota_db \<Rightarrow> (string, quota_row \<times> quota_db) result" where
  "upsert_quota_failure_for_owner_tx rfc3339 new_id now run kind owner stage agent retry_after db =
     (let k = quota_key rfc3339 run kind owner agent retry_after;
          r = \<lparr>ql_id = new_id, ql_run_id = run, ql_owner_kind = kind, ql_owner_id = owner,
               ql_stage_execution_id = stage, ql_agent_execution_id = agent, ql_failure_kind = provider_quota,
               ql_retry_after = retry_after, ql_consumed = False, ql_early_retry_journal_id = None,
               ql_idempotency_key = k, ql_state = quota_state now retry_after,
               ql_created_at = now, ql_updated_at = now\<rparr>;
          same = (\<lambda>x. ql_idempotency_key x = k)
      in if \<not> quota_owner_ok r then Inl ''CHECK constraint failed''
         else if \<not> list_ex same (qd_ledger db) \<and> list_ex (\<lambda>x. ql_id x = new_id) (qd_ledger db)
         then Inl ''UNIQUE constraint failed''
         else
           let db' = db\<lparr>qd_ledger :=
             (if list_ex same (qd_ledger db)
              then sql_update same (\<lambda>x. x\<lparr>ql_retry_after := retry_after,
                     ql_state := quota_state now retry_after, ql_updated_at := now\<rparr>) (qd_ledger db)
              else qd_ledger db @ [r])\<rparr>
           in bind_res (find_by_idempotency_key_tx k db') (\<lambda>x. Inr (x, db')))"

definition upsert_quota_failure_tx ::
  "(datetime \<Rightarrow> string) \<Rightarrow> ident \<Rightarrow> datetime \<Rightarrow> ident \<Rightarrow> ident \<Rightarrow> ident \<Rightarrow> datetime option \<Rightarrow> quota_db
    \<Rightarrow> (string, quota_row \<times> quota_db) result" where
  "upsert_quota_failure_tx rfc3339 new_id now run stage agent retry_after db =
     upsert_quota_failure_for_owner_tx rfc3339 new_id now run StageExecutionOwner stage (Some stage) agent
       retry_after db"

definition list_quota_for_owner_tx :: "ident \<Rightarrow> owner_kind \<Rightarrow> string \<Rightarrow> quota_db \<Rightarrow> quota_row list" where
  "list_quota_for_owner_tx run kind owner db =
     sort_key ql_created_at (filter (\<lambda>r. ql_run_id r = run \<and> ql_owner_kind r = kind \<and> ql_owner_id r = owner
       \<and> ql_failure_kind r = provider_quota) (qd_ledger db))"

definition list_quota_for_stage_tx :: "ident \<Rightarrow> ident \<Rightarrow> quota_db \<Rightarrow> quota_row list" where
  "list_quota_for_stage_tx run stage db = list_quota_for_owner_tx run StageExecutionOwner stage db"

section \<open>Time\<close>

definition ledger_update :: "(quota_row \<Rightarrow> bool) \<Rightarrow> (quota_row \<Rightarrow> quota_row) \<Rightarrow> quota_db \<Rightarrow> quota_db" where
  "ledger_update P f db = db\<lparr>qd_ledger := sql_update P f (qd_ledger db)\<rparr>"

definition mark_quota_reset_elapsed_tx :: "datetime \<Rightarrow> ident \<Rightarrow> quota_db \<Rightarrow> (string, quota_row \<times> quota_db) result" where
  "mark_quota_reset_elapsed_tx now i db =
     (let db' = ledger_update (\<lambda>r. ql_id r = i \<and> \<not> ql_consumed r)
                  (\<lambda>r. r\<lparr>ql_state := ''reset_elapsed'', ql_updated_at := now\<rparr>) db
      in bind_res (find_by_id_tx i db') (\<lambda>r. Inr (r, db')))"

definition elapsed_wait :: "datetime \<Rightarrow> quota_row \<Rightarrow> bool" where
  "elapsed_wait now r \<longleftrightarrow>
     ql_failure_kind r = provider_quota \<and> \<not> ql_consumed r \<and> ql_state r = ''waiting_for_reset''
     \<and> (case ql_retry_after r of None \<Rightarrow> False | Some t \<Rightarrow> t \<le> now)"

definition mark_elapsed_provider_quota_waits_tx :: "datetime \<Rightarrow> quota_db \<Rightarrow> quota_db \<times> nat" where
  "mark_elapsed_provider_quota_waits_tx now db =
     (ledger_update (elapsed_wait now) (\<lambda>r. r\<lparr>ql_state := ''reset_elapsed'', ql_updated_at := now\<rparr>) db,
      rows_affected (elapsed_wait now) (qd_ledger db))"

text \<open>An update that must touch exactly one row, by its id.\<close>

definition update_one :: "(quota_row \<Rightarrow> bool) \<Rightarrow> (quota_row \<Rightarrow> quota_row) \<Rightarrow> string \<Rightarrow> ident \<Rightarrow> quota_db
    \<Rightarrow> (string, quota_row \<times> quota_db) result" where
  "update_one P f msg i db =
     (if rows_affected P (qd_ledger db) \<noteq> 1 then Inl msg
      else let db' = ledger_update P f db in bind_res (find_by_id_tx i db') (\<lambda>r. Inr (r, db')))"

definition defer_reset_elapsed_retry_tx ::
  "ident \<Rightarrow> datetime \<Rightarrow> datetime \<Rightarrow> quota_db \<Rightarrow> (string, quota_row \<times> quota_db) result" where
  "defer_reset_elapsed_retry_tx i retry_after updated_at db =
     update_one
       (\<lambda>r. ql_id r = i \<and> ql_failure_kind r = provider_quota \<and> \<not> ql_consumed r
            \<and> ql_state r \<in> {''waiting_for_reset'', ''reset_elapsed''}
            \<and> (case ql_retry_after r of None \<Rightarrow> True | Some t \<Rightarrow> t < retry_after))
       (\<lambda>r. r\<lparr>ql_retry_after := Some retry_after, ql_state := ''waiting_for_reset'', ql_updated_at := updated_at\<rparr>)
       (''quota ledger '' @ i @ '' cannot be deferred to a later provider reset'') i db"

definition reconcile_historical_quota_reset_tx ::
  "ident \<Rightarrow> datetime \<Rightarrow> datetime \<Rightarrow> quota_db \<Rightarrow> (string, quota_row \<times> quota_db) result" where
  "reconcile_historical_quota_reset_tx i retry_after updated_at db =
     update_one
       (\<lambda>r. ql_id r = i \<and> ql_failure_kind r = provider_quota \<and> \<not> ql_consumed r
            \<and> ql_state r = ''waiting_for_reset''
            \<and> (case ql_retry_after r of None \<Rightarrow> False | Some t \<Rightarrow> retry_after < t))
       (\<lambda>r. r\<lparr>ql_retry_after := Some retry_after, ql_state := ''reset_elapsed'', ql_updated_at := updated_at\<rparr>)
       (''quota ledger '' @ i @ '' cannot be reconciled to a prior provider reset'') i db"

section \<open>Retries\<close>

text \<open>The ordering of a query: a stable sort by the last key first.\<close>

definition active_wait :: "datetime \<Rightarrow> quota_row \<Rightarrow> bool" where
  "active_wait now r \<longleftrightarrow>
     ql_failure_kind r = provider_quota \<and> \<not> ql_consumed r \<and> ql_state r = ''waiting_for_reset''
     \<and> (case ql_retry_after r of None \<Rightarrow> False | Some t \<Rightarrow> now < t)"

definition list_historical_quota_reset_candidates :: "datetime \<Rightarrow> quota_db \<Rightarrow> quota_row list" where
  "list_historical_quota_reset_candidates now db =
     sort_key (\<lambda>r. the (ql_retry_after r)) (sort_key ql_created_at
       (filter (\<lambda>r. active_wait now r
          \<and> list_ex (\<lambda>a. ae_id a = ql_agent_execution_id r \<and> ae_status a = ''failed'') (qd_agents db))
        (qd_ledger db)))"

text \<open>The rows whose reset has passed, in a blocked run still at the stage that failed.\<close>

definition auto_retryable :: "datetime \<Rightarrow> quota_db \<Rightarrow> quota_row \<Rightarrow> bool" where
  "auto_retryable now db r \<longleftrightarrow>
     ql_failure_kind r = provider_quota \<and> \<not> ql_consumed r \<and> ql_state r = ''reset_elapsed''
     \<and> (case ql_retry_after r of None \<Rightarrow> False | Some t \<Rightarrow> t \<le> now)
     \<and> list_ex (\<lambda>s. ql_stage_execution_id r = Some (st_id s)
          \<and> list_ex (\<lambda>u. rr_id u = ql_run_id r \<and> rr_status u = ''blocked''
               \<and> rr_cancellation_settled_at u = None \<and> rr_current_state u = Some (st_stage_id s)) (qd_runs db))
         (qd_stages db)
     \<and> list_ex (\<lambda>a. ae_id a = ql_agent_execution_id r \<and> ae_status a = ''failed'') (qd_agents db)
     \<and> list_ex (\<lambda>f. rf_agent_execution_id f = ql_agent_execution_id r
          \<and> rf_failure_kind f = Some provider_quota) (qd_facts db)"

text \<open>Newest stage first; the identifiers of rows are distinct, so the order is total.\<close>

definition auto_retry_key :: "quota_db \<Rightarrow> quota_row \<Rightarrow> datetime \<times> int \<times> datetime \<times> ident" where
  "auto_retry_key db r =
     (case fetch_optional (filter (\<lambda>s. ql_stage_execution_id r = Some (st_id s)) (qd_stages db)) of
        Some s \<Rightarrow> (st_started_at s, st_attempt_number s, ql_created_at r, ql_id r)
      | None \<Rightarrow> (0, 0, ql_created_at r, ql_id r))"

definition list_reset_elapsed_auto_retry_candidates :: "datetime \<Rightarrow> quota_db \<Rightarrow> quota_db \<times> quota_row list" where
  "list_reset_elapsed_auto_retry_candidates now db =
     (let db' = fst (mark_elapsed_provider_quota_waits_tx now db) in
      (db', rev (sort_key (auto_retry_key db') (filter (auto_retryable now db') (qd_ledger db')))))"

definition same_owner :: "quota_row \<Rightarrow> quota_row \<Rightarrow> bool" where
  "same_owner s r \<longleftrightarrow> ql_run_id s = ql_run_id r \<and> ql_owner_kind s = ql_owner_kind r \<and> ql_owner_id s = ql_owner_id r"

definition consume :: "string \<Rightarrow> ident \<Rightarrow> datetime \<Rightarrow> quota_row \<Rightarrow> quota_row" where
  "consume state journal now r =
     r\<lparr>ql_consumed := True,
       ql_early_retry_journal_id := (case ql_early_retry_journal_id r of None \<Rightarrow> Some journal | Some j \<Rightarrow> Some j),
       ql_state := state, ql_updated_at := now\<rparr>"

definition schedulable :: "ident \<Rightarrow> quota_db \<Rightarrow> quota_row \<Rightarrow> bool" where
  "schedulable i db r \<longleftrightarrow>
     ql_failure_kind r = provider_quota \<and> \<not> ql_consumed r \<and> ql_state r = ''reset_elapsed''
     \<and> list_ex (\<lambda>s. ql_id s = i \<and> same_owner s r) (qd_ledger db)"

definition mark_reset_elapsed_retry_scheduled_tx ::
  "datetime \<Rightarrow> ident \<Rightarrow> ident \<Rightarrow> quota_db \<Rightarrow> (string, quota_row \<times> quota_db) result" where
  "mark_reset_elapsed_retry_scheduled_tx now i journal db =
     (if rows_affected (schedulable i db) (qd_ledger db) = 0
      then Inl (''quota ledger '' @ i @ '' was already consumed or is not reset_elapsed'')
      else let db' = ledger_update (schedulable i db) (consume ''reset_elapsed_retry_scheduled'' journal now) db
        in bind_res (find_by_id_tx i db') (\<lambda>r. Inr (r, db')))"

definition consume_early_quota_retry_tx ::
  "datetime \<Rightarrow> ident \<Rightarrow> ident \<Rightarrow> quota_db \<Rightarrow> (string, quota_row \<times> quota_db) result" where
  "consume_early_quota_retry_tx now i journal db =
     (let db' = ledger_update (\<lambda>r. ql_id r = i) (consume ''early_retry_consumed'' journal now) db
      in bind_res (find_by_id_tx i db') (\<lambda>r. Inr (r, db')))"

section \<open>Waits of a provider family\<close>

definition sql_trim :: "string \<Rightarrow> string" where
  "sql_trim s = trim_matches CHR '' '' s"

definition sql_lower :: "string \<Rightarrow> string" where
  "sql_lower s = map ascii_lower s"

definition blank_model :: "string option \<Rightarrow> bool" where
  "blank_model m \<longleftrightarrow> (case m of None \<Rightarrow> True | Some s \<Rightarrow> sql_trim s = [])"

definition ae_family :: "agent_execution_row \<Rightarrow> string" where
  "ae_family a = (case ae_provider_family a of None \<Rightarrow> ae_provider a | Some f \<Rightarrow> f)"

definition model_matches :: "string option \<Rightarrow> string option \<Rightarrow> bool" where
  "model_matches a m \<longleftrightarrow>
     blank_model a \<or> blank_model m \<or> map_option sql_lower a = map_option sql_lower m"

definition family_wait :: "string \<Rightarrow> string option \<Rightarrow> datetime \<Rightarrow> quota_db \<Rightarrow> quota_row \<Rightarrow> bool" where
  "family_wait family model now db r \<longleftrightarrow>
     active_wait now r
     \<and> list_ex (\<lambda>a. ae_id a = ql_agent_execution_id r \<and> ae_family a = family \<and> model_matches (ae_model a) model)
         (qd_agents db)"

definition active_provider_family_quota_wait ::
  "string \<Rightarrow> string option \<Rightarrow> datetime \<Rightarrow> quota_db \<Rightarrow> quota_db \<times> quota_row option" where
  "active_provider_family_quota_wait family model now db =
     (let db' = fst (mark_elapsed_provider_quota_waits_tx now db) in
      (db', fetch_optional (sort_key (\<lambda>r. the (ql_retry_after r)) (sort_key ql_created_at
              (filter (family_wait family model now db') (qd_ledger db'))))))"

definition has_active_provider_quota_wait :: "string \<Rightarrow> datetime \<Rightarrow> quota_db \<Rightarrow> quota_db \<times> bool" where
  "has_active_provider_quota_wait family now db =
     (let (db', w) = active_provider_family_quota_wait family None now db in (db', w \<noteq> None))"

definition consume_active_provider_family_quota_for_operator_override_tx ::
  "string \<Rightarrow> string option \<Rightarrow> datetime \<Rightarrow> ident \<Rightarrow> quota_db \<Rightarrow> quota_db \<times> nat" where
  "consume_active_provider_family_quota_for_operator_override_tx family model now journal db =
     (ledger_update (family_wait family model now db) (consume ''early_retry_consumed'' journal now) db,
      rows_affected (family_wait family model now db) (qd_ledger db))"

text \<open>
  The authority of the retry: the journal entry of the active authority for the target stage
  execution with its parsed payload, an error when the payload does not parse.
\<close>

definition consume_active_provider_family_quota_for_retry_target_tx ::
  "(string, (ident \<times> json) option) result \<Rightarrow> string \<Rightarrow> string option \<Rightarrow> datetime \<Rightarrow> quota_db
    \<Rightarrow> (string, quota_db \<times> (ident \<times> nat) option) result" where
  "consume_active_provider_family_quota_for_retry_target_tx authority family model now db =
     bind_res authority (\<lambda>a. case a of
        None \<Rightarrow> Inr (db, None)
      | Some (journal, payload) \<Rightarrow>
          if Option.bind (Option.bind (json_get payload ''RetryStage'')
               (\<lambda>v. json_get v ''consume_quota_budget_now'')) as_bool \<noteq> Some True
          then Inr (db, None)
          else let (db', n) = consume_active_provider_family_quota_for_operator_override_tx family model now journal db
            in Inr (db', if n = 0 then None else Some (journal, n)))"

section \<open>The budget of a manual retry\<close>

fun apply_quota_rows :: "bool \<Rightarrow> ident \<Rightarrow> datetime \<Rightarrow> quota_row list \<Rightarrow> quota_db \<Rightarrow> (string, quota_db) result" where
  "apply_quota_rows consume_now journal now [] db = Inr db"
| "apply_quota_rows consume_now journal now (r # rs) db =
     (if ql_consumed r then apply_quota_rows consume_now journal now rs db
      else case ql_retry_after r of
          Some t \<Rightarrow>
            if now < t then
              (if \<not> consume_now then Inl ''provider quota retry_after''
               else bind_res (consume_early_quota_retry_tx now (ql_id r) journal db)
                      (\<lambda>(_, db'). apply_quota_rows consume_now journal now rs db'))
            else bind_res (mark_quota_reset_elapsed_tx now (ql_id r) db)
                   (\<lambda>(_, db'). apply_quota_rows consume_now journal now rs db')
        | None \<Rightarrow> bind_res (mark_quota_reset_elapsed_tx now (ql_id r) db)
                   (\<lambda>(_, db'). apply_quota_rows consume_now journal now rs db'))"

definition apply_quota_retry_budget_for_stage_tx ::
  "ident \<Rightarrow> ident \<Rightarrow> bool \<Rightarrow> ident \<Rightarrow> datetime \<Rightarrow> quota_db \<Rightarrow> (string, quota_db) result" where
  "apply_quota_retry_budget_for_stage_tx run stage consume_now journal now db =
     apply_quota_rows consume_now journal now (list_quota_for_stage_tx run stage db) db"

end
