(* ===== verification/Provider_Capacity.thy ===== *)
theory Provider_Capacity
  imports Rust_Number
begin

text \<open>
  Provider families and the capacity of the agent scheduler:
  \<^verbatim>\<open>control-plane/crates/domain/src/provider.rs\<close> and \<^verbatim>\<open>control-plane/crates/engine/src/capacity.rs\<close>.
  The environment is a lookup function.
\<close>

section \<open>Provider families\<close>

datatype provider_family = Claude | Gemini | Codex | Auggie | Junie

definition all_families :: "provider_family list" where
  "all_families = [Claude, Gemini, Codex, Auggie, Junie]"

fun family_as_str :: "provider_family \<Rightarrow> string" where
  "family_as_str Claude = ''claude''"
| "family_as_str Gemini = ''gemini''"
| "family_as_str Codex = ''codex''"
| "family_as_str Auggie = ''auggie''"
| "family_as_str Junie = ''junie''"

definition normalize_provider_alias :: "string \<Rightarrow> string" where
  "normalize_provider_alias s =
     map (\<lambda>c. if c = CHR ''-'' then CHR ''_'' else c) (map ascii_lower (trim s))"

definition resolve_family :: "string \<Rightarrow> (string, provider_family) result" where
  "resolve_family raw =
     (let s = normalize_provider_alias raw in
      if s \<in> {''claude'', ''claude_acp'', ''claude_agent'', ''claude_agent_acp''} then Inr Claude
      else if s \<in> {''gemini'', ''gemini_acp'', ''gemini_cli'', ''gemini_cli_acp''} then Inr Gemini
      else if s \<in> {''codex'', ''codex_acp'', ''codex_cli'', ''codex_cli_acp'', ''openai_codex''} then Inr Codex
      else if s \<in> {''auggie'', ''auggie_acp''} then Inr Auggie
      else if s \<in> {''junie'', ''junie_acp''} then Inr Junie
      else Inl (''unknown provider family alias: '' @ raw))"

definition canonicalize_known_alias :: "string \<Rightarrow> string option" where
  "canonicalize_known_alias s =
     (case resolve_family s of Inl _ \<Rightarrow> None | Inr f \<Rightarrow> Some (family_as_str f))"

lemma resolve_as_str [simp]: "resolve_family (family_as_str f) = Inr f"
proof -
  have "resolve_family ''claude'' = Inr Claude" "resolve_family ''gemini'' = Inr Gemini"
    "resolve_family ''codex'' = Inr Codex" "resolve_family ''auggie'' = Inr Auggie"
    "resolve_family ''junie'' = Inr Junie"
    by code_simp+
  then show ?thesis by (cases f) simp_all
qed

lemma canonical_alias_resolves:
  "canonicalize_known_alias s = Some t \<Longrightarrow> \<exists>f. t = family_as_str f \<and> resolve_family t = Inr f \<and> resolve_family s = Inr f"
  by (auto simp: canonicalize_known_alias_def split: sum.splits)

section \<open>Capacity\<close>

record capacity_config =
  cap_global :: nat
  cap_per_run :: nat
  cap_xcode_mcp :: nat
  cap_providers :: "provider_family \<Rightarrow> nat option"

definition provider_cap :: "capacity_config \<Rightarrow> provider_family \<Rightarrow> nat" where
  "provider_cap c f = (case cap_providers c f of None \<Rightarrow> 0 | Some n \<Rightarrow> n)"

fun default_provider_cap :: "provider_family \<Rightarrow> nat" where
  "default_provider_cap Claude = 8"
| "default_provider_cap Gemini = 4"
| "default_provider_cap Codex = 10"
| "default_provider_cap Auggie = 1"
| "default_provider_cap Junie = 1"

definition default_capacity :: capacity_config where
  "default_capacity = \<lparr>cap_global = 20, cap_per_run = 4, cap_xcode_mcp = 4,
     cap_providers = (\<lambda>f. Some (default_provider_cap f))\<rparr>"

text \<open>\<^verbatim>\<open>str::parse::<usize>\<close>: an optional plus sign and digits, below \<open>2 ^ 64\<close>.\<close>

definition parse_usize :: "string \<Rightarrow> nat option" where
  "parse_usize s =
     (let ds = (case s of c # t \<Rightarrow> if c = CHR ''+'' then t else s | [] \<Rightarrow> []) in
      if ds = [] \<or> \<not> list_all is_digit ds then None
      else if digits_val ds < 2 ^ 64 then Some (nat (digits_val ds)) else None)"

definition lookup_usize :: "(string \<Rightarrow> string option) \<Rightarrow> string \<Rightarrow> nat option" where
  "lookup_usize lookup key = Option.bind (lookup key) parse_usize"

definition clamp_cap :: "nat \<Rightarrow> nat \<Rightarrow> nat" where
  "clamp_cap v m = (if m < v then m else v)"

definition ascii_upper :: "char \<Rightarrow> char" where
  "ascii_upper c = (if 97 \<le> byte c \<and> byte c \<le> 122 then char_of (byte c - 32) else c)"

definition provider_cap_env_key :: "provider_family \<Rightarrow> string" where
  "provider_cap_env_key f = ''CHAINWORKS_INVOKE_AGENT_PROVIDER_CAP_'' @ map ascii_upper (family_as_str f)"

definition cap_from :: "(string \<Rightarrow> string option) \<Rightarrow> string \<Rightarrow> nat \<Rightarrow> nat \<Rightarrow> nat" where
  "cap_from lookup key m d = (case lookup_usize lookup key of None \<Rightarrow> d | Some v \<Rightarrow> clamp_cap v m)"

definition invoke_agent_capacity_config_from_lookup :: "(string \<Rightarrow> string option) \<Rightarrow> capacity_config" where
  "invoke_agent_capacity_config_from_lookup lookup =
     \<lparr>cap_global = cap_from lookup ''CHAINWORKS_INVOKE_AGENT_GLOBAL_CAP'' 100 (cap_global default_capacity),
      cap_per_run = cap_from lookup ''CHAINWORKS_INVOKE_AGENT_PER_RUN_CAP'' 20 (cap_per_run default_capacity),
      cap_xcode_mcp = cap_from lookup ''CHAINWORKS_INVOKE_AGENT_XCODE_MCP_CAP'' 16 (cap_xcode_mcp default_capacity),
      cap_providers = (\<lambda>f. if f \<in> set all_families
        then Some (cap_from lookup (provider_cap_env_key f) 50 (provider_cap default_capacity f)) else None)\<rparr>"

lemma cap_from_le: "d \<le> m \<Longrightarrow> cap_from lookup key m d \<le> m"
  by (simp add: cap_from_def clamp_cap_def split: option.split)

text \<open>Whatever the environment says, every family has a cap and no cap is above its safety bound.\<close>

lemma capacity_config_bounds:
  "cap_global (invoke_agent_capacity_config_from_lookup e) \<le> 100
   \<and> cap_per_run (invoke_agent_capacity_config_from_lookup e) \<le> 20
   \<and> cap_xcode_mcp (invoke_agent_capacity_config_from_lookup e) \<le> 16
   \<and> (\<exists>n \<le> 50. cap_providers (invoke_agent_capacity_config_from_lookup e) f = Some n)"
  by (cases f) (auto simp: invoke_agent_capacity_config_from_lookup_def default_capacity_def
      all_families_def provider_cap_def intro!: cap_from_le)

end
