(* ===== verification/Scheduler_Queue.thy ===== *)
theory Scheduler_Queue
  imports Quota_Ledger Provider_Capacity "HOL-Library.Option_ord"
begin

text \<open>
  The scheduler repository, \<^verbatim>\<open>control-plane/crates/db/src/repos/scheduler.rs\<close>: why a pending agent
  invocation waits, the queue summaries, the health snapshots with the hysteresis of sustained
  backpressure, and the queue position of a run or stage. Instants count milliseconds. The
  JSON parser is a parameter; the latencies of commands and the host epochs only label a snapshot.
\<close>

section \<open>Work items\<close>

record work_item_row =
  wi_id :: ident
  wi_kind :: string
  wi_payload_json :: string
  wi_status :: string
  wi_run_id :: "ident option"
  wi_stage_id :: "string option"
  wi_created_at :: datetime
  wi_scheduled_at :: datetime
  wi_started_at :: "datetime option"
  wi_completed_at :: "datetime option"
  wi_failed_at :: "datetime option"
  wi_attempt_count :: int
  wi_last_error :: "string option"
  wi_worktree_resource_key :: "string option"

text \<open>
  The claims compare the stored text with a cutoff written without a fraction of a second, one second
  back: a stored time of the cutoff second, whatever its fraction, is due.
\<close>

definition indexable_due_timestamp :: "datetime \<Rightarrow> int" where
  "indexable_due_timestamp now = (now - 1000) div 1000"

definition is_due :: "datetime \<Rightarrow> work_item_row \<Rightarrow> bool" where
  "is_due now w \<longleftrightarrow> wi_scheduled_at w div 1000 \<le> indexable_due_timestamp now"

record pending_work =
  pw_run_id :: "ident option"
  pw_stage_execution_id :: "ident option"
  pw_provider_family :: "string option"
  pw_model :: "string option"
  pw_scheduled_at :: datetime
  pw_requires_xcode_mcp :: bool
  pw_startup_recovery_requeued :: bool

definition payload_flag :: "json \<Rightarrow> string \<Rightarrow> bool" where
  "payload_flag p k \<longleftrightarrow> get_bool p k = Some True"

definition invoke_payload_requires_xcode_mcp :: "json \<Rightarrow> bool" where
  "invoke_payload_requires_xcode_mcp p \<longleftrightarrow>
     payload_flag p ''xcode_broker_required'' \<or> payload_flag p ''xcode_shim_injection_signal''
     \<or> payload_flag p ''requires_xcode_host_execution''
     \<or> (case get_array p ''requested_mcp_server_ids'' of
          None \<Rightarrow> False
        | Some vs \<Rightarrow> list_ex (\<lambda>v. as_str v = Some ''xcode'' \<or> as_str v = Some ''xcode_broker'') vs)"

definition parse_invoke_agent_work_row ::
  "(string \<Rightarrow> json option) \<Rightarrow> work_item_row \<Rightarrow> (string, pending_work) result" where
  "parse_invoke_agent_work_row from_str w =
     (case from_str (wi_payload_json w) of
        None \<Rightarrow> Inl ''parse InvokeAgent work payload''
      | Some p \<Rightarrow> Inr
          \<lparr>pw_run_id = wi_run_id w, pw_stage_execution_id = get_str p ''stage_execution_id'',
           pw_provider_family = Option.bind (get_str p ''provider'') canonicalize_known_alias,
           pw_model = get_str p ''model'', pw_scheduled_at = wi_scheduled_at w,
           pw_requires_xcode_mcp = invoke_payload_requires_xcode_mcp p,
           pw_startup_recovery_requeued = (json_get p ''p061_startup_recovery'' \<noteq> None)\<rparr>)"

fun map_res :: "('a \<Rightarrow> ('e, 'b) result) \<Rightarrow> 'a list \<Rightarrow> ('e, 'b list) result" where
  "map_res f [] = Inr []"
| "map_res f (x # xs) = bind_res (f x) (\<lambda>y. bind_res (map_res f xs) (\<lambda>ys. Inr (y # ys)))"

definition due_pending :: "datetime \<Rightarrow> work_item_row list \<Rightarrow> work_item_row list" where
  "due_pending now ws =
     sort_key wi_scheduled_at
       (filter (\<lambda>w. wi_kind w = ''invoke_agent'' \<and> wi_status w = ''pending'' \<and> wi_scheduled_at w \<le> now) ws)"

definition load_pending_invoke_agent_work_tx ::
  "(string \<Rightarrow> json option) \<Rightarrow> datetime \<Rightarrow> work_item_row list \<Rightarrow> (string, pending_work list) result" where
  "load_pending_invoke_agent_work_tx from_str now ws =
     map_res (parse_invoke_agent_work_row from_str) (due_pending now ws)"

definition load_running_invoke_agent_work ::
  "(string \<Rightarrow> json option) \<Rightarrow> work_item_row list \<Rightarrow> (string, pending_work list) result" where
  "load_running_invoke_agent_work from_str ws =
     map_res (parse_invoke_agent_work_row from_str)
       (filter (\<lambda>w. wi_kind w = ''invoke_agent'' \<and> wi_status w = ''running'') ws)"

section \<open>Active counts\<close>

definition provider_quota_wait_scope_key :: "string \<Rightarrow> string option \<Rightarrow> string" where
  "provider_quota_wait_scope_key family model =
     family @ ''::'' @
     (case model of
        None \<Rightarrow> ''*''
      | Some m \<Rightarrow> if trim m = [] then ''*'' else map ascii_lower (trim m))"

definition sql_model :: "string option \<Rightarrow> string option" where
  "sql_model m = (case m of None \<Rightarrow> None | Some s \<Rightarrow> if sql_trim s = [] then None else Some (sql_lower (sql_trim s)))"

definition load_provider_quota_wait_scopes :: "datetime \<Rightarrow> quota_db \<Rightarrow> string list" where
  "load_provider_quota_wait_scopes now db =
     concat (map (\<lambda>r. map (\<lambda>a. provider_quota_wait_scope_key (ae_family a) (sql_model (ae_model a)))
         (filter (\<lambda>a. ae_id a = ql_agent_execution_id r \<and> ae_family a \<noteq> []) (qd_agents db)))
       (filter (active_wait now) (qd_ledger db)))"

text \<open>The maps by run and by provider are read with a default of zero.\<close>

record active_counts =
  ac_global :: nat
  ac_xcode_mcp :: nat
  ac_by_run :: "ident \<Rightarrow> nat"
  ac_by_provider :: "string \<Rightarrow> nat"
  ac_quota_wait_scopes :: "string list"

definition running_agents :: "quota_db \<Rightarrow> agent_execution_row list" where
  "running_agents db = filter (\<lambda>a. ae_status a = ''running'') (qd_agents db)"

definition in_run :: "quota_db \<Rightarrow> ident \<Rightarrow> agent_execution_row \<Rightarrow> bool" where
  "in_run db run a \<longleftrightarrow>
     list_ex (\<lambda>s. ae_stage_execution_id a = Some (st_id s) \<and> st_run_id s = run) (qd_stages db)"

definition load_active_counts ::
  "(string \<Rightarrow> json option) \<Rightarrow> datetime \<Rightarrow> work_item_row list \<Rightarrow> quota_db
    \<Rightarrow> (string, quota_db \<times> active_counts) result" where
  "load_active_counts from_str now ws db =
     (let db' = fst (mark_elapsed_provider_quota_waits_tx now db) in
      bind_res (load_running_invoke_agent_work from_str ws) (\<lambda>running. Inr (db',
        \<lparr>ac_global = max (length (running_agents db')) (length running),
         ac_xcode_mcp = length (filter pw_requires_xcode_mcp running),
         ac_by_run = (\<lambda>run. max (length (filter (in_run db' run) (running_agents db')))
                               (length (filter (\<lambda>p. pw_run_id p = Some run) running))),
         ac_by_provider = (\<lambda>f. max (if f = [] then 0
                                    else length (filter (\<lambda>a. ae_provider_family a = Some f) (running_agents db')))
                                   (length (filter (\<lambda>p. pw_provider_family p = Some f) running))),
         ac_quota_wait_scopes = load_provider_quota_wait_scopes now db'\<rparr>)))"

definition quota_scoped :: "string list \<Rightarrow> string \<Rightarrow> string option \<Rightarrow> bool" where
  "quota_scoped scopes family model \<longleftrightarrow>
     list_ex (\<lambda>s. s = provider_quota_wait_scope_key family None
                \<or> s = provider_quota_wait_scope_key family model) scopes"

definition top_reason_for_item :: "capacity_config \<Rightarrow> active_counts \<Rightarrow> pending_work \<Rightarrow> string" where
  "top_reason_for_item cap active item =
     (if pw_startup_recovery_requeued item then ''startup_recovery_backpressure''
      else if pw_requires_xcode_mcp item \<and> cap_xcode_mcp cap \<le> ac_xcode_mcp active then ''xcode_mcp_capacity''
      else if (case pw_run_id item of None \<Rightarrow> False | Some run \<Rightarrow> cap_per_run cap \<le> ac_by_run active run)
      then ''run_capacity''
      else if (case pw_provider_family item of None \<Rightarrow> False
               | Some f \<Rightarrow> quota_scoped (ac_quota_wait_scopes active) f (pw_model item))
      then ''provider_quota_wait''
      else if (case pw_provider_family item of None \<Rightarrow> False
               | Some f \<Rightarrow> (case resolve_family f of Inl _ \<Rightarrow> False
                           | Inr fam \<Rightarrow> provider_cap cap fam \<le> ac_by_provider active f))
      then ''provider_capacity''
      else if cap_global cap \<le> ac_global active then ''global_capacity''
      else ''queued'')"

section \<open>Queue summaries\<close>

text \<open>\<^verbatim>\<open>SummaryKey\<close> in the order of its derived comparison.\<close>

type_synonym summary_key =
  "string \<times> string \<times> ident option \<times> ident option \<times> string option \<times> string"

record queue_summary =
  qs_key :: summary_key
  qs_queued_count :: nat
  qs_oldest_queued_age_ms :: int
  qs_global_queue_depth :: nat

definition age_ms :: "datetime \<Rightarrow> datetime \<Rightarrow> int" where
  "age_ms now t = max (now - t) 0"

definition summary_keys :: "string \<Rightarrow> pending_work \<Rightarrow> summary_key list" where
  "summary_keys reason p =
     (''global'', [], None, None, pw_provider_family p, reason)
     # (case pw_run_id p of None \<Rightarrow> []
        | Some run \<Rightarrow> [(''run'', run, Some run, None, pw_provider_family p, reason)])
     @ (case pw_stage_execution_id p of None \<Rightarrow> []
        | Some stage \<Rightarrow> [(''stage'', stage, pw_run_id p, Some stage, pw_provider_family p, reason)])"

definition summary_of ::
  "datetime \<Rightarrow> nat \<Rightarrow> (pending_work \<Rightarrow> string) \<Rightarrow> pending_work list \<Rightarrow> summary_key \<Rightarrow> queue_summary" where
  "summary_of now depth reason pending k =
     (let items = filter (\<lambda>p. k \<in> set (summary_keys (reason p) p)) pending in
      \<lparr>qs_key = k, qs_queued_count = length items,
       qs_oldest_queued_age_ms = foldl max 0 (map (\<lambda>p. age_ms now (pw_scheduled_at p)) items),
       qs_global_queue_depth = depth\<rparr>)"

definition build_summaries ::
  "datetime \<Rightarrow> (pending_work \<Rightarrow> string) \<Rightarrow> pending_work list \<Rightarrow> queue_summary list" where
  "build_summaries now reason pending =
     map (summary_of now (length pending) reason pending)
       (sort (remdups (concat (map (\<lambda>p. summary_keys (reason p) p) pending))))"

text \<open>The primary key of the table stores an absent provider family as the empty text.\<close>

definition summary_pk :: "queue_summary \<Rightarrow> string \<times> string \<times> string \<times> string" where
  "summary_pk s =
     (case qs_key s of (scope, scope_id, _, _, family, reason) \<Rightarrow>
        (scope, scope_id, (case family of None \<Rightarrow> [] | Some f \<Rightarrow> f), reason))"

section \<open>Backpressure\<close>

record health_snapshot =
  hs_queued_count :: nat
  hs_oldest_queued_age_ms :: int
  hs_active_agent_executions :: nat
  hs_db_writer_wait_p95_ms :: "int option"
  hs_state :: string
  hs_fire :: int
  hs_clear :: int
  hs_updated_at :: datetime

definition sustained_backpressure_threshold_ms :: int where
  "sustained_backpressure_threshold_ms = 300000"

definition sustained_backpressure_clear_ms :: int where
  "sustained_backpressure_clear_ms = 120000"

definition previous_state :: "health_snapshot option \<Rightarrow> string" where
  "previous_state s = (case s of None \<Rightarrow> ''clear'' | Some x \<Rightarrow> hs_state x)"

definition next_sustained_backpressure_state ::
  "health_snapshot option \<Rightarrow> nat \<Rightarrow> int \<Rightarrow> string \<times> int \<times> int" where
  "next_sustained_backpressure_state prev queued oldest =
     (let high = (0 < queued \<and> sustained_backpressure_threshold_ms \<le> oldest);
          clear = (queued = 0 \<or> oldest < sustained_backpressure_clear_ms);
          state = previous_state prev;
          fire = (case prev of None \<Rightarrow> 0 | Some x \<Rightarrow> hs_fire x);
          cleared = (case prev of None \<Rightarrow> 0 | Some x \<Rightarrow> hs_clear x)
      in if high then
           (let n = (if state \<in> {''pending_active'', ''active''} then min (fire + 1) 2 else 1)
            in (if 2 \<le> n then ''active'' else ''pending_active'', n, 0))
         else if clear then
           (if state \<in> {''active'', ''pending_clear''} then
              (let n = min (cleared + 1) 2 in (if 2 \<le> n then ''clear'' else ''pending_clear'', 0, n))
            else (''clear'', 0, 2))
         else if state \<in> {''active'', ''pending_clear''} then (''active'', 2, 0)
         else (''clear'', 0, 0))"

fun reason_priority :: "string \<Rightarrow> int" where
  "reason_priority r =
     (if r = ''provider_quota_wait'' then 7 else if r = ''xcode_mcp_capacity'' then 6
      else if r = ''run_capacity'' then 5 else if r = ''provider_capacity'' then 4
      else if r = ''global_capacity'' then 3 else if r = ''startup_recovery_backpressure'' then 2
      else if r = ''db_writer_capacity'' then 1 else 0)"

definition scope_priority :: "string \<Rightarrow> int" where
  "scope_priority s = (if s = ''stage'' then 2 else if s = ''run'' then 1 else 0)"

text \<open>\<open>summary_less_eq l r\<close>: the comparison of \<^verbatim>\<open>max_by\<close>, which takes the last of the greatest.\<close>

definition summary_less_eq :: "queue_summary \<Rightarrow> queue_summary \<Rightarrow> bool" where
  "summary_less_eq l r \<longleftrightarrow>
     (case (qs_key l, qs_key r) of
        ((ls, li, _, _, _, lr), (rs, ri, _, _, _, rr)) \<Rightarrow>
          (reason_priority lr, qs_oldest_queued_age_ms l, qs_queued_count l, scope_priority ls)
            < (reason_priority rr, qs_oldest_queued_age_ms r, qs_queued_count r, scope_priority rs)
          \<or> (reason_priority lr, qs_oldest_queued_age_ms l, qs_queued_count l, scope_priority ls)
            = (reason_priority rr, qs_oldest_queued_age_ms r, qs_queued_count r, scope_priority rs)
            \<and> ri \<le> li)"

definition select_notification_summary :: "queue_summary list \<Rightarrow> queue_summary option" where
  "select_notification_summary ss =
     (case ss of [] \<Rightarrow> None
      | s # rest \<Rightarrow> Some (foldl (\<lambda>a b. if summary_less_eq a b then b else a) s rest))"

record backpressure_notification =
  bn_summary :: "queue_summary option"
  bn_top_reason :: string
  bn_queued_count :: nat
  bn_oldest_queued_age_ms :: int
  bn_state :: string
  bn_updated_at :: datetime

definition backpressure_notification_from_parts ::
  "health_snapshot \<Rightarrow> queue_summary option \<Rightarrow> backpressure_notification" where
  "backpressure_notification_from_parts h s =
     \<lparr>bn_summary = s,
      bn_top_reason = (case s of None \<Rightarrow> ''clear'' | Some x \<Rightarrow> snd (snd (snd (snd (snd (qs_key x)))))),
      bn_queued_count = (case s of None \<Rightarrow> hs_queued_count h | Some x \<Rightarrow> qs_queued_count x),
      bn_oldest_queued_age_ms = hs_oldest_queued_age_ms h, bn_state = hs_state h,
      bn_updated_at = hs_updated_at h\<rparr>"

definition crossed_notification_boundary :: "string \<Rightarrow> health_snapshot \<Rightarrow> bool" where
  "crossed_notification_boundary prev h \<longleftrightarrow>
     hs_state h = ''active'' \<and> prev = ''pending_active'' \<and> 2 \<le> hs_fire h
     \<or> hs_state h = ''clear'' \<and> prev = ''pending_clear'' \<and> 2 \<le> hs_clear h"

definition notification_for_state_transition ::
  "string \<Rightarrow> health_snapshot \<Rightarrow> queue_summary list \<Rightarrow> backpressure_notification option" where
  "notification_for_state_transition prev h ss =
     (if crossed_notification_boundary prev h
      then Some (backpressure_notification_from_parts h (select_notification_summary ss)) else None)"

section \<open>Percentiles\<close>

definition p95_ms :: "int list \<Rightarrow> int option" where
  "p95_ms vs =
     (if vs = [] then None
      else let rank = max ((length vs * 95 + 99) div 100) 1 in Some (sort vs ! (rank - 1)))"

definition db_writer_wait_p95_ms :: "(datetime \<times> int) list \<Rightarrow> int option" where
  "db_writer_wait_p95_ms obs = p95_ms (map snd (take 200 (rev (sort_key fst obs))))"

section \<open>The refresh\<close>

record scheduler_db =
  sd_quota :: quota_db
  sd_items :: "work_item_row list"
  sd_summaries :: "queue_summary list"
  sd_snapshots :: "health_snapshot list"
  sd_observations :: "(datetime \<times> int) list"
  sd_last_served :: "ident \<Rightarrow> datetime option"

definition latest_health_snapshot :: "scheduler_db \<Rightarrow> health_snapshot option" where
  "latest_health_snapshot db = newest hs_updated_at (sd_snapshots db)"

definition refresh_queue_summaries_for_notification_tx ::
  "(string \<Rightarrow> json option) \<Rightarrow> capacity_config \<Rightarrow> datetime \<Rightarrow> datetime \<Rightarrow> int \<Rightarrow> scheduler_db
    \<Rightarrow> (string, scheduler_db \<times> backpressure_notification option) result" where
  "refresh_queue_summaries_for_notification_tx from_str cap now load_now wait_ms db =
     bind_res (load_pending_invoke_agent_work_tx from_str now (sd_items db)) (\<lambda>pending.
     bind_res (load_active_counts from_str load_now (sd_items db) (sd_quota db)) (\<lambda>(quota, active).
       let summaries = build_summaries now (top_reason_for_item cap active) pending;
           observations = sd_observations db @ [(now, max wait_ms 0)];
           oldest = foldl max 0 (map (\<lambda>p. age_ms now (pw_scheduled_at p)) pending);
           prev = latest_health_snapshot db;
           (state, fire, clear) = next_sustained_backpressure_state prev (length pending) oldest;
           snapshot = \<lparr>hs_queued_count = length pending, hs_oldest_queued_age_ms = oldest,
             hs_active_agent_executions = ac_global active,
             hs_db_writer_wait_p95_ms = db_writer_wait_p95_ms observations,
             hs_state = state, hs_fire = fire, hs_clear = clear, hs_updated_at = now\<rparr>
       in if \<not> distinct (map summary_pk summaries) then Inl ''UNIQUE constraint failed''
          else Inr (db\<lparr>sd_quota := quota, sd_summaries := summaries,
                       sd_snapshots := sd_snapshots db @ [snapshot], sd_observations := observations\<rparr>,
                    notification_for_state_transition (previous_state prev) snapshot summaries)))"

section \<open>Queue positions\<close>

datatype queue_scope = RunScope ident | StageScope ident

definition scope_matches :: "queue_scope \<Rightarrow> pending_work \<Rightarrow> bool" where
  "scope_matches s p =
     (case s of RunScope r \<Rightarrow> pw_run_id p = Some r | StageScope t \<Rightarrow> pw_stage_execution_id p = Some t)"

record queue_position_hint =
  qh_queue_position :: nat
  qh_global_queue_depth :: nat
  qh_queued_ahead_count :: nat
  qh_scoped_queued_count :: nat
  qh_oldest_queued_age_ms :: int

definition first_index :: "(pending_work \<Rightarrow> bool) \<Rightarrow> pending_work list \<Rightarrow> nat" where
  "first_index P ps = length (takeWhile (\<lambda>p. \<not> P p) ps)"

definition queue_position_hint_by_scope ::
  "(string \<Rightarrow> json option) \<Rightarrow> datetime \<Rightarrow> queue_scope \<Rightarrow> scheduler_db \<Rightarrow> (string, queue_position_hint option) result" where
  "queue_position_hint_by_scope from_str now scope db =
     bind_res (load_pending_invoke_agent_work_tx from_str now (sd_items db)) (\<lambda>ps.
       let mine = filter (scope_matches scope) ps in
       if mine = [] then Inr None
       else let i = first_index (scope_matches scope) ps in
         Inr (Some \<lparr>qh_queue_position = i + 1, qh_global_queue_depth = length ps, qh_queued_ahead_count = i,
           qh_scoped_queued_count = length mine,
           qh_oldest_queued_age_ms = foldl max 0 (map (\<lambda>p. age_ms now (pw_scheduled_at p)) mine)\<rparr>))"

end
