(* ===== verification/Agent_Admission.thy ===== *)
theory Agent_Admission
  imports Scheduler_Queue
begin

text \<open>
  Admission of agent invocations in \<^verbatim>\<open>control-plane/crates/engine/src/executor.rs\<close>: the capacity
  check of a pending work item, the candidates of a claim with their ranking by the last service
  of their run. The parser of payloads and the authority of a retry (the active authority of its
  target stage with the parsed journal payload) are parameters.
\<close>

section \<open>Capacity\<close>

record start_capacity =
  sc_max_active_total :: nat
  sc_max_active_per_run :: nat
  sc_max_active_xcode_mcp :: nat
  sc_provider_caps :: "string \<rightharpoonup> nat"

definition scheduler_capacity_config_from_start_capacity ::
  "(string \<times> nat) list \<Rightarrow> start_capacity \<Rightarrow> capacity_config" where
  "scheduler_capacity_config_from_start_capacity caps c =
     \<lparr>cap_global = sc_max_active_total c, cap_per_run = sc_max_active_per_run c,
      cap_xcode_mcp = sc_max_active_xcode_mcp c,
      cap_providers = (\<lambda>f. map_of (rev (map (\<lambda>(k, n). (resolve_family k, n)) caps)) (Inr f))\<rparr>"

text \<open>A Junie execution whose provider has not been launched does not count.\<close>

definition in_preflight :: "quota_db \<Rightarrow> agent_execution_row \<Rightarrow> bool" where
  "in_preflight db a \<longleftrightarrow>
     ae_family a = ''junie''
     \<and> list_ex (\<lambda>f. rf_agent_execution_id f = ae_id a
          \<and> rf_preflight_phase f \<in> {Some ''preflight_running'', Some ''preflight_remediating''}
          \<and> rf_provider_launched f \<noteq> Some True) (qd_facts db)"

definition counted_agents :: "quota_db \<Rightarrow> agent_execution_row list" where
  "counted_agents db = filter (\<lambda>a. \<not> in_preflight db a) (running_agents db)"

definition running_xcode_mcp_invoke_agent_count :: "(string \<Rightarrow> json option) \<Rightarrow> work_item_row list \<Rightarrow> nat" where
  "running_xcode_mcp_invoke_agent_count from_str ws =
     length (filter (\<lambda>w. wi_kind w = ''invoke_agent'' \<and> wi_status w = ''running''
       \<and> (case from_str (wi_payload_json w) of None \<Rightarrow> False | Some p \<Rightarrow> invoke_payload_requires_xcode_mcp p)) ws)"

section \<open>Waiting\<close>

definition quota_wait_reason :: "(datetime \<Rightarrow> string) \<Rightarrow> string \<Rightarrow> quota_row \<Rightarrow> string" where
  "quota_wait_reason rfc3339 family r =
     ''provider_quota_wait: provider_family='' @ family
     @ ''; retry_after='' @ (case ql_retry_after r of None \<Rightarrow> [] | Some t \<Rightarrow> rfc3339 t)
     @ ''; blocking_ledger_id='' @ ql_id r @ ''; blocking_run_id='' @ ql_run_id r
     @ ''; blocking_agent_execution_id='' @ ql_agent_execution_id r"

definition record_pending_invoke_agent_wait_reason :: "ident \<Rightarrow> string \<Rightarrow> scheduler_db \<Rightarrow> scheduler_db" where
  "record_pending_invoke_agent_wait_reason i reason db =
     db\<lparr>sd_items := sql_update (\<lambda>w. wi_id w = i \<and> wi_status w = ''pending'' \<and> wi_kind w = ''invoke_agent'')
        (\<lambda>w. w\<lparr>wi_last_error := Some reason\<rparr>) (sd_items db)\<rparr>"

definition record_provider_quota_wait_on_pending_item ::
  "(datetime \<Rightarrow> string) \<Rightarrow> work_item_row \<Rightarrow> string \<Rightarrow> quota_row \<Rightarrow> scheduler_db \<Rightarrow> scheduler_db" where
  "record_provider_quota_wait_on_pending_item rfc3339 item family r db =
     (let reason = quota_wait_reason rfc3339 family r in
      if wi_last_error item = Some reason then db
      else record_pending_invoke_agent_wait_reason (wi_id item) reason db)"

section \<open>The check\<close>

text \<open>What the check needs from outside: parsing, formatting, the retry authority of a stage.\<close>

record admission_world =
  aw_from_str :: "string \<Rightarrow> json option"
  aw_rfc3339 :: "datetime \<Rightarrow> string"
  aw_stage_id_parses :: "string \<Rightarrow> bool"
  aw_authority :: "ident \<Rightarrow> (string, (ident \<times> json) option) result"

definition quota_gate ::
  "admission_world \<Rightarrow> datetime \<Rightarrow> work_item_row \<Rightarrow> json \<Rightarrow> string \<Rightarrow> scheduler_db
    \<Rightarrow> (string, scheduler_db \<times> bool) result" where
  "quota_gate w now item p family db =
     (let model = get_str p ''model'';
          (quota, wait) = active_provider_family_quota_wait family model now (sd_quota db);
          db1 = db\<lparr>sd_quota := quota\<rparr>
      in case wait of
           None \<Rightarrow> Inr (db1, True)
         | Some r \<Rightarrow>
             (case get_str p ''stage_execution_id'' of
                None \<Rightarrow> Inr (record_provider_quota_wait_on_pending_item (aw_rfc3339 w) item family r db1, False)
              | Some stage \<Rightarrow>
                  if \<not> aw_stage_id_parses w stage
                  then Inr (record_provider_quota_wait_on_pending_item (aw_rfc3339 w) item family r db1, False)
                  else bind_res (consume_active_provider_family_quota_for_retry_target_tx (aw_authority w stage)
                                   family model now (sd_quota db1))
                    (\<lambda>(quota2, consumed).
                       let db2 = db1\<lparr>sd_quota := quota2\<rparr> in
                       case consumed of
                         Some _ \<Rightarrow> Inr (db2, True)
                       | None \<Rightarrow> Inr (record_provider_quota_wait_on_pending_item (aw_rfc3339 w) item family r db2,
                                      False))))"

definition below_caps :: "start_capacity \<Rightarrow> string \<Rightarrow> work_item_row \<Rightarrow> quota_db \<Rightarrow> bool" where
  "below_caps cap family item db \<longleftrightarrow>
     length (counted_agents db) < sc_max_active_total cap
     \<and> (case wi_run_id item of None \<Rightarrow> True
        | Some run \<Rightarrow> length (filter (in_run db run) (counted_agents db)) < sc_max_active_per_run cap)
     \<and> (case sc_provider_caps cap family of None \<Rightarrow> True
        | Some n \<Rightarrow> length (filter (\<lambda>a. ae_family a = family) (counted_agents db)) < n)"

definition item_family :: "string \<Rightarrow> string" where
  "item_family provider = (case canonicalize_known_alias provider of None \<Rightarrow> provider | Some f \<Rightarrow> f)"

definition invoke_item_has_start_capacity ::
  "admission_world \<Rightarrow> start_capacity \<Rightarrow> datetime \<Rightarrow> work_item_row \<Rightarrow> scheduler_db
    \<Rightarrow> (string, scheduler_db \<times> bool) result" where
  "invoke_item_has_start_capacity w cap now item db =
     (case aw_from_str w (wi_payload_json item) of
        None \<Rightarrow> Inl ''payload_json''
      | Some p \<Rightarrow>
          let provider = (case get_str p ''provider'' of None \<Rightarrow> [] | Some s \<Rightarrow> s);
              family = item_family provider
          in if provider = [] then Inr (db, False)
             else if invoke_payload_requires_xcode_mcp p
                  \<and> sc_max_active_xcode_mcp cap \<le> running_xcode_mcp_invoke_agent_count (aw_from_str w) (sd_items db)
             then Inr (db, False)
             else bind_res (quota_gate w now item p family db) (\<lambda>(db', ok).
               Inr (db', ok \<and> below_caps cap family item (sd_quota db'))))"

section \<open>Candidates\<close>

definition select_pending_invoke_agents_for_start :: "datetime \<Rightarrow> nat \<Rightarrow> work_item_row list \<Rightarrow> work_item_row list" where
  "select_pending_invoke_agents_for_start now limit ws =
     take limit (sort_key wi_scheduled_at
       (filter (\<lambda>w. wi_kind w = ''invoke_agent'' \<and> wi_status w = ''pending'' \<and> is_due now w) ws))"

definition served_key :: "scheduler_db \<Rightarrow> work_item_row \<Rightarrow> datetime option \<times> datetime \<times> datetime \<times> ident" where
  "served_key db w =
     (Option.bind (wi_run_id w) (sd_last_served db), wi_scheduled_at w, wi_created_at w, wi_id w)"

definition ranked_candidates :: "datetime \<Rightarrow> scheduler_db \<Rightarrow> work_item_row list" where
  "ranked_candidates now db = sort_key (served_key db) (select_pending_invoke_agents_for_start now 128 (sd_items db))"

text \<open>The first candidate that may start, and the database its checks leave behind.\<close>

fun first_admitted ::
  "admission_world \<Rightarrow> start_capacity \<Rightarrow> datetime \<Rightarrow> work_item_row list \<Rightarrow> scheduler_db
    \<Rightarrow> (string, scheduler_db \<times> work_item_row option) result" where
  "first_admitted w cap now [] db = Inr (db, None)"
| "first_admitted w cap now (item # items) db =
     bind_res (invoke_item_has_start_capacity w cap now item db) (\<lambda>(db', ok).
       if ok then Inr (db', Some item) else first_admitted w cap now items db')"

definition has_capacity_eligible_pending_invoke_agent_for_start ::
  "admission_world \<Rightarrow> start_capacity \<Rightarrow> datetime \<Rightarrow> scheduler_db \<Rightarrow> (string, scheduler_db \<times> bool) result" where
  "has_capacity_eligible_pending_invoke_agent_for_start w cap now db =
     bind_res (first_admitted w cap now (select_pending_invoke_agents_for_start now 128 (sd_items db)) db)
       (\<lambda>(db', i). Inr (db', i \<noteq> None))"

end
