(* ===== verification/Quota_Properties.thy ===== *)
theory Quota_Properties
  imports Quota_Ledger
begin

text \<open>
  The quota ledger as a set of tokens: a recorded failure waits or is elapsed until a retry
  charges it, and a charge is final. Every operation of the repository is a step of that
  abstract machine, on any interleaving.
\<close>

section \<open>Steps\<close>

inductive quota_step :: "quota_db \<Rightarrow> quota_db \<Rightarrow> bool" where
  upsert: "upsert_quota_failure_for_owner_tx f i now run kind owner stage agent t db = Inr (r, db') \<Longrightarrow> quota_step db db'"
| reset: "mark_quota_reset_elapsed_tx now i db = Inr (r, db') \<Longrightarrow> quota_step db db'"
| elapsed: "mark_elapsed_provider_quota_waits_tx now db = (db', n) \<Longrightarrow> quota_step db db'"
| deferred: "defer_reset_elapsed_retry_tx i t now db = Inr (r, db') \<Longrightarrow> quota_step db db'"
| reconciled: "reconcile_historical_quota_reset_tx i t now db = Inr (r, db') \<Longrightarrow> quota_step db db'"
| scheduled: "mark_reset_elapsed_retry_scheduled_tx now i j db = Inr (r, db') \<Longrightarrow> quota_step db db'"
| early: "consume_early_quota_retry_tx now i j db = Inr (r, db') \<Longrightarrow> quota_step db db'"
| override: "consume_active_provider_family_quota_for_operator_override_tx fam m now j db = (db', n) \<Longrightarrow> quota_step db db'"
| target: "consume_active_provider_family_quota_for_retry_target_tx a fam m now db = Inr (db', c) \<Longrightarrow> quota_step db db'"
| elsewhere: "qd_ledger db' = qd_ledger db \<Longrightarrow> quota_step db db'"

section \<open>Tokens\<close>

datatype quota_token = Waiting | Elapsed | Charged ident

definition token :: "quota_row \<Rightarrow> quota_token" where
  "token r =
     (if ql_consumed r then Charged (case ql_early_retry_journal_id r of None \<Rightarrow> [] | Some j \<Rightarrow> j)
      else if ql_state r = ''waiting_for_reset'' then Waiting else Elapsed)"

text \<open>A token that is not charged may become anything, a charged one stays.\<close>

definition token_moves :: "quota_token \<Rightarrow> quota_token \<Rightarrow> bool" where
  "token_moves t t' \<longleftrightarrow> (case t of Charged j \<Rightarrow> t' = Charged j | _ \<Rightarrow> True)"

definition row_moves :: "quota_row \<Rightarrow> quota_row \<Rightarrow> bool" where
  "row_moves r r' \<longleftrightarrow> ql_id r' = ql_id r \<and> same_owner r r' \<and> ql_agent_execution_id r' = ql_agent_execution_id r
     \<and> token_moves (token r) (token r')"

text \<open>The rows of a ledger move in place, new rows come last.\<close>

abbreviation ledger_moves :: "quota_row list \<Rightarrow> quota_row list \<Rightarrow> bool" where
  "ledger_moves \<equiv> table_moves row_moves"

lemma token_moves_refl [simp]: "token_moves t t"
  by (simp add: token_moves_def split: quota_token.split)

lemma token_moves_trans: "token_moves t u \<Longrightarrow> token_moves u v \<Longrightarrow> token_moves t v"
  by (auto simp: token_moves_def split: quota_token.splits)

lemma row_moves_refl [simp]: "row_moves r r"
  by (simp add: row_moves_def same_owner_def)

lemma row_moves_trans: "row_moves r s \<Longrightarrow> row_moves s t \<Longrightarrow> row_moves r t"
  by (auto simp: row_moves_def same_owner_def intro: token_moves_trans)

lemma uncharged_moves: "\<not> ql_consumed r \<Longrightarrow> token_moves (token r) t"
  by (simp add: token_def token_moves_def)

lemma row_moves_charged: "row_moves r r' \<Longrightarrow> ql_consumed r \<Longrightarrow> ql_id r' = ql_id r \<and> ql_consumed r'"
  by (auto simp: row_moves_def token_moves_def token_def split: if_splits)

interpretation ledger: row_order row_moves
  by unfold_locales (simp, erule row_moves_trans)

section \<open>The steps are moves\<close>

text \<open>A charge names the retry: a row is charged exactly when a journal entry is recorded with it.\<close>

definition quota_inv :: "quota_db \<Rightarrow> bool" where
  "quota_inv db \<longleftrightarrow>
     (\<forall>r \<in> set (qd_ledger db). ql_consumed r \<longleftrightarrow> ql_early_retry_journal_id r \<noteq> None)
     \<and> distinct (map ql_id (qd_ledger db)) \<and> distinct (map ql_idempotency_key (qd_ledger db))"

definition row_inv :: "quota_row \<Rightarrow> bool" where
  "row_inv r \<longleftrightarrow> (ql_consumed r \<longleftrightarrow> ql_early_retry_journal_id r \<noteq> None)"

text \<open>A column update keeps the identity of a row and either leaves the charge alone or consumes it.\<close>

definition charge_update :: "(quota_row \<Rightarrow> quota_row) \<Rightarrow> bool" where
  "charge_update f \<longleftrightarrow>
     (\<forall>r. ql_id (f r) = ql_id r \<and> same_owner r (f r) \<and> ql_agent_execution_id (f r) = ql_agent_execution_id r
        \<and> ql_idempotency_key (f r) = ql_idempotency_key r)
     \<and> ((\<forall>r. ql_consumed (f r) = ql_consumed r \<and> ql_early_retry_journal_id (f r) = ql_early_retry_journal_id r)
        \<or> (\<exists>s j now. f = consume s j now))"

lemma charge_update_row:
  assumes "charge_update f" "row_inv r"
  shows "row_moves r (f r)" "row_inv (f r)"
  using assms by (auto simp: charge_update_def row_moves_def row_inv_def token_def token_moves_def consume_def
      split: option.splits)

lemma charge_update_consume: "charge_update (consume s j now)"
  unfolding charge_update_def by (auto simp: consume_def same_owner_def)

lemma charge_update_columns:
  "charge_update (\<lambda>r. r\<lparr>ql_retry_after := t, ql_state := s, ql_updated_at := u\<rparr>)"
  "charge_update (\<lambda>r. r\<lparr>ql_state := s, ql_updated_at := u\<rparr>)"
  by (auto simp: charge_update_def same_owner_def)

lemma quota_inv_rows: "quota_inv db \<longleftrightarrow> (\<forall>r \<in> set (qd_ledger db). row_inv r)
     \<and> distinct (map ql_id (qd_ledger db)) \<and> distinct (map ql_idempotency_key (qd_ledger db))"
  by (simp add: quota_inv_def row_inv_def)

lemma ledger_update_moves:
  assumes "charge_update f" "quota_inv db"
  shows "ledger_moves (qd_ledger db) (qd_ledger (ledger_update P f db))" "quota_inv (ledger_update P f db)"
proof -
  show "ledger_moves (qd_ledger db) (qd_ledger (ledger_update P f db))"
    using assms charge_update_row by (auto simp: ledger_update_def quota_inv_rows intro!: ledger.table_update)
  have "map k (sql_update P f l) = map k l" if "k = ql_id \<or> k = ql_idempotency_key" for k l
    using assms(1) that by (intro map_sql_update) (auto simp: charge_update_def)
  then show "quota_inv (ledger_update P f db)"
    using assms charge_update_row(2) by (auto simp: quota_inv_rows ledger_update_def set_sql_update)
qed

lemma upsert_moves:
  assumes "upsert_quota_failure_for_owner_tx f i now run kind owner stage agent t db = Inr (r, db')" "quota_inv db"
  shows "ledger_moves (qd_ledger db) (qd_ledger db') \<and> quota_inv db'"
proof -
  let ?k = "quota_key f run kind owner agent t"
  let ?same = "\<lambda>x. ql_idempotency_key x = ?k"
  let ?g = "\<lambda>x. x\<lparr>ql_retry_after := t, ql_state := quota_state now t, ql_updated_at := now\<rparr>"
  show ?thesis
  proof (cases "list_ex ?same (qd_ledger db)")
    case True
    then have "db' = ledger_update ?same ?g db"
      using assms(1) by (auto simp: upsert_quota_failure_for_owner_tx_def Let_def ledger_update_def split: if_splits)
    then show ?thesis
      using ledger_update_moves[OF charge_update_columns(1) assms(2)] by auto
  next
    case False
    then obtain x where x: "qd_ledger db' = qd_ledger db @ [x]" "\<not> ql_consumed x"
        "ql_early_retry_journal_id x = None" "ql_idempotency_key x = ?k" "ql_id x = i"
        "\<not> list_ex (\<lambda>x. ql_id x = i) (qd_ledger db)"
      using assms(1) by (auto simp: upsert_quota_failure_for_owner_tx_def Let_def split: if_splits)
    then show ?thesis
      using False assms(2) by (auto simp: quota_inv_def list_ex_iff ledger.table_snoc)
  qed
qed

lemma retry_target_cases:
  assumes "consume_active_provider_family_quota_for_retry_target_tx a fam m now db = Inr (db', c)"
  obtains "db' = db" "c = None"
  | j where "db' = ledger_update (family_wait fam m now db) (consume ''early_retry_consumed'' j now) db"
proof -
  obtain x where "a = Inr x" using assms by (cases a) (auto simp: consume_active_provider_family_quota_for_retry_target_tx_def)
  then show ?thesis
    using assms that
    by (cases x) (auto simp: consume_active_provider_family_quota_for_retry_target_tx_def
        consume_active_provider_family_quota_for_operator_override_tx_def Let_def split: if_splits)
qed

lemma quota_step_moves:
  assumes "quota_step db db'" "quota_inv db"
  shows "ledger_moves (qd_ledger db) (qd_ledger db') \<and> quota_inv db'"
  using assms
proof cases
  case (upsert f i now run kind owner stage agent t r)
  then show ?thesis using upsert_moves[OF upsert assms(2)] by simp
next
  case elsewhere
  then show ?thesis using assms(2) ledger.table_refl by (simp add: quota_inv_def)
next
  case (target a fam m now c)
  then show ?thesis
    using assms(2) ledger.table_refl ledger_update_moves[OF charge_update_consume assms(2)]
    by (cases rule: retry_target_cases) auto
qed (use assms(2) ledger_update_moves[OF charge_update_consume assms(2)]
      ledger_update_moves[OF charge_update_columns(1) assms(2)]
      ledger_update_moves[OF charge_update_columns(2) assms(2)] in
    \<open>auto simp: mark_quota_reset_elapsed_tx_def mark_elapsed_provider_quota_waits_tx_def
      defer_reset_elapsed_retry_tx_def reconcile_historical_quota_reset_tx_def update_one_def
      mark_reset_elapsed_retry_scheduled_tx_def consume_early_quota_retry_tx_def Let_def
      consume_active_provider_family_quota_for_operator_override_tx_def split: if_splits\<close>)

interpretation quota: guarded_system "\<lambda>db. qd_ledger db = []" quota_step quota_inv
proof
  show "quota_inv s" if "qd_ledger s = []" for s using that by (simp add: quota_inv_def)
  show "quota_inv t" if "quota_inv s" "quota_step s t" for s t using that quota_step_moves by blast
qed

lemma quota_run_moves:
  assumes "quota_inv db" "quota_step\<^sup>*\<^sup>* db db'"
  shows "ledger_moves (qd_ledger db) (qd_ledger db')" "quota_inv db'"
proof -
  show "ledger_moves (qd_ledger db) (qd_ledger db')"
    using quota.run_relation[where R = "\<lambda>d d'. ledger_moves (qd_ledger d) (qd_ledger d')"] assms
      ledger.table_refl ledger.table_trans quota_step_moves by blast
  show "quota_inv db'" using quota.run_inv assms by blast
qed

section \<open>Charges\<close>

text \<open>
  C19: the ledger is a machine of tokens: along every run of the repository its rows keep their
  place and identifier, their run, the kind and identifier of their owner and their agent execution; a token
  that is charged stays charged, one that waits or has elapsed may still change; and a charge keeps the
  journal entry of the retry that made it first. New rows come last.
\<close>

theorem quota_ledger_refines_tokens:
  assumes "reachable_from (\<lambda>db. qd_ledger db = []) quota_step db" and "quota_step\<^sup>*\<^sup>* db db'"
  shows "\<exists>m n. qd_ledger db' = m @ n \<and> map ql_id m = map ql_id (qd_ledger db)
      \<and> map ql_run_id m = map ql_run_id (qd_ledger db) \<and> map ql_owner_kind m = map ql_owner_kind (qd_ledger db)
      \<and> map ql_owner_id m = map ql_owner_id (qd_ledger db)
      \<and> map ql_agent_execution_id m = map ql_agent_execution_id (qd_ledger db)
      \<and> list_all2 token_moves (map token (qd_ledger db)) (map token m)
      \<and> list_all2 (\<lambda>r r'. ql_consumed r \<longrightarrow> ql_consumed r'
           \<and> ql_early_retry_journal_id r' = ql_early_retry_journal_id r \<and> ql_early_retry_journal_id r \<noteq> None)
          (qd_ledger db) m"
proof -
  have inv: "quota_inv db" "quota_inv db'"
    using quota.reachable_inv quota_run_moves(2) assms by blast+
  obtain m n where m: "qd_ledger db' = m @ n" "list_all2 row_moves (qd_ledger db) m"
    using quota_run_moves(1)[OF inv(1) assms(2)] by (auto simp: table_moves_def)
  have "ql_consumed r' \<and> ql_early_retry_journal_id r' = ql_early_retry_journal_id r \<and> ql_early_retry_journal_id r \<noteq> None"
    if "row_moves r r'" "r \<in> set (qd_ledger db)" "r' \<in> set m" "ql_consumed r" for r r'
    using that inv m(1) by (auto simp: row_moves_def token_moves_def token_def quota_inv_def split: if_splits)
  then have "list_all2 (\<lambda>r r'. ql_consumed r \<longrightarrow> ql_consumed r'
      \<and> ql_early_retry_journal_id r' = ql_early_retry_journal_id r \<and> ql_early_retry_journal_id r \<noteq> None) (qd_ledger db) m"
    using m(2) by (auto simp: list_all2_conv_all_nth)
  moreover have "map ql_id m = map ql_id (qd_ledger db)" "map ql_run_id m = map ql_run_id (qd_ledger db)"
    "map ql_owner_kind m = map ql_owner_kind (qd_ledger db)" "map ql_owner_id m = map ql_owner_id (qd_ledger db)"
    "map ql_agent_execution_id m = map ql_agent_execution_id (qd_ledger db)"
    "list_all2 token_moves (map token (qd_ledger db)) (map token m)"
    using m(2) by (auto simp: list_all2_conv_all_nth row_moves_def same_owner_def list_eq_iff_nth_eq)
  ultimately show ?thesis using m(1) by blast
qed

definition newly_charged :: "quota_db \<Rightarrow> quota_db \<Rightarrow> ident set" where
  "newly_charged db db' =
     {ql_id r | r r'. r \<in> set (qd_ledger db) \<and> r' \<in> set (qd_ledger db') \<and> ql_id r' = ql_id r
        \<and> \<not> ql_consumed r \<and> ql_consumed r'}"

lemma scheduled_charges:
  assumes "mark_reset_elapsed_retry_scheduled_tx now i j db = Inr (r, db')"
  shows "newly_charged db db' \<noteq> {}"
proof -
  let ?c = "consume ''reset_elapsed_retry_scheduled'' j now"
  have db': "db' = ledger_update (schedulable i db) ?c db"
    and "rows_affected (schedulable i db) (qd_ledger db) \<noteq> 0"
    using assms by (auto simp: mark_reset_elapsed_retry_scheduled_tx_def Let_def split: if_splits)
  then obtain x where x: "x \<in> set (qd_ledger db)" "schedulable i db x" by (auto simp: rows_affected_eq_0)
  then have "?c x \<in> set (qd_ledger db')" by (auto simp: db' ledger_update_def set_sql_update)
  moreover have "ql_id (?c x) = ql_id x" "ql_consumed (?c x)" "\<not> ql_consumed x"
    using x(2) by (simp_all add: consume_def schedulable_def)
  ultimately show ?thesis using x(1) unfolding newly_charged_def by blast
qed

text \<open>
  C24: a quota failure is retried automatically at most once: whatever happens between two
  scheduled retries, each charges a failure and no failure is charged by both.
\<close>

theorem auto_retry_charges_once:
  assumes "reachable_from (\<lambda>db. qd_ledger db = []) quota_step db"
    and "mark_reset_elapsed_retry_scheduled_tx now i j db = Inr (r, db1)"
    and "quota_step\<^sup>*\<^sup>* db1 db2"
    and "mark_reset_elapsed_retry_scheduled_tx now' i' j' db2 = Inr (r', db3)"
  shows "newly_charged db db1 \<noteq> {} \<and> newly_charged db2 db3 \<noteq> {} \<and> newly_charged db db1 \<inter> newly_charged db2 db3 = {}"
proof -
  have inv1: "quota_inv db1"
    using quota.reachable_inv[OF assms(1)] quota_step_moves[OF quota_step.scheduled[OF assms(2)]] by blast
  note moves = quota_run_moves[OF inv1 assms(3)]
  have "x \<notin> newly_charged db2 db3" if charged: "x \<in> newly_charged db db1" for x
  proof
    assume "x \<in> newly_charged db2 db3"
    then obtain q where q: "q \<in> set (qd_ledger db2)" "ql_id q = x" "\<not> ql_consumed q" by (auto simp: newly_charged_def)
    obtain p where "p \<in> set (qd_ledger db1)" "ql_id p = x" "ql_consumed p" using charged by (auto simp: newly_charged_def)
    then obtain p' where p': "p' \<in> set (qd_ledger db2)" "ql_id p' = x" "ql_consumed p'"
      using table_moves_mem[OF moves(1)] row_moves_charged by metis
    have "distinct (map ql_id (qd_ledger db2))" using moves(2) by (simp add: quota_inv_def)
    then have "q = p'" using q(1,2) p'(1,2) key_unique by metis
    with q p' show False by simp
  qed
  then show ?thesis using scheduled_charges[OF assms(2)] scheduled_charges[OF assms(4)] by blast
qed

section \<open>Waits\<close>

lemma elapsed_not_active: "elapsed_wait now r \<Longrightarrow> \<not> active_wait now r"
  by (auto simp: elapsed_wait_def active_wait_def split: option.splits)

lemma reset_elapsed_not_active: "\<not> active_wait now (r\<lparr>ql_state := ''reset_elapsed'', ql_updated_at := t\<rparr>)"
  by (simp add: active_wait_def)

lemma family_wait_after_mark:
  "{r \<in> set (qd_ledger (fst (mark_elapsed_provider_quota_waits_tx now db))).
      family_wait fam model now (fst (mark_elapsed_provider_quota_waits_tx now db)) r}
   = {r \<in> set (qd_ledger db). family_wait fam model now db r}"
  using elapsed_not_active reset_elapsed_not_active
  unfolding mark_elapsed_provider_quota_waits_tx_def ledger_update_def family_wait_def
  by (simp add: set_sql_update) blast

lemma fetch_first_sorted:
  assumes "fetch_optional (sort_key k xs) = Some x" "y \<in> set xs"
  shows "k x \<le> k y"
proof -
  obtain rest where "sort_key k xs = x # rest" using assms(1) by (auto simp: fetch_optional_def split: list.splits)
  then have "sorted (k x # map k rest)" "y \<in> set (x # rest)"
    using assms(2) sorted_sort_key[of k xs] by (auto simp flip: set_sort[of k xs])
  then show ?thesis by auto
qed

text \<open>
  The wait reported for a provider family and model is the one with the earliest reset, and one is
  reported exactly while an unconsumed wait of a matching execution lies in the future.
\<close>

lemma quota_wait_exact:
  defines "wait \<equiv> \<lambda>fam model now db. snd (active_provider_family_quota_wait fam model now db)"
  shows "wait fam model now db = None \<longleftrightarrow> \<not> (\<exists>r \<in> set (qd_ledger db). family_wait fam model now db r)"
    and "wait fam model now db = Some r \<Longrightarrow> r \<in> set (qd_ledger db) \<and> family_wait fam model now db r
      \<and> (\<forall>q \<in> set (qd_ledger db). family_wait fam model now db q \<longrightarrow> the (ql_retry_after r) \<le> the (ql_retry_after q))"
proof -
  let ?db = "fst (mark_elapsed_provider_quota_waits_tx now db)"
  let ?ws = "filter (family_wait fam model now ?db) (qd_ledger ?db)"
  have w: "wait fam model now db = fetch_optional (sort_key (\<lambda>r. the (ql_retry_after r)) (sort_key ql_created_at ?ws))"
    by (simp add: wait_def active_provider_family_quota_wait_def Let_def)
  have s: "set ?ws = {r \<in> set (qd_ledger db). family_wait fam model now db r}"
    using family_wait_after_mark[of now db fam model] by simp
  have "wait fam model now db = None \<longleftrightarrow> set ?ws = {}" 
    unfolding w fetch_optional_None by (metis set_empty set_sort)
  then show "wait fam model now db = None \<longleftrightarrow> \<not> (\<exists>r \<in> set (qd_ledger db). family_wait fam model now db r)"
    unfolding s by blast
  assume r: "wait fam model now db = Some r"
  then have "r \<in> set ?ws" using fetch_optional_Some unfolding w by fastforce
  moreover have "the (ql_retry_after r) \<le> the (ql_retry_after q)" if "q \<in> set ?ws" for q
    using fetch_first_sorted[OF r[unfolded w], of q] that by simp
  ultimately show "r \<in> set (qd_ledger db) \<and> family_wait fam model now db r
      \<and> (\<forall>q \<in> set (qd_ledger db). family_wait fam model now db q \<longrightarrow> the (ql_retry_after r) \<le> the (ql_retry_after q))"
    unfolding s by blast
qed

section \<open>Manual retries\<close>

lemma find_by_id_ok: "i \<in> ql_id ` set (qd_ledger db) \<Longrightarrow> is_ok (find_by_id_tx i db)"
  by (auto simp: find_by_id_tx_def filter_empty_conv split: option.splits)

lemma ledger_update_ids:
  "(\<And>r. ql_id (f r) = ql_id r) \<Longrightarrow> ql_id ` set (qd_ledger (ledger_update P f db)) = ql_id ` set (qd_ledger db)"
  using map_sql_update[of ql_id f P "qd_ledger db"] unfolding ledger_update_def
  by simp (metis list.set_map)

lemma row_ops_ok:
  assumes "i \<in> ql_id ` set (qd_ledger db)"
  shows "\<exists>r. consume_early_quota_retry_tx now i j db
      = Inr (r, ledger_update (\<lambda>r. ql_id r = i) (consume ''early_retry_consumed'' j now) db)"
    and "\<exists>r. mark_quota_reset_elapsed_tx now i db
      = Inr (r, ledger_update (\<lambda>r. ql_id r = i \<and> \<not> ql_consumed r)
          (\<lambda>r. r\<lparr>ql_state := ''reset_elapsed'', ql_updated_at := now\<rparr>) db)"
proof -
  have "is_ok (find_by_id_tx i (ledger_update P f db))" if "\<And>r. ql_id (f r) = ql_id r" for P f
    using find_by_id_ok ledger_update_ids[of f P db, OF that] assms by metis
  then have ok: "\<exists>r. find_by_id_tx i (ledger_update P f db) = Inr r" if "\<And>r. ql_id (f r) = ql_id r" for P f
    using that by (metis is_ok_simps(1) sum.exhaust)
  show "\<exists>r. consume_early_quota_retry_tx now i j db
      = Inr (r, ledger_update (\<lambda>r. ql_id r = i) (consume ''early_retry_consumed'' j now) db)"
    unfolding consume_early_quota_retry_tx_def Let_def
    using ok[of "consume ''early_retry_consumed'' j now" "\<lambda>r. ql_id r = i"] by (auto simp: consume_def)
  show "\<exists>r. mark_quota_reset_elapsed_tx now i db
      = Inr (r, ledger_update (\<lambda>r. ql_id r = i \<and> \<not> ql_consumed r)
          (\<lambda>r. r\<lparr>ql_state := ''reset_elapsed'', ql_updated_at := now\<rparr>) db)"
    unfolding mark_quota_reset_elapsed_tx_def Let_def
    using ok[of "\<lambda>r. r\<lparr>ql_state := ''reset_elapsed'', ql_updated_at := now\<rparr>" "\<lambda>r. ql_id r = i \<and> \<not> ql_consumed r"] by auto
qed

definition still_waiting :: "datetime \<Rightarrow> quota_row \<Rightarrow> bool" where
  "still_waiting now r \<longleftrightarrow> \<not> ql_consumed r \<and> (case ql_retry_after r of None \<Rightarrow> False | Some t \<Rightarrow> now < t)"

lemma apply_quota_rows_ok:
  assumes "\<forall>r \<in> set rs. ql_id r \<in> ql_id ` set (qd_ledger db)"
  shows "is_ok (apply_quota_rows c j now rs db) \<longleftrightarrow> c \<or> \<not> list_ex (still_waiting now) rs"
  using assms
proof (induction rs arbitrary: db)
  case (Cons r rs)
  let ?e = "ledger_update (\<lambda>x. ql_id x = ql_id r) (consume ''early_retry_consumed'' j now) db"
  let ?m = "ledger_update (\<lambda>x. ql_id x = ql_id r \<and> \<not> ql_consumed x)
      (\<lambda>x. x\<lparr>ql_state := ''reset_elapsed'', ql_updated_at := now\<rparr>) db"
  obtain x y where ops: "consume_early_quota_retry_tx now (ql_id r) j db = Inr (x, ?e)"
    "mark_quota_reset_elapsed_tx now (ql_id r) db = Inr (y, ?m)"
  proof -
    have "ql_id r \<in> ql_id ` set (qd_ledger db)" using Cons.prems by simp
    from row_ops_ok(1)[OF this, of now j] row_ops_ok(2)[OF this, of now] show ?thesis using that by blast
  qed
  have ids: "ql_id ` set (qd_ledger ?e) = ql_id ` set (qd_ledger db)"
    "ql_id ` set (qd_ledger ?m) = ql_id ` set (qd_ledger db)"
    by (rule ledger_update_ids, simp add: consume_def)+
  have "is_ok (apply_quota_rows c j now rs d) \<longleftrightarrow> c \<or> \<not> list_ex (still_waiting now) rs"
    if "ql_id ` set (qd_ledger d) = ql_id ` set (qd_ledger db)" for d
    using Cons.IH[of d] Cons.prems unfolding that by simp
  note IH = this[OF refl] this[OF ids(1)] this[OF ids(2)]
  show ?case
    using IH ops by (auto simp: still_waiting_def[of now r] split: option.splits)
qed simp

text \<open>
  A manual retry of a stage is refused exactly when a quota failure of the stage still waits for
  its reset and the operator did not ask to consume the budget now.
\<close>

theorem manual_retry_respects_quota:
  "\<not> is_ok (apply_quota_retry_budget_for_stage_tx run stage consume_now journal now db)
   \<longleftrightarrow> \<not> consume_now \<and> (\<exists>r. r \<in> set (qd_ledger db) \<and> ql_run_id r = run \<and> ql_owner_kind r = StageExecutionOwner
        \<and> ql_owner_id r = stage \<and> ql_failure_kind r = provider_quota \<and> still_waiting now r)"
proof -
  have rows: "set (list_quota_for_stage_tx run stage db) = {r \<in> set (qd_ledger db). ql_run_id r = run
      \<and> ql_owner_kind r = StageExecutionOwner \<and> ql_owner_id r = stage \<and> ql_failure_kind r = provider_quota}"
    by (auto simp: list_quota_for_stage_tx_def list_quota_for_owner_tx_def)
  then have "\<forall>r \<in> set (list_quota_for_stage_tx run stage db). ql_id r \<in> ql_id ` set (qd_ledger db)" by blast
  from apply_quota_rows_ok[OF this] show ?thesis
    unfolding apply_quota_retry_budget_for_stage_tx_def list_ex_iff rows by blast
qed

section \<open>A ledger for the witnesses\<close>

definition ex_quota :: quota_db where
  "ex_quota = \<lparr>qd_ledger = [], qd_agents = [], qd_runs = [], qd_stages = [], qd_facts = []\<rparr>"

definition ok_db :: "(string, quota_row \<times> quota_db) result \<Rightarrow> quota_db" where
  "ok_db m = (case m of Inl _ \<Rightarrow> ex_quota | Inr (_, db) \<Rightarrow> db)"

lemma ok_dbE: "is_ok m \<Longrightarrow> \<exists>r. m = Inr (r, ok_db m)"
  by (cases m) (auto simp: ok_db_def)

text \<open>Two failures of a stage, both elapsed, the first one retried before the second is recorded.\<close>

definition ex_quota1 :: quota_db where
  "ex_quota1 = ok_db (upsert_quota_failure_tx (\<lambda>_. []) ''l1'' 5 ''r'' ''s'' ''a'' (Some 3) ex_quota)"

definition ex_quota2 :: quota_db where
  "ex_quota2 = ok_db (mark_reset_elapsed_retry_scheduled_tx 6 ''l1'' ''j1'' ex_quota1)"

definition ex_quota3 :: quota_db where
  "ex_quota3 = ok_db (upsert_quota_failure_tx (\<lambda>_. []) ''l2'' 7 ''r'' ''s'' ''b'' (Some 6) ex_quota2)"

lemma ex_quota_steps:
  "\<exists>r. upsert_quota_failure_tx (\<lambda>_. []) ''l1'' 5 ''r'' ''s'' ''a'' (Some 3) ex_quota = Inr (r, ex_quota1)"
  "\<exists>r. mark_reset_elapsed_retry_scheduled_tx 6 ''l1'' ''j1'' ex_quota1 = Inr (r, ex_quota2)"
  "\<exists>r. upsert_quota_failure_tx (\<lambda>_. []) ''l2'' 7 ''r'' ''s'' ''b'' (Some 6) ex_quota2 = Inr (r, ex_quota3)"
  "\<exists>r db. mark_reset_elapsed_retry_scheduled_tx 8 ''l2'' ''j2'' ex_quota3 = Inr (r, db)"
proof -
  have ok: "is_ok (upsert_quota_failure_tx (\<lambda>_. []) ''l1'' 5 ''r'' ''s'' ''a'' (Some 3) ex_quota)"
    "is_ok (mark_reset_elapsed_retry_scheduled_tx 6 ''l1'' ''j1'' ex_quota1)"
    "is_ok (upsert_quota_failure_tx (\<lambda>_. []) ''l2'' 7 ''r'' ''s'' ''b'' (Some 6) ex_quota2)"
    "is_ok (mark_reset_elapsed_retry_scheduled_tx 8 ''l2'' ''j2'' ex_quota3)"
    by code_simp+
  show "\<exists>r. upsert_quota_failure_tx (\<lambda>_. []) ''l1'' 5 ''r'' ''s'' ''a'' (Some 3) ex_quota = Inr (r, ex_quota1)"
    unfolding ex_quota1_def using ok_dbE[OF ok(1)] .
  show "\<exists>r. mark_reset_elapsed_retry_scheduled_tx 6 ''l1'' ''j1'' ex_quota1 = Inr (r, ex_quota2)"
    unfolding ex_quota2_def using ok_dbE[OF ok(2)] .
  show "\<exists>r. upsert_quota_failure_tx (\<lambda>_. []) ''l2'' 7 ''r'' ''s'' ''b'' (Some 6) ex_quota2 = Inr (r, ex_quota3)"
    unfolding ex_quota3_def using ok_dbE[OF ok(3)] .
  show "\<exists>r db. mark_reset_elapsed_retry_scheduled_tx 8 ''l2'' ''j2'' ex_quota3 = Inr (r, db)"
    using ok_dbE[OF ok(4)] by blast
qed

lemma ex_quota_reachable: "reachable_from (\<lambda>db. qd_ledger db = []) quota_step ex_quota1"
  and ex_quota_run: "quota_step ex_quota1 ex_quota2" "quota_step ex_quota2 ex_quota3"
proof -
  have "reachable_from (\<lambda>db. qd_ledger db = []) quota_step ex_quota"
    by (rule reachable_from.start) (simp add: ex_quota_def)
  moreover have "quota_step ex_quota ex_quota1"
    using ex_quota_steps(1) by (auto simp: upsert_quota_failure_tx_def intro: quota_step.upsert)
  ultimately show "reachable_from (\<lambda>db. qd_ledger db = []) quota_step ex_quota1"
    by (rule reachable_from.next_state)
  show "quota_step ex_quota1 ex_quota2" using ex_quota_steps(2) by (auto intro: quota_step.scheduled)
  show "quota_step ex_quota2 ex_quota3"
    using ex_quota_steps(3) by (auto simp: upsert_quota_failure_tx_def intro: quota_step.upsert)
qed

theorem quota_ledger_refines_tokens_witness:
  "\<exists>m n. qd_ledger ex_quota3 = m @ n \<and> map ql_id m = [''l1'']
     \<and> map ql_owner_id m = map ql_owner_id (qd_ledger ex_quota1) \<and> list_all2 token_moves [Elapsed] (map token m)"
proof -
  have "map ql_id (qd_ledger ex_quota1) = [''l1'']" "map token (qd_ledger ex_quota1) = [Elapsed]" by code_simp+
  then show ?thesis
    using quota_ledger_refines_tokens[OF ex_quota_reachable, of ex_quota3] ex_quota_run
    by (metis converse_rtranclp_into_rtranclp r_into_rtranclp)
qed

theorem auto_retry_charges_once_witness:
  "\<exists>r r' db. mark_reset_elapsed_retry_scheduled_tx 6 ''l1'' ''j1'' ex_quota1 = Inr (r, ex_quota2)
     \<and> mark_reset_elapsed_retry_scheduled_tx 8 ''l2'' ''j2'' ex_quota3 = Inr (r', db)
     \<and> newly_charged ex_quota1 ex_quota2 \<inter> newly_charged ex_quota3 db = {}"
proof -
  obtain r r' db where m: "mark_reset_elapsed_retry_scheduled_tx 6 ''l1'' ''j1'' ex_quota1 = Inr (r, ex_quota2)"
    "mark_reset_elapsed_retry_scheduled_tx 8 ''l2'' ''j2'' ex_quota3 = Inr (r', db)"
    using ex_quota_steps(2,4) by blast
  from auto_retry_charges_once[OF ex_quota_reachable m(1) r_into_rtranclp[of quota_step, OF ex_quota_run(2)] m(2)]
  show ?thesis using m by blast
qed

end
