(* ===== verification/Scheduler_Properties.thy ===== *)
theory Scheduler_Properties
  imports Scheduler_Queue Quota_Properties
begin

text \<open>
  What the scheduler reports: the hysteresis is a four-state automaton, whose notifications can
  lose an end of backpressure; every pending invocation is counted once; the percentile is one; and
  the quota waits the scheduler shows are the ones the ledger enforces.
\<close>

section \<open>The automaton of backpressure\<close>

datatype pressure = High | Middle | Low

definition pressure_of :: "nat \<Rightarrow> int \<Rightarrow> pressure" where
  "pressure_of queued oldest =
     (if 0 < queued \<and> 300000 \<le> oldest then High
      else if queued = 0 \<or> oldest < 120000 then Low else Middle)"

datatype bp_state = BpClear | BpPendingActive | BpActive | BpPendingClear

fun bp_next :: "bp_state \<Rightarrow> pressure \<Rightarrow> bp_state" where
  "bp_next BpClear High = BpPendingActive"
| "bp_next BpClear _ = BpClear"
| "bp_next BpPendingActive High = BpActive"
| "bp_next BpPendingActive _ = BpClear"
| "bp_next BpActive Low = BpPendingClear"
| "bp_next BpActive _ = BpActive"
| "bp_next BpPendingClear High = BpPendingActive"
| "bp_next BpPendingClear Middle = BpActive"
| "bp_next BpPendingClear Low = BpClear"

text \<open>The two steps that are announced.\<close>

fun bp_announces :: "bp_state \<Rightarrow> pressure \<Rightarrow> string option" where
  "bp_announces BpPendingActive High = Some ''active''"
| "bp_announces BpPendingClear Low = Some ''clear''"
| "bp_announces _ _ = None"

text \<open>The snapshot that stores a state with its counters.\<close>

fun stores :: "bp_state \<Rightarrow> health_snapshot option \<Rightarrow> bool" where
  "stores BpClear h = (case h of None \<Rightarrow> True | Some x \<Rightarrow> hs_state x = ''clear'' \<and> hs_fire x = 0)"
| "stores BpPendingActive h =
     (case h of None \<Rightarrow> False | Some x \<Rightarrow> hs_state x = ''pending_active'' \<and> hs_fire x = 1 \<and> hs_clear x = 0)"
| "stores BpActive h =
     (case h of None \<Rightarrow> False | Some x \<Rightarrow> hs_state x = ''active'' \<and> hs_fire x = 2 \<and> hs_clear x = 0)"
| "stores BpPendingClear h =
     (case h of None \<Rightarrow> False | Some x \<Rightarrow> hs_state x = ''pending_clear'' \<and> hs_fire x = 0 \<and> hs_clear x = 1)"

lemma next_state_simulates:
  assumes "stores s prev"
    and "next_sustained_backpressure_state prev queued oldest = (state, fire, clear)"
    and "hs_state h = state" "hs_fire h = fire" "hs_clear h = clear"
  shows "stores (bp_next s (pressure_of queued oldest)) (Some h)"
    and "crossed_notification_boundary (previous_state prev) h \<longleftrightarrow> bp_announces s (pressure_of queued oldest) \<noteq> None"
    and "bp_announces s (pressure_of queued oldest) = Some a \<Longrightarrow> state = a"
proof -
  have p: "pressure_of queued oldest = (if 0 < queued \<and> sustained_backpressure_threshold_ms \<le> oldest then High
      else if queued = 0 \<or> oldest < sustained_backpressure_clear_ms then Low else Middle)"
    by (simp add: pressure_of_def sustained_backpressure_threshold_ms_def sustained_backpressure_clear_ms_def)
  show "stores (bp_next s (pressure_of queued oldest)) (Some h)"
    using assms unfolding p
    by (cases s) (auto simp: next_sustained_backpressure_state_def previous_state_def Let_def
        split: option.splits if_splits)
  show "crossed_notification_boundary (previous_state prev) h \<longleftrightarrow> bp_announces s (pressure_of queued oldest) \<noteq> None"
    using assms unfolding p crossed_notification_boundary_def
    by (cases s) (auto simp: next_sustained_backpressure_state_def previous_state_def Let_def
        split: option.splits if_splits)
  show "state = a" if "bp_announces s (pressure_of queued oldest) = Some a"
    using assms that unfolding p
    by (cases s) (auto simp: next_sustained_backpressure_state_def previous_state_def Let_def
        split: option.splits if_splits)
qed

text \<open>
  C25: every refresh of the scheduler is a step of the four-state automaton: two snapshots of high
  pressure in a row make the backpressure active, two of low pressure clear it; and a notification is
  sent exactly on the two announced steps, with the state entered.
\<close>

theorem backpressure_refines_automaton:
  assumes "refresh_queue_summaries_for_notification_tx from_str cap now load_now wait_ms db = Inr (db', notice)"
    and "stores s (latest_health_snapshot db)"
    and "list_all (\<lambda>h. hs_updated_at h < now) (sd_snapshots db)"
  shows "\<exists>h. latest_health_snapshot db' = Some h
     \<and> stores (bp_next s (pressure_of (hs_queued_count h) (hs_oldest_queued_age_ms h))) (Some h)
     \<and> map_option bn_state notice = bp_announces s (pressure_of (hs_queued_count h) (hs_oldest_queued_age_ms h))"
proof -
  obtain pending quota active where loaded:
    "load_pending_invoke_agent_work_tx from_str now (sd_items db) = Inr pending"
    "load_active_counts from_str load_now (sd_items db) (sd_quota db) = Inr (quota, active)"
    using assms(1) by (auto simp: refresh_queue_summaries_for_notification_tx_def)
  let ?oldest = "foldl max 0 (map (\<lambda>p. age_ms now (pw_scheduled_at p)) pending)"
  let ?prev = "latest_health_snapshot db"
  obtain state fire clear where nxt:
    "next_sustained_backpressure_state ?prev (length pending) ?oldest = (state, fire, clear)"
    by (cases "next_sustained_backpressure_state ?prev (length pending) ?oldest")
  then obtain h ss where h: "sd_snapshots db' = sd_snapshots db @ [h]" "hs_updated_at h = now"
      "hs_queued_count h = length pending" "hs_oldest_queued_age_ms h = ?oldest"
      "hs_state h = state" "hs_fire h = fire" "hs_clear h = clear"
    and notice: "notice = notification_for_state_transition (previous_state ?prev) h ss"
    using assms(1) loaded
    by (auto simp: refresh_queue_summaries_for_notification_tx_def Let_def split: if_splits)
  note sim = next_state_simulates[OF assms(2) nxt h(5-7)]
  have "latest_health_snapshot db' = Some h"
    unfolding latest_health_snapshot_def h(1) using assms(3) h(2) by (intro newest_snoc) (simp add: list_all_iff)
  moreover have "map_option bn_state notice = bp_announces s (pressure_of (length pending) ?oldest)"
    using sim(2) sim(3) h(5) unfolding notice notification_for_state_transition_def
    by (cases "bp_announces s (pressure_of (length pending) ?oldest)")
      (auto simp: backpressure_notification_from_parts_def)
  ultimately show ?thesis using sim(1) h(3,4) by auto
qed

section \<open>A lost notification\<close>

definition ex_item :: work_item_row where
  "ex_item = \<lparr>wi_id = ''w'', wi_kind = ''invoke_agent'', wi_payload_json = ''{}'', wi_status = ''pending'',
     wi_run_id = None, wi_stage_id = None, wi_created_at = 0, wi_scheduled_at = 0, wi_started_at = None,
     wi_completed_at = None, wi_failed_at = None, wi_attempt_count = 0, wi_last_error = None,
     wi_worktree_resource_key = None\<rparr>"

definition ex_scheduler :: scheduler_db where
  "ex_scheduler = \<lparr>sd_quota = ex_quota, sd_items = [ex_item], sd_summaries = [], sd_snapshots = [],
     sd_observations = [], sd_last_served = (\<lambda>_. None)\<rparr>"

definition ex_parse :: "string \<Rightarrow> json option" where
  "ex_parse s = Some (JObject [])"

text \<open>Refreshes one after the other, each with the work items of its time; the states announced.\<close>

fun refreshes :: "(datetime \<times> work_item_row list) list \<Rightarrow> scheduler_db \<Rightarrow> (string, scheduler_db \<times> string list) result" where
  "refreshes [] db = Inr (db, [])"
| "refreshes ((now, items) # rest) db =
     bind_res (refresh_queue_summaries_for_notification_tx ex_parse default_capacity now now 0 (db\<lparr>sd_items := items\<rparr>))
       (\<lambda>(db', n). bind_res (refreshes rest db') (\<lambda>(db'', ns).
          Inr (db'', (case n of None \<Rightarrow> ns | Some x \<Rightarrow> bn_state x # ns))))"

text \<open>
  An end of backpressure can go unannounced: a queue that was announced as active, empties, is
  high for one snapshot and empties again is back in the clear state, and the only notification that
  was ever sent says it is active.
\<close>

theorem backpressure_clear_is_lost:
  "\<exists>db'. refreshes [(300000, [ex_item]), (300001, [ex_item]), (300002, []), (300003, [ex_item]), (300004, [])]
            ex_scheduler = Inr (db', [''active''])
       \<and> map_option hs_state (latest_health_snapshot db') = Some ''clear''"
proof -
  have "(case refreshes [(300000, [ex_item]), (300001, [ex_item]), (300002, []), (300003, [ex_item]), (300004, [])]
            ex_scheduler of
      Inl _ \<Rightarrow> False
    | Inr (db', ns) \<Rightarrow> ns = [''active''] \<and> map_option hs_state (latest_health_snapshot db') = Some ''clear'')"
    by code_simp
  then show ?thesis by (auto split: sum.splits)
qed

theorem backpressure_refines_automaton_witness:
  "\<exists>db' notice h. refresh_queue_summaries_for_notification_tx ex_parse default_capacity 300000 300001 0 ex_scheduler = Inr (db', notice)
     \<and> latest_health_snapshot db' = Some h
     \<and> stores (bp_next BpClear (pressure_of (hs_queued_count h) (hs_oldest_queued_age_ms h))) (Some h)"
proof -
  have "is_ok (refresh_queue_summaries_for_notification_tx ex_parse default_capacity 300000 300001 0 ex_scheduler)"
    by code_simp
  then obtain db' n where r: "refresh_queue_summaries_for_notification_tx ex_parse default_capacity 300000 300001 0 ex_scheduler = Inr (db', n)"
    by (auto simp: is_ok_def split: sum.splits)
  have "stores BpClear (latest_health_snapshot ex_scheduler)" "list_all (\<lambda>h. hs_updated_at h < 300000) (sd_snapshots ex_scheduler)"
    by (simp_all add: ex_scheduler_def latest_health_snapshot_def)
  from backpressure_refines_automaton[OF r this] r show ?thesis by blast
qed

section \<open>Percentiles and summaries\<close>

lemma sorted_nth_count:
  assumes "sorted xs" "i < length xs"
  shows "i < length (filter (\<lambda>x. x \<le> xs ! i) xs)" "length (filter (\<lambda>x. x < xs ! i) xs) \<le> i"
proof -
  have "{0..i} \<subseteq> {j. j < length xs \<and> xs ! j \<le> xs ! i}"
    using assms by (auto simp: sorted_iff_nth_mono)
  then have "card {0..i} \<le> card {j. j < length xs \<and> xs ! j \<le> xs ! i}"
    by (intro card_mono) auto
  then show "i < length (filter (\<lambda>x. x \<le> xs ! i) xs)" by (simp add: length_filter_conv_card)
  have "{j. j < length xs \<and> xs ! j < xs ! i} \<subseteq> {0..<i}"
    using assms sorted_nth_mono[OF assms(1)] by (fastforce simp: not_less[symmetric])
  then have "card {j. j < length xs \<and> xs ! j < xs ! i} \<le> card {0..<i}"
    by (intro card_mono) auto
  then show "length (filter (\<lambda>x. x < xs ! i) xs) \<le> i" by (simp add: length_filter_conv_card)
qed

text \<open>
  The reported percentile is an observed value, at least 95 percent of the observations do not
  exceed it, and fewer than 95 percent are below it.
\<close>

lemma p95_is_percentile:
  assumes "p95_ms vs = Some v"
  shows "v \<in> set vs" "95 * length vs \<le> 100 * length (filter (\<lambda>x. x \<le> v) vs)"
    "100 * length (filter (\<lambda>x. x < v) vs) < 95 * length vs"
proof -
  let ?n = "length vs"
  let ?i = "max ((?n * 95 + 99) div 100) 1 - 1"
  have v: "v = sort vs ! ?i" and n: "0 < ?n"
    using assms by (auto simp: p95_ms_def Let_def split: if_splits)
  have "?i < ?n" using n by linarith
  then have i: "?i < length (sort vs)" by simp
  have f: "length (filter P (sort vs)) = length (filter P vs)" for P
    by (metis filter_sort length_sort)
  note c = sorted_nth_count[OF sorted_sort[of vs] i, folded v, unfolded f]
  have "sort vs ! ?i \<in> set (sort vs)" using i by (rule nth_mem)
  then show "v \<in> set vs" by (simp add: v)
  show "95 * ?n \<le> 100 * length (filter (\<lambda>x. x \<le> v) vs)" using c(1) n by linarith
  show "100 * length (filter (\<lambda>x. x < v) vs) < 95 * ?n" using c(2) n by linarith
qed

definition global_key :: "(pending_work \<Rightarrow> string) \<Rightarrow> pending_work \<Rightarrow> summary_key" where
  "global_key reason p = (''global'', [], None, None, pw_provider_family p, reason p)"

lemma summary_keys_global:
  "k \<in> set (summary_keys (reason p) p) \<and> fst k = ''global'' \<longleftrightarrow> k = global_key reason p"
  by (auto simp: summary_keys_def global_key_def split: option.splits)

lemma sum_fibres:
  assumes "finite S" "f ` set xs \<subseteq> S"
  shows "(\<Sum>y \<in> S. length (filter (\<lambda>x. f x = y) xs)) = length xs"
  using assms(2)
proof (induction xs)
  case (Cons x xs)
  have "(\<Sum>y \<in> S. length (filter (\<lambda>x. f x = y) (x # xs)))
      = (\<Sum>y \<in> S. (if f x = y then 1 else 0) + length (filter (\<lambda>x. f x = y) xs))"
    by (rule sum.cong) auto
  also have "\<dots> = (\<Sum>y \<in> S. if f x = y then 1 else 0) + length xs" using Cons by (simp add: sum.distrib)
  also have "(\<Sum>y \<in> S. if f x = y then 1 else 0) = (1::nat)"
    using Cons.prems assms(1) sum.delta'[of S "f x" "\<lambda>_. 1 :: nat"] by simp
  finally show ?case by simp
qed simp

text \<open>
  The queue summaries account for every pending invocation: the counts of the global scope add up
  to the depth of the queue, which every summary carries.
\<close>

theorem summaries_count_every_item:
  "sum_list (map qs_queued_count (filter (\<lambda>s. fst (qs_key s) = ''global'') (build_summaries now reason pending)))
     = length pending
   \<and> list_all (\<lambda>s. qs_global_queue_depth s = length pending \<and> 0 < qs_queued_count s) (build_summaries now reason pending)"
proof
  let ?keys = "concat (map (\<lambda>p. summary_keys (reason p) p) pending)"
  let ?ks = "filter (\<lambda>k. fst k = ''global'') (sort (remdups ?keys))"
  have "filter (\<lambda>s. fst (qs_key s) = ''global'') (build_summaries now reason pending)
      = map (summary_of now (length pending) reason pending) ?ks"
    by (simp add: build_summaries_def filter_map comp_def summary_of_def Let_def)
  then have "sum_list (map qs_queued_count (filter (\<lambda>s. fst (qs_key s) = ''global'') (build_summaries now reason pending)))
      = sum_list (map (\<lambda>k. length (filter (\<lambda>p. k \<in> set (summary_keys (reason p) p)) pending)) ?ks)"
    by (simp add: comp_def summary_of_def Let_def)
  also have "\<dots> = (\<Sum>k \<in> set ?ks. length (filter (\<lambda>p. k \<in> set (summary_keys (reason p) p)) pending))"
    by (rule sum_list_distinct_conv_sum_set) simp
  also have "\<dots> = (\<Sum>k \<in> set ?ks. length (filter (\<lambda>p. global_key reason p = k) pending))"
  proof (intro sum.cong refl)
    fix k assume "k \<in> set ?ks"
    then have "fst k = ''global''" by simp
    then have "(\<lambda>p. k \<in> set (summary_keys (reason p) p)) = (\<lambda>p. global_key reason p = k)"
      using summary_keys_global[of k reason] by (auto simp: fun_eq_iff)
    then show "length (filter (\<lambda>p. k \<in> set (summary_keys (reason p) p)) pending)
        = length (filter (\<lambda>p. global_key reason p = k) pending)"
      by simp
  qed
  also have "\<dots> = length pending"
  proof (rule sum_fibres)
    have "global_key reason p \<in> set (summary_keys (reason p) p) \<and> fst (global_key reason p) = ''global''" for p
      using summary_keys_global by blast
    then show "global_key reason ` set pending \<subseteq> set ?ks" by (fastforce simp del: fst_conv)
  qed simp
  finally show "sum_list (map qs_queued_count (filter (\<lambda>s. fst (qs_key s) = ''global'') (build_summaries now reason pending)))
     = length pending" .
  show "list_all (\<lambda>s. qs_global_queue_depth s = length pending \<and> 0 < qs_queued_count s) (build_summaries now reason pending)"
    by (auto simp: build_summaries_def list_all_iff summary_of_def Let_def filter_empty_conv)
qed

section \<open>Two readers of the quota waits\<close>

text \<open>A model name: printable ASCII without spaces, and not the text that stands for any model.\<close>

definition model_name :: "string \<Rightarrow> bool" where
  "model_name m \<longleftrightarrow> m \<noteq> [] \<and> m \<noteq> ''*'' \<and> list_all (\<lambda>c. 33 \<le> byte c \<and> byte c \<le> 126) m"

definition printable :: "string \<Rightarrow> bool" where
  "printable m \<longleftrightarrow> list_all (\<lambda>c. 33 \<le> byte c \<and> byte c \<le> 126) m"

lemma printable_trim_start: "printable s \<Longrightarrow> trim_start s = s"
  by (induction s rule: trim_start.induct) (auto simp: printable_def ws1_def ws2_def ws3_def)

lemma printable_trim_rev: "printable s \<Longrightarrow> trim_rev s = s"
  by (induction s rule: trim_rev.induct) (auto simp: printable_def ws1_def ws2_def ws3_def)

lemma printable_trim: "printable s \<Longrightarrow> trim s = s"
  by (simp add: trim_def printable_trim_start printable_trim_rev printable_def list_all_iff)

lemma printable_sql_trim: "printable s \<Longrightarrow> sql_trim s = s"
proof -
  assume "printable s"
  then have "CHR '' '' \<notin> set s" by (auto simp: printable_def list_all_iff byte_def)
  then have "dropWhile (\<lambda>x. x = CHR '' '') t = t" if "set t \<subseteq> set s" for t
    using that by (cases t) auto
  then show ?thesis by (simp add: sql_trim_def trim_matches_def)
qed

lemma byte_ascii_lower: "byte (ascii_lower c) = (if 65 \<le> byte c \<and> byte c \<le> 90 then byte c + 32 else byte c)"
  by (simp add: ascii_lower_def byte_def)

lemma printable_lower: "printable s \<Longrightarrow> printable (sql_lower s)"
  by (auto simp: printable_def list_all_iff sql_lower_def byte_ascii_lower)

lemma lower_star: "sql_lower s = ''*'' \<longleftrightarrow> s = ''*''"
proof
  assume "sql_lower s = ''*''"
  then obtain c where c: "s = [c]" "ascii_lower c = CHR ''*''" by (auto simp: sql_lower_def map_eq_Cons_conv)
  then have "byte (ascii_lower c) = 42" by (simp add: byte_def)
  then have "byte c = 42" unfolding byte_ascii_lower by (auto split: if_splits)
  then have "of_char c = (of_char CHR ''*'' :: nat)" by (simp add: byte_def)
  then have "c = CHR ''*''" by (rule of_char_eq_iff [THEN iffD1])
  then show "s = ''*''" using c(1) by simp
qed (simp add: sql_lower_def ascii_lower_def byte_def)

text \<open>The label of the model in a scope key.\<close>

definition model_label :: "string option \<Rightarrow> string" where
  "model_label m = (case m of None \<Rightarrow> ''*'' | Some s \<Rightarrow> sql_lower s)"

lemma model_name_facts:
  assumes "model_name m"
  shows "printable m" "trim m = m" "sql_trim m = m" "m \<noteq> []" "trim (sql_lower m) = sql_lower m"
    "sql_lower m \<noteq> []" "sql_lower m \<noteq> ''*''"
proof -
  show p: "printable m" and "m \<noteq> []" using assms by (simp_all add: model_name_def printable_def)
  from p show "trim m = m" "sql_trim m = m" "trim (sql_lower m) = sql_lower m"
    by (simp_all add: printable_trim printable_sql_trim printable_lower)
  show "sql_lower m \<noteq> []" "sql_lower m \<noteq> ''*''" using assms lower_star by (simp_all add: model_name_def sql_lower_def)
qed

lemma lower_idem: "sql_lower (sql_lower m) = sql_lower m"
proof -
  have "ascii_lower (ascii_lower c) = ascii_lower c" for c
    unfolding ascii_lower_def[of "ascii_lower c"] byte_ascii_lower by (auto simp: ascii_lower_def)
  then show ?thesis by (simp add: sql_lower_def)
qed

lemma scope_key_label:
  assumes "case m of None \<Rightarrow> True | Some x \<Rightarrow> model_name x"
  shows "provider_quota_wait_scope_key f m = f @ ''::'' @ model_label m"
    "provider_quota_wait_scope_key f (sql_model m) = f @ ''::'' @ model_label m"
  using assms model_name_facts lower_idem
  by (auto simp: provider_quota_wait_scope_key_def model_label_def sql_model_def sql_lower_def[symmetric]
      split: option.splits)

definition scope_safe :: "quota_db \<Rightarrow> bool" where
  "scope_safe db \<longleftrightarrow>
     (\<forall>a \<in> set (qd_agents db). CHR '':'' \<notin> set (ae_family a)
        \<and> (case ae_model a of None \<Rightarrow> True | Some x \<Rightarrow> model_name x))"

lemma model_matches_label:
  assumes "case a of None \<Rightarrow> True | Some x \<Rightarrow> model_name x" "model_name m"
  shows "model_matches a (Some m) \<longleftrightarrow> model_label a = ''*'' \<or> model_label a = model_label (Some m)"
  using assms model_name_facts
  by (auto simp: model_matches_def blank_model_def model_label_def split: option.splits)

lemma key_split:
  assumes "CHR '':'' \<notin> set f" "CHR '':'' \<notin> set g"
  shows "f @ ''::'' @ x = g @ ''::'' @ y \<longleftrightarrow> f = g \<and> x = y"
  using field_split[OF assms, of "CHR '':'' # x" "CHR '':'' # y"] by auto

lemma quota_scoped_iff:
  assumes "scope_safe db" "CHR '':'' \<notin> set f" "f \<noteq> []" "model_name m"
  shows "quota_scoped (load_provider_quota_wait_scopes now db) f (Some m) \<longleftrightarrow>
     (\<exists>r \<in> set (qd_ledger db). family_wait f (Some m) now db r)"
proof -
  have match: "(\<lambda>s. s = provider_quota_wait_scope_key f None \<or> s = provider_quota_wait_scope_key f (Some m))
        (provider_quota_wait_scope_key (ae_family a) (sql_model (ae_model a)))
      \<longleftrightarrow> ae_family a = f \<and> model_matches (ae_model a) (Some m)" if "a \<in> set (qd_agents db)" for a
  proof -
    have a: "CHR '':'' \<notin> set (ae_family a)" "case ae_model a of None \<Rightarrow> True | Some x \<Rightarrow> model_name x"
      using assms(1) that by (auto simp: scope_safe_def)
    have k: "provider_quota_wait_scope_key f None = f @ ''::'' @ ''*''"
      by (simp add: provider_quota_wait_scope_key_def)
    show ?thesis
      unfolding k scope_key_label(2)[OF a(2)] scope_key_label(1)[of "Some m" f, simplified, OF assms(4)]
      using key_split[OF a(1) assms(2)] model_matches_label[OF a(2) assms(4)] by auto
  qed
  show ?thesis
    unfolding quota_scoped_def load_provider_quota_wait_scopes_def family_wait_def list_ex_iff
    using match assms(3) by fastforce
qed

text \<open>
  C26: the scheduler shows an invocation as waiting for a provider quota exactly when the ledger holds
  it back: for a family and a named model, the scopes the summaries use contain the item if and only if
  the admission finds an active wait.
\<close>

theorem quota_wait_readers_agree:
  assumes "scope_safe db" "CHR '':'' \<notin> set f" "f \<noteq> []" "model_name m"
    and "load_active_counts from_str now items db = Inr (db', active)"
  shows "quota_scoped (ac_quota_wait_scopes active) f (Some m)
     \<longleftrightarrow> snd (active_provider_family_quota_wait f (Some m) now db) \<noteq> None"
proof -
  have scopes: "ac_quota_wait_scopes active
      = load_provider_quota_wait_scopes now (fst (mark_elapsed_provider_quota_waits_tx now db))"
    using assms(5) by (auto simp: load_active_counts_def Let_def)
  have "scope_safe (fst (mark_elapsed_provider_quota_waits_tx now db))"
    using assms(1) by (simp add: scope_safe_def mark_elapsed_provider_quota_waits_tx_def ledger_update_def)
  from quota_scoped_iff[OF this assms(2-4)] show ?thesis
    unfolding scopes quota_wait_exact(1) using family_wait_after_mark[of now db f "Some m"] by blast
qed

text \<open>Without a model the two differ: the ledger matches any model, the scheduler only waits without one.\<close>

definition ex_waiting :: quota_db where
  "ex_waiting = ok_db (upsert_quota_failure_tx (\<lambda>_. []) ''l1'' 5 ''r'' ''s'' ''a'' (Some 9)
     (ex_quota\<lparr>qd_agents := [\<lparr>ae_id = ''a'', ae_stage_execution_id = Some ''s'', ae_status = ''failed'',
        ae_provider = ''claude'', ae_provider_family = Some ''claude'', ae_model = Some ''opus'', ae_agent_id = ''lead'',
        ae_session_generation_id = None, ae_completed_at = None\<rparr>]\<rparr>))"

lemma quota_wait_hidden_without_model:
  "snd (active_provider_family_quota_wait ''claude'' None 6 ex_waiting) \<noteq> None
   \<and> \<not> quota_scoped (load_provider_quota_wait_scopes 6 ex_waiting) ''claude'' None"
  by code_simp

theorem quota_wait_readers_agree_witness:
  "\<exists>db' active. load_active_counts ex_parse 6 [] ex_waiting = Inr (db', active)
     \<and> quota_scoped (ac_quota_wait_scopes active) ''claude'' (Some ''opus'')
     \<and> snd (active_provider_family_quota_wait ''claude'' (Some ''opus'') 6 ex_waiting) \<noteq> None"
proof -
  have ok: "is_ok (load_active_counts ex_parse 6 [] ex_waiting)"
    and wait: "snd (active_provider_family_quota_wait ''claude'' (Some ''opus'') 6 ex_waiting) \<noteq> None"
    and m: "model_name ''opus''"
    by code_simp+
  have safe: "scope_safe ex_waiting" unfolding scope_safe_def by code_simp
  obtain db' active where r: "load_active_counts ex_parse 6 [] ex_waiting = Inr (db', active)"
    using ok by (auto simp: is_ok_def split: sum.splits)
  have "CHR '':'' \<notin> set ''claude''" "''claude'' \<noteq> []" by simp_all
  from quota_wait_readers_agree[OF safe this m r] r wait show ?thesis by blast
qed

end
