(* ===== verification/Retry_Authority.thy ===== *)
theory Retry_Authority
  imports Json
begin

text \<open>
  The authority of a targeted retry: \<^verbatim>\<open>control-plane/crates/domain/src/retry_authority.rs\<close> (the
  authority record, the payload of an advance of a run with its validation, the payload of a retried
  invocation) and the repository
  \<^verbatim>\<open>control-plane/crates/db/src/repos/retry_stage_execution_authorities.rs\<close> with the unique index
  of its migration. Parsing an identifier (the \<^verbatim>\<open>uuid\<close> crate) gives its canonical text and is a
  parameter; the foreign keys of the table are not modelled.
\<close>

section \<open>Kinds and states\<close>

datatype retry_authority_entry_kind = FullStageRetry | TargetedAgentRetry | HistoricalOrphanRecovery

fun show_retry_authority_entry_kind :: "retry_authority_entry_kind \<Rightarrow> string" where
  "show_retry_authority_entry_kind FullStageRetry = ''full_stage_retry''"
| "show_retry_authority_entry_kind TargetedAgentRetry = ''targeted_agent_retry''"
| "show_retry_authority_entry_kind HistoricalOrphanRecovery = ''historical_orphan_recovery''"

definition parse_retry_authority_entry_kind :: "string \<Rightarrow> (string, retry_authority_entry_kind) result" where
  "parse_retry_authority_entry_kind s =
     (if s = ''full_stage_retry'' then Inr FullStageRetry
      else if s = ''targeted_agent_retry'' then Inr TargetedAgentRetry
      else if s = ''historical_orphan_recovery'' then Inr HistoricalOrphanRecovery
      else Inl (''Unknown RetryAuthorityEntryKind: '' @ s))"

datatype retry_authority_state =
  AuthorityActive
  | AuthorityTerminalized
  | AuthoritySuperseded
  | AuthorityRecoveredOrphan
  | AuthorityInvalid

fun show_retry_authority_state :: "retry_authority_state \<Rightarrow> string" where
  "show_retry_authority_state AuthorityActive = ''active''"
| "show_retry_authority_state AuthorityTerminalized = ''terminalized''"
| "show_retry_authority_state AuthoritySuperseded = ''superseded''"
| "show_retry_authority_state AuthorityRecoveredOrphan = ''recovered_orphan''"
| "show_retry_authority_state AuthorityInvalid = ''invalid''"

definition parse_retry_authority_state :: "string \<Rightarrow> (string, retry_authority_state) result" where
  "parse_retry_authority_state s =
     (if s = ''active'' then Inr AuthorityActive
      else if s = ''terminalized'' then Inr AuthorityTerminalized
      else if s = ''superseded'' then Inr AuthoritySuperseded
      else if s = ''recovered_orphan'' then Inr AuthorityRecoveredOrphan
      else if s = ''invalid'' then Inr AuthorityInvalid
      else Inl (''Unknown RetryAuthorityState: '' @ s))"

record retry_authority =
  ra_id :: ident
  ra_run_id :: ident
  ra_stage_id :: string
  ra_target_stage_execution_id :: ident
  ra_entry_kind :: retry_authority_entry_kind
  ra_source_command_journal_id :: "ident option"
  ra_source_retry_work_item_id :: "ident option"
  ra_source_invoke_work_item_id :: "ident option"
  ra_source_agent_execution_id :: "ident option"
  ra_authority_state :: retry_authority_state
  ra_created_at :: datetime
  ra_updated_at :: datetime
  ra_terminal_reason :: "string option"

section \<open>The payload of an advance\<close>

datatype advance_run_enqueue_reason =
  NormalAdvance
  | RetryStage
  | ReasonTargetedAgentRetry
  | PostInvokeCompletion
  | PostInvokeFailure
  | StartupRecovery
  | AbandonedAdvanceRequeue

fun show_advance_run_enqueue_reason :: "advance_run_enqueue_reason \<Rightarrow> string" where
  "show_advance_run_enqueue_reason NormalAdvance = ''normal_advance''"
| "show_advance_run_enqueue_reason RetryStage = ''retry_stage''"
| "show_advance_run_enqueue_reason ReasonTargetedAgentRetry = ''targeted_agent_retry''"
| "show_advance_run_enqueue_reason PostInvokeCompletion = ''post_invoke_completion''"
| "show_advance_run_enqueue_reason PostInvokeFailure = ''post_invoke_failure''"
| "show_advance_run_enqueue_reason StartupRecovery = ''startup_recovery''"
| "show_advance_run_enqueue_reason AbandonedAdvanceRequeue = ''abandoned_advance_requeue''"

definition parse_advance_run_enqueue_reason :: "string \<Rightarrow> (string, advance_run_enqueue_reason) result" where
  "parse_advance_run_enqueue_reason s =
     (if s = ''normal_advance'' then Inr NormalAdvance
      else if s = ''retry_stage'' then Inr RetryStage
      else if s = ''targeted_agent_retry'' then Inr ReasonTargetedAgentRetry
      else if s = ''post_invoke_completion'' then Inr PostInvokeCompletion
      else if s = ''post_invoke_failure'' then Inr PostInvokeFailure
      else if s = ''startup_recovery'' then Inr StartupRecovery
      else if s = ''abandoned_advance_requeue'' then Inr AbandonedAdvanceRequeue
      else Inl (''Unknown AdvanceRunEnqueueReason: '' @ s))"

record advance_run_payload =
  ap_schema_version :: "string option"
  ap_run_id :: ident
  ap_stage_id :: "string option"
  ap_target_stage_execution_id :: "ident option"
  ap_retry_authority_id :: "string option"
  ap_source_stage_execution_id :: "ident option"
  ap_source_work_item_id :: "string option"
  ap_source_invoke_work_item_id :: "string option"
  ap_source_agent_execution_id :: "string option"
  ap_enqueue_reason :: "advance_run_enqueue_reason option"
  ap_reason :: "string option"

datatype advance_run_payload_error =
  NotObject
  | MissingRunId
  | InvalidRunId
  | UnsupportedSchemaVersion
  | InvalidId string
  | MissingTargetField string
  | InvalidEnqueueReason
  | MissingEnqueueReason
  | TargetedFieldsNotAllowed
  | TargetLost
  | TargetRequired
  | MissingPostInvokeField string
  | SourceTargetMismatch
  | InvalidEntryKind

fun payload_error_code :: "advance_run_payload_error \<Rightarrow> string" where
  "payload_error_code NotObject = ''advance_run_payload_malformed''"
| "payload_error_code MissingRunId = ''advance_run_payload_missing_run_id''"
| "payload_error_code InvalidRunId = ''advance_run_payload_invalid_run_id''"
| "payload_error_code UnsupportedSchemaVersion = ''advance_run_payload_unsupported_schema_version''"
| "payload_error_code (InvalidId f) =
     (if f = ''target_stage_execution_id'' then ''advance_run_payload_invalid_target_stage_execution_id''
      else if f = ''source_stage_execution_id'' then ''advance_run_payload_invalid_source_stage_execution_id''
      else ''advance_run_payload_invalid_id'')"
| "payload_error_code (MissingTargetField f) =
     (if f = ''stage_id'' then ''advance_run_payload_missing_stage_id''
      else if f = ''retry_authority_id'' then ''advance_run_payload_missing_retry_authority''
      else if f = ''target_stage_execution_id'' then ''advance_run_payload_missing_target_for_authority''
      else ''advance_run_payload_missing_target_field'')"
| "payload_error_code InvalidEnqueueReason = ''advance_run_payload_invalid_enqueue_reason''"
| "payload_error_code MissingEnqueueReason = ''advance_run_payload_missing_enqueue_reason''"
| "payload_error_code TargetedFieldsNotAllowed = ''advance_run_payload_target_not_allowed_for_normal_advance''"
| "payload_error_code TargetLost = ''advance_run_payload_target_lost''"
| "payload_error_code TargetRequired = ''advance_run_payload_target_required''"
| "payload_error_code (MissingPostInvokeField f) =
     (if f = ''source_invoke_work_item_id'' then ''advance_run_payload_missing_source_invoke_work_item_id''
      else if f = ''source_stage_execution_id'' then ''advance_run_payload_missing_source_stage_execution_id''
      else ''advance_run_payload_missing_post_invoke_field'')"
| "payload_error_code SourceTargetMismatch = ''advance_run_source_target_mismatch''"
| "payload_error_code InvalidEntryKind = ''advance_run_invalid_entry_kind''"

text \<open>\<^verbatim>\<open>unwrap_or_default().is_empty()\<close>.\<close>

definition empty_text :: "string option \<Rightarrow> bool" where
  "empty_text s \<longleftrightarrow> s = None \<or> s = Some []"

definition targeted_reason :: "advance_run_payload \<Rightarrow> bool" where
  "targeted_reason p \<longleftrightarrow>
     ap_enqueue_reason p \<in> {Some RetryStage, Some PostInvokeCompletion, Some PostInvokeFailure,
       Some StartupRecovery, Some AbandonedAdvanceRequeue}"

definition post_invoke_reason :: "advance_run_payload \<Rightarrow> bool" where
  "post_invoke_reason p \<longleftrightarrow> ap_enqueue_reason p \<in> {Some PostInvokeCompletion, Some PostInvokeFailure}"

definition validate_targeted :: "advance_run_payload \<Rightarrow> (advance_run_payload_error, unit) result" where
  "validate_targeted p =
     (if \<not> targeted_reason p then Inl TargetedFieldsNotAllowed
      else if empty_text (ap_stage_id p) then Inl (MissingTargetField ''stage_id'')
      else if empty_text (ap_retry_authority_id p) then Inl (MissingTargetField ''retry_authority_id'')
      else if post_invoke_reason p \<and> empty_text (ap_source_invoke_work_item_id p)
      then Inl (MissingPostInvokeField ''source_invoke_work_item_id'')
      else if post_invoke_reason p \<and> ap_source_stage_execution_id p = None
      then Inl (MissingPostInvokeField ''source_stage_execution_id'')
      else if post_invoke_reason p \<and> ap_source_stage_execution_id p \<noteq> ap_target_stage_execution_id p
      then Inl SourceTargetMismatch
      else Inr ())"

definition validate_run_scoped :: "advance_run_payload \<Rightarrow> (advance_run_payload_error, unit) result" where
  "validate_run_scoped p =
     (if ap_retry_authority_id p \<noteq> None \<or> ap_source_stage_execution_id p \<noteq> None
         \<or> ap_source_invoke_work_item_id p \<noteq> None \<or> ap_source_agent_execution_id p \<noteq> None
      then Inl (MissingTargetField ''target_stage_execution_id'')
      else if ap_schema_version p \<noteq> None \<and> ap_source_work_item_id p \<noteq> None \<and> targeted_reason p
              \<and> ap_stage_id p = None
      then Inl TargetLost
      else if ap_schema_version p \<noteq> None \<and> ap_source_work_item_id p \<noteq> None \<and> targeted_reason p
              \<and> ap_stage_id p \<noteq> None
      then Inl TargetRequired
      else Inr ())"

definition validate :: "advance_run_payload \<Rightarrow> (advance_run_payload_error, unit) result" where
  "validate p =
     (if ap_schema_version p \<noteq> None \<and> ap_enqueue_reason p = None then Inl MissingEnqueueReason
      else if ap_enqueue_reason p = Some ReasonTargetedAgentRetry then Inl InvalidEntryKind
      else if ap_target_stage_execution_id p \<noteq> None then validate_targeted p
      else validate_run_scoped p)"

definition optional_uuid_string ::
  "(string \<Rightarrow> ident option) \<Rightarrow> string option \<Rightarrow> string \<Rightarrow> (advance_run_payload_error, ident option) result" where
  "optional_uuid_string uuid v field =
     (case v of
        None \<Rightarrow> Inr None
      | Some raw \<Rightarrow> (case uuid raw of None \<Rightarrow> Inl (InvalidId field) | Some i \<Rightarrow> Inr (Some i)))"

definition optional_reason ::
  "string option \<Rightarrow> (advance_run_payload_error, advance_run_enqueue_reason option) result" where
  "optional_reason v =
     (case v of
        None \<Rightarrow> Inr None
      | Some raw \<Rightarrow> (case parse_advance_run_enqueue_reason raw of
            Inl _ \<Rightarrow> Inl InvalidEnqueueReason | Inr r \<Rightarrow> Inr (Some r)))"

definition parse_value ::
  "(string \<Rightarrow> ident option) \<Rightarrow> json \<Rightarrow> (advance_run_payload_error, advance_run_payload) result" where
  "parse_value uuid j =
     (if \<not> is_object j then Inl NotObject
      else case get_str j ''run_id'' of
        None \<Rightarrow> Inl MissingRunId
      | Some raw \<Rightarrow>
          (case uuid raw of
             None \<Rightarrow> Inl InvalidRunId
           | Some run_id \<Rightarrow>
               if get_str j ''schema_version'' \<notin> {None, Some ''advance_run_payload.v1''}
               then Inl UnsupportedSchemaVersion
               else
                 bind_res (optional_uuid_string uuid (get_str j ''target_stage_execution_id'')
                   ''target_stage_execution_id'') (\<lambda>target.
                 bind_res (optional_uuid_string uuid (get_str j ''source_stage_execution_id'')
                   ''source_stage_execution_id'') (\<lambda>source.
                 bind_res (optional_reason (get_str j ''enqueue_reason'')) (\<lambda>reason.
                 let p = \<lparr>ap_schema_version = get_str j ''schema_version'', ap_run_id = run_id,
                   ap_stage_id = get_str j ''stage_id'', ap_target_stage_execution_id = target,
                   ap_retry_authority_id = get_str j ''retry_authority_id'',
                   ap_source_stage_execution_id = source,
                   ap_source_work_item_id = get_str j ''source_work_item_id'',
                   ap_source_invoke_work_item_id = get_str j ''source_invoke_work_item_id'',
                   ap_source_agent_execution_id = get_str j ''source_agent_execution_id'',
                   ap_enqueue_reason = reason, ap_reason = get_str j ''reason''\<rparr>
                 in bind_res (validate p) (\<lambda>_. Inr p))))))"

definition parse_json ::
  "(string \<Rightarrow> json option) \<Rightarrow> (string \<Rightarrow> ident option) \<Rightarrow> string
    \<Rightarrow> (advance_run_payload_error, advance_run_payload) result" where
  "parse_json from_str uuid raw = (case from_str raw of None \<Rightarrow> Inl NotObject | Some j \<Rightarrow> parse_value uuid j)"

datatype advance_run_target_mode = ModeLegacyRunScoped | ModeTargetedRetry

definition target_mode :: "advance_run_payload \<Rightarrow> advance_run_target_mode" where
  "target_mode p = (if ap_target_stage_execution_id p \<noteq> None then ModeTargetedRetry else ModeLegacyRunScoped)"

section \<open>The payload of a retried invocation\<close>

record targeted_retry_identity =
  ti_run_id :: ident
  ti_stage_id :: string
  ti_target_stage_execution_id :: ident
  ti_retry_authority_id :: string
  ti_source_stage_execution_id :: ident
  ti_source_agent_execution_id :: "string option"
  ti_source_work_item_id :: string
  ti_reason :: string
  ti_journal_id :: "string option"

definition optional_member :: "string \<Rightarrow> string option \<Rightarrow> (string \<times> json) list" where
  "optional_member k v = (case v of None \<Rightarrow> [] | Some s \<Rightarrow> [(k, JString s)])"

definition targeted_retry_object :: "targeted_retry_identity \<Rightarrow> json" where
  "targeted_retry_object t =
     JObject ([(''retry_authority_id'', JString (ti_retry_authority_id t)),
        (''target_stage_execution_id'', JString (ti_target_stage_execution_id t)),
        (''source_stage_execution_id'', JString (ti_source_stage_execution_id t))]
      @ optional_member ''source_agent_execution_id'' (ti_source_agent_execution_id t)
      @ [(''source_work_item_id'', JString (ti_source_work_item_id t)), (''reason'', JString (ti_reason t))]
      @ optional_member ''journal_id'' (ti_journal_id t))"

definition sanitize_targeted_retry_invoke_payload ::
  "json \<Rightarrow> targeted_retry_identity \<Rightarrow> (string, json) result" where
  "sanitize_targeted_retry_invoke_payload j t =
     (if \<not> is_object j then Inl ''targeted retry payload is not an object''
      else
        let j1 = fold json_remove [''p058_claimed'', ''target_stage_execution_id'', ''source_stage_execution_id'',
              ''source_agent_execution_id'', ''source_work_item_id'', ''retry_authority_id''] j
        in Inr (fold (\<lambda>(k, v). json_insert k v)
             [(''run_id'', JString (ti_run_id t)), (''stage_id'', JString (ti_stage_id t)),
              (''stage_execution_id'', JString (ti_target_stage_execution_id t)),
              (''target_stage_execution_id'', JString (ti_target_stage_execution_id t)),
              (''retry_authority_id'', JString (ti_retry_authority_id t)),
              (''targeted_retry'', targeted_retry_object t)] j1))"

section \<open>The repository\<close>

text \<open>\<^verbatim>\<open>retry_stage_execution_authorities_one_active\<close>: one active authority per stage of a run.\<close>

definition holds_stage :: "ident \<Rightarrow> string \<Rightarrow> retry_authority \<Rightarrow> bool" where
  "holds_stage run stage a \<longleftrightarrow> ra_run_id a = run \<and> ra_stage_id a = stage \<and> ra_authority_state a = AuthorityActive"

definition insert_authority_tx :: "retry_authority \<Rightarrow> retry_authority list \<Rightarrow> (string, retry_authority list) result" where
  "insert_authority_tx a t =
     (if ra_id a \<in> ra_id ` set t then Inl ''UNIQUE constraint failed''
      else if ra_authority_state a = AuthorityActive \<and> list_ex (holds_stage (ra_run_id a) (ra_stage_id a)) t
      then Inl ''UNIQUE constraint failed''
      else Inr (t @ [a]))"

definition create_recovered_orphan_tx ::
  "ident \<Rightarrow> ident \<Rightarrow> string \<Rightarrow> ident \<Rightarrow> string \<Rightarrow> datetime \<Rightarrow> retry_authority list
    \<Rightarrow> (string, retry_authority \<times> retry_authority list) result" where
  "create_recovered_orphan_tx i run stage target reason now t =
     (let a = \<lparr>ra_id = i, ra_run_id = run, ra_stage_id = stage, ra_target_stage_execution_id = target,
        ra_entry_kind = HistoricalOrphanRecovery, ra_source_command_journal_id = None,
        ra_source_retry_work_item_id = None, ra_source_invoke_work_item_id = None,
        ra_source_agent_execution_id = None, ra_authority_state = AuthorityRecoveredOrphan,
        ra_created_at = now, ra_updated_at = now, ra_terminal_reason = Some reason\<rparr>
      in bind_res (insert_authority_tx a t) (\<lambda>t'. Inr (a, t')))"

definition end_authority :: "retry_authority_state \<Rightarrow> string \<Rightarrow> datetime \<Rightarrow> retry_authority \<Rightarrow> retry_authority" where
  "end_authority s reason now a = a\<lparr>ra_authority_state := s, ra_terminal_reason := Some reason, ra_updated_at := now\<rparr>"

definition supersede_active_for_stage_tx ::
  "ident \<Rightarrow> string \<Rightarrow> datetime \<Rightarrow> string \<Rightarrow> retry_authority list \<Rightarrow> retry_authority list \<times> nat" where
  "supersede_active_for_stage_tx run stage now reason t =
     (sql_update (holds_stage run stage) (end_authority AuthoritySuperseded reason now) t,
      rows_affected (holds_stage run stage) t)"

definition mark_terminalized_tx ::
  "ident \<Rightarrow> datetime \<Rightarrow> string \<Rightarrow> retry_authority list \<Rightarrow> retry_authority list \<times> nat" where
  "mark_terminalized_tx i now reason t =
     (let P = (\<lambda>a. ra_id a = i \<and> ra_authority_state a = AuthorityActive)
      in (sql_update P (end_authority AuthorityTerminalized reason now) t, rows_affected P t))"

text \<open>
  The startup repair of a cancelled run (\<^verbatim>\<open>engine/src/recovery.rs\<close>) ends every active authority of the run;
  a reason that is already recorded stays.
\<close>

definition terminalize_for_cancelled_run :: "ident \<Rightarrow> datetime \<Rightarrow> retry_authority list \<Rightarrow> retry_authority list" where
  "terminalize_for_cancelled_run run now t =
     sql_update (\<lambda>a. ra_run_id a = run \<and> ra_authority_state a = AuthorityActive)
       (\<lambda>a. a\<lparr>ra_authority_state := AuthorityTerminalized,
              ra_terminal_reason := (case ra_terminal_reason a of
                None \<Rightarrow> Some ''cancelled_run_terminal_invariant_repair'' | Some r \<Rightarrow> Some r),
              ra_updated_at := now\<rparr>) t"

definition create_active_targeted_agent_retry_tx ::
  "ident \<Rightarrow> string \<Rightarrow> ident \<Rightarrow> ident option \<Rightarrow> ident option \<Rightarrow> ident \<Rightarrow> ident option \<Rightarrow> datetime
    \<Rightarrow> retry_authority list \<Rightarrow> (string, retry_authority \<times> retry_authority list) result" where
  "create_active_targeted_agent_retry_tx run stage target journal retry_item invoke_item agent now t =
     (let (t1, _) = supersede_active_for_stage_tx run stage now ''superseded_by_new_targeted_retry'' t;
          a = \<lparr>ra_id = ''p091-retry-authority:'' @ target, ra_run_id = run, ra_stage_id = stage,
            ra_target_stage_execution_id = target, ra_entry_kind = TargetedAgentRetry,
            ra_source_command_journal_id = journal, ra_source_retry_work_item_id = retry_item,
            ra_source_invoke_work_item_id = Some invoke_item, ra_source_agent_execution_id = agent,
            ra_authority_state = AuthorityActive, ra_created_at = now, ra_updated_at = now,
            ra_terminal_reason = None\<rparr>
      in bind_res (insert_authority_tx a t1) (\<lambda>t'. Inr (a, t')))"

definition find_authority_by_id :: "ident \<Rightarrow> retry_authority list \<Rightarrow> retry_authority option" where
  "find_authority_by_id i t = fetch_optional (filter (\<lambda>a. ra_id a = i) t)"

definition find_active_by_run_stage :: "ident \<Rightarrow> string \<Rightarrow> retry_authority list \<Rightarrow> retry_authority option" where
  "find_active_by_run_stage run stage t = fetch_optional (filter (holds_stage run stage) t)"

definition find_active_by_target :: "ident \<Rightarrow> retry_authority list \<Rightarrow> retry_authority option" where
  "find_active_by_target target t =
     fetch_optional (filter (\<lambda>a. ra_target_stage_execution_id a = target \<and> ra_authority_state a = AuthorityActive) t)"

definition list_authorities_by_run :: "ident \<Rightarrow> retry_authority list \<Rightarrow> retry_authority list" where
  "list_authorities_by_run run t = sort_key ra_created_at (filter (\<lambda>a. ra_run_id a = run) t)"

section \<open>The codecs\<close>

interpretation entry_kind_codec: codec show_retry_authority_entry_kind parse_retry_authority_entry_kind
proof
  show "parse_retry_authority_entry_kind (show_retry_authority_entry_kind x) = Inr x" for x
    by (cases x) (simp_all add: parse_retry_authority_entry_kind_def)
  show "parse_retry_authority_entry_kind s = Inr x \<Longrightarrow> show_retry_authority_entry_kind x = s" for s x
    by (auto simp: parse_retry_authority_entry_kind_def split: if_splits)
qed

interpretation authority_state_codec: codec show_retry_authority_state parse_retry_authority_state
proof
  show "parse_retry_authority_state (show_retry_authority_state x) = Inr x" for x
    by (cases x) (simp_all add: parse_retry_authority_state_def)
  show "parse_retry_authority_state s = Inr x \<Longrightarrow> show_retry_authority_state x = s" for s x
    by (auto simp: parse_retry_authority_state_def split: if_splits)
qed

interpretation enqueue_reason_codec: codec show_advance_run_enqueue_reason parse_advance_run_enqueue_reason
proof
  show "parse_advance_run_enqueue_reason (show_advance_run_enqueue_reason x) = Inr x" for x
    by (cases x) (simp_all add: parse_advance_run_enqueue_reason_def)
  show "parse_advance_run_enqueue_reason s = Inr x \<Longrightarrow> show_advance_run_enqueue_reason x = s" for s x
    by (auto simp: parse_advance_run_enqueue_reason_def split: if_splits)
qed

end
