(* ===== verification/Work_Queue.thy ===== *)
theory Work_Queue
  imports Agent_Admission Retry_Authority "HOL-Library.Product_Lexorder"
begin

text \<open>
  The work-item repository, \<^verbatim>\<open>control-plane/crates/db/src/repos/work_items.rs\<close>: the queue of the
  engine, from enqueueing and claiming to the settlement of an attempt, with the rows it reads and
  writes beside the items (agent executions, runtime facts, source claims, retry authorities, host
  interruptions). Every definition is one transaction; an error rolls it back.

  Parameters: the JSON parser and printer, the printing of instants, the parser of identifiers, and the
  guard triggers of the carry-forward migration (whether the update of a row is denied), which are
  modelled where the code handles their denial, in the claim. The conditions of SQL on a payload read
  the tree the parser gives.
\<close>

section \<open>Kinds and statuses\<close>

datatype work_item_kind =
  InvokeAgent
  | SettleStage
  | AdvanceRun
  | RebuildProjection
  | StartupRepair
  | TriggerNextStage
  | StewardAnalysis
  | ProcessContinuation
  | PrepareRunContinuation

fun show_work_item_kind :: "work_item_kind \<Rightarrow> string" where
  "show_work_item_kind InvokeAgent = ''invoke_agent''"
| "show_work_item_kind SettleStage = ''settle_stage''"
| "show_work_item_kind AdvanceRun = ''advance_run''"
| "show_work_item_kind RebuildProjection = ''rebuild_projection''"
| "show_work_item_kind StartupRepair = ''startup_repair''"
| "show_work_item_kind TriggerNextStage = ''trigger_next_stage''"
| "show_work_item_kind StewardAnalysis = ''steward_analysis''"
| "show_work_item_kind ProcessContinuation = ''process_continuation''"
| "show_work_item_kind PrepareRunContinuation = ''prepare_run_continuation''"

definition parse_work_item_kind :: "string \<Rightarrow> (string, work_item_kind) result" where
  "parse_work_item_kind s =
     (if s = ''invoke_agent'' then Inr InvokeAgent
      else if s = ''settle_stage'' then Inr SettleStage
      else if s = ''advance_run'' then Inr AdvanceRun
      else if s = ''rebuild_projection'' then Inr RebuildProjection
      else if s = ''startup_repair'' then Inr StartupRepair
      else if s = ''trigger_next_stage'' then Inr TriggerNextStage
      else if s = ''steward_analysis'' then Inr StewardAnalysis
      else if s = ''process_continuation'' then Inr ProcessContinuation
      else if s = ''prepare_run_continuation'' then Inr PrepareRunContinuation
      else Inl (''Unknown WorkItemKind: '' @ s))"

datatype work_item_status = WorkPending | WorkRunning | WorkCompleted | WorkFailed | WorkCancelled

fun show_work_item_status :: "work_item_status \<Rightarrow> string" where
  "show_work_item_status WorkPending = ''pending''"
| "show_work_item_status WorkRunning = ''running''"
| "show_work_item_status WorkCompleted = ''completed''"
| "show_work_item_status WorkFailed = ''failed''"
| "show_work_item_status WorkCancelled = ''cancelled''"

definition parse_work_item_status :: "string \<Rightarrow> (string, work_item_status) result" where
  "parse_work_item_status s =
     (if s = ''pending'' then Inr WorkPending
      else if s = ''running'' then Inr WorkRunning
      else if s = ''completed'' then Inr WorkCompleted
      else if s = ''failed'' then Inr WorkFailed
      else if s = ''cancelled'' then Inr WorkCancelled
      else Inl (''Unknown WorkItemStatus: '' @ s))"

interpretation work_item_kind_codec: codec show_work_item_kind parse_work_item_kind
proof
  show "parse_work_item_kind (show_work_item_kind x) = Inr x" for x
    by (cases x) (simp_all add: parse_work_item_kind_def)
  show "parse_work_item_kind s = Inr x \<Longrightarrow> show_work_item_kind x = s" for s x
    by (auto simp: parse_work_item_kind_def split: if_splits)
qed

interpretation work_item_status_codec: codec show_work_item_status parse_work_item_status
proof
  show "parse_work_item_status (show_work_item_status x) = Inr x" for x
    by (cases x) (simp_all add: parse_work_item_status_def)
  show "parse_work_item_status s = Inr x \<Longrightarrow> show_work_item_status x = s" for s x
    by (auto simp: parse_work_item_status_def split: if_splits)
qed

section \<open>The database of the queue\<close>

record diagnostics_row =
  dg_agent_execution_id :: ident
  dg_missing_required_output_count :: "int option"
  dg_rejected_output_count :: "int option"
  dg_stale_output_count :: "int option"

record host_row =
  hr_epoch_id :: ident
  hr_agent_execution_id :: ident
  hr_run_id :: "ident option"
  hr_stage_execution_id :: ident
  hr_settlement_status :: string
  hr_cleanup_status :: string
  hr_retry_enqueued_at :: "datetime option"

record startup_repair_row =
  sr_id :: ident
  sr_run_id :: ident
  sr_repair_kind :: string
  sr_repaired_at :: datetime
  sr_notes :: "string option"

record journal_row =
  wj_id :: ident
  wj_run_id :: "ident option"
  wj_created_at :: datetime

record session_row =
  sg_id :: ident
  sg_lineage_id :: ident
  sg_status :: string
  sg_provider_session_id :: "string option"
  sg_last_activity_at :: "datetime option"
  sg_created_at :: datetime
  sg_ended_at :: "datetime option"
  sg_end_reason :: "string option"

record session_event_row =
  sv_lineage_id :: ident
  sv_generation_id :: ident
  sv_event_type :: string
  sv_recorded_at :: datetime
  sv_details_json :: "string option"

record work_db =
  wd_sched :: scheduler_db
  wd_store :: artifact_store
  wd_authorities :: "retry_authority list"
  wd_diagnostics :: "diagnostics_row list"
  wd_host :: "host_row list"
  wd_fences :: "ident list"
  wd_mediations :: "ident list"
  wd_continuations :: "ident list"
  wd_repairs :: "startup_repair_row list"
  wd_journal :: "journal_row list"
  wd_sessions :: "session_row list"
  wd_session_events :: "session_event_row list"

record queue_world =
  qw_from_str :: "string \<Rightarrow> json option"
  qw_to_string :: "json \<Rightarrow> string"
  qw_rfc3339 :: "datetime \<Rightarrow> string"
  qw_uuid :: "string \<Rightarrow> ident option"
  qw_fenced :: "work_db \<Rightarrow> work_item_row \<Rightarrow> work_item_row \<Rightarrow> bool"
  qw_later :: "datetime \<Rightarrow> datetime"

abbreviation items :: "work_db \<Rightarrow> work_item_row list" where
  "items d \<equiv> sd_items (wd_sched d)"

abbreviation agents :: "work_db \<Rightarrow> agent_execution_row list" where
  "agents d \<equiv> qd_agents (sd_quota (wd_sched d))"

abbreviation facts :: "work_db \<Rightarrow> runtime_facts_row list" where
  "facts d \<equiv> qd_facts (sd_quota (wd_sched d))"

abbreviation stages :: "work_db \<Rightarrow> stage_row list" where
  "stages d \<equiv> qd_stages (sd_quota (wd_sched d))"

abbreviation runs :: "work_db \<Rightarrow> run_row list" where
  "runs d \<equiv> qd_runs (sd_quota (wd_sched d))"

abbreviation claims :: "work_db \<Rightarrow> source_generation_claim list" where
  "claims d \<equiv> as_claims (wd_store d)"

definition set_items :: "work_item_row list \<Rightarrow> work_db \<Rightarrow> work_db" where
  "set_items ws d = d\<lparr>wd_sched := (wd_sched d)\<lparr>sd_items := ws\<rparr>\<rparr>"

definition set_agents :: "agent_execution_row list \<Rightarrow> work_db \<Rightarrow> work_db" where
  "set_agents as d = d\<lparr>wd_sched := (wd_sched d)\<lparr>sd_quota := (sd_quota (wd_sched d))\<lparr>qd_agents := as\<rparr>\<rparr>\<rparr>"

definition set_facts :: "runtime_facts_row list \<Rightarrow> work_db \<Rightarrow> work_db" where
  "set_facts fs d = d\<lparr>wd_sched := (wd_sched d)\<lparr>sd_quota := (sd_quota (wd_sched d))\<lparr>qd_facts := fs\<rparr>\<rparr>\<rparr>"

definition set_claims :: "source_generation_claim list \<Rightarrow> work_db \<Rightarrow> work_db" where
  "set_claims cs d = d\<lparr>wd_store := (wd_store d)\<lparr>as_claims := cs\<rparr>\<rparr>"

text \<open>\<^verbatim>\<open>UPDATE work_items SET ... WHERE ...\<close>, with the rows it reports.\<close>

definition update_items :: "(work_item_row \<Rightarrow> bool) \<Rightarrow> (work_item_row \<Rightarrow> work_item_row) \<Rightarrow> work_db \<Rightarrow> work_db" where
  "update_items P f d = set_items (sql_update P f (items d)) d"

definition items_hit :: "(work_item_row \<Rightarrow> bool) \<Rightarrow> work_db \<Rightarrow> nat" where
  "items_hit P d = rows_affected P (items d)"

abbreviation open_statuses :: "string set" where
  "open_statuses \<equiv> {''pending'', ''running''}"

definition find_item :: "ident \<Rightarrow> work_db \<Rightarrow> work_item_row option" where
  "find_item i d = fetch_optional (filter (\<lambda>w. wi_id w = i) (items d))"

section \<open>Rows\<close>

definition parse_work_item_row :: "queue_world \<Rightarrow> work_item_row \<Rightarrow> (string, work_item_row) result" where
  "parse_work_item_row qw w =
     bind_res (parse_work_item_kind (wi_kind w)) (\<lambda>_.
     bind_res (parse_work_item_status (wi_status w)) (\<lambda>_.
     case wi_run_id w of
       None \<Rightarrow> Inr w
     | Some r \<Rightarrow> (case qw_uuid qw r of
           None \<Rightarrow> Inl ''parse work item run_id'' | Some i \<Rightarrow> Inr (w\<lparr>wi_run_id := Some i\<rparr>))))"

definition enqueue_tx :: "work_item_row \<Rightarrow> work_db \<Rightarrow> (string, work_db) result" where
  "enqueue_tx w d =
     (if wi_id w \<in> wi_id ` set (items d) then Inl ''UNIQUE constraint failed''
      else Inr (set_items (items d @ [w]) d))"

definition find_by_id :: "queue_world \<Rightarrow> ident \<Rightarrow> work_db \<Rightarrow> (string, work_item_row option) result" where
  "find_by_id qw i d =
     (case find_item i d of
        None \<Rightarrow> Inr None | Some w \<Rightarrow> bind_res (parse_work_item_row qw w) (\<lambda>x. Inr (Some x)))"

definition list_by_run_tx :: "queue_world \<Rightarrow> ident \<Rightarrow> work_db \<Rightarrow> (string, work_item_row list) result" where
  "list_by_run_tx qw run d =
     map_res (parse_work_item_row qw) (sort_key wi_created_at (filter (\<lambda>w. wi_run_id w = Some run) (items d)))"

definition list_by_status :: "queue_world \<Rightarrow> work_item_status \<Rightarrow> work_db \<Rightarrow> (string, work_item_row list) result" where
  "list_by_status qw s d =
     map_res (parse_work_item_row qw)
       (sort_key wi_created_at (filter (\<lambda>w. wi_status w = show_work_item_status s) (items d)))"

definition list_pending_invoke_agents_for_run_stage_tx ::
  "queue_world \<Rightarrow> ident \<Rightarrow> string \<Rightarrow> work_db \<Rightarrow> (string, work_item_row list) result" where
  "list_pending_invoke_agents_for_run_stage_tx qw run stage d =
     map_res (parse_work_item_row qw) (sort_key wi_scheduled_at
       (filter (\<lambda>w. wi_status w = ''pending'' \<and> wi_kind w = ''invoke_agent'' \<and> wi_run_id w = Some run
          \<and> wi_stage_id w = Some stage) (items d)))"

definition select_next_pending_invoke_agent_for_start_tx ::
  "queue_world \<Rightarrow> datetime \<Rightarrow> work_db \<Rightarrow> (string, work_item_row option) result" where
  "select_next_pending_invoke_agent_for_start_tx qw now d =
     bind_res (map_res (parse_work_item_row qw) (select_pending_invoke_agents_for_start now 1 (items d)))
       (\<lambda>ws. Inr (fetch_optional ws))"

definition has_pending_or_running_by_run_tx :: "ident \<Rightarrow> work_db \<Rightarrow> bool" where
  "has_pending_or_running_by_run_tx run d \<longleftrightarrow>
     0 < items_hit (\<lambda>w. wi_run_id w = Some run \<and> wi_status w \<in> open_statuses) d"

section \<open>The scope of an advance\<close>

datatype advance_payload_scope = LegacyRunScoped | Targeted | MalformedScope string

datatype advance_authority_match = AuthorityMatch | NoAuthorityMatch | MalformedMatch string

definition payload_looks_targeted_or_typed :: "queue_world \<Rightarrow> string \<Rightarrow> bool" where
  "payload_looks_targeted_or_typed qw raw \<longleftrightarrow>
     (case qw_from_str qw raw of
        None \<Rightarrow> True
      | Some p \<Rightarrow> list_ex (\<lambda>k. json_get p k \<noteq> None)
          [''schema_version'', ''target_stage_execution_id'', ''retry_authority_id'',
           ''source_stage_execution_id'', ''source_work_item_id'', ''source_invoke_work_item_id''])"

definition parse_advance :: "queue_world \<Rightarrow> string \<Rightarrow> (advance_run_payload_error, advance_run_payload) result" where
  "parse_advance qw = parse_json (qw_from_str qw) (qw_uuid qw)"

definition classify_advance_payload_scope :: "queue_world \<Rightarrow> string \<Rightarrow> advance_payload_scope" where
  "classify_advance_payload_scope qw raw =
     (case parse_advance qw raw of
        Inr p \<Rightarrow> if ap_target_stage_execution_id p \<noteq> None then Targeted else LegacyRunScoped
      | Inl e \<Rightarrow> if payload_looks_targeted_or_typed qw raw then MalformedScope (payload_error_code e)
                else LegacyRunScoped)"

definition advance_payload_matches_authority ::
  "queue_world \<Rightarrow> string \<Rightarrow> ident \<Rightarrow> ident \<Rightarrow> advance_authority_match" where
  "advance_payload_matches_authority qw raw authority target =
     (case parse_advance qw raw of
        Inl e \<Rightarrow> if payload_looks_targeted_or_typed qw raw then MalformedMatch (payload_error_code e)
                else NoAuthorityMatch
      | Inr _ \<Rightarrow>
          (case qw_from_str qw raw of
             None \<Rightarrow> MalformedMatch ''advance_run_payload_malformed''
           | Some p \<Rightarrow>
               if get_str p ''retry_authority_id'' = Some authority
                  \<and> get_str p ''target_stage_execution_id'' = Some target
               then AuthorityMatch else NoAuthorityMatch))"

definition quarantinable :: "ident \<Rightarrow> work_item_row \<Rightarrow> bool" where
  "quarantinable i w \<longleftrightarrow> wi_id w = i \<and> wi_kind w = ''advance_run'' \<and> wi_status w \<in> open_statuses"

definition failed_item :: "datetime \<Rightarrow> string \<Rightarrow> work_item_row \<Rightarrow> work_item_row" where
  "failed_item now error w = w\<lparr>wi_status := ''failed'', wi_failed_at := Some now, wi_last_error := Some error\<rparr>"

definition quarantine_advance_work_item_tx :: "datetime \<Rightarrow> ident \<Rightarrow> string \<Rightarrow> work_db \<Rightarrow> work_db" where
  "quarantine_advance_work_item_tx now i code d = update_items (quarantinable i) (failed_item now code) d"

section \<open>Claiming\<close>

text \<open>
  \<^verbatim>\<open>(scheduled_at, rowid) > cursor\<close>. The rowid of an item is its index in the table.
\<close>

fun after_cursor :: "(datetime \<times> nat) option \<Rightarrow> nat \<times> work_item_row \<Rightarrow> bool" where
  "after_cursor None (n, w) = True"
| "after_cursor (Some (t, m)) (n, w) \<longleftrightarrow> t < wi_scheduled_at w \<or> t = wi_scheduled_at w \<and> m < n"

definition claim_candidates ::
  "datetime \<Rightarrow> (string \<Rightarrow> bool) \<Rightarrow> (datetime \<times> nat) option \<Rightarrow> work_db \<Rightarrow> (nat \<times> work_item_row) list" where
  "claim_candidates now kinds cursor d =
     sort_key (\<lambda>(n, w). (wi_scheduled_at w, n))
       (filter (\<lambda>(n, w). wi_status w = ''pending'' \<and> is_due now w \<and> kinds (wi_kind w) \<and> after_cursor cursor (n, w))
          (enumerate 0 (items d)))"

definition unowned :: "queue_world \<Rightarrow> work_db \<Rightarrow> work_item_row \<Rightarrow> bool" where
  "unowned qw d w \<longleftrightarrow>
     wd_fences d \<noteq> [] \<and> wi_stage_id w = None
     \<and> (wi_worktree_resource_key w = None \<or> wi_worktree_resource_key w = Some [])
     \<and> (case qw_from_str qw (wi_payload_json w) of
          None \<Rightarrow> False
        | Some p \<Rightarrow>
            \<not> list_ex (\<lambda>r. Some (rr_id r) = wi_run_id w \<or> Some (rr_id r) = get_str p ''run_id'') (runs d)
            \<and> \<not> list_ex (\<lambda>s. Some (st_id s) = get_str p ''stage_execution_id'') (stages d)
            \<and> \<not> list_ex (\<lambda>a. Some (ae_id a) = get_str p ''agent_execution_id'') (agents d)
            \<and> \<not> list_ex (\<lambda>m. Some m = get_str p ''mediation_record_id''
                              \<or> Some m = get_str p ''lead_mediation_record_id'') (wd_mediations d)
            \<and> \<not> list_ex (\<lambda>c. Some c = get_str p ''continuation_id'') (wd_continuations d))"

definition quarantine_unowned_fenced_work_item_tx ::
  "queue_world \<Rightarrow> datetime \<Rightarrow> ident \<Rightarrow> work_db \<Rightarrow> work_db \<times> bool" where
  "quarantine_unowned_fenced_work_item_tx qw now i d =
     (let P = (\<lambda>w. wi_id w = i \<and> wi_status w = ''pending'' \<and> unowned qw d w);
          f = failed_item now ''p039_queue_owner_unresolved''
      in if list_ex (\<lambda>w. P w \<and> qw_fenced qw d w (f w)) (items d) then (d, False)
         else (update_items P f d, items_hit P d = 1))"

definition claimed_item :: "datetime \<Rightarrow> work_item_row \<Rightarrow> work_item_row" where
  "claimed_item started w =
     w\<lparr>wi_status := ''running'', wi_started_at := Some started, wi_attempt_count := wi_attempt_count w + 1\<rparr>"

text \<open>
  One turn of the claim on the row found: the item is claimed, or the turn leaves a database (a malformed
  advance or an item without owner is failed, a fenced item stays) and the loop goes on behind it.
\<close>

definition claim_turn ::
  "queue_world \<Rightarrow> datetime \<Rightarrow> work_item_row \<Rightarrow> work_db \<Rightarrow> (string, work_db \<times> bool) result" where
  "claim_turn qw now w d =
     (let code = (if wi_kind w \<noteq> ''advance_run'' then None
                  else case classify_advance_payload_scope qw (wi_payload_json w) of
                    MalformedScope c \<Rightarrow> Some c | _ \<Rightarrow> None)
      in case code of
           Some c \<Rightarrow>
             if qw_fenced qw d w (failed_item now c w) then Inr (d, False)
             else Inr (quarantine_advance_work_item_tx now (wi_id w) c d, False)
         | None \<Rightarrow>
             let P = (\<lambda>x. wi_id x = wi_id w \<and> wi_status x = ''pending'');
                 f = claimed_item (indexable_due_timestamp now * 1000)
             in if qw_fenced qw d w (f w)
                then Inr (fst (quarantine_unowned_fenced_work_item_tx qw now (wi_id w) d), False)
                else if items_hit P d \<noteq> 1 then Inl (''claim_next CAS failed for work item '' @ wi_id w)
                else Inr (update_items P f d, True))"

lemma set_items_sel [simp]:
  "items (set_items ws d) = ws" "agents (set_items ws d) = agents d" "facts (set_items ws d) = facts d"
  "claims (set_items ws d) = claims d" "wd_authorities (set_items ws d) = wd_authorities d"
  "set_items (items d) d = d"
  by (simp_all add: set_items_def)

lemma items_update_items [simp]: "items (update_items P f d) = sql_update P f (items d)"
  by (simp add: update_items_def)

lemma scheduled_update:
  "(\<And>w. wi_scheduled_at (f w) = wi_scheduled_at w)
   \<Longrightarrow> map wi_scheduled_at (items (update_items P f d)) = map wi_scheduled_at (items d)"
  by (simp add: map_sql_update)

lemma claim_turn_scheduled:
  assumes "claim_turn qw now w d = Inr (d', b)"
  shows "map wi_scheduled_at (items d') = map wi_scheduled_at (items d)"
  using assms
  by (auto simp: claim_turn_def Let_def quarantine_advance_work_item_tx_def
      quarantine_unowned_fenced_work_item_tx_def failed_item_def claimed_item_def
      simp del: items_update_items intro!: scheduled_update split: option.splits if_splits)

definition rows_after :: "(datetime \<times> nat) option \<Rightarrow> work_db \<Rightarrow> nat" where
  "rows_after cursor d = length (filter (after_cursor cursor) (enumerate 0 (items d)))"

lemma rows_after_cong:
  assumes "map wi_scheduled_at (items d') = map wi_scheduled_at (items d)"
  shows "rows_after cursor d' = rows_after cursor d"
proof -
  have len: "length (items d') = length (items d)" using assms by (metis length_map)
  have "after_cursor cursor (enumerate 0 (items d') ! i) \<longleftrightarrow> after_cursor cursor (enumerate 0 (items d) ! i)"
    if "i < length (items d)" for i
  proof -
    have "wi_scheduled_at (items d' ! i) = wi_scheduled_at (items d ! i)"
      using arg_cong[OF assms, of "\<lambda>l. l ! i"] that len by simp
    then show ?thesis using that len by (cases cursor) (auto simp: nth_enumerate_eq)
  qed
  then show ?thesis using len by (simp add: rows_after_def length_filter_conv_card cong: conj_cong)
qed

lemma claim_candidates_head:
  assumes "claim_candidates now kinds cursor d = (n, w) # rest"
  shows "rows_after (Some (wi_scheduled_at w, n)) d < rows_after cursor d"
proof -
  have "(n, w) \<in> set (claim_candidates now kinds cursor d)" using assms by simp
  then have mem: "(n, w) \<in> set (enumerate 0 (items d))" "after_cursor cursor (n, w)"
    by (auto simp: claim_candidates_def)
  have sub: "after_cursor cursor x" if "after_cursor (Some (wi_scheduled_at w, n)) x" for x
    using that mem(2) by (cases x; cases cursor) auto
  have "filter (after_cursor (Some (wi_scheduled_at w, n))) (enumerate 0 (items d))
      = filter (after_cursor (Some (wi_scheduled_at w, n))) (filter (after_cursor cursor) (enumerate 0 (items d)))"
    using sub by (auto intro!: filter_cong)
  moreover have "(n, w) \<in> set (filter (after_cursor cursor) (enumerate 0 (items d)))" using mem by simp
  then have "length (filter (after_cursor (Some (wi_scheduled_at w, n))) (filter (after_cursor cursor) (enumerate 0 (items d))))
      < length (filter (after_cursor cursor) (enumerate 0 (items d)))"
    by (rule length_filter_less) simp
  ultimately show ?thesis unfolding rows_after_def by metis
qed

function claim_loop ::
  "queue_world \<Rightarrow> datetime \<Rightarrow> (string \<Rightarrow> bool) \<Rightarrow> (datetime \<times> nat) option \<Rightarrow> work_db
    \<Rightarrow> (string, work_db \<times> work_item_row option) result" where
  "claim_loop qw now kinds cursor d =
     (case claim_candidates now kinds cursor d of
        [] \<Rightarrow> Inr (d, None)
      | (n, w) # _ \<Rightarrow>
          (case claim_turn qw now w d of
             Inl e \<Rightarrow> Inl e
           | Inr (d', True) \<Rightarrow> Inr (d', Some w)
           | Inr (d', False) \<Rightarrow> claim_loop qw now kinds (Some (wi_scheduled_at w, n)) d'))"
  by pat_completeness auto
termination
  by (relation "measure (\<lambda>(qw, now, kinds, cursor, d). rows_after cursor d)")
    (auto simp: rows_after_cong[OF claim_turn_scheduled] intro: claim_candidates_head)

declare claim_loop.simps [simp del]

text \<open>
  The transaction commits before the row is parsed: a row whose kind or run does not parse is claimed
  and reported as an error.
\<close>

definition claim_next_where ::
  "queue_world \<Rightarrow> datetime \<Rightarrow> (string \<Rightarrow> bool) \<Rightarrow> work_db
    \<Rightarrow> (string, work_db \<times> (string, work_item_row option) result) result" where
  "claim_next_where qw now kinds d =
     bind_res (claim_loop qw now kinds None d) (\<lambda>(d', found).
       case found of
         None \<Rightarrow> Inr (d', Inr None)
       | Some w \<Rightarrow> Inr (d', bind_res (parse_work_item_row qw
           (w\<lparr>wi_status := ''running'', wi_attempt_count := wi_attempt_count w + 1\<rparr>)) (\<lambda>x. Inr (Some x))))"

definition claim_next ::
  "queue_world \<Rightarrow> datetime \<Rightarrow> work_db \<Rightarrow> (string, work_db \<times> (string, work_item_row option) result) result" where
  "claim_next qw now d = claim_next_where qw now (\<lambda>k. k \<noteq> ''prepare_run_continuation'') d"

definition claim_next_non_invoke ::
  "queue_world \<Rightarrow> datetime \<Rightarrow> work_db \<Rightarrow> (string, work_db \<times> (string, work_item_row option) result) result" where
  "claim_next_non_invoke qw now d =
     claim_next_where qw now (\<lambda>k. k \<notin> {''invoke_agent'', ''prepare_run_continuation''}) d"

definition mark_claimed_running_tx ::
  "queue_world \<Rightarrow> ident \<Rightarrow> datetime \<Rightarrow> work_db \<Rightarrow> (string, work_db \<times> work_item_row) result" where
  "mark_claimed_running_tx qw i now d =
     (let P = (\<lambda>w. wi_id w = i \<and> wi_status w = ''pending''); d' = update_items P (claimed_item now) d
      in if items_hit P d \<noteq> 1 then Inl (''claim/start CAS failed for InvokeAgent work item '' @ i)
         else case find_item i d' of
             None \<Rightarrow> Inl ''load claimed work item''
           | Some w \<Rightarrow> bind_res (parse_work_item_row qw w) (\<lambda>x. Inr (d', x)))"

definition release_pending_invoke_agent_quota_wait_tx :: "ident \<Rightarrow> datetime \<Rightarrow> work_db \<Rightarrow> work_db \<times> bool" where
  "release_pending_invoke_agent_quota_wait_tx i now d =
     (let P = (\<lambda>w. wi_id w = i \<and> wi_status w = ''pending'' \<and> wi_kind w = ''invoke_agent'')
      in (update_items P (\<lambda>w. w\<lparr>wi_scheduled_at := now, wi_last_error := None\<rparr>) d, 0 < items_hit P d))"

definition update_payload_json_tx :: "ident \<Rightarrow> string \<Rightarrow> work_db \<Rightarrow> work_db" where
  "update_payload_json_tx i payload d = update_items (\<lambda>w. wi_id w = i) (\<lambda>w. w\<lparr>wi_payload_json := payload\<rparr>) d"

end
