(* ===== verification/Work_Settlement.thy ===== *)
theory Work_Settlement
  imports Work_Queue
begin

text \<open>
  The second half of \<^verbatim>\<open>control-plane/crates/db/src/repos/work_items.rs\<close>: requeueing and cancelling
  advances by run or by retry authority, the settlement of an attempt (\<^verbatim>\<open>complete\<close>, \<^verbatim>\<open>fail\<close>,
  the backoff after contention) with the proof of outputs a completion needs, and the advance of the
  run that follows every finished invocation.

  The guard triggers of migration 101 abort an update of an item that touches a fenced run. A transaction they
  abort rolls back and changes nothing; the definitions here are the transactions that no trigger
  aborts. Claiming, whose answer depends on the triggers, has them as the parameter \<open>qw_fenced\<close>.
\<close>

section \<open>Loops over fetched rows\<close>

text \<open>A loop over rows fetched before it: the rows are those of the query, the database changes.\<close>

fun for_rows :: "('r \<Rightarrow> 'd \<Rightarrow> ('e, 'd \<times> nat) result) \<Rightarrow> 'r list \<Rightarrow> 'd \<Rightarrow> ('e, 'd \<times> nat) result" where
  "for_rows f [] d = Inr (d, 0)"
| "for_rows f (r # rs) d =
     bind_res (f r d) (\<lambda>(d', n). bind_res (for_rows f rs d') (\<lambda>(d'', m). Inr (d'', n + m)))"

definition counted_update ::
  "(work_item_row \<Rightarrow> bool) \<Rightarrow> (work_item_row \<Rightarrow> work_item_row) \<Rightarrow> work_db \<Rightarrow> work_db \<times> nat" where
  "counted_update P f d = (update_items P f d, items_hit P d)"

section \<open>Advances by run and by authority\<close>

definition run_advances :: "ident \<Rightarrow> string set \<Rightarrow> work_db \<Rightarrow> work_item_row list" where
  "run_advances run sts d =
     filter (\<lambda>w. wi_run_id w = Some run \<and> wi_kind w = ''advance_run'' \<and> wi_status w \<in> sts) (items d)"

definition requeued_advance :: "datetime \<Rightarrow> string \<Rightarrow> work_item_row \<Rightarrow> work_item_row" where
  "requeued_advance scheduled reason w =
     w\<lparr>wi_status := ''pending'', wi_scheduled_at := scheduled, wi_attempt_count := wi_attempt_count w + 1,
       wi_last_error := Some reason\<rparr>"

definition requeue_running_advance_by_run_tx ::
  "queue_world \<Rightarrow> datetime \<Rightarrow> ident \<Rightarrow> datetime \<Rightarrow> string \<Rightarrow> work_db \<Rightarrow> (string, work_db \<times> nat) result" where
  "requeue_running_advance_by_run_tx qw now run scheduled reason d =
     for_rows (\<lambda>w d.
       case classify_advance_payload_scope qw (wi_payload_json w) of
         LegacyRunScoped \<Rightarrow> Inr (counted_update (\<lambda>x. wi_id x = wi_id w \<and> wi_status x = ''running'')
                                  (requeued_advance scheduled reason) d)
       | Targeted \<Rightarrow> Inr (d, 0)
       | MalformedScope c \<Rightarrow> Inr (quarantine_advance_work_item_tx now (wi_id w) c d, 0))
     (run_advances run {''running''} d) d"

definition requeue_running_advance_by_retry_authority_tx ::
  "queue_world \<Rightarrow> datetime \<Rightarrow> ident \<Rightarrow> ident \<Rightarrow> ident \<Rightarrow> datetime \<Rightarrow> string \<Rightarrow> work_db
    \<Rightarrow> (string, work_db \<times> nat) result" where
  "requeue_running_advance_by_retry_authority_tx qw now run authority target scheduled reason d =
     for_rows (\<lambda>w d.
       case advance_payload_matches_authority qw (wi_payload_json w) authority target of
         AuthorityMatch \<Rightarrow> Inr (counted_update (\<lambda>x. wi_id x = wi_id w \<and> wi_status x = ''running'')
                                  (requeued_advance scheduled reason) d)
       | NoAuthorityMatch \<Rightarrow> Inr (d, 0)
       | MalformedMatch c \<Rightarrow> Inr (quarantine_advance_work_item_tx now (wi_id w) c d, 0))
     (run_advances run {''running''} d) d"

definition cancelled_item :: "datetime \<Rightarrow> string \<Rightarrow> work_item_row \<Rightarrow> work_item_row" where
  "cancelled_item fin reason w =
     w\<lparr>wi_status := ''cancelled'', wi_completed_at := Some fin, wi_last_error := Some reason\<rparr>"

definition cancel_pending_or_running_advance_by_run_tx ::
  "queue_world \<Rightarrow> datetime \<Rightarrow> ident \<Rightarrow> datetime \<Rightarrow> string \<Rightarrow> work_db \<Rightarrow> (string, work_db \<times> nat) result" where
  "cancel_pending_or_running_advance_by_run_tx qw now run fin reason d =
     for_rows (\<lambda>w d.
       case classify_advance_payload_scope qw (wi_payload_json w) of
         LegacyRunScoped \<Rightarrow> Inr (counted_update (\<lambda>x. wi_id x = wi_id w \<and> wi_status x \<in> open_statuses)
                                  (cancelled_item fin reason) d)
       | Targeted \<Rightarrow> Inr (d, 0)
       | MalformedScope c \<Rightarrow> Inr (quarantine_advance_work_item_tx now (wi_id w) c d, 0))
     (run_advances run open_statuses d) d"

definition cancel_pending_or_running_advance_by_retry_authority_tx ::
  "queue_world \<Rightarrow> datetime \<Rightarrow> ident \<Rightarrow> ident \<Rightarrow> ident \<Rightarrow> datetime \<Rightarrow> string \<Rightarrow> work_db
    \<Rightarrow> (string, work_db \<times> nat) result" where
  "cancel_pending_or_running_advance_by_retry_authority_tx qw now run authority target fin reason d =
     for_rows (\<lambda>w d.
       case advance_payload_matches_authority qw (wi_payload_json w) authority target of
         AuthorityMatch \<Rightarrow> Inr (counted_update (\<lambda>x. wi_id x = wi_id w \<and> wi_status x \<in> open_statuses)
                                  (cancelled_item fin reason) d)
       | NoAuthorityMatch \<Rightarrow> Inr (d, 0)
       | MalformedMatch c \<Rightarrow> Inr (quarantine_advance_work_item_tx now (wi_id w) c d, 0))
     (run_advances run open_statuses d) d"

definition requeue_running_advance_work_item_by_id_tx ::
  "ident \<Rightarrow> datetime \<Rightarrow> string \<Rightarrow> work_db \<Rightarrow> work_db \<times> nat" where
  "requeue_running_advance_work_item_by_id_tx i scheduled reason d =
     counted_update (\<lambda>w. wi_id w = i \<and> wi_kind w = ''advance_run'' \<and> wi_status w = ''running'')
       (\<lambda>w. (requeued_advance scheduled reason w)\<lparr>wi_started_at := None, wi_failed_at := None\<rparr>) d"

definition requeue_running_steward_analysis_on_startup_tx :: "datetime \<Rightarrow> string \<Rightarrow> work_db \<Rightarrow> work_db \<times> nat" where
  "requeue_running_steward_analysis_on_startup_tx scheduled reason d =
     counted_update (\<lambda>w. wi_kind w = ''steward_analysis'' \<and> wi_status w = ''running'')
       (\<lambda>w. (requeued_advance scheduled reason w)
          \<lparr>wi_started_at := None, wi_completed_at := None, wi_failed_at := None\<rparr>) d"

section \<open>Targeted advances\<close>

definition find_active_retry_authority_by_id_tx :: "ident \<Rightarrow> ident \<Rightarrow> work_db \<Rightarrow> retry_authority option" where
  "find_active_retry_authority_by_id_tx run i d =
     fetch_optional (filter (\<lambda>a. ra_id a = i \<and> ra_run_id a = run \<and> ra_authority_state a = AuthorityActive)
       (wd_authorities d))"

definition find_active_retry_authority_by_target_tx ::
  "ident \<Rightarrow> ident \<Rightarrow> work_db \<Rightarrow> (string, retry_authority option) result" where
  "find_active_retry_authority_by_target_tx run target d =
     (let rows = filter (\<lambda>a. ra_target_stage_execution_id a = target \<and> ra_run_id a = run
                            \<and> ra_authority_state a = AuthorityActive) (wd_authorities d)
      in if 1 < length rows
         then Inl (''advance_run_authority_conflict: target stage '' @ target @ '' has duplicate active retry authorities'')
         else Inr (fetch_optional rows))"

definition parse_verified_targeted_advance_payload_tx ::
  "queue_world \<Rightarrow> datetime \<Rightarrow> ident \<Rightarrow> string \<Rightarrow> work_db \<Rightarrow> (string, work_db \<times> advance_run_payload option) result" where
  "parse_verified_targeted_advance_payload_tx qw now i raw d =
     (let quarantine = (\<lambda>c. Inr (quarantine_advance_work_item_tx now i c d, None))
      in case classify_advance_payload_scope qw raw of
           LegacyRunScoped \<Rightarrow> Inr (d, None)
         | MalformedScope c \<Rightarrow> quarantine c
         | Targeted \<Rightarrow>
             (case parse_advance qw raw of
                Inl _ \<Rightarrow> Inl ''parse targeted AdvanceRun payload''
              | Inr p \<Rightarrow>
                  (case (ap_retry_authority_id p, ap_target_stage_execution_id p) of
                     (None, _) \<Rightarrow> quarantine ''advance_run_payload_missing_retry_authority''
                   | (_, None) \<Rightarrow> quarantine ''advance_run_payload_missing_target_for_authority''
                   | (Some authority, Some target) \<Rightarrow>
                       (case find_active_retry_authority_by_id_tx (ap_run_id p) authority d of
                          None \<Rightarrow> Inr (d, None)
                        | Some a \<Rightarrow>
                            if ra_target_stage_execution_id a \<noteq> target
                            then quarantine ''advance_run_payload_target_authority_mismatch''
                            else Inr (d, Some p)))))"

definition target_invoke_exists_tx :: "queue_world \<Rightarrow> ident \<Rightarrow> ident \<Rightarrow> work_db \<Rightarrow> bool" where
  "target_invoke_exists_tx qw run target d \<longleftrightarrow>
     list_ex (\<lambda>w. wi_run_id w = Some run \<and> wi_kind w = ''invoke_agent''
       \<and> wi_status w \<in> {''pending'', ''running'', ''completed'', ''failed''}
       \<and> (case qw_from_str qw (wi_payload_json w) of
            None \<Rightarrow> False
          | Some p \<Rightarrow> get_str p ''stage_execution_id'' = Some target
                    \<or> pointer_str p [''targeted_retry'', ''target_stage_execution_id''] = Some target)) (items d)"

definition complete_targeted_advance_runs_with_existing_invokes_tx ::
  "queue_world \<Rightarrow> datetime \<Rightarrow> datetime \<Rightarrow> string \<Rightarrow> work_db \<Rightarrow> (string, work_db \<times> nat) result" where
  "complete_targeted_advance_runs_with_existing_invokes_tx qw now fin reason d =
     for_rows (\<lambda>w d.
       bind_res (parse_verified_targeted_advance_payload_tx qw now (wi_id w) (wi_payload_json w) d) (\<lambda>(d1, found).
         case found of
           None \<Rightarrow> Inr (d1, 0)
         | Some p \<Rightarrow>
             if wi_run_id w \<noteq> Some (ap_run_id p)
             then Inr (quarantine_advance_work_item_tx now (wi_id w) ''advance_run_payload_run_id_mismatch'' d1, 0)
             else (case ap_target_stage_execution_id p of
                None \<Rightarrow> Inr (d1, 0)
              | Some target \<Rightarrow>
                  if \<not> target_invoke_exists_tx qw (ap_run_id p) target d1 then Inr (d1, 0)
                  else Inr (counted_update
                    (\<lambda>x. wi_id x = wi_id w \<and> wi_kind x = ''advance_run'' \<and> wi_status x \<in> open_statuses)
                    (\<lambda>x. x\<lparr>wi_status := ''completed'', wi_completed_at := Some fin, wi_last_error := Some reason\<rparr>) d1))))
     (filter (\<lambda>w. wi_kind w = ''advance_run'' \<and> wi_status w \<in> open_statuses) (items d)) d"

definition stale_running_advances :: "datetime \<Rightarrow> work_db \<Rightarrow> work_item_row list" where
  "stale_running_advances before d =
     filter (\<lambda>w. wi_kind w = ''advance_run'' \<and> wi_status w = ''running''
       \<and> (case wi_started_at w of None \<Rightarrow> wi_scheduled_at w | Some t \<Rightarrow> t) \<le> before) (items d)"

definition requeue_stale_running_targeted_advance_items_tx ::
  "queue_world \<Rightarrow> datetime \<Rightarrow> datetime \<Rightarrow> datetime \<Rightarrow> string \<Rightarrow> work_db \<Rightarrow> (string, work_db \<times> nat) result" where
  "requeue_stale_running_targeted_advance_items_tx qw now before scheduled reason d =
     for_rows (\<lambda>w d.
       bind_res (parse_verified_targeted_advance_payload_tx qw now (wi_id w) (wi_payload_json w) d) (\<lambda>(d1, found).
         case found of
           None \<Rightarrow> Inr (d1, 0)
         | Some p \<Rightarrow>
             if wi_run_id w \<noteq> Some (ap_run_id p)
             then Inr (quarantine_advance_work_item_tx now (wi_id w) ''advance_run_payload_run_id_mismatch'' d1, 0)
             else Inr (requeue_running_advance_work_item_by_id_tx (wi_id w) scheduled reason d1)))
     (stale_running_advances before d) d"

definition requeue_stale_running_advance_items_tx ::
  "queue_world \<Rightarrow> datetime \<Rightarrow> datetime \<Rightarrow> datetime \<Rightarrow> string \<Rightarrow> work_db \<Rightarrow> (string, work_db \<times> nat) result" where
  "requeue_stale_running_advance_items_tx qw now before scheduled reason d =
     for_rows (\<lambda>w d.
       let quarantine = (\<lambda>c. Inr (quarantine_advance_work_item_tx now (wi_id w) c d, 0));
           requeue = Inr (requeue_running_advance_work_item_by_id_tx (wi_id w) scheduled reason d)
       in case classify_advance_payload_scope qw (wi_payload_json w) of
            LegacyRunScoped \<Rightarrow> requeue
          | MalformedScope c \<Rightarrow> quarantine c
          | Targeted \<Rightarrow>
              (case parse_advance qw (wi_payload_json w) of
                 Inl _ \<Rightarrow> Inl ''parse targeted stale AdvanceRun payload''
               | Inr p \<Rightarrow>
                   (case (ap_retry_authority_id p, ap_target_stage_execution_id p) of
                      (None, _) \<Rightarrow> quarantine ''advance_run_payload_missing_retry_authority''
                    | (_, None) \<Rightarrow> quarantine ''advance_run_payload_missing_target_for_authority''
                    | (Some authority, Some target) \<Rightarrow>
                        (case find_active_retry_authority_by_id_tx (ap_run_id p) authority d of
                           None \<Rightarrow> Inr (d, 0)
                         | Some a \<Rightarrow>
                             if ra_target_stage_execution_id a \<noteq> target
                             then quarantine ''advance_run_payload_target_authority_mismatch''
                             else if wi_run_id w \<noteq> Some (ap_run_id p)
                             then quarantine ''advance_run_payload_run_id_mismatch''
                             else requeue))))
     (stale_running_advances before d) d"

section \<open>Cancelling items\<close>

definition cancel_running_by_run_tx :: "ident \<Rightarrow> datetime \<Rightarrow> work_db \<Rightarrow> work_db \<times> nat" where
  "cancel_running_by_run_tx run fin d =
     counted_update (\<lambda>w. wi_run_id w = Some run \<and> wi_status w = ''running'')
       (\<lambda>w. w\<lparr>wi_status := ''cancelled'', wi_completed_at := Some fin\<rparr>) d"

definition cancel_pending_or_running_by_stage_tx ::
  "ident \<Rightarrow> string \<Rightarrow> datetime \<Rightarrow> string \<Rightarrow> work_db \<Rightarrow> work_db \<times> nat" where
  "cancel_pending_or_running_by_stage_tx run stage fin reason d =
     counted_update (\<lambda>w. wi_run_id w = Some run \<and> wi_stage_id w = Some stage \<and> wi_status w \<in> open_statuses)
       (cancelled_item fin reason) d"

definition cancel_pending_or_running_invoke_by_stage_execution_tx ::
  "queue_world \<Rightarrow> ident \<Rightarrow> ident \<Rightarrow> datetime \<Rightarrow> string \<Rightarrow> work_db \<Rightarrow> (string, work_db \<times> nat) result" where
  "cancel_pending_or_running_invoke_by_stage_execution_tx qw run stage_execution fin reason d =
     for_rows (\<lambda>w d.
       case qw_from_str qw (wi_payload_json w) of
         None \<Rightarrow> Inr (d, 0)
       | Some p \<Rightarrow>
           if get_str p ''stage_execution_id'' \<noteq> Some stage_execution then Inr (d, 0)
           else Inr (counted_update (\<lambda>x. wi_id x = wi_id w \<and> wi_status x \<in> open_statuses) (cancelled_item fin reason) d))
     (sort_key wi_scheduled_at (filter (\<lambda>w. wi_run_id w = Some run \<and> wi_kind w = ''invoke_agent''
        \<and> wi_status w \<in> open_statuses) (items d))) d"

definition fail_tx :: "ident \<Rightarrow> string \<Rightarrow> datetime \<Rightarrow> work_db \<Rightarrow> work_db" where
  "fail_tx i error now d =
     update_items (\<lambda>w. wi_id w = i \<and> wi_status w \<in> open_statuses) (failed_item now error) d"

section \<open>The attempt that may settle\<close>

definition host_interruption_cleanup_holds_attempt_tx :: "ident \<Rightarrow> work_db \<Rightarrow> bool" where
  "host_interruption_cleanup_holds_attempt_tx agent d \<longleftrightarrow>
     list_ex (\<lambda>h. hr_agent_execution_id h = agent \<and> hr_settlement_status h = ''cleanup_pending''
       \<and> hr_cleanup_status h = ''pending'' \<and> hr_retry_enqueued_at h = None) (wd_host d)"

definition claimed_agent :: "json \<Rightarrow> ident option" where
  "claimed_agent p = pointer_str p [''p058_claimed'', ''agent_execution_id'']"

definition payload_agent :: "queue_world \<Rightarrow> work_item_row \<Rightarrow> ident option" where
  "payload_agent qw w = Option.bind (qw_from_str qw (wi_payload_json w)) claimed_agent"

text \<open>The executor's record of the end of an execution, whatever its status was.\<close>

definition update_completed :: "ident \<Rightarrow> string \<Rightarrow> datetime \<Rightarrow> work_db \<Rightarrow> work_db" where
  "update_completed agent status completed_at d =
     set_agents (sql_update (\<lambda>a. ae_id a = agent)
       (\<lambda>a. a\<lparr>ae_status := status, ae_completed_at := Some completed_at\<rparr>) (agents d)) d"

definition matches_work_item_attempt_tx ::
  "queue_world \<Rightarrow> work_item_row \<Rightarrow> ident option \<Rightarrow> work_db \<Rightarrow> bool" where
  "matches_work_item_attempt_tx qw w expected d \<longleftrightarrow>
     (case expected of
        None \<Rightarrow> True
      | Some agent \<Rightarrow>
          wi_kind w = ''invoke_agent'' \<and> wi_status w = ''running'' \<and> payload_agent qw w = Some agent
          \<and> \<not> list_ex (\<lambda>a. ae_id a = agent \<and> ae_status a = ''cancelled'') (agents d)
          \<and> \<not> host_interruption_cleanup_holds_attempt_tx agent d)"

definition is_current_invoke_agent_attempt_tx :: "queue_world \<Rightarrow> ident \<Rightarrow> ident \<Rightarrow> work_db \<Rightarrow> bool" where
  "is_current_invoke_agent_attempt_tx qw i agent d \<longleftrightarrow>
     (case find_item i d of None \<Rightarrow> False | Some w \<Rightarrow> matches_work_item_attempt_tx qw w (Some agent) d)"

text \<open>\<^verbatim>\<open>(1 << attempt_count.clamp(0, 6)).min(60)\<close> seconds.\<close>

definition backoff_seconds :: "int \<Rightarrow> int" where
  "backoff_seconds attempts = min (2 ^ nat (max 0 (min 6 attempts))) 60"

definition requeue_attempt_after_transient_persistence_contention ::
  "queue_world \<Rightarrow> ident \<Rightarrow> datetime \<Rightarrow> string \<Rightarrow> ident option \<Rightarrow> work_db \<Rightarrow> work_db \<times> bool" where
  "requeue_attempt_after_transient_persistence_contention qw i now error expected d =
     (case fetch_optional (filter (\<lambda>w. wi_id w = i \<and> wi_status w = ''running'') (items d)) of
        None \<Rightarrow> (d, False)
      | Some w \<Rightarrow>
          if \<not> matches_work_item_attempt_tx qw w expected d then (d, False)
          else let P = (\<lambda>x. wi_id x = i \<and> wi_status x = ''running'')
               in (update_items P (\<lambda>x. x\<lparr>wi_status := ''pending'',
                     wi_scheduled_at := now + backoff_seconds (wi_attempt_count w) * 1000, wi_started_at := None,
                     wi_failed_at := None, wi_last_error := Some (''transient_persistence_contention: '' @ error)\<rparr>) d,
                   items_hit P d = 1))"

section \<open>The proof of outputs\<close>

abbreviation valid_settlements :: "agent_output_settlement set" where
  "valid_settlements \<equiv> {ValidOutputsFromCompletedExecution, ValidOutputsFromFailedExecution, ValidOutputsFromRepair}"

definition settled_facts :: "agent_output_settlement set \<Rightarrow> runtime_facts_row \<Rightarrow> bool" where
  "settled_facts ss f \<longleftrightarrow>
     rf_output_settlement f \<in> ss \<and> 0 < rf_valid_required_outputs f"

definition generation_proof :: "work_db \<Rightarrow> agent_output_settlement set \<Rightarrow> ident \<Rightarrow> ident \<Rightarrow> ident \<Rightarrow> ident \<Rightarrow> bool" where
  "generation_proof d ss run stage agent item \<longleftrightarrow>
     list_ex (\<lambda>g. gr_run_id g = run \<and> gr_source_stage_execution_id g = Some stage
       \<and> gr_source_agent_execution_id g = Some agent \<and> gr_source_work_item_id g = Some item
       \<and> gr_output_settlement g \<in> ss \<and> gr_valid g \<and> gr_source_generation_verified g) (as_generations (wd_store d))"

definition coalesce0 :: "int option \<Rightarrow> int" where
  "coalesce0 n = (case n of None \<Rightarrow> 0 | Some i \<Rightarrow> i)"

definition diagnostics_proof :: "work_db \<Rightarrow> ident \<Rightarrow> bool" where
  "diagnostics_proof d agent \<longleftrightarrow>
     list_ex (\<lambda>g. dg_agent_execution_id g = agent \<and> coalesce0 (dg_missing_required_output_count g) = 0
       \<and> coalesce0 (dg_rejected_output_count g) = 0 \<and> coalesce0 (dg_stale_output_count g) = 0) (wd_diagnostics d)"

text \<open>The join of the item, its stage, the agent execution of the claim and its facts.\<close>

definition outputs_proved ::
  "work_db \<Rightarrow> string set \<Rightarrow> agent_output_settlement set \<Rightarrow> ident \<Rightarrow> ident \<Rightarrow> ident \<Rightarrow> ident \<Rightarrow> bool" where
  "outputs_proved d agent_statuses ss run stage agent item \<longleftrightarrow>
     list_ex (\<lambda>w. wi_id w = item \<and> wi_run_id w = Some run) (items d)
     \<and> list_ex (\<lambda>s. st_id s = stage \<and> st_run_id s = run) (stages d)
     \<and> list_ex (\<lambda>a. ae_id a = agent \<and> ae_stage_execution_id a = Some stage \<and> ae_status a \<in> agent_statuses) (agents d)
     \<and> list_ex (\<lambda>c. ck_run_id (cl_key c) = run \<and> cl_stage_execution_id c = Some stage
          \<and> ck_agent_execution_id (cl_key c) = agent \<and> ck_source_work_item_id (cl_key c) = item
          \<and> cl_claim_state c \<in> {ClaimActive, ClaimClosed}) (claims d)
     \<and> list_ex (\<lambda>f. rf_agent_execution_id f = agent
          \<and> (settled_facts ss f \<or> generation_proof d ss run stage agent item \<or> diagnostics_proof d agent)) (facts d)"

definition present_text :: "string option \<Rightarrow> string option" where
  "present_text s = (case s of None \<Rightarrow> None | Some t \<Rightarrow> if is_blank t then None else Some t)"

definition validate_running_invoke_completion_has_valid_outputs_tx ::
  "queue_world \<Rightarrow> datetime \<Rightarrow> ident \<Rightarrow> string \<Rightarrow> work_db \<Rightarrow> (string, work_db) result" where
  "validate_running_invoke_completion_has_valid_outputs_tx qw now i raw d =
     (let refuse = (\<lambda>why. ''refusing to complete running InvokeAgent work item '' @ i @ '': '' @ why)
      in bind_res (ok_or (qw_from_str qw raw) (''parse InvokeAgent work item payload before complete: '' @ i)) (\<lambda>p.
         bind_res (ok_or (present_text (claimed_agent p)) (refuse ''missing p058_claimed.agent_execution_id'')) (\<lambda>agent.
         bind_res (ok_or (present_text (get_str p ''run_id'')) (refuse ''missing run_id'')) (\<lambda>run.
         bind_res (ok_or (present_text (get_str p ''stage_execution_id'')) (refuse ''missing stage_execution_id'')) (\<lambda>stage.
           if \<not> outputs_proved d {''running'', ''completed'', ''failed''} valid_settlements run stage agent i
           then Inl (refuse ''no proof of valid required outputs'')
           else Inr (set_facts (sql_update
               (\<lambda>f. rf_agent_execution_id f = agent \<and> rf_valid_required_outputs f = 0
                    \<and> list_ex (\<lambda>w. wi_id w = i \<and> wi_run_id w = Some run) (items d)
                    \<and> list_ex (\<lambda>s. st_id s = stage \<and> st_run_id s = run) (stages d)
                    \<and> generation_proof d valid_settlements run stage agent i)
               (\<lambda>f. f\<lparr>rf_valid_required_outputs := 1, rf_updated_at := now\<rparr>) (facts d)) d))))))"

section \<open>The advance after an invocation\<close>

definition find_agent_execution_stage_id_tx :: "queue_world \<Rightarrow> ident \<Rightarrow> work_db \<Rightarrow> (string, ident option) result" where
  "find_agent_execution_stage_id_tx qw agent d =
     (if qw_uuid qw agent = None then Inr None
      else case Option.bind (fetch_optional (filter (\<lambda>a. ae_id a = agent) (agents d))) ae_stage_execution_id of
        None \<Rightarrow> Inr None
      | Some raw \<Rightarrow> bind_res (ok_or (qw_uuid qw raw) ''parse agent execution stage id'') (\<lambda>s. Inr (Some s)))"

text \<open>What the payload of the finished invocation says of its retry.\<close>

record invoke_source =
  is_target :: "ident option"
  is_top_agent :: "ident option"
  is_retry_agent :: "ident option"
  is_claimed_agent :: "ident option"
  is_authority :: "ident option"
  is_hint :: bool
  is_stage :: "ident option"
  is_stage_id :: "string option"
  is_work_item :: "ident option"

definition first_some :: "'a option \<Rightarrow> 'a option \<Rightarrow> 'a option" where
  "first_some a b = (case a of None \<Rightarrow> b | Some x \<Rightarrow> Some x)"

definition invoke_source_of :: "json \<Rightarrow> invoke_source" where
  "invoke_source_of p =
     (let authority = first_some (get_str p ''retry_authority_id'') (pointer_str p [''targeted_retry'', ''retry_authority_id''])
      in \<lparr>is_target = get_str p ''target_stage_execution_id'', is_top_agent = get_str p ''source_agent_execution_id'',
          is_retry_agent = pointer_str p [''targeted_retry'', ''source_agent_execution_id''],
          is_claimed_agent = claimed_agent p, is_authority = authority,
          is_hint = (get_str p ''target_stage_execution_id'' \<noteq> None \<or> authority \<noteq> None
                     \<or> json_get p ''targeted_retry'' \<noteq> None),
          is_stage = get_str p ''stage_execution_id'', is_stage_id = get_str p ''stage_id'',
          is_work_item = first_some (pointer_str p [''targeted_retry'', ''source_work_item_id''])
                           (get_str p ''source_work_item_id'')\<rparr>)"

definition durable_agent :: "ident \<Rightarrow> invoke_source \<Rightarrow> (string, ident option) result" where
  "durable_agent i s =
     (let mismatch = ''advance_run_source_agent_mismatch: source invoke '' @ i
      in case is_claimed_agent s of
           Some c \<Rightarrow> (case is_top_agent s of
               Some t \<Rightarrow> if t \<noteq> c then Inl mismatch else Inr (Some c)
             | None \<Rightarrow> Inr (Some c))
         | None \<Rightarrow> (case (is_top_agent s, is_retry_agent s) of
               (Some t, Some r) \<Rightarrow> if t \<noteq> r then Inl mismatch else Inr (Some r)
             | (t, r) \<Rightarrow> Inr (first_some r t)))"

definition joint_authority ::
  "ident \<Rightarrow> retry_authority option \<Rightarrow> retry_authority option \<Rightarrow> (string, retry_authority option) result" where
  "joint_authority i by_target by_id =
     (case (by_target, by_id) of
        (Some t, Some s) \<Rightarrow>
          if ra_id t \<noteq> ra_id s then Inl (''advance_run_source_authority_mismatch: source invoke '' @ i) else Inr (Some t)
      | (Some t, None) \<Rightarrow> Inr (Some t)
      | (None, s) \<Rightarrow> Inr s)"

text \<open>
  An active authority made for another invocation: a targeted invocation must name that invocation or be
  the claimed retry of the authority itself; a normal invocation ends the authority.
\<close>

definition foreign_authority ::
  "datetime \<Rightarrow> ident \<Rightarrow> invoke_source \<Rightarrow> ident option \<Rightarrow> retry_authority \<Rightarrow> work_db
    \<Rightarrow> (string, work_db \<times> retry_authority option) result" where
  "foreign_authority now i s stage a d =
     (case ra_source_invoke_work_item_id a of
        None \<Rightarrow> Inr (d, Some a)
      | Some other \<Rightarrow>
          if other = i then Inr (d, Some a)
          else if is_hint s then
            (if is_work_item s \<noteq> Some other
                \<and> \<not> (is_authority s = Some (ra_id a) \<and> stage = Some (ra_target_stage_execution_id a)
                      \<and> is_claimed_agent s \<noteq> None)
             then Inl (''advance_run_source_authority_mismatch: source invoke '' @ i)
             else Inr (d, Some a))
          else Inr (d\<lparr>wd_authorities := fst (mark_terminalized_tx (ra_id a) now
                 ''stale_targeted_authority_superseded_by_normal_invoke'' (wd_authorities d))\<rparr>, None))"

definition post_invoke_payload :: "ident \<Rightarrow> string \<Rightarrow> string \<Rightarrow> ident \<Rightarrow> json" where
  "post_invoke_payload run reason field i =
     JObject [(''schema_version'', JString ''advance_run_payload.v1''), (''run_id'', JString run),
       (''reason'', JString reason),
       (''enqueue_reason'', JString (if reason = ''invoke_agent_completed'' then ''post_invoke_completion''
          else if reason = ''invoke_agent_failed'' then ''post_invoke_failure'' else reason)),
       (field, JString i)]"

definition targeted_members :: "string \<Rightarrow> retry_authority \<Rightarrow> ident \<Rightarrow> ident option \<Rightarrow> (string \<times> json) list" where
  "targeted_members stage_id a i agent =
     [(''stage_id'', JString stage_id), (''target_stage_execution_id'', JString (ra_target_stage_execution_id a)),
      (''retry_authority_id'', JString (ra_id a)), (''source_work_item_id'', JString i),
      (''source_invoke_work_item_id'', JString i),
      (''source_stage_execution_id'', JString (ra_target_stage_execution_id a))]
     @ optional_member ''source_agent_execution_id'' agent"

definition advance_of_authority ::
  "queue_world \<Rightarrow> json \<Rightarrow> ident \<Rightarrow> ident option \<Rightarrow> ident option \<Rightarrow> retry_authority option
    \<Rightarrow> (string, string \<times> string option) result" where
  "advance_of_authority qw base i stage agent authority =
     (case authority of
        None \<Rightarrow> Inr (qw_to_string qw base, None)
      | Some a \<Rightarrow>
          if stage \<noteq> None \<and> stage \<noteq> Some (ra_target_stage_execution_id a)
          then Inl (''advance_run_source_target_mismatch: source invoke '' @ i)
          else Inr (qw_to_string qw (fold (\<lambda>(k, v). json_insert k v) (targeted_members (ra_stage_id a) a i agent) base),
                    Some (ra_stage_id a)))"

definition build_post_invoke_advance_payload_tx ::
  "queue_world \<Rightarrow> datetime \<Rightarrow> ident \<Rightarrow> string \<Rightarrow> string \<Rightarrow> ident \<Rightarrow> string \<Rightarrow> work_db
    \<Rightarrow> (string, work_db \<times> string \<times> string option) result" where
  "build_post_invoke_advance_payload_tx qw now run reason field i raw d =
     (let p = (case qw_from_str qw raw of None \<Rightarrow> JObject [] | Some j \<Rightarrow> j);
          base = post_invoke_payload run reason field i;
          s = invoke_source_of p
      in bind_res (durable_agent i s) (\<lambda>agent.
         bind_res (case agent of None \<Rightarrow> Inr None | Some a \<Rightarrow> find_agent_execution_stage_id_tx qw a d) (\<lambda>agent_stage.
         let stage = first_some (is_target s) (first_some (is_stage s) agent_stage)
         in if is_hint s \<and> agent \<noteq> None \<and> agent_stage = None
            then Inl (''advance_run_source_agent_mismatch: targeted InvokeAgent '' @ i)
            else if is_hint s \<and> stage = None
            then Inl (''advance_run_source_target_mismatch: targeted InvokeAgent '' @ i)
            else
              bind_res (case stage of None \<Rightarrow> Inr None | Some t \<Rightarrow> find_active_retry_authority_by_target_tx run t d) (\<lambda>by_target.
              bind_res (joint_authority i by_target (case is_authority s of None \<Rightarrow> None
                   | Some x \<Rightarrow> find_active_retry_authority_by_id_tx run x d)) (\<lambda>active.
              if is_hint s \<and> active = None then
                (if is_authority s \<noteq> None then Inr (d, qw_to_string qw base, None)
                 else Inl (''advance_run_source_authority_mismatch: targeted InvokeAgent '' @ i))
              else
                bind_res (case active of None \<Rightarrow> Inr (d, None) | Some a \<Rightarrow> foreign_authority now i s stage a d) (\<lambda>(d', active').
                bind_res (advance_of_authority qw base i stage agent active') (\<lambda>(text, sid). Inr (d', text, sid))))))))"

definition follow_up_item :: "ident \<Rightarrow> datetime \<Rightarrow> ident \<Rightarrow> string \<Rightarrow> string option \<Rightarrow> work_item_row" where
  "follow_up_item i now run payload stage_id =
     \<lparr>wi_id = ''advance-after-invoke:'' @ i, wi_kind = ''advance_run'', wi_payload_json = payload,
      wi_status = ''pending'', wi_run_id = Some run, wi_stage_id = stage_id, wi_created_at = now,
      wi_scheduled_at = now, wi_started_at = None, wi_completed_at = None, wi_failed_at = None,
      wi_attempt_count = 0, wi_last_error = None, wi_worktree_resource_key = None\<rparr>"

definition insert_or_ignore_item :: "work_item_row \<Rightarrow> work_db \<Rightarrow> work_db" where
  "insert_or_ignore_item w d =
     (if wi_id w \<in> wi_id ` set (items d) then d else set_items (items d @ [w]) d)"

definition enqueue_follow_up ::
  "queue_world \<Rightarrow> datetime \<Rightarrow> ident option \<Rightarrow> string \<Rightarrow> string \<Rightarrow> ident \<Rightarrow> string \<Rightarrow> work_db \<Rightarrow> (string, work_db) result" where
  "enqueue_follow_up qw now run reason field i raw d =
     (case run of
        None \<Rightarrow> Inr d
      | Some r \<Rightarrow>
          bind_res (build_post_invoke_advance_payload_tx qw now r reason field i raw d) (\<lambda>(d', payload, stage_id).
            Inr (insert_or_ignore_item (follow_up_item i now r payload stage_id) d')))"

section \<open>Completing and failing\<close>

definition settle_agent_on_complete :: "datetime \<Rightarrow> ident \<Rightarrow> work_db \<Rightarrow> work_db" where
  "settle_agent_on_complete now agent d =
     set_agents (sql_update (\<lambda>a. ae_id a = agent \<and> ae_status a = ''running'')
       (\<lambda>a. a\<lparr>ae_status := (if list_ex (\<lambda>f. rf_agent_execution_id f = ae_id a
             \<and> settled_facts {ValidOutputsFromCompletedExecution, ValidOutputsFromFailedExecution} f) (facts d)
             then ''completed'' else ''failed''),
           ae_completed_at := first_some (ae_completed_at a) (Some now)\<rparr>) (agents d)) d"

definition close_active_claims :: "datetime \<Rightarrow> ident \<Rightarrow> ident \<Rightarrow> work_db \<Rightarrow> work_db" where
  "close_active_claims now item agent d =
     set_claims (sql_update (\<lambda>c. ck_source_work_item_id (cl_key c) = item
          \<and> ck_agent_execution_id (cl_key c) = agent \<and> cl_claim_state c = ClaimActive)
       (\<lambda>c. c\<lparr>cl_claim_state := ClaimClosed, cl_closed_at := first_some (cl_closed_at c) (Some now),
             cl_updated_at := now\<rparr>) (claims d)) d"

definition refresh_scheduler ::
  "queue_world \<Rightarrow> capacity_config \<Rightarrow> datetime \<Rightarrow> work_db
    \<Rightarrow> (string, work_db \<times> backpressure_notification option) result" where
  "refresh_scheduler qw cap now d =
     bind_res (refresh_queue_summaries_for_notification_tx (qw_from_str qw) cap now (qw_later qw now) 0 (wd_sched d))
       (\<lambda>(s, notice). Inr (d\<lparr>wd_sched := s\<rparr>, notice))"

definition complete_attempt_with_capacity ::
  "queue_world \<Rightarrow> capacity_config \<Rightarrow> datetime \<Rightarrow> ident \<Rightarrow> ident option \<Rightarrow> work_db
    \<Rightarrow> (string, work_db \<times> backpressure_notification option) result" where
  "complete_attempt_with_capacity qw cap now i expected d =
     (case find_item i d of
        None \<Rightarrow> Inr (d, None)
      | Some w \<Rightarrow>
          if \<not> matches_work_item_attempt_tx qw w expected d then Inr (d, None)
          else if wi_status w \<notin> open_statuses then Inr (d, None)
          else
            let running_invoke = (wi_kind w = ''invoke_agent'' \<and> wi_status w = ''running'')
            in bind_res (if running_invoke
                 then validate_running_invoke_completion_has_valid_outputs_tx qw now i (wi_payload_json w) d
                 else Inr d) (\<lambda>d1.
               let d2 = update_items (\<lambda>x. wi_id x = i \<and> wi_status x \<in> open_statuses)
                          (\<lambda>x. x\<lparr>wi_status := ''completed'', wi_completed_at := Some now\<rparr>) d1
               in if running_invoke then
                    bind_res (enqueue_follow_up qw now (wi_run_id w) ''invoke_agent_completed''
                        ''completed_invoke_work_item_id'' i (wi_payload_json w)
                        (case payload_agent qw w of
                           None \<Rightarrow> d2
                         | Some agent \<Rightarrow> close_active_claims now i agent (settle_agent_on_complete now agent d2)))
                      (refresh_scheduler qw cap now)
                  else if wi_kind w = ''invoke_agent'' then refresh_scheduler qw cap now d2
                  else Inr (d2, None)))"

definition fail_attempt_with_capacity ::
  "queue_world \<Rightarrow> capacity_config \<Rightarrow> datetime \<Rightarrow> ident \<Rightarrow> string \<Rightarrow> ident option \<Rightarrow> work_db
    \<Rightarrow> (string, work_db \<times> backpressure_notification option) result" where
  "fail_attempt_with_capacity qw cap now i error expected d =
     (case find_item i d of
        None \<Rightarrow> Inr (d, None)
      | Some w \<Rightarrow>
          if \<not> matches_work_item_attempt_tx qw w expected d then Inr (d, None)
          else if wi_status w \<notin> open_statuses then Inr (d, None)
          else
            let d1 = update_items (\<lambda>x. wi_id x = i \<and> wi_status x \<in> open_statuses) (failed_item now error) d
            in if wi_kind w = ''invoke_agent'' then
                 bind_res (enqueue_follow_up qw now (wi_run_id w) ''invoke_agent_failed'' ''failed_invoke_work_item_id''
                     i (wi_payload_json w) d1) (refresh_scheduler qw cap now)
               else Inr (d1, None))"

end
