(* ===== verification/Recovery_Matrix.thy ===== *)
theory Recovery_Matrix
  imports Json
begin

text \<open>
  The readbacks of the recovery matrix, \<^verbatim>\<open>control-plane/crates/domain/src/recovery_matrix.rs\<close>: the
  builders the startup repairs of the work queue use, with their vocabularies.
\<close>

definition standard_startup_grace_seconds :: int where
  "standard_startup_grace_seconds = 3 * 60"

definition xcode_startup_grace_seconds :: int where
  "xcode_startup_grace_seconds = 12 * 60"

abbreviation reason_startup_requeue_once :: string where
  "reason_startup_requeue_once \<equiv> ''startup_requeue_once''"

abbreviation reason_startup_requeue_exhausted :: string where
  "reason_startup_requeue_exhausted \<equiv> ''startup_requeue_exhausted''"

abbreviation reason_startup_stalled :: string where
  "reason_startup_stalled \<equiv> ''startup_stalled''"

definition all_reason_codes :: "string list" where
  "all_reason_codes =
     [''resume_claim_status'', reason_startup_requeue_once, reason_startup_requeue_exhausted,
      ''invalid_stage_for_retry'', ''ignored_late_outputs'', ''duplicate_owner_repaired'', reason_startup_stalled,
      ''stale_repaired'', ''needs_effect_reconciliation'', ''requires_effect_reconciliation'',
      ''valid_identifier_guidance'', ''approval_pending_operator_action_required'',
      ''duplicate_mediation_owner_rejected'', ''cancel_active_stage_requested'',
      ''cancel_pending_approval_preserved'', ''cancel_pending_approval_expired'',
      ''cancel_side_effect_reconciliation_required'', ''cancel_startup_repair_converged'',
      ''cancelled_provider_late_output_ignored'', ''repair_crash_resume_idempotent'']"

definition valid_scenario_statuses :: "string list" where
  "valid_scenario_statuses = [''repaired'', ''rejected'', ''held'', ''pending'', ''cancelled'', ''not_applicable'']"

definition valid_recovery_decisions :: "string list" where
  "valid_recovery_decisions =
     [''retry'', ''wait'', ''reconcile_side_effects'', ''operator_approval_required'', ''inspect_duplicate_owner'',
      ''cancel'', ''no_mutation'']"

definition valid_projection_integrities :: "string list" where
  "valid_projection_integrities = [''valid'', ''stale'', ''tamper_detected'', ''unavailable'']"

fun json_opt :: "string option \<Rightarrow> json" where
  "json_opt None = JNull"
| "json_opt (Some s) = JString s"

definition build_startup_repair_summary ::
  "string \<Rightarrow> string \<Rightarrow> string \<Rightarrow> int \<Rightarrow> int \<Rightarrow> bool \<Rightarrow> int \<Rightarrow> string \<Rightarrow> bool \<Rightarrow> string option \<Rightarrow> string \<Rightarrow> json" where
  "build_startup_repair_summary repair item journal generation max_generation replayed stale_after cutoff xcode
     next_time scope =
     JObject [(''schema_version'', JString ''p082_startup_repair_summary_v1''), (''startup_repair_id'', JString repair),
       (''source_work_item_id'', JString item), (''source_command_journal_id'', JString journal),
       (''requeue_generation'', JInt generation), (''max_requeue_generation'', JInt max_generation),
       (''replayed'', JBool replayed), (''stale_after_ms'', JInt stale_after), (''stale_cutoff'', JString cutoff),
       (''xcode_required'', JBool xcode), (''next_retry_or_backoff_time'', json_opt next_time),
       (''backpressure_scope'', JString scope)]"

definition validation_error :: "string \<Rightarrow> json" where
  "validation_error e =
     JObject [(''schema_version'', JString ''p082_recovery_matrix_readback_v1_VALIDATION_ERROR''), (''error'', JString e)]"

definition in_quotes :: "string \<Rightarrow> string" where
  "in_quotes s = CHR 0x27 # s @ [CHR 0x27]"

definition build_readback_v1 ::
  "string \<Rightarrow> string \<Rightarrow> string \<Rightarrow> string \<Rightarrow> string \<Rightarrow> string \<Rightarrow> string \<Rightarrow> string \<Rightarrow> string option \<Rightarrow> string \<Rightarrow> string \<Rightarrow> json" where
  "build_readback_v1 scenario status decision reason action tab repository identifier json_key integrity updated =
     (if status \<notin> set valid_scenario_statuses then validation_error (''invalid scenario_status '' @ in_quotes status)
      else if decision \<notin> set valid_recovery_decisions then validation_error (''invalid recovery_decision '' @ in_quotes decision)
      else if integrity \<notin> set valid_projection_integrities
      then validation_error (''invalid recovery_projection_integrity '' @ in_quotes integrity)
      else if status \<noteq> ''not_applicable'' \<and> action = []
      then validation_error (''recovery_next_action must be non-empty for scenario_status '' @ in_quotes status)
      else if reason \<notin> set all_reason_codes then validation_error (''unknown reason_code '' @ in_quotes reason)
      else JObject [(''schema_version'', JString ''p082_recovery_matrix_readback_v1''),
        (''scenario_id'', JString scenario), (''scenario_status'', JString status),
        (''recovery_decision'', JString decision), (''recovery_reason_code'', JString reason),
        (''recovery_next_action'', JString action), (''recovery_hold_conditions'', JArray []),
        (''recovery_side_effect_blocking_status'', JNull), (''recovery_retry_identifier_guidance'', JNull),
        (''recovery_late_output_settlement'', JNull), (''recovery_startup_repair_summary'', JNull),
        (''recovery_operator_message'', JNull), (''recovery_projection_integrity'', JString integrity),
        (''source_table'', JString tab), (''source_repository'', JString repository),
        (''source_identifier'', JString identifier), (''source_json_key'', json_opt json_key),
        (''updated_at'', JString updated), (''diagnostic_redaction'', JString ''none'')])"

definition is_sentinel :: "json \<Rightarrow> bool" where
  "is_sentinel j \<longleftrightarrow> (case get_str j ''schema_version'' of None \<Rightarrow> False | Some s \<Rightarrow> suffix ''_VALIDATION_ERROR'' s)"

definition set_readback_startup_repair :: "json \<Rightarrow> json \<Rightarrow> string option \<Rightarrow> json" where
  "set_readback_startup_repair readback summary message =
     (if \<not> is_object readback \<or> is_sentinel readback then readback
      else let r = json_insert ''recovery_startup_repair_summary'' summary readback
           in case message of None \<Rightarrow> r | Some m \<Rightarrow> json_insert ''recovery_operator_message'' (JString m) r)"

text \<open>\<^verbatim>\<open>get_mut\<close> along a path: the value at its end changes if every member on the path exists.\<close>

fun json_update_at :: "string list \<Rightarrow> (json \<Rightarrow> json) \<Rightarrow> json \<Rightarrow> json" where
  "json_update_at [] f j = f j"
| "json_update_at (k # ks) f j =
     (case json_get j k of None \<Rightarrow> j | Some v \<Rightarrow> json_insert k (json_update_at ks f v) j)"

end
