(* ===== verification/Work_Recovery.thy ===== *)
theory Work_Recovery
  imports Work_Settlement Recovery_Matrix
begin

text \<open>
  How \<^verbatim>\<open>control-plane/crates/db/src/repos/work_items.rs\<close> takes running invocations back: after a
  restart, a lost host, a stalled start, a closed prompt or a full provider. Every path ends the
  execution of the abandoned attempt, supersedes its source claim and strips the claim from the payload.
  A Rust panic (a missing run of an invocation) is the error \<^verbatim>\<open>panic\<close>.
\<close>

section \<open>The claim in a payload\<close>

text \<open>\<^verbatim>\<open>serde_json::from_value::<ArtifactSourceGenerationClaimKey>\<close>: the key and its stage.\<close>

definition owner_kind_of :: "string \<Rightarrow> owner_kind option" where
  "owner_kind_of s =
     (if s = ''stage_execution'' then Some StageExecutionOwner
      else if s = ''lead_conflict_mediation'' then Some LeadConflictMediationOwner else None)"

definition stage_member :: "queue_world \<Rightarrow> json \<Rightarrow> ident option option" where
  "stage_member qw j =
     (case json_get j ''stage_execution_id'' of
        None \<Rightarrow> Some None
      | Some JNull \<Rightarrow> Some None
      | Some v \<Rightarrow> map_option Some (Option.bind (as_str v) (qw_uuid qw)))"

definition claim_key_of_json :: "queue_world \<Rightarrow> json \<Rightarrow> (claim_key \<times> ident option) option" where
  "claim_key_of_json qw j =
     Option.bind (Option.bind (get_str j ''run_id'') (qw_uuid qw)) (\<lambda>run.
     Option.bind (Option.bind (get_str j ''owner_kind'') owner_kind_of) (\<lambda>kind.
     Option.bind (get_str j ''owner_id'') (\<lambda>owner.
     Option.bind (stage_member qw j) (\<lambda>stage.
     Option.bind (Option.bind (get_str j ''agent_execution_id'') (qw_uuid qw)) (\<lambda>agent.
     Option.bind (get_str j ''source_work_item_id'') (\<lambda>item.
       Some (\<lparr>ck_run_id = run, ck_owner_kind = kind, ck_owner_id = owner, ck_agent_execution_id = agent,
              ck_source_work_item_id = item\<rparr>, stage)))))))"

definition payload_claim_key :: "queue_world \<Rightarrow> json \<Rightarrow> (claim_key \<times> ident option) option" where
  "payload_claim_key qw p =
     Option.bind (json_pointer p [''p058_claimed'', ''artifact_claim_key'']) (claim_key_of_json qw)"

definition superseded_claim :: "ident \<Rightarrow> datetime \<Rightarrow> source_generation_claim \<Rightarrow> source_generation_claim" where
  "superseded_claim item now c =
     c\<lparr>cl_claim_state := ClaimSupersededPendingRetry, cl_superseding_work_item_id := Some item,
       cl_superseded_at := Some now, cl_updated_at := now\<rparr>"

definition supersede_claim_of :: "claim_key \<Rightarrow> ident \<Rightarrow> datetime \<Rightarrow> work_db \<Rightarrow> work_db" where
  "supersede_claim_of k item now d =
     set_claims (sql_update (\<lambda>c. cl_key c = k \<and> cl_claim_state c = ClaimActive) (superseded_claim item now) (claims d)) d"

definition cancel_running_agent :: "ident \<Rightarrow> datetime \<Rightarrow> work_db \<Rightarrow> work_db" where
  "cancel_running_agent agent now d =
     set_agents (sql_update (\<lambda>a. ae_id a = agent \<and> ae_status a = ''running'')
       (\<lambda>a. a\<lparr>ae_status := ''cancelled'', ae_completed_at := first_some (ae_completed_at a) (Some now)\<rparr>) (agents d)) d"

definition supersede_abandoned_preclaim_for_retry_tx ::
  "queue_world \<Rightarrow> ident \<Rightarrow> json \<Rightarrow> datetime \<Rightarrow> work_db \<Rightarrow> work_db" where
  "supersede_abandoned_preclaim_for_retry_tx qw item p now d =
     (case claimed_agent p of
        None \<Rightarrow> d
      | Some agent \<Rightarrow>
          let d1 = cancel_running_agent agent now d
          in case payload_claim_key qw p of
               None \<Rightarrow> d1
             | Some (k, _) \<Rightarrow> supersede_claim_of (k\<lparr>ck_agent_execution_id := agent\<rparr>) item now d1)"

text \<open>The payload of the retry: without the claim, with the stamp of the recovery.\<close>

definition stamped :: "string \<Rightarrow> json \<Rightarrow> json \<Rightarrow> json" where
  "stamped k v p = json_insert k v (json_remove ''p058_claimed'' p)"

definition requeued_invoke :: "string \<Rightarrow> string option \<Rightarrow> work_item_row \<Rightarrow> work_item_row" where
  "requeued_invoke payload error w =
     w\<lparr>wi_status := ''pending'', wi_payload_json := payload, wi_started_at := None, wi_completed_at := None,
       wi_failed_at := None, wi_last_error := error\<rparr>"

definition running_item :: "ident \<Rightarrow> work_item_row \<Rightarrow> bool" where
  "running_item i w \<longleftrightarrow> wi_id w = i \<and> wi_status w = ''running''"

definition running_invokes :: "work_db \<Rightarrow> work_item_row list" where
  "running_invokes d =
     sort_key wi_scheduled_at (filter (\<lambda>w. wi_kind w = ''invoke_agent'' \<and> wi_status w = ''running'') (items d))"

abbreviation reported_settlements :: "agent_output_settlement set" where
  "reported_settlements \<equiv> {ValidOutputsFromCompletedExecution, ValidOutputsFromFailedExecution}"

text \<open>A targeted retry whose agent has a status of the set and delivered its outputs.\<close>

definition delivered_retry :: "string set \<Rightarrow> json \<Rightarrow> work_db \<Rightarrow> bool" where
  "delivered_retry sts p d \<longleftrightarrow>
     json_get p ''targeted_retry'' \<noteq> None
     \<and> list_ex (\<lambda>a. claimed_agent p = Some (ae_id a) \<and> ae_status a \<in> sts
          \<and> list_ex (\<lambda>f. rf_agent_execution_id f = ae_id a \<and> settled_facts reported_settlements f) (facts d)) (agents d)"

section \<open>Recovery of preclaimed invocations\<close>

text \<open>
  The placeholders \<^verbatim>\<open>?3\<close> and \<^verbatim>\<open>?4\<close> of the query are the kind and the status of the item,
  also where it compares the status of the agent.
\<close>

definition requeue_running_preclaimed_invoke_for_stage_tx ::
  "queue_world \<Rightarrow> datetime \<Rightarrow> ident \<Rightarrow> ident \<Rightarrow> string \<Rightarrow> work_db \<Rightarrow> (string, work_db \<times> nat) result" where
  "requeue_running_preclaimed_invoke_for_stage_tx qw now run stage_execution stage d =
     for_rows (\<lambda>w d.
       case qw_from_str qw (wi_payload_json w) of
         None \<Rightarrow> Inr (d, 0)
       | Some p \<Rightarrow>
           if json_pointer p [''p058_claimed'', ''agent_execution_id''] = None
              \<or> get_str p ''stage_execution_id'' \<noteq> Some stage_execution
           then Inr (d, 0)
           else
             let d1 = supersede_abandoned_preclaim_for_retry_tx qw (wi_id w) p now d;
                 p1 = stamped ''p061_startup_recovery'' (JObject [(''requeued_at'', JString (qw_rfc3339 qw now)),
                        (''reason'', JString ''startup_repair_preclaimed_invoke_agent'')]) p
             in Inr (update_items (running_item (wi_id w))
                  (\<lambda>x. x\<lparr>wi_status := ''pending'', wi_payload_json := qw_to_string qw p1, wi_started_at := None,
                        wi_failed_at := None, wi_last_error := None\<rparr>) d1, 1))
     (filter (\<lambda>w. wi_run_id w = Some run \<and> wi_stage_id w = Some stage
        \<and> (case qw_from_str qw (wi_payload_json w) of
             None \<Rightarrow> False | Some p \<Rightarrow> \<not> delivered_retry {''invoke_agent'', ''running''} p d)) (running_invokes d)) d"

definition settle_terminal_preclaimed_invoke_agent_executions_tx ::
  "queue_world \<Rightarrow> datetime \<Rightarrow> work_db \<Rightarrow> (string, work_db \<times> nat) result" where
  "settle_terminal_preclaimed_invoke_agent_executions_tx qw fallback d =
     for_rows (\<lambda>w d.
       case payload_agent qw w of
         None \<Rightarrow> Inr (d, 0)
       | Some agent \<Rightarrow>
           let fin = (case first_some (wi_completed_at w) (wi_failed_at w) of None \<Rightarrow> fallback | Some t \<Rightarrow> t);
               P = (\<lambda>a. ae_id a = agent \<and> ae_status a = ''running'');
               d1 = set_agents (sql_update P (\<lambda>a. a\<lparr>ae_status := wi_status w, ae_completed_at := Some fin\<rparr>) (agents d)) d
           in Inr (close_active_claims fin (wi_id w) agent d1, rows_affected P (agents d)))
     (sort_key wi_created_at (filter (\<lambda>w. wi_kind w = ''invoke_agent''
        \<and> wi_status w \<in> {''completed'', ''failed'', ''cancelled''}) (items d))) d"

definition settle_terminal_preclaimed_invoke_agent_executions ::
  "queue_world \<Rightarrow> datetime \<Rightarrow> work_db \<Rightarrow> (string, work_db \<times> nat) result" where
  "settle_terminal_preclaimed_invoke_agent_executions qw fallback d =
     (if \<not> list_ex (\<lambda>a. ae_status a = ''running'') (agents d) then Inr (d, 0)
      else settle_terminal_preclaimed_invoke_agent_executions_tx qw fallback d)"

definition p080_requeue_running_invoke_agent_by_id_tx ::
  "queue_world \<Rightarrow> ident \<Rightarrow> ident \<Rightarrow> string \<Rightarrow> datetime \<Rightarrow> string \<Rightarrow> string \<Rightarrow> work_db \<Rightarrow> work_db \<times> bool" where
  "p080_requeue_running_invoke_agent_by_id_tx qw i run stage scheduled reason stale_class d =
     (let P = (\<lambda>w. wi_id w = i \<and> wi_run_id w = Some run \<and> wi_stage_id w = Some stage
                 \<and> wi_kind w = ''invoke_agent'' \<and> wi_status w = ''running'')
      in case fetch_optional (filter P (items d)) of
           None \<Rightarrow> (d, False)
         | Some w \<Rightarrow>
             let p = (case qw_from_str qw (wi_payload_json w) of None \<Rightarrow> JObject [] | Some j \<Rightarrow> j);
                 d1 = supersede_abandoned_preclaim_for_retry_tx qw i p scheduled d;
                 p1 = stamped ''p080_reconciliation'' (JObject [(''requeued_at'', JString (qw_rfc3339 qw scheduled)),
                        (''reason'', JString reason), (''source_work_item_id'', JString i),
                        (''stale_class'', JString stale_class)]) p
             in (update_items P (\<lambda>x. (requeued_invoke (qw_to_string qw p1) (Some reason) x)
                   \<lparr>wi_scheduled_at := scheduled\<rparr>) d1, items_hit P d1 = 1))"

section \<open>The journal of a repair\<close>

definition p082_source_command_journal_id_from_payload :: "json \<Rightarrow> ident option" where
  "p082_source_command_journal_id_from_payload p =
     (case List.map_filter (\<lambda>ks. Option.bind (pointer_str p ks) (\<lambda>s. if trim s = [] then None else Some (trim s)))
        [[''targeted_retry'', ''journal_id''], [''operator_retry_instruction'', ''journal_id''],
         [''source_command_journal_id''], [''journal_id'']] of
        [] \<Rightarrow> None | j # _ \<Rightarrow> Some j)"

definition p082_latest_command_journal_id_for_run_tx :: "ident \<Rightarrow> work_db \<Rightarrow> ident option" where
  "p082_latest_command_journal_id_for_run_tx run d =
     (if is_blank run then None
      else case rev (sort_key (\<lambda>j. (wj_created_at j, wj_id j)) (filter (\<lambda>j. wj_run_id j = Some run) (wd_journal d))) of
        [] \<Rightarrow> None | j # _ \<Rightarrow> Some (wj_id j))"

definition p082_command_journal_run_id_tx :: "ident \<Rightarrow> work_db \<Rightarrow> (string, ident option) result" where
  "p082_command_journal_run_id_tx i d =
     (if is_blank i then Inr None
      else case fetch_optional (filter (\<lambda>j. wj_id j = i) (wd_journal d)) of
        None \<Rightarrow> Inr None
      | Some j \<Rightarrow> (case wj_run_id j of
            None \<Rightarrow> Inl ''load command journal run owner for P082 startup repair'' | Some r \<Rightarrow> Inr (Some r)))"

definition p082_resolve_source_command_journal_id_for_work_item_tx ::
  "json \<Rightarrow> ident \<Rightarrow> work_db \<Rightarrow> (string, ident option \<times> string) result" where
  "p082_resolve_source_command_journal_id_for_work_item_tx p run d =
     (let integrity = (case Option.bind (get_str p ''run_id'') (\<lambda>s. if trim s = [] then None else Some (trim s)) of
             None \<Rightarrow> ''valid'' | Some r \<Rightarrow> if r \<noteq> run then ''tamper_detected'' else ''valid'');
          latest = p082_latest_command_journal_id_for_run_tx run d
      in case p082_source_command_journal_id_from_payload p of
           None \<Rightarrow> Inr (latest, integrity)
         | Some j \<Rightarrow>
             bind_res (p082_command_journal_run_id_tx j d) (\<lambda>owner.
               if owner = Some run then Inr (Some j, integrity) else Inr (latest, ''tamper_detected'')))"

section \<open>Requeueing at startup\<close>

definition record_startup_repair_tx :: "startup_repair_row \<Rightarrow> work_db \<Rightarrow> (string, work_db) result" where
  "record_startup_repair_tx r d =
     (if sr_id r \<in> sr_id ` set (wd_repairs d) then Inl ''UNIQUE constraint failed''
      else Inr (d\<lparr>wd_repairs := wd_repairs d @ [r]\<rparr>))"

definition write_notes :: "ident \<Rightarrow> string \<Rightarrow> work_db \<Rightarrow> work_db" where
  "write_notes i notes d =
     d\<lparr>wd_repairs := sql_update (\<lambda>r. sr_id r = i) (\<lambda>r. r\<lparr>sr_notes := Some notes\<rparr>) (wd_repairs d)\<rparr>"

definition end_generation_tx :: "ident \<Rightarrow> string \<Rightarrow> string \<Rightarrow> datetime \<Rightarrow> work_db \<Rightarrow> work_db" where
  "end_generation_tx g status reason now d =
     d\<lparr>wd_sessions := sql_update (\<lambda>s. sg_id s = g)
        (\<lambda>s. s\<lparr>sg_status := status, sg_end_reason := Some reason, sg_ended_at := Some now\<rparr>) (wd_sessions d)\<rparr>"

definition invalidated_event :: "queue_world \<Rightarrow> session_row \<Rightarrow> datetime \<Rightarrow> json \<Rightarrow> session_event_row" where
  "invalidated_event qw s now details =
     \<lparr>sv_lineage_id = sg_lineage_id s, sv_generation_id = sg_id s, sv_event_type = ''invalidated'',
      sv_recorded_at = now, sv_details_json = Some (qw_to_string qw details)\<rparr>"

definition settle_host_row :: "queue_world \<Rightarrow> datetime \<Rightarrow> ident \<Rightarrow> ident \<times> ident option \<Rightarrow> work_db \<Rightarrow> work_db" where
  "settle_host_row qw now agent = (\<lambda>(epoch, generation) d.
     let d1 = (case Option.bind generation (\<lambda>g. fetch_optional (filter (\<lambda>s. sg_id s = g) (wd_sessions d))) of
            None \<Rightarrow> d
          | Some s \<Rightarrow>
              if sg_status s \<noteq> ''active'' then d
              else (end_generation_tx (sg_id s) ''invalidated'' ''host_interruption_startup_recovery'' now d)
                \<lparr>wd_session_events := wd_session_events d @ [invalidated_event qw s now (JObject
                   [(''reason'', JString ''host_interruption_startup_recovery''), (''epoch_id'', JString epoch)])]\<rparr>)
     in d1\<lparr>wd_host := sql_update (\<lambda>h. hr_epoch_id h = epoch \<and> hr_agent_execution_id h = agent
              \<and> hr_settlement_status h = ''cleanup_pending'')
            (\<lambda>h. h\<lparr>hr_settlement_status := ''retry_recovered_on_startup'', hr_cleanup_status := ''unknown_after_restart'',
                  hr_retry_enqueued_at := Some now\<rparr>) (wd_host d1)\<rparr>)"

definition settle_host_cleanup_after_startup_requeue_tx ::
  "queue_world \<Rightarrow> ident \<Rightarrow> ident option \<Rightarrow> datetime \<Rightarrow> work_db \<Rightarrow> work_db" where
  "settle_host_cleanup_after_startup_requeue_tx qw item agent now d =
     (case agent of
        None \<Rightarrow> d
      | Some a \<Rightarrow>
          fold (settle_host_row qw now a)
            (concat (map (\<lambda>h. map (\<lambda>e. (hr_epoch_id h, ae_session_generation_id e))
                 (filter (\<lambda>e. ae_id e = hr_agent_execution_id h \<and> ae_stage_execution_id e = Some (hr_stage_execution_id h))
                    (agents d)))
               (filter (\<lambda>h. hr_agent_execution_id h = a \<and> hr_settlement_status h = ''cleanup_pending''
                   \<and> hr_cleanup_status h = ''pending''
                   \<and> list_ex (\<lambda>w. wi_id w = item \<and> wi_run_id w \<noteq> None \<and> wi_run_id w = hr_run_id h
                        \<and> wi_status w = ''pending''
                        \<and> Option.bind (qw_from_str qw (wi_payload_json w)) (\<lambda>p. get_str p ''stage_execution_id'')
                            = Some (hr_stage_execution_id h)) (items d)) (wd_host d)))) d)"

definition startup_requeue_update ::
  "queue_world \<Rightarrow> datetime \<Rightarrow> string \<Rightarrow> work_item_row \<Rightarrow> json \<Rightarrow> (string \<times> json) list \<Rightarrow> work_db \<Rightarrow> work_db \<times> nat" where
  "startup_requeue_update qw scheduled reason w p extra d =
     (let p1 = stamped ''p061_startup_recovery'' (JObject ([(''requeued_at'', JString (qw_rfc3339 qw scheduled)),
               (''reason'', JString reason)] @ extra)) p;
          n = items_hit (running_item (wi_id w)) d;
          d1 = update_items (running_item (wi_id w)) (requeued_invoke (qw_to_string qw p1) (Some reason)) d
      in (if 0 < n then settle_host_cleanup_after_startup_requeue_tx qw (wi_id w) (claimed_agent p) scheduled d1
          else d1, n))"

definition generation_stamp :: "ident \<Rightarrow> (string \<times> json) list" where
  "generation_stamp item =
     [(''source_work_item_id'', JString item), (''requeue_generation'', JInt 1), (''max_requeue_generation'', JInt 1)]"

definition repair_stamp :: "ident \<Rightarrow> ident \<Rightarrow> ident \<Rightarrow> (string \<times> json) list" where
  "repair_stamp repair journal item =
     [(''startup_repair_id'', JString repair), (''source_command_journal_id'', JString journal)] @ generation_stamp item"

definition requeue_once_notes :: "queue_world \<Rightarrow> datetime \<Rightarrow> ident \<Rightarrow> ident \<Rightarrow> ident \<Rightarrow> string \<Rightarrow> json" where
  "requeue_once_notes qw scheduled repair item journal integrity =
     JObject [(''p082_recovery_matrix_readback'',
       set_readback_startup_repair
         (build_readback_v1 ''P082-R01'' ''repaired'' ''retry'' reason_startup_requeue_once
            ''Startup recovery requeued abandoned InvokeAgent work item.'' ''startup_repairs, work_items, command_journal''
            ''startup_repairs, work_items'' repair (Some ''startup_repairs.notes.p082_recovery_matrix_readback'')
            integrity (qw_rfc3339 qw scheduled))
         (build_startup_repair_summary repair item journal 1 1 False 60000 (qw_rfc3339 qw scheduled) False None ''global'')
         None)]"

definition requeue_exhausted_notes :: "queue_world \<Rightarrow> datetime \<Rightarrow> ident \<Rightarrow> ident \<Rightarrow> ident \<Rightarrow> json" where
  "requeue_exhausted_notes qw scheduled repair item journal =
     JObject [(''p082_recovery_matrix_readback'',
       set_readback_startup_repair
         (build_readback_v1 ''P082-R16'' ''held'' ''wait'' reason_startup_requeue_exhausted
            ''Startup requeue generation 1 was already consumed; no duplicate work was enqueued.''
            ''startup_repairs, work_items'' ''startup_repairs, work_items'' repair
            (Some ''startup_repairs.notes.p082_recovery_matrix_readback'') ''valid'' (qw_rfc3339 qw scheduled))
         (build_startup_repair_summary repair item journal 1 1 True 60000 (qw_rfc3339 qw scheduled) False None ''global'')
         (Some ''Startup requeue exhausted: generation 1 was already consumed. Use existing recovery inspection or cancellation paths to clear the hold.''))]"

text \<open>The notes of an earlier repair, and the stamp of the payload, that make a repeated repair a replay.\<close>

definition existing_r01_replay :: "ident \<Rightarrow> ident \<Rightarrow> json \<Rightarrow> bool" where
  "existing_r01_replay repair item n \<longleftrightarrow>
     pointer_str n [''p082_recovery_matrix_readback'', ''scenario_id''] = Some ''P082-R01''
     \<and> pointer_str n [''p082_recovery_matrix_readback'', ''recovery_reason_code''] = Some reason_startup_requeue_once
     \<and> pointer_str n [''p082_recovery_matrix_readback'', ''recovery_startup_repair_summary'', ''startup_repair_id'']
         = Some repair
     \<and> pointer_str n [''p082_recovery_matrix_readback'', ''recovery_startup_repair_summary'', ''source_work_item_id'']
         = Some item
     \<and> Option.bind (json_pointer n [''p082_recovery_matrix_readback'', ''recovery_startup_repair_summary'',
           ''requeue_generation'']) as_i64 = Some 1"

definition stamped_replay :: "ident \<Rightarrow> ident \<Rightarrow> json \<Rightarrow> bool" where
  "stamped_replay repair item p \<longleftrightarrow>
     pointer_str p [''p061_startup_recovery'', ''startup_repair_id''] = Some repair
     \<and> Option.bind (json_pointer p [''p061_startup_recovery'', ''requeue_generation'']) as_i64 = Some 1
     \<and> pointer_str p [''p061_startup_recovery'', ''source_work_item_id''] = Some item"

definition replayed_notes :: "queue_world \<Rightarrow> datetime \<Rightarrow> json \<Rightarrow> json" where
  "replayed_notes qw scheduled =
     json_update_at [''p082_recovery_matrix_readback'', ''recovery_startup_repair_summary'']
       (\<lambda>s. json_insert ''next_retry_or_backoff_time'' (JString (qw_rfc3339 qw scheduled))
              (json_insert ''replayed'' (JBool True) s))"

definition repair_notes :: "queue_world \<Rightarrow> ident \<Rightarrow> work_db \<Rightarrow> json option" where
  "repair_notes qw repair d =
     Option.bind (Option.bind (fetch_optional (filter (\<lambda>r. sr_id r = repair) (wd_repairs d))) sr_notes) (qw_from_str qw)"

definition write_replayed_notes :: "queue_world \<Rightarrow> datetime \<Rightarrow> ident \<Rightarrow> work_db \<Rightarrow> work_db" where
  "write_replayed_notes qw scheduled repair d =
     (case repair_notes qw repair d of
        None \<Rightarrow> d
      | Some n \<Rightarrow>
          (case json_pointer n [''p082_recovery_matrix_readback'', ''recovery_startup_repair_summary''] of
             Some (JObject _) \<Rightarrow> write_notes repair (qw_to_string qw (replayed_notes qw scheduled n)) d
           | _ \<Rightarrow> d))"

definition startup_requeue_row ::
  "queue_world \<Rightarrow> datetime \<Rightarrow> string \<Rightarrow> work_item_row \<Rightarrow> work_db \<Rightarrow> (string, work_db \<times> nat) result" where
  "startup_requeue_row qw scheduled reason w d =
     (case wi_run_id w of
        None \<Rightarrow> Inl ''panic: run_id is null''
      | Some run \<Rightarrow>
          let p = (case qw_from_str qw (wi_payload_json w) of None \<Rightarrow> JObject [] | Some j \<Rightarrow> j);
              d1 = supersede_abandoned_preclaim_for_retry_tx qw (wi_id w) p scheduled d
          in bind_res (p082_resolve_source_command_journal_id_for_work_item_tx p run d1) (\<lambda>(journal, integrity).
             case journal of
               None \<Rightarrow> Inr (startup_requeue_update qw scheduled reason w p (generation_stamp (wi_id w)) d1)
             | Some j \<Rightarrow>
                 let repair = ''p082-requeue:'' @ j @ '':'' @ wi_id w @ '':1'';
                     row = \<lparr>sr_id = repair, sr_run_id = run, sr_repair_kind = ''p082_requeue_once'', sr_repaired_at = scheduled,
                       sr_notes = Some (qw_to_string qw (requeue_once_notes qw scheduled repair (wi_id w) j integrity))\<rparr>
                 in case record_startup_repair_tx row d1 of
                      Inr d2 \<Rightarrow> Inr (startup_requeue_update qw scheduled reason w p (repair_stamp repair j (wi_id w)) d2)
                    | Inl _ \<Rightarrow>
                        if stamped_replay repair (wi_id w) p
                           \<or> (case repair_notes qw repair d1 of None \<Rightarrow> False | Some n \<Rightarrow> existing_r01_replay repair (wi_id w) n)
                        then Inr (startup_requeue_update qw scheduled reason w p
                               (repair_stamp repair j (wi_id w) @ [(''replayed'', JBool True)])
                               (write_replayed_notes qw scheduled repair d1))
                        else Inr (update_items (running_item (wi_id w))
                               (failed_item scheduled ''startup_requeue_exhausted: generation 1 already consumed'')
                               (write_notes repair (qw_to_string qw (requeue_exhausted_notes qw scheduled repair (wi_id w) j)) d1),
                             0)))"

definition requeue_running_invoke_agent_on_startup_tx ::
  "queue_world \<Rightarrow> datetime \<Rightarrow> string \<Rightarrow> work_db \<Rightarrow> (string, work_db \<times> nat) result" where
  "requeue_running_invoke_agent_on_startup_tx qw scheduled reason d =
     for_rows (startup_requeue_row qw scheduled reason)
       (filter (\<lambda>w. case qw_from_str qw (wi_payload_json w) of
            None \<Rightarrow> False | Some p \<Rightarrow> \<not> delivered_retry {''completed''} p d) (running_invokes d)) d"

section \<open>Host interruptions\<close>

definition matches_interrupted :: "nat \<Rightarrow> string option \<Rightarrow> (ident \<times> ident) option \<Rightarrow> json \<Rightarrow> bool" where
  "matches_interrupted candidates legacy_agent execution p \<longleftrightarrow>
     (case execution of
        None \<Rightarrow> True
      | Some (agent, _) \<Rightarrow>
          (case json_get p ''p058_claimed'' of
             Some c \<Rightarrow> get_str c ''agent_execution_id'' = Some agent
           | None \<Rightarrow> candidates = 1 \<and> legacy_agent \<noteq> None \<and> get_str p ''agent_id'' = legacy_agent))"

definition supersede_interrupted_claim ::
  "ident \<Rightarrow> ident \<Rightarrow> ident \<Rightarrow> ident \<Rightarrow> ident \<Rightarrow> datetime \<Rightarrow> work_db \<Rightarrow> work_db" where
  "supersede_interrupted_claim item epoch run stage agent now d =
     set_claims (sql_update
       (\<lambda>c. cl_key c = \<lparr>ck_run_id = run, ck_owner_kind = StageExecutionOwner, ck_owner_id = stage,
             ck_agent_execution_id = agent, ck_source_work_item_id = item\<rparr>
            \<and> cl_stage_execution_id c = Some stage
            \<and> (cl_claim_state c = ClaimActive
               \<or> cl_claim_state c = ClaimSupersededPendingRetry \<and> cl_superseding_work_item_id c = Some item))
       (\<lambda>c. c\<lparr>cl_claim_state := ClaimSupersededPendingRetry, cl_superseding_work_item_id := Some item,
             cl_supersession_journal_id := Some epoch,
             cl_superseded_at := first_some (cl_superseded_at c) (Some now), cl_updated_at := now\<rparr>) (claims d)) d"

definition interrupted_row ::
  "queue_world \<Rightarrow> ident \<Rightarrow> ident \<Rightarrow> datetime \<Rightarrow> (ident \<times> ident) option \<Rightarrow> nat \<Rightarrow> string option \<Rightarrow> work_item_row
    \<Rightarrow> work_db \<times> ident list \<Rightarrow> work_db \<times> ident list" where
  "interrupted_row qw run stage scheduled execution candidates legacy w = (\<lambda>(d, done).
     case qw_from_str qw (wi_payload_json w) of
       None \<Rightarrow> (d, done)
     | Some p \<Rightarrow>
         if get_str p ''stage_execution_id'' \<noteq> Some stage \<or> \<not> matches_interrupted candidates legacy execution p
         then (d, done)
         else
           let d1 = supersede_abandoned_preclaim_for_retry_tx qw (wi_id w) p scheduled d;
               p1 = stamped ''host_interruption_retry'' (JObject [(''stage_execution_id'', JString stage),
                      (''scheduled_at'', JString (qw_rfc3339 qw scheduled))]) p;
               d2 = update_items (running_item (wi_id w)) (\<lambda>x. (requeued_invoke (qw_to_string qw p1) None x)
                      \<lparr>wi_scheduled_at := scheduled\<rparr>) d1
           in if items_hit (running_item (wi_id w)) d1 \<noteq> 1 then (d2, done)
              else (case execution of
                      None \<Rightarrow> d2
                    | Some (agent, epoch) \<Rightarrow> supersede_interrupted_claim (wi_id w) epoch run stage agent scheduled d2,
                    done @ [wi_id w]))"

definition requeue_host_interrupted_invoke_tx ::
  "queue_world \<Rightarrow> ident \<Rightarrow> string \<Rightarrow> ident \<Rightarrow> datetime \<Rightarrow> (ident \<times> ident) option \<Rightarrow> work_db \<Rightarrow> work_db \<times> ident list" where
  "requeue_host_interrupted_invoke_tx qw run stage_id stage scheduled execution d =
     (let rows = filter (\<lambda>w. wi_run_id w = Some run \<and> wi_stage_id w = Some stage_id) (running_invokes d);
          legacy = Option.bind execution (\<lambda>(agent, _).
            map_option ae_agent_id (fetch_optional (filter (\<lambda>a. ae_id a = agent) (agents d))))
      in fold (interrupted_row qw run stage scheduled execution (length rows) legacy) rows (d, []))"

definition host_interruption_retry_supersedes_claim_tx :: "ident \<Rightarrow> claim_key \<Rightarrow> work_db \<Rightarrow> bool" where
  "host_interruption_retry_supersedes_claim_tx item k d \<longleftrightarrow>
     list_ex (\<lambda>c. cl_key c = k \<and> ck_source_work_item_id k = item \<and> cl_superseding_work_item_id c = Some item
       \<and> cl_claim_state c \<in> {ClaimSupersededPendingRetry, ClaimSuperseded}
       \<and> list_ex (\<lambda>h. hr_agent_execution_id h = ck_agent_execution_id k \<and> hr_run_id h = Some (ck_run_id k)
            \<and> Some (hr_stage_execution_id h) = cl_stage_execution_id c
            \<and> hr_cleanup_status h \<in> {''succeeded'', ''not_required''}
            \<and> hr_settlement_status h \<in> {''retry_enqueued'', ''retry_deferred_capacity''}
            \<and> hr_retry_enqueued_at h \<noteq> None) (wd_host d)) (claims d)"

definition host_interruption_owns_attempt_tx :: "ident \<Rightarrow> work_db \<Rightarrow> bool" where
  "host_interruption_owns_attempt_tx agent d \<longleftrightarrow> list_ex (\<lambda>h. hr_agent_execution_id h = agent) (wd_host d)"

section \<open>Closed prompts and full providers\<close>

definition running_invoke :: "ident \<Rightarrow> work_item_row \<Rightarrow> bool" where
  "running_invoke i w \<longleftrightarrow> wi_id w = i \<and> wi_kind w = ''invoke_agent'' \<and> wi_status w = ''running''"

definition requeue_running_invoke_agent_after_active_prompt_close_tx ::
  "queue_world \<Rightarrow> ident \<Rightarrow> claim_key \<times> ident option \<Rightarrow> string option \<Rightarrow> datetime \<Rightarrow> string \<Rightarrow> work_db
    \<Rightarrow> (string, work_db \<times> bool) result" where
  "requeue_running_invoke_agent_after_active_prompt_close_tx qw i key generation scheduled reason d =
     (case fetch_optional (filter (running_invoke i) (items d)) of
        None \<Rightarrow> Inr (d, False)
      | Some w \<Rightarrow>
          bind_res (ok_or (qw_from_str qw (wi_payload_json w)) ''parse InvokeAgent payload for requeue'') (\<lambda>p.
            let k = fst key in
            if payload_claim_key qw p \<noteq> Some key \<or> ck_source_work_item_id k \<noteq> i
               \<or> claimed_agent p \<noteq> Some (ck_agent_execution_id k)
            then Inr (d, False)
            else
              let p1 = stamped ''acp_active_prompt_recovery'' (JObject [(''reason'', JString reason),
                    (''failed_agent_execution_id'', JString (ck_agent_execution_id k)),
                    (''failed_session_generation_id'', json_opt generation),
                    (''requeued_at'', JString (qw_rfc3339 qw scheduled))]) p;
                  d1 = update_items (running_item i) (\<lambda>x. (requeued_invoke (qw_to_string qw p1) None x)
                    \<lparr>wi_scheduled_at := scheduled\<rparr>) d
              in if items_hit (running_item i) d \<noteq> 1 then Inr (d1, False)
                 else Inr (supersede_claim_of k i scheduled d1, True)))"

definition requeue_running_invoke_agent_after_provider_capacity_wait_tx ::
  "queue_world \<Rightarrow> ident \<Rightarrow> claim_key \<Rightarrow> datetime \<Rightarrow> string \<Rightarrow> work_db \<Rightarrow> (string, work_db \<times> bool) result" where
  "requeue_running_invoke_agent_after_provider_capacity_wait_tx qw i k scheduled reason d =
     (case fetch_optional (filter (running_invoke i) (items d)) of
        None \<Rightarrow> Inr (d, False)
      | Some w \<Rightarrow>
          bind_res (ok_or (qw_from_str qw (wi_payload_json w)) ''parse InvokeAgent payload for provider capacity requeue'') (\<lambda>p.
            let p1 = stamped ''acp_provider_capacity_recovery'' (JObject [(''reason'', JString reason),
                  (''failed_agent_execution_id'', JString (ck_agent_execution_id k)),
                  (''requeued_at'', JString (qw_rfc3339 qw scheduled))]) p;
                d1 = update_items (running_item i) (\<lambda>x. (requeued_invoke (qw_to_string qw p1) (Some reason) x)
                  \<lparr>wi_scheduled_at := scheduled\<rparr>) d
            in if items_hit (running_item i) d \<noteq> 1 then Inr (d1, False)
               else Inr (supersede_claim_of k i scheduled d1, True)))"

section \<open>Stalled starts\<close>

definition startup_xcode_required :: "json \<Rightarrow> bool" where
  "startup_xcode_required p \<longleftrightarrow>
     get_bool p ''xcode_broker_required'' = Some True
     \<or> (case get_array p ''requested_mcp_server_ids'' of
          None \<Rightarrow> False | Some vs \<Rightarrow> list_ex (\<lambda>v. as_str v = Some ''xcode'') vs)"

definition work_started_at :: "work_item_row \<Rightarrow> datetime" where
  "work_started_at w = (case wi_started_at w of None \<Rightarrow> wi_scheduled_at w | Some t \<Rightarrow> t)"

definition stalled_journal :: "json \<Rightarrow> ident \<Rightarrow> work_db \<Rightarrow> (string, ident \<times> string) result" where
  "stalled_journal p run d =
     bind_res (p082_resolve_source_command_journal_id_for_work_item_tx p run d) (\<lambda>(journal, integrity).
       case journal of
         Some j \<Rightarrow> Inr (j, integrity)
       | None \<Rightarrow> Inr (''no-journal-found'', if integrity \<noteq> ''tamper_detected'' then ''unavailable'' else integrity))"

definition stale_after_ms :: "bool \<Rightarrow> int" where
  "stale_after_ms xcode = (if xcode then xcode_startup_grace_seconds else standard_startup_grace_seconds) * 1000"

definition stalled_message :: "bool \<Rightarrow> string \<Rightarrow> string \<Rightarrow> string option" where
  "stalled_message xcode cutoff what =
     (if xcode then Some (''Xcode startup grace exceeded 12 minutes (cutoff: '' @ cutoff @ ''); '' @ what
        @ '' requeued for retry. Next check: daemon scheduler next cycle (no manual intervention required).'')
      else None)"

definition stalled_readback ::
  "queue_world \<Rightarrow> datetime \<Rightarrow> ident \<Rightarrow> string \<Rightarrow> string \<Rightarrow> string \<Rightarrow> string \<Rightarrow> json \<Rightarrow> string option \<Rightarrow> json" where
  "stalled_readback qw scheduled item action tab repository integrity summary message =
     set_readback_startup_repair
       (build_readback_v1 ''P082-R05'' ''repaired'' ''retry'' reason_startup_stalled action tab repository item
          (Some ''work_items.payload_json.p061_startup_recovery'') integrity (qw_rfc3339 qw scheduled)) summary message"

definition pre_session_row ::
  "queue_world \<Rightarrow> datetime \<Rightarrow> datetime \<Rightarrow> datetime \<Rightarrow> string \<Rightarrow> work_item_row \<Rightarrow> work_db \<Rightarrow> (string, work_db \<times> nat) result" where
  "pre_session_row qw scheduled standard xcode_cutoff reason w d =
     (case wi_run_id w of
        None \<Rightarrow> Inl ''panic: run_id is null''
      | Some run \<Rightarrow>
          let p = (case qw_from_str qw (wi_payload_json w) of None \<Rightarrow> JObject [] | Some j \<Rightarrow> j);
              xcode = startup_xcode_required p;
              cutoff = (if xcode then xcode_cutoff else standard)
          in if cutoff < work_started_at w then Inr (d, 0)
             else
               let d1 = supersede_abandoned_preclaim_for_retry_tx qw (wi_id w) p scheduled d
               in bind_res (stalled_journal p run d1) (\<lambda>(journal, integrity).
                  let summary = build_startup_repair_summary (''p082-stale-pre-session:'' @ wi_id w) (wi_id w) journal 1 1
                        False (stale_after_ms xcode) (qw_rfc3339 qw cutoff) xcode None ''startup'';
                      readback = stalled_readback qw scheduled (wi_id w)
                        ''Stale ACP pre-session startup repaired; work item requeued.'' ''work_items, agent_executions''
                        ''work_items'' integrity summary
                        (stalled_message xcode (qw_rfc3339 qw cutoff) (''pre-session work item '' @ wi_id w));
                      p1 = stamped ''p061_startup_recovery'' (JObject [(''requeued_at'', JString (qw_rfc3339 qw scheduled)),
                        (''reason'', JString reason), (''stale_cutoff'', JString (qw_rfc3339 qw cutoff)),
                        (''xcode_grace_applied'', JBool xcode), (''standard_stale_cutoff'', JString (qw_rfc3339 qw standard)),
                        (''xcode_stale_cutoff'', JString (qw_rfc3339 qw xcode_cutoff)),
                        (''p082_recovery_matrix_readback'', readback)]) p
                  in Inr (counted_update (running_item (wi_id w)) (requeued_invoke (qw_to_string qw p1) (Some reason)) d1)))"

definition requeue_stale_pre_session_invoke_agents_tx ::
  "queue_world \<Rightarrow> datetime \<Rightarrow> datetime \<Rightarrow> datetime \<Rightarrow> string \<Rightarrow> work_db \<Rightarrow> (string, work_db \<times> nat) result" where
  "requeue_stale_pre_session_invoke_agents_tx qw scheduled standard xcode_cutoff reason d =
     for_rows (pre_session_row qw scheduled standard xcode_cutoff reason)
       (filter (\<lambda>w. list_ex (\<lambda>a. payload_agent qw w = Some (ae_id a) \<and> ae_status a = ''running''
            \<and> ae_session_generation_id a = None) (agents d)) (running_invokes d)) d"

text \<open>A session of a running agent that was created and never reached its provider.\<close>

definition starting_session :: "session_row \<Rightarrow> bool" where
  "starting_session s \<longleftrightarrow> sg_status s = ''active'' \<and> sg_provider_session_id s = None \<and> sg_last_activity_at s = None"

definition invalidate_starting :: "queue_world \<Rightarrow> datetime \<Rightarrow> datetime \<Rightarrow> ident \<Rightarrow> session_row \<Rightarrow> work_db \<Rightarrow> work_db" where
  "invalidate_starting qw scheduled cutoff item s d =
     d\<lparr>wd_sessions := sql_update (\<lambda>x. sg_id x = sg_id s \<and> sg_status x = ''active'' \<and> sg_provider_session_id x = None)
          (\<lambda>x. x\<lparr>sg_status := ''invalidated'', sg_ended_at := Some scheduled,
                sg_end_reason := Some ''stale_acp_startup_without_provider_session''\<rparr>) (wd_sessions d),
       wd_session_events := wd_session_events d @ [invalidated_event qw s scheduled (JObject
          [(''reason'', JString ''stale_acp_startup_without_provider_session''),
           (''stale_cutoff'', JString (qw_rfc3339 qw cutoff)), (''source_work_item_id'', JString item)])]\<rparr>"

definition starting_row ::
  "queue_world \<Rightarrow> datetime \<Rightarrow> datetime \<Rightarrow> datetime \<Rightarrow> string \<Rightarrow> work_item_row \<times> session_row \<Rightarrow> work_db
    \<Rightarrow> (string, work_db \<times> nat) result" where
  "starting_row qw scheduled standard xcode_cutoff reason = (\<lambda>(w, s) d.
     case wi_run_id w of
       None \<Rightarrow> Inl ''panic: run_id is null''
     | Some run \<Rightarrow>
         let p = (case qw_from_str qw (wi_payload_json w) of None \<Rightarrow> JObject [] | Some j \<Rightarrow> j);
             xcode = startup_xcode_required p;
             cutoff = (if xcode then xcode_cutoff else standard)
         in if cutoff < work_started_at w \<or> cutoff < sg_created_at s then Inr (d, 0)
            else
              let d1 = invalidate_starting qw scheduled cutoff (wi_id w) s
                         (supersede_abandoned_preclaim_for_retry_tx qw (wi_id w) p scheduled d);
                  repair = ''p082-stale-startup:'' @ sg_id s
              in bind_res (stalled_journal p run d1) (\<lambda>(journal, integrity).
                 let summary = build_startup_repair_summary repair (wi_id w) journal 1 1 False (stale_after_ms xcode)
                       (qw_rfc3339 qw cutoff) xcode None ''startup'';
                     readback = stalled_readback qw scheduled (wi_id w)
                       ''Stale ACP startup repaired; session generation invalidated and work item requeued.''
                       ''work_items, session_generations, session_events'' ''work_items, sessions, startup_repairs''
                       integrity summary (stalled_message xcode (qw_rfc3339 qw cutoff)
                          (''session generation '' @ sg_id s @ '' invalidated and work item''));
                     p1 = stamped ''p061_startup_recovery'' (JObject [(''requeued_at'', JString (qw_rfc3339 qw scheduled)),
                       (''reason'', JString reason), (''stale_cutoff'', JString (qw_rfc3339 qw cutoff)),
                       (''p082_recovery_matrix_readback'', readback)]) p;
                     (d2, n) = counted_update (running_item (wi_id w)) (requeued_invoke (qw_to_string qw p1) (Some reason)) d1
                 in bind_res (record_startup_repair_tx \<lparr>sr_id = repair, sr_run_id = run,
                      sr_repair_kind = ''p082_stale_startup_repair'', sr_repaired_at = scheduled,
                      sr_notes = Some (qw_to_string qw (JObject [(''p082_startup_repair_summary'', summary)]))\<rparr> d2)
                    (\<lambda>d3. Inr (d3, n))))"

definition requeue_stale_starting_invoke_agent_sessions_tx ::
  "queue_world \<Rightarrow> datetime \<Rightarrow> datetime \<Rightarrow> datetime \<Rightarrow> string \<Rightarrow> work_db \<Rightarrow> (string, work_db \<times> nat) result" where
  "requeue_stale_starting_invoke_agent_sessions_tx qw scheduled standard xcode_cutoff reason d =
     for_rows (starting_row qw scheduled standard xcode_cutoff reason)
       (concat (map (\<lambda>w. map (\<lambda>s. (w, s)) (filter (\<lambda>s. starting_session s
            \<and> list_ex (\<lambda>a. payload_agent qw w = Some (ae_id a) \<and> ae_status a = ''running''
                 \<and> ae_session_generation_id a = Some (sg_id s)) (agents d)) (wd_sessions d))) (running_invokes d))) d"

section \<open>Terminal executions found at startup\<close>

text \<open>Every item is settled in a transaction of its own; an error keeps what was committed before it.\<close>

fun commit_rows :: "('r \<Rightarrow> 'd \<Rightarrow> ('e, 'd \<times> 'n) result) \<Rightarrow> 'r list \<Rightarrow> 'd \<Rightarrow> 'd \<times> ('e, nat) result" where
  "commit_rows f [] d = (d, Inr 0)"
| "commit_rows f (r # rs) d =
     (case f r d of
        Inl e \<Rightarrow> (d, Inl e)
      | Inr (d', _) \<Rightarrow> (case commit_rows f rs d' of (d'', res) \<Rightarrow> (d'', bind_res res (\<lambda>n. Inr (Suc n)))))"

definition same_member :: "json \<Rightarrow> string list \<Rightarrow> string list \<Rightarrow> bool" where
  "same_member p a b \<longleftrightarrow> json_pointer p a = json_pointer p b \<and> json_pointer p a \<noteq> None \<and> json_pointer p a \<noteq> Some JNull"

definition retry_matches_claim :: "json \<Rightarrow> bool" where
  "retry_matches_claim p \<longleftrightarrow>
     json_get p ''retry_authority_id'' = None \<and> json_get p ''targeted_retry'' = None
     \<or> same_member p [''targeted_retry'', ''target_stage_execution_id'']
          [''p058_claimed'', ''artifact_claim_key'', ''stage_execution_id'']
       \<and> same_member p [''targeted_retry'', ''retry_authority_id''] [''retry_authority_id'']"

definition terminal_valid :: "queue_world \<Rightarrow> work_db \<Rightarrow> work_item_row \<Rightarrow> bool" where
  "terminal_valid qw d w \<longleftrightarrow>
     \<not> prefix ''auto-contract-output-retry:'' (map ascii_lower (wi_id w))
     \<and> (case (wi_run_id w, qw_from_str qw (wi_payload_json w)) of
          (Some run, Some p) \<Rightarrow>
            retry_matches_claim p
            \<and> (case (get_str p ''stage_execution_id'', claimed_agent p) of
                 (Some stage, Some agent) \<Rightarrow>
                   outputs_proved d {''completed'', ''failed''} reported_settlements run stage agent (wi_id w)
               | _ \<Rightarrow> False)
        | _ \<Rightarrow> False)"

definition complete_running_invoke_agents_with_terminal_valid_outputs_on_startup ::
  "queue_world \<Rightarrow> datetime \<Rightarrow> work_db \<Rightarrow> work_db \<times> (string, nat) result" where
  "complete_running_invoke_agents_with_terminal_valid_outputs_on_startup qw now d =
     commit_rows (\<lambda>w. complete_attempt_with_capacity qw default_capacity now (wi_id w) None)
       (filter (terminal_valid qw d) (running_invokes d)) d"

definition terminal_failed :: "queue_world \<Rightarrow> work_db \<Rightarrow> work_item_row \<Rightarrow> bool" where
  "terminal_failed qw d w \<longleftrightarrow>
     (case (wi_run_id w, qw_from_str qw (wi_payload_json w)) of
        (Some run, Some p) \<Rightarrow>
          (case (get_str p ''stage_execution_id'', claimed_agent p) of
             (Some stage, Some agent) \<Rightarrow>
               list_ex (\<lambda>s. st_id s = stage \<and> st_run_id s = run) (stages d)
               \<and> list_ex (\<lambda>a. ae_id a = agent \<and> ae_stage_execution_id a = Some stage
                    \<and> ae_status a \<in> {''failed'', ''cancelled''}) (agents d)
               \<and> \<not> list_ex (\<lambda>f. rf_agent_execution_id f = agent \<and> settled_facts reported_settlements f) (facts d)
               \<and> \<not> diagnostics_proof d agent
           | _ \<Rightarrow> False)
      | _ \<Rightarrow> False)"

definition fail_running_invoke_agents_with_terminal_failed_outputs_on_startup ::
  "queue_world \<Rightarrow> datetime \<Rightarrow> string \<Rightarrow> work_db \<Rightarrow> work_db \<times> (string, nat) result" where
  "fail_running_invoke_agents_with_terminal_failed_outputs_on_startup qw now reason d =
     commit_rows (\<lambda>w. fail_attempt_with_capacity qw default_capacity now (wi_id w) reason None)
       (filter (terminal_failed qw d) (running_invokes d)) d"

definition running_invoke_agent_has_terminal_failed_outputs :: "queue_world \<Rightarrow> ident \<Rightarrow> work_db \<Rightarrow> bool" where
  "running_invoke_agent_has_terminal_failed_outputs qw i d \<longleftrightarrow>
     list_ex (\<lambda>w. running_invoke i w \<and> terminal_failed qw d w) (items d)"

end
