(* ===== verification/Retry_Authority_Properties.thy ===== *)
theory Retry_Authority_Properties
  imports Retry_Authority
begin

text \<open>
  The table of retry authorities: a stage of a run has at most one active authority, an authority that
  ended stays ended, and a new targeted retry takes the stage over.
\<close>

section \<open>How authorities move\<close>

definition authority_moves :: "retry_authority \<Rightarrow> retry_authority \<Rightarrow> bool" where
  "authority_moves a a' \<longleftrightarrow>
     ra_id a' = ra_id a \<and> ra_run_id a' = ra_run_id a \<and> ra_stage_id a' = ra_stage_id a
     \<and> ra_target_stage_execution_id a' = ra_target_stage_execution_id a
     \<and> (ra_authority_state a \<noteq> AuthorityActive \<longrightarrow> a' = a)"

interpretation authority_rows: row_order authority_moves
  by unfold_locales (auto simp: authority_moves_def)

section \<open>Steps\<close>

inductive authority_step :: "retry_authority list \<Rightarrow> retry_authority list \<Rightarrow> bool" where
  inserted: "insert_authority_tx a t = Inr t' \<Longrightarrow> authority_step t t'"
| orphan: "create_recovered_orphan_tx i run stage target reason now t = Inr (a, t') \<Longrightarrow> authority_step t t'"
| superseded: "supersede_active_for_stage_tx run stage now reason t = (t', n) \<Longrightarrow> authority_step t t'"
| terminalized: "mark_terminalized_tx i now reason t = (t', n) \<Longrightarrow> authority_step t t'"
| run_cancelled: "authority_step t (terminalize_for_cancelled_run run now t)"
| targeted:
    "create_active_targeted_agent_retry_tx run stage target journal retry_item invoke_item agent now t = Inr (a, t')
      \<Longrightarrow> authority_step t t'"

definition authority_inv :: "retry_authority list \<Rightarrow> bool" where
  "authority_inv t \<longleftrightarrow>
     distinct (map ra_id t) \<and> (\<forall>run stage. length (filter (holds_stage run stage) t) \<le> 1)"

lemma end_authority_moves: "s \<noteq> AuthorityActive \<Longrightarrow> ra_authority_state a = AuthorityActive \<Longrightarrow> authority_moves a (end_authority s reason now a)"
  by (simp add: authority_moves_def end_authority_def)

lemma ended_rows_keep_inv:
  assumes "authority_inv t" "\<And>a. ra_authority_state (f a) \<noteq> AuthorityActive" "\<And>a. ra_id (f a) = ra_id a"
  shows "authority_inv (sql_update P f t)"
proof -
  have "length (filter (holds_stage run stage) (sql_update P f t)) \<le> length (filter (holds_stage run stage) t)"
    for run stage
    unfolding sql_update_def filter_map length_map comp_def
    using assms(2) by (induction t) (auto simp: holds_stage_def)
  moreover have "map ra_id (sql_update P f t) = map ra_id t"
    by (rule map_sql_update) (rule assms(3))
  ultimately show ?thesis using assms(1) by (fastforce simp: authority_inv_def intro: order_trans)
qed

lemma ending_keeps_inv:
  "authority_inv t \<Longrightarrow> s \<noteq> AuthorityActive \<Longrightarrow> authority_inv (sql_update P (end_authority s reason now) t)"
  by (rule ended_rows_keep_inv) (simp_all add: end_authority_def)

lemma insert_keeps_inv:
  assumes "authority_inv t" "insert_authority_tx a t = Inr t'"
  shows "authority_inv t'" "table_moves authority_moves t t'" "t' = t @ [a]"
proof -
  show t': "t' = t @ [a]" using assms(2) by (simp add: insert_authority_tx_def split: if_splits)
  have fresh: "ra_id a \<notin> ra_id ` set t"
    and free: "filter (holds_stage run stage) t = []" if "holds_stage run stage a" for run stage
    using assms(2) that by (auto simp: insert_authority_tx_def holds_stage_def list_ex_iff filter_empty_conv split: if_splits)
  have "ra_id a \<notin> ra_id ` set t" using assms(2) by (simp add: insert_authority_tx_def split: if_splits)
  then show "authority_inv t'" using assms(1) free by (auto simp: t' authority_inv_def)
  show "table_moves authority_moves t t'" unfolding t' by (rule authority_rows.table_snoc)
qed

lemma ending_moves:
  assumes "\<And>a. P a \<Longrightarrow> ra_authority_state a = AuthorityActive" "s \<noteq> AuthorityActive"
  shows "table_moves authority_moves t (sql_update P (end_authority s reason now) t)"
  using assms by (intro authority_rows.table_update end_authority_moves) auto

lemma targeted_cases:
  assumes "create_active_targeted_agent_retry_tx run stage target journal retry_item invoke_item agent now t = Inr (a, t')"
  shows "insert_authority_tx a (fst (supersede_active_for_stage_tx run stage now ''superseded_by_new_targeted_retry'' t)) = Inr t'"
    "holds_stage run stage a" "ra_target_stage_execution_id a = target"
  using assms by (auto simp: create_active_targeted_agent_retry_tx_def Let_def holds_stage_def split: prod.splits)

lemma supersede_keeps:
  assumes "authority_inv t"
  shows "authority_inv (fst (supersede_active_for_stage_tx run stage now reason t))"
    "table_moves authority_moves t (fst (supersede_active_for_stage_tx run stage now reason t))"
  using assms by (auto simp: supersede_active_for_stage_tx_def holds_stage_def intro!: ending_keeps_inv ending_moves)

lemma authority_step_keeps:
  assumes "authority_step t t'" "authority_inv t"
  shows "authority_inv t' \<and> table_moves authority_moves t t'"
  using assms(1)
proof cases
  case (inserted a)
  then show ?thesis using insert_keeps_inv assms(2) by blast
next
  case (orphan i run stage target reason now a)
  then show ?thesis using insert_keeps_inv[OF assms(2)] by (auto simp: create_recovered_orphan_tx_def Let_def)
next
  case (superseded run stage now reason n)
  then show ?thesis using supersede_keeps[OF assms(2), of run stage now reason] by simp
next
  case (terminalized i now reason n)
  then show ?thesis
    using assms(2) by (auto simp: mark_terminalized_tx_def Let_def intro!: ending_keeps_inv ending_moves)
next
  case (run_cancelled run now)
  then show ?thesis
    using assms(2) unfolding terminalize_for_cancelled_run_def
    by (auto simp: authority_moves_def intro!: ended_rows_keep_inv authority_rows.table_update)
next
  case (targeted run stage target journal retry_item invoke_item agent now a)
  note s = supersede_keeps[OF assms(2), of run stage now "''superseded_by_new_targeted_retry''"]
  show ?thesis
    using insert_keeps_inv[OF s(1) targeted_cases(1)[OF targeted]] authority_rows.table_trans[OF s(2)] by blast
qed

interpretation authorities: guarded_system "\<lambda>t. t = []" authority_step authority_inv
  by unfold_locales (auto simp: authority_inv_def dest: authority_step_keeps)

lemma authority_run_moves:
  assumes "authority_inv t" "authority_step\<^sup>*\<^sup>* t t'"
  shows "table_moves authority_moves t t'"
  by (rule authorities.run_relation[OF assms, where R = "table_moves authority_moves"])
    (auto intro: authority_rows.table_refl authority_rows.table_trans dest: authority_step_keeps)

text \<open>
  C27: A stage is retried under one authority. In every table the repository reaches, a stage of a run has at most one
  active authority; a new targeted retry leaves its own as the only one; and an authority that was terminalised,
  superseded or recovered keeps its row on every continuation.
\<close>

theorem one_active_authority:
  assumes "reachable_from (\<lambda>t. t = []) authority_step t" and "authority_step\<^sup>*\<^sup>* t t'"
  shows "length (filter (holds_stage run stage) t') \<le> 1
    \<and> (\<forall>a \<in> set t. ra_authority_state a \<noteq> AuthorityActive \<longrightarrow> a \<in> set t')
    \<and> (\<forall>target journal retry_item invoke_item agent now a t''.
         create_active_targeted_agent_retry_tx run stage target journal retry_item invoke_item agent now t' = Inr (a, t'')
         \<longrightarrow> filter (holds_stage run stage) t'' = [a] \<and> find_active_by_run_stage run stage t'' = Some a)"
proof -
  have inv: "authority_inv t" "authority_inv t'"
    using authorities.reachable_inv[OF assms(1)] authorities.run_inv assms(2) by blast+
  have "a \<in> set t'" if "a \<in> set t" "ra_authority_state a \<noteq> AuthorityActive" for a
    using table_moves_mem[OF authority_run_moves[OF inv(1) assms(2)] that(1)] that(2) by (auto simp: authority_moves_def)
  moreover have "filter (holds_stage run stage) t'' = [a]"
    if "create_active_targeted_agent_retry_tx run stage target journal retry_item invoke_item agent now t' = Inr (a, t'')"
    for target journal retry_item invoke_item agent now a t''
  proof -
    note s = supersede_keeps[OF inv(2), of run stage now "''superseded_by_new_targeted_retry''"] and c = targeted_cases[OF that]
    have "\<not> holds_stage run stage x" if "x \<in> set (fst (supersede_active_for_stage_tx run stage now r t'))" for x r
      using that unfolding supersede_active_for_stage_tx_def fst_conv
      by (rule sql_update_all) (auto simp: holds_stage_def end_authority_def)
    then show ?thesis using insert_keeps_inv(3)[OF s(1) c(1)] c(2) by (simp add: filter_empty_conv)
  qed
  ultimately show ?thesis
    using inv(2) by (auto simp: authority_inv_def find_active_by_run_stage_def fetch_optional_def)
qed

definition targeted_retry :: "ident \<Rightarrow> retry_authority list \<Rightarrow> (string, retry_authority \<times> retry_authority list) result" where
  "targeted_retry target t = create_active_targeted_agent_retry_tx ''run'' ''build'' target None None ''w'' None 5 t"

theorem one_active_authority_witness:
  "\<exists>a t a' t'. targeted_retry ''s1'' [] = Inr (a, t) \<and> targeted_retry ''s2'' t = Inr (a', t')
     \<and> filter (holds_stage ''run'' ''build'') t' = [a']"
proof -
  have "is_ok (targeted_retry ''s1'' [])" by code_simp
  then obtain a t where a: "targeted_retry ''s1'' [] = Inr (a, t)" by (cases "targeted_retry ''s1'' []") auto
  have "is_ok (bind_res (targeted_retry ''s1'' []) (\<lambda>(a, t). targeted_retry ''s2'' t))" by code_simp
  then obtain a' t' where a': "targeted_retry ''s2'' t = Inr (a', t')" using a by (cases "targeted_retry ''s2'' t") auto
  have "authority_step\<^sup>*\<^sup>* [] t" using a unfolding targeted_retry_def by (blast intro: authority_step.targeted)
  then show ?thesis
    using one_active_authority[OF reachable_from.start, of "[]" t "''run''" "''build''"] a a' unfolding targeted_retry_def by blast
qed

end
