(* ===== verification/Work_Queue_Properties.thy ===== *)
theory Work_Queue_Properties
  imports Work_Recovery Retry_Authority_Properties
begin

text \<open>
  What every transaction of the work-item repository keeps of its tables: items, agent executions,
  source claims and retry authorities move in place and along their life cycles. The relation is proved
  once per statement, lifted through the loops over fetched rows, and holds along every interleaving of
  the transactions.
\<close>

section \<open>How rows move\<close>

text \<open>
  An item keeps its identity, its attempts only grow, and once it is neither pending nor running its
  outcome stands.
\<close>

definition item_moves :: "work_item_row \<Rightarrow> work_item_row \<Rightarrow> bool" where
  "item_moves w w' \<longleftrightarrow>
     wi_id w' = wi_id w \<and> wi_kind w' = wi_kind w \<and> wi_run_id w' = wi_run_id w \<and> wi_stage_id w' = wi_stage_id w
     \<and> wi_created_at w' = wi_created_at w \<and> wi_attempt_count w \<le> wi_attempt_count w'
     \<and> (wi_status w \<notin> open_statuses \<longrightarrow>
          wi_status w' = wi_status w \<and> wi_completed_at w' = wi_completed_at w \<and> wi_failed_at w' = wi_failed_at w
          \<and> wi_last_error w' = wi_last_error w \<and> wi_attempt_count w' = wi_attempt_count w)"

definition agent_moves :: "agent_execution_row \<Rightarrow> agent_execution_row \<Rightarrow> bool" where
  "agent_moves a a' \<longleftrightarrow> ae_id a' = ae_id a \<and> (ae_status a \<noteq> ''running'' \<longrightarrow> a' = a)"

definition claim_moves :: "source_generation_claim \<Rightarrow> source_generation_claim \<Rightarrow> bool" where
  "claim_moves c c' \<longleftrightarrow>
     cl_key c' = cl_key c \<and> (cl_claim_state c \<noteq> ClaimActive \<longrightarrow> cl_claim_state c' = cl_claim_state c)"

interpretation item_rows: row_order item_moves
  by unfold_locales (auto simp: item_moves_def)

interpretation agent_rows: row_order agent_moves
  by unfold_locales (auto simp: agent_moves_def)

interpretation claim_rows: row_order claim_moves
  by unfold_locales (auto simp: claim_moves_def)

definition queue_moves :: "work_db \<Rightarrow> work_db \<Rightarrow> bool" where
  "queue_moves d d' \<longleftrightarrow>
     table_moves item_moves (items d) (items d') \<and> table_moves agent_moves (agents d) (agents d')
     \<and> table_moves claim_moves (claims d) (claims d') \<and> table_moves authority_moves (wd_authorities d) (wd_authorities d')
     \<and> (distinct (map wi_id (items d)) \<longrightarrow> distinct (map wi_id (items d')))"

lemmas table_refls = item_rows.table_refl agent_rows.table_refl claim_rows.table_refl authority_rows.table_refl

lemma queue_moves_refl [simp]: "queue_moves d d"
  by (simp add: queue_moves_def table_refls)

lemma queue_moves_trans: "queue_moves d d' \<Longrightarrow> queue_moves d' d'' \<Longrightarrow> queue_moves d d''"
  unfolding queue_moves_def
  by (meson item_rows.table_trans agent_rows.table_trans claim_rows.table_trans authority_rows.table_trans)

lemma queue_moves_frame:
  assumes "items d' = items d" "agents d' = agents d" "claims d' = claims d" "wd_authorities d' = wd_authorities d"
  shows "queue_moves d d'"
  using assms by (simp add: queue_moves_def table_refls)

lemma set_table_sel [simp]:
  "items (set_agents as d) = items d" "agents (set_agents as d) = as" "claims (set_agents as d) = claims d"
  "wd_authorities (set_agents as d) = wd_authorities d"
  "items (set_facts fs d) = items d" "agents (set_facts fs d) = agents d" "claims (set_facts fs d) = claims d"
  "wd_authorities (set_facts fs d) = wd_authorities d" "facts (set_facts fs d) = fs"
  "items (set_claims cs d) = items d" "agents (set_claims cs d) = agents d" "claims (set_claims cs d) = cs"
  "wd_authorities (set_claims cs d) = wd_authorities d"
  "facts (set_agents as d) = facts d" "facts (set_claims cs d) = facts d"
  by (simp_all add: set_agents_def set_facts_def set_claims_def)

lemma update_items_sel [simp]:
  "agents (update_items P f d) = agents d" "claims (update_items P f d) = claims d"
  "facts (update_items P f d) = facts d" "wd_authorities (update_items P f d) = wd_authorities d"
  by (simp_all add: update_items_def)

section \<open>The statements\<close>

named_theorems moves_intro \<open>what the statements and transactions keep\<close>

lemma update_items_moves:
  assumes "\<And>w. P w \<Longrightarrow> item_moves w (f w)"
  shows "queue_moves d (update_items P f d)"
proof -
  have "map wi_id (sql_update P f (items d)) = map wi_id (items d)"
    using assms by (auto simp: sql_update_def item_moves_def)
  then show ?thesis
    using assms by (auto simp: queue_moves_def table_refls intro: item_rows.table_update)
qed

lemma set_agents_moves:
  assumes "\<And>a. P a \<Longrightarrow> agent_moves a (f a)"
  shows "queue_moves d (set_agents (sql_update P f (agents d)) d)"
  using assms by (auto simp: queue_moves_def table_refls intro: agent_rows.table_update)

lemma set_claims_moves:
  assumes "\<And>c. P c \<Longrightarrow> claim_moves c (f c)"
  shows "queue_moves d (set_claims (sql_update P f (claims d)) d)"
  using assms by (auto simp: queue_moves_def table_refls intro: claim_rows.table_update)

lemma insert_item_moves:
  assumes "wi_id w \<notin> wi_id ` set (items d)"
  shows "queue_moves d (set_items (items d @ [w]) d)"
  using assms by (auto simp: queue_moves_def table_refls item_rows.table_snoc)

lemma set_facts_moves [moves_intro]: "queue_moves d (set_facts fs d)"
  by (rule queue_moves_frame) simp_all

text \<open>The columns every update of an item writes; the ways out of the open statuses.\<close>

lemmas item_columns = item_moves_def failed_item_def claimed_item_def requeued_advance_def cancelled_item_def
  requeued_invoke_def quarantinable_def running_item_def

lemma quarantine_moves [moves_intro]: "queue_moves d (quarantine_advance_work_item_tx now i c d)"
  unfolding quarantine_advance_work_item_tx_def by (rule update_items_moves) (auto simp: item_columns)

lemma enqueue_moves: "enqueue_tx w d = Inr d' \<Longrightarrow> queue_moves d d'"
  by (auto simp: enqueue_tx_def intro: insert_item_moves split: if_splits)

lemma insert_or_ignore_moves [moves_intro]: "queue_moves d (insert_or_ignore_item w d)"
  by (auto simp: insert_or_ignore_item_def intro: insert_item_moves)

lemma cancel_agent_moves [moves_intro]: "queue_moves d (cancel_running_agent agent now d)"
  unfolding cancel_running_agent_def by (rule set_agents_moves) (auto simp: agent_moves_def)

lemma settle_agent_moves [moves_intro]: "queue_moves d (settle_agent_on_complete now agent d)"
  unfolding settle_agent_on_complete_def by (rule set_agents_moves) (auto simp: agent_moves_def)

lemma close_claims_moves [moves_intro]: "queue_moves d (close_active_claims now i agent d)"
  unfolding close_active_claims_def by (rule set_claims_moves) (auto simp: claim_moves_def)

lemma supersede_claim_moves [moves_intro]: "queue_moves d (supersede_claim_of k i now d)"
  unfolding supersede_claim_of_def by (rule set_claims_moves) (auto simp: claim_moves_def superseded_claim_def)

lemma supersede_interrupted_moves [moves_intro]:
  "queue_moves d (supersede_interrupted_claim i epoch run stage agent now d)"
  unfolding supersede_interrupted_claim_def by (rule set_claims_moves) (auto simp: claim_moves_def)

lemma supersede_preclaim_moves [moves_intro]:
  "queue_moves d (supersede_abandoned_preclaim_for_retry_tx qw i p now d)"
  unfolding supersede_abandoned_preclaim_for_retry_tx_def Let_def
  using cancel_agent_moves supersede_claim_moves queue_moves_trans
  by (auto split: option.split; blast)

section \<open>Transactions\<close>

definition keeps :: "work_db \<Rightarrow> (string, work_db \<times> 'x) result \<Rightarrow> bool" where
  "keeps d r \<longleftrightarrow> (\<forall>d' x. r = Inr (d', x) \<longrightarrow> queue_moves d d')"

lemma keepsD: "keeps d r \<Longrightarrow> r = Inr (d', x) \<Longrightarrow> queue_moves d d'"
  by (simp add: keeps_def)

lemma keeps_simps [simp]:
  "keeps d (Inl e)" "keeps d (Inr y) \<longleftrightarrow> queue_moves d (fst y)"
  by (cases y; simp add: keeps_def)+

lemma keeps_bind:
  assumes "keeps d m" "\<And>d' x. m = Inr (d', x) \<Longrightarrow> queue_moves d d' \<Longrightarrow> keeps d' (f (d', x))"
  shows "keeps d (bind_res m f)"
  using assms by (cases m) (auto simp: keeps_def intro: queue_moves_trans)

lemma keeps_bind_pure: "(\<And>a. m = Inr a \<Longrightarrow> keeps d (f a)) \<Longrightarrow> keeps d (bind_res m f)"
  by (cases m) auto

lemma keeps_if: "(b \<Longrightarrow> keeps d x) \<Longrightarrow> (\<not> b \<Longrightarrow> keeps d y) \<Longrightarrow> keeps d (if b then x else y)"
  by simp

lemma keeps_after: "queue_moves d d' \<Longrightarrow> keeps d' r \<Longrightarrow> keeps d r"
  by (auto simp: keeps_def intro: queue_moves_trans)

lemma keeps_for_rows [moves_intro]:
  assumes "\<And>r d. keeps d (f r d)"
  shows "keeps d (for_rows f rs d)"
proof (induction rs arbitrary: d)
  case (Cons r rs)
  show ?case unfolding for_rows.simps
    by (rule keeps_bind[OF assms]) (auto intro!: keeps_bind[OF Cons.IH])
qed simp

lemma counted_moves:
  assumes "\<And>w. P w \<Longrightarrow> item_moves w (f w)"
  shows "queue_moves d (fst (counted_update P f d))"
  using assms by (simp add: counted_update_def update_items_moves)

subsection \<open>Claiming\<close>

lemma unowned_quarantine_moves [moves_intro]:
  "queue_moves d (fst (quarantine_unowned_fenced_work_item_tx qw now i d))"
  by (auto simp: quarantine_unowned_fenced_work_item_tx_def Let_def item_columns intro!: update_items_moves)

lemma claim_turn_moves [moves_intro]: "keeps d (claim_turn qw now w d)"
  by (auto simp: claim_turn_def Let_def item_columns
      intro!: update_items_moves quarantine_moves unowned_quarantine_moves split: option.split)

lemma claim_loop_unfold:
  assumes "claim_candidates now kinds cursor d = (n, w) # rest" "claim_turn qw now w d = Inr (d', b)"
  shows "claim_loop qw now kinds cursor d =
     (if b then Inr (d', Some w) else claim_loop qw now kinds (Some (wi_scheduled_at w, n)) d')"
  by (subst claim_loop.simps) (simp add: assms split: bool.split)

lemma claim_loop_moves: "keeps d (claim_loop qw now kinds cursor d)"
proof (induction qw now kinds cursor d rule: claim_loop.induct)
  case (1 qw now kinds cursor d)
  show ?case
  proof (cases "claim_candidates now kinds cursor d")
    case (Cons c rest)
    obtain n w where c: "c = (n, w)" by (cases c)
    show ?thesis
    proof (cases "claim_turn qw now w d")
      case (Inr x)
      obtain d' b where x: "x = (d', b)" by (cases x)
      have moved: "queue_moves d d'" by (rule keepsD[OF claim_turn_moves]) (use Inr x in simp)
      show ?thesis
      proof (cases b)
        case True
        then show ?thesis using moved claim_loop_unfold[of now kinds cursor d n w rest qw d' b] Cons c Inr x by simp
      next
        case False
        then have "keeps d' (claim_loop qw now kinds (Some (wi_scheduled_at w, n)) d')"
          using "1.IH"[OF Cons c[symmetric] Inr x[symmetric]] by simp
        then show ?thesis
          using keeps_after[OF moved] False claim_loop_unfold[of now kinds cursor d n w rest qw d' b] Cons c Inr x
          by simp
      qed
    qed (use Cons c in \<open>simp add: claim_loop.simps\<close>)
  qed (simp add: claim_loop.simps)
qed

lemma claim_next_where_moves [moves_intro]: "keeps d (claim_next_where qw now kinds d)"
  unfolding claim_next_where_def
  by (rule keeps_bind[OF claim_loop_moves]) (auto split: option.split)

lemma mark_claimed_moves [moves_intro]: "keeps d (mark_claimed_running_tx qw i now d)"
  by (auto simp: mark_claimed_running_tx_def Let_def item_columns
      intro!: keeps_bind_pure update_items_moves split: option.split)

lemma record_wait_moves [moves_intro]:
  "queue_moves d (d\<lparr>wd_sched := record_pending_invoke_agent_wait_reason i reason (wd_sched d)\<rparr>)"
proof -
  have "d\<lparr>wd_sched := record_pending_invoke_agent_wait_reason i reason (wd_sched d)\<rparr>
      = update_items (\<lambda>w. wi_id w = i \<and> wi_status w = ''pending'' \<and> wi_kind w = ''invoke_agent'')
          (\<lambda>w. w\<lparr>wi_last_error := Some reason\<rparr>) d"
    by (simp add: record_pending_invoke_agent_wait_reason_def update_items_def set_items_def)
  then show ?thesis by (auto simp: item_columns intro!: update_items_moves)
qed

lemma release_wait_moves [moves_intro]: "queue_moves d (fst (release_pending_invoke_agent_quota_wait_tx i now d))"
  by (auto simp: release_pending_invoke_agent_quota_wait_tx_def Let_def item_columns intro!: update_items_moves)

lemma update_payload_moves [moves_intro]: "queue_moves d (update_payload_json_tx i payload d)"
  unfolding update_payload_json_tx_def by (rule update_items_moves) (auto simp: item_columns)

subsection \<open>Advances\<close>

lemma advance_scope_moves [moves_intro]:
  "keeps d (requeue_running_advance_by_run_tx qw now run scheduled reason d)"
  "keeps d (cancel_pending_or_running_advance_by_run_tx qw now run fin reason d)"
  unfolding requeue_running_advance_by_run_tx_def cancel_pending_or_running_advance_by_run_tx_def
  by (auto simp: item_columns intro!: keeps_for_rows counted_moves quarantine_moves split: advance_payload_scope.split)

lemma advance_authority_moves [moves_intro]:
  "keeps d (requeue_running_advance_by_retry_authority_tx qw now run authority target scheduled reason d)"
  "keeps d (cancel_pending_or_running_advance_by_retry_authority_tx qw now run authority target fin reason d)"
  unfolding requeue_running_advance_by_retry_authority_tx_def cancel_pending_or_running_advance_by_retry_authority_tx_def
  by (auto simp: item_columns intro!: keeps_for_rows counted_moves quarantine_moves split: advance_authority_match.split)

lemma requeue_by_id_moves [moves_intro]:
  "queue_moves d (fst (requeue_running_advance_work_item_by_id_tx i scheduled reason d))"
  "queue_moves d (fst (requeue_running_steward_analysis_on_startup_tx scheduled reason d))"
  unfolding requeue_running_advance_work_item_by_id_tx_def requeue_running_steward_analysis_on_startup_tx_def
  by (rule counted_moves; simp add: item_columns)+

lemma verified_advance_moves: "keeps d (parse_verified_targeted_advance_payload_tx qw now i raw d)"
  unfolding parse_verified_targeted_advance_payload_tx_def Let_def
  by (auto intro: quarantine_moves split: advance_payload_scope.split sum.split option.split)

lemma targeted_advance_moves [moves_intro]:
  "keeps d (complete_targeted_advance_runs_with_existing_invokes_tx qw now fin reason d)"
  "keeps d (requeue_stale_running_targeted_advance_items_tx qw now before scheduled reason d)"
  unfolding complete_targeted_advance_runs_with_existing_invokes_tx_def
    requeue_stale_running_targeted_advance_items_tx_def
  by (rule keeps_for_rows, rule keeps_bind[OF verified_advance_moves],
      auto simp: item_columns intro!: counted_moves quarantine_moves requeue_by_id_moves split: option.split)+

lemma stale_advance_moves [moves_intro]:
  "keeps d (requeue_stale_running_advance_items_tx qw now before scheduled reason d)"
  unfolding requeue_stale_running_advance_items_tx_def Let_def
  by (rule keeps_for_rows)
    (auto intro: quarantine_moves requeue_by_id_moves split: advance_payload_scope.split sum.split option.split)

subsection \<open>Settlement\<close>

lemma cancel_moves [moves_intro]:
  "queue_moves d (fst (cancel_running_by_run_tx run fin d))"
  "queue_moves d (fst (cancel_pending_or_running_by_stage_tx run stage fin reason d))"
  "queue_moves d (fail_tx i error now d)"
  unfolding cancel_running_by_run_tx_def cancel_pending_or_running_by_stage_tx_def fail_tx_def
  by (rule counted_moves update_items_moves; simp add: item_columns)+

lemma cancel_invoke_moves [moves_intro]:
  "keeps d (cancel_pending_or_running_invoke_by_stage_execution_tx qw run stage_execution fin reason d)"
  unfolding cancel_pending_or_running_invoke_by_stage_execution_tx_def
  by (rule keeps_for_rows) (auto simp: item_columns intro!: counted_moves split: option.split)

lemma contention_moves [moves_intro]:
  "queue_moves d (fst (requeue_attempt_after_transient_persistence_contention qw i now error expected d))"
  unfolding requeue_attempt_after_transient_persistence_contention_def Let_def
  by (auto simp: item_columns intro!: update_items_moves split: option.split)

lemma foreign_authority_moves: "keeps d (foreign_authority now i s stage a d)"
  by (auto simp: foreign_authority_def mark_terminalized_tx_def Let_def queue_moves_def table_refls
      end_authority_def authority_moves_def intro!: authority_rows.table_update split: option.split)

lemma foreign_opt_moves:
  "keeps d (case active of None \<Rightarrow> Inr (d, None) | Some a \<Rightarrow> foreign_authority now i s stage a d)"
  by (simp add: foreign_authority_moves split: option.split)

lemma build_advance_moves: "keeps d (build_post_invoke_advance_payload_tx qw now run reason field i raw d)"
  unfolding build_post_invoke_advance_payload_tx_def Let_def
  by (rule keeps_bind[OF foreign_opt_moves] keeps_bind_pure keeps_if | simp split: prod.split | clarsimp)+

lemma follow_up_moves: "enqueue_follow_up qw now run reason field i raw d = Inr d' \<Longrightarrow> queue_moves d d'"
  by (auto simp: enqueue_follow_up_def split: option.splits
      intro: queue_moves_trans[OF keepsD[OF build_advance_moves] insert_or_ignore_moves])

lemma active_counts_frame:
  "load_active_counts from_str now ws q = Inr (q', x) \<Longrightarrow> qd_agents q' = qd_agents q \<and> qd_facts q' = qd_facts q"
  by (auto simp: load_active_counts_def Let_def mark_elapsed_provider_quota_waits_tx_def ledger_update_def)

lemma refresh_summaries_frame:
  assumes "refresh_queue_summaries_for_notification_tx from_str cap now load_now wait db = Inr (db', x)"
  shows "sd_items db' = sd_items db \<and> qd_agents (sd_quota db') = qd_agents (sd_quota db)
    \<and> qd_facts (sd_quota db') = qd_facts (sd_quota db)"
proof -
  obtain pending q active where "load_active_counts from_str load_now (sd_items db) (sd_quota db) = Inr (q, active)"
      and db': "sd_items db' = sd_items db" "sd_quota db' = q"
    using assms
    by (auto simp: refresh_queue_summaries_for_notification_tx_def Let_def case_prod_beta split: if_splits)
  then show ?thesis using active_counts_frame by simp
qed

lemma refresh_frame:
  assumes "refresh_scheduler qw cap now d = Inr (d', x)"
  shows "items d' = items d" "agents d' = agents d" "claims d' = claims d" "wd_authorities d' = wd_authorities d"
    "facts d' = facts d"
  using assms refresh_summaries_frame by (fastforce simp: refresh_scheduler_def)+

lemma refresh_moves: "keeps d (refresh_scheduler qw cap now d)"
  using refresh_frame by (auto simp: keeps_def intro: queue_moves_frame)

lemma validate_moves:
  "validate_running_invoke_completion_has_valid_outputs_tx qw now i raw d = Inr d' \<Longrightarrow> queue_moves d d'"
  by (auto simp: validate_running_invoke_completion_has_valid_outputs_tx_def Let_def
      intro: set_facts_moves split: if_splits)

lemma keeps_bind_db:
  assumes "\<And>d'. m = Inr d' \<Longrightarrow> queue_moves d d' \<and> keeps d' (f d')"
  shows "keeps d (bind_res m f)"
  using assms by (cases m) (auto intro: keeps_after)

lemma completed_update_moves:
  "queue_moves d (update_items (\<lambda>x. wi_id x = i \<and> wi_status x \<in> open_statuses)
     (\<lambda>x. x\<lparr>wi_status := ''completed'', wi_completed_at := Some now\<rparr>) d)"
  by (rule update_items_moves) (auto simp: item_columns)

lemma failed_update_moves:
  "queue_moves d (update_items (\<lambda>x. wi_id x = i \<and> wi_status x \<in> open_statuses) (failed_item now error) d)"
  by (rule update_items_moves) (auto simp: item_columns)

lemma settled_attempt_moves:
  "queue_moves d (case agent of None \<Rightarrow> d | Some a \<Rightarrow> close_active_claims now i a (settle_agent_on_complete now a d))"
  by (auto intro: queue_moves_trans[OF settle_agent_moves close_claims_moves] split: option.split)

lemma follow_up_refresh_moves:
  assumes "queue_moves d d'"
  shows "keeps d (bind_res (enqueue_follow_up qw now run reason field i raw d') (refresh_scheduler qw cap now))"
  using assms by (intro keeps_bind_db) (blast intro: queue_moves_trans follow_up_moves refresh_moves)

lemma complete_moves [moves_intro]: "keeps d (complete_attempt_with_capacity qw cap now i expected d)"
proof (cases "find_item i d")
  case (Some w)
  let ?invoke = "wi_kind w = ''invoke_agent'' \<and> wi_status w = ''running''"
  have pre: "queue_moves d d1" if "(if ?invoke then validate_running_invoke_completion_has_valid_outputs_tx qw now i
      (wi_payload_json w) d else Inr d) = Inr d1" for d1
    using that validate_moves by (auto split: if_splits)
  show ?thesis
    unfolding complete_attempt_with_capacity_def Let_def Some option.case
    apply (rule keeps_if, simp)+
    apply (rule keeps_bind_db, rule conjI, erule pre)
    apply (rule keeps_after[OF completed_update_moves])
    apply (rule keeps_if, rule follow_up_refresh_moves[OF settled_attempt_moves])
    apply (rule keeps_if, rule refresh_moves, simp)
    done
qed (simp add: complete_attempt_with_capacity_def)

lemma fail_moves [moves_intro]: "keeps d (fail_attempt_with_capacity qw cap now i error expected d)"
proof (cases "find_item i d")
  case (Some w)
  show ?thesis
    unfolding fail_attempt_with_capacity_def Let_def Some option.case
    apply (rule keeps_if, simp, rule keeps_if, simp)
    apply (rule keeps_if, rule follow_up_refresh_moves[OF failed_update_moves])
    apply (simp only: keeps_simps fst_conv failed_update_moves)
    done
qed (simp add: fail_attempt_with_capacity_def)

subsection \<open>Recovery\<close>

lemma running_update_moves:
  assumes "\<And>w. wi_status w = ''running'' \<Longrightarrow> item_moves w (f w)"
  shows "queue_moves d (update_items (running_item i) f d)"
  by (rule update_items_moves) (simp add: running_item_def assms)

lemma requeued_moves: "wi_status w = ''running'' \<Longrightarrow> item_moves w (requeued_invoke payload error w)"
  "wi_status w = ''running'' \<Longrightarrow> item_moves w ((requeued_invoke payload error w)\<lparr>wi_scheduled_at := t\<rparr>)"
  by (simp_all add: item_columns)

lemma preclaimed_moves [moves_intro]:
  "keeps d (requeue_running_preclaimed_invoke_for_stage_tx qw now run stage_execution stage d)"
  unfolding requeue_running_preclaimed_invoke_for_stage_tx_def Let_def
  by (rule keeps_for_rows)
    (auto simp: item_columns intro!: queue_moves_trans[OF supersede_preclaim_moves running_update_moves] split: option.split)

lemma settle_terminal_moves [moves_intro]:
  "keeps d (settle_terminal_preclaimed_invoke_agent_executions qw fallback d)"
  unfolding settle_terminal_preclaimed_invoke_agent_executions_def
    settle_terminal_preclaimed_invoke_agent_executions_tx_def Let_def
  by (auto intro!: keeps_for_rows queue_moves_trans[OF set_agents_moves close_claims_moves]
      simp: agent_moves_def split: option.split)

lemma p080_moves [moves_intro]:
  "queue_moves d (fst (p080_requeue_running_invoke_agent_by_id_tx qw i run stage scheduled reason cls d))"
  unfolding p080_requeue_running_invoke_agent_by_id_tx_def Let_def
  by (auto intro!: queue_moves_trans[OF supersede_preclaim_moves update_items_moves] requeued_moves split: option.split)

lemma record_repair_moves: "record_startup_repair_tx r d = Inr d' \<Longrightarrow> queue_moves d d'"
  by (auto simp: record_startup_repair_tx_def split: if_splits intro!: queue_moves_frame)

lemma notes_moves: "queue_moves d (write_notes i notes d)"
  by (rule queue_moves_frame) (simp_all add: write_notes_def)

lemma replayed_notes_moves: "queue_moves d (write_replayed_notes qw scheduled repair d)"
  by (auto simp: write_replayed_notes_def intro: notes_moves split: option.split json.split)

lemma settle_host_row_moves: "queue_moves d (settle_host_row qw now agent eg d)"
  by (rule queue_moves_frame; cases eg;
      simp add: settle_host_row_def Let_def end_generation_tx_def split: option.split)

lemma fold_moves: "(\<And>x d. queue_moves d (f x d)) \<Longrightarrow> queue_moves d (fold f xs d)"
  by (induction xs arbitrary: d) (auto intro: queue_moves_trans)

lemma settle_host_moves: "queue_moves d (settle_host_cleanup_after_startup_requeue_tx qw item agent now d)"
  by (auto simp: settle_host_cleanup_after_startup_requeue_tx_def intro: fold_moves settle_host_row_moves split: option.split)

lemma startup_update_moves: "queue_moves d (fst (startup_requeue_update qw scheduled reason w p extra d))"
  unfolding startup_requeue_update_def Let_def
  by (auto intro!: queue_moves_trans[OF running_update_moves settle_host_moves] running_update_moves requeued_moves)

text \<open>The statements in the order they are composed.\<close>

lemmas moves_post =
  queue_moves_refl queue_moves_trans[OF _ supersede_preclaim_moves] queue_moves_trans[OF _ supersede_claim_moves]
  queue_moves_trans[OF _ supersede_interrupted_moves] queue_moves_trans[OF _ running_update_moves]
  queue_moves_trans[OF _ notes_moves] queue_moves_trans[OF _ replayed_notes_moves]
  queue_moves_trans[OF _ startup_update_moves] queue_moves_trans[OF _ settle_host_moves]

lemma record_repair_post: "record_startup_repair_tx r d = Inr d' \<Longrightarrow> queue_moves d0 d \<Longrightarrow> queue_moves d0 d'"
  by (rule queue_moves_trans[OF _ record_repair_moves])

lemma failed_item_moves: "wi_status w = ''running'' \<Longrightarrow> item_moves w (failed_item now error w)"
  by (simp add: item_columns)

lemma startup_row_moves: "keeps d (startup_requeue_row qw scheduled reason w d)"
  unfolding startup_requeue_row_def Let_def
  by (auto intro!: keeps_bind_pure moves_post failed_item_moves elim!: record_repair_post
      split: option.split sum.split)

lemma startup_requeue_moves [moves_intro]: "keeps d (requeue_running_invoke_agent_on_startup_tx qw scheduled reason d)"
  unfolding requeue_running_invoke_agent_on_startup_tx_def by (rule keeps_for_rows[OF startup_row_moves])

lemma interrupted_row_moves:
  "queue_moves d (fst (interrupted_row qw run stage scheduled execution n legacy w (d, done)))"
  unfolding interrupted_row_def Let_def
  by (auto intro!: moves_post requeued_moves split: option.split)

lemma fold_fst_moves:
  assumes "\<And>x d ys. queue_moves d (fst (f x (d, ys)))"
  shows "queue_moves d (fst (fold f xs (d, ys)))"
proof (induction xs arbitrary: d ys)
  case (Cons x xs)
  obtain d' ys' where f: "f x (d, ys) = (d', ys')" by (cases "f x (d, ys)")
  then show ?case using assms[of d x ys] Cons.IH[of d' ys'] by (auto intro: queue_moves_trans)
qed simp

lemma host_requeue_moves [moves_intro]:
  "queue_moves d (fst (requeue_host_interrupted_invoke_tx qw run stage_id stage scheduled execution d))"
  unfolding requeue_host_interrupted_invoke_tx_def Let_def by (rule fold_fst_moves[OF interrupted_row_moves])

lemma prompt_close_moves [moves_intro]:
  "keeps d (requeue_running_invoke_agent_after_active_prompt_close_tx qw i key generation scheduled reason d)"
  "keeps d (requeue_running_invoke_agent_after_provider_capacity_wait_tx qw i k scheduled reason d)"
  unfolding requeue_running_invoke_agent_after_active_prompt_close_tx_def
    requeue_running_invoke_agent_after_provider_capacity_wait_tx_def Let_def
  by (auto intro!: keeps_bind_pure moves_post requeued_moves split: option.split)

lemma pre_session_moves [moves_intro]:
  "keeps d (requeue_stale_pre_session_invoke_agents_tx qw scheduled standard xcode reason d)"
  unfolding requeue_stale_pre_session_invoke_agents_tx_def
  by (rule keeps_for_rows)
    (auto simp: pre_session_row_def Let_def counted_update_def
      intro!: keeps_bind_pure moves_post requeued_moves split: option.split)

lemma invalidate_starting_moves: "queue_moves d (invalidate_starting qw scheduled cutoff item s d)"
  by (rule queue_moves_frame) (simp_all add: invalidate_starting_def)

lemma starting_moves [moves_intro]:
  "keeps d (requeue_stale_starting_invoke_agent_sessions_tx qw scheduled standard xcode reason d)"
  unfolding requeue_stale_starting_invoke_agent_sessions_tx_def
  by (rule keeps_for_rows)
    (auto simp: starting_row_def Let_def counted_update_def
      intro!: keeps_bind_pure moves_post queue_moves_trans[OF _ invalidate_starting_moves] requeued_moves
      elim!: record_repair_post split: option.split prod.split)

lemma commit_rows_moves:
  assumes "\<And>r d. keeps d (f r d)"
  shows "queue_moves d (fst (commit_rows f rs d))"
proof (induction rs arbitrary: d)
  case (Cons r rs)
  show ?case
  proof (cases "f r d")
    case (Inr x)
    obtain d' n where "x = (d', n)" by (cases x)
    then have "f r d = Inr (d', n)" "queue_moves d d'" using Inr keepsD[OF assms] by auto
    then show ?thesis using Cons.IH[of d'] by (auto intro: queue_moves_trans split: prod.split)
  qed simp
qed simp

lemma terminal_startup_moves [moves_intro]:
  "queue_moves d (fst (complete_running_invoke_agents_with_terminal_valid_outputs_on_startup qw now d))"
  "queue_moves d (fst (fail_running_invoke_agents_with_terminal_failed_outputs_on_startup qw now reason d))"
  unfolding complete_running_invoke_agents_with_terminal_valid_outputs_on_startup_def
    fail_running_invoke_agents_with_terminal_failed_outputs_on_startup_def
  by (rule commit_rows_moves, rule complete_moves fail_moves)+

section \<open>Runs\<close>

text \<open>
  The transactions of the repository, one step each, and every other transaction of the program that
  leaves the table of items alone.
\<close>

inductive queue_step :: "work_db \<Rightarrow> work_db \<Rightarrow> bool" where
  enqueued: "enqueue_tx w d = Inr d' \<Longrightarrow> queue_step d d'"
| claimed: "claim_next_where qw now kinds d = Inr (d', r) \<Longrightarrow> queue_step d d'"
| marked: "mark_claimed_running_tx qw i now d = Inr (d', x) \<Longrightarrow> queue_step d d'"
| quarantined: "queue_step d (quarantine_advance_work_item_tx now i c d)"
| released: "queue_step d (fst (release_pending_invoke_agent_quota_wait_tx i now d))"
| waiting: "queue_step d (d\<lparr>wd_sched := record_pending_invoke_agent_wait_reason i reason (wd_sched d)\<rparr>)"
| payload: "queue_step d (update_payload_json_tx i payload d)"
| run_requeued: "requeue_running_advance_by_run_tx qw now run t reason d = Inr (d', n) \<Longrightarrow> queue_step d d'"
| run_cancelled: "cancel_pending_or_running_advance_by_run_tx qw now run t reason d = Inr (d', n) \<Longrightarrow> queue_step d d'"
| authority_requeued:
    "requeue_running_advance_by_retry_authority_tx qw now run a s t reason d = Inr (d', n) \<Longrightarrow> queue_step d d'"
| authority_cancelled:
    "cancel_pending_or_running_advance_by_retry_authority_tx qw now run a s t reason d = Inr (d', n) \<Longrightarrow> queue_step d d'"
| advance_requeued: "queue_step d (fst (requeue_running_advance_work_item_by_id_tx i t reason d))"
| steward_requeued: "queue_step d (fst (requeue_running_steward_analysis_on_startup_tx t reason d))"
| targeted_completed:
    "complete_targeted_advance_runs_with_existing_invokes_tx qw now t reason d = Inr (d', n) \<Longrightarrow> queue_step d d'"
| stale_targeted: "requeue_stale_running_targeted_advance_items_tx qw now b t reason d = Inr (d', n) \<Longrightarrow> queue_step d d'"
| stale: "requeue_stale_running_advance_items_tx qw now b t reason d = Inr (d', n) \<Longrightarrow> queue_step d d'"
| cancelled_run: "queue_step d (fst (cancel_running_by_run_tx run t d))"
| cancelled_stage: "queue_step d (fst (cancel_pending_or_running_by_stage_tx run stage t reason d))"
| cancelled_invokes:
    "cancel_pending_or_running_invoke_by_stage_execution_tx qw run s t reason d = Inr (d', n) \<Longrightarrow> queue_step d d'"
| failed_item: "queue_step d (fail_tx i error now d)"
| contention: "queue_step d (fst (requeue_attempt_after_transient_persistence_contention qw i now error a d))"
| completed: "complete_attempt_with_capacity qw cap now i a d = Inr (d', x) \<Longrightarrow> queue_step d d'"
| failed: "fail_attempt_with_capacity qw cap now i error a d = Inr (d', x) \<Longrightarrow> queue_step d d'"
| preclaimed: "requeue_running_preclaimed_invoke_for_stage_tx qw now run s stage d = Inr (d', n) \<Longrightarrow> queue_step d d'"
| terminal: "settle_terminal_preclaimed_invoke_agent_executions qw t d = Inr (d', n) \<Longrightarrow> queue_step d d'"
| reconciled: "queue_step d (fst (p080_requeue_running_invoke_agent_by_id_tx qw i run stage t reason c d))"
| restarted: "requeue_running_invoke_agent_on_startup_tx qw t reason d = Inr (d', n) \<Longrightarrow> queue_step d d'"
| interrupted: "queue_step d (fst (requeue_host_interrupted_invoke_tx qw run stage s t e d))"
| prompt_closed:
    "requeue_running_invoke_agent_after_active_prompt_close_tx qw i key g t reason d = Inr (d', b) \<Longrightarrow> queue_step d d'"
| capacity_waited:
    "requeue_running_invoke_agent_after_provider_capacity_wait_tx qw i k t reason d = Inr (d', b) \<Longrightarrow> queue_step d d'"
| stalled: "requeue_stale_pre_session_invoke_agents_tx qw t s x reason d = Inr (d', n) \<Longrightarrow> queue_step d d'"
| starting: "requeue_stale_starting_invoke_agent_sessions_tx qw t s x reason d = Inr (d', n) \<Longrightarrow> queue_step d d'"
| found_complete: "queue_step d (fst (complete_running_invoke_agents_with_terminal_valid_outputs_on_startup qw now d))"
| found_failed: "queue_step d (fst (fail_running_invoke_agents_with_terminal_failed_outputs_on_startup qw now reason d))"

inductive system_step :: "work_db \<Rightarrow> work_db \<Rightarrow> bool" where
  queue: "queue_step d d' \<Longrightarrow> system_step d d'"
| elsewhere: "items d' = items d \<Longrightarrow> system_step d d'"

lemma queue_step_moves: "queue_step d d' \<Longrightarrow> queue_moves d d'"
  by (induction rule: queue_step.induct)
    ((rule moves_intro | erule enqueue_moves | (rule keepsD[rotated], assumption, rule moves_intro))+)

text \<open>The items alone move along every step of the program.\<close>

definition queue_inv :: "work_db \<Rightarrow> bool" where
  "queue_inv d \<longleftrightarrow> distinct (map wi_id (items d))"

interpretation work_queue: guarded_system "\<lambda>d. items d = []" system_step queue_inv
proof
  show "queue_inv d'" if "queue_inv d" "system_step d d'" for d d'
    using that(2,1) by cases (auto simp: queue_inv_def queue_moves_def dest: queue_step_moves)
qed (simp add: queue_inv_def)

lemma system_run_moves:
  assumes "queue_inv d" "system_step\<^sup>*\<^sup>* d d'"
  shows "table_moves item_moves (items d) (items d')"
proof (rule work_queue.run_relation[OF assms, where R = "\<lambda>d d'. table_moves item_moves (items d) (items d')"])
  show "table_moves item_moves (items u) (items v)" if "system_step u v" for u v
    using that by cases (auto simp: queue_moves_def item_rows.table_refl dest: queue_step_moves)
qed (auto intro: item_rows.table_refl item_rows.table_trans)

text \<open>
  C6: An outcome is final. In every database the transactions of the repository reach, interleaved with any
  that leave the table of items alone, a work item that was completed, failed or cancelled is never taken up
  again: after any further interleaving there is exactly one item under its identifier, of the same kind, run
  and stage, with the outcome, the error and the number of attempts it ended with. (The one writer of the
  program that is exempt is the startup repair of \<^verbatim>\<open>engine/src/recovery.rs\<close> that completes advances which failed
  on a target that was terminal.)
\<close>

theorem terminal_items_are_final:
  assumes "reachable_from (\<lambda>d. items d = []) system_step d" and "system_step\<^sup>*\<^sup>* d d'"
    and "w \<in> set (items d)" and "wi_status w \<notin> {''pending'', ''running''}"
  shows "\<exists>w'. filter (\<lambda>x. wi_id x = wi_id w) (items d') = [w'] \<and> wi_kind w' = wi_kind w
      \<and> wi_run_id w' = wi_run_id w \<and> wi_stage_id w' = wi_stage_id w \<and> wi_status w' = wi_status w
      \<and> wi_completed_at w' = wi_completed_at w \<and> wi_failed_at w' = wi_failed_at w
      \<and> wi_last_error w' = wi_last_error w \<and> wi_attempt_count w' = wi_attempt_count w"
proof -
  have inv: "queue_inv d" "queue_inv d'"
    using work_queue.reachable_inv[OF assms(1)] work_queue.run_inv assms(2) by blast+
  obtain w' where w': "w' \<in> set (items d')" "item_moves w w'"
    using table_moves_mem[OF system_run_moves[OF inv(1) assms(2)] assms(3)] by blast
  then have "filter (\<lambda>x. wi_id x = wi_id w) (items d') = [w']"
    using key_filter[of wi_id "items d'" w'] inv(2) by (simp add: queue_inv_def item_moves_def)
  then show ?thesis using w'(2) assms(4) by (auto simp: item_moves_def)
qed

definition empty_queue :: work_db where
  "empty_queue =
     \<lparr>wd_sched = \<lparr>sd_quota = \<lparr>qd_ledger = [], qd_agents = [], qd_runs = [], qd_stages = [], qd_facts = []\<rparr>,
        sd_items = [], sd_summaries = [], sd_snapshots = [], sd_observations = [], sd_last_served = (\<lambda>_. None)\<rparr>,
      wd_store = \<lparr>as_generations = [], as_active = [], as_claims = [], as_overrides = [], as_closeout = []\<rparr>,
      wd_authorities = [], wd_diagnostics = [], wd_host = [], wd_fences = [], wd_mediations = [],
      wd_continuations = [], wd_repairs = [], wd_journal = [], wd_sessions = [], wd_session_events = []\<rparr>"

definition sample_item :: "ident \<Rightarrow> string \<Rightarrow> string \<Rightarrow> work_item_row" where
  "sample_item i kind payload =
     \<lparr>wi_id = i, wi_kind = kind, wi_payload_json = payload, wi_status = ''pending'', wi_run_id = Some ''run'',
      wi_stage_id = None, wi_created_at = 0, wi_scheduled_at = 0, wi_started_at = None, wi_completed_at = None,
      wi_failed_at = None, wi_attempt_count = 0, wi_last_error = None, wi_worktree_resource_key = None\<rparr>"

theorem terminal_items_are_final_witness:
  "let d1 = set_items [sample_item ''w'' ''settle_stage'' []] empty_queue;
       d = fail_tx ''w'' ''broken'' 7 d1
   in \<exists>w'. filter (\<lambda>x. wi_id x = ''w'') (items (fst (cancel_running_by_run_tx ''run'' 9 d))) = [w']
        \<and> wi_status w' = ''failed'' \<and> wi_failed_at w' = Some 7"
proof -
  let ?w = "sample_item ''w'' ''settle_stage'' []"
  let ?d1 = "set_items [?w] empty_queue"
  let ?d = "fail_tx ''w'' ''broken'' 7 ?d1"
  have "enqueue_tx ?w empty_queue = Inr ?d1" by (simp add: enqueue_tx_def empty_queue_def set_items_def)
  then have "system_step empty_queue ?d1" by (intro system_step.queue queue_step.enqueued)
  moreover have "system_step ?d1 ?d" by (intro system_step.queue queue_step.failed_item)
  moreover have "items empty_queue = []" by (simp add: empty_queue_def)
  ultimately have "reachable_from (\<lambda>d. items d = []) system_step ?d" by (meson reachable_from.intros)
  moreover have "system_step\<^sup>*\<^sup>* ?d (fst (cancel_running_by_run_tx ''run'' 9 ?d))"
    by (intro r_into_rtranclp system_step.queue queue_step.cancelled_run)
  moreover have "items ?d = [failed_item 7 ''broken'' ?w]"
    by (simp add: fail_tx_def sql_update_def sample_item_def)
  ultimately show ?thesis
    using terminal_items_are_final[of ?d "fst (cancel_running_by_run_tx ''run'' 9 ?d)" "failed_item 7 ''broken'' ?w"]
    by (auto simp: failed_item_def sample_item_def)
qed

end
