(* ===== verification/Work_Claim_Properties.thy ===== *)
theory Work_Claim_Properties
  imports Work_Queue_Properties
begin

text \<open>
  The claim of the work queue serves the items in the order of their due time and their insertion: its
  loop with a cursor finds the same item as one search through the candidates, and always ends with an
  answer.
\<close>

section \<open>The candidates\<close>

definition claim_order :: "nat \<times> work_item_row \<Rightarrow> datetime \<times> nat" where
  "claim_order = (\<lambda>(n, w). (wi_scheduled_at w, n))"

definition candidate :: "datetime \<Rightarrow> (string \<Rightarrow> bool) \<Rightarrow> work_item_row \<Rightarrow> bool" where
  "candidate now kinds w \<longleftrightarrow> wi_status w = ''pending'' \<and> is_due now w \<and> kinds (wi_kind w)"

lemma after_cursor_order: "after_cursor (Some c) x \<longleftrightarrow> c < claim_order x"
  by (cases c; cases x) (auto simp: claim_order_def)

lemma claim_candidates_alt:
  "claim_candidates now kinds cursor d =
     sort_key claim_order (filter (\<lambda>x. candidate now kinds (snd x) \<and> after_cursor cursor x) (enumerate 0 (items d)))"
  by (simp add: claim_candidates_def claim_order_def candidate_def case_prod_beta' conj_ac)

lemma enumerate_upt: "enumerate 0 xs = map (\<lambda>i. (i, xs ! i)) [0..<length xs]"
  by (rule nth_equalityI) (simp_all add: nth_enumerate_eq)

lemma filter_enumerate_cong:
  assumes "length ys = length xs"
    and "\<And>i. i < length xs \<Longrightarrow> P (i, ys ! i) = P (i, xs ! i)"
    and "\<And>i. i < length xs \<Longrightarrow> P (i, xs ! i) \<Longrightarrow> ys ! i = xs ! i"
  shows "filter P (enumerate 0 ys) = filter P (enumerate 0 xs)"
proof -
  have "filter (\<lambda>i. P (i, ys ! i)) [0..<length xs] = filter (\<lambda>i. P (i, xs ! i)) [0..<length xs]"
    by (rule filter_cong) (simp_all add: assms(2))
  then show ?thesis
    unfolding enumerate_upt filter_map comp_def assms(1) by (simp add: assms(3))
qed

lemma claim_candidates_sorted: "sorted_wrt (\<lambda>x y. claim_order x < claim_order y) (claim_candidates now kinds cursor d)"
proof -
  let ?l = "filter (\<lambda>x. candidate now kinds (snd x) \<and> after_cursor cursor x) (enumerate 0 (items d))"
  have "inj_on claim_order (set ?l)" by (auto simp: inj_on_def claim_order_def enumerate_upt)
  moreover have "distinct ?l" by (simp add: distinct_enumerate)
  ultimately have "distinct (map claim_order (sort_key claim_order ?l))"
    by (simp add: distinct_map)
  then show ?thesis
    unfolding claim_candidates_alt sorted_wrt_map[symmetric]
    by (simp add: strict_sorted_iff)
qed

text \<open>Behind the cursor are the other candidates, also after the row at the cursor changed.\<close>

lemma claim_candidates_next:
  assumes "claim_candidates now kinds cursor d = (n, w) # rest"
    and "length (items d') = length (items d)"
    and "\<And>i. i < length (items d) \<Longrightarrow> i \<noteq> n \<Longrightarrow> items d' ! i = items d ! i"
    and "wi_scheduled_at (items d' ! n) = wi_scheduled_at w"
  shows "claim_candidates now kinds (Some (wi_scheduled_at w, n)) d' = rest"
proof -
  let ?c = "claim_order (n, w)"
  let ?Q = "\<lambda>x. candidate now kinds (snd x)"
  have nw: "(n, w) \<in> set (claim_candidates now kinds cursor d)" using assms(1) by simp
  then have n: "n < length (items d)" "items d ! n = w" "after_cursor cursor (n, w)"
    by (auto simp: claim_candidates_alt enumerate_upt)
  have c: "?c = (wi_scheduled_at w, n)" by (simp add: claim_order_def)
  have after: "after_cursor cursor x" if "?c < claim_order x" for x
  proof (cases cursor)
    case None
    then show ?thesis by (cases x) simp
  next
    case (Some k)
    then show ?thesis using that n(3) by (auto simp: after_cursor_order intro: less_trans)
  qed
  have "claim_candidates now kinds (Some ?c) d'
      = sort_key claim_order (filter (\<lambda>x. ?Q x \<and> ?c < claim_order x) (enumerate 0 (items d')))"
    by (simp add: claim_candidates_alt after_cursor_order)
  also have "filter (\<lambda>x. ?Q x \<and> ?c < claim_order x) (enumerate 0 (items d'))
      = filter (\<lambda>x. ?Q x \<and> ?c < claim_order x) (enumerate 0 (items d))"
  proof (rule filter_enumerate_cong[OF assms(2)])
    show "(?Q (i, items d' ! i) \<and> ?c < claim_order (i, items d' ! i))
        = (?Q (i, items d ! i) \<and> ?c < claim_order (i, items d ! i))" if "i < length (items d)" for i
      using assms(3)[OF that] assms(4) n(2) by (cases "i = n") (auto simp: claim_order_def)
    show "items d' ! i = items d ! i" if "i < length (items d)" "?Q (i, items d ! i) \<and> ?c < claim_order (i, items d ! i)" for i
      using assms(3)[OF that(1)] that(2) n(2) by (cases "i = n") (auto simp: claim_order_def)
  qed
  also have "sort_key claim_order \<dots> = filter (\<lambda>x. ?c < claim_order x) (claim_candidates now kinds cursor d)"
    unfolding claim_candidates_alt filter_sort filter_filter
    by (rule arg_cong[of _ _ "sort_key claim_order"], rule filter_cong) (auto dest: after)
  also have "\<dots> = rest"
    using claim_candidates_sorted[of now kinds cursor d] assms(1) by (auto simp: filter_id_conv)
  finally show ?thesis using c by simp
qed

section \<open>One turn\<close>

definition malformed_advance :: "queue_world \<Rightarrow> work_item_row \<Rightarrow> bool" where
  "malformed_advance qw w \<longleftrightarrow>
     wi_kind w = ''advance_run''
     \<and> (case classify_advance_payload_scope qw (wi_payload_json w) of MalformedScope _ \<Rightarrow> True | _ \<Rightarrow> False)"

abbreviation claimed_at :: "datetime \<Rightarrow> work_item_row \<Rightarrow> work_item_row" where
  "claimed_at now w \<equiv> claimed_item (indexable_due_timestamp now * 1000) w"

definition claimable :: "queue_world \<Rightarrow> datetime \<Rightarrow> work_db \<Rightarrow> work_item_row \<Rightarrow> bool" where
  "claimable qw now d w \<longleftrightarrow> \<not> malformed_advance qw w \<and> \<not> qw_fenced qw d w (claimed_at now w)"

text \<open>
  The guard trigger on an update of an item reads the old and the new row and, through the views
  \<^verbatim>\<open>p039_run_resources\<close> and \<^verbatim>\<open>p039_run_resource_peers\<close> of the carry-forward migration, of the other items the run,
  the payload (the run it names) and the worktree they occupy. It does not read their status, their times,
  their errors or their attempts.
\<close>

definition resource_columns :: "work_item_row \<Rightarrow> ident option \<times> string \<times> string option" where
  "resource_columns w = (wi_run_id w, wi_payload_json w, wi_worktree_resource_key w)"

definition fence_reads_resources :: "queue_world \<Rightarrow> bool" where
  "fence_reads_resources qw \<longleftrightarrow>
     (\<forall>ws d w w'. map resource_columns ws = map resource_columns (items d) \<longrightarrow>
        qw_fenced qw (set_items ws d) w w' = qw_fenced qw d w w')"

definition row_changed :: "nat \<Rightarrow> work_db \<Rightarrow> work_db \<Rightarrow> bool" where
  "row_changed n d d' \<longleftrightarrow>
     d' = set_items (items d') d \<and> map wi_id (items d') = map wi_id (items d)
     \<and> map resource_columns (items d') = map resource_columns (items d)
     \<and> (\<forall>i < length (items d). i \<noteq> n \<longrightarrow> items d' ! i = items d ! i)
     \<and> wi_scheduled_at (items d' ! n) = wi_scheduled_at (items d ! n)"

lemma row_changed_fence:
  assumes "fence_reads_resources qw" "row_changed n d d'"
  shows "qw_fenced qw d' w w' = qw_fenced qw d w w'"
proof -
  have "d' = set_items (items d') d" "map resource_columns (items d') = map resource_columns (items d)"
    using assms(2) unfolding row_changed_def by blast+
  then show ?thesis using assms(1) unfolding fence_reads_resources_def by (metis (no_types))
qed

lemma keyed_update_row:
  assumes "queue_inv d" "n < length (items d)" "\<And>x. P x \<Longrightarrow> wi_id x = wi_id (items d ! n)"
    and "\<And>x. wi_scheduled_at (f x) = wi_scheduled_at x" "\<And>x. wi_id (f x) = wi_id x"
    and "\<And>x. resource_columns (f x) = resource_columns x"
  shows "row_changed n d (update_items P f d)"
proof -
  have "i = n" if "i < length (items d)" "P (items d ! i)" for i
    using assms(1,2) assms(3)[OF that(2)] that(1) by (auto simp: queue_inv_def distinct_conv_nth)
  then have "sql_update P f (items d) ! i = items d ! i" if "i < length (items d)" "i \<noteq> n" for i
    using that by (auto simp: sql_update_def)
  moreover have "update_items P f d = set_items (sql_update P f (items d)) d" by (simp add: update_items_def)
  ultimately show ?thesis
    using assms(2,4-6) by (auto simp: row_changed_def sql_update_def)
qed

lemma row_unchanged: "row_changed n d d"
  by (simp add: row_changed_def)

lemma pending_hit:
  assumes "queue_inv d" "n < length (items d)" "wi_status (items d ! n) = ''pending''"
  shows "items_hit (\<lambda>x. wi_id x = wi_id (items d ! n) \<and> wi_status x = ''pending'') d = 1"
proof -
  have "filter (\<lambda>x. wi_id x = wi_id (items d ! n)) (items d) = [items d ! n]"
    using assms(1,2) by (intro key_filter) (simp_all add: queue_inv_def)
  then have "filter (\<lambda>x. wi_status x = ''pending'') (filter (\<lambda>x. wi_id x = wi_id (items d ! n)) (items d)) = [items d ! n]"
    using assms(3) by simp
  then show ?thesis by (simp add: items_hit_def rows_affected_def conj_commute)
qed

lemma claim_turn_row:
  assumes "queue_inv d" "n < length (items d)" "w = items d ! n" "wi_status w = ''pending''"
  shows "\<exists>d'. claim_turn qw now w d = Inr (d', claimable qw now d w) \<and> row_changed n d d'
    \<and> (claimable qw now d w \<longrightarrow> items d' ! n = claimed_at now w)"
proof (cases "malformed_advance qw w")
  case True
  then obtain c where c: "wi_kind w = ''advance_run''" "classify_advance_payload_scope qw (wi_payload_json w) = MalformedScope c"
    by (auto simp: malformed_advance_def split: advance_payload_scope.splits)
  have "row_changed n d (quarantine_advance_work_item_tx now (wi_id w) c d)"
    unfolding quarantine_advance_work_item_tx_def assms(3)
    by (rule keyed_update_row[OF assms(1,2)]) (auto simp: quarantinable_def failed_item_def resource_columns_def)
  then show ?thesis using c True row_unchanged by (simp add: claim_turn_def claimable_def)
next
  case False
  then have none: "(if wi_kind w \<noteq> ''advance_run'' then None
      else case classify_advance_payload_scope qw (wi_payload_json w) of MalformedScope c \<Rightarrow> Some c | _ \<Rightarrow> None) = None"
    by (auto simp: malformed_advance_def split: advance_payload_scope.splits)
  have q: "row_changed n d (fst (quarantine_unowned_fenced_work_item_tx qw now (wi_id w) d))"
    unfolding quarantine_unowned_fenced_work_item_tx_def Let_def
    by (auto simp: row_unchanged assms(3) failed_item_def resource_columns_def intro!: keyed_update_row[OF assms(1,2)])
  have u: "row_changed n d (update_items (\<lambda>x. wi_id x = wi_id w \<and> wi_status x = ''pending'') (claimed_item t) d)" for t
    unfolding assms(3) by (rule keyed_update_row[OF assms(1,2)]) (auto simp: claimed_item_def resource_columns_def)
  have hit: "items_hit (\<lambda>x. wi_id x = wi_id w \<and> wi_status x = ''pending'') d = 1"
    using pending_hit[OF assms(1,2)] assms(3,4) by simp
  have "sql_update (\<lambda>x. wi_id x = wi_id w \<and> wi_status x = ''pending'') f (items d) ! n = f w" for f
    using assms(2-4) by (simp add: sql_update_def)
  then show ?thesis
    unfolding claim_turn_def Let_def none option.case hit
    using False q u by (auto simp: claimable_def)
qed

section \<open>The loop\<close>

text \<open>What the loop finds from a cursor on: the first claimable candidate, with the rows behind it untouched.\<close>

definition serves ::
  "queue_world \<Rightarrow> datetime \<Rightarrow> work_db \<Rightarrow> (nat \<times> work_item_row) list \<Rightarrow> (string, work_db \<times> work_item_row option) result \<Rightarrow> bool" where
  "serves qw now d cs r \<longleftrightarrow>
     (\<exists>d'. r = Inr (d', None) \<and> list_all (\<lambda>(n, w). \<not> claimable qw now d w) cs)
     \<or> (\<exists>d' pre n w post. r = Inr (d', Some w) \<and> cs = pre @ (n, w) # post
          \<and> list_all (\<lambda>(n, w). \<not> claimable qw now d w) pre \<and> claimable qw now d w
          \<and> items d' ! n = claimed_at now w \<and> list_all (\<lambda>(m, x). items d' ! m = x) post)"

lemma serves_skip:
  assumes "\<not> claimable qw now d w" "serves qw now d cs r"
  shows "serves qw now d ((n, w) # cs) r"
  using assms(2) unfolding serves_def
proof (elim disjE exE conjE)
  fix d' pre m x post
  assume "r = Inr (d', Some x)" "cs = pre @ (m, x) # post" "list_all (\<lambda>(n, w). \<not> claimable qw now d w) pre"
    "claimable qw now d x" "items d' ! m = claimed_at now x" "list_all (\<lambda>(m, x). items d' ! m = x) post"
  with assms(1) show "(\<exists>d'. r = Inr (d', None) \<and> list_all (\<lambda>(n, w). \<not> claimable qw now d w) ((n, w) # cs))
     \<or> (\<exists>d' pre n' w' post. r = Inr (d', Some w') \<and> (n, w) # cs = pre @ (n', w') # post
          \<and> list_all (\<lambda>(n, w). \<not> claimable qw now d w) pre \<and> claimable qw now d w'
          \<and> items d' ! n' = claimed_at now w' \<and> list_all (\<lambda>(m, x). items d' ! m = x) post)"
    by (intro disjI2 exI[of _ d'] exI[of _ "(n, w) # pre"] exI[of _ m] exI[of _ x] exI[of _ post]) simp
qed (use assms(1) in auto)

lemma candidates_nth:
  assumes "(n, w) \<in> set (claim_candidates now kinds cursor d)"
  shows "n < length (items d)" "items d ! n = w" "wi_status w = ''pending''"
  using assms by (auto simp: claim_candidates_alt enumerate_upt candidate_def)

lemma claim_loop_serves:
  assumes "fence_reads_resources qw" "queue_inv d"
  shows "serves qw now d (claim_candidates now kinds cursor d) (claim_loop qw now kinds cursor d)"
  using assms
proof (induction "length (claim_candidates now kinds cursor d)" arbitrary: cursor d)
  case 0
  then show ?case by (simp add: serves_def claim_loop.simps)
next
  case (Suc k)
  obtain n w rest where cs: "claim_candidates now kinds cursor d = (n, w) # rest"
    using Suc.hyps(2) by (metis length_Suc_conv surj_pair)
  have n: "n < length (items d)" "items d ! n = w" "wi_status w = ''pending''"
    using candidates_nth[of n w now kinds cursor d] cs by simp_all
  obtain d' where t: "claim_turn qw now w d = Inr (d', claimable qw now d w)" and ch: "row_changed n d d'"
      and cl: "claimable qw now d w \<longrightarrow> items d' ! n = claimed_at now w"
    using claim_turn_row[OF Suc.prems(2) n(1) n(2)[symmetric] n(3)] by blast
  note loop = claim_loop_unfold[OF cs t]
  have len: "length (items d') = length (items d)" using ch by (metis row_changed_def length_map)
  show ?case
  proof (cases "claimable qw now d w")
    case True
    have "items d' ! m = x" if "(m, x) \<in> set rest" for m x
    proof -
      have "m < length (items d)" "items d ! m = x" using candidates_nth[of m x now kinds cursor d] that cs by simp_all
      moreover have "m \<noteq> n"
        using claim_candidates_sorted[of now kinds cursor d] cs that n(2) calculation
        by (auto simp: claim_order_def)
      ultimately show ?thesis using ch by (simp add: row_changed_def)
    qed
    then have "list_all (\<lambda>(m, x). items d' ! m = x) rest" by (auto simp: list_all_iff)
    then show ?thesis
      unfolding serves_def loop cs using True cl
      by (intro disjI2 exI[of _ d'] exI[of _ "[]"] exI[of _ n] exI[of _ w] exI[of _ rest]) simp
  next
    case False
    have next_cs: "claim_candidates now kinds (Some (wi_scheduled_at w, n)) d' = rest"
      using claim_candidates_next[OF cs len] ch n(2) by (simp add: row_changed_def)
    have same: "claimable qw now d' x = claimable qw now d x" for x
      using row_changed_fence[OF Suc.prems(1) ch] by (simp add: claimable_def)
    have "queue_inv d'" using Suc.prems(2) ch by (simp add: queue_inv_def row_changed_def)
    then have "serves qw now d' rest (claim_loop qw now kinds (Some (wi_scheduled_at w, n)) d')"
      using Suc.hyps(1)[of "Some (wi_scheduled_at w, n)" d'] Suc.hyps(2) cs next_cs Suc.prems(1) by simp
    then have "serves qw now d rest (claim_loop qw now kinds (Some (wi_scheduled_at w, n)) d')"
      by (simp add: serves_def same)
    then show ?thesis using serves_skip False unfolding cs loop by simp
  qed
qed

text \<open>
  C17: The claim is first come, first served, and complete. When the guard trigger reads of the items no more than
  their run, payload and worktree, a claim on a queue with unique identifiers always ends with an answer: the first
  claimable item in the order of due time and insertion, marked running with one attempt more, while every candidate
  behind it keeps its row; or nothing, and then no due item could have been claimed. Only malformed advances and
  fenced items are passed over.
\<close>

theorem claim_serves_in_order:
  assumes "fence_reads_resources qw" and "distinct (map wi_id (items d))"
  shows "(\<exists>d'. claim_next_where qw now kinds d = Inr (d', Inr None)
           \<and> list_all (\<lambda>(n, w). \<not> claimable qw now d w) (claim_candidates now kinds None d))
    \<or> (\<exists>d' pre n w post. claim_candidates now kinds None d = pre @ (n, w) # post
         \<and> claim_next_where qw now kinds d = Inr (d', bind_res (parse_work_item_row qw
             (w\<lparr>wi_status := ''running'', wi_attempt_count := wi_attempt_count w + 1\<rparr>)) (\<lambda>x. Inr (Some x)))
         \<and> list_all (\<lambda>(n, w). \<not> claimable qw now d w) pre \<and> claimable qw now d w
         \<and> items d' ! n = claimed_at now w \<and> list_all (\<lambda>(m, x). items d' ! m = x) post)"
proof -
  have "serves qw now d (claim_candidates now kinds None d) (claim_loop qw now kinds None d)"
    using assms by (intro claim_loop_serves) (simp_all add: queue_inv_def)
  then show ?thesis unfolding serves_def claim_next_where_def by fastforce
qed

text \<open>
  A world whose fence reads the items: an update is denied when a fenced run occupies the worktree of the
  row. In the queue below the first item shares its worktree with an item of the fenced run.
\<close>

definition fenced_world :: queue_world where
  "fenced_world = \<lparr>qw_from_str = (\<lambda>s. None), qw_to_string = (\<lambda>j. []), qw_rfc3339 = (\<lambda>t. []), qw_uuid = Some,
     qw_fenced = (\<lambda>d w w'. wi_worktree_resource_key w' \<noteq> None
       \<and> list_ex (\<lambda>x. wi_worktree_resource_key x = wi_worktree_resource_key w'
            \<and> wi_run_id x \<in> Some ` set (wd_fences d)) (items d)), qw_later = (\<lambda>t. t + 1)\<rparr>"

definition sharing_queue :: work_db where
  "sharing_queue =
     (set_items
       [(sample_item ''a'' ''settle_stage'' [])\<lparr>wi_worktree_resource_key := Some ''tree''\<rparr>,
        sample_item ''b'' ''settle_stage'' [],
        (sample_item ''c'' ''settle_stage'' [])\<lparr>wi_run_id := Some ''old'', wi_status := ''completed'',
           wi_worktree_resource_key := Some ''tree''\<rparr>] empty_queue)\<lparr>wd_fences := [''old'']\<rparr>"

lemma fenced_world_reads_resources: "fence_reads_resources fenced_world"
proof -
  have ex: "list_ex (\<lambda>x. P (wi_run_id x) (wi_worktree_resource_key x)) ws
      = list_ex (\<lambda>(r, p, k). P r k) (map resource_columns ws)" for P and ws :: "work_item_row list"
    by (induction ws) (simp_all add: resource_columns_def)
  have fences: "wd_fences (set_items ws d) = wd_fences d" for ws d by (simp add: set_items_def)
  show ?thesis
    unfolding fence_reads_resources_def
  proof (intro allI impI)
    fix ws d w w'
    assume "map resource_columns ws = map resource_columns (items d)"
    then show "qw_fenced fenced_world (set_items ws d) w w' = qw_fenced fenced_world d w w'"
      using ex[of "\<lambda>r k. k = wi_worktree_resource_key w' \<and> r \<in> Some ` set (wd_fences d)" ws]
        ex[of "\<lambda>r k. k = wi_worktree_resource_key w' \<and> r \<in> Some ` set (wd_fences d)" "items d"]
      by (simp add: fenced_world_def fences)
  qed
qed

theorem claim_serves_in_order_witness:
  "\<exists>d' x. claim_next_where fenced_world 5000 (\<lambda>k. True) sharing_queue = Inr (d', Inr (Some x))
     \<and> wi_status (items d' ! 1) = ''running'' \<and> \<not> claimable fenced_world 5000 sharing_queue (items sharing_queue ! 0)"
proof -
  let ?a = "items sharing_queue ! 0" and ?b = "items sharing_queue ! 1"
  have d: "distinct (map wi_id (items sharing_queue))" by code_simp
  have c: "claim_candidates 5000 (\<lambda>k. True) None sharing_queue = [(0, ?a), (1, ?b)]" by code_simp
  have a: "\<not> claimable fenced_world 5000 sharing_queue ?a" and b: "claimable fenced_world 5000 sharing_queue ?b"
    by code_simp+
  have p: "\<exists>x. parse_work_item_row fenced_world (?b\<lparr>wi_status := ''running'', wi_attempt_count := n\<rparr>) = Inr x" for n
    by (simp add: sharing_queue_def parse_work_item_row_def sample_item_def parse_work_item_kind_def
        parse_work_item_status_def fenced_world_def)
  from claim_serves_in_order[OF fenced_world_reads_resources d, of 5000 "\<lambda>k. True"]
  obtain d' where "claim_next_where fenced_world 5000 (\<lambda>k. True) sharing_queue = Inr (d', bind_res
      (parse_work_item_row fenced_world (?b\<lparr>wi_status := ''running'', wi_attempt_count := wi_attempt_count ?b + 1\<rparr>))
      (\<lambda>x. Inr (Some x)))" "items d' ! 1 = claimed_at 5000 ?b"
    using a b unfolding c by (auto simp: Cons_eq_append_conv)
  then show ?thesis using p[of "wi_attempt_count ?b + 1"] a by (auto simp: claimed_item_def)
qed

end
