(* ===== verification/Work_Settlement_Properties.thy ===== *)
theory Work_Settlement_Properties
  imports Work_Queue_Properties
begin

text \<open>
  What the settlement of an attempt promises: a completed invocation has proved outputs and leaves nothing
  open behind it, and the attempt of a cancelled execution never settles anything.
\<close>

section \<open>What a settlement leaves alone\<close>

lemma find_item_key:
  assumes "queue_inv d" "w \<in> set (items d)"
  shows "find_item (wi_id w) d = Some w"
  using key_filter[of wi_id "items d" w] assms by (simp add: find_item_def queue_inv_def fetch_optional_def)

lemma foreign_authority_frame:
  "foreign_authority now i s stage a d = Inr (d', x) \<Longrightarrow> d' = d\<lparr>wd_authorities := wd_authorities d'\<rparr>"
  by (auto simp: foreign_authority_def split: option.splits if_splits)

lemma foreign_opt_frame:
  "(case active of None \<Rightarrow> Inr (d, None) | Some a \<Rightarrow> foreign_authority now i s stage a d) = Inr (d', x)
    \<Longrightarrow> d' = d\<lparr>wd_authorities := wd_authorities d'\<rparr>"
  by (auto dest: foreign_authority_frame split: option.splits)

lemma build_advance_frame:
  assumes "build_post_invoke_advance_payload_tx qw now run reason field i raw d = Inr (d', t, s)"
  shows "d' = d\<lparr>wd_authorities := wd_authorities d'\<rparr>"
  using assms unfolding build_post_invoke_advance_payload_tx_def Let_def
  by (simp only: bind_res_eq_Inr, elim exE conjE, simp split: if_splits prod.splits)
    (auto dest!: foreign_opt_frame)

lemma wd_authorities_frame:
  assumes "d' = d\<lparr>wd_authorities := as\<rparr>"
  shows "items d' = items d" "agents d' = agents d" "facts d' = facts d" "claims d' = claims d"
  by (simp_all add: assms)

lemma follow_up_frame:
  assumes "enqueue_follow_up qw now run reason field i raw d = Inr d'"
  shows "agents d' = agents d \<and> claims d' = claims d \<and> facts d' = facts d
    \<and> (\<forall>r. run = Some r \<longrightarrow> (\<exists>f \<in> set (items d'). wi_id f = ''advance-after-invoke:'' @ i))"
proof (cases run)
  case (Some r)
  then obtain d1 t s where b: "build_post_invoke_advance_payload_tx qw now r reason field i raw d = Inr (d1, t, s)"
    and d': "d' = insert_or_ignore_item (follow_up_item i now r t s) d1"
    using assms by (auto simp: enqueue_follow_up_def)
  note f = wd_authorities_frame[OF build_advance_frame[OF b]]
  have "\<exists>f \<in> set (items d'). wi_id f = ''advance-after-invoke:'' @ i"
    unfolding d' insert_or_ignore_item_def follow_up_item_def by (auto simp: image_iff)
  then show ?thesis using f d' by (auto simp: insert_or_ignore_item_def)
qed (use assms in \<open>simp add: enqueue_follow_up_def\<close>)

section \<open>Completion\<close>

definition completion_statuses :: "string set" where
  "completion_statuses = {''running'', ''completed'', ''failed''}"

lemma present_text_Some: "present_text s = Some t \<Longrightarrow> s = Some t"
  by (auto simp: present_text_def split: option.splits if_splits)

lemma validate_ok:
  assumes "validate_running_invoke_completion_has_valid_outputs_tx qw now i raw d = Inr d1"
  obtains p agent run stage fs where "qw_from_str qw raw = Some p" "claimed_agent p = Some agent"
    "get_str p ''run_id'' = Some run" "get_str p ''stage_execution_id'' = Some stage"
    "outputs_proved d completion_statuses valid_settlements run stage agent i" "d1 = set_facts fs d"
  using assms unfolding validate_running_invoke_completion_has_valid_outputs_tx_def Let_def completion_statuses_def
  by (simp only: bind_res_eq_Inr ok_or_eq_Inr, elim exE conjE, simp only: split: if_splits)
    (simp, drule present_text_Some, drule present_text_Some, drule present_text_Some, blast)

lemma settled_agent_stopped: "\<not> list_ex (\<lambda>a. ae_id a = agent \<and> ae_status a = ''running'') (agents (settle_agent_on_complete now agent d))"
proof -
  have "\<not> (ae_id a = agent \<and> ae_status a = ''running'')" if "a \<in> set (agents (settle_agent_on_complete now agent d))" for a
    using that unfolding settle_agent_on_complete_def set_table_sel by (rule sql_update_all) auto
  then show ?thesis by (auto simp: list_ex_iff)
qed

lemma closed_claims:
  "\<not> list_ex (\<lambda>c. ck_source_work_item_id (cl_key c) = item \<and> ck_agent_execution_id (cl_key c) = agent
       \<and> cl_claim_state c = ClaimActive) (claims (close_active_claims now item agent d))"
proof -
  have "\<not> (ck_source_work_item_id (cl_key c) = item \<and> ck_agent_execution_id (cl_key c) = agent
      \<and> cl_claim_state c = ClaimActive)" if "c \<in> set (claims (close_active_claims now item agent d))" for c
    using that unfolding close_active_claims_def set_table_sel by (rule sql_update_all) auto
  then show ?thesis by (auto simp: list_ex_iff)
qed

lemma close_settle_frame [simp]:
  "agents (close_active_claims now i agent d) = agents d" "items (close_active_claims now i agent d) = items d"
  "items (settle_agent_on_complete now agent d) = items d"
  by (simp_all add: close_active_claims_def settle_agent_on_complete_def)

text \<open>
  C7: A running invocation is completed only on proof, and completely. When a settlement of the item succeeds and the
  settled attempt is the current one, its payload names the run, the stage and the agent of the claim, and the database
  proved valid outputs of exactly that claim; afterwards the item is completed for good, the agent execution
  no longer runs, none of its claims on the item is active, and the advance of the run is in the queue.
\<close>

theorem completion_is_proved_and_complete:
  assumes "distinct (map wi_id (items d))" and "w \<in> set (items d)"
    and "wi_kind w = ''invoke_agent''" and "wi_status w = ''running''"
    and "matches_work_item_attempt_tx qw w expected d"
    and "complete_attempt_with_capacity qw cap now (wi_id w) expected d = Inr (d', x)"
  shows "\<exists>agent run stage. payload_agent qw w = Some agent
      \<and> outputs_proved d {''running'', ''completed'', ''failed''} valid_settlements run stage agent (wi_id w)
      \<and> (\<exists>w' \<in> set (items d'). wi_id w' = wi_id w \<and> wi_status w' = ''completed'' \<and> wi_completed_at w' = Some now)
      \<and> \<not> list_ex (\<lambda>a. ae_id a = agent \<and> ae_status a = ''running'') (agents d')
      \<and> \<not> list_ex (\<lambda>c. ck_source_work_item_id (cl_key c) = wi_id w \<and> ck_agent_execution_id (cl_key c) = agent
            \<and> cl_claim_state c = ClaimActive) (claims d')
      \<and> (\<forall>r. wi_run_id w = Some r \<longrightarrow> list_ex (\<lambda>f. wi_id f = ''advance-after-invoke:'' @ wi_id w) (items d'))"
proof -
  let ?up = "update_items (\<lambda>x. wi_id x = wi_id w \<and> wi_status x \<in> open_statuses)
    (\<lambda>x. x\<lparr>wi_status := ''completed'', wi_completed_at := Some now\<rparr>)"
  have find: "find_item (wi_id w) d = Some w" using find_item_key assms(1,2) by (simp add: queue_inv_def)
  have case_invoke: "(wi_kind w = ''invoke_agent'' \<and> wi_status w = ''running'') = True"
    "(wi_status w \<notin> open_statuses) = False" "(\<not> matches_work_item_attempt_tx qw w expected d) = False"
    using assms(3-5) by auto
  obtain d1 d3 where v: "validate_running_invoke_completion_has_valid_outputs_tx qw now (wi_id w) (wi_payload_json w) d = Inr d1"
    and f: "enqueue_follow_up qw now (wi_run_id w) ''invoke_agent_completed'' ''completed_invoke_work_item_id'' (wi_id w)
        (wi_payload_json w) (case payload_agent qw w of None \<Rightarrow> ?up d1
          | Some agent \<Rightarrow> close_active_claims now (wi_id w) agent (settle_agent_on_complete now agent (?up d1))) = Inr d3"
    and r: "refresh_scheduler qw cap now d3 = Inr (d', x)"
    using assms(6) unfolding complete_attempt_with_capacity_def Let_def find option.case case_invoke if_True if_False
    by (simp only: bind_res_eq_Inr) blast
  obtain p agent run stage fs where p: "qw_from_str qw (wi_payload_json w) = Some p" "claimed_agent p = Some agent"
      "outputs_proved d completion_statuses valid_settlements run stage agent (wi_id w)" "d1 = set_facts fs d"
    using validate_ok[OF v] by metis
  have agent: "payload_agent qw w = Some agent" using p by (simp add: payload_agent_def)
  define d2 where "d2 = close_active_claims now (wi_id w) agent (settle_agent_on_complete now agent (?up d1))"
  have f2: "enqueue_follow_up qw now (wi_run_id w) ''invoke_agent_completed'' ''completed_invoke_work_item_id'' (wi_id w)
      (wi_payload_json w) d2 = Inr d3" using f agent by (simp add: d2_def)
  note r' = refresh_frame[OF r] and f' = follow_up_frame[OF f2]
  have "w\<lparr>wi_status := ''completed'', wi_completed_at := Some now\<rparr> \<in> set (items d2)"
    using assms(2,4) p(4) by (auto simp: d2_def set_sql_update)
  then obtain w' where "w' \<in> set (items d3)" "item_moves (w\<lparr>wi_status := ''completed'', wi_completed_at := Some now\<rparr>) w'"
    using table_moves_mem[of item_moves "items d2" "items d3"] follow_up_moves[OF f2] unfolding queue_moves_def by blast
  then have "\<exists>w' \<in> set (items d'). wi_id w' = wi_id w \<and> wi_status w' = ''completed'' \<and> wi_completed_at w' = Some now"
    using r'(1) by (auto simp: item_moves_def)
  moreover have "\<not> list_ex (\<lambda>a. ae_id a = agent \<and> ae_status a = ''running'') (agents d')"
    using settled_agent_stopped r'(2) f' by (simp add: d2_def)
  moreover have "\<not> list_ex (\<lambda>c. ck_source_work_item_id (cl_key c) = wi_id w \<and> ck_agent_execution_id (cl_key c) = agent
            \<and> cl_claim_state c = ClaimActive) (claims d')"
    using closed_claims r'(3) f' by (simp add: d2_def)
  moreover have "\<forall>r. wi_run_id w = Some r \<longrightarrow> list_ex (\<lambda>f. wi_id f = ''advance-after-invoke:'' @ wi_id w) (items d')"
    using f' r'(1) by (simp add: list_ex_iff)
  ultimately show ?thesis using agent p(3) unfolding completion_statuses_def by blast
qed

definition sample_payload :: json where
  "sample_payload = JObject [(''run_id'', JString ''run''), (''stage_execution_id'', JString ''stage''),
     (''p058_claimed'', JObject [(''agent_execution_id'', JString ''agent'')])]"

definition sample_world :: queue_world where
  "sample_world = \<lparr>qw_from_str = (\<lambda>s. if s = ''p'' then Some sample_payload else None), qw_to_string = (\<lambda>j. ''q''),
     qw_rfc3339 = (\<lambda>t. ''t''), qw_uuid = Some, qw_fenced = (\<lambda>d w w'. False),
     qw_later = (\<lambda>t. t + 1)\<rparr>"

definition sample_running :: work_item_row where
  "sample_running = (sample_item ''w'' ''invoke_agent'' ''p'')\<lparr>wi_status := ''running''\<rparr>"

definition sample_agent :: agent_execution_row where
  "sample_agent = \<lparr>ae_id = ''agent'', ae_stage_execution_id = Some ''stage'', ae_status = ''running'', ae_provider = ''claude'',
     ae_provider_family = Some ''claude'', ae_model = None, ae_agent_id = ''coder'', ae_session_generation_id = None,
     ae_completed_at = None\<rparr>"

definition sample_claim :: source_generation_claim where
  "sample_claim = \<lparr>cl_key = \<lparr>ck_run_id = ''run'', ck_owner_kind = StageExecutionOwner, ck_owner_id = ''stage'',
       ck_agent_execution_id = ''agent'', ck_source_work_item_id = ''w''\<rparr>, cl_stage_execution_id = Some ''stage'',
     cl_current_session_generation_id = None, cl_claim_state = ClaimActive, cl_superseding_work_item_id = None,
     cl_superseded_by_agent_execution_id = None, cl_supersession_journal_id = None, cl_superseded_at = None,
     cl_closed_at = None, cl_created_at = 0, cl_updated_at = 0\<rparr>"

definition sample_queue :: work_db where
  "sample_queue = set_items [sample_running] (empty_queue
     \<lparr>wd_sched := (wd_sched empty_queue)\<lparr>sd_quota := \<lparr>qd_ledger = [], qd_agents = [sample_agent], qd_runs = [],
        qd_stages = [\<lparr>st_id = ''stage'', st_run_id = ''run'', st_stage_id = ''build'', st_attempt_number = 1, st_started_at = 0\<rparr>],
        qd_facts = [\<lparr>rf_agent_execution_id = ''agent'', rf_failure_kind = None, rf_preflight_phase = None,
          rf_provider_launched = None, rf_output_settlement = ValidOutputsFromCompletedExecution,
          rf_valid_required_outputs = 1, rf_updated_at = 0\<rparr>]\<rparr>\<rparr>,
      wd_store := (wd_store empty_queue)\<lparr>as_claims := [sample_claim]\<rparr>\<rparr>)"

lemma sample_completion_ok: "is_ok (complete_attempt_with_capacity sample_world default_capacity 9 ''w'' (Some ''agent'') sample_queue)"
  by code_simp

theorem completion_is_proved_and_complete_witness:
  "\<exists>d' x. complete_attempt_with_capacity sample_world default_capacity 9 ''w'' (Some ''agent'') sample_queue = Inr (d', x)
     \<and> (\<exists>w' \<in> set (items d'). wi_id w' = ''w'' \<and> wi_status w' = ''completed'')"
proof -
  obtain d' x where ok: "complete_attempt_with_capacity sample_world default_capacity 9 ''w'' (Some ''agent'') sample_queue = Inr (d', x)"
    using sample_completion_ok by (cases "complete_attempt_with_capacity sample_world default_capacity 9 ''w'' (Some ''agent'') sample_queue") auto
  have w: "wi_id sample_running = ''w''" "wi_kind sample_running = ''invoke_agent''" "wi_status sample_running = ''running''"
    by (simp_all add: sample_running_def sample_item_def)
  have "items sample_queue = [sample_running]" by (simp add: sample_queue_def)
  then have "distinct (map wi_id (items sample_queue))" "sample_running \<in> set (items sample_queue)" by simp_all
  moreover have "matches_work_item_attempt_tx sample_world sample_running (Some ''agent'') sample_queue" by code_simp
  ultimately show ?thesis
    using completion_is_proved_and_complete[of sample_queue sample_running sample_world "Some ''agent''" default_capacity 9 d' x] ok w
    by auto
qed

section \<open>Attempts that were taken back\<close>

text \<open>
  What may happen beside the attempt of an execution: the transactions of the queue, the executor recording
  the end of another execution, and any transaction that leaves the ended executions ended as they are
  (the cancellations of \<^verbatim>\<open>agent_executions.rs\<close> select running rows, its other updates do not write the status).
\<close>

inductive engine_step :: "ident \<Rightarrow> work_db \<Rightarrow> work_db \<Rightarrow> bool" for agent where
  repository: "queue_step d d' \<Longrightarrow> engine_step agent d d'"
| other_completed: "other \<noteq> agent \<Longrightarrow> engine_step agent d (update_completed other status t d)"
| outside: "table_moves agent_moves (agents d) (agents d') \<Longrightarrow> engine_step agent d d'"

definition ended_cancelled :: "ident \<Rightarrow> work_db \<Rightarrow> bool" where
  "ended_cancelled agent d \<longleftrightarrow> (\<exists>a\<in>set (agents d). ae_id a = agent \<and> ae_status a = ''cancelled'')"

lemma agent_moves_cancelled:
  assumes "table_moves agent_moves (agents d) (agents d')" "ended_cancelled agent d"
  shows "ended_cancelled agent d'"
proof -
  from assms(2) obtain a where "a \<in> set (agents d)" "ae_id a = agent" "ae_status a = ''cancelled''"
    by (auto simp: ended_cancelled_def)
  then show ?thesis
    by (elim table_moves_mem[OF assms(1)]) (auto simp: agent_moves_def ended_cancelled_def)
qed

lemma engine_step_cancelled: "engine_step agent d d' \<Longrightarrow> ended_cancelled agent d \<Longrightarrow> ended_cancelled agent d'"
proof (induction rule: engine_step.induct)
  case (repository d d')
  then show ?case by (auto simp: queue_moves_def dest!: queue_step_moves intro: agent_moves_cancelled)
next
  case (other_completed other d status t)
  then show ?case by (auto simp: ended_cancelled_def update_completed_def set_sql_update)
qed (rule agent_moves_cancelled)

lemma engine_run_cancelled: "(engine_step agent)\<^sup>*\<^sup>* d d' \<Longrightarrow> ended_cancelled agent d \<Longrightarrow> ended_cancelled agent d'"
  by (induction rule: rtranclp_induct) (auto intro: engine_step_cancelled)

text \<open>
  The one writer left out is the executor recording the end of the execution itself: it lifts the
  cancellation, and then nothing but the payload of the item tells the attempt from a current one.
\<close>

lemma late_completion_lifts_cancellation:
  assumes "status \<noteq> ''cancelled''"
  shows "matches_work_item_attempt_tx qw w (Some agent) (update_completed agent status t d) \<longleftrightarrow>
     wi_kind w = ''invoke_agent'' \<and> wi_status w = ''running'' \<and> payload_agent qw w = Some agent
     \<and> \<not> host_interruption_cleanup_holds_attempt_tx agent d"
proof -
  have "\<not> list_ex (\<lambda>a. ae_id a = agent \<and> ae_status a = c) (agents (update_completed agent status t d))"
    if "status \<noteq> c" for c
    using that by (simp add: update_completed_def list_ex_iff sql_update_def ball_Un)
  from this[OF assms]
  have "\<not> list_ex (\<lambda>a. ae_id a = agent \<and> ae_status a = ''cancelled'') (agents (update_completed agent status t d))" .
  moreover have "wd_host (update_completed agent status t d) = wd_host d"
    by (simp add: update_completed_def set_agents_def)
  ultimately show ?thesis
    by (simp add: matches_work_item_attempt_tx_def host_interruption_cleanup_holds_attempt_tx_def)
qed

lemma cancelled_is_not_current:
  assumes "list_ex (\<lambda>a. ae_id a = agent \<and> ae_status a = ''cancelled'') (agents d)"
  shows "\<not> matches_work_item_attempt_tx qw w (Some agent) d"
  using assms by (simp add: matches_work_item_attempt_tx_def)

lemma superseded_preclaim_cancels:
  assumes "claimed_agent p = Some agent" "list_ex (\<lambda>a. ae_id a = agent \<and> ae_status a = ''running'') (agents d)"
  shows "list_ex (\<lambda>a. ae_id a = agent \<and> ae_status a = ''cancelled'')
    (agents (supersede_abandoned_preclaim_for_retry_tx qw i p now d))"
proof -
  obtain a where a: "a \<in> set (agents d)" "ae_id a = agent" "ae_status a = ''running''"
    using assms(2) by (auto simp: list_ex_iff)
  then have "a\<lparr>ae_status := ''cancelled'', ae_completed_at := first_some (ae_completed_at a) (Some now)\<rparr>
      \<in> set (agents (cancel_running_agent agent now d))"
    by (auto simp: cancel_running_agent_def set_sql_update)
  then have "list_ex (\<lambda>a. ae_id a = agent \<and> ae_status a = ''cancelled'') (agents (cancel_running_agent agent now d))"
    unfolding list_ex_iff by (rule bexI[rotated]) (simp add: a(2))
  then show ?thesis
    by (simp add: supersede_abandoned_preclaim_for_retry_tx_def assms(1) Let_def supersede_claim_of_def split: option.split)
qed

text \<open>
  C8: An attempt the recovery took back does not settle. Once the preclaim of a running execution was superseded,
  every later completion, failure and requeue after contention on behalf of that execution, for every item, is
  refused without an effect, after any interleaving of the transactions of the queue, of the recorded ends of other
  executions and of transactions that keep ended executions as they ended. The executor recording the end of this
  very execution (\<^verbatim>\<open>update_completed\<close>) is left out: it overwrites the cancellation. The requeue after a wait for
  provider capacity does not ask for the attempt and is not among the refused operations.
\<close>

theorem superseded_attempt_never_settles:
  assumes "claimed_agent p = Some agent" and "list_ex (\<lambda>a. ae_id a = agent \<and> ae_status a = ''running'') (agents d)"
    and "(engine_step agent)\<^sup>*\<^sup>* (supersede_abandoned_preclaim_for_retry_tx qw i p now d) d'"
  shows "complete_attempt_with_capacity qw' cap t j (Some agent) d' = Inr (d', None)
    \<and> fail_attempt_with_capacity qw' cap t j error (Some agent) d' = Inr (d', None)
    \<and> requeue_attempt_after_transient_persistence_contention qw' j t error (Some agent) d' = (d', False)
    \<and> \<not> is_current_invoke_agent_attempt_tx qw' j agent d'"
proof -
  have "ended_cancelled agent (supersede_abandoned_preclaim_for_retry_tx qw i p now d)"
    using superseded_preclaim_cancels[OF assms(1,2), of qw i now] by (auto simp: list_ex_iff ended_cancelled_def)
  with assms(3) have "ended_cancelled agent d'" by (rule engine_run_cancelled)
  then have "\<not> matches_work_item_attempt_tx qw' w (Some agent) d'" for w
    by (intro cancelled_is_not_current) (auto simp: list_ex_iff ended_cancelled_def)
  then show ?thesis
    by (simp add: complete_attempt_with_capacity_def fail_attempt_with_capacity_def
        requeue_attempt_after_transient_persistence_contention_def is_current_invoke_agent_attempt_tx_def
        split: option.split)
qed

theorem superseded_attempt_never_settles_witness:
  "let d = update_completed ''other'' ''completed'' 10
       (supersede_abandoned_preclaim_for_retry_tx sample_world ''w'' sample_payload 9 sample_queue)
   in complete_attempt_with_capacity sample_world default_capacity 11 ''w'' (Some ''agent'') d = Inr (d, None)"
proof -
  let ?d = "supersede_abandoned_preclaim_for_retry_tx sample_world ''w'' sample_payload 9 sample_queue"
  have "claimed_agent sample_payload = Some ''agent''" by code_simp
  moreover have "list_ex (\<lambda>a. ae_id a = ''agent'' \<and> ae_status a = ''running'') (agents sample_queue)" by code_simp
  moreover have "(engine_step ''agent'')\<^sup>*\<^sup>* ?d (update_completed ''other'' ''completed'' 10 ?d)"
    by (rule r_into_rtranclp) (simp add: engine_step.other_completed)
  ultimately show ?thesis
    using superseded_attempt_never_settles[of sample_payload "''agent''" sample_queue sample_world "''w''" 9
        "update_completed ''other'' ''completed'' 10 ?d"] by (simp add: Let_def)
qed

end
