(* ===== verification/Work_Advance_Properties.thy ===== *)
theory Work_Advance_Properties
  imports Work_Settlement_Properties
begin

text \<open>
  The advances of a run: the one an invocation leaves behind is read back by the claim and by the recovery as it
  was written, and the cancellation of the advances of a run is one pass over its items that spares
  targeted retries.
\<close>

section \<open>The advance that follows an invocation\<close>

abbreviation finish_reasons :: "(string \<times> string) set" where
  "finish_reasons \<equiv> {(''invoke_agent_completed'', ''completed_invoke_work_item_id''),
     (''invoke_agent_failed'', ''failed_invoke_work_item_id'')}"

definition targeted_payload :: "ident \<Rightarrow> string \<Rightarrow> string \<Rightarrow> ident \<Rightarrow> retry_authority \<Rightarrow> ident option \<Rightarrow> json" where
  "targeted_payload run reason field i a agent =
     fold (\<lambda>(k, v). json_insert k v) (targeted_members (ra_stage_id a) a i agent) (post_invoke_payload run reason field i)"

lemma joint_authority_cases: "joint_authority i t s = Inr (Some a) \<Longrightarrow> t = Some a \<or> s = Some a"
  by (auto simp: joint_authority_def split: option.splits if_splits)

lemma active_authority_found:
  "find_active_retry_authority_by_target_tx run target d = Inr (Some a)
    \<Longrightarrow> a \<in> set (wd_authorities d) \<and> ra_run_id a = run \<and> ra_authority_state a = AuthorityActive"
  "find_active_retry_authority_by_id_tx run j d = Some a
    \<Longrightarrow> a \<in> set (wd_authorities d) \<and> ra_run_id a = run \<and> ra_authority_state a = AuthorityActive"
  by (auto simp: find_active_retry_authority_by_target_tx_def find_active_retry_authority_by_id_tx_def Let_def
      dest!: fetch_optional_Some split: if_splits)

lemma foreign_authority_Some: "foreign_authority now i s stage a d = Inr (d', Some a') \<Longrightarrow> d' = d \<and> a' = a"
  by (auto simp: foreign_authority_def split: option.splits if_splits)

lemma advance_of_authority_cases:
  assumes "advance_of_authority qw base i stage agent authority = Inr (t, sid)"
  shows "authority = None \<and> sid = None \<and> t = qw_to_string qw base
    \<or> (\<exists>a. authority = Some a \<and> sid = Some (ra_stage_id a) \<and> t = qw_to_string qw
         (fold (\<lambda>(k, v). json_insert k v) (targeted_members (ra_stage_id a) a i agent) base))"
  using assms by (auto simp: advance_of_authority_def split: option.splits if_splits)

lemma build_advance_elim:
  assumes "build_post_invoke_advance_payload_tx qw now run reason field i raw d = Inr (d', t, Some sid)"
  obtains agent s stage by_target active active' where
    "(case stage of None \<Rightarrow> Inr None | Some t \<Rightarrow> find_active_retry_authority_by_target_tx run t d) = Inr by_target"
    "joint_authority i by_target (case is_authority s of None \<Rightarrow> None
        | Some x \<Rightarrow> find_active_retry_authority_by_id_tx run x d) = Inr active"
    "(case active of None \<Rightarrow> Inr (d, None) | Some a \<Rightarrow> foreign_authority now i s stage a d) = Inr (d', active')"
    "advance_of_authority qw (post_invoke_payload run reason field i) i stage agent active' = Inr (t, Some sid)"
proof -
  define s where "s = invoke_source_of (case qw_from_str qw raw of None \<Rightarrow> JObject [] | Some j \<Rightarrow> j)"
  obtain agent stage0 where x: "durable_agent i s = Inr agent"
      "(case agent of None \<Rightarrow> Inr None | Some a \<Rightarrow> find_agent_execution_stage_id_tx qw a d) = Inr stage0"
    using assms unfolding build_post_invoke_advance_payload_tx_def Let_def s_def[symmetric] bind_res_eq_Inr by blast
  define stage where "stage = first_some (is_target s) (first_some (is_stage s) stage0)"
  obtain by_target where y: "(case stage of None \<Rightarrow> Inr None | Some t \<Rightarrow> find_active_retry_authority_by_target_tx run t d) = Inr by_target"
    using assms unfolding build_post_invoke_advance_payload_tx_def Let_def s_def[symmetric] x bind_res_simps stage_def[symmetric]
    by (simp split: if_splits; blast)
  obtain active where z: "joint_authority i by_target (case is_authority s of None \<Rightarrow> None
        | Some x \<Rightarrow> find_active_retry_authority_by_id_tx run x d) = Inr active"
    using assms unfolding build_post_invoke_advance_payload_tx_def Let_def s_def[symmetric] x bind_res_simps stage_def[symmetric] y
    by (simp split: if_splits; blast)
  obtain active' where "(case active of None \<Rightarrow> Inr (d, None) | Some a \<Rightarrow> foreign_authority now i s stage a d) = Inr (d', active')"
      "advance_of_authority qw (post_invoke_payload run reason field i) i stage agent active' = Inr (t, Some sid)"
    using assms unfolding build_post_invoke_advance_payload_tx_def Let_def s_def[symmetric] x bind_res_simps stage_def[symmetric] y z
    by (simp split: if_splits; blast)
  with y z show ?thesis by (rule that)
qed

lemma build_advance_cases:
  assumes "build_post_invoke_advance_payload_tx qw now run reason field i raw d = Inr (d', t, sid)"
  shows "sid = None \<and> t = qw_to_string qw (post_invoke_payload run reason field i)
    \<or> (\<exists>a agent. d' = d \<and> a \<in> set (wd_authorities d) \<and> ra_run_id a = run \<and> ra_authority_state a = AuthorityActive
         \<and> sid = Some (ra_stage_id a) \<and> t = qw_to_string qw (targeted_payload run reason field i a agent))"
proof (cases sid)
  case None
  then show ?thesis
    using assms unfolding build_post_invoke_advance_payload_tx_def Let_def
    by (simp only: bind_res_eq_Inr, elim exE conjE, simp split: if_splits prod.splits)
      (auto dest!: advance_of_authority_cases)
next
  case (Some stage_id)
  obtain agent s stage by_target active active' where
    t: "(case stage of None \<Rightarrow> Inr None | Some t \<Rightarrow> find_active_retry_authority_by_target_tx run t d) = Inr by_target"
    and j: "joint_authority i by_target (case is_authority s of None \<Rightarrow> None
        | Some x \<Rightarrow> find_active_retry_authority_by_id_tx run x d) = Inr active"
    and f: "(case active of None \<Rightarrow> Inr (d, None) | Some a \<Rightarrow> foreign_authority now i s stage a d) = Inr (d', active')"
    and a: "advance_of_authority qw (post_invoke_payload run reason field i) i stage agent active' = Inr (t, Some stage_id)"
    using build_advance_elim[OF assms[unfolded Some]] .
  obtain a' where a': "active' = Some a'" "sid = Some (ra_stage_id a')"
      "t = qw_to_string qw (targeted_payload run reason field i a' agent)"
    using advance_of_authority_cases[OF a] Some by (auto simp: targeted_payload_def)
  then have "active = Some a'" "d' = d" using f by (auto dest: foreign_authority_Some split: option.splits)
  then have "a' \<in> set (wd_authorities d) \<and> ra_run_id a' = run \<and> ra_authority_state a' = AuthorityActive"
    using joint_authority_cases[of i by_target _ a'] j t active_authority_found by (fastforce split: option.splits)
  then show ?thesis using a' \<open>d' = d\<close> by blast
qed

text \<open>Reading the two payloads.\<close>

lemma enqueue_reason_read:
  "optional_reason (Some ''post_invoke_completion'') = Inr (Some PostInvokeCompletion)"
  "optional_reason (Some ''post_invoke_failure'') = Inr (Some PostInvokeFailure)"
  by (simp_all add: optional_reason_def parse_advance_run_enqueue_reason_def)

lemmas payload_reading = parse_value_def post_invoke_payload_def get_str_def optional_uuid_string_def
  validate_def validate_run_scoped_def validate_targeted_def targeted_reason_def post_invoke_reason_def empty_text_def

lemma run_payload_read:
  assumes "(reason, field) \<in> finish_reasons" "uuid run = Some run"
  shows "\<exists>p. parse_value uuid (post_invoke_payload run reason field i) = Inr p \<and> ap_target_stage_execution_id p = None"
  using assms by (auto simp: payload_reading enqueue_reason_read)

definition names_authority :: "(string \<Rightarrow> ident option) \<Rightarrow> retry_authority \<Rightarrow> bool" where
  "names_authority uuid a \<longleftrightarrow>
     uuid (ra_target_stage_execution_id a) = Some (ra_target_stage_execution_id a) \<and> ra_id a \<noteq> [] \<and> ra_stage_id a \<noteq> []"

lemma targeted_payload_get:
  "json_get (targeted_payload run reason field i a agent) k =
     (case agent of Some g \<Rightarrow> if k = ''source_agent_execution_id'' then Some (JString g) else
        (if k = ''source_stage_execution_id'' then Some (JString (ra_target_stage_execution_id a))
         else if k = ''source_invoke_work_item_id'' then Some (JString i)
         else if k = ''source_work_item_id'' then Some (JString i)
         else if k = ''retry_authority_id'' then Some (JString (ra_id a))
         else if k = ''target_stage_execution_id'' then Some (JString (ra_target_stage_execution_id a))
         else if k = ''stage_id'' then Some (JString (ra_stage_id a))
         else json_get (post_invoke_payload run reason field i) k)
      | None \<Rightarrow>
        (if k = ''source_stage_execution_id'' then Some (JString (ra_target_stage_execution_id a))
         else if k = ''source_invoke_work_item_id'' then Some (JString i)
         else if k = ''source_work_item_id'' then Some (JString i)
         else if k = ''retry_authority_id'' then Some (JString (ra_id a))
         else if k = ''target_stage_execution_id'' then Some (JString (ra_target_stage_execution_id a))
         else if k = ''stage_id'' then Some (JString (ra_stage_id a))
         else json_get (post_invoke_payload run reason field i) k))"
  "is_object (targeted_payload run reason field i a agent)"
  by (simp_all add: targeted_payload_def targeted_members_def optional_member_def post_invoke_payload_def
      del: json_get.simps json_insert.simps split: option.split)

lemma targeted_payload_read:
  assumes "(reason, field) \<in> finish_reasons" "uuid run = Some run" "names_authority uuid a" "i \<noteq> []"
  shows "\<exists>p. parse_value uuid (targeted_payload run reason field i a agent) = Inr p \<and> ap_run_id p = run
    \<and> ap_target_stage_execution_id p = Some (ra_target_stage_execution_id a) \<and> ap_retry_authority_id p = Some (ra_id a)
    \<and> ap_source_invoke_work_item_id p = Some i"
  using assms by (auto simp: payload_reading enqueue_reason_read targeted_payload_get names_authority_def split: option.split)

lemma authority_found_by_id:
  assumes "distinct (map ra_id (wd_authorities d))" "a \<in> set (wd_authorities d)" "ra_authority_state a = AuthorityActive"
  shows "find_active_retry_authority_by_id_tx (ra_run_id a) (ra_id a) d = Some a"
proof -
  have "filter (\<lambda>x. ra_run_id x = ra_run_id a \<and> ra_authority_state x = AuthorityActive)
      (filter (\<lambda>x. ra_id x = ra_id a) (wd_authorities d)) = [a]"
    using key_filter[OF assms(1,2)] assms(3) by simp
  then show ?thesis
    by (simp add: find_active_retry_authority_by_id_tx_def fetch_optional_def conj_commute conj_left_commute)
qed

text \<open>
  C28: The advance that follows an invocation is read as it was meant. When the parser gives back the value that was printed
  and identifiers are canonical, the payload enqueued after a completed or failed invocation is never malformed:
  without a retry authority it is an advance of the whole run, and under an active authority it is targeted, and the
  verification at recovery accepts it with the run and the source of the invocation.
\<close>

theorem follow_up_is_read_back:
  assumes "build_post_invoke_advance_payload_tx qw now run reason field i raw d = Inr (d', t, sid)"
    and "(reason, field) \<in> finish_reasons" and "qw_uuid qw run = Some run" and "i \<noteq> []"
    and "\<forall>a \<in> set (wd_authorities d). names_authority (qw_uuid qw) a" and "distinct (map ra_id (wd_authorities d))"
  shows "\<exists>j. t = qw_to_string qw j \<and> (qw_from_str qw t = Some j \<longrightarrow>
      (case sid of
         None \<Rightarrow> classify_advance_payload_scope qw t = LegacyRunScoped
       | Some _ \<Rightarrow> classify_advance_payload_scope qw t = Targeted
           \<and> (\<exists>p. parse_verified_targeted_advance_payload_tx qw now' w t d' = Inr (d', Some p)
                \<and> ap_run_id p = run \<and> ap_source_invoke_work_item_id p = Some i)))"
  using build_advance_cases[OF assms(1)]
proof (elim disjE exE conjE)
  assume s: "sid = None" and t: "t = qw_to_string qw (post_invoke_payload run reason field i)"
  obtain p where "parse_value (qw_uuid qw) (post_invoke_payload run reason field i) = Inr p" "ap_target_stage_execution_id p = None"
    using run_payload_read[where uuid = "qw_uuid qw" and run = run, OF assms(2,3)] by blast
  then show ?thesis using s t
    by (intro exI[of _ "post_invoke_payload run reason field i"])
      (simp add: classify_advance_payload_scope_def parse_advance_def parse_json_def)
next
  fix a agent
  let ?j = "targeted_payload run reason field i a agent"
  assume d: "d' = d" and a: "a \<in> set (wd_authorities d)" "ra_run_id a = run" "ra_authority_state a = AuthorityActive"
    and s: "sid = Some (ra_stage_id a)" and t: "t = qw_to_string qw ?j"
  obtain p where p: "parse_value (qw_uuid qw) ?j = Inr p" "ap_run_id p = run"
      "ap_target_stage_execution_id p = Some (ra_target_stage_execution_id a)" "ap_retry_authority_id p = Some (ra_id a)"
      "ap_source_invoke_work_item_id p = Some i"
    using targeted_payload_read[where uuid = "qw_uuid qw" and run = run, OF assms(2,3) _ assms(4), of a agent] assms(5) a(1) by blast
  have "parse_advance qw t = Inr p" if "qw_from_str qw t = Some ?j"
    using that p(1) by (simp add: parse_advance_def parse_json_def)
  moreover have "find_active_retry_authority_by_id_tx run (ra_id a) d = Some a"
    using authority_found_by_id[OF assms(6) a(1,3)] a(2) by simp
  ultimately show ?thesis using s t d p(2-5)
    by (intro exI[of _ ?j]) (simp add: classify_advance_payload_scope_def parse_verified_targeted_advance_payload_tx_def Let_def)
qed

definition sample_authority :: retry_authority where
  "sample_authority = \<lparr>ra_id = ''authority'', ra_run_id = ''run'', ra_stage_id = ''build'',
     ra_target_stage_execution_id = ''stage'', ra_entry_kind = TargetedAgentRetry, ra_source_command_journal_id = None,
     ra_source_retry_work_item_id = None, ra_source_invoke_work_item_id = Some ''w'', ra_source_agent_execution_id = None,
     ra_authority_state = AuthorityActive, ra_created_at = 0, ra_updated_at = 0, ra_terminal_reason = None\<rparr>"

definition sample_targeted :: json where
  "sample_targeted = targeted_payload ''run'' ''invoke_agent_completed'' ''completed_invoke_work_item_id'' ''w'' sample_authority (Some ''agent'')"

definition reading_world :: queue_world where
  "reading_world = sample_world\<lparr>qw_to_string := (\<lambda>j. if j = sample_targeted then ''q'' else ''r''),
     qw_from_str := (\<lambda>s. if s = ''p'' then Some sample_payload else if s = ''q'' then Some sample_targeted else None)\<rparr>"

lemma sample_build:
  "build_post_invoke_advance_payload_tx reading_world 9 ''run'' ''invoke_agent_completed'' ''completed_invoke_work_item_id'' ''w''
     ''p'' (sample_queue\<lparr>wd_authorities := [sample_authority]\<rparr>)
   = Inr (sample_queue\<lparr>wd_authorities := [sample_authority]\<rparr>, ''q'', Some ''build'')" (is "?b = _")
proof -
  have "case ?b of Inl e \<Rightarrow> False
      | Inr (d, t, s) \<Rightarrow> t = ''q'' \<and> s = Some ''build'' \<and> wd_authorities d = [sample_authority]"
    by code_simp
  then obtain d where d: "?b = Inr (d, ''q'', Some ''build'')" "wd_authorities d = [sample_authority]"
    by (cases ?b) auto
  have "d = sample_queue\<lparr>wd_authorities := [sample_authority]\<rparr>\<lparr>wd_authorities := wd_authorities d\<rparr>"
    by (rule build_advance_frame[OF d(1)])
  then show ?thesis using d by simp
qed

theorem follow_up_is_read_back_witness:
  "classify_advance_payload_scope reading_world ''q'' = Targeted
   \<and> (\<exists>p. parse_verified_targeted_advance_payload_tx reading_world 10 ''x'' ''q'' (sample_queue\<lparr>wd_authorities := [sample_authority]\<rparr>)
        = Inr (sample_queue\<lparr>wd_authorities := [sample_authority]\<rparr>, Some p)
        \<and> ap_run_id p = ''run'' \<and> ap_source_invoke_work_item_id p = Some ''w'')"
proof -
  have h: "qw_uuid reading_world ''run'' = Some ''run''"
    "\<forall>a \<in> set (wd_authorities (sample_queue\<lparr>wd_authorities := [sample_authority]\<rparr>)). names_authority (qw_uuid reading_world) a"
    by (simp_all add: reading_world_def sample_world_def names_authority_def sample_authority_def)
  obtain j where j: "''q'' = qw_to_string reading_world j"
    "qw_from_str reading_world ''q'' = Some j \<longrightarrow> classify_advance_payload_scope reading_world ''q'' = Targeted
       \<and> (\<exists>p. parse_verified_targeted_advance_payload_tx reading_world 10 ''x'' ''q'' (sample_queue\<lparr>wd_authorities := [sample_authority]\<rparr>)
        = Inr (sample_queue\<lparr>wd_authorities := [sample_authority]\<rparr>, Some p)
        \<and> ap_run_id p = ''run'' \<and> ap_source_invoke_work_item_id p = Some ''w'')"
    using follow_up_is_read_back[OF sample_build, of 10 "''x''"] h by auto
  have "j = sample_targeted" using j(1) by (simp add: reading_world_def split: if_splits)
  then have "qw_from_str reading_world ''q'' = Some j" by (simp add: reading_world_def)
  then show ?thesis using j(2) by blast
qed

section \<open>Cancelling the advances of a run\<close>

text \<open>
  A loop that fetches rows of a table with a key and then updates each by its key is one pass over the
  table, whatever it did before to other rows.
\<close>

definition put_row :: "work_item_row \<Rightarrow> work_item_row \<Rightarrow> work_db \<Rightarrow> work_db" where
  "put_row w w' d = set_items (map (\<lambda>x. if wi_id x = wi_id w then w' else x) (items d)) d"

lemma for_rows_put:
  assumes "\<And>w d. queue_inv d \<Longrightarrow> w \<in> set (items d) \<Longrightarrow> w \<in> set ws \<Longrightarrow> f w d = Inr (put_row w (g w) d, c w)"
    and "\<And>w. wi_id (g w) = wi_id w"
    and "queue_inv d" "distinct (map wi_id ws)" "set ws \<subseteq> set (items d)"
  shows "for_rows f ws d = Inr (set_items (map (\<lambda>x. if x \<in> set ws then g x else x) (items d)) d, sum_list (map c ws))"
  using assms
proof (induction ws arbitrary: d)
  case (Cons w ws)
  let ?d = "put_row w (g w) d"
  have ids: "map wi_id (items ?d) = map wi_id (items d)" using Cons.prems(2) by (simp add: put_row_def)
  have only: "x = w" if "x \<in> set (items d)" "wi_id x = wi_id w" for x
    using key_unique[of wi_id "items d" x w] that Cons.prems(3,5) by (simp add: queue_inv_def)
  have rest: "set ws \<subseteq> set (items ?d)"
  proof
    fix x assume x: "x \<in> set ws"
    then have "wi_id x \<noteq> wi_id w" "x \<in> set (items d)" using Cons.prems(4,5) by (auto simp: image_iff)
    then show "x \<in> set (items ?d)" by (force simp: put_row_def)
  qed
  have "for_rows f ws ?d = Inr (set_items (map (\<lambda>x. if x \<in> set ws then g x else x) (items ?d)) ?d, sum_list (map c ws))"
    using Cons.prems rest ids by (intro Cons.IH) (auto simp: queue_inv_def)
  moreover have "map (\<lambda>x. if x \<in> set ws then g x else x) (items ?d) = map (\<lambda>x. if x \<in> set (w # ws) then g x else x) (items d)"
    using only Cons.prems(2,4) rest by (auto simp: put_row_def image_iff dest: sym)
  ultimately show ?case using Cons.prems by (simp add: put_row_def set_items_def)
qed simp

definition cancelled_advance :: "queue_world \<Rightarrow> datetime \<Rightarrow> datetime \<Rightarrow> string \<Rightarrow> work_item_row \<Rightarrow> work_item_row" where
  "cancelled_advance qw now fin reason w =
     (case classify_advance_payload_scope qw (wi_payload_json w) of
        LegacyRunScoped \<Rightarrow> cancelled_item fin reason w
      | Targeted \<Rightarrow> w
      | MalformedScope c \<Rightarrow> failed_item now c w)"

definition open_advance :: "ident \<Rightarrow> work_item_row \<Rightarrow> bool" where
  "open_advance run w \<longleftrightarrow> wi_run_id w = Some run \<and> wi_kind w = ''advance_run'' \<and> wi_status w \<in> open_statuses"

lemma put_keyed_update:
  assumes "queue_inv d" "w \<in> set (items d)" "P w" "\<And>x. P x \<Longrightarrow> wi_id x = wi_id w"
  shows "update_items P f d = put_row w (f w) d" "items_hit P d = 1"
proof -
  have only: "x = w" if "x \<in> set (items d)" "wi_id x = wi_id w" for x
    using key_unique[of wi_id "items d" x w] that assms(1,2) by (simp add: queue_inv_def)
  have iff: "P x \<longleftrightarrow> wi_id x = wi_id w" if "x \<in> set (items d)" for x using only that assms(3,4) by blast
  show "update_items P f d = put_row w (f w) d"
    unfolding update_items_def put_row_def sql_update_def
    by (rule arg_cong[where f = "\<lambda>ws. set_items ws d"], rule map_cong) (auto simp: iff dest: only)
  have "filter P (items d) = filter (\<lambda>x. wi_id x = wi_id w) (items d)" by (rule filter_cong) (simp_all add: iff)
  then show "items_hit P d = 1"
    using key_filter[of wi_id "items d" w] assms(1,2) by (simp add: items_hit_def rows_affected_def queue_inv_def)
qed

lemma put_same:
  assumes "queue_inv d" "w \<in> set (items d)"
  shows "put_row w w d = d"
proof -
  have "map (\<lambda>x. if wi_id x = wi_id w then w else x) (items d) = items d"
    using key_unique[of wi_id "items d" _ w] assms by (intro map_idI) (auto simp: queue_inv_def)
  then show ?thesis by (simp add: put_row_def)
qed

lemma count_rows: "sum_list (map (\<lambda>x. if Q x then 1 else 0 :: nat) (filter P xs)) = length (filter (\<lambda>x. P x \<and> Q x) xs)"
  by (induction xs) auto

text \<open>
  C29: Cancelling the advances of a run is one pass that spares targeted retries. On a queue with unique identifiers the loop
  over the fetched advances, when no guard trigger aborts it, equals one map over the table: every pending or running advance of
  the run without a target is cancelled and counted, one whose payload is malformed is failed with its code, and
  targeted advances, items of other kinds, other runs and other statuses keep their rows.
\<close>

theorem run_cancellation_is_one_pass:
  assumes "distinct (map wi_id (items d))"
  shows "cancel_pending_or_running_advance_by_run_tx qw now run fin reason d =
    Inr (set_items (map (\<lambda>w. if open_advance run w then cancelled_advance qw now fin reason w else w) (items d)) d,
      length (filter (\<lambda>w. open_advance run w \<and> classify_advance_payload_scope qw (wi_payload_json w) = LegacyRunScoped)
        (items d)))"
proof -
  let ?ws = "filter (open_advance run) (items d)"
  let ?c = "\<lambda>w. if classify_advance_payload_scope qw (wi_payload_json w) = LegacyRunScoped then 1 else 0 :: nat"
  let ?f = "\<lambda>w d. case classify_advance_payload_scope qw (wi_payload_json w) of
         LegacyRunScoped \<Rightarrow> Inr (counted_update (\<lambda>x. wi_id x = wi_id w \<and> wi_status x \<in> open_statuses)
                                  (cancelled_item fin reason) d)
       | Targeted \<Rightarrow> Inr (d, 0)
       | MalformedScope c \<Rightarrow> Inr (quarantine_advance_work_item_tx now (wi_id w) c d, 0)"
  have rows: "run_advances run open_statuses d = ?ws"
    unfolding run_advances_def open_advance_def by simp
  have step: "?f w d0 = Inr (put_row w (cancelled_advance qw now fin reason w) d0, ?c w)"
    if "queue_inv d0" "w \<in> set (items d0)" "w \<in> set ?ws" for w d0
  proof -
    have w: "wi_kind w = ''advance_run''" "wi_status w \<in> open_statuses" using that(3) by (auto simp: open_advance_def)
    have u: "update_items (\<lambda>x. wi_id x = wi_id w \<and> wi_status x \<in> open_statuses) f d0 = put_row w (f w) d0"
      "items_hit (\<lambda>x. wi_id x = wi_id w \<and> wi_status x \<in> open_statuses) d0 = 1" for f
      by (rule put_keyed_update[OF that(1,2)]; use w in simp)+
    have q: "update_items (quarantinable (wi_id w)) f d0 = put_row w (f w) d0" for f
      by (rule put_keyed_update[OF that(1,2)]; use w in \<open>simp add: quarantinable_def\<close>)
    show ?thesis
      by (cases "classify_advance_payload_scope qw (wi_payload_json w)")
        (simp_all only: advance_payload_scope.case counted_update_def quarantine_advance_work_item_tx_def u q
          cancelled_advance_def put_same[OF that(1,2)] advance_payload_scope.distinct if_True if_False simp_thms)
  qed
  have "for_rows ?f ?ws d = Inr (set_items (map (\<lambda>x. if x \<in> set ?ws then cancelled_advance qw now fin reason x else x) (items d)) d,
      sum_list (map ?c ?ws))"
    using assms
    by (intro for_rows_put[OF step])
      (auto simp: queue_inv_def distinct_map_filter cancelled_advance_def cancelled_item_def failed_item_def
        split: advance_payload_scope.split)
  moreover have "sum_list (map ?c ?ws) = length (filter (\<lambda>w. open_advance run w
      \<and> classify_advance_payload_scope qw (wi_payload_json w) = LegacyRunScoped) (items d))"
    by (simp add: count_rows)
  ultimately show ?thesis
    unfolding cancel_pending_or_running_advance_by_run_tx_def rows by (simp cong: map_cong)
qed

theorem run_cancellation_is_one_pass_witness:
  "cancel_pending_or_running_advance_by_run_tx reading_world 5 ''run'' 6 ''stop''
     (set_items [sample_item ''a'' ''advance_run'' ''q'', sample_item ''b'' ''settle_stage'' []] empty_queue)
   = Inr (set_items [sample_item ''a'' ''advance_run'' ''q'', sample_item ''b'' ''settle_stage'' []] empty_queue, 0)"
proof -
  let ?d = "set_items [sample_item ''a'' ''advance_run'' ''q'', sample_item ''b'' ''settle_stage'' []] empty_queue"
  have "classify_advance_payload_scope reading_world ''q'' = Targeted" by code_simp
  moreover have "distinct (map wi_id (items ?d))" by (simp add: sample_item_def)
  ultimately show ?thesis
    using run_cancellation_is_one_pass[of ?d reading_world 5 "''run''" 6 "''stop''"]
    by (simp add: open_advance_def cancelled_advance_def sample_item_def set_items_def)
qed

end
