(* ===== verification/Work_Recovery_Properties.thy ===== *)
theory Work_Recovery_Properties
  imports Work_Settlement_Properties
begin

text \<open>
  The recovery of running invocations at startup: the bound of one requeue per repair is never enforced,
  and three places where a recovery or a settlement does not do what it means to, each on a concrete queue.
\<close>

section \<open>The notes of a repair\<close>

text \<open>Printing and reading notes keeps the members the replay looks at.\<close>

definition notes_survive :: "queue_world \<Rightarrow> ident \<Rightarrow> ident \<Rightarrow> bool" where
  "notes_survive qw repair item \<longleftrightarrow>
     (\<forall>n. existing_r01_replay repair item n \<longrightarrow>
        (\<exists>m. qw_from_str qw (qw_to_string qw n) = Some m \<and> existing_r01_replay repair item m))"

definition replayable :: "queue_world \<Rightarrow> ident \<Rightarrow> ident \<Rightarrow> work_db \<Rightarrow> bool" where
  "replayable qw repair item d \<longleftrightarrow>
     (\<forall>r \<in> set (wd_repairs d). sr_id r = repair \<longrightarrow>
        (\<exists>n. Option.bind (sr_notes r) (qw_from_str qw) = Some n \<and> existing_r01_replay repair item n))"

lemma pointer_simps [simp]:
  "json_pointer (json_insert k v j) (k' # ks) =
     (if k' = k \<and> is_object j then json_pointer v ks else json_pointer j (k' # ks))"
  by simp

lemma json_get_object: "json_get j k = Some v \<Longrightarrow> is_object j"
  by (cases j) auto

lemma requeue_once_replays:
  assumes "integrity \<in> set valid_projection_integrities"
  shows "existing_r01_replay repair item (requeue_once_notes qw t repair item journal integrity)"
  using assms
  by (simp add: existing_r01_replay_def requeue_once_notes_def set_readback_startup_repair_def build_readback_v1_def
      valid_scenario_statuses_def valid_recovery_decisions_def all_reason_codes_def is_sentinel_def get_str_def
      pointer_str_def build_startup_repair_summary_def suffix_def Let_def)

lemma replayed_notes_replays:
  assumes "existing_r01_replay repair item n"
  shows "existing_r01_replay repair item (replayed_notes qw t n)"
  using assms
  by (auto simp: existing_r01_replay_def replayed_notes_def pointer_str_def dest: json_get_object
      split: option.splits simp: bind_eq_Some_conv)

lemma supersede_preclaim_frame [simp]:
  "items (supersede_abandoned_preclaim_for_retry_tx qw i p now d) = items d"
  "wd_repairs (supersede_abandoned_preclaim_for_retry_tx qw i p now d) = wd_repairs d"
  "wd_journal (supersede_abandoned_preclaim_for_retry_tx qw i p now d) = wd_journal d"
  by (simp_all add: supersede_abandoned_preclaim_for_retry_tx_def Let_def cancel_running_agent_def supersede_claim_of_def
      set_agents_def set_claims_def split: option.split)

lemma settle_host_frame:
  "items (settle_host_cleanup_after_startup_requeue_tx qw item agent now d) = items d
   \<and> wd_repairs (settle_host_cleanup_after_startup_requeue_tx qw item agent now d) = wd_repairs d"
proof -
  have row: "items (settle_host_row qw now a x d) = items d \<and> wd_repairs (settle_host_row qw now a x d) = wd_repairs d" for a x d
    by (cases x) (simp add: settle_host_row_def Let_def end_generation_tx_def split: option.split)
  have "items (fold (settle_host_row qw now a) xs d) = items d \<and> wd_repairs (fold (settle_host_row qw now a) xs d) = wd_repairs d" for a xs d
    by (induction xs arbitrary: d) (simp_all add: row)
  then show ?thesis by (simp add: settle_host_cleanup_after_startup_requeue_tx_def split: option.split)
qed

lemma journal_resolution_frame:
  assumes "wd_journal d' = wd_journal d"
  shows "p082_resolve_source_command_journal_id_for_work_item_tx p run d'
     = p082_resolve_source_command_journal_id_for_work_item_tx p run d"
proof -
  have "p082_latest_command_journal_id_for_run_tx r d' = p082_latest_command_journal_id_for_run_tx r d"
    "p082_command_journal_run_id_tx j d' = p082_command_journal_run_id_tx j d" for r j
    unfolding p082_latest_command_journal_id_for_run_tx_def p082_command_journal_run_id_tx_def assms by (rule refl)+
  then show ?thesis unfolding p082_resolve_source_command_journal_id_for_work_item_tx_def by presburger
qed

lemma resolved_integrity:
  "p082_resolve_source_command_journal_id_for_work_item_tx p run d = Inr (j, integrity)
    \<Longrightarrow> integrity \<in> set valid_projection_integrities"
  by (auto simp: p082_resolve_source_command_journal_id_for_work_item_tx_def Let_def valid_projection_integrities_def
      split: option.splits if_splits)

text \<open>The update requeues the running item and leaves the repairs alone.\<close>

lemma startup_update_requeues:
  assumes "queue_inv d" "w \<in> set (items d)" "wi_status w = ''running''"
  shows "\<exists>d' w'. startup_requeue_update qw t reason w p extra d = (d', 1) \<and> wd_repairs d' = wd_repairs d
    \<and> w' \<in> set (items d') \<and> wi_id w' = wi_id w \<and> wi_status w' = ''pending''"
proof -
  have "filter (\<lambda>x. wi_status x = ''running'') (filter (\<lambda>x. wi_id x = wi_id w) (items d)) = [w]"
    using key_filter[of wi_id "items d" w] assms by (simp add: queue_inv_def)
  then have hit: "items_hit (running_item (wi_id w)) d = 1"
    by (simp add: items_hit_def rows_affected_def running_item_def[abs_def] conj_commute)
  define payload where "payload = qw_to_string qw (stamped ''p061_startup_recovery'' (JObject ([(''requeued_at'',
      JString (qw_rfc3339 qw t)), (''reason'', JString reason)] @ extra)) p)"
  let ?d1 = "update_items (running_item (wi_id w)) (requeued_invoke payload (Some reason)) d"
  let ?d2 = "settle_host_cleanup_after_startup_requeue_tx qw (wi_id w) (claimed_agent p) t ?d1"
  have "startup_requeue_update qw t reason w p extra d = (?d2, 1)"
    unfolding startup_requeue_update_def Let_def hit payload_def[symmetric] by simp
  moreover have "wd_repairs ?d2 = wd_repairs d" by (simp add: settle_host_frame update_items_def set_items_def)
  moreover have "requeued_invoke payload (Some reason) w \<in> set (items ?d2)"
    using assms(2,3) by (auto simp: settle_host_frame set_sql_update running_item_def)
  moreover have "wi_id (requeued_invoke payload (Some reason) w) = wi_id w"
    "wi_status (requeued_invoke payload (Some reason) w) = ''pending''" by (simp_all add: requeued_invoke_def)
  ultimately show ?thesis by blast
qed

definition repair_id :: "ident \<Rightarrow> ident \<Rightarrow> ident" where
  "repair_id journal item = ''p082-requeue:'' @ journal @ '':'' @ item @ '':1''"

lemma write_replayed_replayable:
  assumes "replayable qw repair item d" "notes_survive qw repair item"
  shows "replayable qw repair item (write_replayed_notes qw t repair d)"
proof (cases "repair_notes qw repair d")
  case (Some n)
  then obtain r where "r \<in> set (wd_repairs d)" "sr_id r = repair" "Option.bind (sr_notes r) (qw_from_str qw) = Some n"
    by (auto simp: repair_notes_def bind_eq_Some_conv dest!: fetch_optional_Some)
  then have "existing_r01_replay repair item n" using assms(1) by (auto simp: replayable_def)
  then have "\<exists>m. qw_from_str qw (qw_to_string qw (replayed_notes qw t n)) = Some m \<and> existing_r01_replay repair item m"
    using replayed_notes_replays assms(2) by (simp add: notes_survive_def)
  then have "replayable qw repair item (write_notes repair (qw_to_string qw (replayed_notes qw t n)) d)"
    by (simp add: replayable_def write_notes_def set_sql_update ball_Un)
  then show ?thesis using assms(1) Some by (simp add: write_replayed_notes_def split: option.split json.split)
qed (use assms(1) in \<open>simp add: write_replayed_notes_def\<close>)

lemma write_replayed_items [simp]: "items (write_replayed_notes qw t repair d) = items d"
  by (simp add: write_replayed_notes_def write_notes_def split: option.split json.split)

text \<open>
  C30: A repair that may requeue once requeues for ever. The repairs this function records, and those it replays, are
  always taken for a crash of the same repair: as long as printed notes keep their members, every restart that finds the item running
  requeues it under the one repair of its journal entry, and leaves a queue on which the same holds again. The
  branch that fails the item because its one requeue was consumed is never taken.
\<close>

theorem startup_requeue_never_exhausts:
  assumes "distinct (map wi_id (items d))" and "w \<in> set (items d)" and "wi_status w = ''running''" and "wi_run_id w = Some run"
    and "qw_from_str qw (wi_payload_json w) = Some p"
    and "p082_resolve_source_command_journal_id_for_work_item_tx p run d = Inr (Some j, integrity)"
    and "notes_survive qw (repair_id j (wi_id w)) (wi_id w)" and "replayable qw (repair_id j (wi_id w)) (wi_id w) d"
  shows "\<exists>d' w'. startup_requeue_row qw t reason w d = Inr (d', 1) \<and> replayable qw (repair_id j (wi_id w)) (wi_id w) d'
    \<and> w' \<in> set (items d') \<and> wi_id w' = wi_id w \<and> wi_status w' = ''pending''"
proof -
  let ?rep = "repair_id j (wi_id w)"
  define d1 where "d1 = supersede_abandoned_preclaim_for_retry_tx qw (wi_id w) p t d"
  have d1: "items d1 = items d" "wd_repairs d1 = wd_repairs d" "replayable qw ?rep (wi_id w) d1"
    using assms(8) by (simp_all add: d1_def replayable_def)
  have res: "p082_resolve_source_command_journal_id_for_work_item_tx p run d1 = Inr (Some j, integrity)"
    using assms(6) journal_resolution_frame[of d1 d p run] by (simp add: d1_def)
  define row where "row = \<lparr>sr_id = ?rep, sr_run_id = run, sr_repair_kind = ''p082_requeue_once'', sr_repaired_at = t,
      sr_notes = Some (qw_to_string qw (requeue_once_notes qw t ?rep (wi_id w) j integrity))\<rparr>"
  have unfold: "startup_requeue_row qw t reason w d = (case record_startup_repair_tx row d1 of
        Inr d2 \<Rightarrow> Inr (startup_requeue_update qw t reason w p (repair_stamp ?rep j (wi_id w)) d2)
      | Inl _ \<Rightarrow> if stamped_replay ?rep (wi_id w) p
             \<or> (case repair_notes qw ?rep d1 of None \<Rightarrow> False | Some n \<Rightarrow> existing_r01_replay ?rep (wi_id w) n)
           then Inr (startup_requeue_update qw t reason w p (repair_stamp ?rep j (wi_id w) @ [(''replayed'', JBool True)])
               (write_replayed_notes qw t ?rep d1))
           else Inr (update_items (running_item (wi_id w))
               (failed_item t ''startup_requeue_exhausted: generation 1 already consumed'')
               (write_notes ?rep (qw_to_string qw (requeue_exhausted_notes qw t ?rep (wi_id w) j)) d1), 0))"
    unfolding startup_requeue_row_def Let_def assms(4,5) option.case d1_def[symmetric] res bind_res_simps prod.case
      row_def repair_id_def by simp
  have requeued: ?thesis
    if "startup_requeue_row qw t reason w d = Inr (startup_requeue_update qw t reason w p extra d2)"
      "items d2 = items d" "replayable qw ?rep (wi_id w) d2" for extra d2
  proof -
    have "queue_inv d2" "w \<in> set (items d2)" using assms(1,2) that(2) by (simp_all add: queue_inv_def)
    then obtain d' w' where "startup_requeue_update qw t reason w p extra d2 = (d', 1)" "wd_repairs d' = wd_repairs d2"
        "w' \<in> set (items d')" "wi_id w' = wi_id w" "wi_status w' = ''pending''"
      using startup_update_requeues[OF _ _ assms(3)] by blast
    then show ?thesis using that(1,3) by (auto simp: replayable_def)
  qed
  show ?thesis
  proof (cases "record_startup_repair_tx row d1")
    case (Inr d2)
    then have d2: "items d2 = items d" "wd_repairs d2 = wd_repairs d1 @ [row]"
      using d1 by (auto simp: record_startup_repair_tx_def split: if_splits)
    have "\<exists>m. qw_from_str qw (qw_to_string qw (requeue_once_notes qw t ?rep (wi_id w) j integrity)) = Some m
        \<and> existing_r01_replay ?rep (wi_id w) m"
      using assms(7) requeue_once_replays[OF resolved_integrity[OF assms(6)]] by (simp add: notes_survive_def)
    then have "replayable qw ?rep (wi_id w) d2" using d1(3) d2(2) by (simp add: replayable_def row_def)
    then show ?thesis using requeued[OF _ d2(1)] unfold Inr by simp
  next
    case (Inl e)
    then obtain r where "fetch_optional (filter (\<lambda>r. sr_id r = ?rep) (wd_repairs d1)) = Some r"
      by (cases "filter (\<lambda>r. sr_id r = ?rep) (wd_repairs d1)")
        (auto simp: record_startup_repair_tx_def row_def fetch_optional_def filter_empty_conv split: if_splits)
    then obtain n where "repair_notes qw ?rep d1 = Some n" "existing_r01_replay ?rep (wi_id w) n"
      using d1(3) by (auto simp: repair_notes_def replayable_def dest!: fetch_optional_Some)
    then show ?thesis
      using requeued[OF _ _ write_replayed_replayable[OF d1(3) assms(7)]] unfold Inl d1(1) by simp
  qed
qed

definition noted_world :: queue_world where
  "noted_world = sample_world\<lparr>qw_from_str := (\<lambda>s. if s = ''p'' then Some sample_payload
     else Some (requeue_once_notes sample_world 5 (repair_id ''j'' ''w'') ''w'' ''j'' ''valid''))\<rparr>"

definition journaled_queue :: work_db where
  "journaled_queue = sample_queue\<lparr>wd_journal := [\<lparr>wj_id = ''j'', wj_run_id = Some ''run'', wj_created_at = 0\<rparr>]\<rparr>"

theorem startup_requeue_never_exhausts_witness:
  "\<exists>d' w'. startup_requeue_row noted_world 9 ''restart'' sample_running journaled_queue = Inr (d', 1)
     \<and> w' \<in> set (items d') \<and> wi_id w' = ''w'' \<and> wi_status w' = ''pending''"
proof -
  have i: "items journaled_queue = [sample_running]" by (simp add: journaled_queue_def sample_queue_def)
  have w: "wi_id sample_running = ''w''" "wi_status sample_running = ''running''" "wi_run_id sample_running = Some ''run''"
    "wi_payload_json sample_running = ''p''"
    by (simp_all add: sample_running_def sample_item_def)
  have p: "qw_from_str noted_world (wi_payload_json sample_running) = Some sample_payload"
    by (simp add: noted_world_def w)
  have j: "p082_resolve_source_command_journal_id_for_work_item_tx sample_payload ''run'' journaled_queue = Inr (Some ''j'', ''valid'')"
    by code_simp
  have "existing_r01_replay (repair_id ''j'' ''w'') ''w'' (requeue_once_notes sample_world 5 (repair_id ''j'' ''w'') ''w'' ''j'' ''valid'')"
    by (rule requeue_once_replays) (simp add: valid_projection_integrities_def)
  then have n: "notes_survive noted_world (repair_id ''j'' ''w'') ''w''"
    by (simp add: notes_survive_def noted_world_def sample_world_def)
  have "replayable noted_world (repair_id ''j'' ''w'') ''w'' journaled_queue"
    by (simp add: replayable_def journaled_queue_def sample_queue_def empty_queue_def set_items_def)
  then show ?thesis
    using startup_requeue_never_exhausts[OF _ _ w(2,3) p j, of 9 "''restart''"] i n w(1) by auto
qed

section \<open>Three recoveries on concrete queues\<close>

text \<open>
  The recovery of a stage compares the status of the agent with the kind and the status of the item, so a
  targeted retry that delivered its outputs is requeued; the recovery at startup leaves it alone.
\<close>

definition retry_payload :: json where
  "retry_payload = json_insert ''targeted_retry'' (JObject []) sample_payload"

definition delivered_queue :: work_db where
  "delivered_queue = set_agents [sample_agent\<lparr>ae_status := ''completed''\<rparr>]
     (set_items [sample_running\<lparr>wi_stage_id := Some ''build''\<rparr>] sample_queue)"

definition retry_world :: queue_world where
  "retry_world = sample_world\<lparr>qw_from_str := (\<lambda>s. Some retry_payload)\<rparr>"

lemma delivered_retry_is_repeated:
  "delivered_retry {''completed'', ''failed''} retry_payload delivered_queue"
  "map_sum id (\<lambda>(d, n). map wi_status (items d))
     (requeue_running_preclaimed_invoke_for_stage_tx retry_world 9 ''run'' ''stage'' ''build'' delivered_queue) = Inr [''pending'']"
  "map_sum id (\<lambda>(d, n). map wi_status (items d))
     (requeue_running_invoke_agent_on_startup_tx retry_world 9 ''restart'' delivered_queue) = Inr [''running'']"
  by code_simp+

text \<open>Outputs of a repair prove the completion of the item, but its running execution is marked failed.\<close>

definition repaired_queue :: work_db where
  "repaired_queue = set_facts (map (\<lambda>f. f\<lparr>rf_output_settlement := ValidOutputsFromRepair\<rparr>) (facts sample_queue)) sample_queue"

lemma repaired_completion_fails_agent:
  "map_sum id (\<lambda>(d, n). (map wi_status (filter (\<lambda>w. wi_id w = ''w'') (items d)), map ae_status (agents d)))
     (complete_attempt_with_capacity sample_world default_capacity 9 ''w'' (Some ''agent'') repaired_queue)
   = Inr ([''completed''], [''failed''])"
  by code_simp

text \<open>The requeue after a wait for capacity takes the item from another attempt than the one that waited.\<close>

lemma capacity_wait_takes_item_of_other_attempt:
  "map_sum id (\<lambda>(d, b). (b, map wi_status (items d), map ae_status (agents d)))
     (requeue_running_invoke_agent_after_provider_capacity_wait_tx sample_world ''w''
        ((cl_key sample_claim)\<lparr>ck_agent_execution_id := ''earlier''\<rparr>) 9 ''full'' sample_queue)
   = Inr (True, [''pending''], [''running''])"
  by code_simp

end
