(* ===== verification/Late_Outputs.thy ===== *)
theory Late_Outputs
  imports Artifact_Store_Properties Work_Queue_Properties
begin

text \<open>
  Outputs that come too late: once the claim of a source generation was superseded or closed, no writer of
  claims makes it active again, and what is imported under it is recorded and changes nothing a transition reads.
\<close>

section \<open>Every writer of the artifact tables\<close>

text \<open>
  The transactions of the repository, the engine's own artifacts, and the transactions of the work queue, which
  close and supersede claims. The start of an invocation inserts a claim and finalises a supersession through
  the repository.
\<close>

inductive artifact_step :: "artifact_store \<Rightarrow> artifact_store \<Rightarrow> bool" where
  repository: "store_step st st' \<Longrightarrow> artifact_step st st'"
| verified: "upsert_verified_generation_and_rebuild rd now i st = Inr st' \<Longrightarrow> artifact_step st st'"
| queue: "queue_step d d' \<Longrightarrow> artifact_step (wd_store d) (wd_store d')"

section \<open>A claim does not come back\<close>

lemma load_sql_update:
  assumes "\<And>c. cl_key (f c) = cl_key c"
  shows "load_source_generation_claim_tx k (st\<lparr>as_claims := sql_update P f (as_claims st)\<rparr>) =
    map_option (\<lambda>c. if P c then f c else c) (load_source_generation_claim_tx k st)"
proof -
  have "filter (\<lambda>c. cl_key c = k) (sql_update P f t) = sql_update P f (filter (\<lambda>c. cl_key c = k) t)" for t
    by (induction t) (auto simp: sql_update_def assms)
  moreover have "fetch_optional (sql_update P f t) = map_option (\<lambda>c. if P c then f c else c) (fetch_optional t)"
    for t by (cases t) (auto simp: sql_update_def fetch_optional_def)
  ultimately show ?thesis by (simp add: load_source_generation_claim_tx_def)
qed

definition claim_gone :: "claim_key \<Rightarrow> artifact_store \<Rightarrow> bool" where
  "claim_gone k st \<longleftrightarrow>
     (case load_source_generation_claim_tx k st of
        None \<Rightarrow> False | Some c \<Rightarrow> cl_claim_state c \<noteq> ClaimActive)"

lemma claim_gone_cong:
  "as_claims st' = as_claims st \<Longrightarrow> claim_gone k st' \<longleftrightarrow> claim_gone k st"
  by (simp add: claim_gone_def load_source_generation_claim_tx_def)

lemma claim_gone_inactive: "claim_gone k st \<Longrightarrow> \<not> active_claim st k session"
  by (auto simp: claim_gone_def active_claim_def split: option.splits)

lemma claim_gone_update:
  assumes "claim_gone k st" "\<And>c. cl_key (f c) = cl_key c"
    and "\<And>c. cl_claim_state c \<noteq> ClaimActive \<Longrightarrow> P c \<Longrightarrow> cl_claim_state (f c) \<noteq> ClaimActive"
  shows "claim_gone k (st\<lparr>as_claims := sql_update P f (as_claims st)\<rparr>)"
  using assms by (auto simp: claim_gone_def load_sql_update split: option.splits)

lemma repair_rows_claims:
  "repair_rows rd now run_id rows st n = Inr (st', m) \<Longrightarrow> as_claims st' = as_claims st"
proof (induction rows arbitrary: st n)
  case (Cons row rows)
  then obtain s b where "repair_row rd now run_id row st = Inr (s, b)" "as_claims st' = as_claims s"
    by (auto split: sum.splits)
  then show ?case by (auto simp: repair_row_def Let_def activate_def split: if_splits sum.splits)
qed simp

lemma writers_keep_claims:
  shows "upsert_generation_and_rebuild_tx rd now i st = Inr st' \<Longrightarrow> as_claims st' = as_claims st"
    and "upsert_verified_generation_and_rebuild rd now i st = Inr st' \<Longrightarrow> as_claims st' = as_claims st"
    and "import_generation_with_claim_cas_tx rd now k session i st = Inr (st', d) \<Longrightarrow> as_claims st' = as_claims st"
    and "repair_contract_status_normalization_tx rd now run_id st = Inr (st', n) \<Longrightarrow> as_claims st' = as_claims st"
proof -
  show "as_claims st' = as_claims st" if "upsert_generation_and_rebuild_tx rd now i st = Inr st'"
    using that by (rule upsert_shape) (simp add: Let_def activate_def)
  show "as_claims st' = as_claims st" if "upsert_verified_generation_and_rebuild rd now i st = Inr st'"
    using that by (auto simp: upsert_verified_generation_and_rebuild_def insert_generation_in_tx_def Let_def
        activate_def split: sum.splits if_splits)
  show "as_claims st' = as_claims st" if m: "import_generation_with_claim_cas_tx rd now k session i st = Inr (st', d)"
  proof (cases "active_claim st k session")
    case True
    with m show ?thesis by (rule import_claimed) (simp add: Let_def activate_def)
  next
    case False
    with m show ?thesis by (rule import_late) simp
  qed
  show "as_claims st' = as_claims st" if "repair_contract_status_normalization_tx rd now run_id st = Inr (st', n)"
    using that unfolding repair_contract_status_normalization_tx_def by (rule repair_rows_claims)
qed

lemma store_step_gone:
  assumes "store_step st st'" "claim_gone k st"
  shows "claim_gone k st'"
  using assms(1)
proof (cases rule: store_step.cases)
  case (claim c)
  with assms(2) show ?thesis
    by (auto simp: insert_source_generation_claim_tx_def claim_gone_def load_source_generation_claim_tx_def
        fetch_optional_def split: if_splits option.splits list.splits)
next
  case (override_created oid now oi)
  with assms(2) show ?thesis
    by (auto simp: create_override_and_rebuild_def result_case_Inr claim_gone_def
        load_source_generation_claim_tx_def split: if_splits)
next
  case (override_expired run_id stage now ids)
  with assms(2) show ?thesis
    by (auto simp: expire_overrides_for_stage_def Let_def claim_gone_def load_source_generation_claim_tx_def)
qed (use assms(2) in \<open>auto simp: claim_writer_defs Let_def claim_gone_cong [OF writers_keep_claims(1)]
      claim_gone_cong [OF writers_keep_claims(3)] claim_gone_cong [OF writers_keep_claims(4)]
      intro!: claim_gone_update\<close>)

text \<open>A table of claims that moved has the moved row first under each key.\<close>

lemma fetch_moved:
  assumes "list_all2 claim_moves t m" "fetch_optional (filter (\<lambda>c. cl_key c = k) t) = Some c"
  shows "\<exists>c'. fetch_optional (filter (\<lambda>c. cl_key c = k) (m @ n)) = Some c' \<and> claim_moves c c'"
  using assms
proof (induction t m rule: list_all2_induct)
  case (Cons x xs y ys)
  have "cl_key y = cl_key x" using Cons.hyps(1) by (simp add: claim_moves_def)
  with Cons show ?case by (cases "cl_key x = k") (auto simp: fetch_optional_def)
qed (simp add: fetch_optional_def)

lemma queue_step_gone:
  assumes "queue_step d d'" "claim_gone k (wd_store d)"
  shows "claim_gone k (wd_store d')"
proof -
  have "table_moves claim_moves (claims d) (claims d')"
    using queue_step_moves[OF assms(1)] by (simp add: queue_moves_def)
  then obtain m n where m: "claims d' = m @ n" "list_all2 claim_moves (claims d) m"
    by (auto simp: table_moves_def)
  obtain c where c: "load_source_generation_claim_tx k (wd_store d) = Some c" "cl_claim_state c \<noteq> ClaimActive"
    using assms(2) by (auto simp: claim_gone_def split: option.splits)
  with fetch_moved[OF m(2), of k c n] obtain c' where
    "load_source_generation_claim_tx k (wd_store d') = Some c'" "claim_moves c c'"
    by (auto simp: load_source_generation_claim_tx_def m(1))
  with c(2) show ?thesis by (simp add: claim_gone_def claim_moves_def)
qed

lemma artifact_step_gone: "artifact_step st st' \<Longrightarrow> claim_gone k st \<Longrightarrow> claim_gone k st'"
  by (induction rule: artifact_step.induct)
    (auto simp: claim_gone_cong [OF writers_keep_claims(2)] intro: store_step_gone queue_step_gone)

lemma artifact_run_gone: "artifact_step\<^sup>*\<^sup>* st st' \<Longrightarrow> claim_gone k st \<Longrightarrow> claim_gone k st'"
  by (induction rule: rtranclp_induct) (auto intro: artifact_step_gone)

section \<open>Properties\<close>

text \<open>
  C22: a claim that was superseded or closed is never active again: after any transactions of the repository, of the
  engine's own artifacts and of the work queue, its row is still there and not active. An output imported under
  it is then recorded as a late and invalid generation, leaves the active contracts and the claim as they are, and
  changes nothing a transition condition reads, provided that the identifier of its generation is not that of a
  generation some contract has active (the insert replaces a row of the same identifier).
\<close>

theorem late_outputs_change_nothing:
  assumes "load_source_generation_claim_tx k st = Some c" and "cl_claim_state c \<noteq> ClaimActive"
    and "artifact_step\<^sup>*\<^sup>* st st1"
    and "import_generation_with_claim_cas_tx rd now k session i st1 = Inr (st2, d)"
    and "gi_generation_id i \<notin> ac_generation_id ` set (as_active st1)"
  shows "(\<exists>c'. load_source_generation_claim_tx k st1 = Some c' \<and> cl_claim_state c' \<noteq> ClaimActive
       \<and> load_source_generation_claim_tx k st2 = Some c')
    \<and> d = IgnoredLateOutputs \<and> as_active st2 = as_active st1 \<and> same_truth st1 st2
    \<and> (\<exists>g \<in> set (as_generations st2). gr_generation_id g = gi_generation_id i
       \<and> gr_output_settlement g = IgnoredLateSettlement \<and> \<not> gr_valid g)"
proof -
  have "claim_gone k st" using assms(1,2) by (simp add: claim_gone_def)
  with assms(3) have gone: "claim_gone k st1" by (rule artifact_run_gone)
  then have "\<not> active_claim st1 k session" by (rule claim_gone_inactive)
  with assms(4) obtain g where g: "d = IgnoredLateOutputs" "gr_generation_id g = gi_generation_id i"
    "gr_output_settlement g = IgnoredLateSettlement" "\<not> gr_valid g"
    "st2 = st1\<lparr>as_generations := insert_or_replace g (as_generations st1)\<rparr>"
    by (rule import_late)
  then have "same_truth st1 st2" using assms(5) unread_generation_same_truth [of g st1] by simp
  moreover obtain c' where "load_source_generation_claim_tx k st1 = Some c'" "cl_claim_state c' \<noteq> ClaimActive"
    using gone by (auto simp: claim_gone_def split: option.splits)
  moreover have "load_source_generation_claim_tx k st2 = load_source_generation_claim_tx k st1"
    by (simp add: g(5) load_source_generation_claim_tx_def)
  ultimately show ?thesis using g by (auto simp: set_insert_or_replace)
qed

text \<open>The claim of the scenario is closed, and the work queue takes a step before the late output arrives.\<close>

definition closed_queue :: work_db where
  "closed_queue = empty_queue\<lparr>wd_store := close_source_generation_claim_tx ex_key 5 claimed_store\<rparr>"

theorem late_outputs_change_nothing_witness:
  "\<exists>st2. import_generation_with_claim_cas_tx (ex_reader JNull) 6 ex_key ''g''
      (ex_input ''docs_report_v1'' ''pass'' ''late'')
      (wd_store (fail_tx ''w'' ''broken'' 5 closed_queue)) = Inr (st2, IgnoredLateOutputs)
    \<and> same_truth (wd_store (fail_tx ''w'' ''broken'' 5 closed_queue)) st2"
proof -
  let ?st = "close_source_generation_claim_tx ex_key 5 claimed_store"
  let ?st1 = "wd_store (fail_tx ''w'' ''broken'' 5 closed_queue)"
  let ?i = "ex_input ''docs_report_v1'' ''pass'' ''late''"
  obtain st2 d where m: "import_generation_with_claim_cas_tx (ex_reader JNull) 6 ex_key ''g'' ?i ?st1 = Inr (st2, d)"
  proof -
    have "is_ok (import_generation_with_claim_cas_tx (ex_reader JNull) 6 ex_key ''g'' ?i ?st1)" by code_simp
    then show ?thesis using that by (auto simp: is_ok_def split: sum.splits)
  qed
  have l: "load_source_generation_claim_tx ex_key ?st = Some (ex_claim
      \<lparr>cl_claim_state := ClaimClosed, cl_closed_at := Some 5, cl_updated_at := 5\<rparr>)"
    by (simp add: close_source_generation_claim_tx_def load_source_generation_claim_tx_def claimed_store_def
        ex_claim_def sql_update_def fetch_optional_def)
  have "?st = wd_store closed_queue" by (simp add: closed_queue_def)
  then have run: "artifact_step\<^sup>*\<^sup>* ?st ?st1"
    using artifact_step.queue[OF queue_step.failed_item, of closed_queue "''w''" "''broken''" 5] by auto
  have "gi_generation_id ?i \<notin> ac_generation_id ` set (as_active ?st1)" by code_simp
  with late_outputs_change_nothing [OF l _ run m] m show ?thesis by auto
qed

end
