(* ===== verification/Run_Continuation.thy ===== *)
theory Run_Continuation
  imports Command_Journal Work_Queue
begin

text \<open>
  Continuing a blocked run in a successor: \<^verbatim>\<open>control-plane/crates/db/src/repos/run_continuations.rs\<close>, its
  recorded commands (\<^verbatim>\<open>run_continuation_commands.rs\<close>) and inputs (\<^verbatim>\<open>run_continuation_inputs.rs\<close>), on the
  tables of migrations 101 and 102, beside the work items and the command journal. Every definition is one
  transaction; an error rolls it back. The constraints and triggers of the migration that a statement
  of the repository can violate are part of the statement.

  Parameters: whether other work still owns the resources of a run (the query of
  \<open>ensure_quiescent_tx\<close> over some thirty tables), the witness of the state of a source, the printer and
  parser of recorded results, the canonical form of a request identifier, and the artifacts table as a set of owned
  inputs. Identifiers the code draws at random are arguments.
\<close>

section \<open>Phases and results of commands\<close>

datatype continuation_phase =
  PhasePreparing
  | PhasePrepared
  | PhaseAborting
  | PhaseNeedsReconciliation
  | PhaseActivated
  | PhaseAborted

fun show_continuation_phase :: "continuation_phase \<Rightarrow> string" where
  "show_continuation_phase PhasePreparing = ''preparing''"
| "show_continuation_phase PhasePrepared = ''prepared''"
| "show_continuation_phase PhaseAborting = ''aborting''"
| "show_continuation_phase PhaseNeedsReconciliation = ''needs_reconciliation''"
| "show_continuation_phase PhaseActivated = ''activated''"
| "show_continuation_phase PhaseAborted = ''aborted''"

definition known_phase :: "string \<Rightarrow> continuation_phase option" where
  "known_phase s =
     (if s = ''preparing'' then Some PhasePreparing
      else if s = ''prepared'' then Some PhasePrepared
      else if s = ''aborting'' then Some PhaseAborting
      else if s = ''needs_reconciliation'' then Some PhaseNeedsReconciliation
      else if s = ''activated'' then Some PhaseActivated
      else if s = ''aborted'' then Some PhaseAborted
      else None)"

lemma known_phase_show: "known_phase s = Some p \<longleftrightarrow> s = show_continuation_phase p"
  by (cases p) (auto simp: known_phase_def)

datatype continuation_reason_code =
  SourceNotBlocked | SourceBusy | SourceContinued | ContinuationInProgress | UnsupportedFrontier
  | TargetProfileInvalid | TargetPolicyIncompatible | SourceChanged | PreparedMaterialChanged
  | ArtifactProvenanceInvalid | UnsafePath | DestinationConflict | HeadlessEffectUnresolved
  | EffectOutcomeUnknown | HistoricalBindingUnproven | ContinuationBudgetExceeded | IdempotencyConflict
  | StaleOperationVersion | ContinuationCapacity | StorageUnavailable | RolloutHold | PreviewStale

fun show_reason_code :: "continuation_reason_code \<Rightarrow> string" where
  "show_reason_code SourceNotBlocked = ''source_not_blocked''"
| "show_reason_code SourceBusy = ''source_busy''"
| "show_reason_code SourceContinued = ''source_continued''"
| "show_reason_code ContinuationInProgress = ''continuation_in_progress''"
| "show_reason_code UnsupportedFrontier = ''unsupported_frontier''"
| "show_reason_code TargetProfileInvalid = ''target_profile_invalid''"
| "show_reason_code TargetPolicyIncompatible = ''target_policy_incompatible''"
| "show_reason_code SourceChanged = ''source_changed''"
| "show_reason_code PreparedMaterialChanged = ''prepared_material_changed''"
| "show_reason_code ArtifactProvenanceInvalid = ''artifact_provenance_invalid''"
| "show_reason_code UnsafePath = ''unsafe_path''"
| "show_reason_code DestinationConflict = ''destination_conflict''"
| "show_reason_code HeadlessEffectUnresolved = ''headless_effect_unresolved''"
| "show_reason_code EffectOutcomeUnknown = ''effect_outcome_unknown''"
| "show_reason_code HistoricalBindingUnproven = ''historical_binding_unproven''"
| "show_reason_code ContinuationBudgetExceeded = ''continuation_budget_exceeded''"
| "show_reason_code IdempotencyConflict = ''idempotency_conflict''"
| "show_reason_code StaleOperationVersion = ''stale_operation_version''"
| "show_reason_code ContinuationCapacity = ''continuation_capacity''"
| "show_reason_code StorageUnavailable = ''storage_unavailable''"
| "show_reason_code RolloutHold = ''rollout_hold''"
| "show_reason_code PreviewStale = ''preview_stale''"

datatype continuation_command_status = CommandAccepted | CommandDenied | CommandReplayed

datatype replay_of = ReplayOfAccepted | ReplayOfDenied

record operation_summary =
  os_operation_id :: ident
  os_phase :: continuation_phase
  os_version :: int
  os_successor_run_id :: "ident option"

record command_result =
  cr_status :: continuation_command_status
  cr_caller_request_id :: ident
  cr_journal_id :: "ident option"
  cr_operation :: "operation_summary option"
  cr_denial :: "continuation_reason_code option"
  cr_next_action :: string
  cr_replay_of :: "replay_of option"

fun original_status :: "continuation_command_status \<Rightarrow> replay_of option \<Rightarrow> replay_of option" where
  "original_status CommandAccepted None = Some ReplayOfAccepted"
| "original_status CommandDenied None = Some ReplayOfDenied"
| "original_status CommandReplayed (Some r) = Some r"
| "original_status _ _ = None"

definition validate_result :: "command_result \<Rightarrow> (string, unit) result" where
  "validate_result r =
     (case original_status (cr_status r) (cr_replay_of r) of
        None \<Rightarrow> Inl ''inconsistent replay status''
      | Some original \<Rightarrow>
          if original = ReplayOfAccepted \<and> (cr_operation r = None \<or> cr_journal_id r = None \<or> cr_denial r \<noteq> None)
          then Inl ''accepted requires operation and journal, without denial''
          else if original = ReplayOfDenied \<and> cr_denial r = None then Inl ''denied requires denial''
          else (case cr_operation r of
              Some s \<Rightarrow>
                if (os_phase s = PhaseActivated) \<noteq> (os_successor_run_id s \<noteq> None)
                then Inl ''successor is present only after activation'' else Inr ()
            | None \<Rightarrow>
                if cr_journal_id r \<noteq> None then Inl ''no operation before reservation implies no journal''
                else Inr ()))"

definition replayed :: "command_result \<Rightarrow> (string, command_result) result" where
  "replayed r =
     bind_res (validate_result r) (\<lambda>_.
       Inr (r\<lparr>cr_status := CommandReplayed, cr_replay_of := original_status (cr_status r) (cr_replay_of r)\<rparr>))"

section \<open>Tables\<close>

record continuation =
  co_operation_id :: ident
  co_source_run_id :: ident
  co_idea_id :: ident
  co_reserved_successor_run_id :: ident
  co_successor_run_id :: "ident option"
  co_caller_fingerprint :: string
  co_caller_request_id :: string
  co_intent_sha256 :: string
  co_phase :: string
  co_version :: int
  co_generation :: int
  co_plan_ref :: string
  co_plan_sha256 :: string
  co_target_ref :: string
  co_source_witness_sha256 :: string
  co_manifest_ref :: "string option"
  co_manifest_sha256 :: "string option"
  co_journal_id :: ident
  co_holds_json :: string
  co_worker_claimed :: bool
  co_created_at :: datetime
  co_updated_at :: datetime
  co_deadline_at :: datetime

record execution_fence =
  fe_source_run_id :: ident
  fe_operation_id :: ident
  fe_generation :: int
  fe_disposition :: string
  fe_created_at :: datetime

record continuation_step =
  sp_operation_id :: ident
  sp_step_key :: string
  sp_generation :: int
  sp_status :: string
  sp_intent_json :: string
  sp_destination_identity :: string
  sp_receipt_sha256 :: "string option"
  sp_updated_at :: datetime

record command_row =
  rc_caller_fingerprint :: string
  rc_caller_request_id :: string
  rc_command :: string
  rc_intent_sha256 :: string
  rc_source_run_id :: ident
  rc_operation_id :: "ident option"
  rc_result_json :: string
  rc_created_at :: datetime

record input_row =
  ri_input_id :: ident
  ri_operation_id :: ident
  ri_ordinal :: int
  ri_successor_run_id :: "ident option"
  ri_role :: string
  ri_source_kind :: string
  ri_source_id :: ident
  ri_source_run_id :: ident
  ri_original_artifact_id :: ident
  ri_source_schema :: string
  ri_content_sha256 :: string
  ri_target_logical_name :: string
  ri_target_relative_path :: string
  ri_installed :: bool
  ri_historical_relation_json :: string

record continuation_db =
  cd_work :: work_db
  cd_journal :: mcp_db
  cd_operations :: "continuation list"
  cd_fences :: "execution_fence list"
  cd_steps :: "continuation_step list"
  cd_commands :: "command_row list"
  cd_inputs :: "input_row list"

record continuation_world =
  kw_queue :: queue_world
  kw_busy :: "continuation_db \<Rightarrow> ident \<Rightarrow> bool"
  kw_observe :: "continuation_db \<Rightarrow> ident \<Rightarrow> ident option \<Rightarrow> (string, string) result"
  kw_print :: "command_result \<Rightarrow> string"
  kw_read :: "string \<Rightarrow> (string, command_result) result"
  kw_request_id :: "string \<Rightarrow> string option"
  kw_artifact_owned :: "ident \<Rightarrow> ident \<Rightarrow> string \<Rightarrow> bool"
  kw_json_valid :: "string \<Rightarrow> bool"

text \<open>The queue sees the sources that are fenced.\<close>

definition set_fences :: "execution_fence list \<Rightarrow> continuation_db \<Rightarrow> continuation_db" where
  "set_fences fs d = d\<lparr>cd_fences := fs, cd_work := (cd_work d)\<lparr>wd_fences := map fe_source_run_id fs\<rparr>\<rparr>"

definition fence_of :: "ident \<Rightarrow> continuation_db \<Rightarrow> execution_fence option" where
  "fence_of run d = fetch_optional (filter (\<lambda>f. fe_source_run_id f = run) (cd_fences d))"

text \<open>\<^verbatim>\<open>length(x)=64 AND x NOT GLOB '*[^0-9a-f]*'\<close> and the length checks of the migration.\<close>

definition is_sha256 :: "string \<Rightarrow> bool" where
  "is_sha256 s \<longleftrightarrow> length s = 64 \<and> list_all (\<lambda>c. (48 \<le> byte c \<and> byte c \<le> 57) \<or> (97 \<le> byte c \<and> byte c \<le> 102)) s"

text \<open>SQLite counts the characters of a text: the bytes that do not continue one.\<close>

definition char_length :: "string \<Rightarrow> nat" where
  "char_length s = length (filter (\<lambda>c. \<not> (128 \<le> byte c \<and> byte c < 192)) s)"

definition bounded_ref :: "string \<Rightarrow> bool" where
  "bounded_ref s \<longleftrightarrow> 1 \<le> length s \<and> int (length s) \<le> 4096"

abbreviation open_phases :: "string set" where
  "open_phases \<equiv> {''preparing'', ''prepared'', ''aborting'', ''needs_reconciliation''}"

abbreviation ended_runs :: "string set" where
  "ended_runs \<equiv> {''completed'', ''failed'', ''cancelled''}"

definition ensure :: "bool \<Rightarrow> string \<Rightarrow> (string, unit) result" where
  "ensure b e = (if b then Inr () else Inl e)"

lemma ensure_eq_Inr [simp]: "ensure b e = Inr x \<longleftrightarrow> b"
  by (simp add: ensure_def)

text \<open>
  \<^verbatim>\<open>INSERT INTO run_continuations\<close> with its keys, its two partial unique indexes and its checks.
\<close>

definition op_insertable :: "continuation \<Rightarrow> continuation list \<Rightarrow> bool" where
  "op_insertable c ops \<longleftrightarrow>
     co_operation_id c \<notin> co_operation_id ` set ops
     \<and> co_reserved_successor_run_id c \<notin> co_reserved_successor_run_id ` set ops
     \<and> \<not> list_ex (\<lambda>x. co_caller_fingerprint x = co_caller_fingerprint c \<and> co_caller_request_id x = co_caller_request_id c) ops
     \<and> \<not> list_ex (\<lambda>x. co_source_run_id x = co_source_run_id c \<and> co_phase x \<noteq> ''aborted'') ops
     \<and> \<not> list_ex (\<lambda>x. co_idea_id x = co_idea_id c \<and> co_phase x \<in> open_phases) ops
     \<and> is_sha256 (co_intent_sha256 c) \<and> is_sha256 (co_plan_sha256 c) \<and> is_sha256 (co_source_witness_sha256 c)
     \<and> bounded_ref (co_plan_ref c) \<and> bounded_ref (co_target_ref c)
     \<and> co_source_run_id c \<noteq> co_reserved_successor_run_id c"

text \<open>The trigger \<^verbatim>\<open>run_continuation_transition\<close> and the checks on a row.\<close>

definition phase_moves :: "string \<Rightarrow> string \<Rightarrow> bool" where
  "phase_moves p q \<longleftrightarrow>
     p = ''preparing'' \<and> q \<in> {''preparing'', ''prepared'', ''needs_reconciliation'', ''aborting''}
     \<or> p = ''prepared'' \<and> q \<in> {''activated'', ''needs_reconciliation'', ''aborting''}
     \<or> p = ''needs_reconciliation'' \<and> q \<in> {''needs_reconciliation'', ''prepared'', ''aborting''}
     \<or> p = ''aborting'' \<and> q \<in> {''aborting'', ''aborted''}"

definition unresolved_step :: "ident \<Rightarrow> continuation_db \<Rightarrow> bool" where
  "unresolved_step i d \<longleftrightarrow>
     list_ex (\<lambda>s. sp_operation_id s = i \<and> sp_status s \<in> {''dispatching'', ''unknown''}) (cd_steps d)"

definition op_update_allowed :: "continuation_db \<Rightarrow> continuation \<Rightarrow> continuation \<Rightarrow> bool" where
  "op_update_allowed d c n \<longleftrightarrow>
     co_version n = co_version c + 1 \<and> co_generation c \<le> co_generation n \<and> phase_moves (co_phase c) (co_phase n)
     \<and> (co_phase n = ''aborting'' \<and> co_phase c \<noteq> ''aborting'' \<longrightarrow> co_generation n = co_generation c + 1)
     \<and> (co_phase n = ''aborted'' \<longrightarrow> \<not> co_worker_claimed n \<and> \<not> unresolved_step (co_operation_id n) d)
     \<and> (if co_phase n = ''activated'' then co_successor_run_id n = Some (co_reserved_successor_run_id n)
        else co_successor_run_id n = None)
     \<and> (co_phase n \<in> {''prepared'', ''activated''} \<longrightarrow> co_manifest_ref n \<noteq> None \<and> co_manifest_sha256 n \<noteq> None)
     \<and> (case co_manifest_ref n of None \<Rightarrow> True | Some r \<Rightarrow> bounded_ref r)
     \<and> (case co_manifest_sha256 n of None \<Rightarrow> True | Some s \<Rightarrow> is_sha256 s)"

definition update_op ::
  "(continuation \<Rightarrow> bool) \<Rightarrow> (continuation \<Rightarrow> continuation) \<Rightarrow> continuation_db \<Rightarrow> (string, continuation_db) result" where
  "update_op P f d =
     (if list_ex (\<lambda>c. P c \<and> \<not> op_update_allowed d c (f c)) (cd_operations d)
      then Inl ''continuation_invalid_transition''
      else Inr (d\<lparr>cd_operations := sql_update P f (cd_operations d)\<rparr>))"

definition update_steps ::
  "(continuation_step \<Rightarrow> bool) \<Rightarrow> (continuation_step \<Rightarrow> continuation_step) \<Rightarrow> continuation_db \<Rightarrow> continuation_db" where
  "update_steps P f d = d\<lparr>cd_steps := sql_update P f (cd_steps d)\<rparr>"

definition set_unknown :: "datetime \<Rightarrow> continuation_step \<Rightarrow> continuation_step" where
  "set_unknown now s = s\<lparr>sp_status := ''unknown'', sp_updated_at := now\<rparr>"

text \<open>The items that prepare an operation.\<close>

definition prepares :: "continuation_world \<Rightarrow> ident \<Rightarrow> work_item_row \<Rightarrow> bool" where
  "prepares kw i w \<longleftrightarrow>
     wi_kind w = ''prepare_run_continuation''
     \<and> Option.bind (qw_from_str (kw_queue kw) (wi_payload_json w)) (\<lambda>p. get_str p ''operation_id'') = Some i"

definition queued_preparation :: "continuation_world \<Rightarrow> ident \<Rightarrow> string set \<Rightarrow> continuation_db \<Rightarrow> bool" where
  "queued_preparation kw i statuses d \<longleftrightarrow>
     list_ex (\<lambda>w. prepares kw i w \<and> wi_status w \<in> statuses) (items (cd_work d))"

definition end_preparations ::
  "(work_item_row \<Rightarrow> bool) \<Rightarrow> string \<Rightarrow> datetime \<Rightarrow> continuation_db \<Rightarrow> continuation_db" where
  "end_preparations P status now d =
     d\<lparr>cd_work := update_items P (\<lambda>w. w\<lparr>wi_status := status, wi_completed_at := Some now\<rparr>) (cd_work d)\<rparr>"

definition cancel_preparation ::
  "continuation_world \<Rightarrow> ident \<Rightarrow> string set \<Rightarrow> datetime \<Rightarrow> continuation_db \<Rightarrow> continuation_db" where
  "cancel_preparation kw i statuses now d =
     end_preparations (\<lambda>w. prepares kw i w \<and> wi_status w \<in> statuses) ''cancelled'' now d"

definition hold_json :: "string \<Rightarrow> string" where
  "hold_json r = ''['' @ [CHR 0x22] @ r @ [CHR 0x22] @ '']''"

definition hold_reasons :: "string set" where
  "hold_reasons = {''effect_outcome_unknown'', ''source_changed'', ''prepared_material_changed'',
                   ''continuation_budget_exceeded''}"

definition get_tx :: "ident \<Rightarrow> continuation_db \<Rightarrow> (string, continuation) result" where
  "get_tx i d = ok_or (fetch_optional (filter (\<lambda>c. co_operation_id c = i) (cd_operations d))) ''no row''"

abbreviation named :: "ident \<Rightarrow> continuation \<Rightarrow> bool" where
  "named i c \<equiv> co_operation_id c = i"

section \<open>Reading\<close>

definition find_continuation :: "ident \<Rightarrow> continuation_db \<Rightarrow> continuation option" where
  "find_continuation i d = fetch_optional (filter (named i) (cd_operations d))"

definition links :: "ident \<Rightarrow> continuation_db \<Rightarrow> continuation option \<times> continuation option" where
  "links run d =
     (fetch_optional (filter (\<lambda>c. co_successor_run_id c = Some run \<and> co_phase c = ''activated'') (cd_operations d)),
      fetch_optional (filter (\<lambda>c. co_source_run_id c = run \<and> co_phase c \<noteq> ''aborted'') (cd_operations d)))"

definition check_disposition :: "string option \<Rightarrow> (string, unit) result" where
  "check_disposition dis =
     (case dis of
        None \<Rightarrow> Inr ()
      | Some s \<Rightarrow> if s = ''historical'' then Inl ''source_continued'' else Inl ''continuation_in_progress'')"

definition check_source_guard :: "ident \<Rightarrow> continuation_db \<Rightarrow> (string, unit) result" where
  "check_source_guard run d = check_disposition (map_option fe_disposition (fence_of run d))"

definition ensure_quiescent_tx :: "continuation_world \<Rightarrow> ident \<Rightarrow> continuation_db \<Rightarrow> (string, unit) result" where
  "ensure_quiescent_tx kw run d = ensure (\<not> kw_busy kw d run) ''source_busy''"

text \<open>The witness of the source must be the one the plan was made for.\<close>

definition check_witness ::
  "continuation_world \<Rightarrow> ident \<Rightarrow> ident option \<Rightarrow> string \<Rightarrow> continuation_db \<Rightarrow> (string, unit) result" where
  "check_witness kw run own sha d =
     bind_res (ok_or (qw_uuid (kw_queue kw) run) ''invalid uuid'') (\<lambda>source.
     bind_res (kw_observe kw d source own) (\<lambda>observed.
       ensure (strip_prefix observed ''sha256:'' = Some sha) ''source_changed''))"

section \<open>Recorded commands\<close>

record command_identity =
  id_caller_fingerprint :: string
  id_caller_request_id :: string
  id_command :: string
  id_intent_sha256 :: string

definition decode_command ::
  "continuation_world \<Rightarrow> command_row option \<Rightarrow> string \<Rightarrow> string \<Rightarrow> (string, command_result option) result" where
  "decode_command kw row command intent =
     (case row of
        None \<Rightarrow> Inr None
      | Some r \<Rightarrow>
          bind_res (ensure (rc_command r = command \<and> rc_intent_sha256 r = intent) ''idempotency_conflict'') (\<lambda>_.
          bind_res (kw_read kw (rc_result_json r)) (\<lambda>res.
          bind_res (validate_result res) (\<lambda>_. Inr (Some res)))))"

definition find_command_tx ::
  "continuation_world \<Rightarrow> command_identity \<Rightarrow> continuation_db \<Rightarrow> (string, command_result option) result" where
  "find_command_tx kw c d =
     decode_command kw
       (fetch_optional (filter (\<lambda>r. rc_caller_fingerprint r = id_caller_fingerprint c
          \<and> rc_caller_request_id r = id_caller_request_id c) (cd_commands d)))
       (id_command c) (id_intent_sha256 c)"

abbreviation command_names :: "string set" where
  "command_names \<equiv> {''runs.continue_blocked'', ''runs.continuation_activate'', ''runs.continuation_reconcile'',
                     ''runs.continuation_abort''}"

definition record_command_tx ::
  "continuation_world \<Rightarrow> command_identity \<Rightarrow> ident \<Rightarrow> command_result \<Rightarrow> datetime \<Rightarrow> continuation_db
     \<Rightarrow> (string, continuation_db) result" where
  "record_command_tx kw c source res now d =
     bind_res (validate_result res) (\<lambda>_.
     bind_res (ensure (cr_caller_request_id res = id_caller_request_id c) ''idempotency_conflict'') (\<lambda>_.
     bind_res (ensure (int (length (kw_print kw res)) \<le> 65536) ''continuation result bound'') (\<lambda>_.
     bind_res (find_command_tx kw c d) (\<lambda>previous.
       case previous of
         Some p \<Rightarrow> bind_res (ensure (p = res) ''idempotency_conflict'') (\<lambda>_. Inr d)
       | None \<Rightarrow>
           bind_res (ensure (id_command c \<in> command_names \<and> is_sha256 (id_intent_sha256 c)) ''CHECK constraint failed'') (\<lambda>_.
             Inr (d\<lparr>cd_commands := cd_commands d @
               [\<lparr>rc_caller_fingerprint = id_caller_fingerprint c, rc_caller_request_id = id_caller_request_id c,
                 rc_command = id_command c, rc_intent_sha256 = id_intent_sha256 c, rc_source_run_id = source,
                 rc_operation_id = map_option os_operation_id (cr_operation res),
                 rc_result_json = kw_print kw res, rc_created_at = now\<rparr>]\<rparr>))))))"

definition summary_of :: "continuation \<Rightarrow> (string, operation_summary) result" where
  "summary_of op =
     bind_res (ok_or (known_phase (co_phase op)) ''unknown variant'') (\<lambda>p.
     bind_res (ensure (0 < co_version op \<and> co_version op < 2 ^ 63) ''positive i64 version required'') (\<lambda>_.
       Inr \<lparr>os_operation_id = co_operation_id op, os_phase = p, os_version = co_version op,
            os_successor_run_id = co_successor_run_id op\<rparr>))"

definition accepted :: "continuation_world \<Rightarrow> continuation \<Rightarrow> string \<Rightarrow> ident \<Rightarrow> (string, command_result) result" where
  "accepted kw op request journal =
     bind_res (ok_or (kw_request_id kw request) ''caller_request_id must be UUIDv4'') (\<lambda>rid.
     bind_res (summary_of op) (\<lambda>s.
       let r = \<lparr>cr_status = CommandAccepted, cr_caller_request_id = rid, cr_journal_id = Some journal,
                cr_operation = Some s, cr_denial = None,
                cr_next_action = (if co_phase op = ''preparing'' then ''await_worker'' else ''read_operation''),
                cr_replay_of = None\<rparr>
       in bind_res (validate_result r) (\<lambda>_. Inr r)))"

definition denied ::
  "continuation_world \<Rightarrow> string \<Rightarrow> continuation option \<Rightarrow> continuation_reason_code \<Rightarrow> (string, command_result) result" where
  "denied kw request operation code =
     bind_res (ok_or (kw_request_id kw request) ''caller_request_id must be UUIDv4'') (\<lambda>rid.
     bind_res (case operation of None \<Rightarrow> Inr None | Some op \<Rightarrow> bind_res (summary_of op) (\<lambda>s. Inr (Some s))) (\<lambda>s.
       let r = \<lparr>cr_status = CommandDenied, cr_caller_request_id = rid,
                cr_journal_id = map_option co_journal_id operation, cr_operation = s, cr_denial = Some code,
                cr_next_action = ''resolve_hold'', cr_replay_of = None\<rparr>
       in bind_res (validate_result r) (\<lambda>_. Inr r)))"

definition record_denial ::
  "continuation_world \<Rightarrow> command_identity \<Rightarrow> ident \<Rightarrow> continuation option \<Rightarrow> continuation_reason_code \<Rightarrow> datetime
     \<Rightarrow> continuation_db \<Rightarrow> (string, continuation_db \<times> command_result) result" where
  "record_denial kw c source operation code now d =
     bind_res (find_command_tx kw c d) (\<lambda>previous.
       case previous of
         Some p \<Rightarrow> bind_res (replayed p) (\<lambda>r. Inr (d, r))
       | None \<Rightarrow>
           bind_res (ensure (case operation of None \<Rightarrow> True | Some op \<Rightarrow> co_source_run_id op = source)
              ''artifact_provenance_invalid'') (\<lambda>_.
           bind_res (denied kw (id_caller_request_id c) operation code) (\<lambda>r.
           bind_res (record_command_tx kw c source r now d) (\<lambda>d'. Inr (d', r)))))"

definition journal_tx :: "journal_request \<Rightarrow> continuation_db \<Rightarrow> (string, continuation_db) result" where
  "journal_tx q d =
     (case record_tx q (cd_journal d) of
        Inl _ \<Rightarrow> Inl ''UNIQUE constraint failed'' | Inr j \<Rightarrow> Inr (d\<lparr>cd_journal := j\<rparr>))"

definition journal_done :: "ident \<Rightarrow> datetime \<Rightarrow> continuation_db \<Rightarrow> continuation_db" where
  "journal_done j now d = d\<lparr>cd_journal := complete_entry_tx j now (cd_journal d)\<rparr>"

definition operator_request ::
  "ident \<Rightarrow> string \<Rightarrow> string \<Rightarrow> ident \<Rightarrow> datetime \<Rightarrow> string \<Rightarrow> string \<Rightarrow> string \<Rightarrow> journal_request" where
  "operator_request j command payload run now caller tool request =
     \<lparr>jr_id = j, jr_command_type = command, jr_payload_json = payload, jr_run_id = Some run, jr_created_at = now,
      jr_caller_surface = Some ''mcp'', jr_caller_principal_id = Some caller,
      jr_caller_principal_class = Some ''operator'', jr_caller_tool = Some tool, jr_request_id = Some request,
      jr_caller_class = Some ''operator'', jr_mcp_idempotency_key = None, jr_boundary_row_id = None\<rparr>"

definition record_operation_command_tx ::
  "continuation_world \<Rightarrow> continuation \<Rightarrow> command_identity \<Rightarrow> ident \<Rightarrow> datetime \<Rightarrow> continuation_db
     \<Rightarrow> (string, continuation_db) result" where
  "record_operation_command_tx kw op c j now d =
     bind_res (journal_tx (operator_request j (id_command c)
         (qw_to_string (kw_queue kw) (JObject [(''operation_id'', JString (co_operation_id op)),
            (''version'', JInt (co_version op))]))
         (co_source_run_id op) now (id_caller_fingerprint c) (id_command c) (id_caller_request_id c)) d) (\<lambda>d1.
       Inr (journal_done j now d1))"

text \<open>The end of every operator command: journal, result, recorded result.\<close>

definition conclude ::
  "continuation_world \<Rightarrow> continuation \<Rightarrow> command_identity \<Rightarrow> ident \<Rightarrow> datetime \<Rightarrow> continuation_db
     \<Rightarrow> (string, continuation_db \<times> command_result) result" where
  "conclude kw op c j now d =
     bind_res (record_operation_command_tx kw op c j now d) (\<lambda>d1.
     bind_res (accepted kw op (id_caller_request_id c) j) (\<lambda>r.
     bind_res (record_command_tx kw c (co_source_run_id op) r now d1) (\<lambda>d2. Inr (d2, r))))"

text \<open>Its beginning: the name of the command, and the answer of a command that was recorded before.\<close>

definition command_tx ::
  "continuation_world \<Rightarrow> string \<Rightarrow> command_identity \<Rightarrow> continuation_db
     \<Rightarrow> (continuation_db \<Rightarrow> (string, continuation_db \<times> command_result) result)
     \<Rightarrow> (string, continuation_db \<times> command_result) result" where
  "command_tx kw name c d body =
     bind_res (ensure (id_command c = name) ''invalid continuation command'') (\<lambda>_.
     bind_res (find_command_tx kw c d) (\<lambda>previous.
       case previous of
         Some p \<Rightarrow> bind_res (replayed p) (\<lambda>r. Inr (d, r))
       | None \<Rightarrow> body d))"

section \<open>Reserving\<close>

record reservation =
  rq_source_run_id :: ident
  rq_caller_fingerprint :: string
  rq_caller_request_id :: string
  rq_intent_sha256 :: string
  rq_plan_ref :: string
  rq_plan_sha256 :: string
  rq_target_ref :: string
  rq_source_witness_sha256 :: string
  rq_reason :: string

text \<open>The identifiers a reservation draws.\<close>

record fresh_ids =
  fr_operation :: ident
  fr_successor :: ident
  fr_journal :: ident
  fr_item :: ident

definition path_join :: "string \<Rightarrow> string \<Rightarrow> string" where
  "path_join p q =
     (if starts_with q ''/'' then q else if p = [] \<or> last p = CHR ''/'' then p @ q else p @ ''/'' @ q)"

definition owned_ref :: "string option \<Rightarrow> ident \<Rightarrow> string \<Rightarrow> string \<Rightarrow> string" where
  "owned_ref parent op name given =
     (case parent of None \<Rightarrow> given | Some p \<Rightarrow> path_join (path_join p op) name)"

definition competing :: "ident \<Rightarrow> ident \<Rightarrow> continuation_db \<Rightarrow> bool" where
  "competing idea source d \<longleftrightarrow>
     list_ex (\<lambda>r. rr_idea_id r = idea \<and> rr_id r \<noteq> source \<and> rr_status r \<notin> ended_runs \<and> fence_of (rr_id r) d = None)
       (runs (cd_work d))
     \<or> list_ex (\<lambda>c. co_idea_id c = idea \<and> co_phase c \<in> open_phases) (cd_operations d)"

definition reserved_row :: "reservation \<Rightarrow> fresh_ids \<Rightarrow> ident \<Rightarrow> string option \<Rightarrow> datetime \<Rightarrow> continuation" where
  "reserved_row rq fr idea parent now =
     \<lparr>co_operation_id = fr_operation fr, co_source_run_id = rq_source_run_id rq, co_idea_id = idea,
      co_reserved_successor_run_id = fr_successor fr, co_successor_run_id = None,
      co_caller_fingerprint = rq_caller_fingerprint rq, co_caller_request_id = rq_caller_request_id rq,
      co_intent_sha256 = rq_intent_sha256 rq, co_phase = ''preparing'', co_version = 1, co_generation = 1,
      co_plan_ref = owned_ref parent (fr_operation fr) ''plan.json'' (rq_plan_ref rq),
      co_plan_sha256 = rq_plan_sha256 rq,
      co_target_ref = owned_ref parent (fr_operation fr) ''target.json'' (rq_target_ref rq),
      co_source_witness_sha256 = rq_source_witness_sha256 rq, co_manifest_ref = None, co_manifest_sha256 = None,
      co_journal_id = fr_journal fr, co_holds_json = ''[]'', co_worker_claimed = False,
      co_created_at = now, co_updated_at = now, co_deadline_at = now + 15 * 60 * 1000\<rparr>"

definition new_item :: "ident \<Rightarrow> string \<Rightarrow> string \<Rightarrow> ident option \<Rightarrow> datetime \<Rightarrow> work_item_row" where
  "new_item i kind payload run now =
     \<lparr>wi_id = i, wi_kind = kind, wi_payload_json = payload, wi_status = ''pending'', wi_run_id = run,
      wi_stage_id = None, wi_created_at = now, wi_scheduled_at = now, wi_started_at = None,
      wi_completed_at = None, wi_failed_at = None, wi_attempt_count = 0, wi_last_error = None,
      wi_worktree_resource_key = None\<rparr>"

definition preparation_payload :: "continuation_world \<Rightarrow> ident \<Rightarrow> string" where
  "preparation_payload kw i =
     qw_to_string (kw_queue kw) (JObject [(''operation_id'', JString i), (''generation'', JInt 1)])"

definition enqueue_in :: "work_item_row \<Rightarrow> continuation_db \<Rightarrow> (string, continuation_db) result" where
  "enqueue_in w d = bind_res (enqueue_tx w (cd_work d)) (\<lambda>q. Inr (d\<lparr>cd_work := q\<rparr>))"

text \<open>
  The rows of a reservation. The triggers on a new fence are implied: the run is blocked and of the idea of
  the operation, the operation is new, and the source has no fence.
\<close>

definition admit_reservation ::
  "continuation_world \<Rightarrow> string option \<Rightarrow> reservation \<Rightarrow> fresh_ids \<Rightarrow> ident \<Rightarrow> datetime \<Rightarrow> continuation_db
     \<Rightarrow> (string, continuation_db \<times> continuation) result" where
  "admit_reservation kw parent rq fr idea now d =
     (let row = reserved_row rq fr idea parent now;
          fence = \<lparr>fe_source_run_id = rq_source_run_id rq, fe_operation_id = fr_operation fr, fe_generation = 1,
                   fe_disposition = ''reserved'', fe_created_at = now\<rparr>;
          payload = qw_to_string (kw_queue kw)
            (JObject [(''operation_id'', JString (fr_operation fr)), (''source_run_id'', JString (rq_source_run_id rq)),
              (''plan_sha256'', JString (rq_plan_sha256 rq)), (''reason'', JString (rq_reason rq))])
      in bind_res (journal_tx (operator_request (fr_journal fr) ''ContinueBlocked'' payload (rq_source_run_id rq) now
             (rq_caller_fingerprint rq) ''runs.continue_blocked'' (rq_caller_request_id rq)) d) (\<lambda>d1.
         bind_res (ensure (op_insertable row (cd_operations d1)) ''constraint failed'') (\<lambda>_.
         bind_res (enqueue_in (new_item (fr_item fr) ''prepare_run_continuation'' (preparation_payload kw (fr_operation fr))
             None now) (set_fences (cd_fences d1 @ [fence]) (d1\<lparr>cd_operations := cd_operations d1 @ [row]\<rparr>))) (\<lambda>d2.
         bind_res (accepted kw row (rq_caller_request_id rq) (fr_journal fr)) (\<lambda>receipt.
         bind_res (record_command_tx kw
             \<lparr>id_caller_fingerprint = rq_caller_fingerprint rq, id_caller_request_id = rq_caller_request_id rq,
              id_command = ''runs.continue_blocked'', id_intent_sha256 = rq_intent_sha256 rq\<rparr>
             (rq_source_run_id rq) receipt now (journal_done (fr_journal fr) now d2)) (\<lambda>d3.
           Inr (d3, row)))))))"

definition reserve_impl ::
  "continuation_world \<Rightarrow> string option \<Rightarrow> reservation \<Rightarrow> fresh_ids \<Rightarrow> datetime \<Rightarrow> continuation_db
     \<Rightarrow> (string, continuation_db \<times> continuation) result" where
  "reserve_impl kw parent rq fr now d =
     bind_res (ensure (\<not> is_blank (rq_reason rq) \<and> int (length (rq_reason rq)) \<le> 4096) ''invalid reason'') (\<lambda>_.
     case fetch_optional (filter (\<lambda>c. co_caller_fingerprint c = rq_caller_fingerprint rq
            \<and> co_caller_request_id c = rq_caller_request_id rq) (cd_operations d)) of
       Some previous \<Rightarrow>
         bind_res (ensure (co_intent_sha256 previous = rq_intent_sha256 rq) ''idempotency_conflict'') (\<lambda>_. Inr (d, previous))
     | None \<Rightarrow>
         bind_res (ensure (\<not> list_ex (\<lambda>c. co_worker_claimed c \<and> co_phase c \<noteq> ''preparing'') (cd_operations d))
            ''effect_outcome_unknown'') (\<lambda>_.
         bind_res (check_source_guard (rq_source_run_id rq) d) (\<lambda>_.
         bind_res (ok_or (fetch_optional (filter (\<lambda>r. rr_id r = rq_source_run_id rq) (runs (cd_work d))))
            ''source_not_blocked'') (\<lambda>run.
         bind_res (ensure (rr_status run = ''blocked'') ''source_not_blocked'') (\<lambda>_.
         bind_res (ensure (\<not> competing (rr_idea_id run) (rq_source_run_id rq) d) ''continuation_in_progress'') (\<lambda>_.
         bind_res (ensure_quiescent_tx kw (rq_source_run_id rq) d) (\<lambda>_.
         bind_res (if parent = None then Inr ()
                   else check_witness kw (rq_source_run_id rq) None (rq_source_witness_sha256 rq) d) (\<lambda>_.
         bind_res (ensure (rows_affected (\<lambda>c. co_phase c = ''preparing'') (cd_operations d) < 4) ''continuation_capacity'') (\<lambda>_.
           admit_reservation kw parent rq fr (rr_idea_id run) now d)))))))))"

definition reserve ::
  "continuation_world \<Rightarrow> reservation \<Rightarrow> fresh_ids \<Rightarrow> datetime \<Rightarrow> continuation_db
     \<Rightarrow> (string, continuation_db \<times> continuation) result" where
  "reserve kw = reserve_impl kw None"

definition reserve_checked ::
  "continuation_world \<Rightarrow> string \<Rightarrow> reservation \<Rightarrow> fresh_ids \<Rightarrow> datetime \<Rightarrow> continuation_db
     \<Rightarrow> (string, continuation_db \<times> continuation) result" where
  "reserve_checked kw parent rq fr now d =
     bind_res (ensure (starts_with parent ''/'') ''unsafe_path'') (\<lambda>_. reserve_impl kw (Some parent) rq fr now d)"

section \<open>Preparing\<close>

definition bump :: "datetime \<Rightarrow> continuation \<Rightarrow> continuation" where
  "bump now c = c\<lparr>co_version := co_version c + 1, co_updated_at := now\<rparr>"

definition claimable :: "continuation_world \<Rightarrow> ident option \<Rightarrow> continuation_db \<Rightarrow> continuation list" where
  "claimable kw own d =
     sort_key (\<lambda>c. (co_created_at c, co_operation_id c))
       (filter (\<lambda>c. co_phase c = ''preparing'' \<and> \<not> co_worker_claimed c
          \<and> (case own of None \<Rightarrow> True | Some i \<Rightarrow> co_operation_id c = i)
          \<and> queued_preparation kw (co_operation_id c) {''pending''} d) (cd_operations d))"

definition claim_preparation_matching ::
  "continuation_world \<Rightarrow> ident option \<Rightarrow> datetime \<Rightarrow> continuation_db
     \<Rightarrow> (string, continuation_db \<times> continuation option) result" where
  "claim_preparation_matching kw own now d =
     (if list_ex co_worker_claimed (cd_operations d) then Inr (d, None)
      else case fetch_optional (claimable kw own d) of
        None \<Rightarrow> Inr (d, None)
      | Some c \<Rightarrow>
          let i = co_operation_id c in
          if co_deadline_at c \<le> now then
            bind_res (update_op (named i)
               (\<lambda>o'. (bump now o')\<lparr>co_phase := ''needs_reconciliation'',
                       co_holds_json := hold_json ''continuation_budget_exceeded''\<rparr>) d) (\<lambda>d1.
              Inr (cancel_preparation kw i {''pending''} now d1, None))
          else
            bind_res (update_op (named i) (\<lambda>o'. (bump now o')\<lparr>co_worker_claimed := True\<rparr>) d) (\<lambda>d1.
              let d2 = d1\<lparr>cd_work := update_items (\<lambda>w. prepares kw i w \<and> wi_status w = ''pending'')
                    (\<lambda>w. w\<lparr>wi_status := ''running'', wi_started_at := Some now,
                           wi_attempt_count := wi_attempt_count w + 1\<rparr>) (cd_work d1)\<rparr>
              in bind_res (get_tx i d2) (\<lambda>claim. Inr (d2, Some claim))))"

text \<open>The guard of the worker that holds the claim.\<close>

definition current_worker :: "int \<Rightarrow> continuation \<Rightarrow> bool" where
  "current_worker g op \<longleftrightarrow> co_phase op = ''preparing'' \<and> co_generation op = g \<and> co_worker_claimed op"

definition step_insertable :: "continuation_world \<Rightarrow> continuation_step \<Rightarrow> continuation_step list \<Rightarrow> bool" where
  "step_insertable kw s steps \<longleftrightarrow>
     \<not> list_ex (\<lambda>x. sp_operation_id x = sp_operation_id s \<and> sp_step_key x = sp_step_key s) steps
     \<and> 1 \<le> char_length (sp_step_key s) \<and> char_length (sp_step_key s) \<le> 128
     \<and> kw_json_valid kw (sp_intent_json s) \<and> int (length (sp_intent_json s)) \<le> 65536 \<and> bounded_ref (sp_destination_identity s)"

definition begin_step ::
  "continuation_world \<Rightarrow> ident \<Rightarrow> int \<Rightarrow> string \<Rightarrow> string \<Rightarrow> string \<Rightarrow> datetime \<Rightarrow> continuation_db \<Rightarrow> (string, continuation_db) result" where
  "begin_step kw i g key intent destination now d =
     bind_res (get_tx i d) (\<lambda>op.
     bind_res (ensure (current_worker g op) ''continuation_stale_worker'') (\<lambda>_.
     bind_res (ensure (now < co_deadline_at op) ''continuation_budget_exceeded'') (\<lambda>_.
       let s = \<lparr>sp_operation_id = i, sp_step_key = key, sp_generation = g, sp_status = ''dispatching'',
                sp_intent_json = intent, sp_destination_identity = destination, sp_receipt_sha256 = None,
                sp_updated_at = now\<rparr>
       in bind_res (ensure (step_insertable kw s (cd_steps d)) ''constraint failed'') (\<lambda>_.
            Inr (d\<lparr>cd_steps := cd_steps d @ [s]\<rparr>)))))"

definition finish_step ::
  "ident \<Rightarrow> int \<Rightarrow> string \<Rightarrow> string \<Rightarrow> datetime \<Rightarrow> continuation_db \<Rightarrow> (string, continuation_db) result" where
  "finish_step i g key receipt now d =
     bind_res (get_tx i d) (\<lambda>op.
     bind_res (ensure (current_worker g op) ''continuation_stale_worker'') (\<lambda>_.
       let P = (\<lambda>s. sp_operation_id s = i \<and> sp_step_key s = key \<and> sp_generation s = g \<and> sp_status s = ''dispatching'')
       in bind_res (ensure (rows_affected P (cd_steps d) = 1) ''effect_outcome_unknown'') (\<lambda>_.
          bind_res (ensure (is_sha256 receipt) ''CHECK constraint failed'') (\<lambda>_.
            Inr (update_steps P (\<lambda>s. s\<lparr>sp_status := ''verified'', sp_receipt_sha256 := Some receipt, sp_updated_at := now\<rparr>) d)))))"

definition held_phase :: "string \<Rightarrow> string" where
  "held_phase p = (if p = ''aborting'' then ''aborting'' else ''needs_reconciliation'')"

definition recover_preparations :: "datetime \<Rightarrow> continuation_db \<Rightarrow> (string, continuation_db) result" where
  "recover_preparations now d =
     (let live = (\<lambda>c. co_phase c \<in> {''preparing'', ''aborting''});
          d1 = update_steps (\<lambda>s. sp_status s = ''dispatching''
                 \<and> list_ex (\<lambda>c. live c \<and> co_operation_id c = sp_operation_id s) (cd_operations d)) (set_unknown now) d
      in bind_res (update_op live
           (\<lambda>c. (bump now c)\<lparr>co_phase := held_phase (co_phase c), co_generation := co_generation c + 1,
                  co_holds_json := hold_json ''effect_outcome_unknown''\<rparr>) d1) (\<lambda>d2.
         Inr (end_preparations (\<lambda>w. wi_kind w = ''prepare_run_continuation'' \<and> wi_status w \<in> open_statuses)
                ''cancelled'' now d2)))"

definition unknown_steps :: "ident \<Rightarrow> datetime \<Rightarrow> continuation_db \<Rightarrow> continuation_db" where
  "unknown_steps i now d = update_steps (\<lambda>s. sp_operation_id s = i \<and> sp_status s = ''dispatching'') (set_unknown now) d"

definition hold_preparation ::
  "continuation_world \<Rightarrow> ident \<Rightarrow> int \<Rightarrow> string \<Rightarrow> datetime \<Rightarrow> continuation_db \<Rightarrow> (string, continuation_db) result" where
  "hold_preparation kw i g reason now d =
     bind_res (ensure (reason \<in> hold_reasons) ''invalid continuation hold'') (\<lambda>_.
     bind_res (get_tx i d) (\<lambda>op.
     bind_res (ensure (current_worker g op) ''continuation_stale_worker'') (\<lambda>_.
     bind_res (update_op (named i)
         (\<lambda>c. (bump now c)\<lparr>co_phase := ''needs_reconciliation'', co_holds_json := hold_json reason\<rparr>)
         (unknown_steps i now d)) (\<lambda>d1.
       Inr (cancel_preparation kw i open_statuses now d1)))))"

definition hold_queued_preparation ::
  "continuation_world \<Rightarrow> ident \<Rightarrow> int \<Rightarrow> string \<Rightarrow> datetime \<Rightarrow> continuation_db \<Rightarrow> (string, continuation_db) result" where
  "hold_queued_preparation kw i g reason now d =
     bind_res (ensure (reason \<in> hold_reasons) ''invalid continuation hold'') (\<lambda>_.
     let P = (\<lambda>c. co_operation_id c = i \<and> co_generation c = g \<and> co_phase c = ''preparing'' \<and> \<not> co_worker_claimed c)
     in bind_res (update_op P
          (\<lambda>c. (bump now c)\<lparr>co_phase := ''needs_reconciliation'', co_holds_json := hold_json reason\<rparr>) d) (\<lambda>d1.
        bind_res (ensure (rows_affected P (cd_operations d) = 1) ''continuation_stale_worker'') (\<lambda>_.
          Inr (cancel_preparation kw i {''pending''} now d1))))"

definition settle_worker ::
  "continuation_world \<Rightarrow> ident \<Rightarrow> int \<Rightarrow> datetime \<Rightarrow> continuation_db \<Rightarrow> (string, continuation_db) result" where
  "settle_worker kw i g now d =
     bind_res (get_tx i d) (\<lambda>op.
     bind_res (ensure (co_worker_claimed op \<and> (co_generation op = g \<or> co_phase op = ''aborting'' \<and> co_generation op = g + 1))
        ''continuation_stale_worker'') (\<lambda>_.
     bind_res (update_op (named i)
         (\<lambda>c. (bump now c)\<lparr>co_worker_claimed := False, co_phase := held_phase (co_phase c)\<rparr>)
         (unknown_steps i now d)) (\<lambda>d1.
       Inr (cancel_preparation kw i {''running''} now d1))))"

text \<open>\<^verbatim>\<open>COUNT(*)\<close> and \<^verbatim>\<open>SUM(status<>'verified' OR generation<>?2)\<close> of the steps of an operation.\<close>

definition all_verified :: "ident \<Rightarrow> int \<Rightarrow> continuation_db \<Rightarrow> bool" where
  "all_verified i g d \<longleftrightarrow>
     list_ex (\<lambda>s. sp_operation_id s = i) (cd_steps d)
     \<and> list_all (\<lambda>s. sp_operation_id s = i \<longrightarrow> sp_status s = ''verified'' \<and> sp_generation s = g) (cd_steps d)"

definition mark_prepared ::
  "continuation_world \<Rightarrow> ident \<Rightarrow> int \<Rightarrow> string \<Rightarrow> string \<Rightarrow> datetime \<Rightarrow> continuation_db
     \<Rightarrow> (string, continuation_db \<times> continuation) result" where
  "mark_prepared kw i g manifest sha now d =
     bind_res (get_tx i d) (\<lambda>op.
     bind_res (ensure (current_worker g op) ''continuation_stale_worker'') (\<lambda>_.
     bind_res (ensure (now < co_deadline_at op) ''continuation_budget_exceeded'') (\<lambda>_.
     bind_res (ensure (all_verified i g d) ''effect_outcome_unknown'') (\<lambda>_.
     bind_res (update_op (named i)
         (\<lambda>c. (bump now c)\<lparr>co_phase := ''prepared'', co_worker_claimed := False, co_manifest_ref := Some manifest,
                co_manifest_sha256 := Some sha\<rparr>) d) (\<lambda>d1.
       let d2 = end_preparations (\<lambda>w. prepares kw i w \<and> wi_status w = ''running'') ''completed'' now d1
       in bind_res (get_tx i d2) (\<lambda>op'. Inr (d2, op')))))))"

section \<open>Aborting\<close>

definition begin_abort_tx ::
  "continuation_world \<Rightarrow> ident \<Rightarrow> int \<Rightarrow> datetime \<Rightarrow> continuation_db
     \<Rightarrow> (string, continuation_db \<times> continuation) result" where
  "begin_abort_tx kw i v now d =
     bind_res (get_tx i d) (\<lambda>op.
     bind_res (ensure (co_version op = v) ''stale_operation_version'') (\<lambda>_.
     bind_res (ensure (co_phase op \<in> {''preparing'', ''prepared'', ''needs_reconciliation''}) ''source_continued'') (\<lambda>_.
     bind_res (update_op (named i)
         (\<lambda>c. (bump now c)\<lparr>co_phase := ''aborting'', co_generation := co_generation c + 1\<rparr>) d) (\<lambda>d1.
       let d2 = cancel_preparation kw i {''pending''} now d1
       in bind_res (get_tx i d2) (\<lambda>op'. Inr (d2, op'))))))"

definition unresolved_abort :: "continuation_world \<Rightarrow> ident \<Rightarrow> continuation_db \<Rightarrow> bool" where
  "unresolved_abort kw i d \<longleftrightarrow> unresolved_step i d \<or> queued_preparation kw i open_statuses d"

definition finish_abort_tx ::
  "continuation_world \<Rightarrow> ident \<Rightarrow> int \<Rightarrow> datetime \<Rightarrow> continuation_db
     \<Rightarrow> (string, continuation_db \<times> continuation) result" where
  "finish_abort_tx kw i v now d =
     bind_res (get_tx i d) (\<lambda>op.
     bind_res (ensure (co_version op = v) ''stale_operation_version'') (\<lambda>_.
     bind_res (ensure (co_phase op = ''aborting'' \<and> \<not> co_worker_claimed op) ''effect_outcome_unknown'') (\<lambda>_.
     bind_res (ensure (\<not> unresolved_abort kw i d) ''effect_outcome_unknown'') (\<lambda>_.
     bind_res (update_op (named i) (\<lambda>c. (bump now c)\<lparr>co_phase := ''aborted'', co_holds_json := ''[]''\<rparr>) d) (\<lambda>d1.
       let d2 = set_fences (filter (\<lambda>f. fe_operation_id f \<noteq> i) (cd_fences d1)) d1
       in bind_res (get_tx i d2) (\<lambda>op'. Inr (d2, op')))))))"

definition abort_command ::
  "continuation_world \<Rightarrow> ident \<Rightarrow> int \<Rightarrow> command_identity \<Rightarrow> ident \<Rightarrow> datetime \<Rightarrow> continuation_db
     \<Rightarrow> (string, continuation_db \<times> command_result) result" where
  "abort_command kw i v c j now d =
     command_tx kw ''runs.continuation_abort'' c d (\<lambda>d.
       bind_res (get_tx i d) (\<lambda>op.
       bind_res (ensure (co_version op = v) ''stale_operation_version'') (\<lambda>_.
       bind_res (if co_phase op \<noteq> ''aborting'' then begin_abort_tx kw i v now d else Inr (d, op)) (\<lambda>(d1, op1).
       bind_res (if \<not> co_worker_claimed op1 \<and> \<not> unresolved_abort kw i d1
                 then finish_abort_tx kw i (co_version op1) now d1 else Inr (d1, op1)) (\<lambda>(d2, op2).
         conclude kw op2 c j now d2)))))"

section \<open>Inputs of the successor\<close>

datatype entry_role = ExecutionSeed | ReferenceOnly | PreserveOnly | ExcludedEntry

record prepared_input =
  pi_input_id :: ident
  pi_ordinal :: nat
  pi_role :: entry_role
  pi_source_kind :: string
  pi_source_id :: ident
  pi_source_run_id :: ident
  pi_original_artifact_id :: ident
  pi_source_schema :: string
  pi_content_sha256 :: string
  pi_target_logical_name :: string
  pi_target_relative_path :: string
  pi_historical_relation :: json

abbreviation MAX_REFERENCE_ARTIFACTS :: nat where
  "MAX_REFERENCE_ARTIFACTS \<equiv> 512"

abbreviation MAX_CARRIED_INPUTS :: nat where
  "MAX_CARRIED_INPUTS \<equiv> MAX_REFERENCE_ARTIFACTS + 1"

definition safe_relative_path :: "string \<Rightarrow> bool" where
  "safe_relative_path p \<longleftrightarrow>
     p \<noteq> [] \<and> int (length p) \<le> 4096 \<and> \<not> has_control p \<and> CHR 0x5C \<notin> set p
     \<and> list_all (\<lambda>q. q \<noteq> [] \<and> q \<noteq> ''.'' \<and> q \<noteq> ''..'') (split_at (CHR ''/'') p)"

definition carried :: "continuation \<Rightarrow> prepared_input \<Rightarrow> continuation_db \<Rightarrow> bool" where
  "carried op x d \<longleftrightarrow>
     list_ex (\<lambda>r. ri_input_id r = pi_source_id x \<and> ri_successor_run_id r = Some (co_source_run_id op)
        \<and> ri_original_artifact_id r = pi_original_artifact_id x \<and> ri_content_sha256 r = pi_content_sha256 x
        \<and> ri_source_schema r = pi_source_schema x \<and> ri_installed r
        \<and> list_ex (\<lambda>c. co_operation_id c = ri_operation_id r \<and> co_phase c = ''activated'') (cd_operations d)) (cd_inputs d)"

definition check_input ::
  "continuation_world \<Rightarrow> continuation \<Rightarrow> continuation_db \<Rightarrow> nat \<Rightarrow> ident set \<Rightarrow> string set \<Rightarrow> prepared_input
     \<Rightarrow> (string, unit) result" where
  "check_input kw op d n ids targets x =
     bind_res (ensure (pi_ordinal x = n \<and> pi_input_id x \<notin> ids \<and> pi_target_relative_path x \<notin> targets)
        ''artifact_provenance_invalid'') (\<lambda>_.
     bind_res (ensure (pi_source_run_id x = co_source_run_id op) ''artifact_provenance_invalid'') (\<lambda>_.
     bind_res (ensure (safe_relative_path (pi_target_relative_path x)) ''unsafe_path'') (\<lambda>_.
     bind_res (case pi_role x of
          ExecutionSeed \<Rightarrow> ensure (pi_target_logical_name x = ''proposal_current'') ''artifact_provenance_invalid''
        | ReferenceOnly \<Rightarrow> ensure (pi_target_relative_path x = ''carry-forward/references/'' @ pi_input_id x @ ''/content'')
            ''unsafe_path''
        | _ \<Rightarrow> Inl ''artifact_provenance_invalid'') (\<lambda>_.
     bind_res (if pi_source_kind x = ''artifact'' then
            bind_res (ensure (pi_source_id x = pi_original_artifact_id x) ''artifact_provenance_invalid'') (\<lambda>_.
              Inr (kw_artifact_owned kw (pi_source_id x) (co_source_run_id op) (pi_content_sha256 x)))
          else if pi_source_kind x = ''carried_input'' then Inr (carried op x d)
          else Inr False) (\<lambda>owned.
       ensure owned ''artifact_provenance_invalid'')))))"

fun check_inputs ::
  "continuation_world \<Rightarrow> continuation \<Rightarrow> continuation_db \<Rightarrow> nat \<Rightarrow> ident set \<Rightarrow> string set \<Rightarrow> prepared_input list
     \<Rightarrow> (string, unit) result" where
  "check_inputs kw op d n ids targets [] = Inr ()"
| "check_inputs kw op d n ids targets (x # xs) =
     bind_res (check_input kw op d n ids targets x) (\<lambda>_.
       check_inputs kw op d (Suc n) (insert (pi_input_id x) ids) (insert (pi_target_relative_path x) targets) xs)"

definition input_row_of :: "continuation_world \<Rightarrow> continuation \<Rightarrow> prepared_input \<Rightarrow> input_row" where
  "input_row_of kw op x =
     \<lparr>ri_input_id = pi_input_id x, ri_operation_id = co_operation_id op, ri_ordinal = int (pi_ordinal x),
      ri_successor_run_id = None,
      ri_role = (if pi_role x = ExecutionSeed then ''execution_seed'' else ''reference_only''),
      ri_source_kind = pi_source_kind x, ri_source_id = pi_source_id x, ri_source_run_id = pi_source_run_id x,
      ri_original_artifact_id = pi_original_artifact_id x, ri_source_schema = pi_source_schema x,
      ri_content_sha256 = pi_content_sha256 x, ri_target_logical_name = pi_target_logical_name x,
      ri_target_relative_path = pi_target_relative_path x, ri_installed = False,
      ri_historical_relation_json = qw_to_string (kw_queue kw) (pi_historical_relation x)\<rparr>"

definition input_insertable :: "continuation_world \<Rightarrow> input_row \<Rightarrow> input_row list \<Rightarrow> bool" where
  "input_insertable kw r t \<longleftrightarrow>
     \<not> list_ex (\<lambda>x. ri_input_id x = ri_input_id r
          \<or> ri_operation_id x = ri_operation_id r \<and>
            (ri_ordinal x = ri_ordinal r \<or> ri_target_relative_path x = ri_target_relative_path r
             \<or> ri_role x = ''execution_seed'' \<and> ri_role r = ''execution_seed'')) t
     \<and> 0 \<le> ri_ordinal r \<and> ri_ordinal r \<le> 512 \<and> ri_source_kind r \<in> {''artifact'', ''carried_input''}
     \<and> 1 \<le> char_length (ri_source_schema r) \<and> char_length (ri_source_schema r) \<le> 256 \<and> is_sha256 (ri_content_sha256 r)
     \<and> 1 \<le> char_length (ri_target_logical_name r) \<and> char_length (ri_target_logical_name r) \<le> 256
     \<and> bounded_ref (ri_target_relative_path r) \<and> kw_json_valid kw (ri_historical_relation_json r) \<and> int (length (ri_historical_relation_json r)) \<le> 65536"

fun insert_input_rows :: "continuation_world \<Rightarrow> input_row list \<Rightarrow> input_row list \<Rightarrow> (string, input_row list) result" where
  "insert_input_rows kw [] t = Inr t"
| "insert_input_rows kw (r # rs) t =
     bind_res (ensure (input_insertable kw r t) ''constraint failed'') (\<lambda>_. insert_input_rows kw rs (t @ [r]))"

definition insert_inputs_tx ::
  "continuation_world \<Rightarrow> continuation \<Rightarrow> prepared_input list \<Rightarrow> continuation_db \<Rightarrow> (string, continuation_db) result" where
  "insert_inputs_tx kw op inputs d =
     bind_res (ensure (co_phase op = ''prepared'' \<and> \<not> co_worker_claimed op) ''effect_outcome_unknown'') (\<lambda>_.
     bind_res (ensure (inputs \<noteq> [] \<and> length inputs \<le> MAX_CARRIED_INPUTS) ''artifact_provenance_invalid'') (\<lambda>_.
     bind_res (ensure (rows_affected (\<lambda>x. pi_role x = ExecutionSeed) inputs = 1) ''artifact_provenance_invalid'') (\<lambda>_.
     bind_res (check_inputs kw op d 0 {} {} inputs) (\<lambda>_.
     bind_res (insert_input_rows kw (map (input_row_of kw op) inputs) (cd_inputs d)) (\<lambda>t.
       Inr (d\<lparr>cd_inputs := t\<rparr>))))))"

definition installed_for :: "ident \<Rightarrow> string \<Rightarrow> continuation_db \<Rightarrow> input_row \<Rightarrow> bool" where
  "installed_for run role d r \<longleftrightarrow>
     ri_successor_run_id r = Some run \<and> ri_role r = role \<and> ri_installed r
     \<and> list_ex (\<lambda>c. co_operation_id c = ri_operation_id r \<and> co_phase c = ''activated'') (cd_operations d)"

definition execution_seed :: "ident \<Rightarrow> string \<Rightarrow> continuation_db \<Rightarrow> input_row option" where
  "execution_seed run name d =
     fetch_optional (filter (\<lambda>r. installed_for run ''execution_seed'' d r \<and> ri_target_logical_name r = name) (cd_inputs d))"

definition references :: "ident \<Rightarrow> continuation_db \<Rightarrow> (string, input_row list) result" where
  "references run d =
     (let rows = take (MAX_REFERENCE_ARTIFACTS + 1)
            (sort_key ri_ordinal (filter (installed_for run ''reference_only'' d) (cd_inputs d)))
      in bind_res (ensure (length rows \<le> MAX_REFERENCE_ARTIFACTS) ''continuation_budget_exceeded: reference inputs'')
           (\<lambda>_. Inr rows))"

section \<open>Activating\<close>

text \<open>The trigger \<^verbatim>\<open>run_continuation_start_guard\<close> on a new run.\<close>

definition start_guard :: "run_row \<Rightarrow> continuation_db \<Rightarrow> bool" where
  "start_guard r d \<longleftrightarrow>
     fence_of (rr_id r) d \<noteq> None
     \<or> rr_status r \<notin> ended_runs \<and> list_ex (\<lambda>c. co_idea_id c = rr_idea_id r) (cd_operations d)
       \<and> (list_ex (\<lambda>x. rr_idea_id x = rr_idea_id r \<and> rr_status x \<notin> ended_runs \<and> fence_of (rr_id x) d = None)
            (runs (cd_work d))
          \<or> list_ex (\<lambda>c. co_idea_id c = rr_idea_id r \<and> co_phase c \<in> open_phases
              \<and> \<not> (co_phase c = ''prepared'' \<and> co_reserved_successor_run_id c = rr_id r
                    \<and> list_ex (\<lambda>f. fe_operation_id f = co_operation_id c \<and> fe_disposition f = ''historical'') (cd_fences d)))
            (cd_operations d))"

definition set_runs :: "run_row list \<Rightarrow> work_db \<Rightarrow> work_db" where
  "set_runs rs d = d\<lparr>wd_sched := (wd_sched d)\<lparr>sd_quota := (sd_quota (wd_sched d))\<lparr>qd_runs := rs\<rparr>\<rparr>\<rparr>"

definition insert_run_tx :: "run_row \<Rightarrow> continuation_db \<Rightarrow> (string, continuation_db) result" where
  "insert_run_tx r d =
     (if start_guard r d
      then Inl (if list_ex (\<lambda>f. fe_source_run_id f = rr_id r \<and> fe_disposition f = ''historical'') (cd_fences d)
                then ''source_continued'' else ''continuation_in_progress'')
      else if rr_id r \<in> rr_id ` set (runs (cd_work d)) then Inl ''UNIQUE constraint failed''
      else Inr (d\<lparr>cd_work := set_runs (runs (cd_work d) @ [r]) (cd_work d)\<rparr>))"

text \<open>A fence becomes historical; the trigger wants its operation prepared, free and of the generation of the fence.\<close>

definition retire_fence :: "continuation \<Rightarrow> continuation_db \<Rightarrow> (string, continuation_db) result" where
  "retire_fence op d =
     (let P = (\<lambda>f. fe_operation_id f = co_operation_id op \<and> fe_source_run_id f = co_source_run_id op
            \<and> fe_disposition f = ''reserved'')
      in if list_ex (\<lambda>f. P f \<and> \<not> list_ex (\<lambda>c. co_operation_id c = fe_operation_id f
              \<and> co_source_run_id c = fe_source_run_id f \<and> co_phase c = ''prepared'' \<and> \<not> co_worker_claimed c
              \<and> co_generation c = fe_generation f) (cd_operations d)) (cd_fences d)
         then Inl ''continuation_invalid_fence''
         else bind_res (ensure (rows_affected P (cd_fences d) = 1) ''continuation_in_progress'') (\<lambda>_.
           Inr (set_fences (sql_update P (\<lambda>f. f\<lparr>fe_disposition := ''historical''\<rparr>) (cd_fences d)) d)))"

definition activate_tx ::
  "continuation_world \<Rightarrow> ident \<Rightarrow> int \<Rightarrow> string \<Rightarrow> run_row \<Rightarrow> ident \<Rightarrow> datetime \<Rightarrow> continuation_db
     \<Rightarrow> (string, continuation_db \<times> continuation) result" where
  "activate_tx kw i v sha succ item now d =
     bind_res (get_tx i d) (\<lambda>op.
     bind_res (ensure (co_version op = v) ''stale_operation_version'') (\<lambda>_.
     bind_res (ensure (co_phase op = ''prepared'' \<and> \<not> co_worker_claimed op) ''effect_outcome_unknown'') (\<lambda>_.
     bind_res (ensure (co_manifest_sha256 op = Some sha) ''prepared_material_changed'') (\<lambda>_.
     bind_res (ensure (rr_id succ = co_reserved_successor_run_id op \<and> rr_idea_id succ = co_idea_id op)
        ''destination_conflict'') (\<lambda>_.
     bind_res (ensure (rr_status succ = ''pending'' \<and> rr_current_state succ \<noteq> None) ''target_profile_invalid'') (\<lambda>_.
     bind_res (ok_or (fetch_optional (filter (\<lambda>r. rr_id r = co_source_run_id op) (runs (cd_work d)))) ''no row'') (\<lambda>source.
     bind_res (ensure (rr_status source = ''blocked'') ''source_not_blocked'') (\<lambda>_.
     bind_res (ensure_quiescent_tx kw (co_source_run_id op) d) (\<lambda>_.
     bind_res (retire_fence op d) (\<lambda>d1.
     bind_res (insert_run_tx succ d1) (\<lambda>d2.
     bind_res (enqueue_in (new_item item ''advance_run''
         (qw_to_string (kw_queue kw) (JObject [(''run_id'', JString (rr_id succ))])) (Some (rr_id succ)) now)
         (d2\<lparr>cd_inputs := sql_update (\<lambda>r. ri_operation_id r = i \<and> \<not> ri_installed r)
              (\<lambda>r. r\<lparr>ri_installed := True, ri_successor_run_id := Some (rr_id succ)\<rparr>) (cd_inputs d2)\<rparr>)) (\<lambda>d3.
     bind_res (update_op (named i)
         (\<lambda>c. (bump now c)\<lparr>co_phase := ''activated'', co_successor_run_id := Some (rr_id succ)\<rparr>) d3) (\<lambda>d4.
     bind_res (get_tx i d4) (\<lambda>op'. Inr (d4, op')))))))))))))))"

definition activate_command_impl ::
  "continuation_world \<Rightarrow> ident \<Rightarrow> int \<Rightarrow> string \<Rightarrow> run_row \<Rightarrow> prepared_input list option \<Rightarrow> command_identity \<Rightarrow> ident
     \<Rightarrow> ident \<Rightarrow> datetime \<Rightarrow> continuation_db \<Rightarrow> (string, continuation_db \<times> command_result) result" where
  "activate_command_impl kw i v sha succ inputs c j item now d =
     command_tx kw ''runs.continuation_activate'' c d (\<lambda>d.
       bind_res (case inputs of
            None \<Rightarrow> Inr d
          | Some xs \<Rightarrow>
              bind_res (get_tx i d) (\<lambda>op.
              bind_res (ensure (co_version op = v) ''stale_operation_version'') (\<lambda>_.
              bind_res (check_witness kw (co_source_run_id op) (Some i) (co_source_witness_sha256 op) d) (\<lambda>_.
                insert_inputs_tx kw op xs d)))) (\<lambda>d1.
       bind_res (activate_tx kw i v sha succ item now d1) (\<lambda>(d2, op).
         conclude kw op c j now d2)))"

section \<open>Reconciling\<close>

definition reconcile_command ::
  "continuation_world \<Rightarrow> ident \<Rightarrow> int \<Rightarrow> continuation_reason_code option \<Rightarrow> command_identity \<Rightarrow> ident \<Rightarrow> datetime
     \<Rightarrow> continuation_db \<Rightarrow> (string, continuation_db \<times> command_result) result" where
  "reconcile_command kw i v hold c j now d =
     bind_res (ensure (id_command c = ''runs.continuation_reconcile'') ''invalid continuation command'') (\<lambda>_.
     bind_res (ensure (hold \<in> {None, Some EffectOutcomeUnknown, Some SourceChanged, Some PreparedMaterialChanged,
          Some ContinuationBudgetExceeded}) ''invalid continuation hold'') (\<lambda>_.
     command_tx kw ''runs.continuation_reconcile'' c d (\<lambda>d.
       bind_res (get_tx i d) (\<lambda>before.
       bind_res (ensure (co_version before = v) ''stale_operation_version'') (\<lambda>_.
       bind_res (ensure (co_phase before \<in> {''prepared'', ''needs_reconciliation'', ''aborting''}) ''effect_outcome_unknown'') (\<lambda>_.
       bind_res (ensure (hold \<noteq> None \<or> co_phase before = ''prepared'' \<and> \<not> co_worker_claimed before
            \<and> list_all (\<lambda>s. sp_operation_id s = i \<longrightarrow> sp_status s = ''verified'') (cd_steps d)) ''effect_outcome_unknown'') (\<lambda>_.
       bind_res (case hold of
            None \<Rightarrow> Inr d
          | Some h \<Rightarrow> update_op (named i)
              (\<lambda>c. (bump now c)\<lparr>co_phase := held_phase (co_phase c), co_holds_json := hold_json (show_reason_code h)\<rparr>) d) (\<lambda>d1.
       bind_res (get_tx i d1) (\<lambda>op.
         conclude kw op c j now d1))))))))) "

definition reconcile_abort_command ::
  "continuation_world \<Rightarrow> ident \<Rightarrow> int \<Rightarrow> command_identity \<Rightarrow> ident \<Rightarrow> datetime \<Rightarrow> continuation_db
     \<Rightarrow> (string, continuation_db \<times> command_result) result" where
  "reconcile_abort_command kw i v c j now d =
     command_tx kw ''runs.continuation_reconcile'' c d (\<lambda>d.
       bind_res (get_tx i d) (\<lambda>before.
       bind_res (ensure (co_version before = v) ''stale_operation_version'') (\<lambda>_.
       bind_res (ensure (co_phase before = ''aborting'') ''effect_outcome_unknown'') (\<lambda>_.
       bind_res (if \<not> co_worker_claimed before
             \<and> list_all (\<lambda>s. sp_operation_id s = i \<longrightarrow> sp_status s = ''verified'') (cd_steps d)
             \<and> \<not> queued_preparation kw i open_statuses d
           then finish_abort_tx kw i v now d
           else bind_res (update_op (named i)
               (\<lambda>c. (bump now c)\<lparr>co_holds_json := hold_json ''effect_outcome_unknown''\<rparr>) d) (\<lambda>d1.
             bind_res (get_tx i d1) (\<lambda>op. Inr (d1, op)))) (\<lambda>(d2, op).
         conclude kw op c j now d2)))))"

text \<open>
  \<^verbatim>\<open>Path\<close> compares components: separators at the end and repeated ones do not count, nor does a dot that
  is not the first component.
\<close>

definition path_components :: "string \<Rightarrow> bool \<times> string list" where
  "path_components s =
     (let parts = split_at (CHR ''/'') s; root = starts_with s ''/'';
          rest = filter (\<lambda>p. p \<noteq> [] \<and> p \<noteq> ''.'') parts
      in (root, if \<not> root \<and> hd parts = ''.'' then ''.'' # rest else rest))"

definition sibling_of :: "string \<Rightarrow> string \<Rightarrow> string \<Rightarrow> (string, bool) result" where
  "sibling_of name p q =
     (case snd (path_components p) of
        [] \<Rightarrow> Inl ''unsafe_path''
      | ps \<Rightarrow> Inr (path_components q = (fst (path_components p), butlast ps @ [name])))"

definition reconcile_prepared_command ::
  "continuation_world \<Rightarrow> ident \<Rightarrow> int \<Rightarrow> string \<Rightarrow> string \<Rightarrow> command_identity \<Rightarrow> ident \<Rightarrow> datetime \<Rightarrow> continuation_db
     \<Rightarrow> (string, continuation_db \<times> command_result) result" where
  "reconcile_prepared_command kw i v manifest sha c j now d =
     command_tx kw ''runs.continuation_reconcile'' c d (\<lambda>d.
       bind_res (get_tx i d) (\<lambda>op.
       bind_res (ensure (co_version op = v) ''stale_operation_version'') (\<lambda>_.
       bind_res (ensure (co_phase op = ''needs_reconciliation'' \<and> \<not> co_worker_claimed op) ''effect_outcome_unknown'') (\<lambda>_.
       bind_res (sibling_of ''manifest.json'' (co_plan_ref op) manifest) (\<lambda>same.
       bind_res (ensure same ''unsafe_path'') (\<lambda>_.
       bind_res (ensure (all_verified i (co_generation op) d) ''effect_outcome_unknown'') (\<lambda>_.
       bind_res (ensure (Option.bind (fetch_optional (filter (\<lambda>s. sp_operation_id s = i
            \<and> sp_step_key s = ''selected_inputs_and_target'' \<and> sp_status s = ''verified'') (cd_steps d))) sp_receipt_sha256
            = Some sha) ''prepared_material_changed'') (\<lambda>_.
       bind_res (ensure (\<not> queued_preparation kw i open_statuses d) ''effect_outcome_unknown'') (\<lambda>_.
       bind_res (ensure_quiescent_tx kw (co_source_run_id op) d) (\<lambda>_.
       bind_res (check_witness kw (co_source_run_id op) (Some i) (co_source_witness_sha256 op) d) (\<lambda>_.
       bind_res (update_op (named i)
           (\<lambda>c. (bump now c)\<lparr>co_phase := ''prepared'', co_manifest_ref := Some manifest,
                  co_manifest_sha256 := Some sha, co_holds_json := ''[]''\<rparr>) d) (\<lambda>d1.
       bind_res (get_tx i d1) (\<lambda>op'.
         conclude kw op' c j now d1)))))))))))))"

end
