(* ===== verification/Run_Continuation_Invariant.thy ===== *)
theory Run_Continuation_Invariant
  imports Run_Continuation
begin

text \<open>
  The invariant of the continuation of runs, kept by every transaction of the repository: operations and fences
  agree, at most one operation is claimed, what is prepared is verified and what is aborted is resolved.
\<close>

section \<open>What the parts of a transaction touch\<close>

lemma end_preparations_core [simp]:
  "cd_operations (end_preparations P s now d) = cd_operations d"
  "cd_fences (end_preparations P s now d) = cd_fences d"
  "cd_steps (end_preparations P s now d) = cd_steps d"
  by (simp_all add: end_preparations_def)

lemma cancel_preparation_core [simp]:
  "cd_operations (cancel_preparation kw i s now d) = cd_operations d"
  "cd_fences (cancel_preparation kw i s now d) = cd_fences d"
  "cd_steps (cancel_preparation kw i s now d) = cd_steps d"
  by (simp_all add: cancel_preparation_def)

lemma update_steps_core [simp]:
  "cd_operations (update_steps P f d) = cd_operations d" "cd_fences (update_steps P f d) = cd_fences d"
  "cd_steps (update_steps P f d) = sql_update P f (cd_steps d)"
  by (simp_all add: update_steps_def)

lemma unknown_steps_core [simp]:
  "cd_operations (unknown_steps i now d) = cd_operations d" "cd_fences (unknown_steps i now d) = cd_fences d"
  by (simp_all add: unknown_steps_def)

lemma set_fences_core [simp]:
  "cd_operations (set_fences fs d) = cd_operations d" "cd_fences (set_fences fs d) = fs"
  "cd_steps (set_fences fs d) = cd_steps d"
  by (simp_all add: set_fences_def)

text \<open>Two databases with the same operations, fences and steps.\<close>

definition same_core :: "continuation_db \<Rightarrow> continuation_db \<Rightarrow> bool" where
  "same_core d d' \<longleftrightarrow>
     cd_operations d' = cd_operations d \<and> cd_fences d' = cd_fences d \<and> cd_steps d' = cd_steps d"

lemma same_core_refl [simp]: "same_core d d"
  by (simp add: same_core_def)

lemma same_core_trans: "same_core d d' \<Longrightarrow> same_core d' d'' \<Longrightarrow> same_core d d''"
  by (simp add: same_core_def)

lemma enqueue_in_core: "enqueue_in w d = Inr d' \<Longrightarrow> same_core d d'"
  by (auto simp: enqueue_in_def same_core_def)

lemma journal_tx_core: "journal_tx q d = Inr d' \<Longrightarrow> same_core d d'"
  by (auto simp: journal_tx_def same_core_def split: sum.splits)

lemma journal_done_core [simp]: "same_core d (journal_done j now d)"
  by (simp add: journal_done_def same_core_def)

lemma record_command_core: "record_command_tx kw c s r now d = Inr d' \<Longrightarrow> same_core d d'"
  by (auto simp: record_command_tx_def same_core_def split: option.splits)

lemma insert_inputs_core: "insert_inputs_tx kw op xs d = Inr d' \<Longrightarrow> same_core d d'"
  by (auto simp: insert_inputs_tx_def same_core_def)

lemma insert_run_core: "insert_run_tx r d = Inr d' \<Longrightarrow> same_core d d'"
  by (auto simp: insert_run_tx_def same_core_def split: if_splits)

lemma conclude_core:
  assumes "conclude kw op c j now d = Inr (d', r)"
  shows "same_core d d'"
proof -
  obtain q d1 where q: "journal_tx q d = Inr d1"
    and c: "record_command_tx kw c (co_source_run_id op) r now (journal_done j now d1) = Inr d'"
    using assms unfolding conclude_def record_operation_command_tx_def by (auto simp del: journal_done_core)
  show ?thesis
    using journal_tx_core[OF q] journal_done_core record_command_core[OF c] by (blast intro: same_core_trans)
qed

lemma update_opE:
  assumes "update_op P f d = Inr d'"
  obtains "d' = d\<lparr>cd_operations := sql_update P f (cd_operations d)\<rparr>"
    "\<And>c. c \<in> set (cd_operations d) \<Longrightarrow> P c \<Longrightarrow> op_update_allowed d c (f c)"
  using assms by (auto simp: update_op_def list_ex_iff split: if_splits)

lemma get_tx_row: "get_tx i d = Inr c \<Longrightarrow> c \<in> set (cd_operations d) \<and> co_operation_id c = i"
  by (auto simp: get_tx_def dest: fetch_optional_Some)

section \<open>The invariant\<close>

text \<open>What the fence of an operation says in each phase.\<close>

definition fence_kind :: "string \<Rightarrow> string option" where
  "fence_kind p =
     (if p = ''aborted'' then None else if p = ''activated'' then Some ''historical'' else Some ''reserved'')"

lemma fence_kind_None [simp]: "fence_kind p = None \<longleftrightarrow> p = ''aborted''"
  by (simp add: fence_kind_def)

definition guards :: "execution_fence \<Rightarrow> continuation \<Rightarrow> bool" where
  "guards f c \<longleftrightarrow>
     fe_operation_id f = co_operation_id c \<and> fe_source_run_id f = co_source_run_id c
     \<and> fence_kind (co_phase c) = Some (fe_disposition f)"

definition fences_agree :: "continuation list \<Rightarrow> execution_fence list \<Rightarrow> bool" where
  "fences_agree ops fs \<longleftrightarrow>
     distinct (map fe_operation_id fs) \<and> distinct (map fe_source_run_id fs)
     \<and> (\<forall>f\<in>set fs. \<exists>c\<in>set ops. guards f c)
     \<and> (\<forall>c\<in>set ops. co_phase c \<noteq> ''aborted'' \<longrightarrow> (\<exists>f\<in>set fs. guards f c))"

definition verified_steps :: "ident \<Rightarrow> int \<Rightarrow> continuation_step list \<Rightarrow> bool" where
  "verified_steps i g ss \<longleftrightarrow>
     (\<exists>s\<in>set ss. sp_operation_id s = i)
     \<and> (\<forall>s\<in>set ss. sp_operation_id s = i \<longrightarrow> sp_status s = ''verified'' \<and> sp_generation s = g)"

definition op_ok :: "continuation_step list \<Rightarrow> continuation \<Rightarrow> bool" where
  "op_ok ss c \<longleftrightarrow>
     co_phase c \<in> {''preparing'', ''prepared'', ''aborting'', ''needs_reconciliation'', ''activated'', ''aborted''}
     \<and> (co_phase c = ''preparing'' \<longrightarrow> co_generation c = 1
          \<and> (\<forall>s\<in>set ss. sp_operation_id s = co_operation_id c \<longrightarrow> sp_status s \<noteq> ''unknown''))
     \<and> (co_phase c \<in> {''prepared'', ''activated''} \<longrightarrow>
          \<not> co_worker_claimed c \<and> verified_steps (co_operation_id c) (co_generation c) ss)
     \<and> (co_phase c = ''aborted'' \<longrightarrow> \<not> co_worker_claimed c
          \<and> (\<forall>s\<in>set ss. sp_operation_id s = co_operation_id c \<longrightarrow> sp_status s = ''verified''))
     \<and> (co_phase c = ''activated'' \<longleftrightarrow> co_successor_run_id c \<noteq> None)
     \<and> (\<forall>r. co_successor_run_id c = Some r \<longrightarrow> r = co_reserved_successor_run_id c)"

definition single_claim :: "continuation list \<Rightarrow> bool" where
  "single_claim ops \<longleftrightarrow>
     (\<forall>c\<in>set ops. \<forall>c'\<in>set ops. co_worker_claimed c \<and> co_worker_claimed c' \<longrightarrow> co_operation_id c = co_operation_id c')"

definition carry_inv :: "continuation_db \<Rightarrow> bool" where
  "carry_inv d \<longleftrightarrow>
     distinct (map co_operation_id (cd_operations d))
     \<and> distinct (map co_reserved_successor_run_id (cd_operations d))
     \<and> (\<forall>c\<in>set (cd_operations d). op_ok (cd_steps d) c)
     \<and> fences_agree (cd_operations d) (cd_fences d) \<and> single_claim (cd_operations d)
     \<and> (\<forall>s\<in>set (cd_steps d). sp_status s \<in> {''dispatching'', ''verified'', ''unknown''}
          \<and> sp_operation_id s \<in> co_operation_id ` set (cd_operations d))"

lemma carry_inv_core: "same_core d d' \<Longrightarrow> carry_inv d' \<longleftrightarrow> carry_inv d"
  by (simp add: same_core_def carry_inv_def)

lemma carry_inv_get:
  assumes "carry_inv d" "c \<in> set (cd_operations d)"
  shows "get_tx (co_operation_id c) d = Inr c"
  using assms key_filter[of co_operation_id "cd_operations d" c] by (simp add: get_tx_def carry_inv_def fetch_optional_def)

lemma op_unique:
  assumes "carry_inv d" "c \<in> set (cd_operations d)" "c' \<in> set (cd_operations d)" "co_operation_id c = co_operation_id c'"
  shows "c = c'"
  using assms key_unique[of co_operation_id "cd_operations d" c c'] by (simp add: carry_inv_def)

text \<open>An update of one operation that keeps its identity.\<close>

definition identity_kept :: "continuation \<Rightarrow> continuation \<Rightarrow> bool" where
  "identity_kept c c' \<longleftrightarrow>
     co_operation_id c' = co_operation_id c \<and> co_source_run_id c' = co_source_run_id c \<and> co_idea_id c' = co_idea_id c
     \<and> co_reserved_successor_run_id c' = co_reserved_successor_run_id c
     \<and> co_caller_fingerprint c' = co_caller_fingerprint c \<and> co_caller_request_id c' = co_caller_request_id c
     \<and> co_intent_sha256 c' = co_intent_sha256 c"

lemma fences_agree_map:
  assumes "fences_agree ops fs"
    and "\<And>c. c \<in> set ops \<Longrightarrow> identity_kept c (g c) \<and> fence_kind (co_phase (g c)) = fence_kind (co_phase c)"
  shows "fences_agree (map g ops) fs"
proof -
  have "guards x (g c) \<longleftrightarrow> guards x c" "co_phase (g c) = ''aborted'' \<longleftrightarrow> co_phase c = ''aborted''" if "c \<in> set ops" for x c
    using assms(2)[OF that] fence_kind_None by (simp_all add: guards_def identity_kept_def, metis)
  then show ?thesis using assms(1) by (auto simp: fences_agree_def)
qed

text \<open>
  Updates of operations, of steps, or of both, that keep the invariant row by row: the fences of the rows stay
  right, no second claim is taken, and steps keep their owners.
\<close>

lemma carry_inv_map:
  assumes inv: "carry_inv d" and ops: "cd_operations d' = map g (cd_operations d)"
    and rows: "\<And>c. c \<in> set (cd_operations d) \<Longrightarrow> identity_kept c (g c) \<and> op_ok (cd_steps d') (g c)"
    and fences: "fences_agree (cd_operations d') (cd_fences d')" and single: "single_claim (cd_operations d')"
    and steps: "\<forall>s\<in>set (cd_steps d'). sp_status s \<in> {''dispatching'', ''verified'', ''unknown''}
          \<and> sp_operation_id s \<in> co_operation_id ` set (cd_operations d)"
  shows "carry_inv d'"
proof -
  have ids: "map co_operation_id (map g (cd_operations d)) = map co_operation_id (cd_operations d)"
      "map co_reserved_successor_run_id (map g (cd_operations d)) = map co_reserved_successor_run_id (cd_operations d)"
    using rows by (simp_all add: identity_kept_def)
  then have "co_operation_id ` set (cd_operations d') = co_operation_id ` set (cd_operations d)"
    by (metis ops list.set_map)
  moreover have "distinct (map co_operation_id (cd_operations d'))" "distinct (map co_reserved_successor_run_id (cd_operations d'))"
    using inv ids by (simp_all add: carry_inv_def ops del: map_map)
  ultimately show ?thesis
    using rows fences single steps by (simp add: carry_inv_def) (simp add: ops)
qed

lemma carry_inv_rows:
  assumes inv: "carry_inv d"
    and ops: "cd_operations d' = map g (cd_operations d)" and fs: "cd_fences d' = cd_fences d"
    and rows: "\<And>c. c \<in> set (cd_operations d) \<Longrightarrow> identity_kept c (g c) \<and> op_ok (cd_steps d') (g c)
        \<and> fence_kind (co_phase (g c)) = fence_kind (co_phase c)"
    and single: "single_claim (cd_operations d')"
    and steps: "\<forall>s\<in>set (cd_steps d'). sp_status s \<in> {''dispatching'', ''verified'', ''unknown''}
          \<and> sp_operation_id s \<in> co_operation_id ` set (cd_operations d)"
  shows "carry_inv d'"
proof (rule carry_inv_map[OF inv ops _ _ single steps])
  show "fences_agree (cd_operations d') (cd_fences d')"
    using inv rows unfolding ops fs by (intro fences_agree_map) (auto simp: carry_inv_def)
qed (use rows in blast)

text \<open>The statement on one operation, with what its trigger checked.\<close>

lemma update_named_single:
  assumes inv: "carry_inv d" and get: "get_tx i d = Inr c" and "cd_operations e = cd_operations d"
    and P: "P c" "\<forall>x. P x \<longrightarrow> named i x" and upd: "update_op P f e = Inr e'"
  shows "op_update_allowed e c (f c)" "cd_operations e' = map (\<lambda>x. if x = c then f c else x) (cd_operations d)"
    "cd_fences e' = cd_fences e" "cd_steps e' = cd_steps e"
proof -
  have c: "c \<in> set (cd_operations d)" "co_operation_id c = i" using get_tx_row[OF get] by auto
  then have "P x \<longleftrightarrow> x = c" if "x \<in> set (cd_operations d)" for x
    using that P op_unique[OF inv that, of c] by auto
  then show "op_update_allowed e c (f c)" "cd_operations e' = map (\<lambda>x. if x = c then f c else x) (cd_operations d)"
    "cd_fences e' = cd_fences e" "cd_steps e' = cd_steps e"
    using upd c assms(3) by (auto elim!: update_opE simp: sql_update_def)
qed

lemma single_claim_map:
  assumes "single_claim ops" "\<And>c. co_operation_id (g c) = co_operation_id c \<and> (co_worker_claimed (g c) \<longrightarrow> co_worker_claimed c)"
  shows "single_claim (map g ops)"
  using assms unfolding single_claim_def set_map ball_simps by metis

lemma single_claim_update:
  assumes "single_claim ops" "c \<in> set ops" "co_operation_id c' = co_operation_id c"
    and "co_worker_claimed c' \<Longrightarrow> co_worker_claimed c \<or> (\<forall>x\<in>set ops. \<not> co_worker_claimed x)"
  shows "single_claim (map (\<lambda>x. if x = c then c' else x) ops)"
  using assms by (auto simp: single_claim_def)

lemma carry_inv_update:
  assumes inv: "carry_inv d" and get: "get_tx i d = Inr c"
    and e: "cd_operations e = cd_operations d" "cd_fences e = cd_fences d"
    and P: "P c" "\<forall>x. P x \<longrightarrow> named i x" and upd: "update_op P f e = Inr e'"
    and row: "identity_kept c (f c)" "op_ok (cd_steps e) (f c)" "fence_kind (co_phase (f c)) = fence_kind (co_phase c)"
    and claim: "co_worker_claimed (f c) \<Longrightarrow> co_worker_claimed c \<or> (\<forall>x\<in>set (cd_operations d). \<not> co_worker_claimed x)"
    and others: "\<And>x. x \<in> set (cd_operations d) \<Longrightarrow> x \<noteq> c \<Longrightarrow> op_ok (cd_steps d) x \<Longrightarrow> op_ok (cd_steps e) x"
    and steps: "\<forall>s\<in>set (cd_steps e). sp_status s \<in> {''dispatching'', ''verified'', ''unknown''}
          \<and> sp_operation_id s \<in> co_operation_id ` set (cd_operations d)"
  shows "carry_inv e'"
proof (rule carry_inv_rows[OF inv])
  note u = update_named_single[OF inv get e(1) P upd]
  have c: "c \<in> set (cd_operations d)" using get_tx_row[OF get] by simp
  show "cd_operations e' = map (\<lambda>x. if x = c then f c else x) (cd_operations d)" "cd_fences e' = cd_fences d"
    using u e by simp_all
  show "single_claim (cd_operations e')"
    using inv c row(1) claim unfolding u(2) by (intro single_claim_update) (auto simp: carry_inv_def identity_kept_def)
  show "\<forall>s\<in>set (cd_steps e'). sp_status s \<in> {''dispatching'', ''verified'', ''unknown''}
          \<and> sp_operation_id s \<in> co_operation_id ` set (cd_operations d)"
    using steps u by simp
  fix x assume "x \<in> set (cd_operations d)"
  then show "identity_kept x (if x = c then f c else x) \<and> op_ok (cd_steps e') (if x = c then f c else x)
      \<and> fence_kind (co_phase (if x = c then f c else x)) = fence_kind (co_phase x)"
    using inv row others u by (auto simp: carry_inv_def identity_kept_def)
qed

section \<open>Steps\<close>

lemma op_ok_steps:
  assumes "\<And>s. sp_operation_id s = co_operation_id c \<Longrightarrow> s \<in> set ss' \<longleftrightarrow> s \<in> set ss"
  shows "op_ok ss' c \<longleftrightarrow> op_ok ss c"
proof -
  have "(\<forall>s\<in>set ss'. sp_operation_id s = co_operation_id c \<longrightarrow> Q s) \<longleftrightarrow> (\<forall>s\<in>set ss. sp_operation_id s = co_operation_id c \<longrightarrow> Q s)" for Q
    using assms by blast
  moreover have "verified_steps (co_operation_id c) g ss' \<longleftrightarrow> verified_steps (co_operation_id c) g ss" for g
    unfolding verified_steps_def using assms by blast
  ultimately show ?thesis by (simp add: op_ok_def)
qed

lemma carry_inv_steps:
  assumes inv: "carry_inv d" and get: "get_tx i d = Inr c" and d': "d' = d\<lparr>cd_steps := ss\<rparr>"
    and others: "\<And>s. sp_operation_id s \<noteq> i \<Longrightarrow> s \<in> set ss \<longleftrightarrow> s \<in> set (cd_steps d)"
    and own: "op_ok ss c"
    and steps: "\<forall>s\<in>set ss. sp_status s \<in> {''dispatching'', ''verified'', ''unknown''}
          \<and> sp_operation_id s \<in> co_operation_id ` set (cd_operations d)"
  shows "carry_inv d'"
proof (rule carry_inv_rows[OF inv, of d' id])
  fix x assume x: "x \<in> set (cd_operations d)"
  have c: "c \<in> set (cd_operations d)" "co_operation_id c = i" using get_tx_row[OF get] by auto
  have "op_ok ss x"
  proof (cases "x = c")
    case False
    then have "co_operation_id x \<noteq> i"
      using x c op_unique[OF inv x, of c] by auto
    then show ?thesis using inv x others op_ok_steps[of x ss "cd_steps d"] by (auto simp: carry_inv_def)
  qed (simp add: own)
  then show "identity_kept x (id x) \<and> op_ok (cd_steps d') (id x) \<and> fence_kind (co_phase (id x)) = fence_kind (co_phase x)"
    by (simp add: identity_kept_def d')
next
  show "single_claim (cd_operations d')" using inv by (simp add: carry_inv_def d')
  show "\<forall>s\<in>set (cd_steps d'). sp_status s \<in> {''dispatching'', ''verified'', ''unknown''}
          \<and> sp_operation_id s \<in> co_operation_id ` set (cd_operations d)" using steps by (simp add: d')
qed (simp_all add: d')

lemma begin_step_inv:
  assumes inv: "carry_inv d" and ok: "begin_step kw i g key intent dest now d = Inr d'"
  shows "carry_inv d'"
proof -
  obtain c s where c: "get_tx i d = Inr c" "current_worker g c" and d': "d' = d\<lparr>cd_steps := cd_steps d @ [s]\<rparr>"
    and s: "sp_operation_id s = i" "sp_status s = ''dispatching''"
    using ok by (auto simp: begin_step_def Let_def)
  have row: "c \<in> set (cd_operations d)" "co_operation_id c = i" using get_tx_row[OF c(1)] by auto
  show ?thesis
  proof (rule carry_inv_steps[OF inv c(1) d'])
    show "op_ok (cd_steps d @ [s]) c"
      using inv row c(2) s by (auto simp: carry_inv_def op_ok_def current_worker_def)
    show "\<forall>x\<in>set (cd_steps d @ [s]). sp_status x \<in> {''dispatching'', ''verified'', ''unknown''}
          \<and> sp_operation_id x \<in> co_operation_id ` set (cd_operations d)"
      using inv row s by (auto simp: carry_inv_def)
  qed (use s in auto)
qed

lemma finish_step_inv:
  assumes inv: "carry_inv d" and ok: "finish_step i g key receipt now d = Inr d'"
  shows "carry_inv d'"
proof -
  define P :: "continuation_step \<Rightarrow> bool" where "P = (\<lambda>s. sp_operation_id s = i \<and> sp_step_key s = key \<and> sp_generation s = g \<and> sp_status s = ''dispatching'')"
  define f :: "continuation_step \<Rightarrow> continuation_step" where "f = (\<lambda>s. s\<lparr>sp_status := ''verified'', sp_receipt_sha256 := Some receipt, sp_updated_at := now\<rparr>)"
  obtain c where c: "get_tx i d = Inr c" "current_worker g c"
    and d': "d' = d\<lparr>cd_steps := sql_update P f (cd_steps d)\<rparr>"
    using ok by (auto simp: finish_step_def Let_def update_steps_def P_def f_def)
  have row: "c \<in> set (cd_operations d)" "co_operation_id c = i" using get_tx_row[OF c(1)] by auto
  show ?thesis
  proof (rule carry_inv_steps[OF inv c(1) d'])
    show "op_ok (sql_update P f (cd_steps d)) c"
      using inv row c(2) by (auto simp: carry_inv_def op_ok_def current_worker_def set_sql_update f_def P_def)
    show "\<forall>x\<in>set (sql_update P f (cd_steps d)). sp_status x \<in> {''dispatching'', ''verified'', ''unknown''}
          \<and> sp_operation_id x \<in> co_operation_id ` set (cd_operations d)"
      using inv row by (auto simp: carry_inv_def set_sql_update f_def P_def)
    show "s \<in> set (sql_update P f (cd_steps d)) \<longleftrightarrow> s \<in> set (cd_steps d)" if "sp_operation_id s \<noteq> i" for s
      using that by (auto simp: set_sql_update P_def f_def)
  qed
qed

section \<open>Workers and restarts\<close>

lemma unknown_steps_set:
  "set (cd_steps (unknown_steps i now d)) =
     set_unknown now ` {s \<in> set (cd_steps d). sp_operation_id s = i \<and> sp_status s = ''dispatching''}
     \<union> {s \<in> set (cd_steps d). \<not> (sp_operation_id s = i \<and> sp_status s = ''dispatching'')}"
  by (simp add: unknown_steps_def set_sql_update)

lemma carry_inv_op:
  assumes "carry_inv d" "get_tx i d = Inr c" "P c" "\<forall>x. P x \<longrightarrow> named i x" "update_op P f d = Inr d'"
    and "identity_kept c (f c)" "op_ok (cd_steps d) (f c)" "fence_kind (co_phase (f c)) = fence_kind (co_phase c)"
    and "co_worker_claimed (f c) \<Longrightarrow> co_worker_claimed c \<or> (\<forall>x\<in>set (cd_operations d). \<not> co_worker_claimed x)"
  shows "carry_inv d'"
  using assms by (intro carry_inv_update[OF assms(1,2) refl refl assms(3,4,5)]) (auto simp: carry_inv_def)

lemma carry_inv_op_unknown:
  assumes inv: "carry_inv d" and get: "get_tx i d = Inr c"
    and upd: "update_op (named i) f (unknown_steps i now d) = Inr d'"
    and row: "identity_kept c (f c)" "op_ok (cd_steps (unknown_steps i now d)) (f c)"
      "fence_kind (co_phase (f c)) = fence_kind (co_phase c)" "co_worker_claimed (f c) \<Longrightarrow> co_worker_claimed c"
  shows "carry_inv d'"
proof (rule carry_inv_update[OF inv get _ _ _ _ upd])
  have c: "c \<in> set (cd_operations d)" "co_operation_id c = i" using get_tx_row[OF get] by auto
  show "\<forall>s\<in>set (cd_steps (unknown_steps i now d)). sp_status s \<in> {''dispatching'', ''verified'', ''unknown''}
          \<and> sp_operation_id s \<in> co_operation_id ` set (cd_operations d)"
    using inv unfolding unknown_steps_set by (auto simp: carry_inv_def set_unknown_def)
  show "op_ok (cd_steps (unknown_steps i now d)) x" if "x \<in> set (cd_operations d)" "x \<noteq> c" "op_ok (cd_steps d) x" for x
  proof -
    have "co_operation_id x \<noteq> i"
      using that c op_unique[OF inv that(1), of c] by auto
    then have "s \<in> set (cd_steps (unknown_steps i now d)) \<longleftrightarrow> s \<in> set (cd_steps d)" if "sp_operation_id s = co_operation_id x" for s
      using that unfolding unknown_steps_set by (auto simp: set_unknown_def)
    then show ?thesis using that(3) op_ok_steps by blast
  qed
qed (use row get_tx_row[OF get] in auto)

lemmas row_defs = identity_kept_def op_ok_def bump_def held_phase_def

text \<open>An operation that is held, and one that is still open.\<close>

lemma op_ok_held:
  assumes "co_phase c = ''aborting'' \<or> co_phase c = ''needs_reconciliation''" "co_successor_run_id c = None"
  shows "op_ok ss c"
  using assms by (auto simp: op_ok_def)

lemma fence_kind_open [simp]:
  "fence_kind ''preparing'' = Some ''reserved''" "fence_kind ''prepared'' = Some ''reserved''"
  "fence_kind ''aborting'' = Some ''reserved''" "fence_kind ''needs_reconciliation'' = Some ''reserved''"
  "fence_kind ''activated'' = Some ''historical''" "fence_kind ''aborted'' = None"
  by (simp_all add: fence_kind_def)

lemma op_ok_open:
  assumes "op_ok ss c" "co_worker_claimed c \<or> co_phase c \<in> open_phases"
  shows "co_phase c \<in> open_phases" "co_successor_run_id c = None" "fence_kind (co_phase c) = Some ''reserved''"
proof -
  have "co_phase c \<noteq> ''activated''" "co_phase c \<noteq> ''aborted''"
    by (rule notI, use assms in \<open>simp add: op_ok_def\<close>)+
  then show "co_phase c \<in> open_phases" "co_successor_run_id c = None"
    using assms(1) unfolding op_ok_def by blast+
  then show "fence_kind (co_phase c) = Some ''reserved''" by auto
qed

lemma held_phase_cases: "held_phase p = ''aborting'' \<or> held_phase p = ''needs_reconciliation''"
  by (simp add: held_phase_def)

lemma fence_kind_held [simp]: "fence_kind (held_phase p) = Some ''reserved''"
  by (simp add: held_phase_def)

lemma bump_sel [simp]:
  "co_operation_id (bump now c) = co_operation_id c" "co_phase (bump now c) = co_phase c"
  "co_successor_run_id (bump now c) = co_successor_run_id c" "co_worker_claimed (bump now c) = co_worker_claimed c"
  "co_generation (bump now c) = co_generation c"
  by (simp_all add: bump_def)

lemma identity_kept_bump [simp]:
  "identity_kept c c"
  "identity_kept c (bump now c)" "identity_kept c ((bump now c)\<lparr>co_phase := p, co_holds_json := h\<rparr>)"
  "identity_kept c ((bump now c)\<lparr>co_worker_claimed := b, co_phase := p\<rparr>)" "identity_kept c ((bump now c)\<lparr>co_worker_claimed := b\<rparr>)"
  "identity_kept c ((bump now c)\<lparr>co_phase := p, co_generation := g\<rparr>)"
  "identity_kept c ((bump now c)\<lparr>co_phase := p, co_generation := g, co_holds_json := h\<rparr>)"
  "identity_kept c ((bump now c)\<lparr>co_holds_json := h\<rparr>)"
  by (simp_all add: identity_kept_def bump_def)

lemma op_ok_of: "carry_inv d \<Longrightarrow> get_tx i d = Inr c \<Longrightarrow> op_ok (cd_steps d) c"
  by (auto simp: carry_inv_def dest: get_tx_row)

lemma claim_inv:
  assumes inv: "carry_inv d" and ok: "claim_preparation_matching kw own now d = Inr (d', r)"
  shows "carry_inv d'"
proof -
  consider "d' = d" | c f e where "c \<in> set (cd_operations d)" "co_phase c = ''preparing''" "\<not> co_worker_claimed c"
      "\<forall>x\<in>set (cd_operations d). \<not> co_worker_claimed x"
      "update_op (named (co_operation_id c)) f d = Inr e" "same_core e d'"
      "f c = (bump now c)\<lparr>co_worker_claimed := True\<rparr>
        \<or> f c = (bump now c)\<lparr>co_phase := ''needs_reconciliation'', co_holds_json := hold_json ''continuation_budget_exceeded''\<rparr>"
  proof (cases "list_ex co_worker_claimed (cd_operations d) \<or> claimable kw own d = []")
    case False
    then obtain c where c: "fetch_optional (claimable kw own d) = Some c" by (cases "claimable kw own d") (auto simp: fetch_optional_def)
    then have row: "c \<in> set (cd_operations d)" "co_phase c = ''preparing''" "\<not> co_worker_claimed c"
      by (auto simp: claimable_def dest: fetch_optional_Some)
    from ok False c that(2)[OF row] show ?thesis
      by (auto simp: claim_preparation_matching_def Let_def list_ex_iff same_core_def split: if_splits)
  qed (use ok that(1) in \<open>auto simp: claim_preparation_matching_def fetch_optional_def split: if_splits\<close>)
  then show ?thesis
  proof cases
    case (2 c f e)
    have "op_ok (cd_steps d) c" using inv 2(1) by (simp add: carry_inv_def)
    then have "carry_inv e"
      using 2 by (intro carry_inv_op[OF inv carry_inv_get[OF inv 2(1)] _ _ 2(5)]) (auto simp: row_defs)
    then show ?thesis using 2(6) carry_inv_core by blast
  qed (simp add: inv)
qed

lemma hold_inv:
  assumes inv: "carry_inv d" and ok: "hold_preparation kw i g reason now d = Inr d'"
  shows "carry_inv d'"
proof -
  define f :: "continuation \<Rightarrow> continuation" where "f = (\<lambda>c. (bump now c)\<lparr>co_phase := ''needs_reconciliation'', co_holds_json := hold_json reason\<rparr>)"
  obtain c e where c: "get_tx i d = Inr c" "current_worker g c" and e: "update_op (named i) f (unknown_steps i now d) = Inr e"
    and d': "same_core e d'"
    using ok by (auto simp: hold_preparation_def same_core_def f_def)
  have "carry_inv e"
    using op_ok_open[OF op_ok_of[OF inv c(1)]] c(2)
    by (intro carry_inv_op_unknown[OF inv c(1) e]) (simp_all add: f_def op_ok_held current_worker_def)
  then show ?thesis using carry_inv_core[OF d'] by simp
qed

lemma hold_queued_inv:
  assumes inv: "carry_inv d" and ok: "hold_queued_preparation kw i g reason now d = Inr d'"
  shows "carry_inv d'"
proof -
  define P :: "continuation \<Rightarrow> bool" where "P = (\<lambda>c. co_operation_id c = i \<and> co_generation c = g \<and> co_phase c = ''preparing'' \<and> \<not> co_worker_claimed c)"
  define f :: "continuation \<Rightarrow> continuation" where "f = (\<lambda>c. (bump now c)\<lparr>co_phase := ''needs_reconciliation'', co_holds_json := hold_json reason\<rparr>)"
  obtain e where e: "update_op P f d = Inr e" and d': "same_core e d'" and one: "rows_affected P (cd_operations d) = 1"
    using ok by (auto simp: hold_queued_preparation_def same_core_def f_def P_def Let_def)
  then obtain c where c: "c \<in> set (cd_operations d)" "P c"
    by (metis less_one rows_affected_pos zero_less_one)
  then have get: "get_tx i d = Inr c" using carry_inv_get[OF inv c(1)] by (simp add: P_def)
  have "carry_inv e"
    using op_ok_open[OF op_ok_of[OF inv get]] c(2)
    by (intro carry_inv_op[OF inv get c(2) _ e]) (simp_all add: P_def f_def op_ok_held)
  then show ?thesis using carry_inv_core[OF d'] by simp
qed

lemma settle_worker_inv:
  assumes inv: "carry_inv d" and ok: "settle_worker kw i g now d = Inr d'"
  shows "carry_inv d'"
proof -
  define f :: "continuation \<Rightarrow> continuation" where "f = (\<lambda>c. (bump now c)\<lparr>co_worker_claimed := False, co_phase := held_phase (co_phase c)\<rparr>)"
  obtain c e where c: "get_tx i d = Inr c" "co_worker_claimed c" and e: "update_op (named i) f (unknown_steps i now d) = Inr e"
    and d': "same_core e d'"
    using ok by (auto simp: settle_worker_def same_core_def f_def)
  have "carry_inv e"
    using op_ok_open[OF op_ok_of[OF inv c(1)]] c(2)
    by (intro carry_inv_op_unknown[OF inv c(1) e]) (simp_all add: f_def op_ok_held held_phase_cases)
  then show ?thesis using carry_inv_core[OF d'] by simp
qed

lemma all_verified_iff: "all_verified i g d \<longleftrightarrow> verified_steps i g (cd_steps d)"
  by (auto simp: all_verified_def verified_steps_def list_ex_iff list_all_iff)

lemma prepared_inv:
  assumes inv: "carry_inv d" and ok: "mark_prepared kw i g manifest sha now d = Inr (d', r)"
  shows "carry_inv d'"
proof -
  define f :: "continuation \<Rightarrow> continuation" where "f = (\<lambda>c. (bump now c)\<lparr>co_phase := ''prepared'', co_worker_claimed := False,
      co_manifest_ref := Some manifest, co_manifest_sha256 := Some sha\<rparr>)"
  obtain c e where c: "get_tx i d = Inr c" "current_worker g c" "all_verified i g d" and e: "update_op (named i) f d = Inr e"
    and d': "same_core e d'"
    using ok by (auto simp: mark_prepared_def same_core_def f_def Let_def)
  have "carry_inv e"
    using op_ok_of[OF inv c(1)] c(2,3) get_tx_row[OF c(1)]
    by (intro carry_inv_op[OF inv c(1) _ _ e]) (auto simp: f_def row_defs current_worker_def all_verified_iff)
  then show ?thesis using carry_inv_core[OF d'] by simp
qed

lemma begin_abort_inv:
  assumes inv: "carry_inv d" and ok: "begin_abort_tx kw i v now d = Inr (d', r)"
  shows "carry_inv d'"
proof -
  define f :: "continuation \<Rightarrow> continuation" where "f = (\<lambda>c. (bump now c)\<lparr>co_phase := ''aborting'', co_generation := co_generation c + 1\<rparr>)"
  obtain c e where c: "get_tx i d = Inr c" "co_phase c \<in> {''preparing'', ''prepared'', ''needs_reconciliation''}"
    and e: "update_op (named i) f d = Inr e" and d': "same_core e d'"
    using ok by (auto simp: begin_abort_tx_def same_core_def f_def Let_def)
  have "carry_inv e"
    using op_ok_open[OF op_ok_of[OF inv c(1)]] c(2) get_tx_row[OF c(1)]
    by (intro carry_inv_op[OF inv c(1) _ _ e]) (auto simp: f_def op_ok_held)
  then show ?thesis using carry_inv_core[OF d'] by simp
qed

text \<open>A restart moves every operation in progress at once.\<close>

lemma recover_inv:
  assumes inv: "carry_inv d" and ok: "recover_preparations now d = Inr d'"
  shows "carry_inv d'"
proof -
  define live :: "continuation \<Rightarrow> bool" where "live = (\<lambda>c. co_phase c \<in> {''preparing'', ''aborting''})"
  define f :: "continuation \<Rightarrow> continuation" where "f = (\<lambda>c. (bump now c)\<lparr>co_phase := held_phase (co_phase c), co_generation := co_generation c + 1,
      co_holds_json := hold_json ''effect_outcome_unknown''\<rparr>)"
  define S :: "continuation_step \<Rightarrow> bool" where "S = (\<lambda>s. sp_status s = ''dispatching'' \<and> list_ex (\<lambda>c. live c \<and> co_operation_id c = sp_operation_id s) (cd_operations d))"
  have d': "cd_operations d' = map (\<lambda>c. if live c then f c else c) (cd_operations d)" "cd_fences d' = cd_fences d"
      "cd_steps d' = sql_update S (set_unknown now) (cd_steps d)"
    using ok by (auto simp: recover_preparations_def Let_def live_def f_def S_def update_op_def sql_update_def split: if_splits)
  show ?thesis
  proof (rule carry_inv_rows[OF inv d'(1,2)])
    fix c assume c: "c \<in> set (cd_operations d)"
    have ok: "op_ok (cd_steps d) c" using inv c by (simp add: carry_inv_def)
    have "op_ok (cd_steps d') (if live c then f c else c)"
    proof (cases "live c")
      case True
      then show ?thesis
        using op_ok_open[OF ok] by (auto simp: live_def f_def held_phase_def intro!: op_ok_held)
    next
      case False
      have "\<not> S s" if "sp_operation_id s = co_operation_id c" for s
        using that False by (auto simp: S_def list_ex_iff dest: op_unique[OF inv _ c])
      then have "s \<in> set (cd_steps d') \<longleftrightarrow> s \<in> set (cd_steps d)" if "sp_operation_id s = co_operation_id c" for s
        using that by (auto simp: d'(3) set_sql_update set_unknown_def)
      then have "op_ok (cd_steps d') c \<longleftrightarrow> op_ok (cd_steps d) c" by (rule op_ok_steps)
      then show ?thesis using ok False by simp
    qed
    then show "identity_kept c (if live c then f c else c) \<and> op_ok (cd_steps d') (if live c then f c else c)
        \<and> fence_kind (co_phase (if live c then f c else c)) = fence_kind (co_phase c)"
      by (auto simp: f_def live_def identity_kept_def bump_def)
  next
    show "single_claim (cd_operations d')"
      unfolding d'(1) by (rule single_claim_map) (use inv in \<open>auto simp: carry_inv_def f_def bump_def\<close>)
    show "\<forall>s\<in>set (cd_steps d'). sp_status s \<in> {''dispatching'', ''verified'', ''unknown''}
          \<and> sp_operation_id s \<in> co_operation_id ` set (cd_operations d)"
      using inv by (auto simp: d'(3) set_sql_update set_unknown_def carry_inv_def)
  qed
qed

section \<open>Ends of an operation\<close>

text \<open>The fence of an operation goes with its abort and becomes historical with its activation.\<close>

definition replace_op :: "continuation \<Rightarrow> continuation \<Rightarrow> continuation \<Rightarrow> continuation" where
  "replace_op c c' x = (if x = c then c' else x)"

lemma replace_op_simps [simp]: "replace_op c c' c = c'" "x \<noteq> c \<Longrightarrow> replace_op c c' x = x"
  by (simp_all add: replace_op_def)

lemma fences_agree_change:
  assumes "distinct (map fe_operation_id fs)" "distinct (map fe_source_run_id fs)"
    and "\<And>h. h \<in> set fs \<Longrightarrow> \<exists>x\<in>set ops. guards h (g x)"
    and "\<And>x. x \<in> set ops \<Longrightarrow> co_phase (g x) \<noteq> ''aborted'' \<Longrightarrow> \<exists>h\<in>set fs. guards h (g x)"
  shows "fences_agree (map g ops) fs"
  using assms by (simp add: fences_agree_def)

lemma fences_agree_drop:
  assumes a: "fences_agree ops fs" and u: "\<And>x. x \<in> set ops \<Longrightarrow> co_operation_id x = co_operation_id c \<longleftrightarrow> x = c"
    and c': "co_phase c' = ''aborted''"
  shows "fences_agree (map (replace_op c c') ops) (filter (\<lambda>h. fe_operation_id h \<noteq> co_operation_id c) fs)"
proof (rule fences_agree_change)
  fix h assume h: "h \<in> set (filter (\<lambda>h. fe_operation_id h \<noteq> co_operation_id c) fs)"
  then obtain x where x: "x \<in> set ops" "guards h x" using a by (auto simp: fences_agree_def)
  then have "x \<noteq> c" using h by (auto simp: guards_def)
  then show "\<exists>x\<in>set ops. guards h (replace_op c c' x)" using x by (metis replace_op_simps(2))
next
  fix x assume x: "x \<in> set ops" "co_phase (replace_op c c' x) \<noteq> ''aborted''"
  then have n: "x \<noteq> c" using c' by auto
  then obtain h where h: "h \<in> set fs" "guards h x" using a x unfolding fences_agree_def by auto
  then have "h \<in> set (filter (\<lambda>h. fe_operation_id h \<noteq> co_operation_id c) fs)" using n u[OF x(1)] by (simp add: guards_def)
  then show "\<exists>h\<in>set (filter (\<lambda>h. fe_operation_id h \<noteq> co_operation_id c) fs). guards h (replace_op c c' x)"
    using h n by (metis replace_op_simps(2))
qed (use a in \<open>simp_all add: fences_agree_def distinct_map_filter\<close>)

definition retired :: "execution_fence \<Rightarrow> execution_fence" where
  "retired h = h\<lparr>fe_disposition := ''historical''\<rparr>"

lemma fences_agree_retire:
  assumes a: "fences_agree ops fs" and u: "\<And>x. x \<in> set ops \<Longrightarrow> co_operation_id x = co_operation_id c \<longleftrightarrow> x = c"
    and c: "c \<in> set ops" "co_operation_id c' = co_operation_id c" "co_source_run_id c' = co_source_run_id c"
    and ph: "co_phase c' = ''activated''" and P: "\<And>h. h \<in> set fs \<Longrightarrow> P h \<longleftrightarrow> guards h c" and live: "co_phase c \<noteq> ''aborted''"
  shows "fences_agree (map (replace_op c c') ops) (sql_update P retired fs)"
proof (rule fences_agree_change)
  have step: "guards (if P h then retired h else h) (replace_op c c' x)" if "x \<in> set ops" "h \<in> set fs" "guards h x" for h x
  proof (cases "x = c")
    case True
    then have "guards (retired h) c'" using that c ph by (simp add: guards_def retired_def)
    then show ?thesis using that True P by simp
  next
    case False
    then have "\<not> P h" using that P[OF that(2)] u[OF that(1)] by (auto simp: guards_def)
    then show ?thesis using that False by simp
  qed
  show "\<exists>x\<in>set ops. guards h' (replace_op c c' x)" if h': "h' \<in> set (sql_update P retired fs)" for h'
  proof -
    obtain h where h: "h \<in> set fs" "h' = (if P h then retired h else h)" using h' unfolding sql_update_def by auto
    then obtain x where "x \<in> set ops" "guards h x" using a by (auto simp: fences_agree_def)
    then show ?thesis using step h by blast
  qed
  show "\<exists>h\<in>set (sql_update P retired fs). guards h (replace_op c c' x)"
    if x: "x \<in> set ops" and x': "co_phase (replace_op c c' x) \<noteq> ''aborted''" for x
  proof -
    have "co_phase x \<noteq> ''aborted''" using x' live by (cases "x = c") auto
    then obtain h where h: "h \<in> set fs" "guards h x" using a x unfolding fences_agree_def by blast
    then have "(if P h then retired h else h) \<in> set (sql_update P retired fs)" unfolding sql_update_def by auto
    then show ?thesis using step[OF x h] by blast
  qed
  have "map fe_operation_id (sql_update P retired fs) = map fe_operation_id fs"
      "map fe_source_run_id (sql_update P retired fs) = map fe_source_run_id fs"
    by (rule map_sql_update, simp add: retired_def)+
  then show "distinct (map fe_operation_id (sql_update P retired fs))" "distinct (map fe_source_run_id (sql_update P retired fs))"
    using a by (simp_all add: fences_agree_def)
qed

text \<open>An operation that ends, with the fences its end leaves.\<close>

lemma carry_inv_end:
  assumes inv: "carry_inv d" and c: "c \<in> set (cd_operations d)"
    and d': "cd_operations d' = map (replace_op c c') (cd_operations d)" "cd_steps d' = cd_steps d"
    and row: "identity_kept c c'" "op_ok (cd_steps d) c'" "\<not> co_worker_claimed c'"
    and fences: "fences_agree (cd_operations d') (cd_fences d')"
  shows "carry_inv d'"
proof (rule carry_inv_map[OF inv d'(1) _ fences])
  show "identity_kept x (replace_op c c' x) \<and> op_ok (cd_steps d') (replace_op c c' x)" if "x \<in> set (cd_operations d)" for x
    using inv row that by (cases "x = c") (simp_all add: carry_inv_def d'(2))
  have "replace_op c c' = (\<lambda>x. if x = c then c' else x)" by (simp add: fun_eq_iff replace_op_def)
  then show "single_claim (cd_operations d')"
    unfolding d'(1) using inv c row by (simp only: identity_kept_def carry_inv_def) (intro single_claim_update, auto)
qed (use inv d'(2) in \<open>simp add: carry_inv_def\<close>)

lemma op_unique_iff:
  "carry_inv d \<Longrightarrow> c \<in> set (cd_operations d) \<Longrightarrow> x \<in> set (cd_operations d) \<Longrightarrow> co_operation_id x = co_operation_id c \<longleftrightarrow> x = c"
  using op_unique by blast

lemma finish_abort_inv:
  assumes inv: "carry_inv d" and ok: "finish_abort_tx kw i v now d = Inr (d', r)"
  shows "carry_inv d'"
proof -
  define f :: "continuation \<Rightarrow> continuation" where "f = (\<lambda>c. (bump now c)\<lparr>co_phase := ''aborted'', co_holds_json := ''[]''\<rparr>)"
  obtain c e where c: "get_tx i d = Inr c" "co_phase c = ''aborting''" "\<not> co_worker_claimed c" "\<not> unresolved_step i d"
    and e: "update_op (named i) f d = Inr e" and d': "d' = set_fences (filter (\<lambda>f. fe_operation_id f \<noteq> i) (cd_fences e)) e"
    using ok by (auto simp: finish_abort_tx_def unresolved_abort_def f_def Let_def)
  have row: "c \<in> set (cd_operations d)" "co_operation_id c = i" using get_tx_row[OF c(1)] by auto
  have u: "cd_operations d' = map (replace_op c (f c)) (cd_operations d)"
      "cd_fences d' = filter (\<lambda>f. fe_operation_id f \<noteq> co_operation_id c) (cd_fences d)" "cd_steps d' = cd_steps d"
    using update_named_single[OF inv c(1) refl _ _ e] row by (simp_all add: d' replace_op_def)
  have "sp_status s = ''verified''" if "s \<in> set (cd_steps d)" "sp_operation_id s = i" for s
    using inv c(4) that by (auto simp: carry_inv_def unresolved_step_def list_ex_iff)
  then have own: "op_ok (cd_steps d) (f c)"
    using op_ok_open[OF op_ok_of[OF inv c(1)]] c(2,3) row by (auto simp: f_def op_ok_def)
  have "fences_agree (cd_operations d') (cd_fences d')"
    unfolding u using inv op_unique_iff[OF inv row(1)] by (intro fences_agree_drop) (simp_all add: carry_inv_def f_def)
  then show ?thesis
    by (rule carry_inv_end[OF inv row(1) u(1,3) _ own, rotated 2]) (use c(3) in \<open>simp_all add: f_def\<close>)
qed

lemma retire_fenceE:
  assumes inv: "carry_inv d" and c: "c \<in> set (cd_operations d)" "co_phase c = ''prepared''" and ok: "retire_fence c d = Inr d'"
  obtains P where "d' = set_fences (sql_update P retired (cd_fences d)) d" "\<And>h. h \<in> set (cd_fences d) \<Longrightarrow> P h \<longleftrightarrow> guards h c"
proof
  let ?P = "\<lambda>f. fe_operation_id f = co_operation_id c \<and> fe_source_run_id f = co_source_run_id c \<and> fe_disposition f = ''reserved''"
  show "d' = set_fences (sql_update ?P retired (cd_fences d)) d"
    using ok by (auto simp: retire_fence_def Let_def retired_def[abs_def] split: if_splits)
  show "?P h \<longleftrightarrow> guards h c" if "h \<in> set (cd_fences d)" for h
    using c(2) by (auto simp: guards_def)
qed

lemma activate_inv:
  assumes inv: "carry_inv d" and ok: "activate_tx kw i v sha succ item now d = Inr (d', r)"
  shows "carry_inv d'"
proof -
  define f :: "continuation \<Rightarrow> continuation" where
    "f = (\<lambda>c. (bump now c)\<lparr>co_phase := ''activated'', co_successor_run_id := Some (rr_id succ)\<rparr>)"
  obtain c d1 d2 d3 ins where c: "get_tx i d = Inr c" "co_phase c = ''prepared''" "\<not> co_worker_claimed c"
      "rr_id succ = co_reserved_successor_run_id c"
    and s: "retire_fence c d = Inr d1" "insert_run_tx succ d1 = Inr d2" "enqueue_in ins (d2\<lparr>cd_inputs := sql_update
              (\<lambda>r. ri_operation_id r = i \<and> \<not> ri_installed r)
              (\<lambda>r. r\<lparr>ri_installed := True, ri_successor_run_id := Some (rr_id succ)\<rparr>) (cd_inputs d2)\<rparr>) = Inr d3"
      "update_op (named i) f d3 = Inr d'"
    using ok unfolding activate_tx_def f_def[symmetric] by auto
  have row: "c \<in> set (cd_operations d)" "co_operation_id c = i" using get_tx_row[OF c(1)] by auto
  obtain P where P: "d1 = set_fences (sql_update P retired (cd_fences d)) d" "\<And>h. h \<in> set (cd_fences d) \<Longrightarrow> P h \<longleftrightarrow> guards h c"
    using retire_fenceE[OF inv row(1) c(2) s(1)] by metis
  have d3: "cd_operations d3 = cd_operations d" "cd_fences d3 = sql_update P retired (cd_fences d)" "cd_steps d3 = cd_steps d"
    using insert_run_core[OF s(2)] enqueue_in_core[OF s(3)] P(1) by (simp_all add: same_core_def)
  have u: "cd_operations d' = map (replace_op c (f c)) (cd_operations d)" "cd_steps d' = cd_steps d"
      "cd_fences d' = sql_update P retired (cd_fences d)"
    using update_named_single[OF inv c(1) d3(1) _ _ s(4)] row d3 by (simp_all add: replace_op_def)
  have own: "op_ok (cd_steps d) (f c)"
    using op_ok_of[OF inv c(1)] c by (auto simp: f_def op_ok_def bump_def)
  have "fences_agree (cd_operations d') (cd_fences d')"
    unfolding u using inv row(1) c(2) op_unique_iff[OF inv row(1)] P(2)
    by (intro fences_agree_retire) (simp_all add: carry_inv_def f_def bump_def)
  then show ?thesis
    by (rule carry_inv_end[OF inv row(1) u(1,2) _ own, rotated 2])
      (use c(3) in \<open>simp_all add: f_def identity_kept_def bump_def\<close>)
qed

section \<open>Commands of the operator\<close>

lemma command_tx_inv:
  assumes "command_tx kw name c d body = Inr (d', r)" "carry_inv d" "\<And>r. body d = Inr (d', r) \<Longrightarrow> carry_inv d'"
  shows "carry_inv d'"
  using assms by (auto simp: command_tx_def split: option.splits)

lemma command_txE:
  assumes "command_tx kw name c d body = Inr (d', r)"
  obtains "d' = d" | "body d = Inr (d', r)"
  using assms by (auto simp: command_tx_def split: option.splits)

lemma conclude_inv: "conclude kw op c j now d = Inr (d', r) \<Longrightarrow> carry_inv d \<Longrightarrow> carry_inv d'"
  using conclude_core carry_inv_core by blast

lemma abort_command_inv:
  assumes inv: "carry_inv d" and ok: "abort_command kw i v c j now d = Inr (d', r)"
  shows "carry_inv d'"
  using ok[unfolded abort_command_def] inv
proof (rule command_tx_inv)
  fix r assume "bind_res (get_tx i d) (\<lambda>op.
       bind_res (ensure (co_version op = v) ''stale_operation_version'') (\<lambda>_.
       bind_res (if co_phase op \<noteq> ''aborting'' then begin_abort_tx kw i v now d else Inr (d, op)) (\<lambda>(d1, op1).
       bind_res (if \<not> co_worker_claimed op1 \<and> \<not> unresolved_abort kw i d1
                 then finish_abort_tx kw i (co_version op1) now d1 else Inr (d1, op1)) (\<lambda>(d2, op2).
         conclude kw op2 c j now d2)))) = Inr (d', r)"
  then obtain op d1 op1 d2 op2 where
      1: "(if co_phase op \<noteq> ''aborting'' then begin_abort_tx kw i v now d else Inr (d, op)) = Inr (d1, op1)"
    and 2: "(if \<not> co_worker_claimed op1 \<and> \<not> unresolved_abort kw i d1
                 then finish_abort_tx kw i (co_version op1) now d1 else Inr (d1, op1)) = Inr (d2, op2)"
    and 3: "conclude kw op2 c j now d2 = Inr (d', r)"
    by auto
  have "carry_inv d1" using 1 inv begin_abort_inv[OF inv] by (auto split: if_splits)
  then have "carry_inv d2" using 2 finish_abort_inv by (auto split: if_splits)
  then show "carry_inv d'" using conclude_inv[OF 3] by simp
qed

lemma activate_command_inv:
  assumes inv: "carry_inv d" and ok: "activate_command_impl kw i v sha succ inputs c j item now d = Inr (d', r)"
  shows "carry_inv d'"
  using ok[unfolded activate_command_impl_def] inv
proof (rule command_tx_inv)
  fix r assume "bind_res (case inputs of None \<Rightarrow> Inr d
          | Some xs \<Rightarrow>
              bind_res (get_tx i d) (\<lambda>op.
              bind_res (ensure (co_version op = v) ''stale_operation_version'') (\<lambda>_.
              bind_res (check_witness kw (co_source_run_id op) (Some i) (co_source_witness_sha256 op) d) (\<lambda>_.
                insert_inputs_tx kw op xs d)))) (\<lambda>d1.
       bind_res (activate_tx kw i v sha succ item now d1) (\<lambda>(d2, op). conclude kw op c j now d2)) = Inr (d', r)"
  then obtain d1 d2 op where 1: "same_core d d1" "activate_tx kw i v sha succ item now d1 = Inr (d2, op)"
      "conclude kw op c j now d2 = Inr (d', r)"
    by (cases inputs) (auto dest: insert_inputs_core intro: same_core_refl)
  then show "carry_inv d'" using inv carry_inv_core[OF 1(1)] activate_inv conclude_inv by blast
qed

lemma reconcile_inv:
  assumes inv: "carry_inv d" and ok: "reconcile_command kw i v hold c j now d = Inr (d', r)"
  shows "carry_inv d'"
proof -
  define f :: "continuation_reason_code \<Rightarrow> continuation \<Rightarrow> continuation" where
    "f h = (\<lambda>c. (bump now c)\<lparr>co_phase := held_phase (co_phase c), co_holds_json := hold_json (show_reason_code h)\<rparr>)" for h
  consider "d' = d"
    | b d1 op where "get_tx i d = Inr b" "co_phase b \<in> {''prepared'', ''needs_reconciliation'', ''aborting''}"
      "(case hold of None \<Rightarrow> Inr d | Some h \<Rightarrow> update_op (named i) (f h) d) = Inr d1" "conclude kw op c j now d1 = Inr (d', r)"
    using ok unfolding reconcile_command_def f_def[symmetric] bind_res_eq_Inr
    by (elim exE conjE command_txE) (simp, simp only: bind_res_eq_Inr ensure_eq_Inr, blast)
  then show ?thesis
  proof cases
    case (2 b d1 op)
    have "carry_inv d1" if "update_op (named i) (f h) d = Inr d1" for h
      using op_ok_open[OF op_ok_of[OF inv 2(1)]] 2(2) get_tx_row[OF 2(1)]
      by (intro carry_inv_op[OF inv 2(1) _ _ that]) (auto simp: f_def op_ok_held held_phase_cases)
    then have "carry_inv d1" using 2(3) inv by (cases hold) auto
    then show ?thesis using conclude_inv[OF 2(4)] by simp
  qed (simp add: inv)
qed

lemma reconcile_abort_inv:
  assumes inv: "carry_inv d" and ok: "reconcile_abort_command kw i v c j now d = Inr (d', r)"
  shows "carry_inv d'"
proof -
  define f :: "continuation \<Rightarrow> continuation" where "f = (\<lambda>c. (bump now c)\<lparr>co_holds_json := hold_json ''effect_outcome_unknown''\<rparr>)"
  consider "d' = d"
    | b d1 op r where "get_tx i d = Inr b" "co_phase b = ''aborting''"
      "finish_abort_tx kw i v now d = Inr (d1, op) \<or> update_op (named i) f d = Inr d1" "conclude kw op c j now d1 = Inr (d', r)"
    using ok unfolding reconcile_abort_command_def
    by (auto simp: command_tx_def f_def split: option.splits if_splits)
  then show ?thesis
  proof cases
    case (2 b d1 op r)
    have "carry_inv d1" if "update_op (named i) f d = Inr d1"
      using op_ok_open[OF op_ok_of[OF inv 2(1)]] 2(2) get_tx_row[OF 2(1)]
      by (intro carry_inv_op[OF inv 2(1) _ _ that]) (auto simp: f_def op_ok_held)
    then show ?thesis using 2(3) finish_abort_inv[OF inv] conclude_inv[OF 2(4)] by blast
  qed (simp add: inv)
qed

lemma reconcile_prepared_inv:
  assumes inv: "carry_inv d" and ok: "reconcile_prepared_command kw i v manifest sha c j now d = Inr (d', r)"
  shows "carry_inv d'"
proof -
  define f :: "continuation \<Rightarrow> continuation" where "f = (\<lambda>c. (bump now c)\<lparr>co_phase := ''prepared'',
      co_manifest_ref := Some manifest, co_manifest_sha256 := Some sha, co_holds_json := ''[]''\<rparr>)"
  consider "d' = d"
    | b d1 op r where "get_tx i d = Inr b" "co_phase b = ''needs_reconciliation''" "\<not> co_worker_claimed b"
      "all_verified i (co_generation b) d" "update_op (named i) f d = Inr d1" "conclude kw op c j now d1 = Inr (d', r)"
    using ok unfolding reconcile_prepared_command_def
    by (auto simp: command_tx_def f_def split: option.splits)
  then show ?thesis
  proof cases
    case (2 b d1 op r)
    have "carry_inv d1"
      using op_ok_open[OF op_ok_of[OF inv 2(1)]] 2(2,3,4) get_tx_row[OF 2(1)]
      by (intro carry_inv_op[OF inv 2(1) _ _ 2(5)])
        (auto simp: f_def op_ok_def identity_kept_def bump_def all_verified_iff)
    then show ?thesis using conclude_inv[OF 2(6)] by simp
  qed (simp add: inv)
qed

section \<open>Reservations\<close>

lemma reserveE:
  assumes "reserve_impl kw parent rq fr now d = Inr (d', c)"
  obtains "d' = d" "c \<in> set (cd_operations d)"
    | idea fence where "c = reserved_row rq fr idea parent now" "op_insertable c (cd_operations d)"
        "fence_of (rq_source_run_id rq) d = None" "cd_operations d' = cd_operations d @ [c]"
        "cd_fences d' = cd_fences d @ [fence]" "guards fence c" "cd_steps d' = cd_steps d"
        "\<not> list_ex (\<lambda>c. co_worker_claimed c \<and> co_phase c \<noteq> ''preparing'') (cd_operations d)"
proof (cases "fetch_optional (filter (\<lambda>c. co_caller_fingerprint c = rq_caller_fingerprint rq
            \<and> co_caller_request_id c = rq_caller_request_id rq) (cd_operations d))")
  case (Some previous)
  then show ?thesis
    using assms that(1) fetch_optional_Some[OF Some] by (auto simp: reserve_impl_def)
next
  case None
  then obtain idea where free: "fence_of (rq_source_run_id rq) d = None"
    and idle: "\<not> list_ex (\<lambda>c. co_worker_claimed c \<and> co_phase c \<noteq> ''preparing'') (cd_operations d)"
    and adm: "admit_reservation kw parent rq fr idea now d = Inr (d', c)"
    using assms unfolding reserve_impl_def None
    by (auto simp: check_source_guard_def check_disposition_def split: option.splits if_splits)
  let ?fence = "\<lparr>fe_source_run_id = rq_source_run_id rq, fe_operation_id = fr_operation fr, fe_generation = 1,
      fe_disposition = ''reserved'', fe_created_at = now\<rparr>"
  obtain d1 d2 q w cid s r where c: "c = reserved_row rq fr idea parent now" and i: "op_insertable c (cd_operations d1)"
    and 1: "journal_tx q d = Inr d1" "enqueue_in w (set_fences (cd_fences d1 @ [?fence])
             (d1\<lparr>cd_operations := cd_operations d1 @ [c]\<rparr>)) = Inr d2"
      "record_command_tx kw cid s r now (journal_done (fr_journal fr) now d2) = Inr d'"
    using adm by (auto simp: admit_reservation_def Let_def)
  have d1: "same_core d d1" by (rule journal_tx_core[OF 1(1)])
  have "same_core d2 d'" using record_command_core[OF 1(3)] journal_done_core same_core_trans by blast
  then have "cd_operations d' = cd_operations d @ [c]" "cd_fences d' = cd_fences d @ [?fence]" "cd_steps d' = cd_steps d"
    using enqueue_in_core[OF 1(2)] d1 by (simp_all add: same_core_def)
  moreover have "guards ?fence c" by (simp add: guards_def c reserved_row_def)
  ultimately show ?thesis using that(2)[OF c _ free] i d1 idle by (simp add: same_core_def)
qed

lemma fences_agree_snoc:
  assumes a: "fences_agree ops fs" and f: "guards f c" "fe_source_run_id f \<notin> fe_source_run_id ` set fs"
    and new: "co_operation_id c \<notin> co_operation_id ` set ops"
  shows "fences_agree (ops @ [c]) (fs @ [f])"
proof -
  have "fe_operation_id f \<notin> fe_operation_id ` set fs"
  proof
    assume "fe_operation_id f \<in> fe_operation_id ` set fs"
    then obtain h where "h \<in> set fs" "fe_operation_id h = co_operation_id c" using f(1) by (auto simp: guards_def)
    moreover obtain x where "x \<in> set ops" "guards h x" using a calculation(1) by (auto simp: fences_agree_def)
    ultimately show False using new by (auto simp: guards_def image_iff)
  qed
  then show ?thesis using a f by (auto simp: fences_agree_def)
qed

lemma single_claim_snoc: "\<not> co_worker_claimed c \<Longrightarrow> single_claim (ops @ [c]) \<longleftrightarrow> single_claim ops"
  by (simp add: single_claim_def ball_Un)

lemma reserve_inv:
  assumes inv: "carry_inv d" and ok: "reserve_impl kw parent rq fr now d = Inr (d', c)"
  shows "carry_inv d'"
  using ok
proof (cases rule: reserveE)
  case (2 idea fence)
  have new: "co_operation_id c \<notin> co_operation_id ` set (cd_operations d)"
      "co_reserved_successor_run_id c \<notin> co_reserved_successor_run_id ` set (cd_operations d)"
    using 2(2) by (simp_all add: op_insertable_def)
  have "co_operation_id c \<notin> sp_operation_id ` set (cd_steps d)" using inv new(1) by (auto simp: carry_inv_def)
  then have "sp_operation_id s \<noteq> co_operation_id c" if "s \<in> set (cd_steps d)" for s using that by (metis imageI)
  moreover have "co_phase c = ''preparing''" "co_generation c = 1" "co_successor_run_id c = None"
    by (simp_all add: 2(1) reserved_row_def)
  ultimately have own: "op_ok (cd_steps d) c" by (auto simp: op_ok_def)
  have "fe_source_run_id fence \<notin> fe_source_run_id ` set (cd_fences d)"
    using 2(1,3,6) by (auto simp: fence_of_def guards_def reserved_row_def filter_empty_conv)
  then have "fences_agree (cd_operations d @ [c]) (cd_fences d @ [fence])"
    using inv 2(6) new(1) by (intro fences_agree_snoc) (auto simp: carry_inv_def)
  moreover have "\<not> co_worker_claimed c" by (simp add: 2(1) reserved_row_def)
  then have "single_claim (cd_operations d @ [c])"
    using inv single_claim_snoc by (simp add: carry_inv_def)
  ultimately show ?thesis
    using inv own new unfolding carry_inv_def 2(4,5,7) by simp
qed (simp add: inv)

end
