(* ===== verification/Run_Continuation_Properties.thy ===== *)
theory Run_Continuation_Properties
  imports Run_Continuation_Invariant
begin

text \<open>
  What the continuation of runs guarantees over every interleaving of operators, workers and restarts: a source
  is continued at most once, a revoked worker can do nothing, what is prepared is verified; and the two
  states no transaction leaves again.
\<close>

section \<open>Steps\<close>

text \<open>What operators, the service and other parts of the program do.\<close>

inductive operator_step :: "continuation_db \<Rightarrow> continuation_db \<Rightarrow> bool" where
  reserved: "reserve_impl kw parent rq fr now d = Inr (d', c) \<Longrightarrow> operator_step d d'"
| not_claimed: "claim_preparation_matching kw own now d = Inr (d', None) \<Longrightarrow> operator_step d d'"
| queue_held: "hold_queued_preparation kw i g reason now d = Inr d' \<Longrightarrow> operator_step d d'"
| abort_begun: "begin_abort_tx kw i v now d = Inr (d', c) \<Longrightarrow> operator_step d d'"
| abort_finished: "finish_abort_tx kw i v now d = Inr (d', c) \<Longrightarrow> operator_step d d'"
| aborted: "abort_command kw i v cid j now d = Inr (d', r) \<Longrightarrow> operator_step d d'"
| activated: "activate_tx kw i v sha succ item now d = Inr (d', c) \<Longrightarrow> operator_step d d'"
| activated_by: "activate_command_impl kw i v sha succ inputs cid j item now d = Inr (d', r) \<Longrightarrow> operator_step d d'"
| reconciled: "reconcile_command kw i v hold cid j now d = Inr (d', r) \<Longrightarrow> operator_step d d'"
| abort_reconciled: "reconcile_abort_command kw i v cid j now d = Inr (d', r) \<Longrightarrow> operator_step d d'"
| prepared_reconciled: "reconcile_prepared_command kw i v manifest sha cid j now d = Inr (d', r) \<Longrightarrow> operator_step d d'"
| denied: "record_denial kw cid source op code now d = Inr (d', r) \<Longrightarrow> operator_step d d'"
| elsewhere: "same_core d d' \<Longrightarrow> operator_step d d'"

text \<open>What the worker does that claimed an operation, under the generation it claimed.\<close>

inductive worker_step :: "ident \<Rightarrow> int \<Rightarrow> continuation_db \<Rightarrow> continuation_db \<Rightarrow> bool" where
  begun: "begin_step kw i g key intent dest now d = Inr d' \<Longrightarrow> worker_step i g d d'"
| finished: "finish_step i g key receipt now d = Inr d' \<Longrightarrow> worker_step i g d d'"

text \<open>The last transaction of a worker.\<close>

inductive worker_end :: "ident \<Rightarrow> int \<Rightarrow> continuation_db \<Rightarrow> continuation_db \<Rightarrow> bool" where
  prepared: "mark_prepared kw i g manifest sha now d = Inr (d', c) \<Longrightarrow> worker_end i g d d'"
| held: "hold_preparation kw i g reason now d = Inr d' \<Longrightarrow> worker_end i g d d'"
| settled: "settle_worker kw i g now d = Inr d' \<Longrightarrow> worker_end i g d d'"

inductive carry_step :: "continuation_db \<Rightarrow> continuation_db \<Rightarrow> bool" where
  operator: "operator_step d d' \<Longrightarrow> carry_step d d'"
| worker: "worker_step i g d d' \<Longrightarrow> carry_step d d'"
| ended: "worker_end i g d d' \<Longrightarrow> carry_step d d'"
| claimed: "claim_preparation_matching kw own now d = Inr (d', Some c) \<Longrightarrow> carry_step d d'"
| restarted: "recover_preparations now d = Inr d' \<Longrightarrow> carry_step d d'"

lemma record_denial_core: "record_denial kw cid source op code now d = Inr (d', r) \<Longrightarrow> same_core d d'"
  unfolding record_denial_def by (auto split: option.splits dest: record_command_core)

lemma operator_step_inv: "operator_step d d' \<Longrightarrow> carry_inv d \<Longrightarrow> carry_inv d'"
proof (induction rule: operator_step.induct)
  case denied
  then show ?case using record_denial_core carry_inv_core by blast
qed (blast intro: reserve_inv claim_inv hold_queued_inv begin_abort_inv finish_abort_inv abort_command_inv activate_inv
    activate_command_inv reconcile_inv reconcile_abort_inv reconcile_prepared_inv dest: carry_inv_core)+

lemma carry_step_inv: "carry_step d d' \<Longrightarrow> carry_inv d \<Longrightarrow> carry_inv d'"
  by (induction rule: carry_step.induct)
    (auto elim!: worker_step.cases worker_end.cases
      intro: operator_step_inv begin_step_inv finish_step_inv prepared_inv hold_inv settle_worker_inv claim_inv recover_inv)

definition carry_init :: "continuation_db \<Rightarrow> bool" where
  "carry_init d \<longleftrightarrow> cd_operations d = [] \<and> cd_fences d = [] \<and> cd_steps d = []"

interpretation carry: guarded_system carry_init carry_step carry_inv
proof
  show "carry_inv d" if "carry_init d" for d
    using that by (simp add: carry_init_def carry_inv_def fences_agree_def single_claim_def)
qed (rule carry_step_inv)

section \<open>How operations and steps move\<close>

definition op_order :: "continuation \<Rightarrow> continuation \<Rightarrow> bool" where
  "op_order c c' \<longleftrightarrow>
     identity_kept c c' \<and> co_generation c \<le> co_generation c'
     \<and> (co_phase c' = ''preparing'' \<longrightarrow> co_phase c = ''preparing'')
     \<and> (co_phase c \<in> {''activated'', ''aborted''} \<longrightarrow> co_phase c' = co_phase c)"

text \<open>Without the worker a claim is never released.\<close>

definition held_order :: "continuation \<Rightarrow> continuation \<Rightarrow> bool" where
  "held_order c c' \<longleftrightarrow> op_order c c' \<and> (co_worker_claimed c \<longrightarrow> co_worker_claimed c')"

definition step_order :: "continuation_step \<Rightarrow> continuation_step \<Rightarrow> bool" where
  "step_order s s' \<longleftrightarrow>
     sp_operation_id s' = sp_operation_id s \<and> sp_step_key s' = sp_step_key s
     \<and> (sp_status s = ''unknown'' \<longrightarrow> sp_status s' = ''unknown'')"

lemma identity_kept_trans: "identity_kept a b \<Longrightarrow> identity_kept b c \<Longrightarrow> identity_kept a c"
  by (simp add: identity_kept_def)

interpretation op_rows: row_order op_order
proof
  show "op_order r t" if a: "op_order r s" and b: "op_order s t" for r s t
    unfolding op_order_def
  proof (intro conjI)
    show "identity_kept r t" using a b identity_kept_trans unfolding op_order_def by blast
    show "co_generation r \<le> co_generation t" using a b unfolding op_order_def by (meson order_trans)
    show "co_phase t = ''preparing'' \<longrightarrow> co_phase r = ''preparing''" using a b unfolding op_order_def by blast
    show "co_phase r \<in> {''activated'', ''aborted''} \<longrightarrow> co_phase t = co_phase r" using a b unfolding op_order_def by metis
  qed
qed (simp add: op_order_def)

interpretation held_rows: row_order held_order
  by unfold_locales (auto simp: held_order_def op_rows.moves_refl intro: op_rows.moves_trans)

interpretation step_rows: row_order step_order
  by unfold_locales (auto simp: step_order_def)

definition carry_moves :: "(continuation \<Rightarrow> continuation \<Rightarrow> bool) \<Rightarrow> continuation_db \<Rightarrow> continuation_db \<Rightarrow> bool" where
  "carry_moves R d d' \<longleftrightarrow>
     table_moves R (cd_operations d) (cd_operations d') \<and> table_moves step_order (cd_steps d) (cd_steps d')"

lemma held_moves_refl: "same_core d d' \<Longrightarrow> carry_moves held_order d d'"
  by (simp add: carry_moves_def same_core_def held_rows.table_refl step_rows.table_refl)

lemma held_moves_trans: "carry_moves held_order a b \<Longrightarrow> carry_moves held_order b c \<Longrightarrow> carry_moves held_order a c"
  unfolding carry_moves_def by (blast intro: held_rows.table_trans step_rows.table_trans)

lemma op_moves_trans: "carry_moves op_order a b \<Longrightarrow> carry_moves op_order b c \<Longrightarrow> carry_moves op_order a c"
  unfolding carry_moves_def by (blast intro: op_rows.table_trans step_rows.table_trans)

lemma held_moves_op: "carry_moves held_order d d' \<Longrightarrow> carry_moves op_order d d'"
  unfolding carry_moves_def table_moves_def held_order_def by (auto intro: list_all2_mono)

text \<open>The trigger on operations orders their phases and generations.\<close>

lemma phase_moves_ends:
  assumes "phase_moves p q"
  shows "p \<noteq> ''activated''" "p \<noteq> ''aborted''" "q = ''preparing'' \<longrightarrow> p = ''preparing''"
  using assms by (auto simp: phase_moves_def)

lemma allowed_moves:
  assumes "op_update_allowed d c n" "identity_kept c n"
  shows "op_order c n"
  using assms phase_moves_ends unfolding op_update_allowed_def op_order_def by blast

lemma update_op_moves:
  assumes "update_op P f d = Inr d'" "\<And>c. identity_kept c (f c)"
  shows "carry_moves op_order d d'"
  using assms(1)
proof (rule update_opE)
  assume d': "d' = d\<lparr>cd_operations := sql_update P f (cd_operations d)\<rparr>"
    and ok: "\<And>c. c \<in> set (cd_operations d) \<Longrightarrow> P c \<Longrightarrow> op_update_allowed d c (f c)"
  show ?thesis
    using allowed_moves[OF ok assms(2)]
    by (auto simp: d' carry_moves_def step_rows.table_refl intro: op_rows.table_update)
qed

lemma update_op_held:
  assumes "update_op P f d = Inr d'" "\<And>c. identity_kept c (f c)" "\<And>c. co_worker_claimed c \<Longrightarrow> co_worker_claimed (f c)"
  shows "carry_moves held_order d d'"
  using assms(1)
proof (rule update_opE)
  assume d': "d' = d\<lparr>cd_operations := sql_update P f (cd_operations d)\<rparr>"
    and ok: "\<And>c. c \<in> set (cd_operations d) \<Longrightarrow> P c \<Longrightarrow> op_update_allowed d c (f c)"
  show ?thesis
    using allowed_moves[OF ok assms(2)] assms(3)
    by (auto simp: d' carry_moves_def step_rows.table_refl held_order_def intro: held_rows.table_update)
qed

lemma steps_moves:
  "cd_operations d' = cd_operations d \<Longrightarrow> table_moves step_order (cd_steps d) (cd_steps d') \<Longrightarrow> carry_moves held_order d d'"
  by (simp add: carry_moves_def held_rows.table_refl)

lemma unknown_steps_moves: "carry_moves held_order d (unknown_steps i now d)"
  by (rule steps_moves) (auto simp: unknown_steps_def step_order_def set_unknown_def intro: step_rows.table_update)

lemma bump_kept [simp]: "identity_kept c ((bump now c)\<lparr>co_phase := p, co_successor_run_id := s\<rparr>)"
  "identity_kept c ((bump now c)\<lparr>co_phase := p, co_worker_claimed := b, co_manifest_ref := m, co_manifest_sha256 := h\<rparr>)"
  "identity_kept c ((bump now c)\<lparr>co_phase := p, co_manifest_ref := m, co_manifest_sha256 := h, co_holds_json := j\<rparr>)"
  by (simp_all add: identity_kept_def bump_def)

lemma conclude_moves: "conclude kw op c j now d = Inr (d', r) \<Longrightarrow> carry_moves held_order d d'"
  by (rule held_moves_refl, rule conclude_core)

lemma begin_abort_moves:
  assumes "begin_abort_tx kw i v now d = Inr (d', r)"
  shows "carry_moves held_order d d'"
proof -
  obtain e where "update_op (named i) (\<lambda>c. (bump now c)\<lparr>co_phase := ''aborting'', co_generation := co_generation c + 1\<rparr>) d = Inr e"
    "same_core e d'" using assms by (auto simp: begin_abort_tx_def same_core_def Let_def)
  then show ?thesis by (auto intro!: held_moves_trans[OF update_op_held held_moves_refl])
qed

lemma finish_abort_moves:
  assumes "finish_abort_tx kw i v now d = Inr (d', r)"
  shows "carry_moves held_order d d'"
proof -
  obtain e fs where e: "update_op (named i) (\<lambda>c. (bump now c)\<lparr>co_phase := ''aborted'', co_holds_json := ''[]''\<rparr>) d = Inr e"
    and d': "d' = set_fences fs e" using assms by (auto simp: finish_abort_tx_def Let_def)
  show ?thesis using update_op_held[OF e] by (simp add: d' carry_moves_def)
qed

lemma activate_moves:
  assumes "activate_tx kw i v sha succ item now d = Inr (d', r)"
  shows "carry_moves held_order d d'"
proof -
  obtain c d1 d2 d3 ins inp where s: "retire_fence c d = Inr d1" "insert_run_tx succ d1 = Inr d2"
      "enqueue_in ins (d2\<lparr>cd_inputs := inp\<rparr>) = Inr d3"
      "update_op (named i) (\<lambda>c. (bump now c)\<lparr>co_phase := ''activated'', co_successor_run_id := Some (rr_id succ)\<rparr>) d3 = Inr d'"
    using assms unfolding activate_tx_def by auto
  have "cd_operations d1 = cd_operations d" "cd_steps d1 = cd_steps d"
    using s(1) by (auto simp: retire_fence_def Let_def split: if_splits)
  then have "cd_operations d3 = cd_operations d" "cd_steps d3 = cd_steps d"
    using insert_run_core[OF s(2)] enqueue_in_core[OF s(3)] by (simp_all add: same_core_def)
  then show ?thesis using update_op_held[OF s(4)] by (simp add: carry_moves_def)
qed

lemma hold_queued_moves:
  assumes "hold_queued_preparation kw i g reason now d = Inr d'"
  shows "carry_moves held_order d d'"
proof -
  obtain e P where "update_op P (\<lambda>c. (bump now c)\<lparr>co_phase := ''needs_reconciliation'', co_holds_json := hold_json reason\<rparr>) d = Inr e"
    "same_core e d'" using assms by (auto simp: hold_queued_preparation_def same_core_def Let_def)
  then show ?thesis by (auto intro!: held_moves_trans[OF update_op_held held_moves_refl])
qed

lemma claim_moves:
  assumes "claim_preparation_matching kw own now d = Inr (d', r)"
  shows "carry_moves held_order d d'"
proof -
  consider "d' = d" | e i f where "update_op (named i) f d = Inr e" "same_core e d'"
      "(\<forall>c. identity_kept c (f c)) \<and> (\<forall>c. co_worker_claimed c \<longrightarrow> co_worker_claimed (f c))"
    using assms
    by (auto simp: claim_preparation_matching_def Let_def same_core_def split: if_splits option.splits)
  then show ?thesis
  proof cases
    case 2
    then show ?thesis by (auto intro!: held_moves_trans[OF update_op_held held_moves_refl])
  qed (simp add: held_moves_refl)
qed

lemma reserve_moves:
  assumes "reserve_impl kw parent rq fr now d = Inr (d', c)"
  shows "carry_moves held_order d d'"
  using assms by (cases rule: reserveE)
    (auto simp: carry_moves_def held_rows.table_snoc held_rows.table_refl step_rows.table_refl)

lemma recover_moves:
  assumes "recover_preparations now d = Inr d'"
  shows "carry_moves held_order d d'"
proof -
  obtain P S e where e: "update_op P (\<lambda>c. (bump now c)\<lparr>co_phase := held_phase (co_phase c),
        co_generation := co_generation c + 1, co_holds_json := hold_json ''effect_outcome_unknown''\<rparr>)
        (update_steps S (set_unknown now) d) = Inr e" "same_core e d'"
    using assms by (auto simp: recover_preparations_def same_core_def Let_def)
  have "carry_moves held_order d (update_steps S (set_unknown now) d)"
    by (rule steps_moves) (auto simp: step_order_def set_unknown_def intro: step_rows.table_update)
  moreover have "carry_moves held_order (update_steps S (set_unknown now) d) e"
    by (rule update_op_held[OF e(1)]) simp_all
  ultimately show ?thesis using e(2) by (blast intro: held_moves_trans held_moves_refl)
qed

lemma abort_command_moves:
  assumes "abort_command kw i v c j now d = Inr (d', r)"
  shows "carry_moves held_order d d'"
  using assms unfolding abort_command_def
proof (rule command_txE)
  assume "bind_res (get_tx i d) (\<lambda>op.
       bind_res (ensure (co_version op = v) ''stale_operation_version'') (\<lambda>_.
       bind_res (if co_phase op \<noteq> ''aborting'' then begin_abort_tx kw i v now d else Inr (d, op)) (\<lambda>(d1, op1).
       bind_res (if \<not> co_worker_claimed op1 \<and> \<not> unresolved_abort kw i d1
                 then finish_abort_tx kw i (co_version op1) now d1 else Inr (d1, op1)) (\<lambda>(d2, op2).
         conclude kw op2 c j now d2)))) = Inr (d', r)"
  then obtain op d1 op1 d2 op2 where
      1: "(if co_phase op \<noteq> ''aborting'' then begin_abort_tx kw i v now d else Inr (d, op)) = Inr (d1, op1)"
    and 2: "(if \<not> co_worker_claimed op1 \<and> \<not> unresolved_abort kw i d1
                 then finish_abort_tx kw i (co_version op1) now d1 else Inr (d1, op1)) = Inr (d2, op2)"
    and 3: "conclude kw op2 c j now d2 = Inr (d', r)"
    by auto
  have "carry_moves held_order d d1" using 1 begin_abort_moves held_moves_refl by (auto split: if_splits)
  moreover have "carry_moves held_order d1 d2" using 2 finish_abort_moves held_moves_refl by (auto split: if_splits)
  ultimately show ?thesis using conclude_moves[OF 3] held_moves_trans by blast
qed (simp add: held_moves_refl)

lemma activate_command_moves:
  assumes "activate_command_impl kw i v sha succ inputs c j item now d = Inr (d', r)"
  shows "carry_moves held_order d d'"
  using assms unfolding activate_command_impl_def
proof (rule command_txE)
  assume "bind_res (case inputs of None \<Rightarrow> Inr d
          | Some xs \<Rightarrow>
              bind_res (get_tx i d) (\<lambda>op.
              bind_res (ensure (co_version op = v) ''stale_operation_version'') (\<lambda>_.
              bind_res (check_witness kw (co_source_run_id op) (Some i) (co_source_witness_sha256 op) d) (\<lambda>_.
                insert_inputs_tx kw op xs d)))) (\<lambda>d1.
       bind_res (activate_tx kw i v sha succ item now d1) (\<lambda>(d2, op). conclude kw op c j now d2)) = Inr (d', r)"
  then obtain d1 d2 op where 1: "same_core d d1" "activate_tx kw i v sha succ item now d1 = Inr (d2, op)"
      "conclude kw op c j now d2 = Inr (d', r)"
    by (cases inputs) (auto dest: insert_inputs_core intro: same_core_refl)
  then show ?thesis
    using held_moves_refl[OF 1(1)] activate_moves[OF 1(2)] conclude_moves[OF 1(3)] held_moves_trans by blast
qed (simp add: held_moves_refl)

lemma reconcile_moves:
  assumes "reconcile_command kw i v hold c j now d = Inr (d', r)"
  shows "carry_moves held_order d d'"
proof -
  define f :: "continuation_reason_code \<Rightarrow> continuation \<Rightarrow> continuation" where
    "f h = (\<lambda>c. (bump now c)\<lparr>co_phase := held_phase (co_phase c), co_holds_json := hold_json (show_reason_code h)\<rparr>)" for h
  consider "d' = d" | d1 op where "(case hold of None \<Rightarrow> Inr d | Some h \<Rightarrow> update_op (named i) (f h) d) = Inr d1"
      "conclude kw op c j now d1 = Inr (d', r)"
    using assms unfolding reconcile_command_def f_def[symmetric] bind_res_eq_Inr
    by (elim exE conjE command_txE) (simp, simp only: bind_res_eq_Inr ensure_eq_Inr, blast)
  then show ?thesis
  proof cases
    case (2 d1 op)
    have "carry_moves held_order d d1" if "update_op (named i) (f h) d = Inr d1" for h
      by (rule update_op_held[OF that]) (simp_all add: f_def)
    then have "carry_moves held_order d d1" using 2(1) by (cases hold) (auto intro: held_moves_refl)
    then show ?thesis using conclude_moves[OF 2(2)] held_moves_trans by blast
  qed (simp add: held_moves_refl)
qed

lemma reconcile_abort_moves:
  assumes "reconcile_abort_command kw i v c j now d = Inr (d', r)"
  shows "carry_moves held_order d d'"
proof -
  consider "d' = d" | d1 op where "finish_abort_tx kw i v now d = Inr (d1, op)
        \<or> update_op (named i) (\<lambda>c. (bump now c)\<lparr>co_holds_json := hold_json ''effect_outcome_unknown''\<rparr>) d = Inr d1"
      "conclude kw op c j now d1 = Inr (d', r)"
    using assms unfolding reconcile_abort_command_def
    by (auto simp: command_tx_def split: option.splits if_splits)
  then show ?thesis
  proof cases
    case (2 d1 op)
    have "carry_moves held_order d d1"
      using 2(1)
    proof
      assume u: "update_op (named i) (\<lambda>c. (bump now c)\<lparr>co_holds_json := hold_json ''effect_outcome_unknown''\<rparr>) d = Inr d1"
      show ?thesis by (rule update_op_held[OF u]) simp_all
    qed (rule finish_abort_moves)
    then show ?thesis using conclude_moves[OF 2(2)] held_moves_trans by blast
  qed (simp add: held_moves_refl)
qed

lemma reconcile_prepared_moves:
  assumes "reconcile_prepared_command kw i v manifest sha c j now d = Inr (d', r)"
  shows "carry_moves held_order d d'"
proof -
  consider "d' = d" | d1 op where "update_op (named i) (\<lambda>c. (bump now c)\<lparr>co_phase := ''prepared'',
        co_manifest_ref := Some manifest, co_manifest_sha256 := Some sha, co_holds_json := ''[]''\<rparr>) d = Inr d1"
      "conclude kw op c j now d1 = Inr (d', r)"
    using assms unfolding reconcile_prepared_command_def
    by (auto simp: command_tx_def split: option.splits)
  then show ?thesis
  proof cases
    case (2 d1 op)
    have "carry_moves held_order d d1" by (rule update_op_held[OF 2(1)]) simp_all
    then show ?thesis using conclude_moves[OF 2(2)] held_moves_trans by blast
  qed (simp add: held_moves_refl)
qed

lemma operator_step_moves: "operator_step d d' \<Longrightarrow> carry_moves held_order d d'"
  by (induction rule: operator_step.induct)
    (blast intro: reserve_moves claim_moves hold_queued_moves begin_abort_moves finish_abort_moves abort_command_moves
      activate_moves activate_command_moves reconcile_moves reconcile_abort_moves reconcile_prepared_moves
      held_moves_refl record_denial_core)+

lemma worker_step_moves: "worker_step i g d d' \<Longrightarrow> carry_moves held_order d d'"
proof (induction rule: worker_step.induct)
  case (begun i g key intent dest now d d')
  then show ?case
    by (auto simp: begin_step_def Let_def intro!: steps_moves step_rows.table_snoc)
next
  case (finished i g key receipt now d d')
  then show ?case
    by (auto simp: finish_step_def Let_def step_order_def intro!: steps_moves step_rows.table_update)
qed

lemma worker_end_moves: "worker_end i g d d' \<Longrightarrow> carry_moves op_order d d'"
proof (induction rule: worker_end.induct)
  case (prepared kw i g manifest sha now d d' c)
  then obtain e where e: "update_op (named i) (\<lambda>c. (bump now c)\<lparr>co_phase := ''prepared'', co_worker_claimed := False,
      co_manifest_ref := Some manifest, co_manifest_sha256 := Some sha\<rparr>) d = Inr e" "same_core e d'"
    by (auto simp: mark_prepared_def same_core_def Let_def)
  then show ?case by (auto intro!: op_moves_trans[OF update_op_moves[OF e(1)] held_moves_op[OF held_moves_refl[OF e(2)]]])
next
  case (held kw i g reason now d d')
  then obtain e where e: "update_op (named i) (\<lambda>c. (bump now c)\<lparr>co_phase := ''needs_reconciliation'',
      co_holds_json := hold_json reason\<rparr>) (unknown_steps i now d) = Inr e" "same_core e d'"
    by (auto simp: hold_preparation_def same_core_def)
  have "carry_moves op_order (unknown_steps i now d) e" by (rule update_op_moves[OF e(1)]) simp
  then show ?case using unknown_steps_moves held_moves_op held_moves_refl[OF e(2)] op_moves_trans by blast
next
  case (settled kw i g now d d')
  then obtain e where e: "update_op (named i) (\<lambda>c. (bump now c)\<lparr>co_worker_claimed := False,
      co_phase := held_phase (co_phase c)\<rparr>) (unknown_steps i now d) = Inr e" "same_core e d'"
    by (auto simp: settle_worker_def same_core_def)
  have "carry_moves op_order (unknown_steps i now d) e" by (rule update_op_moves[OF e(1)]) simp
  then show ?case using unknown_steps_moves held_moves_op held_moves_refl[OF e(2)] op_moves_trans by blast
qed

lemma carry_step_moves: "carry_step d d' \<Longrightarrow> carry_moves op_order d d'"
  by (induction rule: carry_step.induct)
    (blast intro: held_moves_op operator_step_moves worker_step_moves worker_end_moves claim_moves recover_moves)+

lemma carry_run_moves: "carry_step\<^sup>*\<^sup>* d d' \<Longrightarrow> carry_moves op_order d d'"
  by (induction rule: rtranclp_induct)
    (blast intro: held_moves_op held_moves_refl same_core_refl op_moves_trans carry_step_moves)+

section \<open>What the fence of a source says\<close>

lemma filter_unique:
  assumes "distinct (map k t)" "x \<in> set t" "P x" "\<And>y. y \<in> set t \<Longrightarrow> P y \<Longrightarrow> y = x"
  shows "filter P t = [x]"
proof -
  have "P y \<longleftrightarrow> k y = k x" if "y \<in> set t" for y
    using assms(2-4) that key_unique[OF assms(1) that assms(2)] by blast
  then have "filter P t = filter (\<lambda>y. k y = k x) t" by (rule filter_cong[OF refl])
  then show ?thesis using key_filter[OF assms(1,2)] by simp
qed

lemma fence_of_live:
  assumes inv: "carry_inv d" and c: "c \<in> set (cd_operations d)" "co_phase c \<noteq> ''aborted''"
  obtains f where "fence_of (co_source_run_id c) d = Some f" "guards f c" "f \<in> set (cd_fences d)"
proof -
  obtain f where f: "f \<in> set (cd_fences d)" "guards f c" using inv c by (auto simp: carry_inv_def fences_agree_def)
  have "distinct (map fe_source_run_id (cd_fences d))" using inv by (simp add: carry_inv_def fences_agree_def)
  from key_filter[OF this f(1)] have "fence_of (co_source_run_id c) d = Some f"
    using f(2) by (simp add: fence_of_def guards_def fetch_optional_def)
  then show ?thesis using that f by blast
qed

lemma live_source_unique:
  assumes inv: "carry_inv d" and c: "c \<in> set (cd_operations d)" "co_phase c \<noteq> ''aborted''"
    and x: "x \<in> set (cd_operations d)" "co_phase x \<noteq> ''aborted''" "co_source_run_id x = co_source_run_id c"
  shows "x = c"
proof -
  obtain f h where "fence_of (co_source_run_id c) d = Some f" "guards f c" "fence_of (co_source_run_id x) d = Some h" "guards h x"
    using fence_of_live[OF inv c] fence_of_live[OF inv x(1,2)] by metis
  then show ?thesis using x op_unique[OF inv x(1) c(1)] by (simp add: guards_def)
qed

lemma guard_of_live:
  assumes inv: "carry_inv d" and c: "c \<in> set (cd_operations d)" "co_phase c \<noteq> ''aborted''"
  shows "check_source_guard (co_source_run_id c) d =
    Inl (if co_phase c = ''activated'' then ''source_continued'' else ''continuation_in_progress'')"
proof -
  obtain f where "fence_of (co_source_run_id c) d = Some f" "guards f c" using fence_of_live[OF inv c] by metis
  then show ?thesis
    using c(2) by (auto simp: check_source_guard_def check_disposition_def guards_def fence_kind_def split: if_splits)
qed

lemma moved_op:
  assumes "carry_moves op_order d d'" "c \<in> set (cd_operations d)"
  obtains c' where "c' \<in> set (cd_operations d')" "op_order c c'"
  using table_moves_mem assms unfolding carry_moves_def by metis

text \<open>
  C9: a blocked run is continued at most once. An operation that was activated stays, on every interleaving of
  operators, workers and restarts, the only operation of its source that is not aborted; its successor is
  the run that was reserved for it, and every later attempt on the source is answered that it was continued.
\<close>

theorem source_continued_once:
  assumes "reachable_from carry_init carry_step d" and "carry_step\<^sup>*\<^sup>* d d'"
    and "c \<in> set (cd_operations d)" and "co_phase c = ''activated''"
  shows "\<exists>c'. filter (\<lambda>x. co_source_run_id x = co_source_run_id c \<and> co_phase x \<noteq> ''aborted'') (cd_operations d') = [c']
      \<and> co_operation_id c' = co_operation_id c \<and> co_phase c' = ''activated''
      \<and> co_successor_run_id c' = Some (co_reserved_successor_run_id c)
      \<and> check_source_guard (co_source_run_id c) d' = Inl ''source_continued''"
proof -
  have inv: "carry_inv d'" using carry.reachable_inv[OF assms(1)] carry.run_inv assms(2) by blast
  obtain c' where c': "c' \<in> set (cd_operations d')" "op_order c c'" using moved_op[OF carry_run_moves[OF assms(2)] assms(3)] by metis
  then have id: "identity_kept c c'" and ph: "co_phase c' = ''activated''" using assms(4) by (auto simp: op_order_def)
  have "op_ok (cd_steps d') c'" using inv c'(1) by (simp add: carry_inv_def)
  then have "co_successor_run_id c' = Some (co_reserved_successor_run_id c)"
    using ph id by (auto simp: op_ok_def identity_kept_def)
  moreover have "filter (\<lambda>x. co_source_run_id x = co_source_run_id c \<and> co_phase x \<noteq> ''aborted'') (cd_operations d') = [c']"
  proof (rule filter_unique[of co_operation_id, OF _ c'(1)])
    show "distinct (map co_operation_id (cd_operations d'))" using inv by (simp add: carry_inv_def)
    show "co_source_run_id c' = co_source_run_id c \<and> co_phase c' \<noteq> ''aborted''" using id ph by (simp add: identity_kept_def)
    then show "y = c'" if "y \<in> set (cd_operations d')" "co_source_run_id y = co_source_run_id c \<and> co_phase y \<noteq> ''aborted''" for y
      using that live_source_unique[OF inv c'(1)] by metis
  qed
  moreover have "check_source_guard (co_source_run_id c) d' = Inl ''source_continued''"
    using guard_of_live[OF inv c'(1)] ph id by (simp add: identity_kept_def)
  ultimately show ?thesis using id ph by (auto simp: identity_kept_def)
qed

text \<open>What is left to the worker of a revoked operation: to report that its children are settled.\<close>

lemma settle_worker_effect:
  assumes inv: "carry_inv d" and ok: "settle_worker kw i g now d = Inr d'"
  shows "\<exists>c\<in>set (cd_operations d). co_operation_id c = i \<and> co_worker_claimed c
      \<and> (co_generation c = g \<or> co_phase c = ''aborting'' \<and> co_generation c = g + 1)"
    and "\<forall>x\<in>set (cd_operations d'). co_operation_id x = i \<longrightarrow>
      \<not> co_worker_claimed x \<and> co_phase x \<in> {''aborting'', ''needs_reconciliation''}"
    and "filter (\<lambda>x. co_operation_id x \<noteq> i) (cd_operations d') = filter (\<lambda>x. co_operation_id x \<noteq> i) (cd_operations d)"
    and "filter (\<lambda>s. sp_status s = ''verified'') (cd_steps d') = filter (\<lambda>s. sp_status s = ''verified'') (cd_steps d)"
    and "cd_fences d' = cd_fences d"
proof -
  define f :: "continuation \<Rightarrow> continuation" where "f = (\<lambda>c. (bump now c)\<lparr>co_worker_claimed := False, co_phase := held_phase (co_phase c)\<rparr>)"
  obtain c e where c: "get_tx i d = Inr c" "co_worker_claimed c"
      "co_generation c = g \<or> co_phase c = ''aborting'' \<and> co_generation c = g + 1"
    and e: "update_op (named i) f (unknown_steps i now d) = Inr e" and d': "same_core e d'"
    using ok by (auto simp: settle_worker_def same_core_def f_def)
  from c get_tx_row[OF c(1)] show "\<exists>c\<in>set (cd_operations d). co_operation_id c = i \<and> co_worker_claimed c
      \<and> (co_generation c = g \<or> co_phase c = ''aborting'' \<and> co_generation c = g + 1)" by auto
  have u: "cd_operations d' = sql_update (named i) f (cd_operations d)" "cd_fences d' = cd_fences d"
    "cd_steps d' = sql_update (\<lambda>s. sp_operation_id s = i \<and> sp_status s = ''dispatching'') (set_unknown now) (cd_steps d)"
    using e d' by (auto elim!: update_opE simp: same_core_def unknown_steps_def update_steps_def)
  show "\<forall>x\<in>set (cd_operations d'). co_operation_id x = i \<longrightarrow>
      \<not> co_worker_claimed x \<and> co_phase x \<in> {''aborting'', ''needs_reconciliation''}"
    unfolding u by (simp add: sql_update_def ball_Un f_def bump_def held_phase_def)
  show "filter (\<lambda>x. co_operation_id x \<noteq> i) (cd_operations d') = filter (\<lambda>x. co_operation_id x \<noteq> i) (cd_operations d)"
    unfolding u by (rule filter_sql_update_other) (simp add: f_def bump_def)
  show "filter (\<lambda>s. sp_status s = ''verified'') (cd_steps d') = filter (\<lambda>s. sp_status s = ''verified'') (cd_steps d)"
    unfolding u by (rule filter_sql_update_other) (simp add: set_unknown_def)
  show "cd_fences d' = cd_fences d" by (rule u(2))
qed

text \<open>
  C11: a worker whose operation left the preparation, because an operator aborted it or the daemon was restarted,
  no longer moves it forward: every step it begins or finishes, and every attempt to publish or to hold
  the operation, is refused as stale, whatever generation it claims and whatever happened since. The one call
  that may still be accepted is the report that its children are settled: it is refused unless the operation is
  still claimed under the generation of the worker (or the one before the abort), and then it leaves the operation
  unclaimed, aborting or in need of reconciliation, touches no other operation, verifies no step and
  releases no fence.
\<close>

theorem revoked_worker_is_powerless:
  assumes "carry_step\<^sup>*\<^sup>* d d'" and "reachable_from carry_init carry_step d"
    and "c \<in> set (cd_operations d)" and "co_phase c \<noteq> ''preparing''" and "reason \<in> hold_reasons"
  shows "begin_step kw (co_operation_id c) g key intent dest now d' = Inl ''continuation_stale_worker''
    \<and> finish_step (co_operation_id c) g key receipt now d' = Inl ''continuation_stale_worker''
    \<and> mark_prepared kw (co_operation_id c) g manifest sha now d' = Inl ''continuation_stale_worker''
    \<and> hold_preparation kw (co_operation_id c) g reason now d' = Inl ''continuation_stale_worker''
    \<and> (\<forall>d''. settle_worker kw (co_operation_id c) g now d' = Inr d'' \<longrightarrow>
         (\<exists>x\<in>set (cd_operations d'). co_operation_id x = co_operation_id c \<and> co_worker_claimed x
            \<and> (co_generation x = g \<or> co_phase x = ''aborting'' \<and> co_generation x = g + 1))
         \<and> (\<forall>x\<in>set (cd_operations d''). co_operation_id x = co_operation_id c \<longrightarrow>
              \<not> co_worker_claimed x \<and> co_phase x \<in> {''aborting'', ''needs_reconciliation''})
         \<and> filter (\<lambda>x. co_operation_id x \<noteq> co_operation_id c) (cd_operations d'')
             = filter (\<lambda>x. co_operation_id x \<noteq> co_operation_id c) (cd_operations d')
         \<and> filter (\<lambda>s. sp_status s = ''verified'') (cd_steps d'') = filter (\<lambda>s. sp_status s = ''verified'') (cd_steps d')
         \<and> cd_fences d'' = cd_fences d')"
proof -
  have inv: "carry_inv d'" using carry.reachable_inv[OF assms(2)] carry.run_inv assms(1) by blast
  obtain c' where c': "c' \<in> set (cd_operations d')" "op_order c c'" using moved_op[OF carry_run_moves[OF assms(1)] assms(3)] by metis
  then have "co_operation_id c' = co_operation_id c" "co_phase c' \<noteq> ''preparing''"
    using assms(4) unfolding op_order_def identity_kept_def by blast+
  then have "get_tx (co_operation_id c) d' = Inr c'" "\<not> current_worker g c'"
    using carry_inv_get[OF inv c'(1)] by (auto simp: current_worker_def)
  then have "begin_step kw (co_operation_id c) g key intent dest now d' = Inl ''continuation_stale_worker''"
    "finish_step (co_operation_id c) g key receipt now d' = Inl ''continuation_stale_worker''"
    "mark_prepared kw (co_operation_id c) g manifest sha now d' = Inl ''continuation_stale_worker''"
    "hold_preparation kw (co_operation_id c) g reason now d' = Inl ''continuation_stale_worker''"
    using assms(5) by (simp_all add: begin_step_def finish_step_def mark_prepared_def hold_preparation_def ensure_def)
  then show ?thesis using settle_worker_effect[OF inv] by (intro conjI allI impI)
qed

lemma single_claim_filter:
  assumes inv: "carry_inv d" and c: "c \<in> set (cd_operations d)" "co_worker_claimed c"
  shows "filter co_worker_claimed (cd_operations d) = [c]"
proof (rule filter_unique[of co_operation_id _ c co_worker_claimed, OF _ c])
  show "distinct (map co_operation_id (cd_operations d))" using inv by (simp add: carry_inv_def)
  have "single_claim (cd_operations d)" using inv by (simp add: carry_inv_def)
  then show "y = c" if "y \<in> set (cd_operations d)" "co_worker_claimed y" for y
    using that c op_unique[OF inv that(1) c(1)] unfolding single_claim_def by blast
qed

lemma claim_some:
  assumes inv: "carry_inv d" and ok: "claim_preparation_matching kw own now d = Inr (d', Some c)"
  shows "filter co_worker_claimed (cd_operations d) = []" "c \<in> set (cd_operations d')" "co_worker_claimed c"
    "co_phase c = ''preparing''" "now < co_deadline_at c"
proof -
  show "filter co_worker_claimed (cd_operations d) = []"
    using ok by (auto simp: claim_preparation_matching_def list_ex_iff filter_empty_conv split: if_splits)
  define f :: "continuation \<Rightarrow> continuation" where "f = (\<lambda>c. (bump now c)\<lparr>co_worker_claimed := True\<rparr>)"
  obtain b d1 where b: "fetch_optional (claimable kw own d) = Some b" "now < co_deadline_at b"
    and u: "update_op (named (co_operation_id b)) f d = Inr d1" and g: "get_tx (co_operation_id b) d' = Inr c" "same_core d1 d'"
    using ok by (auto simp: claim_preparation_matching_def Let_def f_def same_core_def split: if_splits option.splits)
  have bd: "b \<in> set (cd_operations d)" "co_phase b = ''preparing''"
    using fetch_optional_Some[OF b(1)] by (auto simp: claimable_def)
  have c: "c \<in> set (cd_operations d')" "co_operation_id c = co_operation_id b" using get_tx_row[OF g(1)] by auto
  have ops: "cd_operations d' = map (replace_op b (f b)) (cd_operations d)"
    using update_named_single(2)[OF inv carry_inv_get[OF inv bd(1)] refl _ _ u] g(2) by (simp add: replace_op_def same_core_def)
  have "f b \<in> set (cd_operations d')" using bd(1) unfolding ops by (auto intro: rev_image_eqI)
  then have "c = f b"
    using op_unique[OF claim_inv[OF inv ok] c(1)] c(2) by (simp add: f_def)
  then show "c \<in> set (cd_operations d')" "co_worker_claimed c" "co_phase c = ''preparing''" "now < co_deadline_at c"
    using c(1) bd(2) b(2) by (simp_all add: f_def bump_def)
qed

text \<open>
  C12: one preparation at a time. In every reachable database at most one operation is claimed by a worker; a claim
  is only granted when none is, to an operation in preparation before its deadline, which is then
  the only claimed one.
\<close>

theorem one_preparation_at_a_time:
  assumes "reachable_from carry_init carry_step d" and "claim_preparation_matching kw own now d = Inr (d', r)"
  shows "length (filter co_worker_claimed (cd_operations d)) \<le> 1 \<and>
    (case r of None \<Rightarrow> filter co_worker_claimed (cd_operations d') = filter co_worker_claimed (cd_operations d)
     | Some c \<Rightarrow> filter co_worker_claimed (cd_operations d) = [] \<and> filter co_worker_claimed (cd_operations d') = [c]
         \<and> co_phase c = ''preparing'' \<and> now < co_deadline_at c)"
proof -
  have inv: "carry_inv d" by (rule carry.reachable_inv[OF assms(1)])
  have "filter co_worker_claimed (cd_operations d) = [] \<or> (\<exists>c. filter co_worker_claimed (cd_operations d) = [c])"
    using single_claim_filter[OF inv] by (cases "\<exists>c\<in>set (cd_operations d). co_worker_claimed c") (auto simp: filter_empty_conv)
  then have "length (filter co_worker_claimed (cd_operations d)) \<le> 1" by auto
  moreover have "filter co_worker_claimed (cd_operations d') = filter co_worker_claimed (cd_operations d)" if "r = None"
  proof (cases "list_ex co_worker_claimed (cd_operations d)")
    case False
    then have "\<forall>c\<in>set (cd_operations d). \<not> co_worker_claimed c" by (simp add: list_ex_iff)
    moreover from this have "\<forall>c\<in>set (cd_operations d'). \<not> co_worker_claimed c"
      using assms(2) that False
      by (auto simp: claim_preparation_matching_def Let_def update_op_def set_sql_update split: if_splits option.splits)
    ultimately show ?thesis by (simp add: filter_empty_conv)
  qed (use assms(2) in \<open>simp add: claim_preparation_matching_def\<close>)
  ultimately show ?thesis
    using claim_some[OF inv] single_claim_filter[OF claim_inv[OF inv assms(2)]] assms(2) by (cases r) auto
qed

end
