(* ===== verification/Run_Continuation_Holds.thy ===== *)
theory Run_Continuation_Holds
  imports Run_Continuation_Properties
begin

text \<open>
  The ends of a continuation: what an activation leaves behind, and the two states nothing leads out of, an
  operation with a step of unknown outcome and an operation whose worker was lost.
\<close>

section \<open>Activation\<close>

lemma set_runs_sel [simp]: "runs (set_runs rs w) = rs" "items (set_runs rs w) = items w"
  by (simp_all add: set_runs_def)

lemma set_fences_work [simp]: "runs (cd_work (set_fences fs d)) = runs (cd_work d)" "items (cd_work (set_fences fs d)) = items (cd_work d)"
  by (simp_all add: set_fences_def)

lemma update_op_work: "update_op P f d = Inr d' \<Longrightarrow> cd_work d' = cd_work d"
  by (auto elim!: update_opE)

text \<open>
  C10: a successor is activated only from verified material. When an activation succeeds, the operation was prepared
  and held by no worker, it has steps and all of them are verified under its generation; afterwards the
  successor is in the table of runs, pending, an advance of it is queued, and the source is answered as continued.
\<close>

theorem activation_is_verified:
  assumes "reachable_from carry_init carry_step d" and "activate_tx kw i v sha succ item now d = Inr (d', c)"
  shows "all_verified i (co_generation c) d \<and> co_phase c = ''activated'' \<and> \<not> co_worker_claimed c
    \<and> runs (cd_work d') = runs (cd_work d) @ [succ] \<and> rr_status succ = ''pending'' \<and> rr_id succ = co_reserved_successor_run_id c
    \<and> items (cd_work d') = items (cd_work d) @ [new_item item ''advance_run''
        (qw_to_string (kw_queue kw) (JObject [(''run_id'', JString (rr_id succ))])) (Some (rr_id succ)) now]
    \<and> check_source_guard (co_source_run_id c) d' = Inl ''source_continued''"
proof -
  have inv: "carry_inv d" by (rule carry.reachable_inv[OF assms(1)])
  have inv': "carry_inv d'" by (rule activate_inv[OF inv assms(2)])
  define f :: "continuation \<Rightarrow> continuation" where
    "f = (\<lambda>c. (bump now c)\<lparr>co_phase := ''activated'', co_successor_run_id := Some (rr_id succ)\<rparr>)"
  let ?item = "new_item item ''advance_run'' (qw_to_string (kw_queue kw) (JObject [(''run_id'', JString (rr_id succ))])) (Some (rr_id succ)) now"
  obtain b d1 d2 d3 inp where b: "get_tx i d = Inr b" "co_phase b = ''prepared''" "rr_status succ = ''pending''"
      "rr_id succ = co_reserved_successor_run_id b"
    and s: "retire_fence b d = Inr d1" "insert_run_tx succ d1 = Inr d2" "enqueue_in ?item (d2\<lparr>cd_inputs := inp\<rparr>) = Inr d3"
      "update_op (named i) f d3 = Inr d'" "get_tx i d' = Inr c"
    using assms(2) unfolding activate_tx_def f_def[symmetric] by auto
  have row: "b \<in> set (cd_operations d)" "co_operation_id b = i" using get_tx_row[OF b(1)] by auto
  obtain fs where d1: "d1 = set_fences fs d" using s(1) by (auto simp: retire_fence_def Let_def split: if_splits)
  have d2: "runs (cd_work d2) = runs (cd_work d) @ [succ]" "items (cd_work d2) = items (cd_work d)" "cd_operations d2 = cd_operations d"
    using s(2) by (auto simp: insert_run_tx_def d1 split: if_splits)
  have d3: "runs (cd_work d3) = runs (cd_work d2)" "items (cd_work d3) = items (cd_work d2) @ [?item]" "cd_operations d3 = cd_operations d2"
    using s(3) by (auto simp: enqueue_in_def enqueue_tx_def set_items_def split: if_splits)
  have ops: "cd_operations d' = map (\<lambda>x. if x = b then f b else x) (cd_operations d)"
    using update_named_single(2)[OF inv b(1) _ _ _ s(4)] row d3(3) d2(3) by simp
  then have "f b \<in> set (cd_operations d')" using row(1) by (auto intro: rev_image_eqI)
  moreover have "c \<in> set (cd_operations d')" "co_operation_id c = i" using get_tx_row[OF s(5)] by auto
  ultimately have c: "c = f b" using op_unique[OF inv', of c "f b"] row(2) by (simp add: f_def bump_def)
  have "op_ok (cd_steps d) b" using inv row(1) by (simp add: carry_inv_def)
  then have ok: "verified_steps i (co_generation b) (cd_steps d)" "\<not> co_worker_claimed b"
    using b(2) row(2) by (auto simp: op_ok_def)
  have "check_source_guard (co_source_run_id c) d' = Inl ''source_continued''"
    using guard_of_live[OF inv' \<open>c \<in> set (cd_operations d')\<close>] by (simp add: c f_def)
  then show ?thesis
    using ok b(3,4) d2 d3 update_op_work[OF s(4)] by (simp add: c f_def bump_def all_verified_iff)
qed

section \<open>Steps of unknown outcome\<close>

text \<open>
  C32: a step whose outcome became unknown holds its source for ever. On every continuation of the run its operation
  stays in reconciliation or in its abort, neither prepared nor aborted, and the source stays fenced: no
  command, no worker and no restart ever records the evidence that would resolve the step.
\<close>

theorem unknown_step_holds_source:
  assumes "reachable_from carry_init carry_step d" and "carry_step\<^sup>*\<^sup>* d d'"
    and "s \<in> set (cd_steps d)" and "sp_status s = ''unknown''"
    and "c \<in> set (cd_operations d)" and "co_operation_id c = sp_operation_id s"
  shows "\<exists>c'. get_tx (co_operation_id c) d' = Inr c' \<and> co_phase c' \<in> {''needs_reconciliation'', ''aborting''}
    \<and> check_source_guard (co_source_run_id c) d' = Inl ''continuation_in_progress''"
proof -
  have inv: "carry_inv d'" using carry.reachable_inv[OF assms(1)] carry.run_inv assms(2) by blast
  have moves: "carry_moves op_order d d'" by (rule carry_run_moves[OF assms(2)])
  obtain s' where s': "s' \<in> set (cd_steps d')" "step_order s s'"
    using moves table_moves_mem assms(3) unfolding carry_moves_def by metis
  obtain c' where c': "c' \<in> set (cd_operations d')" "op_order c c'" using moved_op[OF moves assms(5)] by metis
  have id: "co_operation_id c' = co_operation_id c" "co_source_run_id c' = co_source_run_id c"
    using c'(2) by (simp_all add: op_order_def identity_kept_def)
  have ok: "op_ok (cd_steps d') c'" using inv c'(1) by (simp add: carry_inv_def)
  have unk: "sp_status s' = ''unknown''" "sp_operation_id s' = co_operation_id c'"
    using s'(2) assms(4,6) id by (simp_all add: step_order_def)
  have "co_phase c' \<notin> {''prepared'', ''activated'', ''aborted'', ''preparing''}"
    using ok unk s'(1) by (auto simp: op_ok_def verified_steps_def)
  then have ph: "co_phase c' \<in> {''needs_reconciliation'', ''aborting''}" using ok unfolding op_ok_def by blast
  then have "check_source_guard (co_source_run_id c') d' = Inl ''continuation_in_progress''"
    using guard_of_live[OF inv c'(1)] by auto
  then show ?thesis using carry_inv_get[OF inv c'(1)] id ph by auto
qed

section \<open>Lost workers\<close>

text \<open>
  The daemon with its worker: which operation the process works on is not in the database. A restart loses it. What
  a worker does last ends it; the other transactions leave it alone.
\<close>

type_synonym daemon = "continuation_db \<times> (ident \<times> int) option"

inductive daemon_step :: "daemon \<Rightarrow> daemon \<Rightarrow> bool" where
  operated: "operator_step d d' \<Longrightarrow> daemon_step (d, w) (d', w)"
| worked: "worker_step i g d d' \<Longrightarrow> daemon_step (d, Some (i, g)) (d', Some (i, g))"
| stopped: "worker_end i g d d' \<Longrightarrow> daemon_step (d, Some (i, g)) (d', None)"
| taken: "claim_preparation_matching kw own now d = Inr (d', Some c)
    \<Longrightarrow> daemon_step (d, w) (d', Some (co_operation_id c, co_generation c))"
| rebooted: "recover_preparations now d = Inr d' \<Longrightarrow> daemon_step (d, w) (d', None)"

inductive_cases daemon_stepE: "daemon_step s t"

lemma daemon_carry: "daemon_step s t \<Longrightarrow> carry_step (fst s) (fst t)"
  by (induction rule: daemon_step.induct) (auto intro: carry_step.intros)

lemma daemon_run_carry: "daemon_step\<^sup>*\<^sup>* s t \<Longrightarrow> carry_step\<^sup>*\<^sup>* (fst s) (fst t)"
  by (induction rule: rtranclp_induct) (auto intro: rtranclp.rtrancl_into_rtrancl daemon_carry)

text \<open>A claim without a worker, on an operation that left the preparation.\<close>

definition lost_claim :: "daemon \<Rightarrow> bool" where
  "lost_claim s \<longleftrightarrow> snd s = None
     \<and> (\<exists>c\<in>set (cd_operations (fst s)). co_worker_claimed c \<and> co_phase c \<noteq> ''preparing'')"

lemma lost_claim_moves:
  assumes "lost_claim (d, None)" "carry_moves held_order d d'"
  shows "lost_claim (d', None)"
proof -
  obtain c where c: "c \<in> set (cd_operations d)" "co_worker_claimed c" "co_phase c \<noteq> ''preparing''"
    using assms(1) by (auto simp: lost_claim_def)
  obtain c' where "c' \<in> set (cd_operations d')" "held_order c c'"
    using assms(2) table_moves_mem c(1) unfolding carry_moves_def by metis
  then show ?thesis using c(2,3) unfolding lost_claim_def held_order_def op_order_def by auto
qed

lemma busy_claim:
  assumes "list_ex co_worker_claimed (cd_operations d)"
  shows "claim_preparation_matching kw own now d = Inr (d, None)"
  using assms by (simp add: claim_preparation_matching_def)

lemma lost_claim_step: "daemon_step s t \<Longrightarrow> lost_claim s \<Longrightarrow> lost_claim t"
proof (induction rule: daemon_step.induct)
  case (taken kw own now d d' c w)
  then have "list_ex co_worker_claimed (cd_operations d)" by (auto simp: lost_claim_def list_ex_iff)
  then show ?case using taken(1) busy_claim by simp
next
  case (operated d d' w)
  then have "w = None" by (simp add: lost_claim_def)
  then show ?case using operated lost_claim_moves[OF _ operator_step_moves] by blast
next
  case (rebooted now d d' w)
  then have "w = None" by (simp add: lost_claim_def)
  then show ?case using rebooted lost_claim_moves[OF _ recover_moves] by blast
qed (auto simp: lost_claim_def)

lemma restart_loses_claim:
  assumes "recover_preparations now d = Inr d'" "c \<in> set (cd_operations d)" "co_worker_claimed c"
  shows "lost_claim (d', None)"
proof -
  define g where "g = (\<lambda>c. if co_phase c \<in> {''preparing'', ''aborting''} then (bump now c)\<lparr>co_phase := held_phase (co_phase c),
        co_generation := co_generation c + 1, co_holds_json := hold_json ''effect_outcome_unknown''\<rparr> else c)"
  have "cd_operations d' = map g (cd_operations d)"
    using assms(1) by (auto simp: recover_preparations_def Let_def update_op_def sql_update_def g_def split: if_splits)
  then have "g c \<in> set (cd_operations d')" using assms(2) by simp
  moreover have "co_worker_claimed (g c)" "co_phase (g c) \<noteq> ''preparing''"
    using assms(3) by (auto simp: g_def held_phase_def)
  ultimately show ?thesis by (auto simp: lost_claim_def)
qed

text \<open>
  C31: a restart during a preparation ends the continuation of runs for good. When the daemon is restarted while an
  operation is claimed, then after anything the restarted daemon, its operators and its workers do, no
  preparation is ever claimed again and every new reservation, of any run, is refused: the claim is kept
  until its owner settles it, and the owner is gone.
\<close>

theorem lost_worker_blocks_continuations:
  assumes "recover_preparations now d = Inr d1" and "c \<in> set (cd_operations d)" and "co_worker_claimed c"
    and "daemon_step\<^sup>*\<^sup>* (d1, None) (d', w)"
    and "\<not> is_blank (rq_reason rq)" and "int (length (rq_reason rq)) \<le> 4096"
    and "\<not> list_ex (\<lambda>c. co_caller_fingerprint c = rq_caller_fingerprint rq \<and> co_caller_request_id c = rq_caller_request_id rq)
        (cd_operations d')"
  shows "w = None \<and> claim_preparation_matching kw own now' d' = Inr (d', None)
    \<and> reserve_impl kw parent rq fr now' d' = Inl ''effect_outcome_unknown''"
proof -
  have "lost_claim (d1, None)" by (rule restart_loses_claim[OF assms(1-3)])
  with assms(4) have lost: "lost_claim (d', w)"
    by (induction rule: rtranclp_induct) (auto intro: lost_claim_step)
  then have "list_ex co_worker_claimed (cd_operations d')" "w = None"
    by (auto simp: lost_claim_def list_ex_iff)
  moreover have "list_ex (\<lambda>c. co_worker_claimed c \<and> co_phase c \<noteq> ''preparing'') (cd_operations d')"
    using lost by (auto simp: lost_claim_def list_ex_iff)
  moreover have "filter (\<lambda>c. co_caller_fingerprint c = rq_caller_fingerprint rq
      \<and> co_caller_request_id c = rq_caller_request_id rq) (cd_operations d') = []"
    using assms(7) by (auto simp: filter_empty_conv list_ex_iff)
  ultimately show ?thesis
    using assms(5,6) by (simp add: busy_claim reserve_impl_def ensure_def fetch_optional_def)
qed

end
