(* ===== verification/Run_Continuation_Trace.thy ===== *)
theory Run_Continuation_Trace
  imports Run_Continuation_Holds
begin

text \<open>
  A continuation from its reservation to its activation, and one that is interrupted by a restart: the transactions
  of the model evaluated one after the other, and the properties of the continuation applied to the
  databases they lead to.
\<close>

section \<open>A continuation from its reservation to its activation\<close>

definition plain_queue :: queue_world where
  "plain_queue =
     \<lparr>qw_from_str = (\<lambda>s. Some (JObject [(''operation_id'', JString s)])),
      qw_to_string = (\<lambda>j. case get_str j ''operation_id'' of None \<Rightarrow> [] | Some i \<Rightarrow> i),
      qw_rfc3339 = (\<lambda>t. ''t''), qw_uuid = Some, qw_fenced = (\<lambda>d w w'. False),
      qw_later = (\<lambda>t. t + 1)\<rparr>"

definition plain_world :: continuation_world where
  "plain_world =
     \<lparr>kw_queue = plain_queue, kw_busy = (\<lambda>d r. False), kw_observe = (\<lambda>d r i. Inl ''none''), kw_print = (\<lambda>r. ''r''),
      kw_read = (\<lambda>s. Inl ''unreadable''), kw_request_id = Some, kw_artifact_owned = (\<lambda>a r s. False),
      kw_json_valid = (\<lambda>s. True)\<rparr>"

abbreviation sha :: string where
  "sha \<equiv> replicate 64 CHR ''a''"

definition blocked_run :: run_row where
  "blocked_run = \<lparr>rr_id = ''source'', rr_status = ''blocked'', rr_cancellation_settled_at = None,
     rr_current_state = Some ''review'', rr_idea_id = ''idea''\<rparr>"

definition successor_run :: run_row where
  "successor_run = \<lparr>rr_id = ''next'', rr_status = ''pending'', rr_cancellation_settled_at = None,
     rr_current_state = Some ''start'', rr_idea_id = ''idea''\<rparr>"

definition idle_db :: continuation_db where
  "idle_db =
     \<lparr>cd_work =
        \<lparr>wd_sched = \<lparr>sd_quota = \<lparr>qd_ledger = [], qd_agents = [], qd_runs = [blocked_run], qd_stages = [], qd_facts = []\<rparr>,
           sd_items = [], sd_summaries = [], sd_snapshots = [], sd_observations = [], sd_last_served = (\<lambda>_. None)\<rparr>,
         wd_store = \<lparr>as_generations = [], as_active = [], as_claims = [], as_overrides = [], as_closeout = []\<rparr>,
         wd_authorities = [], wd_diagnostics = [], wd_host = [], wd_fences = [], wd_mediations = [],
         wd_continuations = [], wd_repairs = [], wd_journal = [], wd_sessions = [], wd_session_events = []\<rparr>,
      cd_journal = \<lparr>db_ledger = empty_ledger, db_journal = [], db_idempotency = []\<rparr>,
      cd_operations = [], cd_fences = [], cd_steps = [], cd_commands = [], cd_inputs = []\<rparr>"

definition sample_request :: "string \<Rightarrow> reservation" where
  "sample_request request =
     \<lparr>rq_source_run_id = ''source'', rq_caller_fingerprint = ''caller'', rq_caller_request_id = request,
      rq_intent_sha256 = sha, rq_plan_ref = ''/p/plan.json'', rq_plan_sha256 = sha, rq_target_ref = ''/p/target.json'',
      rq_source_witness_sha256 = sha, rq_reason = ''go on''\<rparr>"

definition sample_ids :: fresh_ids where
  "sample_ids = \<lparr>fr_operation = ''op'', fr_successor = ''next'', fr_journal = ''j'', fr_item = ''w''\<rparr>"

definition reserved_db :: continuation_db where
  "reserved_db = fst (projr (reserve_impl plain_world None (sample_request ''r1'') sample_ids 0 idle_db))"

definition claimed_db :: continuation_db where
  "claimed_db = fst (projr (claim_preparation_matching plain_world None 1 reserved_db))"

definition working_db :: continuation_db where
  "working_db = projr (begin_step plain_world ''op'' 1 ''selected_inputs_and_target'' ''{}'' ''/p'' 2 claimed_db)"

definition verified_db :: continuation_db where
  "verified_db = projr (finish_step ''op'' 1 ''selected_inputs_and_target'' sha 3 working_db)"

definition prepared_db :: continuation_db where
  "prepared_db = fst (projr (mark_prepared plain_world ''op'' 1 ''/p/manifest.json'' sha 4 verified_db))"

definition activated_db :: continuation_db where
  "activated_db = fst (projr (activate_tx plain_world ''op'' 3 sha successor_run ''a'' 5 prepared_db))"

definition restarted_db :: continuation_db where
  "restarted_db = projr (recover_preparations 4 working_db)"

lemma ok_projr: "is_ok r \<Longrightarrow> r = Inr (projr r)"
  by (cases r) auto

lemma ok_projr_pair: "is_ok r \<Longrightarrow> r = Inr (fst (projr r), snd (projr r))"
  by (cases r) auto

lemma reservation_accepted: "is_ok (reserve_impl plain_world None (sample_request ''r1'') sample_ids 0 idle_db)"
  by code_simp

lemma claim_granted:
  "\<not> Option.is_none (snd (projr (claim_preparation_matching plain_world None 1 reserved_db)))"
  "is_ok (claim_preparation_matching plain_world None 1 reserved_db)"
  by code_simp+

lemma step_begun: "is_ok (begin_step plain_world ''op'' 1 ''selected_inputs_and_target'' ''{}'' ''/p'' 2 claimed_db)"
  by code_simp

lemma step_finished: "is_ok (finish_step ''op'' 1 ''selected_inputs_and_target'' sha 3 working_db)"
  by code_simp

lemma preparation_published: "is_ok (mark_prepared plain_world ''op'' 1 ''/p/manifest.json'' sha 4 verified_db)"
  by code_simp

lemma successor_activated: "is_ok (activate_tx plain_world ''op'' 3 sha successor_run ''a'' 5 prepared_db)"
  by code_simp

lemma preparation_interrupted: "is_ok (recover_preparations 4 working_db)"
  by code_simp

lemma idle_reachable: "reachable_from carry_init carry_step idle_db"
  by (rule reachable_from.start) (simp add: carry_init_def idle_db_def)

lemma reserved_reachable: "reachable_from carry_init carry_step reserved_db"
  unfolding reserved_db_def
  by (rule reachable_from.next_state[OF idle_reachable carry_step.operator[OF
        operator_step.reserved[OF ok_projr_pair[OF reservation_accepted]]]])

lemma claimed_reachable: "reachable_from carry_init carry_step claimed_db"
proof -
  obtain c where "claim_preparation_matching plain_world None 1 reserved_db = Inr (claimed_db, Some c)"
    using claim_granted ok_projr_pair[OF claim_granted(2)] unfolding claimed_db_def by (metis Option.is_none_simps(1) not_Some_eq)
  then show ?thesis using reachable_from.next_state[OF reserved_reachable carry_step.claimed] by blast
qed

lemma working_step: "begin_step plain_world ''op'' 1 ''selected_inputs_and_target'' ''{}'' ''/p'' 2 claimed_db = Inr working_db"
  unfolding working_db_def by (rule ok_projr[OF step_begun])

lemma working_reachable: "reachable_from carry_init carry_step working_db"
  by (rule reachable_from.next_state[OF claimed_reachable carry_step.worker[OF worker_step.begun[OF working_step]]])

lemma verified_step: "finish_step ''op'' 1 ''selected_inputs_and_target'' sha 3 working_db = Inr verified_db"
  unfolding verified_db_def by (rule ok_projr[OF step_finished])

lemma verified_reachable: "reachable_from carry_init carry_step verified_db"
  by (rule reachable_from.next_state[OF working_reachable carry_step.worker[OF worker_step.finished[OF verified_step]]])

lemma prepared_step: "\<exists>c. mark_prepared plain_world ''op'' 1 ''/p/manifest.json'' sha 4 verified_db = Inr (prepared_db, c)"
  unfolding prepared_db_def by (rule exI, rule ok_projr_pair[OF preparation_published])

lemma prepared_reachable: "reachable_from carry_init carry_step prepared_db"
  using prepared_step by (blast intro: reachable_from.next_state[OF verified_reachable] carry_step.ended worker_end.prepared)

lemma activated_step: "\<exists>c. activate_tx plain_world ''op'' 3 sha successor_run ''a'' 5 prepared_db = Inr (activated_db, c)"
  unfolding activated_db_def by (rule exI, rule ok_projr_pair[OF successor_activated])

lemma activated_reachable: "reachable_from carry_init carry_step activated_db"
  using activated_step by (blast intro: reachable_from.next_state[OF prepared_reachable] carry_step.operator operator_step.activated)

lemma restarted_step: "recover_preparations 4 working_db = Inr restarted_db"
  unfolding restarted_db_def by (rule ok_projr[OF preparation_interrupted])

lemma restarted_reachable: "reachable_from carry_init carry_step restarted_db"
  by (rule reachable_from.next_state[OF working_reachable carry_step.restarted[OF restarted_step]])

section \<open>The properties on the trace\<close>

lemma activated_row: "list_ex (\<lambda>c. co_phase c = ''activated'') (cd_operations activated_db)"
  by code_simp

theorem source_continued_once_witness:
  "\<exists>c. c \<in> set (cd_operations activated_db) \<and> check_source_guard (co_source_run_id c) activated_db = Inl ''source_continued''"
proof -
  obtain c where "c \<in> set (cd_operations activated_db)" "co_phase c = ''activated''"
    using activated_row by (auto simp: list_ex_iff)
  then show ?thesis using source_continued_once[OF activated_reachable rtranclp.rtrancl_refl] by blast
qed

lemma restarted_row:
  "list_ex (\<lambda>c. co_operation_id c = ''op'' \<and> co_phase c = ''needs_reconciliation'') (cd_operations restarted_db)"
  "list_ex (\<lambda>s. sp_operation_id s = ''op'' \<and> sp_status s = ''unknown'') (cd_steps restarted_db)"
  by code_simp+

theorem revoked_worker_is_powerless_witness:
  "finish_step ''op'' 1 ''selected_inputs_and_target'' sha 5 restarted_db = Inl ''continuation_stale_worker''"
proof -
  obtain c where "c \<in> set (cd_operations restarted_db)" "co_operation_id c = ''op''" "co_phase c = ''needs_reconciliation''"
    using restarted_row(1) by (auto simp: list_ex_iff)
  then show ?thesis
    using revoked_worker_is_powerless[OF rtranclp.rtrancl_refl restarted_reachable, of c "''source_changed''"]
    by (simp add: hold_reasons_def)
qed

theorem one_preparation_at_a_time_witness:
  "length (filter co_worker_claimed (cd_operations reserved_db)) \<le> 1"
  using one_preparation_at_a_time[OF reserved_reachable ok_projr_pair[OF claim_granted(2)]] by blast

theorem activation_is_verified_witness: "\<exists>g. all_verified ''op'' g prepared_db"
  using activation_is_verified[OF prepared_reachable ok_projr_pair[OF successor_activated]] by blast

theorem unknown_step_holds_source_witness:
  "\<exists>c\<in>set (cd_operations restarted_db). check_source_guard (co_source_run_id c) restarted_db = Inl ''continuation_in_progress''"
proof -
  obtain c s where "c \<in> set (cd_operations restarted_db)" "co_operation_id c = ''op''"
    "s \<in> set (cd_steps restarted_db)" "sp_operation_id s = ''op''" "sp_status s = ''unknown''"
    using restarted_row by (auto simp: list_ex_iff)
  then show ?thesis
    using unknown_step_holds_source[OF restarted_reachable rtranclp.rtrancl_refl, of s c] by auto
qed

lemma working_row: "list_ex co_worker_claimed (cd_operations working_db)"
  by code_simp

lemma second_request:
  "\<not> list_ex (\<lambda>c. co_caller_fingerprint c = rq_caller_fingerprint (sample_request ''r2'')
      \<and> co_caller_request_id c = rq_caller_request_id (sample_request ''r2'')) (cd_operations restarted_db)"
  "\<not> is_blank (rq_reason (sample_request ''r2''))" "int (length (rq_reason (sample_request ''r2''))) \<le> 4096"
  by code_simp+

theorem lost_worker_blocks_continuations_witness:
  "reserve_impl plain_world None (sample_request ''r2'') sample_ids 9 restarted_db = Inl ''effect_outcome_unknown''"
proof -
  obtain c where c: "c \<in> set (cd_operations working_db)" "co_worker_claimed c" using working_row by (auto simp: list_ex_iff)
  show ?thesis
    using lost_worker_blocks_continuations[OF restarted_step c rtranclp.rtrancl_refl second_request(2,3,1)] by blast
qed

end
