(* ===== verification/Workspace_Coordinator.thy ===== *)
theory Workspace_Coordinator
  imports Rust_Number
begin

text \<open>
  Access to workspaces: the coordinator of \<^verbatim>\<open>control-plane/crates/acp/src/xcode_coordinator.rs\<close>. Invocations ask
  for read or mutating access to a project; requests that conflict are admitted one after the other, in the order in
  which they came. The critical sections of the mutex are functions on the queue; the tasks between them
  are a step relation, with \<^verbatim>\<open>Notify\<close> as a flag per waiting task that a call of \<^verbatim>\<open>notify_waiters\<close> sets.

  Parameters of a step: the file system and the instant it happens at, and the answer of the check for
  durable holds. The mutex is never poisoned: no critical section panics.
\<close>

section \<open>Vocabulary\<close>

datatype access_mode = AccessRead | AccessMutate

record coordinator_limits =
  cl_queue_capacity :: nat
  cl_queue_timeout :: nat

datatype coordinator_error =
  AuthorityBusy | InsecureAuthority | AuthorityMissing | AuthorityCorrupt | AuthorityMismatch | InvalidProject
  | ProjectIdentityChanged | ProjectAliasCollision | QueueFull | QueueTimeout | DeadlineExpired | OwnerRevoked
  | ForeignOwner | UpgradeDenied | ProjectHeld | HoldCheckUnavailable | FixtureOnly | InvalidLimits
  | StorageUnavailable | LegacyTransitionUnproven | PersistentIdentityUnavailable

fun show_coordinator_error :: "coordinator_error \<Rightarrow> string" where
  "show_coordinator_error AuthorityBusy = ''authority_busy''"
| "show_coordinator_error InsecureAuthority = ''insecure_authority''"
| "show_coordinator_error AuthorityMissing = ''authority_missing''"
| "show_coordinator_error AuthorityCorrupt = ''authority_corrupt''"
| "show_coordinator_error AuthorityMismatch = ''authority_mismatch''"
| "show_coordinator_error InvalidProject = ''invalid_project''"
| "show_coordinator_error ProjectIdentityChanged = ''project_identity_changed''"
| "show_coordinator_error ProjectAliasCollision = ''project_alias_collision''"
| "show_coordinator_error QueueFull = ''queue_full''"
| "show_coordinator_error QueueTimeout = ''queue_timeout''"
| "show_coordinator_error DeadlineExpired = ''deadline_expired''"
| "show_coordinator_error OwnerRevoked = ''owner_revoked''"
| "show_coordinator_error ForeignOwner = ''foreign_owner''"
| "show_coordinator_error UpgradeDenied = ''upgrade_denied''"
| "show_coordinator_error ProjectHeld = ''project_held''"
| "show_coordinator_error HoldCheckUnavailable = ''hold_check_unavailable''"
| "show_coordinator_error FixtureOnly = ''fixture_only''"
| "show_coordinator_error InvalidLimits = ''invalid_limits''"
| "show_coordinator_error StorageUnavailable = ''storage_unavailable''"
| "show_coordinator_error LegacyTransitionUnproven = ''legacy_transition_unproven''"
| "show_coordinator_error PersistentIdentityUnavailable = ''persistent_identity_unavailable''"

section \<open>Projects\<close>

record project_key =
  pk_version :: nat
  pk_uid :: nat
  pk_canonical_path :: string
  pk_device :: string
  pk_inode :: string

definition decimal_text :: "string \<Rightarrow> bool" where
  "decimal_text s \<longleftrightarrow>
     s \<noteq> [] \<and> length s \<le> 20 \<and> list_all is_digit s \<and> (s = ''0'' \<or> \<not> starts_with s ''0'') \<and> digits_val s < 2 ^ 64"

definition validate_key :: "project_key \<Rightarrow> bool" where
  "validate_key k \<longleftrightarrow>
     (let path = pk_canonical_path k in
      \<not> (pk_version k \<noteq> 1 \<or> 2048 < int (length path) \<or> \<not> starts_with path ''/'' \<or> ends_with path ''/''
         \<or> has_control path
         \<or> list_ex (\<lambda>p. p = [] \<or> p = ''.'' \<or> p = ''..'') (split_at (CHR ''/'') (drop 1 path))
         \<or> \<not> decimal_text (pk_device k) \<or> \<not> decimal_text (pk_inode k)))"

text \<open>What the process sees of its host: its user, the file system and the largest instant.\<close>

record file_metadata =
  fm_device :: nat
  fm_inode :: nat
  fm_file_or_dir :: bool

record host =
  ho_uid :: nat
  ho_canonicalize :: "string \<Rightarrow> string option"
  ho_metadata :: "string \<Rightarrow> file_metadata option"
  ho_max_instant :: nat

definition checked_add :: "host \<Rightarrow> nat \<Rightarrow> nat \<Rightarrow> nat option" where
  "checked_add h t d = (if t + d \<le> ho_max_instant h then Some (t + d) else None)"

definition project_key_of :: "host \<Rightarrow> string \<Rightarrow> (coordinator_error, project_key) result" where
  "project_key_of h path =
     (case ho_canonicalize h path of
        None \<Rightarrow> Inl InvalidProject
      | Some canonical \<Rightarrow>
          (case ho_metadata h canonical of
             None \<Rightarrow> Inl InvalidProject
           | Some m \<Rightarrow>
               if \<not> fm_file_or_dir m then Inl InvalidProject
               else let k = \<lparr>pk_version = 1, pk_uid = ho_uid h, pk_canonical_path = canonical,
                             pk_device = show_nat (fm_device m), pk_inode = show_nat (fm_inode m)\<rparr>
                    in if validate_key k then Inr k else Inl InvalidProject))"

definition validate_project :: "host \<Rightarrow> project_key \<Rightarrow> (coordinator_error, unit) result" where
  "validate_project h k =
     (if \<not> validate_key k then Inl InvalidProject
      else if pk_uid k \<noteq> ho_uid h then Inl InvalidProject
      else case ho_canonicalize h (pk_canonical_path k) of
          None \<Rightarrow> Inl ProjectIdentityChanged
        | Some canonical \<Rightarrow>
            (case ho_metadata h (pk_canonical_path k) of
               None \<Rightarrow> Inl ProjectIdentityChanged
             | Some m \<Rightarrow>
                 if canonical \<noteq> pk_canonical_path k \<or> show_nat (fm_device m) \<noteq> pk_device k
                    \<or> show_nat (fm_inode m) \<noteq> pk_inode k \<or> \<not> fm_file_or_dir m
                 then Inl ProjectIdentityChanged else Inr ()))"

definition same_inode :: "project_key \<Rightarrow> project_key \<Rightarrow> bool" where
  "same_inode k l \<longleftrightarrow> pk_device k = pk_device l \<and> pk_inode k = pk_inode l"

definition reject_alias_collision :: "project_key \<Rightarrow> project_key \<Rightarrow> (coordinator_error, unit) result" where
  "reject_alias_collision k l =
     (if pk_uid k = pk_uid l then
        if pk_canonical_path k = pk_canonical_path l \<and> \<not> same_inode k l then Inl ProjectIdentityChanged
        else if pk_canonical_path k \<noteq> pk_canonical_path l \<and> same_inode k l then Inl ProjectAliasCollision
        else Inr ()
      else Inr ())"

section \<open>The queue\<close>

record request =
  re_id :: nat
  re_project :: project_key
  re_mode :: access_mode

definition conflicts :: "request \<Rightarrow> request \<Rightarrow> bool" where
  "conflicts r s \<longleftrightarrow>
     pk_uid (re_project r) = pk_uid (re_project s)
     \<and> pk_canonical_path (re_project r) = pk_canonical_path (re_project s)
     \<and> (re_mode r = AccessMutate \<or> re_mode s = AccessMutate)"

text \<open>The requests that wait, in order, and the active ones by identifier.\<close>

record queue_state =
  qs_next_id :: nat
  qs_waiting :: "request list"
  qs_active :: "request list"

definition new_coordinator :: "host \<Rightarrow> coordinator_limits \<Rightarrow> nat \<Rightarrow> (coordinator_error, queue_state) result" where
  "new_coordinator h cl now =
     (if cl_queue_capacity cl = 0 \<or> cl_queue_timeout cl = 0 \<or> checked_add h now (cl_queue_timeout cl) = None
      then Inl InvalidLimits
      else Inr \<lparr>qs_next_id = 0, qs_waiting = [], qs_active = []\<rparr>)"

fun reject_aliases :: "project_key \<Rightarrow> request list \<Rightarrow> (coordinator_error, unit) result" where
  "reject_aliases k [] = Inr ()"
| "reject_aliases k (r # rs) = bind_res (reject_alias_collision k (re_project r)) (\<lambda>_. reject_aliases k rs)"

text \<open>The critical section that queues a request; identifiers are 64 bits wide.\<close>

definition join_queue ::
  "coordinator_limits \<Rightarrow> project_key \<Rightarrow> access_mode \<Rightarrow> queue_state \<Rightarrow> (coordinator_error, nat \<times> queue_state) result" where
  "join_queue cl p m q =
     bind_res (reject_aliases p (qs_active q @ qs_waiting q)) (\<lambda>_.
       if cl_queue_capacity cl \<le> length (qs_waiting q) then Inl QueueFull
       else if 2 ^ 64 - 1 \<le> int (qs_next_id q) then Inl StorageUnavailable
       else let i = qs_next_id q + 1
            in Inr (i, q\<lparr>qs_next_id := i,
                         qs_waiting := qs_waiting q @ [\<lparr>re_id = i, re_project = p, re_mode = m\<rparr>]\<rparr>))"

definition ahead :: "nat \<Rightarrow> queue_state \<Rightarrow> request list" where
  "ahead i q = takeWhile (\<lambda>r. re_id r \<noteq> i) (qs_waiting q)"

definition blocked :: "request \<Rightarrow> queue_state \<Rightarrow> bool" where
  "blocked r q \<longleftrightarrow>
     list_ex (\<lambda>a. conflicts a r) (qs_active q) \<or> list_ex (\<lambda>w. conflicts w r) (ahead (re_id r) q)"

text \<open>The critical section that admits a request that waits.\<close>

definition try_admit :: "nat \<Rightarrow> queue_state \<Rightarrow> (coordinator_error, bool \<times> queue_state) result" where
  "try_admit i q =
     (case dropWhile (\<lambda>r. re_id r \<noteq> i) (qs_waiting q) of
        [] \<Rightarrow> Inl StorageUnavailable
      | r # behind \<Rightarrow>
          if blocked r q then Inr (False, q)
          else Inr (True, q\<lparr>qs_waiting := ahead i q @ behind,
                           qs_active := filter (\<lambda>a. re_id a \<noteq> i) (qs_active q) @ [r]\<rparr>))"

definition drop_queued :: "nat \<Rightarrow> queue_state \<Rightarrow> queue_state" where
  "drop_queued i q = q\<lparr>qs_waiting := filter (\<lambda>r. re_id r \<noteq> i) (qs_waiting q)\<rparr>"

definition drop_lease :: "nat \<Rightarrow> queue_state \<Rightarrow> queue_state" where
  "drop_lease i q = q\<lparr>qs_active := filter (\<lambda>r. re_id r \<noteq> i) (qs_active q)\<rparr>"

section \<open>Owners and permits\<close>

record owner_state =
  ow_coordinator :: nat
  ow_deadline :: nat
  ow_revoked :: bool

definition owner_check :: "nat \<Rightarrow> owner_state \<Rightarrow> (coordinator_error, unit) result" where
  "owner_check now o' =
     (if ow_revoked o' then Inl OwnerRevoked else if ow_deadline o' \<le> now then Inl DeadlineExpired else Inr ())"

record permit =
  wp_lease :: nat
  wp_owner :: nat
  wp_project :: project_key
  wp_mode :: access_mode

definition owner_ready :: "host \<Rightarrow> nat \<Rightarrow> owner_state \<Rightarrow> project_key \<Rightarrow> (coordinator_error, unit) result" where
  "owner_ready h now o' p = bind_res (owner_check now o') (\<lambda>_. validate_project h p)"

text \<open>What \<^verbatim>\<open>acquire\<close> checks before it queues; the result is the deadline of the wait.\<close>

definition acquire_check ::
  "host \<Rightarrow> coordinator_limits \<Rightarrow> nat \<Rightarrow> nat \<Rightarrow> owner_state \<Rightarrow> project_key \<Rightarrow> (coordinator_error, nat) result" where
  "acquire_check h cl self now o' p =
     (if ow_coordinator o' \<noteq> self then Inl ForeignOwner
      else bind_res (owner_ready h now o' p) (\<lambda>_.
        case checked_add h now (cl_queue_timeout cl) of
          None \<Rightarrow> Inl InvalidLimits
        | Some t \<Rightarrow> Inr (min t (ow_deadline o'))))"

definition timeout_error :: "nat \<Rightarrow> owner_state \<Rightarrow> coordinator_error" where
  "timeout_error now o' = (if ow_deadline o' \<le> now then DeadlineExpired else QueueTimeout)"

text \<open>
  The end of the check of a dispatch, in two parts: the branch of the \<^verbatim>\<open>select!\<close> with the second look at the owner, and
  what follows it, which looks at the file system once more and never at the owner again.
\<close>

datatype hold_answer = HoldCancelled | HoldDeadline | HoldRead "(unit, bool) result"

definition dispatch_answer :: "nat \<Rightarrow> owner_state \<Rightarrow> hold_answer \<Rightarrow> (coordinator_error, bool) result" where
  "dispatch_answer now o' a =
     (case a of
        HoldCancelled \<Rightarrow> Inl OwnerRevoked
      | HoldDeadline \<Rightarrow> Inl DeadlineExpired
      | HoldRead (Inl _) \<Rightarrow> Inl HoldCheckUnavailable
      | HoldRead (Inr held) \<Rightarrow> bind_res (owner_check now o') (\<lambda>_. Inr held))"

definition dispatch_last :: "host \<Rightarrow> project_key \<Rightarrow> bool \<Rightarrow> (coordinator_error, unit) result" where
  "dispatch_last h p held = bind_res (validate_project h p) (\<lambda>_. if held then Inl ProjectHeld else Inr ())"

definition dispatch_end ::
  "host \<Rightarrow> nat \<Rightarrow> owner_state \<Rightarrow> project_key \<Rightarrow> hold_answer \<Rightarrow> (coordinator_error, unit) result" where
  "dispatch_end h now o' p a = bind_res (dispatch_answer now o' a) (dispatch_last h p)"

text \<open>
  The whole check, which begins and ends at two instants, with the owner and the file system as they are then. Inside
  \<^verbatim>\<open>acquire\<close> its parts are steps of the task.
\<close>

definition check_dispatch ::
  "host \<Rightarrow> nat \<Rightarrow> owner_state \<Rightarrow> host \<Rightarrow> nat \<Rightarrow> owner_state \<Rightarrow> project_key \<Rightarrow> hold_answer \<Rightarrow> (coordinator_error, unit) result" where
  "check_dispatch h now o1 h' now' o2 p a =
     bind_res (owner_ready h now o1 p) (\<lambda>_. dispatch_end h' now' o2 p a)"

definition borrow_nested ::
  "host \<Rightarrow> nat \<Rightarrow> owner_state \<Rightarrow> host \<Rightarrow> nat \<Rightarrow> owner_state \<Rightarrow> permit \<Rightarrow> access_mode \<Rightarrow> hold_answer
     \<Rightarrow> (coordinator_error, permit) result" where
  "borrow_nested h now o1 h' now' o2 w m a =
     (if wp_mode w = AccessRead \<and> m = AccessMutate then Inl UpgradeDenied
      else bind_res (check_dispatch h now o1 h' now' o2 (wp_project w) a) (\<lambda>_. Inr (w\<lparr>wp_mode := m\<rparr>)))"

section \<open>Tasks\<close>

text \<open>
  Where a call of \<^verbatim>\<open>acquire\<close> is: about to queue, at the top of its loop, registered with \<^verbatim>\<open>Notify\<close>, past the
  checks of the loop, parked, admitted and about to check the dispatch, waiting for the answer on
  holds, past the last look at the owner with that answer, or returned. The flag of the phases before says that a
  notification came since the registration.
\<close>

datatype task_phase =
  Entering
  | Looping nat
  | Registered nat bool
  | Checked nat bool
  | Parked nat bool
  | Admitted nat
  | Dispatching nat
  | Confirmed nat bool
  | Returned "(coordinator_error, nat) result"

record task =
  ta_owner :: nat
  ta_project :: project_key
  ta_mode :: access_mode
  ta_phase :: task_phase

record access_state =
  ac_queue :: queue_state
  ac_owners :: "owner_state list"
  ac_tasks :: "task list"
  ac_permits :: "permit list"
  ac_notifies :: nat
  ac_borrows :: "permit list"

text \<open>
  \<open>ac_borrows\<close> holds the permits that calls of \<^verbatim>\<open>borrow_nested\<close> are about to return: the checks passed, the caller does not
  have the permit yet. \<open>ac_notifies\<close> counts the calls of \<^verbatim>\<open>notify_waiters\<close> that are due: the state changed, the
  call did not happen yet.
\<close>

fun wake_phase :: "task_phase \<Rightarrow> task_phase" where
  "wake_phase (Registered i _) = Registered i True"
| "wake_phase (Checked i _) = Checked i True"
| "wake_phase (Parked i _) = Parked i True"
| "wake_phase ph = ph"

definition notify_waiters :: "access_state \<Rightarrow> access_state" where
  "notify_waiters s =
     s\<lparr>ac_tasks := map (\<lambda>t. t\<lparr>ta_phase := wake_phase (ta_phase t)\<rparr>) (ac_tasks s), ac_notifies := ac_notifies s - 1\<rparr>"

definition set_phase :: "nat \<Rightarrow> task_phase \<Rightarrow> access_state \<Rightarrow> access_state" where
  "set_phase k ph s = s\<lparr>ac_tasks := (ac_tasks s)[k := (ac_tasks s ! k)\<lparr>ta_phase := ph\<rparr>]\<rparr>"

definition with_queue :: "queue_state \<Rightarrow> access_state \<Rightarrow> access_state" where
  "with_queue q s = s\<lparr>ac_queue := q\<rparr>"

text \<open>A queue entry or a lease goes away: the queue changes, a notification is due.\<close>

definition leave_queue :: "queue_state \<Rightarrow> access_state \<Rightarrow> access_state" where
  "leave_queue q s = s\<lparr>ac_queue := q, ac_notifies := ac_notifies s + 1\<rparr>"

definition revoke_owner :: "nat \<Rightarrow> access_state \<Rightarrow> access_state" where
  "revoke_owner o' s =
     s\<lparr>ac_owners := (ac_owners s)[o' := (ac_owners s ! o')\<lparr>ow_revoked := True\<rparr>], ac_notifies := ac_notifies s + 1\<rparr>"

definition without_nth :: "nat \<Rightarrow> 'a list \<Rightarrow> 'a list" where
  "without_nth k xs = take k xs @ drop (Suc k) xs"

text \<open>The lease lives as long as one of its permits.\<close>

definition drop_permit :: "nat \<Rightarrow> access_state \<Rightarrow> access_state" where
  "drop_permit k s =
     (let w = ac_permits s ! k; rest = without_nth k (ac_permits s); s' = s\<lparr>ac_permits := rest\<rparr>
      in if list_ex (\<lambda>v. wp_lease v = wp_lease w) rest then s' else leave_queue (drop_lease (wp_lease w) (ac_queue s)) s')"

end
