(* ===== verification/Workspace_Coordinator_Invariant.thy ===== *)
theory Workspace_Coordinator_Invariant
  imports Workspace_Coordinator
begin

text \<open>
  The tasks of the coordinator as a transition system and its invariant: active requests do not conflict, older requests
  that conflict go first, every request of the queue belongs to one task or to permits, and a task that
  sleeps is blocked unless a notification is due.
\<close>

section \<open>The queue\<close>

definition alias_free :: "request list \<Rightarrow> bool" where
  "alias_free rs \<longleftrightarrow> (\<forall>x\<in>set rs. \<forall>y\<in>set rs. reject_alias_collision (re_project x) (re_project y) = Inr ())"

definition queue_ok :: "coordinator_limits \<Rightarrow> queue_state \<Rightarrow> bool" where
  "queue_ok cl q \<longleftrightarrow>
     sorted_wrt (<) (map re_id (qs_waiting q)) \<and> distinct (map re_id (qs_active q))
     \<and> re_id ` set (qs_active q) \<inter> re_id ` set (qs_waiting q) = {}
     \<and> (\<forall>r\<in>set (qs_active q) \<union> set (qs_waiting q). re_id r \<le> qs_next_id q)
     \<and> length (qs_waiting q) \<le> cl_queue_capacity cl
     \<and> (\<forall>a\<in>set (qs_active q). \<forall>b\<in>set (qs_active q). re_id a \<noteq> re_id b \<longrightarrow> \<not> conflicts a b)
     \<and> (\<forall>a\<in>set (qs_active q). \<forall>w\<in>set (qs_waiting q). conflicts a w \<longrightarrow> re_id a < re_id w)
     \<and> alias_free (qs_active q @ qs_waiting q)"

lemma conflicts_sym: "conflicts a b \<longleftrightarrow> conflicts b a"
  by (auto simp: conflicts_def)

lemma alias_sym: "reject_alias_collision k l = Inr () \<longleftrightarrow> reject_alias_collision l k = Inr ()"
  by (auto simp: reject_alias_collision_def same_inode_def)

lemma alias_refl [simp]: "reject_alias_collision k k = Inr ()"
  by (simp add: reject_alias_collision_def same_inode_def)

lemma reject_aliases_iff: "reject_aliases k rs = Inr () \<longleftrightarrow> (\<forall>r\<in>set rs. reject_alias_collision k (re_project r) = Inr ())"
  by (induction rs) auto

lemma sorted_takeWhile:
  "sorted_wrt (<) (map re_id ws) \<Longrightarrow> r \<in> set ws \<Longrightarrow>
     set (takeWhile (\<lambda>w. re_id w \<noteq> re_id r) ws) = {w \<in> set ws. re_id w < re_id r}"
  by (induction ws) auto

lemma sorted_split:
  "sorted_wrt (<) (map re_id ws) \<Longrightarrow> dropWhile (\<lambda>w. re_id w \<noteq> i) ws = r # rest \<Longrightarrow>
     re_id r = i \<and> r \<in> set ws \<and> takeWhile (\<lambda>w. re_id w \<noteq> i) ws @ rest = filter (\<lambda>w. re_id w \<noteq> i) ws"
proof (induction ws)
  case (Cons w ws)
  show ?case
  proof (cases "re_id w = i")
    case True
    then have "\<forall>x\<in>set ws. re_id x \<noteq> i" using Cons.prems(1) by auto
    then show ?thesis using True Cons.prems by (simp add: filter_id_conv)
  qed (use Cons in auto)
qed simp

lemma blocked_iff:
  assumes "queue_ok cl q" "r \<in> set (qs_waiting q)"
  shows "blocked r q \<longleftrightarrow> (\<exists>a\<in>set (qs_active q). conflicts a r) \<or> (\<exists>w\<in>set (qs_waiting q). re_id w < re_id r \<and> conflicts w r)"
  using assms sorted_takeWhile[of "qs_waiting q" r] by (auto simp: blocked_def ahead_def list_ex_iff queue_ok_def)

lemma alias_free_snoc:
  assumes "alias_free rs" "\<forall>r\<in>set rs. reject_alias_collision (re_project z) (re_project r) = Inr ()"
  shows "alias_free (rs @ [z])"
  using assms alias_sym unfolding alias_free_def by (metis Un_iff alias_refl empty_iff empty_set list.set(2) insert_iff set_append)

lemma join_queueE:
  assumes "join_queue cl p m q = Inr (i, q')"
  obtains "i = qs_next_id q + 1" "q' = q\<lparr>qs_next_id := i, qs_waiting := qs_waiting q @ [\<lparr>re_id = i, re_project = p, re_mode = m\<rparr>]\<rparr>"
    "length (qs_waiting q) < cl_queue_capacity cl"
    "\<forall>r\<in>set (qs_active q @ qs_waiting q). reject_alias_collision p (re_project r) = Inr ()"
  using assms by (auto simp: join_queue_def Let_def reject_aliases_iff split: if_splits)

lemma join_queue_ok:
  assumes ok: "queue_ok cl q" and j: "join_queue cl p m q = Inr (i, q')"
  shows "queue_ok cl q'"
  using j
proof (rule join_queueE)
  assume q: "i = qs_next_id q + 1" "q' = q\<lparr>qs_next_id := i, qs_waiting := qs_waiting q @ [\<lparr>re_id = i, re_project = p, re_mode = m\<rparr>]\<rparr>"
    "length (qs_waiting q) < cl_queue_capacity cl"
    and al: "\<forall>r\<in>set (qs_active q @ qs_waiting q). reject_alias_collision p (re_project r) = Inr ()"
  have le: "\<forall>r\<in>set (qs_active q) \<union> set (qs_waiting q). re_id r \<le> qs_next_id q" using ok by (simp add: queue_ok_def)
  have "alias_free (qs_active q @ qs_waiting q)" using ok by (simp add: queue_ok_def)
  then have al': "alias_free (qs_active q' @ qs_waiting q')"
    using alias_free_snoc[of "qs_active q @ qs_waiting q" "\<lparr>re_id = i, re_project = p, re_mode = m\<rparr>"] al by (simp add: q(2))
  have fresh: "\<forall>r\<in>set (qs_active q) \<union> set (qs_waiting q). re_id r < i" using le by (auto simp: q(1) less_Suc_eq_le)
  have disj: "re_id ` set (qs_active q) \<inter> re_id ` set (qs_waiting q) = {}" using ok by (simp add: queue_ok_def)
  have "sorted_wrt (<) (map re_id (qs_waiting q'))"
    using ok fresh by (simp add: queue_ok_def q(2) sorted_wrt_append)
  moreover have "re_id ` set (qs_active q') \<inter> re_id ` set (qs_waiting q') = {}"
    using disj fresh by (auto simp: q(2))
  moreover have "\<forall>r\<in>set (qs_active q') \<union> set (qs_waiting q'). re_id r \<le> qs_next_id q'"
    using fresh by (auto simp: q(2) less_imp_le)
  moreover have "\<forall>a\<in>set (qs_active q'). \<forall>w\<in>set (qs_waiting q'). conflicts a w \<longrightarrow> re_id a < re_id w"
    using ok fresh by (simp add: queue_ok_def q(2))
  ultimately show ?thesis using ok al' q(3) by (simp add: queue_ok_def q(2))
qed

lemma try_admitE:
  assumes ok: "queue_ok cl q" and t: "try_admit i q = Inr (True, q')"
  obtains r where "re_id r = i" "r \<in> set (qs_waiting q)" "\<not> blocked r q"
    "q' = q\<lparr>qs_waiting := filter (\<lambda>w. re_id w \<noteq> i) (qs_waiting q), qs_active := qs_active q @ [r]\<rparr>"
proof -
  obtain r rest where d: "dropWhile (\<lambda>w. re_id w \<noteq> i) (qs_waiting q) = r # rest"
    using t by (auto simp: try_admit_def split: list.splits)
  have s: "re_id r = i" "r \<in> set (qs_waiting q)" "ahead i q @ rest = filter (\<lambda>w. re_id w \<noteq> i) (qs_waiting q)"
    using sorted_split[OF _ d] ok by (auto simp: queue_ok_def ahead_def)
  have "\<forall>a\<in>set (qs_active q). re_id a \<noteq> i" using ok s(1,2) by (auto simp: queue_ok_def)
  then have "filter (\<lambda>a. re_id a \<noteq> i) (qs_active q) = qs_active q" by (simp add: filter_id_conv)
  then show ?thesis
    using t d s that[of r] by (auto simp: try_admit_def split: if_splits)
qed

lemma alias_free_mono: "alias_free rs \<Longrightarrow> set ss \<subseteq> set rs \<Longrightarrow> alias_free ss"
  unfolding alias_free_def by blast

lemma drop_queued_ok: "queue_ok cl q \<Longrightarrow> queue_ok cl (drop_queued i q)"
  by (auto simp: queue_ok_def drop_queued_def sorted_wrt_filter sorted_wrt_map
      intro: le_trans[OF length_filter_le] elim: alias_free_mono)

lemma drop_lease_ok: "queue_ok cl q \<Longrightarrow> queue_ok cl (drop_lease i q)"
  by (auto simp: queue_ok_def drop_lease_def distinct_map_filter elim: alias_free_mono)

lemma try_admit_ok:
  assumes ok: "queue_ok cl q" and t: "try_admit i q = Inr (True, q')"
  shows "queue_ok cl q'"
proof (rule try_admitE[OF ok t])
  fix r assume r: "re_id r = i" "r \<in> set (qs_waiting q)" "\<not> blocked r q"
    and q': "q' = q\<lparr>qs_waiting := filter (\<lambda>w. re_id w \<noteq> i) (qs_waiting q), qs_active := qs_active q @ [r]\<rparr>"
  have free: "\<forall>a\<in>set (qs_active q). \<not> conflicts a r" "\<forall>w\<in>set (qs_waiting q). conflicts w r \<longrightarrow> \<not> re_id w < re_id r"
    using r(3) blocked_iff[OF ok r(2)] by auto
  have d: "queue_ok cl (drop_queued i q)" by (rule drop_queued_ok[OF ok])
  have "alias_free (qs_active q' @ qs_waiting q')"
    using ok r(2) by (auto simp: queue_ok_def q' elim!: alias_free_mono)
  moreover have "distinct (map re_id (qs_active q'))" "re_id ` set (qs_active q') \<inter> re_id ` set (qs_waiting q') = {}"
    using ok r(1,2) by (auto simp: queue_ok_def q')
  moreover have "\<forall>a\<in>set (qs_active q'). \<forall>b\<in>set (qs_active q'). re_id a \<noteq> re_id b \<longrightarrow> \<not> conflicts a b"
    using ok free(1) conflicts_sym by (auto simp: queue_ok_def q')
  moreover have "\<forall>a\<in>set (qs_active q'). \<forall>w\<in>set (qs_waiting q'). conflicts a w \<longrightarrow> re_id a < re_id w"
    using ok free(2) r(1) conflicts_sym by (auto simp: queue_ok_def q' not_less le_less)
  moreover have "\<forall>x\<in>set (qs_active q') \<union> set (qs_waiting q'). re_id x \<le> qs_next_id q'"
    using ok r(2) by (auto simp: queue_ok_def q')
  ultimately show ?thesis using d by (simp add: queue_ok_def drop_queued_def q')
qed

section \<open>Tasks and their requests\<close>

fun waits_for :: "task_phase \<Rightarrow> nat option" where
  "waits_for (Looping i) = Some i"
| "waits_for (Registered i _) = Some i"
| "waits_for (Checked i _) = Some i"
| "waits_for (Parked i _) = Some i"
| "waits_for _ = None"

fun leases :: "task_phase \<Rightarrow> nat option" where
  "leases (Admitted i) = Some i"
| "leases (Dispatching i) = Some i"
| "leases (Confirmed i _) = Some i"
| "leases _ = None"

definition ticket :: "task \<Rightarrow> nat option" where
  "ticket t = (case waits_for (ta_phase t) of Some i \<Rightarrow> Some i | None \<Rightarrow> leases (ta_phase t))"

definition request_of :: "task \<Rightarrow> nat \<Rightarrow> request" where
  "request_of t i = \<lparr>re_id = i, re_project = ta_project t, re_mode = ta_mode t\<rparr>"

definition permit_ok :: "queue_state \<Rightarrow> permit \<Rightarrow> bool" where
  "permit_ok q v \<longleftrightarrow>
     (\<exists>r\<in>set (qs_active q). re_id r = wp_lease v \<and> re_project r = wp_project v
        \<and> (wp_mode v = AccessMutate \<longrightarrow> re_mode r = AccessMutate))"

text \<open>Every task is in the queue with its request, once, and every request of the queue has a task or a permit.\<close>

definition tasks_ok :: "queue_state \<Rightarrow> task list \<Rightarrow> permit list \<Rightarrow> bool" where
  "tasks_ok q ts ws \<longleftrightarrow>
     (\<forall>k<length ts. \<forall>i. waits_for (ta_phase (ts ! k)) = Some i \<longrightarrow> request_of (ts ! k) i \<in> set (qs_waiting q))
     \<and> (\<forall>k<length ts. \<forall>i. leases (ta_phase (ts ! k)) = Some i \<longrightarrow> request_of (ts ! k) i \<in> set (qs_active q))
     \<and> (\<forall>k<length ts. \<forall>l<length ts. ticket (ts ! k) \<noteq> None \<and> ticket (ts ! l) = ticket (ts ! k) \<longrightarrow> l = k)
     \<and> (\<forall>v\<in>set ws. permit_ok q v \<and> (\<forall>k<length ts. ticket (ts ! k) \<noteq> Some (wp_lease v)))
     \<and> (\<forall>w\<in>set (qs_waiting q). \<exists>k<length ts. waits_for (ta_phase (ts ! k)) = Some (re_id w))
     \<and> (\<forall>a\<in>set (qs_active q). (\<exists>k<length ts. leases (ta_phase (ts ! k)) = Some (re_id a)) \<or> (\<exists>v\<in>set ws. wp_lease v = re_id a))"

definition same_except :: "nat \<Rightarrow> queue_state \<Rightarrow> queue_state \<Rightarrow> bool" where
  "same_except i q q' \<longleftrightarrow>
     (\<forall>r. re_id r \<noteq> i \<longrightarrow> (r \<in> set (qs_waiting q') \<longleftrightarrow> r \<in> set (qs_waiting q)) \<and> (r \<in> set (qs_active q') \<longleftrightarrow> r \<in> set (qs_active q)))"

lemma request_of_id [simp]: "re_id (request_of t i) = i" "request_of (t\<lparr>ta_phase := ph\<rparr>) i = request_of t i"
  by (simp_all add: request_of_def)

lemma waits_leases: "waits_for ph = Some i \<Longrightarrow> leases ph = None"
  by (cases ph) auto

lemma ticket_cases: "ticket t = Some i \<longleftrightarrow> waits_for (ta_phase t) = Some i \<or> leases (ta_phase t) = Some i"
  by (auto simp: ticket_def waits_leases split: option.splits)

lemma tasks_okD:
  assumes "tasks_ok q ts ws"
  shows "k < length ts \<Longrightarrow> waits_for (ta_phase (ts ! k)) = Some i \<Longrightarrow> request_of (ts ! k) i \<in> set (qs_waiting q)"
    and "k < length ts \<Longrightarrow> leases (ta_phase (ts ! k)) = Some i \<Longrightarrow> request_of (ts ! k) i \<in> set (qs_active q)"
    and "v \<in> set ws \<Longrightarrow> permit_ok q v"
    and "w \<in> set (qs_waiting q) \<Longrightarrow> \<exists>k<length ts. waits_for (ta_phase (ts ! k)) = Some (re_id w)"
    and "a \<in> set (qs_active q) \<Longrightarrow>
      (\<exists>k<length ts. leases (ta_phase (ts ! k)) = Some (re_id a)) \<or> (\<exists>v\<in>set ws. wp_lease v = re_id a)"
  using assms by (simp_all add: tasks_ok_def)

lemma tasks_ok_own:
  assumes "tasks_ok q ts ws" "k < length ts" "ticket (ts ! k) = Some i"
  shows "request_of (ts ! k) i \<in> set (qs_waiting q) \<union> set (qs_active q)"
  using assms unfolding tasks_ok_def ticket_cases by blast

text \<open>The identifier a task moves under is not shared.\<close>

lemma others_apart:
  assumes ok: "tasks_ok q ts ws" and k: "k < length ts"
    and own: "ticket (ts ! k) = Some i \<or> ticket (ts ! k) = None \<and> i \<notin> re_id ` (set (qs_waiting q) \<union> set (qs_active q))"
  shows "\<And>l. l < length ts \<Longrightarrow> l \<noteq> k \<Longrightarrow> ticket (ts ! l) \<noteq> Some i" "\<And>v. v \<in> set ws \<Longrightarrow> wp_lease v \<noteq> i"
proof -
  fix l assume l: "l < length ts" "l \<noteq> k"
  show "ticket (ts ! l) \<noteq> Some i"
  proof
    assume i: "ticket (ts ! l) = Some i"
    have "request_of (ts ! l) i \<in> set (qs_waiting q) \<union> set (qs_active q)" by (rule tasks_ok_own[OF ok l(1) i])
    then have "i \<in> re_id ` (set (qs_waiting q) \<union> set (qs_active q))" by (metis request_of_id(1) image_eqI)
    then have "ticket (ts ! k) = Some i" using own by blast
    then show False using ok k l i unfolding tasks_ok_def by (metis option.distinct(1))
  qed
next
  fix v assume v: "v \<in> set ws"
  have p: "permit_ok q v" "ticket (ts ! k) \<noteq> Some (wp_lease v)" using ok v k unfolding tasks_ok_def by blast+
  have "wp_lease v \<in> re_id ` (set (qs_waiting q) \<union> set (qs_active q))" using p(1) unfolding permit_ok_def by force
  then show "wp_lease v \<noteq> i" using p(2) own by metis
qed

lemma permit_ok_except: "permit_ok q v \<Longrightarrow> same_except i q q' \<Longrightarrow> wp_lease v \<noteq> i \<Longrightarrow> permit_ok q' v"
  unfolding permit_ok_def same_except_def by metis

lemma tasks_ok_move:
  assumes ok: "tasks_ok q ts ws" and k: "k < length ts" and same: "same_except i q q'"
    and own: "ticket (ts ! k) = Some i \<or> ticket (ts ! k) = None \<and> i \<notin> re_id ` (set (qs_waiting q) \<union> set (qs_active q))"
    and wait: "\<And>j. waits_for ph = Some j \<Longrightarrow> j = i \<and> request_of (ts ! k) i \<in> set (qs_waiting q')"
    and lease: "\<And>j. leases ph = Some j \<Longrightarrow> j = i \<and> request_of (ts ! k) i \<in> set (qs_active q')"
    and cov_w: "\<And>w. w \<in> set (qs_waiting q') \<Longrightarrow> re_id w = i \<Longrightarrow> waits_for ph = Some i"
    and cov_a: "\<And>a. a \<in> set (qs_active q') \<Longrightarrow> re_id a = i \<Longrightarrow> leases ph = Some i \<or> (\<exists>v\<in>set vs. wp_lease v = i)"
    and perm: "\<And>v. v \<in> set vs \<Longrightarrow> wp_lease v = i \<and> permit_ok q' v \<and> waits_for ph = None \<and> leases ph = None"
  shows "tasks_ok q' (ts[k := (ts ! k)\<lparr>ta_phase := ph\<rparr>]) (ws @ vs)"
proof -
  let ?ts = "ts[k := (ts ! k)\<lparr>ta_phase := ph\<rparr>]"
  note apart = others_apart[OF ok k own]
  have nth: "?ts ! l = (if l = k then (ts ! k)\<lparr>ta_phase := ph\<rparr> else ts ! l)" if "l < length ts" for l
    using that by simp
  have tick: "ticket (?ts ! k) \<in> {None, Some i}" using wait lease k by (cases "waits_for ph"; cases "leases ph") (auto simp: ticket_def)
  have keep: "re_id r \<noteq> i \<Longrightarrow> (r \<in> set (qs_waiting q') \<longleftrightarrow> r \<in> set (qs_waiting q)) \<and> (r \<in> set (qs_active q') \<longleftrightarrow> r \<in> set (qs_active q))" for r
    using same by (simp add: same_except_def)
  have c1: "request_of (?ts ! l) j \<in> set (qs_waiting q')" if "l < length ts" "waits_for (ta_phase (?ts ! l)) = Some j" for l j
  proof (cases "l = k")
    case False
    then have "waits_for (ta_phase (ts ! l)) = Some j" using that by simp
    then show ?thesis using ok apart(1)[OF that(1) False] keep that(1) False unfolding tasks_ok_def ticket_cases
      by (metis nth request_of_id(1))
  qed (use that wait in auto)
  have c2: "request_of (?ts ! l) j \<in> set (qs_active q')" if "l < length ts" "leases (ta_phase (?ts ! l)) = Some j" for l j
  proof (cases "l = k")
    case False
    then have "leases (ta_phase (ts ! l)) = Some j" using that by simp
    then show ?thesis using ok apart(1)[OF that(1) False] keep that(1) False unfolding tasks_ok_def ticket_cases
      by (metis nth request_of_id(1))
  qed (use that lease in auto)
  have c3: "m = l" if "l < length ts" "m < length ts" "ticket (?ts ! l) \<noteq> None" "ticket (?ts ! m) = ticket (?ts ! l)" for l m
  proof (cases "l = k \<or> m = k")
    case True
    then show ?thesis using that tick apart(1) nth by (metis insert_iff singletonD)
  next
    case False
    then show ?thesis using that ok nth unfolding tasks_ok_def by metis
  qed
  have c4: "permit_ok q' v \<and> (\<forall>l<length ts. ticket (?ts ! l) \<noteq> Some (wp_lease v))" if "v \<in> set ws" for v
  proof -
    have "permit_ok q v" "\<forall>l<length ts. ticket (ts ! l) \<noteq> Some (wp_lease v)" using ok that unfolding tasks_ok_def by blast+
    then show ?thesis using permit_ok_except same apart(2)[OF that] tick nth by (metis insert_iff option.inject option.distinct(1) singletonD)
  qed
  have c5: "permit_ok q' v \<and> (\<forall>l<length ts. ticket (?ts ! l) \<noteq> Some (wp_lease v))" if "v \<in> set vs" for v
  proof -
    have none: "ticket (?ts ! k) = None" using perm[OF that] k by (simp add: ticket_def)
    have "ticket (?ts ! l) \<noteq> Some (wp_lease v)" if "l < length ts" for l
      using none apart(1)[OF that] perm[OF \<open>v \<in> set vs\<close>] nth[OF that] by (cases "l = k") auto
    then show ?thesis using perm[OF that] by blast
  qed
  have c6: "\<exists>l<length ts. waits_for (ta_phase (?ts ! l)) = Some (re_id w)" if w: "w \<in> set (qs_waiting q')" for w
  proof (cases "re_id w = i")
    case True
    then show ?thesis using cov_w[OF w] k by (intro exI[of _ k]) simp
  next
    case False
    then obtain l where l: "l < length ts" "waits_for (ta_phase (ts ! l)) = Some (re_id w)"
      using tasks_okD(4)[OF ok] w keep by blast
    then have "ticket (ts ! l) = Some (re_id w)" by (simp add: ticket_cases)
    then have "l \<noteq> k" using own False by auto
    then show ?thesis using l by (intro exI[of _ l]) simp
  qed
  have c7: "(\<exists>l<length ts. leases (ta_phase (?ts ! l)) = Some (re_id a)) \<or> (\<exists>v\<in>set (ws @ vs). wp_lease v = re_id a)"
    if a: "a \<in> set (qs_active q')" for a
  proof (cases "re_id a = i")
    case True
    then have "leases (ta_phase (?ts ! k)) = Some (re_id a) \<or> (\<exists>v\<in>set vs. wp_lease v = re_id a)" using cov_a[OF a] k by simp
    then show ?thesis using k by auto
  next
    case False
    then have "(\<exists>l<length ts. leases (ta_phase (ts ! l)) = Some (re_id a)) \<or> (\<exists>v\<in>set ws. wp_lease v = re_id a)"
      using tasks_okD(5)[OF ok] a keep by blast
    then show ?thesis
    proof
      assume "\<exists>l<length ts. leases (ta_phase (ts ! l)) = Some (re_id a)"
      then obtain l where l: "l < length ts" "leases (ta_phase (ts ! l)) = Some (re_id a)" by blast
      then have "ticket (ts ! l) = Some (re_id a)" by (simp add: ticket_cases)
      then have "l \<noteq> k" using own False by auto
      then show ?thesis using l by (intro disjI1 exI[of _ l]) simp
    qed auto
  qed
  have c45: "permit_ok q' v \<and> (\<forall>l<length ts. ticket (?ts ! l) \<noteq> Some (wp_lease v))" if "v \<in> set (ws @ vs)" for v
    using that c4 c5 by auto
  show ?thesis
    unfolding tasks_ok_def length_list_update
    by (intro conjI allI impI ballI; (elim conjE)?) (rule c1 c2 c3 c45[THEN conjunct1] c45[THEN conjunct2, rule_format] c6 c7; assumption)+
qed

section \<open>Steps\<close>

text \<open>
  One rule per atomic part of the code. The waits for a notification and for the answer on holds are the points where
  a call can time out or be dropped. The last look at the owner and the hand-over of the permit are different
  steps, in \<^verbatim>\<open>acquire\<close> and in \<^verbatim>\<open>borrow_nested\<close>: the owner may be revoked between them. A borrow that fails changes
  nothing and has no rule. The permit a borrow is taken from outlives the call, so a lease keeps a permit while a borrow
  of it is on the way.
\<close>

inductive access_step :: "coordinator_limits \<Rightarrow> nat \<Rightarrow> access_state \<Rightarrow> access_state \<Rightarrow> bool" for cl self where
  owner_made: "access_step cl self s (s\<lparr>ac_owners := ac_owners s @ [\<lparr>ow_coordinator = self, ow_deadline = t, ow_revoked = False\<rparr>]\<rparr>)"
| revoked: "o' < length (ac_owners s) \<Longrightarrow> access_step cl self s (revoke_owner o' s)"
| called: "o' < length (ac_owners s) \<Longrightarrow> acquire_check h cl self now (ac_owners s ! o') p = Inr d
    \<Longrightarrow> access_step cl self s (s\<lparr>ac_tasks := ac_tasks s @ [\<lparr>ta_owner = o', ta_project = p, ta_mode = m, ta_phase = Entering\<rparr>]\<rparr>)"
| queued: "k < length (ac_tasks s) \<Longrightarrow> ac_tasks s ! k = t \<Longrightarrow> ta_phase t = Entering
    \<Longrightarrow> join_queue cl (ta_project t) (ta_mode t) (ac_queue s) = Inr (i, q)
    \<Longrightarrow> access_step cl self s (set_phase k (Looping i) (with_queue q s))"
| refused: "k < length (ac_tasks s) \<Longrightarrow> ac_tasks s ! k = t \<Longrightarrow> ta_phase t = Entering
    \<Longrightarrow> join_queue cl (ta_project t) (ta_mode t) (ac_queue s) = Inl e
    \<Longrightarrow> access_step cl self s (set_phase k (Returned (Inl e)) s)"
| registered: "k < length (ac_tasks s) \<Longrightarrow> ta_phase (ac_tasks s ! k) = Looping i
    \<Longrightarrow> access_step cl self s (set_phase k (Registered i False) s)"
| passed: "k < length (ac_tasks s) \<Longrightarrow> ac_tasks s ! k = t \<Longrightarrow> ta_phase t = Registered i b
    \<Longrightarrow> owner_ready h now (ac_owners s ! ta_owner t) (ta_project t) = Inr ()
    \<Longrightarrow> access_step cl self s (set_phase k (Checked i b) s)"
| failed: "k < length (ac_tasks s) \<Longrightarrow> ac_tasks s ! k = t \<Longrightarrow> ta_phase t = Registered i b
    \<Longrightarrow> owner_ready h now (ac_owners s ! ta_owner t) (ta_project t) = Inl e
    \<Longrightarrow> access_step cl self s (set_phase k (Returned (Inl e)) (leave_queue (drop_queued i (ac_queue s)) s))"
| admitted: "k < length (ac_tasks s) \<Longrightarrow> ta_phase (ac_tasks s ! k) = Checked i b \<Longrightarrow> try_admit i (ac_queue s) = Inr (True, q)
    \<Longrightarrow> access_step cl self s (set_phase k (Admitted i) (with_queue q s))"
| parked: "k < length (ac_tasks s) \<Longrightarrow> ta_phase (ac_tasks s ! k) = Checked i b \<Longrightarrow> try_admit i (ac_queue s) = Inr (False, q)
    \<Longrightarrow> access_step cl self s (set_phase k (Parked i b) (with_queue q s))"
| lost: "k < length (ac_tasks s) \<Longrightarrow> ta_phase (ac_tasks s ! k) = Checked i b \<Longrightarrow> try_admit i (ac_queue s) = Inl e
    \<Longrightarrow> access_step cl self s (set_phase k (Returned (Inl e)) (leave_queue (drop_queued i (ac_queue s)) s))"
| woken: "k < length (ac_tasks s) \<Longrightarrow> ta_phase (ac_tasks s ! k) = Parked i True
    \<Longrightarrow> access_step cl self s (set_phase k (Looping i) s)"
| timed_out: "k < length (ac_tasks s) \<Longrightarrow> ac_tasks s ! k = t \<Longrightarrow> ta_phase t = Parked i b
    \<Longrightarrow> access_step cl self s (set_phase k (Returned (Inl (timeout_error now (ac_owners s ! ta_owner t))))
          (leave_queue (drop_queued i (ac_queue s)) s))"
| dispatched: "k < length (ac_tasks s) \<Longrightarrow> ac_tasks s ! k = t \<Longrightarrow> ta_phase t = Admitted i
    \<Longrightarrow> owner_ready h now (ac_owners s ! ta_owner t) (ta_project t) = Inr ()
    \<Longrightarrow> access_step cl self s (set_phase k (Dispatching i) s)"
| undispatched: "k < length (ac_tasks s) \<Longrightarrow> ac_tasks s ! k = t \<Longrightarrow> ta_phase t = Admitted i
    \<Longrightarrow> owner_ready h now (ac_owners s ! ta_owner t) (ta_project t) = Inl e
    \<Longrightarrow> access_step cl self s (set_phase k (Returned (Inl e)) (leave_queue (drop_lease i (ac_queue s)) s))"
| confirmed: "k < length (ac_tasks s) \<Longrightarrow> ac_tasks s ! k = t \<Longrightarrow> ta_phase t = Dispatching i
    \<Longrightarrow> dispatch_answer now (ac_owners s ! ta_owner t) a = Inr held
    \<Longrightarrow> access_step cl self s (set_phase k (Confirmed i held) s)"
| unanswered: "k < length (ac_tasks s) \<Longrightarrow> ac_tasks s ! k = t \<Longrightarrow> ta_phase t = Dispatching i
    \<Longrightarrow> dispatch_answer now (ac_owners s ! ta_owner t) a = Inl e
    \<Longrightarrow> access_step cl self s (set_phase k (Returned (Inl e)) (leave_queue (drop_lease i (ac_queue s)) s))"
| abandoned: "k < length (ac_tasks s) \<Longrightarrow> ac_tasks s ! k = t \<Longrightarrow> ta_phase t = Dispatching i
    \<Longrightarrow> access_step cl self s (set_phase k (Returned (Inl (timeout_error now (ac_owners s ! ta_owner t))))
          (leave_queue (drop_lease i (ac_queue s)) s))"
| granted: "k < length (ac_tasks s) \<Longrightarrow> ac_tasks s ! k = t \<Longrightarrow> ta_phase t = Confirmed i held
    \<Longrightarrow> dispatch_last h (ta_project t) held = Inr ()
    \<Longrightarrow> access_step cl self s (set_phase k (Returned (Inr i))
          (s\<lparr>ac_permits := ac_permits s @
             [\<lparr>wp_lease = i, wp_owner = ta_owner t, wp_project = ta_project t, wp_mode = ta_mode t\<rparr>]\<rparr>))"
| undispatchable: "k < length (ac_tasks s) \<Longrightarrow> ac_tasks s ! k = t \<Longrightarrow> ta_phase t = Confirmed i held
    \<Longrightarrow> dispatch_last h (ta_project t) held = Inl e
    \<Longrightarrow> access_step cl self s (set_phase k (Returned (Inl e)) (leave_queue (drop_lease i (ac_queue s)) s))"
| borrow_checked: "k < length (ac_permits s) \<Longrightarrow> ac_permits s ! k = w
    \<Longrightarrow> borrow_nested h now o1 h' now' (ac_owners s ! wp_owner w) w m a = Inr v
    \<Longrightarrow> access_step cl self s (s\<lparr>ac_borrows := ac_borrows s @ [v]\<rparr>)"
| borrowed: "j < length (ac_borrows s)
    \<Longrightarrow> access_step cl self s (s\<lparr>ac_permits := ac_permits s @ [ac_borrows s ! j], ac_borrows := without_nth j (ac_borrows s)\<rparr>)"
| released: "k < length (ac_permits s)
    \<Longrightarrow> list_all (\<lambda>v. list_ex (\<lambda>w. wp_lease w = wp_lease v) (without_nth k (ac_permits s))) (ac_borrows s)
    \<Longrightarrow> access_step cl self s (drop_permit k s)"
| notified: "0 < ac_notifies s \<Longrightarrow> access_step cl self s (notify_waiters s)"

text \<open>A task that sleeps is blocked and its owner is not revoked, unless a notification is due.\<close>

definition asleep_ok :: "nat \<Rightarrow> queue_state \<Rightarrow> owner_state list \<Rightarrow> task \<Rightarrow> bool" where
  "asleep_ok n q os t \<longleftrightarrow>
     0 < n \<or> (case ta_phase t of
        Parked i False \<Rightarrow> blocked (request_of t i) q \<and> \<not> ow_revoked (os ! ta_owner t)
      | Checked i False \<Rightarrow> \<not> ow_revoked (os ! ta_owner t)
      | _ \<Rightarrow> True)"

definition access_inv :: "coordinator_limits \<Rightarrow> access_state \<Rightarrow> bool" where
  "access_inv cl s \<longleftrightarrow>
     queue_ok cl (ac_queue s) \<and> tasks_ok (ac_queue s) (ac_tasks s) (ac_permits s)
     \<and> (\<forall>t\<in>set (ac_tasks s). ta_owner t < length (ac_owners s) \<and> asleep_ok (ac_notifies s) (ac_queue s) (ac_owners s) t)
     \<and> (\<forall>v\<in>set (ac_permits s). wp_owner v < length (ac_owners s))"

lemma set_phase_sel [simp]:
  "ac_queue (set_phase k ph s) = ac_queue s" "ac_owners (set_phase k ph s) = ac_owners s"
  "ac_permits (set_phase k ph s) = ac_permits s" "ac_notifies (set_phase k ph s) = ac_notifies s"
  "ac_borrows (set_phase k ph s) = ac_borrows s" "ac_tasks (set_phase k ph s) = (ac_tasks s)[k := (ac_tasks s ! k)\<lparr>ta_phase := ph\<rparr>]"
  by (simp_all add: set_phase_def)

lemma leave_queue_sel [simp]:
  "ac_queue (leave_queue q s) = q" "ac_owners (leave_queue q s) = ac_owners s" "ac_permits (leave_queue q s) = ac_permits s"
  "ac_notifies (leave_queue q s) = ac_notifies s + 1" "ac_borrows (leave_queue q s) = ac_borrows s" "ac_tasks (leave_queue q s) = ac_tasks s"
  by (simp_all add: leave_queue_def)

lemma with_queue_sel [simp]:
  "ac_queue (with_queue q s) = q" "ac_owners (with_queue q s) = ac_owners s" "ac_permits (with_queue q s) = ac_permits s"
  "ac_notifies (with_queue q s) = ac_notifies s" "ac_borrows (with_queue q s) = ac_borrows s" "ac_tasks (with_queue q s) = ac_tasks s"
  by (simp_all add: with_queue_def)

lemma same_except_refl [simp]: "same_except i q q"
  by (simp add: same_except_def)

lemma asleep_mono:
  assumes "asleep_ok n q os t" "n \<le> n'"
    and "\<And>i. ta_phase t = Parked i False \<Longrightarrow> blocked (request_of t i) q \<Longrightarrow> blocked (request_of t i) q' \<or> 0 < n'"
    and "\<And>i. ta_phase t \<in> {Parked i False, Checked i False} \<Longrightarrow> ow_revoked (os' ! ta_owner t) \<Longrightarrow> ow_revoked (os ! ta_owner t) \<or> 0 < n'"
  shows "asleep_ok n' q' os' t"
  using assms unfolding asleep_ok_def by (auto split: task_phase.splits bool.splits)

section \<open>The invariant\<close>

lemma access_invD:
  assumes "access_inv cl s"
  shows "queue_ok cl (ac_queue s)" "tasks_ok (ac_queue s) (ac_tasks s) (ac_permits s)"
    "k < length (ac_tasks s) \<Longrightarrow> ta_owner (ac_tasks s ! k) < length (ac_owners s)"
    "k < length (ac_tasks s) \<Longrightarrow> asleep_ok (ac_notifies s) (ac_queue s) (ac_owners s) (ac_tasks s ! k)"
    "v \<in> set (ac_permits s) \<Longrightarrow> wp_owner v < length (ac_owners s)"
  using assms by (auto simp: access_inv_def)

lemma inv_move:
  assumes inv: "access_inv cl s" and k: "k < length (ac_tasks s)" and q: "queue_ok cl q'"
    and ts: "tasks_ok q' ((ac_tasks s)[k := (ac_tasks s ! k)\<lparr>ta_phase := ph\<rparr>]) (ac_permits s @ vs)"
    and n: "ac_notifies s \<le> n'"
    and others: "\<And>l i. l < length (ac_tasks s) \<Longrightarrow> l \<noteq> k \<Longrightarrow> ta_phase (ac_tasks s ! l) = Parked i False
      \<Longrightarrow> blocked (request_of (ac_tasks s ! l) i) (ac_queue s) \<Longrightarrow> blocked (request_of (ac_tasks s ! l) i) q' \<or> 0 < n'"
    and own: "asleep_ok n' q' (ac_owners s) ((ac_tasks s ! k)\<lparr>ta_phase := ph\<rparr>)"
    and vs: "\<And>v. v \<in> set vs \<Longrightarrow> wp_owner v < length (ac_owners s)"
  shows "access_inv cl (set_phase k ph (s\<lparr>ac_queue := q', ac_permits := ac_permits s @ vs, ac_notifies := n'\<rparr>))"
proof -
  let ?ts = "(ac_tasks s)[k := (ac_tasks s ! k)\<lparr>ta_phase := ph\<rparr>]"
  have "ta_owner (?ts ! l) < length (ac_owners s) \<and> asleep_ok n' q' (ac_owners s) (?ts ! l)" if l: "l < length (ac_tasks s)" for l
  proof (cases "l = k")
    case True
    then show ?thesis using own access_invD(3)[OF inv k] l by simp
  next
    case False
    then show ?thesis
      using asleep_mono[OF access_invD(4)[OF inv l] n others[OF l False]] access_invD(3)[OF inv l] by simp
  qed
  then have "\<forall>t\<in>set ?ts. ta_owner t < length (ac_owners s) \<and> asleep_ok n' q' (ac_owners s) t"
    by (metis in_set_conv_nth length_list_update)
  then show ?thesis using inv q ts vs by (auto simp: access_inv_def)
qed

lemma stay_inv:
  assumes inv: "access_inv cl s" and k: "k < length (ac_tasks s)"
    and ph: "waits_for ph = waits_for (ta_phase (ac_tasks s ! k))" "leases ph = leases (ta_phase (ac_tasks s ! k))"
    and own: "asleep_ok (ac_notifies s) (ac_queue s) (ac_owners s) ((ac_tasks s ! k)\<lparr>ta_phase := ph\<rparr>)"
    and i: "ticket (ac_tasks s ! k) = Some i"
  shows "access_inv cl (set_phase k ph s)"
proof -
  note ok = access_invD(2)[OF inv]
  have one: "waits_for ph = Some i \<or> leases ph = Some i" using i ph by (simp add: ticket_cases)
  have "tasks_ok (ac_queue s) ((ac_tasks s)[k := (ac_tasks s ! k)\<lparr>ta_phase := ph\<rparr>]) (ac_permits s @ [])"
  proof (rule tasks_ok_move[OF ok k same_except_refl disjI1[OF i]])
    show "j = i \<and> request_of (ac_tasks s ! k) i \<in> set (qs_waiting (ac_queue s))" if "waits_for ph = Some j" for j
      using that one ph waits_leases tasks_okD(1)[OF ok k] by (metis option.distinct(1) option.inject)
    show "j = i \<and> request_of (ac_tasks s ! k) i \<in> set (qs_active (ac_queue s))" if "leases ph = Some j" for j
      using that one ph waits_leases tasks_okD(2)[OF ok k] by (metis option.distinct(1) option.inject)
    have apart: "re_id ` set (qs_active (ac_queue s)) \<inter> re_id ` set (qs_waiting (ac_queue s)) = {}"
      using access_invD(1)[OF inv] by (simp add: queue_ok_def)
    show "waits_for ph = Some i" if "w \<in> set (qs_waiting (ac_queue s))" "re_id w = i" for w
      using one that apart tasks_okD(2)[OF ok k] ph(2) by (metis IntI empty_iff image_eqI request_of_id(1))
    show "leases ph = Some i \<or> (\<exists>v\<in>set []. wp_lease v = i)" if "a \<in> set (qs_active (ac_queue s))" "re_id a = i" for a
      using one that apart tasks_okD(1)[OF ok k] ph(1) by (metis IntI empty_iff image_eqI request_of_id(1))
  qed simp
  then show ?thesis
    using inv_move[OF inv k access_invD(1)[OF inv] _ order_refl _ own, of "[]"] by (simp add: set_phase_def)
qed

lemma fresh_id:
  assumes "queue_ok cl q"
  shows "Suc (qs_next_id q) \<notin> re_id ` (set (qs_waiting q) \<union> set (qs_active q))"
proof
  assume "Suc (qs_next_id q) \<in> re_id ` (set (qs_waiting q) \<union> set (qs_active q))"
  then obtain r where r: "r \<in> set (qs_active q) \<union> set (qs_waiting q)" "re_id r = Suc (qs_next_id q)"
    by (metis Un_commute imageE)
  have "re_id r \<le> qs_next_id q" using assms r(1) unfolding queue_ok_def by blast
  then show False using r(2) by simp
qed

lemma refused_inv:
  assumes inv: "access_inv cl s" and k: "k < length (ac_tasks s)" and ph: "ta_phase (ac_tasks s ! k) = Entering"
  shows "access_inv cl (set_phase k (Returned (Inl e)) s)"
proof -
  note ok = access_invD(2)[OF inv]
  define i where "i = Suc (qs_next_id (ac_queue s))"
  have fresh: "i \<notin> re_id ` (set (qs_waiting (ac_queue s)) \<union> set (qs_active (ac_queue s)))"
    unfolding i_def by (rule fresh_id[OF access_invD(1)[OF inv]])
  have "tasks_ok (ac_queue s) ((ac_tasks s)[k := (ac_tasks s ! k)\<lparr>ta_phase := Returned (Inl e)\<rparr>]) (ac_permits s @ [])"
    by (rule tasks_ok_move[OF ok k same_except_refl, of i]) (use fresh ph in \<open>auto simp: ticket_def\<close>)
  then show ?thesis
    using inv_move[OF inv k access_invD(1)[OF inv] _ order_refl, of _ "[]"] by (simp add: set_phase_def asleep_ok_def)
qed

lemma queued_inv:
  assumes inv: "access_inv cl s" and k: "k < length (ac_tasks s)" and ph: "ta_phase (ac_tasks s ! k) = Entering"
    and j: "join_queue cl (ta_project (ac_tasks s ! k)) (ta_mode (ac_tasks s ! k)) (ac_queue s) = Inr (i, q)"
  shows "access_inv cl (set_phase k (Looping i) (with_queue q s))"
proof -
  note ok = access_invD(2)[OF inv] and qok = access_invD(1)[OF inv] and qok' = join_queue_ok[OF access_invD(1)[OF inv] j]
  have q: "i = Suc (qs_next_id (ac_queue s))" "qs_active q = qs_active (ac_queue s)"
    "qs_waiting q = qs_waiting (ac_queue s) @ [request_of (ac_tasks s ! k) i]"
    using j by (auto elim!: join_queueE simp: request_of_def)
  have fresh: "i \<notin> re_id ` (set (qs_waiting (ac_queue s)) \<union> set (qs_active (ac_queue s)))"
    unfolding q(1) by (rule fresh_id[OF qok])
  have "tasks_ok q ((ac_tasks s)[k := (ac_tasks s ! k)\<lparr>ta_phase := Looping i\<rparr>]) (ac_permits s @ [])"
    by (rule tasks_ok_move[OF ok k, of i]) (use fresh ph in \<open>auto simp: q(2,3) ticket_def same_except_def\<close>)
  moreover have "blocked r q" if "r \<in> set (qs_waiting (ac_queue s))" "blocked r (ac_queue s)" for r
    using that blocked_iff[OF qok that(1)] blocked_iff[OF qok', of r] by (auto simp: q(2,3))
  then have "blocked (request_of (ac_tasks s ! l) m) q"
    if "l < length (ac_tasks s)" "ta_phase (ac_tasks s ! l) = Parked m False" "blocked (request_of (ac_tasks s ! l) m) (ac_queue s)" for l m
    using that tasks_okD(1)[OF ok that(1)] by simp
  ultimately show ?thesis
    using inv_move[OF inv k qok' _ order_refl, of _ "[]"] by (simp add: set_phase_def with_queue_def asleep_ok_def)
qed

lemma admitted_inv:
  assumes inv: "access_inv cl s" and k: "k < length (ac_tasks s)" and ph: "ta_phase (ac_tasks s ! k) = Checked i b"
    and a: "try_admit i (ac_queue s) = Inr (True, q)"
  shows "access_inv cl (set_phase k (Admitted i) (with_queue q s))"
proof (rule try_admitE[OF access_invD(1)[OF inv] a])
  fix r assume r: "re_id r = i" "r \<in> set (qs_waiting (ac_queue s))" and
    q: "q = ac_queue s\<lparr>qs_waiting := filter (\<lambda>w. re_id w \<noteq> i) (qs_waiting (ac_queue s)), qs_active := qs_active (ac_queue s) @ [r]\<rparr>"
  note ok = access_invD(2)[OF inv] and qok = access_invD(1)[OF inv] and qok' = try_admit_ok[OF access_invD(1)[OF inv] a]
  have i: "ticket (ac_tasks s ! k) = Some i" using ph by (simp add: ticket_def)
  have own: "request_of (ac_tasks s ! k) i \<in> set (qs_waiting (ac_queue s))" using tasks_okD(1)[OF ok k] ph by simp
  have uniq: "inj_on re_id (set (qs_waiting (ac_queue s)))"
    using qok by (auto simp: queue_ok_def strict_sorted_iff distinct_map)
  then have rk: "r = request_of (ac_tasks s ! k) i" using r own by (simp add: inj_onD)
  have act: "i \<notin> re_id ` set (qs_active (ac_queue s))" using qok r by (auto simp: queue_ok_def)
  have same: "same_except i (ac_queue s) q" using r(1) by (auto simp: same_except_def q)
  have "tasks_ok q ((ac_tasks s)[k := (ac_tasks s ! k)\<lparr>ta_phase := Admitted i\<rparr>]) (ac_permits s @ [])"
    by (rule tasks_ok_move[OF ok k same disjI1[OF i]]) (use act rk in \<open>auto simp: q\<close>)
  moreover have "blocked x q" if x: "x \<in> set (qs_waiting (ac_queue s))" "re_id x \<noteq> i" "blocked x (ac_queue s)" for x
  proof -
    have x': "x \<in> set (qs_waiting q)" using x(1,2) by (simp add: q)
    have "(\<exists>a\<in>set (qs_active (ac_queue s)). conflicts a x) \<or> (\<exists>w\<in>set (qs_waiting (ac_queue s)). re_id w < re_id x \<and> conflicts w x)"
      using blocked_iff[OF qok x(1)] x(3) by blast
    then show ?thesis using blocked_iff[OF qok' x'] uniq r by (fastforce simp: q dest: inj_onD)
  qed
  then have "blocked (request_of (ac_tasks s ! l) m) q"
    if "l < length (ac_tasks s)" "l \<noteq> k" "ta_phase (ac_tasks s ! l) = Parked m False" "blocked (request_of (ac_tasks s ! l) m) (ac_queue s)" for l m
    using that tasks_okD(1)[OF ok that(1)] others_apart(1)[OF ok k disjI1[OF i] that(1,2)] by (simp add: ticket_def)
  ultimately show ?thesis
    using inv_move[OF inv k qok' _ order_refl, of _ "[]"] by (simp add: set_phase_def with_queue_def asleep_ok_def)
qed

lemma same_except_drop: "same_except i q (drop_queued i q)" "same_except i q (drop_lease i q)"
  by (auto simp: same_except_def drop_queued_def drop_lease_def)

lemma leave_inv:
  assumes inv: "access_inv cl s" and k: "k < length (ac_tasks s)" and i: "ticket (ac_tasks s ! k) = Some i"
    and q: "q = drop_queued i (ac_queue s) \<and> waits_for (ta_phase (ac_tasks s ! k)) = Some i
      \<or> q = drop_lease i (ac_queue s) \<and> leases (ta_phase (ac_tasks s ! k)) = Some i"
  shows "access_inv cl (set_phase k (Returned (Inl e)) (leave_queue q s))"
proof -
  note ok = access_invD(2)[OF inv] and qok = access_invD(1)[OF inv]
  have disj: "re_id ` set (qs_active (ac_queue s)) \<inter> re_id ` set (qs_waiting (ac_queue s)) = {}" using qok by (simp add: queue_ok_def)
  have qok': "queue_ok cl q" and same: "same_except i (ac_queue s) q"
    using q qok same_except_drop drop_queued_ok drop_lease_ok by blast+
  have gone: "w \<in> set (qs_waiting q) \<union> set (qs_active q) \<Longrightarrow> re_id w \<noteq> i" for w
    using q
  proof
    assume c: "q = drop_queued i (ac_queue s) \<and> waits_for (ta_phase (ac_tasks s ! k)) = Some i"
    then have "request_of (ac_tasks s ! k) i \<in> set (qs_waiting (ac_queue s))" using tasks_okD(1)[OF ok k] by blast
    then have "i \<notin> re_id ` set (qs_active (ac_queue s))" using disj by (metis IntI empty_iff image_eqI request_of_id(1))
    then show "w \<in> set (qs_waiting q) \<union> set (qs_active q) \<Longrightarrow> re_id w \<noteq> i" using c by (auto simp: drop_queued_def)
  next
    assume c: "q = drop_lease i (ac_queue s) \<and> leases (ta_phase (ac_tasks s ! k)) = Some i"
    then have "request_of (ac_tasks s ! k) i \<in> set (qs_active (ac_queue s))" using tasks_okD(2)[OF ok k] by blast
    then have "i \<notin> re_id ` set (qs_waiting (ac_queue s))" using disj by (metis IntI empty_iff image_eqI request_of_id(1))
    then show "w \<in> set (qs_waiting q) \<union> set (qs_active q) \<Longrightarrow> re_id w \<noteq> i" using c by (auto simp: drop_lease_def)
  qed
  have "tasks_ok q ((ac_tasks s)[k := (ac_tasks s ! k)\<lparr>ta_phase := Returned (Inl e)\<rparr>]) (ac_permits s @ [])"
    by (rule tasks_ok_move[OF ok k same disjI1[OF i]]) (use gone in auto)
  then show ?thesis
    using inv_move[OF inv k qok', of _ "[]" "ac_notifies s + 1"] by (simp add: set_phase_def leave_queue_def asleep_ok_def)
qed

lemma granted_inv:
  assumes inv: "access_inv cl s" and k: "k < length (ac_tasks s)" and ph: "ta_phase (ac_tasks s ! k) = Confirmed i held"
    and v: "v = \<lparr>wp_lease = i, wp_owner = ta_owner (ac_tasks s ! k), wp_project = ta_project (ac_tasks s ! k), wp_mode = ta_mode (ac_tasks s ! k)\<rparr>"
  shows "access_inv cl (set_phase k (Returned (Inr i)) (s\<lparr>ac_permits := ac_permits s @ [v]\<rparr>))"
proof -
  note ok = access_invD(2)[OF inv] and qok = access_invD(1)[OF inv]
  have i: "ticket (ac_tasks s ! k) = Some i" using ph by (simp add: ticket_def)
  have act: "request_of (ac_tasks s ! k) i \<in> set (qs_active (ac_queue s))" using tasks_okD(2)[OF ok k] ph by simp
  have "re_id w \<noteq> i" if "w \<in> set (qs_waiting (ac_queue s))" for w
    using qok act that unfolding queue_ok_def by (metis IntI empty_iff image_eqI request_of_id(1))
  moreover have "permit_ok (ac_queue s) v" using act unfolding permit_ok_def v request_of_def by force
  ultimately have "tasks_ok (ac_queue s) ((ac_tasks s)[k := (ac_tasks s ! k)\<lparr>ta_phase := Returned (Inr i)\<rparr>]) (ac_permits s @ [v])"
    by (intro tasks_ok_move[OF ok k same_except_refl disjI1[OF i]]) (auto simp: v)
  then show ?thesis
    using inv_move[OF inv k qok, of _ "[v]", OF _ order_refl] access_invD(3)[OF inv k]
    by (simp add: set_phase_def asleep_ok_def v)
qed

lemma tasks_ok_permits:
  assumes "tasks_ok q ts ws" "\<And>v. v \<in> set ws' \<Longrightarrow> permit_ok q v \<and> wp_lease v \<in> wp_lease ` set ws"
    "wp_lease ` set ws \<subseteq> wp_lease ` set ws'"
  shows "tasks_ok q ts ws'"
proof -
  have "ticket (ts ! k) \<noteq> Some (wp_lease v)" if v: "v \<in> set ws'" and k: "k < length ts" for v k
  proof -
    obtain u where "u \<in> set ws" "wp_lease v = wp_lease u" using assms(2)[OF v] by blast
    then show ?thesis using assms(1) k unfolding tasks_ok_def by simp
  qed
  moreover have "(\<exists>k<length ts. leases (ta_phase (ts ! k)) = Some (re_id a)) \<or> (\<exists>v\<in>set ws'. wp_lease v = re_id a)"
    if "a \<in> set (qs_active q)" for a
    using tasks_okD(5)[OF assms(1) that] assms(3) by (metis image_iff subsetD)
  ultimately show ?thesis using assms(1,2) by (simp add: tasks_ok_def)
qed

text \<open>A borrow on the way is good for the lease it shares with a permit.\<close>

definition borrows_ok :: "access_state \<Rightarrow> bool" where
  "borrows_ok s \<longleftrightarrow>
     (\<forall>v\<in>set (ac_borrows s). permit_ok (ac_queue s) v \<and> wp_lease v \<in> wp_lease ` set (ac_permits s) \<and> wp_owner v < length (ac_owners s))"

lemma borrow_nestedE:
  assumes "borrow_nested h now o1 h' now' o2 w m a = Inr v"
  obtains "v = w\<lparr>wp_mode := m\<rparr>" "wp_mode w = AccessRead \<longrightarrow> m = AccessRead" "\<not> ow_revoked o1" "\<not> ow_revoked o2"
  using assms
  by (cases m; auto simp: borrow_nested_def check_dispatch_def dispatch_end_def dispatch_answer_def owner_ready_def owner_check_def
      split: if_splits hold_answer.splits sum.splits)

lemma borrow_checked_ok:
  assumes inv: "access_inv cl s" and b: "borrows_ok s" and w: "w \<in> set (ac_permits s)"
    and c: "borrow_nested h now o1 h' now' o2 w m a = Inr v"
  shows "borrows_ok (s\<lparr>ac_borrows := ac_borrows s @ [v]\<rparr>)"
  using c
proof (rule borrow_nestedE)
  assume v: "v = w\<lparr>wp_mode := m\<rparr>" "wp_mode w = AccessRead \<longrightarrow> m = AccessRead"
  have "permit_ok (ac_queue s) w" by (rule tasks_okD(3)[OF access_invD(2)[OF inv] w])
  then have "permit_ok (ac_queue s) v" using v(2) unfolding permit_ok_def v(1) by (cases "wp_mode w"; cases m) auto
  then show ?thesis using b w access_invD(5)[OF inv w] by (auto simp: borrows_ok_def v(1))
qed

lemma borrowed_inv:
  assumes inv: "access_inv cl s" and v: "permit_ok (ac_queue s) v" "wp_lease v \<in> wp_lease ` set (ac_permits s)" "wp_owner v < length (ac_owners s)"
  shows "access_inv cl (s\<lparr>ac_permits := ac_permits s @ [v], ac_borrows := bs\<rparr>)"
proof -
  have "tasks_ok (ac_queue s) (ac_tasks s) (ac_permits s @ [v])"
    using v tasks_okD(3)[OF access_invD(2)[OF inv]] by (intro tasks_ok_permits[OF access_invD(2)[OF inv]]) auto
  then show ?thesis using inv v(3) by (auto simp: access_inv_def)
qed

lemma tasks_ok_last:
  assumes ok: "tasks_ok q ts ws" and w: "w \<in> set ws" and rest: "set ws' \<subseteq> set ws" "set ws \<subseteq> insert w (set ws')"
    and last: "\<And>v. v \<in> set ws' \<Longrightarrow> wp_lease v \<noteq> wp_lease w" and qok: "queue_ok cl q"
  shows "tasks_ok (drop_lease (wp_lease w) q) ts ws'"
proof -
  let ?i = "wp_lease w" and ?q = "drop_lease (wp_lease w) q"
  have apart: "\<forall>k<length ts. ticket (ts ! k) \<noteq> Some ?i" using ok w by (simp add: tasks_ok_def)
  have q: "qs_waiting ?q = qs_waiting q" "set (qs_active ?q) = {a \<in> set (qs_active q). re_id a \<noteq> ?i}"
    by (auto simp: drop_lease_def)
  have c2: "request_of (ts ! k) j \<in> set (qs_active ?q)" if "k < length ts" "leases (ta_phase (ts ! k)) = Some j" for k j
    using tasks_okD(2)[OF ok that] that apart by (auto simp: q(2) ticket_cases)
  have c4: "permit_ok ?q v" if "v \<in> set ws'" for v
    using permit_ok_except[OF tasks_okD(3)[OF ok] same_except_drop(2) last[OF that]] that rest(1) by blast
  have c6: "(\<exists>k<length ts. leases (ta_phase (ts ! k)) = Some (re_id a)) \<or> (\<exists>v\<in>set ws'. wp_lease v = re_id a)"
    if "a \<in> set (qs_active ?q)" for a
  proof -
    have "a \<in> set (qs_active q)" "re_id a \<noteq> ?i" using that by (simp_all add: q(2))
    then show ?thesis using tasks_okD(5)[OF ok] rest(2) by (metis insert_iff subsetD)
  qed
  have c5: "ticket (ts ! k) \<noteq> Some (wp_lease v)" if "v \<in> set ws'" "k < length ts" for v k
    using ok that rest(1) unfolding tasks_ok_def by (metis subsetD)
  show ?thesis using ok c2 c4 c5 c6 by (simp add: tasks_ok_def q(1))
qed

lemma released_inv:
  assumes inv: "access_inv cl s" and k: "k < length (ac_permits s)"
  shows "access_inv cl (drop_permit k s)"
proof -
  define w where "w = ac_permits s ! k"
  define rest where "rest = without_nth k (ac_permits s)"
  have w: "w \<in> set (ac_permits s)" using k by (simp add: w_def)
  have ps: "ac_permits s = take k (ac_permits s) @ w # drop (Suc k) (ac_permits s)" using id_take_nth_drop[OF k] by (simp add: w_def)
  have "set (ac_permits s) = insert w (set rest)" by (subst ps) (auto simp: rest_def without_nth_def)
  then have rest: "set rest \<subseteq> set (ac_permits s)" "set (ac_permits s) \<subseteq> insert w (set rest)" by auto
  note ok = access_invD(2)[OF inv] and qok = access_invD(1)[OF inv]
  have owners: "\<forall>v\<in>set rest. wp_owner v < length (ac_owners s)" using access_invD(5)[OF inv] rest(1) by blast
  show ?thesis
  proof (cases "list_ex (\<lambda>v. wp_lease v = wp_lease w) rest")
    case True
    then obtain v where "v \<in> set rest" "wp_lease v = wp_lease w" by (auto simp: list_ex_iff)
    then have "wp_lease w \<in> wp_lease ` set rest" using imageI[of v "set rest" wp_lease] by simp
    then have "wp_lease ` set (ac_permits s) \<subseteq> wp_lease ` set rest" using rest(2) by blast
    then have "tasks_ok (ac_queue s) (ac_tasks s) rest"
      using rest(1) tasks_okD(3)[OF ok] by (intro tasks_ok_permits[OF ok]) auto
    then show ?thesis using True inv owners by (simp add: drop_permit_def Let_def access_inv_def flip: w_def rest_def)
  next
    case False
    then have "tasks_ok (drop_lease (wp_lease w) (ac_queue s)) (ac_tasks s) rest"
      using rest by (intro tasks_ok_last[OF ok w _ _ _ qok]) (auto simp: list_ex_iff)
    then show ?thesis using False inv owners drop_lease_ok[OF qok]
      by (simp add: drop_permit_def Let_def access_inv_def asleep_ok_def flip: w_def rest_def)
  qed
qed

lemma wake_ticket [simp]:
  "waits_for (wake_phase ph) = waits_for ph" "leases (wake_phase ph) = leases ph"
  "ticket (t\<lparr>ta_phase := wake_phase (ta_phase t)\<rparr>) = ticket t"
  by (cases ph; simp)+ (cases "ta_phase t"; simp add: ticket_def)

lemma wake_asleep: "asleep_ok n q os (t\<lparr>ta_phase := wake_phase (ta_phase t)\<rparr>)"
  by (cases "ta_phase t") (simp_all add: asleep_ok_def)

lemma tasks_ok_wake: "tasks_ok q (map (\<lambda>t. t\<lparr>ta_phase := wake_phase (ta_phase t)\<rparr>) ts) ws \<longleftrightarrow> tasks_ok q ts ws"
  by (simp add: tasks_ok_def cong: conj_cong)

lemma notified_inv: "access_inv cl s \<Longrightarrow> access_inv cl (notify_waiters s)"
  by (auto simp: access_inv_def notify_waiters_def tasks_ok_wake wake_asleep)

lemma revoked_inv: "access_inv cl s \<Longrightarrow> access_inv cl (revoke_owner o' s)"
  by (auto simp: access_inv_def revoke_owner_def asleep_ok_def)

lemma owner_made_inv: "access_inv cl s \<Longrightarrow> access_inv cl (s\<lparr>ac_owners := ac_owners s @ [o']\<rparr>)"
  by (auto simp: access_inv_def nth_append intro: less_SucI elim!: asleep_mono)

lemma called_inv:
  assumes inv: "access_inv cl s" and t: "ta_phase t = Entering" "ta_owner t < length (ac_owners s)"
  shows "access_inv cl (s\<lparr>ac_tasks := ac_tasks s @ [t]\<rparr>)"
proof -
  note ok = access_invD(2)[OF inv]
  let ?ts = "ac_tasks s @ [t]"
  have idle: "waits_for (ta_phase t) = None" "leases (ta_phase t) = None" "ticket t = None" using t(1) by (simp_all add: ticket_def)
  have "tasks_ok (ac_queue s) ?ts (ac_permits s)"
    using ok idle unfolding tasks_ok_def by (auto simp: nth_append less_Suc_eq)
  then show ?thesis using inv t by (auto simp: access_inv_def asleep_ok_def)
qed

lemma parked_inv:
  assumes inv: "access_inv cl s" and k: "k < length (ac_tasks s)" and ph: "ta_phase (ac_tasks s ! k) = Checked i b"
    and a: "try_admit i (ac_queue s) = Inr (False, q)"
  shows "access_inv cl (set_phase k (Parked i b) (with_queue q s))"
proof -
  note ok = access_invD(2)[OF inv] and qok = access_invD(1)[OF inv]
  obtain r rest where d: "dropWhile (\<lambda>w. re_id w \<noteq> i) (qs_waiting (ac_queue s)) = r # rest" "blocked r (ac_queue s)" "q = ac_queue s"
    using a by (auto simp: try_admit_def split: list.splits if_splits)
  have "re_id r = i" "r \<in> set (qs_waiting (ac_queue s))" using sorted_split[OF _ d(1)] qok by (auto simp: queue_ok_def)
  moreover have "request_of (ac_tasks s ! k) i \<in> set (qs_waiting (ac_queue s))" using tasks_okD(1)[OF ok k] ph by simp
  moreover have "inj_on re_id (set (qs_waiting (ac_queue s)))" using qok by (auto simp: queue_ok_def strict_sorted_iff distinct_map)
  ultimately have r: "r = request_of (ac_tasks s ! k) i" by (simp add: inj_onD)
  have "asleep_ok (ac_notifies s) (ac_queue s) (ac_owners s) ((ac_tasks s ! k)\<lparr>ta_phase := Parked i b\<rparr>)"
    using access_invD(4)[OF inv k] ph d(2) r by (cases b) (auto simp: asleep_ok_def)
  then show ?thesis
    using stay_inv[OF inv k, of "Parked i b"] ph by (simp add: with_queue_def d(3) ticket_def)
qed

lemma owner_ready_valid: "owner_ready h now o' p = Inr () \<Longrightarrow> \<not> ow_revoked o'"
  by (auto simp: owner_ready_def owner_check_def split: if_splits)

lemma without_nth_set: "k < length xs \<Longrightarrow> set xs = insert (xs ! k) (set (without_nth k xs))"
  by (subst id_take_nth_drop[of k xs]) (auto simp: without_nth_def)

lemma borrows_ok_same:
  assumes "borrows_ok s" "same_except i (ac_queue s) (ac_queue s')" "\<And>v. v \<in> set (ac_permits s) \<Longrightarrow> wp_lease v \<noteq> i"
    "set (ac_permits s) \<subseteq> set (ac_permits s')" "set (ac_borrows s') \<subseteq> set (ac_borrows s)" "length (ac_owners s) \<le> length (ac_owners s')"
  shows "borrows_ok s'"
  unfolding borrows_ok_def
proof (intro ballI conjI)
  fix v assume "v \<in> set (ac_borrows s')"
  then have v: "permit_ok (ac_queue s) v" "wp_lease v \<in> wp_lease ` set (ac_permits s)" "wp_owner v < length (ac_owners s)"
    using assms(1,5) by (auto simp: borrows_ok_def)
  then have "wp_lease v \<noteq> i" using assms(3) by (metis imageE)
  then show "permit_ok (ac_queue s') v" by (rule permit_ok_except[OF v(1) assms(2)])
  show "wp_lease v \<in> wp_lease ` set (ac_permits s')" "wp_owner v < length (ac_owners s')" using v(2,3) assms(4,6) by auto
qed

lemma task_borrows_ok:
  assumes inv: "access_inv cl s" "borrows_ok s" and k: "k < length (ac_tasks s)"
    and own: "ticket (ac_tasks s ! k) = Some i \<or>
      ticket (ac_tasks s ! k) = None \<and> i \<notin> re_id ` (set (qs_waiting (ac_queue s)) \<union> set (qs_active (ac_queue s)))"
    and q: "same_except i (ac_queue s) q"
  shows "borrows_ok (set_phase k ph (with_queue q s))" "borrows_ok (set_phase k ph (leave_queue q s))"
proof -
  note apart = others_apart(2)[OF access_invD(2)[OF inv(1)] k own]
  show "borrows_ok (set_phase k ph (with_queue q s))" "borrows_ok (set_phase k ph (leave_queue q s))"
    by (rule borrows_ok_same[OF inv(2) _ apart]; simp add: q)+
qed

lemma set_phase_borrows [simp]: "borrows_ok (set_phase k ph s) \<longleftrightarrow> borrows_ok s"
  by (simp add: borrows_ok_def)

lemma released_borrows_ok:
  assumes b: "borrows_ok s" and k: "k < length (ac_permits s)"
    and live: "list_all (\<lambda>v. list_ex (\<lambda>w. wp_lease w = wp_lease v) (without_nth k (ac_permits s))) (ac_borrows s)"
  shows "borrows_ok (drop_permit k s)"
  unfolding borrows_ok_def
proof
  let ?w = "ac_permits s ! k" and ?rest = "without_nth k (ac_permits s)"
  fix v assume "v \<in> set (ac_borrows (drop_permit k s))"
  then have "v \<in> set (ac_borrows s)" by (simp add: drop_permit_def Let_def split: if_splits)
  then have v: "permit_ok (ac_queue s) v" "wp_owner v < length (ac_owners s)" "wp_lease v \<in> wp_lease ` set ?rest"
    using b live by (force simp: borrows_ok_def list_all_iff list_ex_iff)+
  have "permit_ok (ac_queue (drop_permit k s)) v"
  proof (cases "list_ex (\<lambda>u. wp_lease u = wp_lease ?w) ?rest")
    case False
    then have "wp_lease v \<noteq> wp_lease ?w" using v(3) by (auto simp: list_ex_iff)
    then show ?thesis using False permit_ok_except[OF v(1) same_except_drop(2)] by (simp add: drop_permit_def Let_def)
  qed (simp add: drop_permit_def Let_def v(1))
  moreover have "set (ac_permits (drop_permit k s)) = set ?rest" "ac_owners (drop_permit k s) = ac_owners s"
    by (simp_all add: drop_permit_def Let_def)
  ultimately show "permit_ok (ac_queue (drop_permit k s)) v \<and> wp_lease v \<in> wp_lease ` set (ac_permits (drop_permit k s))
      \<and> wp_owner v < length (ac_owners (drop_permit k s))" using v(2,3) by simp
qed

lemma access_step_inv: "access_step cl self s s' \<Longrightarrow> access_inv cl s \<and> borrows_ok s \<Longrightarrow> access_inv cl s'"
proof (induction rule: access_step.induct)
  case (registered k s i)
  then show ?case by (intro stay_inv[where i = i]) (auto simp: ticket_def asleep_ok_def)
next
  case (passed k s t i b h now)
  then show ?case using owner_ready_valid[OF passed(4)]
    by (intro stay_inv[where i = i]) (auto simp: ticket_def asleep_ok_def split: bool.splits)
next
  case (woken k s i)
  then show ?case by (intro stay_inv[where i = i]) (auto simp: ticket_def asleep_ok_def)
next
  case (dispatched k s t i h now)
  then show ?case by (intro stay_inv[where i = i]) (auto simp: ticket_def asleep_ok_def)
next
  case (confirmed k s t i now a held)
  then show ?case by (intro stay_inv[where i = i]) (auto simp: ticket_def asleep_ok_def)
next
  case (borrow_checked k s)
  then show ?case by (simp add: access_inv_def)
next
  case (borrowed j s)
  then show ?case by (intro borrowed_inv) (auto simp: borrows_ok_def)
qed (auto simp: ticket_def
    intro: owner_made_inv revoked_inv called_inv queued_inv refused_inv leave_inv admitted_inv parked_inv granted_inv
      released_inv notified_inv)

lemma same_except_join:
  assumes "queue_ok cl q" "join_queue cl p m q = Inr (i, q')"
  shows "same_except i q q'" "i \<notin> re_id ` (set (qs_waiting q) \<union> set (qs_active q))"
proof -
  have "i = Suc (qs_next_id q)" using assms(2) by (auto elim!: join_queueE)
  then show "i \<notin> re_id ` (set (qs_waiting q) \<union> set (qs_active q))" using fresh_id[OF assms(1)] by simp
  show "same_except i q q'" using assms(2) by (auto elim!: join_queueE simp: same_except_def)
qed

lemma same_except_admit: "queue_ok cl q \<Longrightarrow> try_admit i q = Inr (b, q') \<Longrightarrow> same_except i q q'"
proof (cases b)
  case True
  moreover assume "queue_ok cl q" "try_admit i q = Inr (b, q')"
  ultimately show ?thesis by (auto elim!: try_admitE simp: same_except_def)
qed (auto simp: try_admit_def split: list.splits if_splits)

lemma access_step_borrows: "access_step cl self s s' \<Longrightarrow> access_inv cl s \<and> borrows_ok s \<Longrightarrow> borrows_ok s'"
proof (induction rule: access_step.induct)
  case (queued k s t i q)
  then show ?case using same_except_join[OF access_invD(1) queued(4)]
    by (intro task_borrows_ok(1)[where i = i]) (auto simp: ticket_def)
next
  case (admitted k s i b q)
  then show ?case using same_except_admit[OF access_invD(1) admitted(3)] by (intro task_borrows_ok(1)[where i = i]) (auto simp: ticket_def)
next
  case (parked k s i b q)
  then show ?case using same_except_admit[OF access_invD(1) parked(3)] by (intro task_borrows_ok(1)[where i = i]) (auto simp: ticket_def)
next
  case (borrow_checked k s w)
  then show ?case using borrow_checked_ok nth_mem by blast
next
  case (borrowed j s)
  then show ?case using without_nth_set[of j "ac_borrows s"] by (auto simp: borrows_ok_def)
next
  case (released k s)
  then show ?case by (simp add: released_borrows_ok)
next
  case (failed k s t i)
  then show ?case by (intro task_borrows_ok(2)[where i = i] same_except_drop) (auto simp: ticket_def)
next
  case (lost k s i)
  then show ?case by (intro task_borrows_ok(2)[where i = i] same_except_drop) (auto simp: ticket_def)
next
  case (timed_out k s t i)
  then show ?case by (intro task_borrows_ok(2)[where i = i] same_except_drop) (auto simp: ticket_def)
next
  case (undispatched k s t i)
  then show ?case by (intro task_borrows_ok(2)[where i = i] same_except_drop) (auto simp: ticket_def)
next
  case (unanswered k s t i)
  then show ?case by (intro task_borrows_ok(2)[where i = i] same_except_drop) (auto simp: ticket_def)
next
  case (abandoned k s t i)
  then show ?case by (intro task_borrows_ok(2)[where i = i] same_except_drop) (auto simp: ticket_def)
next
  case (undispatchable k s t i)
  then show ?case by (intro task_borrows_ok(2)[where i = i] same_except_drop) (auto simp: ticket_def)
qed (auto simp: borrows_ok_def revoke_owner_def notify_waiters_def intro: less_SucI)

definition access_init :: "coordinator_limits \<Rightarrow> access_state \<Rightarrow> bool" where
  "access_init cl s \<longleftrightarrow>
     (\<exists>h now. new_coordinator h cl now = Inr (ac_queue s)) \<and> ac_tasks s = [] \<and> ac_permits s = [] \<and> ac_borrows s = []"

interpretation access: guarded_system "access_init cl" "access_step cl self" "\<lambda>s. access_inv cl s \<and> borrows_ok s" for cl self
proof
  show "access_inv cl s \<and> borrows_ok s" if "access_init cl s" for s
  proof -
    have "ac_queue s = \<lparr>qs_next_id = 0, qs_waiting = [], qs_active = []\<rparr>"
      using that by (auto simp: access_init_def new_coordinator_def split: if_splits)
    then show ?thesis
      using that by (simp add: access_init_def access_inv_def borrows_ok_def queue_ok_def tasks_ok_def alias_free_def)
  qed
qed (blast intro: access_step_inv access_step_borrows)

lemma access_reachable: "reachable_from (access_init cl) (access_step cl self) s \<Longrightarrow> access_inv cl s"
  using access.reachable_inv by blast

end
