(* ===== verification/Workspace_Coordinator_Properties.thy ===== *)
theory Workspace_Coordinator_Properties
  imports Workspace_Coordinator_Invariant
begin

text \<open>
  What the coordinator guarantees on every interleaving of its tasks: no two leases conflict, requests that conflict are
  admitted in the order in which they came, no notification is lost, nothing is leaked, and a revoked
  owner gets nothing beyond what was already under way.
\<close>

section \<open>Guarantees\<close>

lemma alias_free_same:
  assumes "reject_alias_collision k l = Inr ()" "pk_uid k = pk_uid l" "same_inode k l"
  shows "pk_canonical_path k = pk_canonical_path l"
  using assms by (auto simp: reject_alias_collision_def split: if_splits)

text \<open>
  C13: access is exclusive. Two permits of different leases for the same project of the same user, whether they name it
  by the same path or reach the same inode by different paths, are both for reading.
\<close>

theorem coordinator_excludes_writers:
  assumes "reachable_from (access_init cl) (access_step cl self) s"
    and "v \<in> set (ac_permits s)" and "w \<in> set (ac_permits s)" and "wp_lease v \<noteq> wp_lease w"
    and "pk_uid (wp_project v) = pk_uid (wp_project w)"
    and "pk_canonical_path (wp_project v) = pk_canonical_path (wp_project w) \<or> same_inode (wp_project v) (wp_project w)"
  shows "wp_mode v = AccessRead \<and> wp_mode w = AccessRead"
proof -
  have inv: "access_inv cl s" by (rule access_reachable[OF assms(1)])
  note qok = access_invD(1)[OF inv] and ok = access_invD(2)[OF inv]
  obtain a where a: "a \<in> set (qs_active (ac_queue s))" "re_id a = wp_lease v" "re_project a = wp_project v"
      "wp_mode v = AccessMutate \<longrightarrow> re_mode a = AccessMutate"
    using tasks_okD(3)[OF ok assms(2)] by (auto simp: permit_ok_def)
  obtain b where b: "b \<in> set (qs_active (ac_queue s))" "re_id b = wp_lease w" "re_project b = wp_project w"
      "wp_mode w = AccessMutate \<longrightarrow> re_mode b = AccessMutate"
    using tasks_okD(3)[OF ok assms(3)] by (auto simp: permit_ok_def)
  have "reject_alias_collision (wp_project v) (wp_project w) = Inr ()"
    using qok a(1,3) b(1,3) unfolding queue_ok_def alias_free_def set_append by (metis Un_iff)
  then have path: "pk_canonical_path (wp_project v) = pk_canonical_path (wp_project w)"
    using assms(5,6) alias_free_same by blast
  have "\<not> conflicts a b" using qok a(1,2) b(1,2) assms(4) unfolding queue_ok_def by metis
  then have "re_mode a \<noteq> AccessMutate" "re_mode b \<noteq> AccessMutate" using a(3) b(3) path assms(5) by (auto simp: conflicts_def)
  then show ?thesis using a(4) b(4) access_mode.exhaust by metis
qed

text \<open>Requests enter the queue with new identifiers only.\<close>

definition newcomers :: "queue_state \<Rightarrow> queue_state \<Rightarrow> bool" where
  "newcomers q q' \<longleftrightarrow> qs_next_id q \<le> qs_next_id q' \<and>
     (\<forall>r\<in>set (qs_active q') \<union> set (qs_waiting q'). r \<in> set (qs_active q) \<union> set (qs_waiting q) \<or> qs_next_id q < re_id r)"

lemma newcomers_trans: "newcomers a b \<Longrightarrow> newcomers b c \<Longrightarrow> newcomers a c"
  unfolding newcomers_def by (meson le_less_trans order_trans)

lemma newcomers_drop: "newcomers q q" "newcomers q (drop_queued i q)" "newcomers q (drop_lease i q)"
  by (auto simp: newcomers_def drop_queued_def drop_lease_def)

lemma newcomers_join: "join_queue cl p m q = Inr (i, q') \<Longrightarrow> newcomers q q'"
  by (elim join_queueE) (auto simp: newcomers_def)

lemma newcomers_admit:
  assumes "try_admit i q = Inr (b, q')"
  shows "newcomers q q'"
proof (cases "dropWhile (\<lambda>r. re_id r \<noteq> i) (qs_waiting q)")
  case (Cons r behind)
  have parts: "set (ahead i q @ r # behind) \<subseteq> set (qs_waiting q)" unfolding ahead_def Cons[symmetric] by simp
  show ?thesis
  proof (cases "blocked r q")
    case True
    then show ?thesis using assms Cons by (simp add: try_admit_def newcomers_drop(1))
  next
    case False
    then have "q' = q\<lparr>qs_waiting := ahead i q @ behind, qs_active := filter (\<lambda>a. re_id a \<noteq> i) (qs_active q) @ [r]\<rparr>"
      using assms Cons by (simp add: try_admit_def)
    then show ?thesis using parts by (auto simp: newcomers_def)
  qed
next
  case Nil
  then show ?thesis using assms unfolding try_admit_def Nil by simp
qed

lemma access_step_newcomers: "access_step cl self s s' \<Longrightarrow> newcomers (ac_queue s) (ac_queue s')"
  by (induction rule: access_step.induct)
    (auto simp: newcomers_drop revoke_owner_def drop_permit_def notify_waiters_def Let_def intro: newcomers_join newcomers_admit)

lemma access_run_newcomers: "(access_step cl self)\<^sup>*\<^sup>* s s' \<Longrightarrow> newcomers (ac_queue s) (ac_queue s')"
  by (induction rule: rtranclp_induct) (auto intro: newcomers_drop(1) newcomers_trans access_step_newcomers)

text \<open>
  C15: nobody overtakes. While a request waits, no request that came after it and conflicts with it becomes active, on
  any interleaving of the tasks.
\<close>

theorem coordinator_is_fifo:
  assumes "reachable_from (access_init cl) (access_step cl self) s" and "(access_step cl self)\<^sup>*\<^sup>* s s'"
    and "w \<in> set (qs_waiting (ac_queue s))" and "w \<in> set (qs_waiting (ac_queue s'))"
    and "a \<notin> set (qs_waiting (ac_queue s)) \<union> set (qs_active (ac_queue s))" and "conflicts a w"
  shows "a \<notin> set (qs_active (ac_queue s'))"
proof
  assume a: "a \<in> set (qs_active (ac_queue s'))"
  have inv: "access_inv cl s" by (rule access_reachable[OF assms(1)])
  have inv': "access_inv cl s'" using access.run_inv[OF access.reachable_inv[OF assms(1)] assms(2)] by blast
  have "re_id a < re_id w" using access_invD(1)[OF inv'] a assms(4,6) unfolding queue_ok_def by blast
  moreover have "re_id w \<le> qs_next_id (ac_queue s)" using access_invD(1)[OF inv] assms(3) unfolding queue_ok_def by blast
  moreover have "qs_next_id (ac_queue s) < re_id a"
    using access_run_newcomers[OF assms(2)] a assms(5) unfolding newcomers_def by blast
  ultimately show False by simp
qed

lemma blocker_older:
  assumes "queue_ok cl q" "r \<in> set (qs_waiting q)" "blocked r q"
  shows "\<exists>b\<in>set (qs_active q) \<union> set (qs_waiting q). conflicts b r \<and> re_id b < re_id r"
  using assms blocked_iff[OF assms(1,2)] unfolding queue_ok_def by blast

text \<open>
  C14: no notification is lost. When no notification is due, a task that sleeps has an owner that was not revoked and
  is blocked by an older request that conflicts with it; and when moreover no lease is active, the task of the
  first request in the queue is awake, so the queue cannot stall.
\<close>

theorem coordinator_loses_no_wakeup:
  assumes "reachable_from (access_init cl) (access_step cl self) s" and "ac_notifies s = 0"
  shows "(\<forall>k<length (ac_tasks s). \<forall>i. ta_phase (ac_tasks s ! k) = Parked i False \<longrightarrow>
      \<not> ow_revoked (ac_owners s ! ta_owner (ac_tasks s ! k)) \<and>
      (\<exists>b\<in>set (qs_active (ac_queue s)) \<union> set (qs_waiting (ac_queue s)).
         conflicts b (request_of (ac_tasks s ! k) i) \<and> re_id b < i))
    \<and> (\<forall>w ws. qs_active (ac_queue s) = [] \<and> qs_waiting (ac_queue s) = w # ws \<longrightarrow>
      (\<exists>k<length (ac_tasks s). waits_for (ta_phase (ac_tasks s ! k)) = Some (re_id w)
         \<and> ta_phase (ac_tasks s ! k) \<noteq> Parked (re_id w) False))"
proof -
  have inv: "access_inv cl s" by (rule access_reachable[OF assms(1)])
  note qok = access_invD(1)[OF inv] and ok = access_invD(2)[OF inv]
  have one: "\<not> ow_revoked (ac_owners s ! ta_owner (ac_tasks s ! k)) \<and>
      (\<exists>b\<in>set (qs_active (ac_queue s)) \<union> set (qs_waiting (ac_queue s)).
         conflicts b (request_of (ac_tasks s ! k) i) \<and> re_id b < i)"
    if k: "k < length (ac_tasks s)" and ph: "ta_phase (ac_tasks s ! k) = Parked i False" for k i
  proof -
    have "blocked (request_of (ac_tasks s ! k) i) (ac_queue s)" "\<not> ow_revoked (ac_owners s ! ta_owner (ac_tasks s ! k))"
      using access_invD(4)[OF inv k] ph assms(2) by (auto simp: asleep_ok_def)
    moreover have "request_of (ac_tasks s ! k) i \<in> set (qs_waiting (ac_queue s))" using tasks_okD(1)[OF ok k] ph by simp
    ultimately show ?thesis using blocker_older[OF qok] by fastforce
  qed
  have two: "\<exists>k<length (ac_tasks s). waits_for (ta_phase (ac_tasks s ! k)) = Some (re_id w)
         \<and> ta_phase (ac_tasks s ! k) \<noteq> Parked (re_id w) False"
    if w: "qs_active (ac_queue s) = []" "qs_waiting (ac_queue s) = w # ws" for w ws
  proof -
    obtain k where k: "k < length (ac_tasks s)" "waits_for (ta_phase (ac_tasks s ! k)) = Some (re_id w)"
      using tasks_okD(4)[OF ok] w(2) by (metis list.set_intros(1))
    have "\<forall>b\<in>set (w # ws). \<not> re_id b < re_id w" using qok w(2) by (auto simp: queue_ok_def)
    then have "ta_phase (ac_tasks s ! k) \<noteq> Parked (re_id w) False" using one[OF k(1)] w by auto
    then show ?thesis using k by blast
  qed
  show ?thesis using one two by blast
qed

text \<open>When every call has returned and every permit is gone, nothing is left in the queue.\<close>

theorem coordinator_leaks_nothing:
  assumes "reachable_from (access_init cl) (access_step cl self) s"
    and "list_all (\<lambda>t. ticket t = None) (ac_tasks s)" and "ac_permits s = []"
  shows "qs_waiting (ac_queue s) = [] \<and> qs_active (ac_queue s) = []"
proof -
  have ok: "tasks_ok (ac_queue s) (ac_tasks s) (ac_permits s)" by (rule access_invD(2)[OF access_reachable[OF assms(1)]])
  have "ticket (ac_tasks s ! k) = None" if "k < length (ac_tasks s)" for k using assms(2) that by (simp add: list_all_length)
  then have "waits_for (ta_phase (ac_tasks s ! k)) = None \<and> leases (ta_phase (ac_tasks s ! k)) = None" if "k < length (ac_tasks s)" for k
    using that ticket_cases by (metis option.exhaust option.distinct(1))
  then have "w \<notin> set (qs_waiting (ac_queue s))" "w \<notin> set (qs_active (ac_queue s))" for w
    using tasks_okD(4,5)[OF ok, of w] assms(3) by auto
  then show ?thesis by (metis list.set_intros(1) neq_Nil_conv)
qed

text \<open>What an owner has, and what it is about to get because the last look at it is past.\<close>

fun past_check :: "task_phase \<Rightarrow> bool" where
  "past_check (Confirmed _ _) = True"
| "past_check _ = False"

definition permits_of :: "nat \<Rightarrow> access_state \<Rightarrow> permit list" where
  "permits_of i s = filter (\<lambda>v. wp_owner v = i) (ac_permits s)"

definition confirmed_of :: "nat \<Rightarrow> access_state \<Rightarrow> task list" where
  "confirmed_of i s = filter (\<lambda>t. ta_owner t = i \<and> past_check (ta_phase t)) (ac_tasks s)"

definition borrows_of :: "nat \<Rightarrow> access_state \<Rightarrow> permit list" where
  "borrows_of i s = filter (\<lambda>v. wp_owner v = i) (ac_borrows s)"

definition under_way :: "nat \<Rightarrow> access_state \<Rightarrow> nat" where
  "under_way i s = length (confirmed_of i s) + length (borrows_of i s)"

lemmas owned_defs = permits_of_def confirmed_of_def borrows_of_def under_way_def

lemma filter_update_length:
  assumes "k < length xs"
  shows "length (filter P (xs[k := y])) + of_bool (P (xs ! k)) = length (filter P xs) + of_bool (P y)"
proof -
  have "filter P xs = filter P (take k xs @ xs ! k # drop (Suc k) xs)" using id_take_nth_drop[OF assms] by simp
  then show ?thesis by (simp add: upd_conv_take_nth_drop[OF assms])
qed

lemma filter_without_length:
  assumes "k < length xs"
  shows "length (filter P (without_nth k xs)) + of_bool (P (xs ! k)) = length (filter P xs)"
proof -
  have "filter P xs = filter P (take k xs @ xs ! k # drop (Suc k) xs)" using id_take_nth_drop[OF assms] by simp
  then show ?thesis by (simp add: without_nth_def)
qed

lemma confirmed_of_move:
  assumes "k < length (ac_tasks s)"
  shows "length (confirmed_of i (set_phase k ph s))
      + of_bool (ta_owner (ac_tasks s ! k) = i \<and> past_check (ta_phase (ac_tasks s ! k)))
    = length (confirmed_of i s) + of_bool (ta_owner (ac_tasks s ! k) = i \<and> past_check ph)"
  using filter_update_length[OF assms, of "\<lambda>t. ta_owner t = i \<and> past_check (ta_phase t)" "(ac_tasks s ! k)\<lparr>ta_phase := ph\<rparr>"]
  by (simp add: confirmed_of_def)

lemma owned_frame [simp]:
  "confirmed_of i (with_queue q s) = confirmed_of i s" "confirmed_of i (leave_queue q s) = confirmed_of i s"
  "confirmed_of i (s\<lparr>ac_permits := ws\<rparr>) = confirmed_of i s"
  by (simp_all add: confirmed_of_def)

lemma past_check_wake [simp]: "past_check (wake_phase ph) = past_check ph"
  by (cases ph) simp_all

lemma revoked_answer: "ow_revoked o' \<Longrightarrow> dispatch_answer now o' a \<noteq> Inr held"
  by (auto simp: dispatch_answer_def owner_check_def split: hold_answer.splits sum.splits)

lemma revoked_refused: "ow_revoked o' \<Longrightarrow> owner_check now o' = Inl OwnerRevoked \<and> check_dispatch h now o' h' now' o2 p a = Inl OwnerRevoked"
  by (simp add: owner_check_def check_dispatch_def owner_ready_def)

lemma drop_permit_owned:
  assumes "k < length (ac_permits s)"
  shows "length (permits_of i (drop_permit k s)) \<le> length (permits_of i s)" "under_way i (drop_permit k s) = under_way i s"
    "ac_owners (drop_permit k s) = ac_owners s"
  using filter_without_length[OF assms, of "\<lambda>v. wp_owner v = i"] by (auto simp: drop_permit_def Let_def owned_defs)

lemma confirmed_of_le:
  assumes "k < length (ac_tasks s)" "ta_owner (ac_tasks s ! k) = i \<Longrightarrow> \<not> past_check ph"
  shows "length (confirmed_of i (set_phase k ph s)) \<le> length (confirmed_of i s)"
proof -
  have none: "of_bool (ta_owner (ac_tasks s ! k) = i \<and> past_check ph) = (0 :: nat)" using assms(2) by simp
  show ?thesis using confirmed_of_move[OF assms(1), of i ph] unfolding none by simp
qed

text \<open>Every step of a state whose owner is revoked: nothing more gets under way, and what is handed over was under way.\<close>

definition owner_shrinks :: "nat \<Rightarrow> access_state \<Rightarrow> access_state \<Rightarrow> bool" where
  "owner_shrinks i s s' \<longleftrightarrow>
     i < length (ac_owners s') \<and> ow_revoked (ac_owners s' ! i) \<and> under_way i s' \<le> under_way i s
     \<and> length (permits_of i s') + under_way i s' \<le> length (permits_of i s) + under_way i s"

lemma task_shrinks:
  assumes "k < length (ac_tasks s)" "i < length (ac_owners s)" "ow_revoked (ac_owners s ! i)"
    and "ta_owner (ac_tasks s ! k) = i \<Longrightarrow> \<not> past_check ph"
  shows "owner_shrinks i s (set_phase k ph s)" "owner_shrinks i s (set_phase k ph (with_queue q s))"
    "owner_shrinks i s (set_phase k ph (leave_queue q s))"
proof -
  have "length (confirmed_of i (set_phase k ph s)) \<le> length (confirmed_of i s)"
    "length (confirmed_of i (set_phase k ph (with_queue q s))) \<le> length (confirmed_of i s)"
    "length (confirmed_of i (set_phase k ph (leave_queue q s))) \<le> length (confirmed_of i s)"
    using assms(1,4) confirmed_of_le[of k s i ph] confirmed_of_le[of k "with_queue q s" i ph] confirmed_of_le[of k "leave_queue q s" i ph]
    by simp_all
  then show "owner_shrinks i s (set_phase k ph s)" "owner_shrinks i s (set_phase k ph (with_queue q s))"
    "owner_shrinks i s (set_phase k ph (leave_queue q s))"
    using assms(2,3) by (simp_all add: owner_shrinks_def under_way_def permits_of_def borrows_of_def)
qed

lemma access_step_revoked:
  "access_step cl self s s' \<Longrightarrow> i < length (ac_owners s) \<Longrightarrow> ow_revoked (ac_owners s ! i) \<Longrightarrow> owner_shrinks i s s'"
proof (induction rule: access_step.induct)
  case (confirmed k s t j now a held)
  then show ?case using revoked_answer by (intro task_shrinks) auto
next
  case (granted k s t j held h)
  then show ?case using confirmed_of_move[of k s i "Returned (Inr j)"]
      confirmed_of_move[of k "s\<lparr>ac_permits := ac_permits s @ [\<lparr>wp_lease = j, wp_owner = ta_owner t, wp_project = ta_project t, wp_mode = ta_mode t\<rparr>]\<rparr>" i "Returned (Inr j)"]
    by (auto simp: owner_shrinks_def under_way_def permits_of_def borrows_of_def)
next
  case (borrow_checked k s w h now o1 h' now' m a v)
  then have "wp_owner v \<noteq> i" by (auto elim!: borrow_nestedE)
  then show ?case using borrow_checked by (simp add: owner_shrinks_def owned_defs)
next
  case (borrowed j s)
  then show ?case using filter_without_length[of j "ac_borrows s" "\<lambda>v. wp_owner v = i"] by (auto simp: owner_shrinks_def owned_defs)
next
  case (released k s)
  then show ?case using drop_permit_owned(1,2)[of k s i] drop_permit_owned(3)[of k s] by (simp add: owner_shrinks_def)
next
  case (revoked o' s)
  then show ?case by (auto simp: owner_shrinks_def owned_defs revoke_owner_def nth_list_update)
next
  case (notified s)
  then show ?case by (simp add: owner_shrinks_def owned_defs notify_waiters_def filter_map comp_def)
next
  case (called o' s)
  then show ?case by (simp add: owner_shrinks_def owned_defs)
next
  case (owner_made s)
  then show ?case by (simp add: owner_shrinks_def owned_defs nth_append)
qed (auto intro!: task_shrinks)

lemma owner_shrinks_trans: "owner_shrinks i s s' \<Longrightarrow> owner_shrinks i s' s'' \<Longrightarrow> owner_shrinks i s s''"
  by (auto simp: owner_shrinks_def)

text \<open>
  C16: a revoked owner gets nothing more than what was under way. A call whose last look at the owner is past when the
  owner is revoked still gets its permit. No later call or borrow of it gets that far: on every continuation the number
  of its permits under way does not grow, each permit it gains is one of those, so that its permits and those under
  way together do not grow either, and whatever looks at the owner from then on is refused.
\<close>

theorem revoked_owner_gets_nothing:
  assumes "(access_step cl self)\<^sup>*\<^sup>* s s'" and "i < length (ac_owners s)" and "ow_revoked (ac_owners s ! i)"
  shows "length (confirmed_of i s') + length (borrows_of i s') \<le> length (confirmed_of i s) + length (borrows_of i s)
    \<and> length (permits_of i s') + length (confirmed_of i s') + length (borrows_of i s')
      \<le> length (permits_of i s) + length (confirmed_of i s) + length (borrows_of i s)
    \<and> (\<forall>h now h' now' o2 p a held. check_dispatch h now (ac_owners s' ! i) h' now' o2 p a = Inl OwnerRevoked
        \<and> dispatch_answer now (ac_owners s' ! i) a \<noteq> Inr held \<and> check_dispatch h now o2 h' now' (ac_owners s' ! i) p a \<noteq> Inr ())"
proof -
  have "owner_shrinks i s s'"
    using assms
  proof (induction rule: rtranclp_induct)
    case base
    then show ?case by (simp add: owner_shrinks_def)
  next
    case (step s' s'')
    then have "owner_shrinks i s s'" by blast
    moreover from this have "owner_shrinks i s' s''" using access_step_revoked[OF step.hyps(2)] by (simp add: owner_shrinks_def)
    ultimately show ?case by (rule owner_shrinks_trans)
  qed
  moreover from this have "ow_revoked (ac_owners s' ! i)" by (simp add: owner_shrinks_def)
  ultimately show ?thesis using revoked_refused[of "ac_owners s' ! i"] revoked_answer[of "ac_owners s' ! i"]
    by (auto simp: owner_shrinks_def under_way_def check_dispatch_def dispatch_end_def)
qed

section \<open>Two readers and a writer\<close>

text \<open>A call that is not interrupted, up to the critical section that admits it or not.\<close>

abbreviation add_task :: "nat \<Rightarrow> project_key \<Rightarrow> access_mode \<Rightarrow> task_phase \<Rightarrow> access_state \<Rightarrow> access_state" where
  "add_task o' p m ph s \<equiv> s\<lparr>ac_tasks := ac_tasks s @ [\<lparr>ta_owner = o', ta_project = p, ta_mode = m, ta_phase = ph\<rparr>]\<rparr>"

lemma set_phase_added: "set_phase (length (ac_tasks s)) ph' (add_task o' p m ph s) = add_task o' p m ph' s"
  by (simp add: set_phase_def)

lemma call_checked:
  assumes "o' < length (ac_owners s)" "acquire_check h cl self now (ac_owners s ! o') p = Inr d"
    "join_queue cl p m (ac_queue s) = Inr (i, q)"
  shows "(access_step cl self)\<^sup>*\<^sup>* s (add_task o' p m (Checked i False) (with_queue q s))"
proof -
  let ?k = "length (ac_tasks s)" and ?s = "with_queue q s"
  have ready: "owner_ready h now (ac_owners s ! o') p = Inr ()" using assms(2) by (auto simp: acquire_check_def split: if_splits)
  have "access_step cl self s (add_task o' p m Entering s)" by (rule access_step.called[OF assms(1,2)])
  moreover have "access_step cl self (add_task o' p m Entering s) (add_task o' p m (Looping i) ?s)"
    using access_step.queued[of ?k "add_task o' p m Entering s" _ cl i q self] assms(3)
    by (simp add: set_phase_def with_queue_def)
  moreover have "access_step cl self (add_task o' p m (Looping i) ?s) (add_task o' p m (Registered i False) ?s)"
    using access_step.registered[of ?k "add_task o' p m (Looping i) ?s" i cl self] by (simp add: set_phase_def)
  moreover have "access_step cl self (add_task o' p m (Registered i False) ?s) (add_task o' p m (Checked i False) ?s)"
    using access_step.passed[of ?k "add_task o' p m (Registered i False) ?s" _ i False h now cl self] ready by (simp add: set_phase_def)
  ultimately show ?thesis by (meson converse_rtranclp_into_rtranclp rtranclp.rtrancl_refl)
qed

lemma call_parked:
  assumes "o' < length (ac_owners s)" "acquire_check h cl self now (ac_owners s ! o') p = Inr d"
    "join_queue cl p m (ac_queue s) = Inr (i, q)" "try_admit i q = Inr (False, q)"
  shows "(access_step cl self)\<^sup>*\<^sup>* s (add_task o' p m (Parked i False) (with_queue q s))"
proof -
  let ?k = "length (ac_tasks s)" and ?s = "with_queue q s"
  have "access_step cl self (add_task o' p m (Checked i False) ?s) (add_task o' p m (Parked i False) ?s)"
    using access_step.parked[of ?k "add_task o' p m (Checked i False) ?s" i False q cl self] assms(4)
    by (simp add: set_phase_def with_queue_def)
  then show ?thesis using call_checked[OF assms(1-3)] by (rule rtranclp.rtrancl_into_rtrancl[rotated])
qed

abbreviation grant :: "nat \<Rightarrow> project_key \<Rightarrow> access_mode \<Rightarrow> nat \<Rightarrow> queue_state \<Rightarrow> access_state \<Rightarrow> access_state" where
  "grant o' p m i q s \<equiv> add_task o' p m (Returned (Inr i))
     ((with_queue q s)\<lparr>ac_permits := ac_permits s @ [\<lparr>wp_lease = i, wp_owner = o', wp_project = p, wp_mode = m\<rparr>]\<rparr>)"

lemma call_granted:
  assumes "o' < length (ac_owners s)" "acquire_check h cl self now (ac_owners s ! o') p = Inr d"
    "join_queue cl p m (ac_queue s) = Inr (i, q)" "try_admit i q = Inr (True, q')"
  shows "(access_step cl self)\<^sup>*\<^sup>* s (grant o' p m i q' s)"
proof -
  let ?k = "length (ac_tasks s)" and ?s = "with_queue q' s"
  have ready: "owner_ready h now (ac_owners s ! o') p = Inr ()" using assms(2) by (auto simp: acquire_check_def split: if_splits)
  have end_ok: "dispatch_answer now (ac_owners s ! o') (HoldRead (Inr False)) = Inr False" "dispatch_last h p False = Inr ()"
    using ready by (auto simp: dispatch_answer_def dispatch_last_def owner_ready_def)
  have "access_step cl self (add_task o' p m (Checked i False) (with_queue q s)) (add_task o' p m (Admitted i) ?s)"
    using access_step.admitted[of ?k "add_task o' p m (Checked i False) (with_queue q s)" i False q' cl self] assms(4)
    by (simp add: set_phase_def with_queue_def)
  moreover have "access_step cl self (add_task o' p m (Admitted i) ?s) (add_task o' p m (Dispatching i) ?s)"
    using access_step.dispatched[of ?k "add_task o' p m (Admitted i) ?s" _ i h now cl self] ready by (simp add: set_phase_def)
  moreover have "access_step cl self (add_task o' p m (Dispatching i) ?s) (add_task o' p m (Confirmed i False) ?s)"
    using access_step.confirmed[of ?k "add_task o' p m (Dispatching i) ?s" _ i now "HoldRead (Inr False)" False cl self] end_ok(1)
    by (simp add: set_phase_def)
  moreover have "access_step cl self (add_task o' p m (Confirmed i False) ?s) (grant o' p m i q' s)"
    using access_step.granted[of ?k "add_task o' p m (Confirmed i False) ?s" _ i False h cl self] end_ok(2)
    by (simp add: set_phase_def)
  ultimately show ?thesis using call_checked[OF assms(1-3)] by (meson rtranclp.rtrancl_into_rtrancl)
qed

definition sample_limits :: coordinator_limits where
  "sample_limits = \<lparr>cl_queue_capacity = 2, cl_queue_timeout = 10\<rparr>"

definition sample_host :: host where
  "sample_host = \<lparr>ho_uid = 7, ho_canonicalize = Some,
     ho_metadata = (\<lambda>_. Some \<lparr>fm_device = 1, fm_inode = 2, fm_file_or_dir = True\<rparr>), ho_max_instant = 100\<rparr>"

definition sample_key :: project_key where
  "sample_key = \<lparr>pk_version = 1, pk_uid = 7, pk_canonical_path = ''/p'', pk_device = ''1'', pk_inode = ''2''\<rparr>"

definition sample_entry :: "nat \<Rightarrow> access_mode \<Rightarrow> request" where
  "sample_entry i m = \<lparr>re_id = i, re_project = sample_key, re_mode = m\<rparr>"

text \<open>One owner; two readers hold permits; a writer sleeps.\<close>

definition sample_start :: access_state where
  "sample_start = \<lparr>ac_queue = \<lparr>qs_next_id = 0, qs_waiting = [], qs_active = []\<rparr>,
     ac_owners = [\<lparr>ow_coordinator = 0, ow_deadline = 50, ow_revoked = False\<rparr>], ac_tasks = [], ac_permits = [], ac_notifies = 0, ac_borrows = []\<rparr>"

definition sample_reader :: access_state where
  "sample_reader = grant 0 sample_key AccessRead 1
     \<lparr>qs_next_id = 1, qs_waiting = [], qs_active = [sample_entry 1 AccessRead]\<rparr> sample_start"

definition sample_readers :: access_state where
  "sample_readers = grant 0 sample_key AccessRead 2
     \<lparr>qs_next_id = 2, qs_waiting = [], qs_active = [sample_entry 1 AccessRead, sample_entry 2 AccessRead]\<rparr> sample_reader"

definition sample_sleeper :: access_state where
  "sample_sleeper = add_task 0 sample_key AccessMutate (Parked 3 False)
     (with_queue \<lparr>qs_next_id = 3, qs_waiting = [sample_entry 3 AccessMutate],
        qs_active = [sample_entry 1 AccessRead, sample_entry 2 AccessRead]\<rparr> sample_readers)"

lemma sample_ready:
  assumes "ac_owners s = [\<lparr>ow_coordinator = 0, ow_deadline = 50, ow_revoked = False\<rparr>]"
  shows "0 < length (ac_owners s)" "acquire_check sample_host sample_limits 0 1 (ac_owners s ! 0) sample_key = Inr 11"
proof -
  have "acquire_check sample_host sample_limits 0 1 \<lparr>ow_coordinator = 0, ow_deadline = 50, ow_revoked = False\<rparr> sample_key = Inr 11"
    by code_simp
  then show "acquire_check sample_host sample_limits 0 1 (ac_owners s ! 0) sample_key = Inr 11" by (simp only: assms nth_Cons_0)
qed (simp add: assms)

lemmas sample_queue_defs = join_queue_def try_admit_def blocked_def ahead_def conflicts_def reject_alias_collision_def
  same_inode_def sample_entry_def sample_limits_def sample_key_def with_queue_def

lemma sample_start_reachable: "reachable_from (access_init sample_limits) (access_step sample_limits 0) sample_start"
proof (rule reachable_from.start)
  have "new_coordinator sample_host sample_limits 0 = Inr (ac_queue sample_start)" by code_simp
  then show "access_init sample_limits sample_start" by (auto simp: access_init_def sample_start_def)
qed

lemma reachable_run: "reachable_from init step s \<Longrightarrow> step\<^sup>*\<^sup>* s s' \<Longrightarrow> reachable_from init step s'"
  by (rotate_tac, induction rule: rtranclp_induct) (auto intro: reachable_from.next_state)

lemma sample_owners: "ac_owners sample_start = [\<lparr>ow_coordinator = 0, ow_deadline = 50, ow_revoked = False\<rparr>]"
  "ac_owners sample_reader = ac_owners sample_start" "ac_owners sample_readers = ac_owners sample_start"
  by (simp_all add: sample_reader_def sample_readers_def sample_start_def)

lemma sample_first: "(access_step sample_limits 0)\<^sup>*\<^sup>* sample_start sample_reader"
  unfolding sample_reader_def
  by (rule call_granted[OF sample_ready, of _ _ _ "\<lparr>qs_next_id = 1, qs_waiting = [sample_entry 1 AccessRead], qs_active = []\<rparr>"])
    (simp_all add: sample_owners sample_start_def sample_queue_defs)

lemma sample_second: "(access_step sample_limits 0)\<^sup>*\<^sup>* sample_reader sample_readers"
  unfolding sample_readers_def
  by (rule call_granted[OF sample_ready, of _ _ _
        "\<lparr>qs_next_id = 2, qs_waiting = [sample_entry 2 AccessRead], qs_active = [sample_entry 1 AccessRead]\<rparr>"])
    (simp_all add: sample_owners, simp_all add: sample_reader_def sample_queue_defs)

lemma sample_third: "(access_step sample_limits 0)\<^sup>*\<^sup>* sample_readers sample_sleeper"
  unfolding sample_sleeper_def
  by (rule call_parked[OF sample_ready])
    (simp_all add: sample_owners, simp_all add: sample_readers_def sample_queue_defs)

lemma sample_readers_reachable: "reachable_from (access_init sample_limits) (access_step sample_limits 0) sample_readers"
  using reachable_run[OF reachable_run[OF sample_start_reachable sample_first] sample_second] .

lemma sample_sleeper_reachable: "reachable_from (access_init sample_limits) (access_step sample_limits 0) sample_sleeper"
  using reachable_run[OF sample_readers_reachable sample_third] .

theorem coordinator_excludes_writers_witness:
  "wp_mode (ac_permits sample_readers ! 0) = AccessRead \<and> wp_mode (ac_permits sample_readers ! 1) = AccessRead"
  by (rule coordinator_excludes_writers[OF sample_readers_reachable])
    (simp_all add: sample_readers_def sample_reader_def sample_start_def)

text \<open>A reader comes after the writer that waits.\<close>

definition sample_late :: access_state where
  "sample_late = add_task 0 sample_key AccessRead (Parked 4 False)
     (with_queue \<lparr>qs_next_id = 4, qs_waiting = [sample_entry 3 AccessMutate, sample_entry 4 AccessRead],
        qs_active = [sample_entry 1 AccessRead, sample_entry 2 AccessRead]\<rparr> sample_sleeper)"

lemma sample_fourth: "(access_step sample_limits 0)\<^sup>*\<^sup>* sample_sleeper sample_late"
  unfolding sample_late_def
  by (rule call_parked[OF sample_ready])
    (simp_all add: sample_sleeper_def sample_owners, simp_all add: sample_sleeper_def sample_owners sample_queue_defs)

theorem coordinator_is_fifo_witness: "sample_entry 4 AccessRead \<notin> set (qs_active (ac_queue sample_late))"
  by (rule coordinator_is_fifo[OF sample_sleeper_reachable sample_fourth, of "sample_entry 3 AccessMutate"])
    (simp_all add: sample_late_def sample_sleeper_def sample_entry_def conflicts_def)

theorem coordinator_loses_no_wakeup_witness:
  "\<exists>b\<in>set (qs_active (ac_queue sample_sleeper)) \<union> set (qs_waiting (ac_queue sample_sleeper)).
     conflicts b (request_of (ac_tasks sample_sleeper ! 2) 3) \<and> re_id b < 3"
proof -
  have "ac_notifies sample_sleeper = 0" "2 < length (ac_tasks sample_sleeper)" "ta_phase (ac_tasks sample_sleeper ! 2) = Parked 3 False"
    by (simp_all add: sample_sleeper_def sample_readers_def sample_reader_def sample_start_def)
  then show ?thesis using coordinator_loses_no_wakeup[OF sample_sleeper_reachable] by blast
qed

text \<open>A reader whose owner is revoked between the last look at it and the hand-over of the permit.\<close>

definition sample_caught :: access_state where
  "sample_caught = revoke_owner 0 (add_task 0 sample_key AccessRead (Confirmed 3 False)
     (with_queue \<lparr>qs_next_id = 3, qs_waiting = [],
        qs_active = [sample_entry 1 AccessRead, sample_entry 2 AccessRead, sample_entry 3 AccessRead]\<rparr> sample_readers))"

definition sample_served :: access_state where
  "sample_served = set_phase 2 (Returned (Inr 3)) (sample_caught\<lparr>ac_permits := ac_permits sample_caught @
     [\<lparr>wp_lease = 3, wp_owner = 0, wp_project = sample_key, wp_mode = AccessRead\<rparr>]\<rparr>)"

theorem revoked_owner_gets_nothing_witness:
  "length (permits_of 0 sample_served) + length (confirmed_of 0 sample_served) + length (borrows_of 0 sample_served)
     \<le> length (permits_of 0 sample_caught) + length (confirmed_of 0 sample_caught) + length (borrows_of 0 sample_caught)
   \<and> length (permits_of 0 sample_served) = 3 \<and> length (permits_of 0 sample_caught) = 2"
proof -
  have "dispatch_last sample_host sample_key False = Inr ()" by code_simp
  then have "access_step sample_limits 0 sample_caught sample_served"
    using access_step.granted[of 2 sample_caught _ 3 False sample_host sample_limits 0]
    by (simp add: sample_served_def sample_caught_def revoke_owner_def sample_readers_def sample_reader_def sample_start_def)
  then have "(access_step sample_limits 0)\<^sup>*\<^sup>* sample_caught sample_served" ..
  moreover have "0 < length (ac_owners sample_caught)" "ow_revoked (ac_owners sample_caught ! 0)"
    by (simp_all add: sample_caught_def revoke_owner_def sample_owners)
  moreover have "length (permits_of 0 sample_served) = 3" "length (permits_of 0 sample_caught) = 2"
    by (simp_all add: permits_of_def sample_served_def sample_caught_def revoke_owner_def sample_readers_def sample_reader_def sample_start_def)
  ultimately show ?thesis using revoked_owner_gets_nothing[of sample_limits 0 sample_caught sample_served 0] by blast
qed

end
