(* ===== verification/Spec2Isabelle.thy ===== *)
theory Spec2Isabelle
  imports Mcp_Idempotency_Properties Artifact_Store_Properties Selection_Properties Lint_Properties
    Admission_Properties Work_Claim_Properties Work_Advance_Properties Work_Recovery_Properties
    Late_Outputs Run_Continuation_Trace Workspace_Coordinator_Properties
begin

text \<open>
  A verification development of the control plane of Chainworks Forge.

  The control plane (\<^verbatim>\<open>src/control-plane/crates\<close>) is a Rust daemon that drives runs of a workflow: a run goes
  through the states of a plan, a state invokes agents (processes of model providers), agents write
  artifacts, and conditions on the artifacts choose the next state. Everything durable is in one SQLite
  database. The engine crate decides, the db crate owns the tables, the domain crate the vocabulary, the
  workflow crate the plan, and the mcp-server crate gives operators and agents their tools.

  \<^bold>\<open>How the code is modelled.\<close> A table is a list of rows (records), in the order of insertion; a transaction
  of a repository is a function from the tables it touches to a result: \<open>Inl\<close> an error, which rolls back,
  or \<open>Inr\<close> the new tables. \<open>Prelude\<close> has the statements of SQL as functions on lists (\<open>sql_update\<close>,
  \<open>fetch_optional\<close>, sorting, limits), the sum type of results with its \<open>bind\<close>, and the generic
  systems: \<open>codec\<close> (a printer and its parser), \<open>guarded_system\<close> (initial states, steps, an invariant) and
  \<open>row_order\<close> (a table whose rows move in place along an order). Texts are lists of bytes; \<open>Rust_Text\<close> has
  the methods of \<^verbatim>\<open>str\<close> the code uses, slices that panic included, \<open>Rust_Number\<close> the parsing of
  \<^verbatim>\<open>i64\<close> and \<^verbatim>\<open>f64\<close> and the rounding to \<^verbatim>\<open>f64\<close>, \<open>Json\<close> the trees of \<^verbatim>\<open>serde_json\<close>. Instants are
  integers, identifiers texts.

  \<^bold>\<open>Durable side effects.\<close> An external write (a git push, a comment) is an intent in a ledger before it is made.
  \<^item> \<open>Side_Effect_Domain\<close> is \<^verbatim>\<open>domain/src/side_effect.rs\<close>: kinds, statuses, \<open>can_transition_to\<close>, keys.
  \<^item> \<open>Side_Effect_Ledger\<close> is \<^verbatim>\<open>db/src/repos/side_effects.rs\<close>: record \<open>ledger\<close> with effects, attempts and
    settlements, one function per query and compare-and-swap.
  \<^item> \<open>Ledger_Invariant\<close> and \<open>Ledger_Properties\<close> make it a transition system (\<open>ledger_step\<close>): settlements
    and statuses agree, an external write starts at most once, settlement and watchdog have one winner,
    which moves leave \<open>can_transition_to\<close>, and which effects can never be resolved.
  \<^item> \<open>Effect_Coordinator\<close> and \<open>Effect_Watchdog\<close> are \<^verbatim>\<open>engine/src/side_effects.rs\<close> and the verification of
    \<^verbatim>\<open>db/src/evidence_spool.rs\<close>; \<open>Coordinator_Properties\<close> has the preflights (locale \<open>preflight_gate\<close>, interpreted
    for the five gates of the code), the life of a lease and what a pass of the watchdog clears.

  \<^bold>\<open>Commands and tools.\<close> \<open>Command_Journal\<close> is \<^verbatim>\<open>command_journal.rs\<close> and \<^verbatim>\<open>mcp_command_idempotency.rs\<close>,
  \<open>Effect_Tools\<close> is \<^verbatim>\<open>mcp-server/src/tools/effects.rs\<close>, \<open>Mcp_Idempotency\<close> the gate of
  \<^verbatim>\<open>mcp-server/src/server.rs\<close>. \<open>Mcp_Idempotency_Properties\<close>: a key runs its command at most once and replays
  its result, canonical requests ignore the order of members, and the cases where a retried rejection
  is answered as a success.

  \<^bold>\<open>Transitions of a run.\<close>
  \<^item> \<open>Run_Domain\<close> is \<^verbatim>\<open>run.rs\<close>, \<^verbatim>\<open>stage.rs\<close> and \<^verbatim>\<open>engine/src/domain_engine.rs\<close>; \<open>Path_Template\<close>,
    \<open>Workflow_Conflict\<close>, \<open>Transition_Condition\<close> and \<open>Transition_Selection\<close> are the part of
    \<^verbatim>\<open>engine/src/orchestrator.rs\<close> that evaluates the conditions of a state and takes a transition or records a
    conflict, \<open>Transition_Lint\<close> is \<^verbatim>\<open>workflow/src/transition_lint.rs\<close>.
  \<^item> \<open>Condition_Properties\<close> gives a condition its meaning as a tree over five values and its totality,
    \<open>Selection_Properties\<close> shows that one decision is made, that an evaluation enters a state only when
    justified and within its loop budget (operator commands set the state outside of evaluations), \<open>Lint_Properties\<close> relates the lint to the evaluator.

  \<^bold>\<open>Artifacts.\<close> \<open>Contract_Status\<close> is \<^verbatim>\<open>domain/src/artifact_contracts.rs\<close> and \<open>Artifact_Store\<close> is
  \<^verbatim>\<open>db/src/repos/artifact_contracts.rs\<close>: generations, active contracts, source claims, overrides
  (record \<open>artifact_store\<close>). \<open>Artifact_Store_Properties\<close> (\<open>store_step\<close>): the startup repair keeps the truth of a contract,
  overrides stand until their stage. \<open>Late_Outputs\<close> adds the verified imports of the engine and the claims the work queue
  writes (\<open>artifact_step\<close>): late outputs change nothing.

  \<^bold>\<open>Agents: quota, capacity, queue.\<close>
  \<^item> \<open>Quota_Ledger\<close> is \<^verbatim>\<open>agent_retry_budget_ledger.rs\<close>, \<open>Quota_Properties\<close> its refinement of a machine of
    tokens (\<open>quota_step\<close>). \<open>Provider_Capacity\<close> is \<^verbatim>\<open>domain/src/provider.rs\<close> and \<^verbatim>\<open>engine/src/capacity.rs\<close>,
    \<open>Scheduler_Queue\<close> is \<^verbatim>\<open>db/src/repos/scheduler.rs\<close> with the automaton of \<open>Scheduler_Properties\<close>;
    \<open>Agent_Admission\<close> is the admission of \<^verbatim>\<open>engine/src/executor.rs\<close>, which \<open>Admission_Properties\<close> shows to
    admit only below the caps.
  \<^item> \<open>Retry_Authority\<close> is \<^verbatim>\<open>domain/src/retry_authority.rs\<close> and its repository, \<open>Recovery_Matrix\<close> the builders of
    \<^verbatim>\<open>domain/src/recovery_matrix.rs\<close>. \<open>Work_Queue\<close> (enqueue and claim), \<open>Work_Settlement\<close> (settlement,
    advances, cancellations) and \<open>Work_Recovery\<close> (the requeues of the recovery paths) are every transaction
    of \<^verbatim>\<open>db/src/repos/work_items.rs\<close>, on the record \<open>work_db\<close> of items, agent executions, facts, claims,
    authorities and the tables they read.
  \<^item> \<open>Work_Queue_Properties\<close> shows how items, executions, claims and authorities may move in any transaction
    (\<open>queue_moves\<close>, proved per statement and lifted through the loops) and that outcomes are final;
    \<open>Work_Claim_Properties\<close> the order of the claim, \<open>Work_Settlement_Properties\<close> that completions are proved and that
    superseded attempts never settle, \<open>Work_Advance_Properties\<close> that follow-up advances are read back and that the
    cancellation loop is one pass, \<open>Work_Recovery_Properties\<close> what the recovery does instead of what it means.

  \<^bold>\<open>Continuing a blocked run.\<close> \<open>Run_Continuation\<close> is \<^verbatim>\<open>db/src/repos/run_continuations.rs\<close> with its recorded
  commands and inputs and the constraints and triggers of migrations 101 and 102 (record \<open>continuation_db\<close>: operations,
  fences, steps, commands and inputs beside the work items and the journal). \<open>Run_Continuation_Invariant\<close> relates
  fences, phases, steps and claims (\<open>carry_inv\<close>) and keeps it in every transaction. \<open>Run_Continuation_Properties\<close>
  (\<open>carry_step\<close>) shows that a run is continued at most once, that a revoked worker moves nothing forward and that one
  preparation runs at a time; \<open>Run_Continuation_Holds\<close> that only verified material is activated, and the two
  states nothing leads out of, a step of unknown outcome and a lost worker; \<open>Run_Continuation_Trace\<close> runs one
  continuation to its end and another into a restart.

  \<^bold>\<open>Access to workspaces.\<close> \<open>Workspace_Coordinator\<close> is the coordinator of \<^verbatim>\<open>acp/src/xcode_coordinator.rs\<close>: the queue
  with its two critical sections, owners, permits and the notifications between tasks. \<open>Workspace_Coordinator_Invariant\<close> has one
  rule per atomic part of the code, for any number of concurrent calls (\<open>access_step\<close>), and the invariant that relates
  queue, tasks, permits and notifications; \<open>Workspace_Coordinator_Properties\<close> shows that writers are alone, that nobody
  overtakes, that no notification is lost and that a revoked owner gets no permit beyond those under way.

  \<^bold>\<open>Interaction.\<close> The components share tables, so the interaction is the interleaving of their transactions. A
  relation \<open>ledger_step\<close>, \<open>mcp_step\<close>, \<open>store_step\<close>, \<open>artifact_step\<close>, \<open>quota_step\<close>, \<open>authority_step\<close>, \<open>queue_step\<close> or \<open>carry_step\<close>
  has one rule per transaction with arbitrary parameters; \<open>system_step\<close> adds any transaction that leaves the items
  alone, \<open>engine_step\<close> the recorded ends of other executions and any transaction that keeps ended executions, and \<open>lease_life\<close>
  puts the steps of other writers between those of the holder of a lease. \<open>quota_wait_readers_agree\<close> relates two
  readers of the same table.

  \<^bold>\<open>Loops.\<close> Loops over fetched rows are folds (\<open>for_rows\<close>). The loop of the claim terminates because its
  cursor only moves forward over finitely many rows; the reader of conditions and the one of the lint terminate by the
  length of the text. The expansion of path templates may run for ever and is a \<open>partial_function\<close>: that
  it returns, and when it does not, are theorems. No model has fuel.

  \<^bold>\<open>Parameters.\<close> Code outside the repository is an argument: SHA-256, the parser and printer of JSON,
  the printer of instants and the parser of identifiers, the file system and the process environment. Inside the
  repository but not translated: the guard triggers of the carry-forward migration (\<open>qw_fenced\<close>, whether
  an update of an item is denied: the claim passes over such items, any other transaction is aborted and changes
  nothing, so the rest of the queue is modelled without them), the summary of self-assessments, the carry-forward check of a
  transition, and for continuations the query that finds work still owning a run and the witness of a source. The checks of
  a JSON column are \<open>kw_json_valid\<close>, and an instant that a function reads a second time is a second argument (\<open>qw_later\<close>,
  \<open>load_now\<close>). The hypotheses on them are \<open>fence_reads_resources\<close> (a denial reads of the items their run, payload
  and worktree, as the views of the migration do) and
  \<open>notes_survive\<close> (a recorded note is parsed back); their theorems have witnesses with concrete functions.

  \<^bold>\<open>Not modelled.\<close> The executor apart from admission (provider processes, git, Xcode), the orchestrator apart from
  transitions, the command handler apart from the retry budget, the repositories of other tables (among them
  \<^verbatim>\<open>engine/src/recovery.rs\<close>, which also writes items; its end of the authorities of a cancelled run is modelled), the compiler of the workflow crate (a plan is an input of the models; of the crate only the lint is
  translated), the ACP client apart from the workspace coordinator (its journal authority, lock files on disk, included), the GraphQL
  server, the daemon and the Swift application: I/O, process management, projections, or long transactions over
  tables outside the model. Foreign keys, metrics, logs and notifications without a reader have no counterpart.
\<close>

end
